(* ===== verification/Prelude.thy ===== *)
theory Prelude
  imports Main "HOL-Library.List_Lexorder" "HOL-Library.Product_Lexorder"
begin

text \<open>
  Shared ground of the development: time stamps, Python strings as lists of code points, tables
  of rows addressed by a primary key (the SQLAlchemy session operations the stores use), the
  collections of simplification rules, and the generic transition system whose invariants every
  stateful component instantiates.
\<close>

named_theorems rowsimps \<open>reading a table after it was updated\<close>
named_theorems opdefs \<open>definitions of the operations of a store\<close>
named_theorems preserves \<open>an operation keeps an invariant\<close>

section \<open>Results and time\<close>

text \<open>An operation on a store returns a value or raises, and leaves a store behind. A transaction
  that raises is rolled back: it returns the store it was given.\<close>

type_synonym ('e, 'a) result = "'e + 'a"
type_synonym ('s, 'e, 'a) outcome = "('e, 'a) result \<times> 's"

text \<open>Instants are microseconds since the epoch, in UTC, the resolution of Python's
  \<open>datetime\<close>.\<close>

type_synonym time = int

definition seconds :: "int \<Rightarrow> time" where
  "seconds n = 1000000 * n"

lemma seconds_le_iff [simp]: "seconds m \<le> seconds n \<longleftrightarrow> m \<le> n"
  by (simp add: seconds_def)

lemma seconds_eq_iff [simp]: "seconds m = seconds n \<longleftrightarrow> m = n"
  by (simp add: seconds_def)

lemma seconds_pos_iff [simp]: "0 < seconds n \<longleftrightarrow> 0 < n"
  by (simp add: seconds_def)

lemma seconds_nonneg_iff [simp]: "0 \<le> seconds n \<longleftrightarrow> 0 \<le> n"
  by (simp add: seconds_def)

section \<open>Python strings\<close>

text \<open>A Python \<open>str\<close> is its sequence of code points; \<open>u ''abc''\<close> is an ASCII literal.\<close>

type_synonym pystr = "nat list"

definition u :: "string \<Rightarrow> pystr" where
  "u s = map of_char s"

lemma u_inject [simp]: "u s = u t \<longleftrightarrow> s = t"
  unfolding u_def by (rule inj_map_eq_map) (simp add: inj_on_def)

lemma u_Nil [simp]: "u [] = []"
  by (simp add: u_def)

lemma u_eq_Nil [simp]: "u s = [] \<longleftrightarrow> s = []" "[] = u s \<longleftrightarrow> s = []"
  by (auto simp: u_def)

lemma length_u [simp]: "length (u s) = length s"
  by (simp add: u_def)

section \<open>Tables\<close>

text \<open>
  A table is the list of its rows. \<open>row_get\<close> is \<open>db.get(Table, key)\<close>, \<open>row_upd\<close> is the
  assignment to attributes of the row with that key, \<open>rows_where\<close> is
  \<open>UPDATE ... SET ... WHERE\<close>, \<open>row_del\<close> is \<open>db.delete(row)\<close>; inserting is appending.
\<close>

definition row_get :: "('r \<Rightarrow> 'k) \<Rightarrow> 'k \<Rightarrow> 'r list \<Rightarrow> 'r option" where
  "row_get pk k rows = find (\<lambda>r. pk r = k) rows"

definition row_upd :: "('r \<Rightarrow> 'k) \<Rightarrow> 'k \<Rightarrow> ('r \<Rightarrow> 'r) \<Rightarrow> 'r list \<Rightarrow> 'r list" where
  "row_upd pk k f rows = map (\<lambda>r. if pk r = k then f r else r) rows"

definition rows_where :: "('r \<Rightarrow> bool) \<Rightarrow> ('r \<Rightarrow> 'r) \<Rightarrow> 'r list \<Rightarrow> 'r list" where
  "rows_where P f rows = map (\<lambda>r. if P r then f r else r) rows"

definition row_del :: "('r \<Rightarrow> 'k) \<Rightarrow> 'k \<Rightarrow> 'r list \<Rightarrow> 'r list" where
  "row_del pk k rows = filter (\<lambda>r. pk r \<noteq> k) rows"

lemma row_get_Nil [simp]: "row_get pk k [] = None"
  by (simp add: row_get_def)

lemma row_get_Cons: "row_get pk k (r # rs) = (if pk r = k then Some r else row_get pk k rs)"
  by (simp add: row_get_def)

lemma row_get_SomeD:
  assumes "row_get pk k rows = Some r"
  shows "r \<in> set rows" and "pk r = k"
  using assms by (auto simp: row_get_def find_Some_iff)

lemma row_get_None_iff: "row_get pk k rows = None \<longleftrightarrow> k \<notin> pk ` set rows"
  by (auto simp: row_get_def find_None_iff)

lemma row_get_distinct:
  assumes "distinct (map pk rows)" and "r \<in> set rows"
  shows "row_get pk (pk r) rows = Some r"
  using assms by (induction rows) (auto simp: row_get_Cons)

lemma row_get_row_upd [rowsimps]:
  assumes "\<And>r. pk r = k \<Longrightarrow> pk (f r) = k"
  shows "row_get pk k' (row_upd pk k f rows) =
    (if k' = k then map_option f (row_get pk k rows) else row_get pk k' rows)"
  using assms by (induction rows) (auto simp: row_upd_def row_get_Cons)

lemma row_get_rows_where [rowsimps]:
  assumes "\<And>r. pk (f r) = pk r"
  shows "row_get pk k (rows_where P f rows) =
    map_option (\<lambda>r. if P r then f r else r) (row_get pk k rows)"
  using assms by (induction rows) (auto simp: rows_where_def row_get_Cons)

lemma row_get_append [rowsimps]:
  "row_get pk k (rows @ [r]) =
    (case row_get pk k rows of Some x \<Rightarrow> Some x | None \<Rightarrow> if pk r = k then Some r else None)"
  by (induction rows) (auto simp: row_get_Cons)

lemma row_get_row_del [rowsimps]:
  "row_get pk k' (row_del pk k rows) = (if k' = k then None else row_get pk k' rows)"
  by (induction rows) (auto simp: row_del_def row_get_Cons)

lemma keys_row_upd [simp]:
  assumes "\<And>r. pk (f r) = pk r"
  shows "map pk (row_upd pk k f rows) = map pk rows"
  using assms by (simp add: row_upd_def)

lemma keys_rows_where [simp]:
  assumes "\<And>r. pk (f r) = pk r"
  shows "map pk (rows_where P f rows) = map pk rows"
  using assms by (simp add: rows_where_def)

lemma distinct_keys_row_del [intro]:
  "distinct (map pk rows) \<Longrightarrow> distinct (map pk (row_del pk k rows))"
  by (simp add: row_del_def distinct_map_filter)

lemma set_row_upd: "set (row_upd pk k f rows) = (\<lambda>r. if pk r = k then f r else r) ` set rows"
  by (simp add: row_upd_def)

lemma set_rows_where: "set (rows_where P f rows) = (\<lambda>r. if P r then f r else r) ` set rows"
  by (simp add: rows_where_def)

lemma set_row_del: "set (row_del pk k rows) = {r \<in> set rows. pk r \<noteq> k}"
  by (auto simp: row_del_def)

lemma length_row_upd [simp]: "length (row_upd pk k f rows) = length rows"
  by (simp add: row_upd_def)

lemma length_rows_where [simp]: "length (rows_where P f rows) = length rows"
  by (simp add: rows_where_def)

lemmas set_rows = set_row_upd set_rows_where set_row_del

section \<open>Transition systems\<close>

text \<open>
  A store with the operations a client may run on it, and a property of its rows that every
  operation keeps. \<open>evolves\<close> is any sequence of operations; a stateful component interprets
  \<open>guarded_machine\<close> with its own operations and invariant, and \<open>ordered_machine\<close> where its
  operations also move its state forward in a preorder.
\<close>

locale guarded_machine =
  fixes exec :: "'op \<Rightarrow> 's \<Rightarrow> 's"
    and inv :: "'s \<Rightarrow> bool"
  assumes exec_inv: "inv s \<Longrightarrow> inv (exec a s)"
begin

lemma run_inv: "inv s \<Longrightarrow> inv (fold exec ops s)"
  by (induction ops arbitrary: s) (auto intro: exec_inv)

end

locale ordered_machine = guarded_machine exec inv
  for exec :: "'op \<Rightarrow> 's \<Rightarrow> 's" and inv :: "'s \<Rightarrow> bool" +
  fixes below :: "'s \<Rightarrow> 's \<Rightarrow> bool"
  assumes below_refl: "below s s"
    and below_trans: "below s t \<Longrightarrow> below t w \<Longrightarrow> below s w"
    and exec_below: "inv s \<Longrightarrow> below s (exec a s)"
begin

lemma run_below: "inv s \<Longrightarrow> below s (fold exec ops s)"
proof (induction ops arbitrary: s)
  case Nil
  show ?case by (simp add: below_refl)
next
  case (Cons a ops)
  have "below (exec a s) (fold exec ops (exec a s))"
    by (rule Cons.IH) (rule exec_inv [OF Cons.prems])
  with exec_below [OF Cons.prems] show ?case
    by (auto intro: below_trans)
qed

end

text \<open>
  Tokens that work once: \<open>issued\<close> says that a token has been given out, \<open>armed\<close> that it can still
  be used. A component whose operations never arm an issued token again interprets \<open>one_shot\<close>, and
  gets that a token once used stays used, whatever the \<open>allowed\<close> operations do later.
\<close>

locale one_shot = guarded_machine exec inv
  for exec :: "'op \<Rightarrow> 's \<Rightarrow> 's" and inv :: "'s \<Rightarrow> bool" +
  fixes allowed :: "'op \<Rightarrow> bool"
    and issued :: "'s \<Rightarrow> 't \<Rightarrow> bool"
    and armed :: "'s \<Rightarrow> 't \<Rightarrow> bool"
  assumes issued_stays: "inv s \<Longrightarrow> allowed a \<Longrightarrow> issued s t \<Longrightarrow> issued (exec a s) t"
    and spent_stays: "inv s \<Longrightarrow> allowed a \<Longrightarrow> issued s t \<Longrightarrow> \<not> armed s t \<Longrightarrow> \<not> armed (exec a s) t"
begin

lemma spent_run:
  assumes "inv s" and "list_all allowed ops" and "issued s t" and "\<not> armed s t"
  shows "\<not> armed (fold exec ops s) t"
  using assms
proof (induction ops arbitrary: s)
  case (Cons a ops)
  then show ?case
    using Cons.IH [of "exec a s"] by (simp add: exec_inv issued_stays spent_stays)
qed simp

end

end
