(* ===== verification/Python_Text.thy ===== *)
theory Python_Text
  imports Prelude
begin

text \<open>
  The Python string operations the Relay code uses, on code points: \<open>str.strip\<close>,
  \<open>str.partition\<close>, the Unicode categories \<open>Cc\<close>, \<open>Zl\<close> and \<open>Zp\<close> (their members are fixed by
  the Unicode stability policy), lower-casing of ASCII, hexadecimal patterns, and decimal
  rendering of integers. The render checks of \<open>storage/sqlite_relay.py\<close> close the theory.
\<close>

section \<open>Character classes\<close>

definition cat_Cc :: "nat \<Rightarrow> bool" where
  "cat_Cc c \<longleftrightarrow> c \<le> 31 \<or> (127 \<le> c \<and> c \<le> 159)"

definition cat_Zl :: "nat \<Rightarrow> bool" where
  "cat_Zl c \<longleftrightarrow> c = 8232"

definition cat_Zp :: "nat \<Rightarrow> bool" where
  "cat_Zp c \<longleftrightarrow> c = 8233"

text \<open>\<open>str.isspace\<close> of one character, as \<open>str.strip\<close> uses it.\<close>

definition py_isspace :: "nat \<Rightarrow> bool" where
  "py_isspace c \<longleftrightarrow> (9 \<le> c \<and> c \<le> 13) \<or> (28 \<le> c \<and> c \<le> 32) \<or> c = 133 \<or> c = 160 \<or> c = 5760
     \<or> (8192 \<le> c \<and> c \<le> 8202) \<or> c = 8232 \<or> c = 8233 \<or> c = 8239 \<or> c = 8287 \<or> c = 12288"

definition strip :: "pystr \<Rightarrow> pystr" where
  "strip s = rev (dropWhile py_isspace (rev (dropWhile py_isspace s)))"

definition is_digit :: "nat \<Rightarrow> bool" where
  "is_digit c \<longleftrightarrow> 48 \<le> c \<and> c \<le> 57"

definition is_lower :: "nat \<Rightarrow> bool" where
  "is_lower c \<longleftrightarrow> 97 \<le> c \<and> c \<le> 122"

definition is_hex :: "nat \<Rightarrow> bool" where
  "is_hex c \<longleftrightarrow> is_digit c \<or> (97 \<le> c \<and> c \<le> 102)"

text \<open>Lower-casing of one code point as far as the result can be ASCII: \<open>A\<close> to \<open>Z\<close>, and the
  Kelvin sign (U+212A), whose lower case is \<open>k\<close>.\<close>

definition lower_char :: "nat \<Rightarrow> nat" where
  "lower_char c = (if 65 \<le> c \<and> c \<le> 90 then c + 32 else if c = 8490 then 107 else c)"

definition lower_ascii :: "pystr \<Rightarrow> pystr" where
  "lower_ascii = map lower_char"

lemma lower_ascii_idem [simp]: "lower_ascii (lower_ascii s) = lower_ascii s"
  by (auto simp: lower_ascii_def lower_char_def)

lemma length_lower_ascii [simp]: "length (lower_ascii s) = length s"
  by (simp add: lower_ascii_def)

text \<open>A fixed prefix followed by exactly \<open>n\<close> lower-case hexadecimal digits: what
  \<open>re.fullmatch("prefix[0-9a-f]{n}", s)\<close> accepts.\<close>

definition hex_suffixed :: "pystr \<Rightarrow> nat \<Rightarrow> pystr \<Rightarrow> bool" where
  "hex_suffixed p n s \<longleftrightarrow>
     length s = length p + n \<and> take (length p) s = p \<and> list_all is_hex (drop (length p) s)"

lemma hex_suffixed_iff: "hex_suffixed p n s \<longleftrightarrow> (\<exists>h. s = p @ h \<and> length h = n \<and> list_all is_hex h)"
proof
  assume "hex_suffixed p n s"
  then have "s = p @ drop (length p) s" "length (drop (length p) s) = n"
    "list_all is_hex (drop (length p) s)"
    by (auto simp: hex_suffixed_def) (metis append_take_drop_id)
  then show "\<exists>h. s = p @ h \<and> length h = n \<and> list_all is_hex h" by blast
qed (auto simp: hex_suffixed_def)

text \<open>\<open>sep.join(texts)\<close>.\<close>

fun join_texts :: "pystr \<Rightarrow> pystr list \<Rightarrow> pystr" where
  "join_texts sep [] = []"
| "join_texts sep [t] = t"
| "join_texts sep (t # ts) = t @ sep @ join_texts sep ts"

text \<open>\<open>str.partition\<close> at the first occurrence of a one-character separator: the part before,
  whether the separator occurs, the part after.\<close>

fun partition_at :: "nat \<Rightarrow> pystr \<Rightarrow> pystr \<times> bool \<times> pystr" where
  "partition_at c [] = ([], False, [])"
| "partition_at c (x # xs) =
     (if x = c then ([], True, xs)
      else case partition_at c xs of (a, found, b) \<Rightarrow> (x # a, found, b))"

lemma partition_at_found:
  "partition_at c s = (a, True, b) \<Longrightarrow> s = a @ c # b \<and> c \<notin> set a"
  by (induction s arbitrary: a) (auto split: if_splits prod.splits)

lemma partition_at_missing:
  "partition_at c s = (a, False, b) \<Longrightarrow> a = s \<and> b = [] \<and> c \<notin> set s"
  by (induction s arbitrary: a) (auto split: if_splits prod.splits)

lemma partition_at_append [simp]: "c \<notin> set a \<Longrightarrow> partition_at c (a @ c # b) = (a, True, b)"
  by (induction a) auto

section \<open>Decimal rendering\<close>

fun dec_digits :: "nat \<Rightarrow> pystr" where
  "dec_digits n = (if n < 10 then [48 + n] else dec_digits (n div 10) @ [48 + n mod 10])"

declare dec_digits.simps [simp del]

definition dec :: "int \<Rightarrow> pystr" where
  "dec i = (if i < 0 then 45 # dec_digits (nat (- i)) else dec_digits (nat i))"

section \<open>Render checks\<close>

definition render_safe_char :: "nat \<Rightarrow> bool" where
  "render_safe_char c \<longleftrightarrow> \<not> ((cat_Cc c \<and> c \<notin> {10, 13, 9}) \<or> cat_Zl c \<or> cat_Zp c)"

definition render_safe :: "pystr \<Rightarrow> bool" where
  "render_safe value = list_all render_safe_char value"

definition single_line_render_safe :: "pystr \<Rightarrow> bool" where
  "single_line_render_safe value = list_all (\<lambda>c. \<not> (cat_Cc c \<or> cat_Zl c \<or> cat_Zp c)) value"

lemma render_safe_append [simp]: "render_safe (a @ b) \<longleftrightarrow> render_safe a \<and> render_safe b"
  by (simp add: render_safe_def)

lemma single_line_is_render_safe: "single_line_render_safe v \<Longrightarrow> render_safe v"
  by (auto simp: single_line_render_safe_def render_safe_def list_all_iff render_safe_char_def)

lemma single_line_no_newline: "single_line_render_safe v \<Longrightarrow> 10 \<notin> set v"
  by (auto simp: single_line_render_safe_def list_all_iff cat_Cc_def)

end
