(* ===== verification/Relay_Schema.thy ===== *)
theory Relay_Schema
  imports Python_Text
begin

text \<open>
  The Relay tables of \<open>storage/sqlite_schema.py\<close>: one record per row class, one field per
  column, and the database as one record holding the tables. Foreign keys are plain columns, as
  in the schema. The state columns hold only the strings the code writes, given as
  constructors; integer flags stay integers.
\<close>

section \<open>Errors\<close>

text \<open>The exception classes of \<open>core/relay.py\<close> with their messages, \<open>ValueError\<close>,
  \<open>OverflowError\<close>, \<open>IntegrityError\<close> for an insert that breaks a key of the schema,
  \<open>TypeError\<close> and \<open>AttributeError\<close>.\<close>

datatype relay_error =
    RelayNotFoundError string
  | RelayConflictError string
  | RelayUnavailableError string
  | ValueError pystr
  | OverflowError
  | IntegrityError
  | TypeError
  | AttributeError

section \<open>Rows\<close>

datatype session_state = Active | Unreachable | Closed

datatype delivery_state = Pending | Claimed | Delivered | Expired | Suppressed

record relay_session =
  s_id :: pystr
  s_runtime :: pystr
  s_session_ref :: pystr
  s_container_ref :: pystr
  s_title :: "pystr option"
  s_alias :: "pystr option"
  s_state :: session_state
  s_first_seen_at :: time
  s_last_seen_at :: time
  s_closed_at :: "time option"
  s_trial_enrolled :: int

datatype origin = Structural | Explicit

record relay_work_ref =
  w_endpoint_id :: pystr
  w_work_ref :: pystr
  w_origin :: origin
  w_scope_ref :: pystr
  w_local_ref :: pystr
  w_position :: "nat option"
  w_created_at :: time
  w_updated_at :: time

record relay_message =
  m_id :: pystr
  m_sender_runtime :: pystr
  m_sender_session_ref :: pystr
  m_sender_endpoint_id :: "pystr option"
  m_recipient_selector :: pystr
  m_container_ref :: pystr
  m_payload :: pystr
  m_redacted :: int
  m_in_reply_to :: "pystr option"
  m_created_at :: time
  m_expires_at :: time

record relay_delivery =
  d_id :: pystr
  d_message_id :: pystr
  d_recipient_runtime :: pystr
  d_recipient_session_ref :: pystr
  d_recipient_endpoint_id :: "pystr option"
  d_recipient_container_ref :: "pystr option"
  d_state :: delivery_state
  d_claim_token :: "pystr option"
  d_claimed_at :: "time option"
  d_lease_expires_at :: "time option"
  d_delivered_at :: "time option"
  d_attempts :: int
  d_trace_version :: "int option"
  d_trace_truncated :: int
  d_trace_pruned :: int
  d_codex_wake_generation :: "int option"

record relay_trace =
  tr_id :: pystr
  tr_sequence :: int
  tr_attempt_id :: pystr
  tr_delivery_id :: pystr
  tr_message_id :: pystr
  tr_stage :: pystr
  tr_outcome :: "pystr option"
  tr_reason :: "pystr option"
  tr_evidence :: "pystr list option"
  tr_native_retry_safe :: "int option"
  tr_destination_health_update :: "pystr option"
  tr_scope_generation :: "int option"
  tr_recorded_at :: time

record relay_generation =
  g_endpoint_id :: pystr
  g_generation :: int

record relay_alias =
  a_alias :: pystr
  a_endpoint_id :: "pystr option"

record opencode_wake =
  o_endpoint_id :: pystr
  o_scope_generation :: int
  o_native_location :: pystr
  o_owner_id :: "pystr option"
  o_owner_expires_at :: time
  o_generation :: int
  o_delivery_id :: "pystr option"
  o_admitted :: int
  o_terminal :: int
  o_claim_attempts :: "int option"
  o_payload_chars :: "nat option"
  o_failures :: int
  o_retry_not_before :: "time option"

record codex_trial =
  t_recipient_endpoint_id :: pystr
  t_trial_id :: pystr
  t_session_ref :: pystr
  t_container_ref :: pystr
  t_scope_generation :: int
  t_delivery_id :: "pystr option"
  t_spent :: int

datatype wake_outcome = Prepared | Reserved | Accepted | Uncertain

record codex_reservation =
  r_recipient_endpoint_id :: pystr
  r_delivery_id :: pystr
  r_session_ref :: pystr
  r_container_ref :: pystr
  r_generation :: int
  r_outcome :: wake_outcome
  r_correlated_claim_attempts :: "int option"
  r_retry_not_before :: "time option"

section \<open>The database\<close>

text \<open>\<open>db_trace_sequence\<close> is the autoincrement counter of the trace table, which never goes
  back. \<open>db_wake_marker\<close> is the \<open>relay_codex_wake_state\<close> table, which holds at most the row with
  identifier 1: its generation. The work reference table is keyed by endpoint, key and origin.\<close>

record relay_db =
  db_sessions :: "relay_session list"
  db_work_refs :: "relay_work_ref list"
  db_messages :: "relay_message list"
  db_deliveries :: "relay_delivery list"
  db_traces :: "relay_trace list"
  db_trace_sequence :: int
  db_generations :: "relay_generation list"
  db_aliases :: "relay_alias list"
  db_opencode :: "opencode_wake list"
  db_trials :: "codex_trial list"
  db_reservations :: "codex_reservation list"
  db_wake_marker :: "int option"

definition empty_db :: relay_db where
  "empty_db = \<lparr>db_sessions = [], db_work_refs = [], db_messages = [], db_deliveries = [],
     db_traces = [], db_trace_sequence = 0, db_generations = [], db_aliases = [], db_opencode = [], db_trials = [],
     db_reservations = [], db_wake_marker = None\<rparr>"

text \<open>The outcome of one Relay transaction.\<close>

type_synonym 'a relay_outcome = "(relay_db, relay_error, 'a) outcome"

section \<open>Row access\<close>

abbreviation get_session :: "relay_db \<Rightarrow> pystr \<Rightarrow> relay_session option" where
  "get_session db k \<equiv> row_get s_id k (db_sessions db)"

abbreviation get_message :: "relay_db \<Rightarrow> pystr \<Rightarrow> relay_message option" where
  "get_message db k \<equiv> row_get m_id k (db_messages db)"

abbreviation get_delivery :: "relay_db \<Rightarrow> pystr \<Rightarrow> relay_delivery option" where
  "get_delivery db k \<equiv> row_get d_id k (db_deliveries db)"

abbreviation get_generation :: "relay_db \<Rightarrow> pystr \<Rightarrow> relay_generation option" where
  "get_generation db k \<equiv> row_get g_endpoint_id k (db_generations db)"

abbreviation get_alias :: "relay_db \<Rightarrow> pystr \<Rightarrow> relay_alias option" where
  "get_alias db k \<equiv> row_get a_alias k (db_aliases db)"

abbreviation get_opencode :: "relay_db \<Rightarrow> pystr \<Rightarrow> opencode_wake option" where
  "get_opencode db k \<equiv> row_get o_endpoint_id k (db_opencode db)"

abbreviation get_trial :: "relay_db \<Rightarrow> pystr \<Rightarrow> codex_trial option" where
  "get_trial db k \<equiv> row_get t_recipient_endpoint_id k (db_trials db)"

abbreviation get_reservation :: "relay_db \<Rightarrow> pystr \<Rightarrow> codex_reservation option" where
  "get_reservation db k \<equiv> row_get r_recipient_endpoint_id k (db_reservations db)"

definition upd_session :: "pystr \<Rightarrow> (relay_session \<Rightarrow> relay_session) \<Rightarrow> relay_db \<Rightarrow> relay_db" where
  [opdefs]: "upd_session k f db = db\<lparr>db_sessions := row_upd s_id k f (db_sessions db)\<rparr>"

definition upd_delivery :: "pystr \<Rightarrow> (relay_delivery \<Rightarrow> relay_delivery) \<Rightarrow> relay_db \<Rightarrow> relay_db" where
  [opdefs]: "upd_delivery k f db = db\<lparr>db_deliveries := row_upd d_id k f (db_deliveries db)\<rparr>"

definition upd_opencode :: "pystr \<Rightarrow> (opencode_wake \<Rightarrow> opencode_wake) \<Rightarrow> relay_db \<Rightarrow> relay_db" where
  [opdefs]: "upd_opencode k f db = db\<lparr>db_opencode := row_upd o_endpoint_id k f (db_opencode db)\<rparr>"

definition scope_generation_of :: "relay_db \<Rightarrow> pystr \<Rightarrow> int" where
  "scope_generation_of db k = (case get_generation db k of Some g \<Rightarrow> g_generation g | None \<Rightarrow> 0)"

section \<open>The keys of the schema\<close>

text \<open>The primary keys and the unique constraints of the schema, and the references the code
  keeps between tables: every delivery belongs to a stored message.\<close>

definition delivery_recipient :: "relay_delivery \<Rightarrow> pystr \<times> pystr \<times> pystr" where
  "delivery_recipient d = (d_message_id d, d_recipient_runtime d, d_recipient_session_ref d)"

definition session_scope :: "relay_session \<Rightarrow> pystr \<times> pystr \<times> pystr" where
  "session_scope s = (s_container_ref s, s_runtime s, s_session_ref s)"

end
