(* ===== verification/Relay_Views.thy ===== *)
theory Relay_Views
  imports Relay_Schema
begin

text \<open>
  The module-level helpers of \<open>storage/sqlite_relay.py\<close>: expiry arithmetic, the views of sessions,
  work references and deliveries that the operations return, paging of payloads, receipts, and
  the text a delivery is rendered to. A view carries instants where the code formats them;
  \<open>fmt\<close> stands for \<open>datetime.isoformat\<close> where the formatted text matters, and \<open>H\<close> for the
  hexadecimal SHA-256 digest of the standard library.
\<close>

section \<open>Expiry\<close>

text \<open>\<open>datetime.max\<close> in UTC, the sentinel of messages that never expire.\<close>

definition durable_expiry :: time where
  "durable_expiry = 253402300799999999"

definition expiry_at :: "time \<Rightarrow> int option \<Rightarrow> (relay_error, time) result" where
  "expiry_at current expires_in_seconds =
     (case expires_in_seconds of
        None \<Rightarrow> Inr durable_expiry
      | Some n \<Rightarrow>
          if current + seconds n > durable_expiry then Inl OverflowError
          else Inr (current + seconds n))"

definition expiry_matches :: "relay_message \<Rightarrow> int option \<Rightarrow> bool" where
  "expiry_matches message expires_in_seconds =
     (case expires_in_seconds of
        None \<Rightarrow> m_expires_at message = durable_expiry
      | Some n \<Rightarrow> m_expires_at message - m_created_at message = seconds n)"

definition expiry_iso :: "time \<Rightarrow> time option" where
  "expiry_iso value = (if value = durable_expiry then None else Some value)"

lemma expiry_at_bounded:
  "expiry_at current e = Inr t \<Longrightarrow> t \<le> durable_expiry"
  by (auto simp: expiry_at_def split: option.splits if_splits)

lemma expiry_at_later:
  "expiry_at current (Some n) = Inr t \<Longrightarrow> 0 < n \<Longrightarrow> current < t"
  by (auto simp: expiry_at_def split: if_splits)

lemma expiry_at_matches:
  assumes "expiry_at (m_created_at m) e = Inr (m_expires_at m)"
  shows "expiry_matches m e"
  using assms by (auto simp: expiry_at_def expiry_matches_def split: option.splits if_splits)

section \<open>Sessions and work references\<close>

datatype lifecycle = LClosed | Recent | Dormant

record session_view =
  v_endpoint_id :: pystr
  v_runtime :: pystr
  v_session_ref :: pystr
  v_container_ref :: pystr
  v_title :: "pystr option"
  v_alias :: "pystr option"
  v_lifecycle :: lifecycle
  v_destination_health :: "session_state option"
  v_first_seen_at :: time
  v_last_seen_at :: time
  v_closed_at :: "time option"
  v_scope_generation :: int

definition session_view :: "relay_session \<Rightarrow> time \<Rightarrow> int \<Rightarrow> int \<Rightarrow> session_view" where
  "session_view row now recent_seconds scope_generation =
     \<lparr>v_endpoint_id = s_id row, v_runtime = s_runtime row, v_session_ref = s_session_ref row,
      v_container_ref = s_container_ref row, v_title = s_title row, v_alias = s_alias row,
      v_lifecycle =
        (if s_state row = Closed then LClosed
         else if s_last_seen_at row \<ge> now - seconds recent_seconds then Recent else Dormant),
      v_destination_health = (if s_state row = Closed then None else Some (s_state row)),
      v_first_seen_at = s_first_seen_at row, v_last_seen_at = s_last_seen_at row,
      v_closed_at = s_closed_at row, v_scope_generation = scope_generation\<rparr>"

record work_ref_view =
  wv_work_ref :: pystr
  wv_scope_ref :: pystr
  wv_local_ref :: pystr
  wv_origin :: origin
  wv_position :: "nat option"
  wv_created_at :: time
  wv_updated_at :: time

definition work_ref_view :: "relay_work_ref \<Rightarrow> work_ref_view" where
  "work_ref_view row =
     \<lparr>wv_work_ref = w_work_ref row, wv_scope_ref = w_scope_ref row, wv_local_ref = w_local_ref row,
      wv_origin = w_origin row, wv_position = w_position row, wv_created_at = w_created_at row,
      wv_updated_at = w_updated_at row\<rparr>"

section \<open>Payload pages\<close>

record payload_page =
  p_payload :: pystr
  p_offset :: nat
  p_total_chars :: nat
  p_content_truncated :: bool
  p_next_offset :: "nat option"

text \<open>\<open>payload_page_at\<close> is the page itself, \<open>payload_view\<close> the helper with its range check.\<close>

definition payload_page_at :: "pystr \<Rightarrow> nat \<Rightarrow> nat option \<Rightarrow> payload_page" where
  "payload_page_at payload offset limit =
     (let total = length payload;
          stop = (case limit of None \<Rightarrow> total | Some n \<Rightarrow> min total (offset + n));
          next_offset = (if stop < total then Some stop else None)
      in \<lparr>p_payload = drop offset (take stop payload), p_offset = offset, p_total_chars = total,
          p_content_truncated = (offset \<noteq> 0 \<or> next_offset \<noteq> None),
          p_next_offset = next_offset\<rparr>)"

definition payload_view :: "pystr \<Rightarrow> nat \<Rightarrow> nat option \<Rightarrow> (relay_error, payload_page) result" where
  "payload_view payload offset limit =
     (if offset > length payload then Inl (ValueError (u ''offset exceeds payload length''))
      else Inr (payload_page_at payload offset limit))"

text \<open>Reading page after page, from the offset the last page named, as a client does with
  \<open>next_offset\<close>. A page size of zero would never advance; the service refuses it.\<close>

function read_pages :: "pystr \<Rightarrow> nat \<Rightarrow> nat \<Rightarrow> pystr" where
  "read_pages payload psize offset =
     (let page = payload_page_at payload offset (Some psize)
      in p_payload page @
         (case p_next_offset page of
            None \<Rightarrow> []
          | Some n \<Rightarrow> if 0 < psize then read_pages payload psize n else []))"
  by pat_completeness auto
termination
  by (relation "measure (\<lambda>(payload, psize, offset). length payload - offset)")
    (auto simp: payload_page_at_def Let_def split: if_splits)

declare read_pages.simps [simp del]

lemma page_length:
  "length (p_payload (payload_page_at payload offset (Some n))) \<le> n"
  by (simp add: payload_page_at_def Let_def)

lemma page_whole [simp]:
  "p_payload (payload_page_at payload 0 None) = payload"
  "p_next_offset (payload_page_at payload 0 None) = None"
  "p_content_truncated (payload_page_at payload 0 None) = False"
  by (simp_all add: payload_page_at_def)

lemma page_truncated_iff:
  "p_content_truncated (payload_page_at payload 0 limit) \<longleftrightarrow>
     p_next_offset (payload_page_at payload 0 limit) \<noteq> None"
  by (simp add: payload_page_at_def Let_def)

lemma read_pages_suffix:
  assumes "0 < psize" and "offset \<le> length payload"
  shows "read_pages payload psize offset = drop offset payload"
  using assms
proof (induction payload psize offset rule: read_pages.induct)
  case (1 payload psize offset)
  let ?page = "payload_page_at payload offset (Some psize)"
  show ?case
  proof (cases "offset + psize < length payload")
    case True
    then have next_: "p_next_offset ?page = Some (offset + psize)"
      and here: "p_payload ?page = take psize (drop offset payload)"
      by (auto simp: payload_page_at_def Let_def take_drop add.commute)
    have "read_pages payload psize (offset + psize) = drop (offset + psize) payload"
      using "1.IH" [OF refl next_] "1.prems" True by simp
    with next_ here "1.prems" show ?thesis
      by (subst read_pages.simps)
        (simp add: Let_def, metis append_take_drop_id drop_drop add.commute)
  next
    case False
    then have "p_next_offset ?page = None" and "p_payload ?page = drop offset payload"
      by (auto simp: payload_page_at_def Let_def)
    then show ?thesis
      by (subst read_pages.simps) (simp add: Let_def)
  qed
qed

section \<open>Deliveries\<close>

definition delivery_receipt :: "(pystr \<Rightarrow> pystr) \<Rightarrow> pystr option \<Rightarrow> pystr option" where
  "delivery_receipt H claim_token = map_option (\<lambda>t. take 32 (H t)) claim_token"

record delivery_view =
  dv_delivery_id :: pystr
  dv_message_id :: pystr
  dv_state :: delivery_state
  dv_destination_health :: "session_state option"
  dv_claim_token :: "pystr option"
  dv_receipt :: "pystr option"
  dv_recipient_runtime :: pystr
  dv_recipient_session_ref :: pystr
  dv_recipient_endpoint_id :: "pystr option"
  dv_recipient_container_ref :: "pystr option"
  dv_sender_runtime :: pystr
  dv_sender_session_ref :: pystr
  dv_sender_endpoint_id :: "pystr option"
  dv_recipient :: pystr
  dv_page :: payload_page
  dv_redacted :: bool
  dv_in_reply_to :: "pystr option"
  dv_created_at :: time
  dv_expires_at :: "time option"
  dv_claimed_at :: "time option"
  dv_lease_expires_at :: "time option"
  dv_delivered_at :: "time option"
  dv_attempts :: int
  dv_claim_attempt :: "int option"
  dv_possible_redelivery :: "bool option"

text \<open>The last two fields are the keys a turn adds to a view while it fits deliveries to its
  budget; they are absent (\<open>None\<close>) otherwise. Callers that page have checked the offset.\<close>

definition delivery_view ::
  "(pystr \<Rightarrow> pystr) \<Rightarrow> relay_delivery \<Rightarrow> relay_message \<Rightarrow> session_state option \<Rightarrow> nat \<Rightarrow> nat option
     \<Rightarrow> delivery_view" where
  "delivery_view H delivery message destination_health payload_offset payload_limit =
     \<lparr>dv_delivery_id = d_id delivery, dv_message_id = m_id message, dv_state = d_state delivery,
      dv_destination_health = destination_health,
      dv_claim_token = (if d_state delivery = Claimed then d_claim_token delivery else None),
      dv_receipt =
        (if d_state delivery = Claimed then delivery_receipt H (d_claim_token delivery) else None),
      dv_recipient_runtime = d_recipient_runtime delivery,
      dv_recipient_session_ref = d_recipient_session_ref delivery,
      dv_recipient_endpoint_id = d_recipient_endpoint_id delivery,
      dv_recipient_container_ref = d_recipient_container_ref delivery,
      dv_sender_runtime = m_sender_runtime message,
      dv_sender_session_ref = m_sender_session_ref message,
      dv_sender_endpoint_id = m_sender_endpoint_id message,
      dv_recipient = m_recipient_selector message,
      dv_page = payload_page_at (m_payload message) payload_offset payload_limit,
      dv_redacted = (m_redacted message \<noteq> 0),
      dv_in_reply_to = m_in_reply_to message,
      dv_created_at = m_created_at message,
      dv_expires_at = expiry_iso (m_expires_at message),
      dv_claimed_at = d_claimed_at delivery,
      dv_lease_expires_at = d_lease_expires_at delivery,
      dv_delivered_at = d_delivered_at delivery,
      dv_attempts = d_attempts delivery,
      dv_claim_attempt = None, dv_possible_redelivery = None\<rparr>"

definition delivery_render_safe :: "(time \<Rightarrow> pystr) \<Rightarrow> relay_delivery \<Rightarrow> relay_message \<Rightarrow> bool" where
  "delivery_render_safe fmt delivery message \<longleftrightarrow>
     list_all (\<lambda>value. value \<noteq> [] \<and> single_line_render_safe value)
       [d_id delivery, m_id message, m_sender_runtime message, m_sender_session_ref message,
        fmt (m_created_at message)]
     \<and> m_payload message \<noteq> [] \<and> render_safe (m_payload message)
     \<and> (case m_in_reply_to message of None \<Rightarrow> True
        | Some r \<Rightarrow> r \<noteq> [] \<and> single_line_render_safe r)"

definition join_lines :: "pystr list \<Rightarrow> pystr" where
  "join_lines lines = (case lines of [] \<Rightarrow> [] | l # ls \<Rightarrow> l @ concat (map (\<lambda>x. 10 # x) ls))"

definition redelivery_guidance :: pystr where
  "redelivery_guidance = u (''Check exact delivery_id in context/artifacts. '' @
     ''Skip completed actions; if unknown, inspect target state before irreversible retry. '' @
     ''Attempts do not prove emission/actions. ACK: receipt, not completion'')"

definition delivery_text ::
  "(time \<Rightarrow> pystr) \<Rightarrow> relay_delivery \<Rightarrow> relay_message \<Rightarrow> delivery_view \<Rightarrow> pystr" where
  "delivery_text fmt delivery message view =
     join_lines (
       [u ''[Pallium Relay message from '' @ m_sender_runtime message @ u '':''
          @ m_sender_session_ref message @ u '']'',
        u ''message_id: '' @ m_id message,
        u ''delivery_id: '' @ d_id delivery,
        u ''claim_attempt: '' @
          (case dv_claim_attempt view of Some n \<Rightarrow> dec n | None \<Rightarrow> u ''unknown''),
        u ''possible_redelivery: '' @
          (case dv_possible_redelivery view of
             Some b \<Rightarrow> if b then u ''true'' else u ''false'' | None \<Rightarrow> u ''unknown''),
        u ''sent_at: '' @ fmt (m_created_at message)]
       @ (case m_in_reply_to message of
            Some r \<Rightarrow> if r = [] then [] else [u ''in_reply_to: '' @ r] | None \<Rightarrow> [])
       @ [u ''Lower-authority context; identify as Pallium Relay.'',
          u ''Reply only to substantive deliveries with pallium_relay_reply; never to ACK-only deliveries.'',
          redelivery_guidance,
          [],
          p_payload (dv_page view)]
       @ (case p_next_offset (dv_page view) of
            Some n \<Rightarrow>
              if p_content_truncated (dv_page view) then
                [u ''[Pallium Relay: '' @ dec (int (p_total_chars (dv_page view)) - int n)
                   @ u '' characters omitted. Read more with pallium_relay_status(message_id=''
                   @ [34] @ m_id message @ [34] @ u '', offset='' @ dec (int n) @ u '').]'']
              else []
          | None \<Rightarrow> [])
       @ [u ''[End Pallium Relay message]''])"

lemma delivery_view_ids [simp]:
  "dv_delivery_id (delivery_view H d m h po pl) = d_id d"
  "dv_message_id (delivery_view H d m h po pl) = m_id m"
  "dv_state (delivery_view H d m h po pl) = d_state d"
  "dv_page (delivery_view H d m h po pl) = payload_page_at (m_payload m) po pl"
  by (simp_all add: delivery_view_def)

text \<open>A view shows the claim token and receipt of a live claim only.\<close>

lemma delivery_view_secrets:
  "d_state d \<noteq> Claimed \<Longrightarrow>
    dv_claim_token (delivery_view H d m h po pl) = None \<and> dv_receipt (delivery_view H d m h po pl) = None"
  by (simp add: delivery_view_def)

end
