(* ===== verification/Relay_Sessions.thy ===== *)
theory Relay_Sessions
  imports Relay_Views
begin

text \<open>
  Sessions of \<open>SQLiteRelayMixin\<close>: looking a session up by its scope, its health marks, closing,
  naming and listing, and the resolution of a recipient to one active endpoint. Operations that
  read the clock take the instant as an argument.
\<close>

section \<open>Lookup\<close>

definition not_found_in_scope :: relay_error where
  "not_found_in_scope = RelayNotFoundError ''relay entity not found in the requested scope''"

definition find_session :: "relay_db \<Rightarrow> pystr \<Rightarrow> pystr \<Rightarrow> pystr \<Rightarrow> relay_session option" where
  "find_session db container_ref runtime session_ref =
     find (\<lambda>s. s_container_ref s = container_ref \<and> s_runtime s = runtime
               \<and> s_session_ref s = session_ref) (db_sessions db)"

definition relay_session_view :: "relay_db \<Rightarrow> relay_session \<Rightarrow> time \<Rightarrow> int \<Rightarrow> session_view" where
  "relay_session_view db row now recent_seconds =
     session_view row now recent_seconds (scope_generation_of db (s_id row))"

definition session_by_endpoint :: "relay_db \<Rightarrow> pystr option \<Rightarrow> relay_session option" where
  "session_by_endpoint db endpoint_id =
     (case endpoint_id of None \<Rightarrow> None | Some e \<Rightarrow> get_session db e)"

definition relay_session_scope_by_endpoint ::
  "relay_db \<Rightarrow> pystr \<Rightarrow> (relay_error, pystr \<times> pystr \<times> pystr) result" where
  "relay_session_scope_by_endpoint db endpoint_id =
     (case get_session db endpoint_id of
        None \<Rightarrow> Inl (RelayNotFoundError ''relay endpoint not found'')
      | Some session \<Rightarrow> Inr (s_runtime session, s_session_ref session, s_container_ref session))"

definition relay_session_view_by_endpoint ::
  "relay_db \<Rightarrow> pystr \<Rightarrow> int \<Rightarrow> time \<Rightarrow> (relay_error, session_view) result" where
  "relay_session_view_by_endpoint db endpoint_id recent_seconds now =
     (case get_session db endpoint_id of
        None \<Rightarrow> Inl (RelayNotFoundError ''relay endpoint not found'')
      | Some session \<Rightarrow>
          Inr (session_view session now recent_seconds (scope_generation_of db (s_id session))))"

section \<open>Recipients\<close>

datatype recipient_kind = KEndpoint | KAlias | KSession

definition relay_target_row ::
  "relay_db \<Rightarrow> pystr option \<Rightarrow> recipient_kind \<Rightarrow> pystr \<Rightarrow> (relay_error, relay_session option) result"
where
  "relay_target_row db recipient_runtime recipient_kind recipient_value =
     (case recipient_kind of
        KEndpoint \<Rightarrow> Inr (session_by_endpoint db (Some recipient_value))
      | KAlias \<Rightarrow>
          (case get_alias db recipient_value of
             None \<Rightarrow> Inl not_found_in_scope
           | Some binding \<Rightarrow>
               (case a_endpoint_id binding of
                  None \<Rightarrow> Inl (RelayConflictError
                    ''relay alias has unresolved legacy owners; use replace_existing=true to take it over'')
                | Some e \<Rightarrow>
                    let target = session_by_endpoint db (Some e) in
                    if (case target of None \<Rightarrow> False
                        | Some t \<Rightarrow> recipient_runtime \<noteq> None \<and> recipient_runtime \<noteq> Some (s_runtime t))
                    then Inl (RelayConflictError
                      ''relay alias belongs to a different runtime; address the global name as @alias'')
                    else Inr target))
      | KSession \<Rightarrow>
          let matches = filter (\<lambda>s. Some (s_runtime s) = recipient_runtime
                                    \<and> s_session_ref s = recipient_value) (db_sessions db) in
          if length matches > 1
          then Inl (RelayConflictError
            ''legacy recipient is ambiguous; use the canonical relay-session endpoint ID'')
          else Inr (case matches of [] \<Rightarrow> None | s # _ \<Rightarrow> Some s))"

definition active_recipient :: "relay_session option \<Rightarrow> (relay_error, relay_session) result" where
  "active_recipient target =
     (case target of
        None \<Rightarrow> Inl not_found_in_scope
      | Some t \<Rightarrow>
          if s_state t = Unreachable then Inl (RelayConflictError ''recipient session is unreachable'')
          else if s_state t = Closed then Inl (RelayConflictError ''recipient session is closed'')
          else if s_state t \<noteq> Active then Inl not_found_in_scope
          else Inr t)"

definition relay_target ::
  "relay_db \<Rightarrow> pystr option \<Rightarrow> recipient_kind \<Rightarrow> pystr \<Rightarrow> (relay_error, relay_session) result" where
  "relay_target db recipient_runtime recipient_kind recipient_value =
     (case relay_target_row db recipient_runtime recipient_kind recipient_value of
        Inl e \<Rightarrow> Inl e
      | Inr target \<Rightarrow> active_recipient target)"

section \<open>Health marks\<close>

definition relay_mark_unreachable ::
  "pystr \<Rightarrow> pystr \<Rightarrow> pystr \<Rightarrow> time \<Rightarrow> relay_db \<Rightarrow> bool relay_outcome" where
  "relay_mark_unreachable runtime session_ref container_ref attempted db =
     (case find_session db container_ref runtime session_ref of
        None \<Rightarrow> (Inl not_found_in_scope, db)
      | Some row \<Rightarrow>
          if s_state row \<noteq> Active \<or> \<not> s_last_seen_at row < attempted then (Inr False, db)
          else (Inr True, upd_session (s_id row) (\<lambda>r. r\<lparr>s_state := Unreachable\<rparr>) db))"

definition relay_mark_active ::
  "pystr \<Rightarrow> pystr \<Rightarrow> pystr \<Rightarrow> time \<Rightarrow> relay_db \<Rightarrow> bool relay_outcome" where
  "relay_mark_active runtime session_ref container_ref current db =
     (case find_session db container_ref runtime session_ref of
        None \<Rightarrow> (Inl not_found_in_scope, db)
      | Some row \<Rightarrow>
          (Inr (s_state row \<noteq> Active),
           upd_session (s_id row)
             (\<lambda>r. r\<lparr>s_state := Active, s_closed_at := None,
                    s_last_seen_at :=
                      (if s_last_seen_at r < current then current else s_last_seen_at r)\<rparr>) db))"

section \<open>Closing\<close>

definition invalidate_opencode_wake :: "opencode_wake \<Rightarrow> opencode_wake" where
  "invalidate_opencode_wake wake =
     wake\<lparr>o_generation := o_generation wake + 1, o_delivery_id := None, o_claim_attempts := None,
          o_payload_chars := None, o_admitted := 0, o_terminal := 0, o_failures := 0,
          o_retry_not_before := None\<rparr>"

definition delete_own_alias :: "pystr option \<Rightarrow> pystr \<Rightarrow> relay_alias list \<Rightarrow> relay_alias list" where
  "delete_own_alias old_alias endpoint_id aliases =
     (case old_alias of
        None \<Rightarrow> aliases
      | Some a \<Rightarrow>
          (case row_get a_alias a aliases of
             None \<Rightarrow> aliases
           | Some binding \<Rightarrow>
               if a_endpoint_id binding = Some endpoint_id then row_del a_alias a aliases
               else aliases))"

definition relay_close_session ::
  "pystr \<Rightarrow> pystr \<Rightarrow> pystr \<Rightarrow> time \<Rightarrow> relay_db \<Rightarrow> session_view relay_outcome" where
  "relay_close_session runtime session_ref container_ref current db =
     (case find_session db container_ref runtime session_ref of
        None \<Rightarrow> (Inl not_found_in_scope, db)
      | Some row \<Rightarrow>
          let closed = row\<lparr>s_state := Closed, s_closed_at := Some current, s_alias := None\<rparr>;
              db1 = upd_session (s_id row) (\<lambda>_. closed) db;
              db2 = (if runtime = u ''opencode''
                     then upd_opencode (s_id row)
                       (\<lambda>w. (invalidate_opencode_wake w)
                              \<lparr>o_owner_id := None, o_owner_expires_at := current\<rparr>) db1
                     else db1);
              db3 = db2\<lparr>db_aliases := delete_own_alias (s_alias row) (s_id row) (db_aliases db2)\<rparr>
          in (Inr (relay_session_view db3 closed current (24 * 60 * 60)), db3))"

section \<open>Naming\<close>

definition alias_taken :: relay_error where
  "alias_taken = RelayConflictError
     ''relay alias is already assigned; ask the user before retrying with replace_existing=true''"

definition bind_alias :: "pystr \<Rightarrow> pystr \<Rightarrow> relay_alias list \<Rightarrow> relay_alias list" where
  "bind_alias alias endpoint_id aliases =
     (case row_get a_alias alias aliases of
        None \<Rightarrow> aliases @ [\<lparr>a_alias = alias, a_endpoint_id = Some endpoint_id\<rparr>]
      | Some _ \<Rightarrow> row_upd a_alias alias (\<lambda>b. b\<lparr>a_endpoint_id := Some endpoint_id\<rparr>) aliases)"

definition relay_name_session ::
  "pystr \<Rightarrow> pystr \<Rightarrow> pystr \<Rightarrow> pystr option \<Rightarrow> bool \<Rightarrow> time \<Rightarrow> relay_db \<Rightarrow> session_view relay_outcome"
where
  "relay_name_session runtime session_ref container_ref alias replace_existing current db =
     (case find_session db container_ref runtime session_ref of
        None \<Rightarrow> (Inl not_found_in_scope, db)
      | Some row \<Rightarrow>
          if s_state row = Closed
          then (Inl (RelayConflictError ''closed sessions cannot be named''), db)
          else
            (case alias of
               Some a \<Rightarrow>
                 let binding = get_alias db a;
                     other_owners =
                       filter (\<lambda>s. s_alias s = Some a \<and> s_id s \<noteq> s_id row) (db_sessions db)
                 in if ((binding \<noteq> None \<and> map_option a_endpoint_id binding \<noteq> Some (Some (s_id row)))
                        \<or> other_owners \<noteq> []) \<and> \<not> replace_existing
                    then (Inl alias_taken, db)
                    else
                      let aliases1 =
                            (if s_alias row \<noteq> Some a
                             then delete_own_alias (s_alias row) (s_id row) (db_aliases db)
                             else db_aliases db);
                          sessions1 = rows_where (\<lambda>s. s_alias s = Some a \<and> s_id s \<noteq> s_id row)
                            (\<lambda>s. s\<lparr>s_alias := None\<rparr>) (db_sessions db);
                          named = row\<lparr>s_alias := Some a\<rparr>;
                          db1 = db\<lparr>db_sessions := row_upd s_id (s_id row) (\<lambda>_. named) sessions1,
                                   db_aliases := bind_alias a (s_id row) aliases1\<rparr>
                      in (Inr (relay_session_view db1 named current (24 * 60 * 60)), db1)
             | None \<Rightarrow>
                 let unnamed = row\<lparr>s_alias := None\<rparr>;
                     db1 = db\<lparr>db_sessions := row_upd s_id (s_id row) (\<lambda>_. unnamed) (db_sessions db),
                              db_aliases :=
                                delete_own_alias (s_alias row) (s_id row) (db_aliases db)\<rparr>
                 in (Inr (relay_session_view db1 unnamed current (24 * 60 * 60)), db1)))"

section \<open>Listing\<close>

definition relay_list_sessions ::
  "relay_db \<Rightarrow> pystr \<Rightarrow> pystr option \<Rightarrow> pystr option \<Rightarrow> bool \<Rightarrow> int \<Rightarrow> time
     \<Rightarrow> (relay_error, session_view list) result" where
  "relay_list_sessions db container_ref runtime session_ref include_inactive recent_seconds current =
     (case session_ref of
        Some ref \<Rightarrow>
          (case runtime of
             None \<Rightarrow> Inl (ValueError (u ''runtime is required when session_ref is supplied''))
           | Some rt \<Rightarrow>
               (case find_session db container_ref rt ref of
                  None \<Rightarrow> Inr []
                | Some row \<Rightarrow> Inr [relay_session_view db row current recent_seconds]))
      | None \<Rightarrow>
          let rows = filter (\<lambda>s. s_container_ref s = container_ref
                  \<and> (case runtime of None \<Rightarrow> True | Some rt \<Rightarrow> s_runtime s = rt)
                  \<and> (include_inactive \<or> (s_state s = Active
                       \<and> s_last_seen_at s \<ge> current - seconds recent_seconds))) (db_sessions db)
          in Inr (map (\<lambda>row. relay_session_view db row current recent_seconds)
                    (sort_key (\<lambda>s. (s_runtime s, - s_last_seen_at s)) rows)))"

lemmas session_opdefs = relay_mark_unreachable_def relay_mark_active_def relay_close_session_def
  relay_name_session_def

section \<open>Lookup facts\<close>

lemma find_session_SomeD:
  assumes "find_session db c r ref = Some s"
  shows "s \<in> set (db_sessions db)" "s_container_ref s = c" "s_runtime s = r" "s_session_ref s = ref"
  using assms by (auto simp: find_session_def find_Some_iff)

lemma find_session_None_iff:
  "find_session db c r ref = None \<longleftrightarrow>
     (\<forall>s \<in> set (db_sessions db). (s_container_ref s, s_runtime s, s_session_ref s) \<noteq> (c, r, ref))"
  by (auto simp: find_session_def find_None_iff)

lemma relay_target_active:
  "relay_target db rt k v = Inr t \<Longrightarrow> s_state t = Active \<and> t \<in> set (db_sessions db)"
  by (auto simp: relay_target_def active_recipient_def relay_target_row_def session_by_endpoint_def
      filter_eq_Cons_iff Let_def dest: row_get_SomeD split: sum.splits option.splits if_splits
      recipient_kind.splits list.splits)

lemma relay_target_endpoint:
  "relay_target db None KEndpoint e = Inr t \<Longrightarrow> s_id t = e"
  by (auto simp: relay_target_def active_recipient_def relay_target_row_def session_by_endpoint_def
      dest: row_get_SomeD split: option.splits if_splits)

end
