(* ===== verification/Relay_Work_Refs.thy ===== *)
theory Relay_Work_Refs
  imports Relay_Sessions
begin

text \<open>
  The work references of a session: the structural ones, replaced as a whole at each refresh,
  and at most three explicit ones, attached and detached one at a time; and the queries for the
  participants of a work reference.
\<close>

definition max_explicit_work_refs :: nat where
  "max_explicit_work_refs = 3"

text \<open>A readable work reference: its key, scope and local part.\<close>

record work_ref_input =
  wi_work_ref :: pystr
  wi_scope_ref :: pystr
  wi_local_ref :: pystr

definition work_ref_key :: "relay_work_ref \<Rightarrow> pystr \<times> pystr \<times> origin" where
  "work_ref_key w = (w_endpoint_id w, w_work_ref w, w_origin w)"

definition endpoint_refs :: "relay_db \<Rightarrow> pystr \<Rightarrow> origin \<Rightarrow> relay_work_ref list" where
  "endpoint_refs db e k = filter (\<lambda>w. w_endpoint_id w = e \<and> w_origin w = k) (db_work_refs db)"

text \<open>\<open>ORDER BY origin DESC, position, created_at\<close>: structural before explicit, and a missing
  position before any other.\<close>

definition origin_rank :: "origin \<Rightarrow> nat" where
  "origin_rank k = (case k of Explicit \<Rightarrow> 0 | Structural \<Rightarrow> 1)"

definition relay_session_work_ref_views :: "relay_db \<Rightarrow> pystr \<Rightarrow> work_ref_view list" where
  "relay_session_work_ref_views db endpoint_id =
     map work_ref_view
       (sort_key (\<lambda>w. (- int (origin_rank (w_origin w)),
                       (case w_position w of None \<Rightarrow> - 1 | Some p \<Rightarrow> int p), w_created_at w))
          (filter (\<lambda>w. w_endpoint_id w = endpoint_id) (db_work_refs db)))"

section \<open>Structural references\<close>

fun structural_rows ::
  "pystr \<Rightarrow> time \<Rightarrow> (pystr \<rightharpoonup> time) \<Rightarrow> nat \<Rightarrow> work_ref_input list \<Rightarrow> relay_work_ref list" where
  "structural_rows e current created_at position [] = []"
| "structural_rows e current created_at position (r # rs) =
     \<lparr>w_endpoint_id = e, w_work_ref = wi_work_ref r, w_origin = Structural,
      w_scope_ref = wi_scope_ref r, w_local_ref = wi_local_ref r, w_position = Some position,
      w_created_at = (case created_at (wi_work_ref r) of Some t \<Rightarrow> t | None \<Rightarrow> current),
      w_updated_at = current\<rparr>
     # structural_rows e current created_at (Suc position) rs"

definition relay_refresh_structural_work_refs ::
  "pystr \<Rightarrow> pystr \<Rightarrow> pystr \<Rightarrow> work_ref_input list \<Rightarrow> time \<Rightarrow> relay_db
     \<Rightarrow> work_ref_view list relay_outcome" where
  "relay_refresh_structural_work_refs runtime session_ref container_ref work_refs current db =
     (case find_session db container_ref runtime session_ref of
        None \<Rightarrow> (Inl not_found_in_scope, db)
      | Some session \<Rightarrow>
          if s_state session \<noteq> Active then (Inl not_found_in_scope, db)
          else
            let existing = endpoint_refs db (s_id session) Structural;
                created_at = map_of (map (\<lambda>w. (w_work_ref w, w_created_at w)) (rev existing));
                kept = filter (\<lambda>w. \<not> (w_endpoint_id w = s_id session \<and> w_origin w = Structural))
                         (db_work_refs db);
                db1 = db\<lparr>db_work_refs :=
                           kept @ structural_rows (s_id session) current created_at 0 work_refs\<rparr>
            in if distinct (map wi_work_ref work_refs)
               then (Inr (relay_session_work_ref_views db1 (s_id session)), db1)
               else (Inl IntegrityError, db))"

definition relay_session_work_refs ::
  "relay_db \<Rightarrow> pystr \<Rightarrow> pystr \<Rightarrow> pystr \<Rightarrow> time
     \<Rightarrow> (relay_error, session_view \<times> work_ref_view list) result" where
  "relay_session_work_refs db runtime session_ref container_ref now =
     (case find_session db container_ref runtime session_ref of
        None \<Rightarrow> Inl not_found_in_scope
      | Some session \<Rightarrow>
          Inr (relay_session_view db session now (24 * 60 * 60),
               relay_session_work_ref_views db (s_id session)))"

section \<open>Explicit references\<close>

definition relay_attach_work_ref ::
  "pystr \<Rightarrow> pystr \<Rightarrow> pystr \<Rightarrow> work_ref_input \<Rightarrow> time \<Rightarrow> bool \<Rightarrow> relay_db
     \<Rightarrow> (session_view \<times> work_ref_view \<times> work_ref_view list) relay_outcome" where
  "relay_attach_work_ref runtime session_ref container_ref work_ref current allow_closed db =
     (case find_session db container_ref runtime session_ref of
        None \<Rightarrow> (Inl not_found_in_scope, db)
      | Some session \<Rightarrow>
          if s_state session = Closed \<and> \<not> allow_closed
          then (Inl (RelayConflictError ''relay session is closed''), db)
          else
            let key = (s_id session, wi_work_ref work_ref, Explicit);
                answer = (\<lambda>row db1. (Inr (relay_session_view db1 session current (24 * 60 * 60),
                                          work_ref_view row,
                                          relay_session_work_ref_views db1 (s_id session)), db1))
            in (case row_get work_ref_key key (db_work_refs db) of
                  None \<Rightarrow>
                    if length (endpoint_refs db (s_id session) Explicit) \<ge> max_explicit_work_refs
                    then (Inl (RelayConflictError
                      ''association_limit: at most 3 explicit work references; detach one before attaching another''),
                      db)
                    else
                      let row = \<lparr>w_endpoint_id = s_id session, w_work_ref = wi_work_ref work_ref,
                                 w_origin = Explicit, w_scope_ref = wi_scope_ref work_ref,
                                 w_local_ref = wi_local_ref work_ref, w_position = None,
                                 w_created_at = current, w_updated_at = current\<rparr>
                      in answer row (db\<lparr>db_work_refs := db_work_refs db @ [row]\<rparr>)
                | Some old \<Rightarrow>
                    let row = old\<lparr>w_scope_ref := wi_scope_ref work_ref,
                                  w_local_ref := wi_local_ref work_ref, w_updated_at := current\<rparr>
                    in answer row
                         (db\<lparr>db_work_refs := row_upd work_ref_key key (\<lambda>_. row) (db_work_refs db)\<rparr>)))"

record detach_result =
  dt_session :: session_view
  dt_detached :: bool
  dt_structural_remains :: bool
  dt_work_refs :: "work_ref_view list"

definition relay_detach_work_ref ::
  "pystr \<Rightarrow> pystr \<Rightarrow> pystr \<Rightarrow> pystr \<Rightarrow> bool \<Rightarrow> time \<Rightarrow> relay_db \<Rightarrow> detach_result relay_outcome" where
  "relay_detach_work_ref runtime session_ref container_ref work_ref allow_closed now db =
     (case find_session db container_ref runtime session_ref of
        None \<Rightarrow> (Inl not_found_in_scope, db)
      | Some session \<Rightarrow>
          if s_state session = Closed \<and> \<not> allow_closed
          then (Inl (RelayConflictError ''relay session is closed''), db)
          else
            let key = (s_id session, work_ref, Explicit);
                row = row_get work_ref_key key (db_work_refs db);
                db1 = (if row \<noteq> None
                       then db\<lparr>db_work_refs := row_del work_ref_key key (db_work_refs db)\<rparr> else db);
                remaining = relay_session_work_ref_views db1 (s_id session)
            in (Inr \<lparr>dt_session = relay_session_view db1 session now (24 * 60 * 60),
                     dt_detached = (row \<noteq> None),
                     dt_structural_remains =
                       list_ex (\<lambda>v. wv_work_ref v = work_ref \<and> wv_origin v = Structural) remaining,
                     dt_work_refs = remaining\<rparr>, db1))"

section \<open>Participants\<close>

text \<open>The rows of the join of work references and sessions for one key.\<close>

definition ref_sessions :: "relay_db \<Rightarrow> pystr \<Rightarrow> relay_session list" where
  "ref_sessions db k =
     concat (map (\<lambda>w. filter (\<lambda>s. s_id s = w_endpoint_id w) (db_sessions db))
               (filter (\<lambda>w. w_work_ref w = k) (db_work_refs db)))"

definition relay_work_ref_participant_counts ::
  "relay_db \<Rightarrow> pystr list \<Rightarrow> time \<Rightarrow> int \<Rightarrow> pystr \<Rightarrow> (nat \<times> nat) option" where
  "relay_work_ref_participant_counts db work_refs now recent_seconds key =
     (let rows = filter (\<lambda>s. s_state s \<noteq> Closed) (ref_sessions db key);
          cutoff = now - seconds recent_seconds
      in if key \<in> set work_refs \<and> rows \<noteq> []
         then Some (length (remdups (map s_id rows)),
                    length (remdups (map s_id (filter (\<lambda>s. s_last_seen_at s \<ge> cutoff) rows))))
         else None)"

record participant =
  pt_session :: session_view
  pt_state :: session_state
  pt_work_ref :: pystr
  pt_scope_ref :: pystr
  pt_local_ref :: pystr
  pt_origins :: "origin list"
  pt_created_at :: time
  pt_updated_at :: time

definition participant_page ::
  "relay_db \<Rightarrow> pystr \<Rightarrow> bool \<Rightarrow> pystr option \<Rightarrow> nat \<Rightarrow> nat \<Rightarrow> relay_session list" where
  "participant_page db work_ref include_closed container_ref offset limit =
     take limit (drop offset
       (sort_key (\<lambda>s. (- s_last_seen_at s, s_id s))
         (filter (\<lambda>s. list_ex (\<lambda>w. w_endpoint_id w = s_id s \<and> w_work_ref w = work_ref) (db_work_refs db)
                    \<and> (include_closed \<or> s_state s \<noteq> Closed)
                    \<and> (case container_ref of None \<Rightarrow> True | Some c \<Rightarrow> s_container_ref s = c))
           (db_sessions db))))"

text \<open>The code groups the joined rows of the page by consecutive session; a session occurs once
  in a page, so its group is the list of its own associations, explicit before structural.\<close>

definition relay_work_ref_participants ::
  "relay_db \<Rightarrow> pystr \<Rightarrow> bool \<Rightarrow> pystr option \<Rightarrow> nat \<Rightarrow> nat \<Rightarrow> time \<Rightarrow> int \<Rightarrow> participant list" where
  "relay_work_ref_participants db work_ref include_closed container_ref offset limit now recent_seconds =
     map (\<lambda>session.
       let associations = sort_key (\<lambda>w. origin_rank (w_origin w))
             (filter (\<lambda>w. w_endpoint_id w = s_id session \<and> w_work_ref w = work_ref) (db_work_refs db));
           association = hd associations
       in \<lparr>pt_session = relay_session_view db session now recent_seconds, pt_state = s_state session,
           pt_work_ref = w_work_ref association, pt_scope_ref = w_scope_ref association,
           pt_local_ref = w_local_ref association,
           pt_origins = sort_key origin_rank (map w_origin associations),
           pt_created_at = Min (set (map w_created_at associations)),
           pt_updated_at = Max (set (map w_updated_at associations))\<rparr>)
       (participant_page db work_ref include_closed container_ref offset limit)"

lemmas work_ref_opdefs = relay_refresh_structural_work_refs_def relay_attach_work_ref_def
  relay_detach_work_ref_def

section \<open>Facts\<close>

lemma structural_rows_facts:
  "map w_work_ref (structural_rows e t c n rs) = map wi_work_ref rs"
  "w \<in> set (structural_rows e t c n rs) \<Longrightarrow>
     w_endpoint_id w = e \<and> w_origin w = Structural \<and> w_updated_at w = t"
  by (induction rs arbitrary: n) auto

lemma participant_page_bound: "length (participant_page db w ic c off lim) \<le> lim"
  by (simp add: participant_page_def)

text \<open>Every session of a page has an association, so the head taken above exists.\<close>

lemma participant_page_associated:
  assumes "s \<in> set (participant_page db w ic c off lim)"
  shows "filter (\<lambda>r. w_endpoint_id r = s_id s \<and> w_work_ref r = w) (db_work_refs db) \<noteq> []"
  using assms
  by (auto simp: participant_page_def list_ex_iff filter_empty_conv dest!: in_set_takeD in_set_dropD)

end
