(* ===== verification/Relay_Messages.thy ===== *)
theory Relay_Messages
  imports Relay_Work_Refs
begin

text \<open>
  Messages and their deliveries: sending, replying, reading the status of a message, and the two
  acknowledgements of a claimed delivery, by claim token and by receipt. Each operation is one
  transaction; \<open>fresh\<close> is the identifier \<open>uuid4\<close> produced for the new delivery. An expired
  claim is recorded before the error is raised, so those paths change the store and fail.
\<close>

section \<open>Shared steps\<close>

definition open_state :: "delivery_state \<Rightarrow> bool" where
  "open_state st \<longleftrightarrow> st = Pending \<or> st = Claimed"

definition mark_expired :: "relay_delivery \<Rightarrow> relay_delivery" where
  "mark_expired d = d\<lparr>d_state := Expired, d_claim_token := None\<rparr>"

text \<open>\<open>hmac.compare_digest\<close> on two strings: it raises on text that is not ASCII.\<close>

definition compare_digest :: "pystr \<Rightarrow> pystr \<Rightarrow> (relay_error, bool) result" where
  "compare_digest a b =
     (if list_all (\<lambda>c. c < 128) a \<and> list_all (\<lambda>c. c < 128) b then Inr (a = b) else Inl TypeError)"

text \<open>The join of deliveries and messages for one delivery.\<close>

definition delivery_with_message ::
  "relay_db \<Rightarrow> pystr \<Rightarrow> (relay_delivery \<times> relay_message) option" where
  "delivery_with_message db delivery_id =
     (case get_delivery db delivery_id of
        None \<Rightarrow> None
      | Some d \<Rightarrow>
          (case get_message db (d_message_id d) of None \<Rightarrow> None | Some m \<Rightarrow> Some (d, m)))"

lemma delivery_with_message_SomeD:
  assumes "delivery_with_message db k = Some (d, m)"
  shows "get_delivery db k = Some d" "d \<in> set (db_deliveries db)" "d_id d = k"
    "get_message db (d_message_id d) = Some m" "m \<in> set (db_messages db)" "m_id m = d_message_id d"
  using assms by (auto simp: delivery_with_message_def dest: row_get_SomeD split: option.splits)

section \<open>Status\<close>

record message_status =
  ms_message_id :: pystr
  ms_sender_runtime :: pystr
  ms_sender_session_ref :: pystr
  ms_sender_endpoint_id :: "pystr option"
  ms_recipient :: pystr
  ms_page :: payload_page
  ms_redacted :: bool
  ms_in_reply_to :: "pystr option"
  ms_created_at :: time
  ms_expires_at :: "time option"
  ms_deliveries :: "delivery_view list"

definition message_deliveries :: "relay_db \<Rightarrow> pystr \<Rightarrow> relay_delivery list" where
  "message_deliveries db message_id =
     filter (\<lambda>d. d_message_id d = message_id) (db_deliveries db)"

definition expire_message_deliveries :: "relay_message \<Rightarrow> relay_db \<Rightarrow> relay_db" where
  "expire_message_deliveries message db =
     db\<lparr>db_deliveries := rows_where (\<lambda>d. d_message_id d = m_id message \<and> open_state (d_state d))
          mark_expired (db_deliveries db)\<rparr>"

definition destination_health :: "relay_db \<Rightarrow> relay_delivery \<Rightarrow> session_state option" where
  "destination_health db d =
     (case session_by_endpoint db (d_recipient_endpoint_id d) of
        None \<Rightarrow> None
      | Some s \<Rightarrow> if s_state s \<noteq> Closed then Some (s_state s) else None)"

definition relay_status_in_session ::
  "(pystr \<Rightarrow> pystr) \<Rightarrow> relay_message \<Rightarrow> time \<Rightarrow> nat \<Rightarrow> nat option \<Rightarrow> relay_db
     \<Rightarrow> message_status relay_outcome" where
  "relay_status_in_session H message current payload_offset payload_limit db =
     (let db1 = (if m_expires_at message \<le> current then expire_message_deliveries message db else db)
      in case payload_view (m_payload message) payload_offset payload_limit of
           Inl e \<Rightarrow> (Inl e, db)
         | Inr page \<Rightarrow>
             (Inr \<lparr>ms_message_id = m_id message, ms_sender_runtime = m_sender_runtime message,
                   ms_sender_session_ref = m_sender_session_ref message,
                   ms_sender_endpoint_id = m_sender_endpoint_id message,
                   ms_recipient = m_recipient_selector message, ms_page = page,
                   ms_redacted = (m_redacted message \<noteq> 0),
                   ms_in_reply_to = m_in_reply_to message, ms_created_at = m_created_at message,
                   ms_expires_at = expiry_iso (m_expires_at message),
                   ms_deliveries =
                     map (\<lambda>d. delivery_view H d message (destination_health db1 d)
                                payload_offset payload_limit)
                       (sort_key (\<lambda>d. (d_recipient_runtime d, d_recipient_session_ref d))
                         (message_deliveries db1 (m_id message)))\<rparr>, db1))"

definition relay_message_status ::
  "(pystr \<Rightarrow> pystr) \<Rightarrow> pystr \<Rightarrow> nat option \<Rightarrow> nat option \<Rightarrow> time \<Rightarrow> relay_db
     \<Rightarrow> message_status relay_outcome" where
  "relay_message_status H message_id offset page_size current db =
     (case get_message db message_id of
        None \<Rightarrow> (Inl not_found_in_scope, db)
      | Some message \<Rightarrow>
          relay_status_in_session H message current
            (case offset of None \<Rightarrow> 0 | Some n \<Rightarrow> n) page_size db)"

section \<open>Sending\<close>

record send_args =
  sa_message_id :: pystr
  sa_sender_runtime :: pystr
  sa_sender_session_ref :: pystr
  sa_recipient :: pystr
  sa_recipient_runtime :: "pystr option"
  sa_recipient_kind :: recipient_kind
  sa_recipient_value :: pystr
  sa_payload :: pystr
  sa_redacted :: bool
  sa_container_ref :: pystr
  sa_expires_in_seconds :: "int option"
  sa_expiry_supplied :: bool
  sa_in_reply_to :: "pystr option"

definition new_delivery :: "pystr \<Rightarrow> pystr \<Rightarrow> relay_session \<Rightarrow> relay_delivery" where
  "new_delivery fresh message_id target =
     \<lparr>d_id = fresh, d_message_id = message_id, d_recipient_runtime = s_runtime target,
      d_recipient_session_ref = s_session_ref target, d_recipient_endpoint_id = Some (s_id target),
      d_recipient_container_ref = Some (s_container_ref target), d_state = Pending,
      d_claim_token = None, d_claimed_at = None, d_lease_expires_at = None,
      d_delivered_at = None, d_attempts = 0, d_trace_version = Some 1, d_trace_truncated = 0,
      d_trace_pruned = 0, d_codex_wake_generation = None\<rparr>"

text \<open>Adding a message and its one delivery: the keys of both tables are enforced.\<close>

definition insert_message :: "relay_message \<Rightarrow> relay_delivery \<Rightarrow> relay_db \<Rightarrow> unit relay_outcome" where
  "insert_message message delivery db =
     (if m_id message \<in> m_id ` set (db_messages db) \<or> d_id delivery \<in> d_id ` set (db_deliveries db)
         \<or> delivery_recipient delivery \<in> delivery_recipient ` set (db_deliveries db)
      then (Inl IntegrityError, db)
      else (Inr (), db\<lparr>db_messages := db_messages db @ [message],
                       db_deliveries := db_deliveries db @ [delivery]\<rparr>))"

definition same_send :: "relay_message \<Rightarrow> relay_session \<Rightarrow> send_args \<Rightarrow> bool" where
  "same_send existing sender a \<longleftrightarrow>
     (m_sender_endpoint_id existing = Some (s_id sender)
        \<or> (m_sender_endpoint_id existing = None
           \<and> m_container_ref existing = sa_container_ref a
           \<and> m_sender_runtime existing = sa_sender_runtime a
           \<and> m_sender_session_ref existing = sa_sender_session_ref a))
     \<and> m_recipient_selector existing = sa_recipient a
     \<and> m_payload existing = sa_payload a
     \<and> (m_redacted existing \<noteq> 0) = sa_redacted a
     \<and> m_in_reply_to existing = sa_in_reply_to a
     \<and> (\<not> sa_expiry_supplied a \<or> expiry_matches existing (sa_expires_in_seconds a))"

definition relay_send ::
  "(pystr \<Rightarrow> pystr) \<Rightarrow> send_args \<Rightarrow> pystr \<Rightarrow> time \<Rightarrow> relay_db \<Rightarrow> message_status relay_outcome" where
  "relay_send H a fresh current db =
     (case find_session db (sa_container_ref a) (sa_sender_runtime a) (sa_sender_session_ref a) of
        None \<Rightarrow> (Inl not_found_in_scope, db)
      | Some sender \<Rightarrow>
          if s_state sender = Closed
          then (Inl (RelayConflictError ''closed sessions cannot send relay messages''), db)
          else if (case sa_in_reply_to a of None \<Rightarrow> False | Some p \<Rightarrow> get_message db p = None)
          then (Inl not_found_in_scope, db)
          else
            (case get_message db (sa_message_id a) of
               Some existing \<Rightarrow>
                 if same_send existing sender a
                 then relay_status_in_session H existing current 0 None db
                 else (Inl (RelayConflictError ''message_id is already in use''), db)
             | None \<Rightarrow>
                 (case relay_target db (sa_recipient_runtime a) (sa_recipient_kind a)
                         (sa_recipient_value a) of
                    Inl e \<Rightarrow> (Inl e, db)
                  | Inr target \<Rightarrow>
                      (case expiry_at current (sa_expires_in_seconds a) of
                         Inl e \<Rightarrow> (Inl e, db)
                       | Inr expires_at \<Rightarrow>
                           let message =
                             \<lparr>m_id = sa_message_id a, m_sender_runtime = sa_sender_runtime a,
                              m_sender_session_ref = sa_sender_session_ref a,
                              m_sender_endpoint_id = Some (s_id sender),
                              m_recipient_selector = sa_recipient a,
                              m_container_ref = s_container_ref sender,
                              m_payload = sa_payload a,
                              m_redacted = (if sa_redacted a then 1 else 0),
                              m_in_reply_to = sa_in_reply_to a, m_created_at = current,
                              m_expires_at = expires_at\<rparr>
                           in (case insert_message message
                                      (new_delivery fresh (m_id message) target) db of
                                 (Inl e, db1) \<Rightarrow> (Inl e, db1)
                               | (Inr _, db1) \<Rightarrow>
                                   relay_status_in_session H message current 0 None db1)))))"

section \<open>Replying\<close>

record reply_args =
  ra_delivery_id :: pystr
  ra_receipt :: "pystr option"
  ra_reply_message_id :: pystr
  ra_payload :: pystr
  ra_redacted :: bool
  ra_expires_in_seconds :: "int option"
  ra_expiry_supplied :: bool

text \<open>What the state of the delivery allows: \<open>Inr True\<close> when the message has expired under its
  claim, \<open>Inr False\<close> when the reply may go on.\<close>

definition reply_allowed ::
  "(pystr \<Rightarrow> pystr) \<Rightarrow> relay_delivery \<Rightarrow> relay_message \<Rightarrow> pystr option \<Rightarrow> time
     \<Rightarrow> (relay_error, bool) result" where
  "reply_allowed H delivery message receipt current =
     (if d_state delivery = Claimed then
        if m_expires_at message \<le> current then Inr True
        else if (case d_lease_expires_at delivery of None \<Rightarrow> True | Some t \<Rightarrow> t \<le> current)
        then Inl (RelayConflictError ''claim lease has expired'')
        else
          (case receipt of
             None \<Rightarrow> Inl (RelayConflictError ''receipt required when replying from claimed state'')
           | Some r \<Rightarrow>
               (case compare_digest
                       (case delivery_receipt H (d_claim_token delivery) of None \<Rightarrow> [] | Some x \<Rightarrow> x) r of
                  Inl e \<Rightarrow> Inl e
                | Inr same \<Rightarrow>
                    if same then Inr False
                    else Inl (RelayConflictError ''receipt does not match current claim'')))
      else if d_state delivery = Delivered then
        (case receipt of
           None \<Rightarrow> Inr False
         | Some r \<Rightarrow>
             (case delivery_receipt H (d_claim_token delivery) of
                None \<Rightarrow> Inl (RelayConflictError ''receipt does not match delivered claim'')
              | Some expected \<Rightarrow>
                  (case compare_digest expected r of
                     Inl e \<Rightarrow> Inl e
                   | Inr same \<Rightarrow>
                       if same then Inr False
                       else Inl (RelayConflictError ''receipt does not match delivered claim''))))
      else Inl (RelayConflictError ''only claimed or delivered relay messages can be replied to''))"

text \<open>The two ends of the reply: the recipient of the delivery sends it, to the sender of the
  message.\<close>

definition reply_sender :: "relay_db \<Rightarrow> relay_delivery \<Rightarrow> (relay_error, relay_session) result" where
  "reply_sender db delivery =
     (case session_by_endpoint db (d_recipient_endpoint_id delivery) of
        None \<Rightarrow> Inl (RelayConflictError ''legacy delivery has no canonical recipient endpoint'')
      | Some sender \<Rightarrow>
          if s_state sender \<noteq> Active
          then Inl (RelayConflictError ''closed or unreachable sessions cannot reply'')
          else Inr sender)"

definition reply_recipient :: "relay_db \<Rightarrow> relay_message \<Rightarrow> (relay_error, relay_session) result" where
  "reply_recipient db message =
     (case session_by_endpoint db (m_sender_endpoint_id message) of
        None \<Rightarrow> Inl (RelayConflictError ''legacy message has no canonical sender endpoint'')
      | Some s \<Rightarrow> active_recipient (Some s))"

definition mark_delivered :: "time \<Rightarrow> relay_delivery \<Rightarrow> relay_delivery" where
  "mark_delivered current d = d\<lparr>d_state := Delivered, d_delivered_at := Some current\<rparr>"

definition create_reply ::
  "(pystr \<Rightarrow> pystr) \<Rightarrow> reply_args \<Rightarrow> relay_delivery \<Rightarrow> relay_message \<Rightarrow> relay_session \<Rightarrow> pystr \<Rightarrow> time
     \<Rightarrow> relay_db \<Rightarrow> message_status relay_outcome" where
  "create_reply H a delivery message sender fresh current db =
     (case reply_recipient db message of
        Inl e \<Rightarrow> (Inl e, db)
      | Inr recipient_session \<Rightarrow>
          (case expiry_at current (ra_expires_in_seconds a) of
             Inl e \<Rightarrow> (Inl e, db)
           | Inr expires_at \<Rightarrow>
               let reply_msg =
                 \<lparr>m_id = ra_reply_message_id a, m_sender_runtime = s_runtime sender,
                  m_sender_session_ref = s_session_ref sender,
                  m_sender_endpoint_id = Some (s_id sender),
                  m_recipient_selector = s_id recipient_session,
                  m_container_ref = s_container_ref sender, m_payload = ra_payload a,
                  m_redacted = (if ra_redacted a then 1 else 0),
                  m_in_reply_to = Some (m_id message), m_created_at = current,
                  m_expires_at = expires_at\<rparr>
               in (case insert_message reply_msg
                          (new_delivery fresh (ra_reply_message_id a) recipient_session) db of
                     (Inl e, db1) \<Rightarrow> (Inl e, db1)
                   | (Inr _, db1) \<Rightarrow>
                       let db2 = (if d_state delivery = Claimed
                                  then upd_delivery (d_id delivery) (mark_delivered current) db1
                                  else db1)
                       in relay_status_in_session H reply_msg current 0 None db2)))"

definition relay_reply_atomic ::
  "(pystr \<Rightarrow> pystr) \<Rightarrow> reply_args \<Rightarrow> pystr \<Rightarrow> time \<Rightarrow> relay_db \<Rightarrow> message_status relay_outcome" where
  "relay_reply_atomic H a fresh current db =
     (case delivery_with_message db (ra_delivery_id a) of
        None \<Rightarrow> (Inl not_found_in_scope, db)
      | Some (delivery, message) \<Rightarrow>
          (case reply_allowed H delivery message (ra_receipt a) current of
             Inl e \<Rightarrow> (Inl e, db)
           | Inr expired \<Rightarrow>
               if expired
               then (Inl (RelayConflictError ''message has expired''),
                     upd_delivery (d_id delivery) mark_expired db)
               else
                 (case reply_sender db delivery of
                    Inl e \<Rightarrow> (Inl e, db)
                  | Inr sender \<Rightarrow>
                      (case get_message db (ra_reply_message_id a) of
                         Some existing \<Rightarrow>
                           if m_payload existing \<noteq> ra_payload a
                              \<or> (m_redacted existing \<noteq> 0) \<noteq> ra_redacted a
                              \<or> (ra_expiry_supplied a
                                  \<and> \<not> expiry_matches existing (ra_expires_in_seconds a))
                           then (Inl (RelayConflictError
                                  ''reply already exists with different parameters''), db)
                           else relay_status_in_session H existing current 0 None db
                       | None \<Rightarrow>
                           create_reply H a delivery message sender fresh current db))))"

end
