(* ===== verification/Relay_Acks.thy ===== *)
theory Relay_Acks
  imports Relay_Messages
begin

text \<open>
  The two acknowledgements of a claimed delivery: \<open>relay_ack\<close> by claim token and
  \<open>relay_ack_by_receipt\<close> by the receipt derived from it. Both are idempotent on a delivered
  delivery, refuse a stale claim, and record the expiry of the message before they raise.
\<close>

record ack_result =
  ar_delivery_id :: pystr
  ar_delivered_at :: "time option"
  ar_already_delivered :: bool
  ar_recipient_endpoint_id :: "pystr option"
  ar_recipient_runtime :: pystr
  ar_recipient_session_ref :: pystr
  ar_recipient_container_ref :: "pystr option"

definition ack_answer :: "relay_delivery \<Rightarrow> time option \<Rightarrow> bool \<Rightarrow> ack_result" where
  "ack_answer d delivered_at already =
     \<lparr>ar_delivery_id = d_id d, ar_delivered_at = delivered_at, ar_already_delivered = already,
      ar_recipient_endpoint_id = d_recipient_endpoint_id d,
      ar_recipient_runtime = d_recipient_runtime d,
      ar_recipient_session_ref = d_recipient_session_ref d,
      ar_recipient_container_ref = d_recipient_container_ref d\<rparr>"

definition relay_ack_by_receipt ::
  "(pystr \<Rightarrow> pystr) \<Rightarrow> pystr \<Rightarrow> pystr \<Rightarrow> time \<Rightarrow> relay_db \<Rightarrow> ack_result relay_outcome" where
  "relay_ack_by_receipt H delivery_id receipt current db =
     (case delivery_with_message db delivery_id of
        None \<Rightarrow> (Inl not_found_in_scope, db)
      | Some (delivery, message) \<Rightarrow>
          if d_state delivery = Delivered then
            (case delivery_receipt H (d_claim_token delivery) of
               None \<Rightarrow> (Inl (RelayConflictError ''receipt does not match delivered claim''), db)
             | Some expected \<Rightarrow>
                 (case compare_digest expected receipt of
                    Inl e \<Rightarrow> (Inl e, db)
                  | Inr same \<Rightarrow>
                      if same then (Inr (ack_answer delivery (d_delivered_at delivery) True), db)
                      else (Inl (RelayConflictError ''receipt does not match delivered claim''), db)))
          else if d_state delivery \<noteq> Claimed
          then (Inl (RelayConflictError ''delivery is not in claimed state''), db)
          else if m_expires_at message \<le> current
          then (Inl (RelayConflictError ''message has expired''),
                upd_delivery (d_id delivery) mark_expired db)
          else if (case d_lease_expires_at delivery of None \<Rightarrow> True | Some t \<Rightarrow> t \<le> current)
          then (Inl (RelayConflictError ''claim lease has expired''), db)
          else
            (case compare_digest
                    (case delivery_receipt H (d_claim_token delivery) of None \<Rightarrow> [] | Some x \<Rightarrow> x)
                    receipt of
               Inl e \<Rightarrow> (Inl e, db)
             | Inr same \<Rightarrow>
                 if \<not> same
                 then (Inl (RelayConflictError ''receipt does not match current claim''), db)
                 else (Inr (ack_answer delivery (Some current) False),
                       upd_delivery (d_id delivery) (mark_delivered current) db)))"

definition stale_token :: relay_error where
  "stale_token = RelayConflictError ''claim token is stale''"

definition relay_ack ::
  "pystr \<Rightarrow> pystr \<Rightarrow> time \<Rightarrow> relay_db \<Rightarrow> ack_result relay_outcome" where
  "relay_ack delivery_id claim_token current db =
     (case delivery_with_message db delivery_id of
        None \<Rightarrow> (Inl not_found_in_scope, db)
      | Some (delivery, message) \<Rightarrow>
          if d_state delivery = Delivered then
            (if d_claim_token delivery = Some claim_token
             then (Inr (ack_answer delivery (d_delivered_at delivery) True), db)
             else (Inl stale_token, db))
          else if d_state delivery \<noteq> Claimed \<or> d_claim_token delivery \<noteq> Some claim_token
          then (Inl stale_token, db)
          else if m_expires_at message \<le> current
          then (Inl (RelayConflictError ''message has expired''),
                upd_delivery (d_id delivery) mark_expired db)
          else if (case d_lease_expires_at delivery of None \<Rightarrow> True | Some t \<Rightarrow> t \<le> current)
          then (Inl stale_token, db)
          else (Inr (ack_answer delivery (Some current) False),
                upd_delivery (d_id delivery) (mark_delivered current) db))"

section \<open>A live claim\<close>

text \<open>The state in which a claim can be acknowledged: claimed, with a lease and a message that
  have not run out.\<close>

definition live_claim :: "relay_delivery \<Rightarrow> relay_message \<Rightarrow> time \<Rightarrow> bool" where
  "live_claim d m current \<longleftrightarrow> d_state d = Claimed \<and> current < m_expires_at m
     \<and> (case d_lease_expires_at d of None \<Rightarrow> False | Some t \<Rightarrow> current < t)"

lemma compare_digest_Inr_iff:
  "compare_digest a b = Inr True \<longleftrightarrow> a = b \<and> list_all (\<lambda>c. c < 128) a"
  by (auto simp: compare_digest_def)

lemma relay_ack_success_iff:
  "(\<exists>r. fst (relay_ack k token current db) = Inr r) \<longleftrightarrow>
     (\<exists>d m. delivery_with_message db k = Some (d, m) \<and> d_claim_token d = Some token
        \<and> (d_state d = Delivered \<or> live_claim d m current))"
  by (auto simp: relay_ack_def live_claim_def not_le split: option.splits prod.splits if_splits)

lemma relay_ack_by_receipt_fresh:
  assumes "relay_ack_by_receipt H k receipt current db = (Inr r, db')"
    and "\<not> ar_already_delivered r"
  shows "\<exists>d m t. delivery_with_message db k = Some (d, m) \<and> live_claim d m current
     \<and> (d_claim_token d = Some t \<and> receipt = take 32 (H t) \<or> d_claim_token d = None \<and> receipt = [])
     \<and> db' = upd_delivery k (mark_delivered current) db"
  using assms
  by (auto simp: relay_ack_by_receipt_def live_claim_def not_le ack_answer_def delivery_receipt_def
      compare_digest_def dest: delivery_with_message_SomeD split: option.splits prod.splits if_splits sum.splits)

end
