(* ===== verification/Relay_Pending.thy ===== *)
theory Relay_Pending
  imports Relay_Acks
begin

text \<open>
  Queries over pending work: the join of deliveries and messages in the order they are handed
  out, the condition under which a delivery can be woken, the read-only candidates for a host
  bridge, and the payload-free state the Codex wake fence is reconciled against.
\<close>

section \<open>The join, oldest message first\<close>

definition joined_deliveries :: "relay_db \<Rightarrow> (relay_delivery \<times> relay_message) list" where
  "joined_deliveries db =
     List.map_filter (\<lambda>d. map_option (Pair d) (get_message db (d_message_id d))) (db_deliveries db)"

definition by_age ::
  "(relay_delivery \<times> relay_message) list \<Rightarrow> (relay_delivery \<times> relay_message) list" where
  "by_age rows = sort_key (\<lambda>(d, m). (m_created_at m, d_id d)) rows"

definition lease_over :: "time \<Rightarrow> relay_delivery \<Rightarrow> bool" where
  "lease_over current d \<longleftrightarrow> (case d_lease_expires_at d of None \<Rightarrow> False | Some t \<Rightarrow> t \<le> current)"

text \<open>\<open>_wake_pending\<close>.\<close>

definition wake_pending :: "time \<Rightarrow> bool \<Rightarrow> relay_delivery \<Rightarrow> bool" where
  "wake_pending current include_pending d \<longleftrightarrow>
     (include_pending \<and> d_state d = Pending) \<or> (d_state d = Claimed \<and> lease_over current d)"

lemma joined_deliveries_iff:
  "(d, m) \<in> set (joined_deliveries db) \<longleftrightarrow>
     d \<in> set (db_deliveries db) \<and> get_message db (d_message_id d) = Some m"
  by (force simp: joined_deliveries_def List.map_filter_def)

lemma set_by_age [simp]: "set (by_age rows) = set rows"
  by (simp add: by_age_def)

lemma sorted_by_age: "sorted (map (\<lambda>(d, m). (m_created_at m, d_id d)) (by_age rows))"
  by (simp add: by_age_def)

section \<open>Candidates for a host bridge\<close>

record pending_candidate =
  pc_delivery_id :: pystr
  pc_state :: delivery_state
  pc_recipient_endpoint_id :: pystr

text \<open>The state a delivery has at an instant, whatever the row still says: an expired message is
  expired, and a claim whose lease ran out is pending again.\<close>

definition effective_state :: "time \<Rightarrow> relay_delivery \<Rightarrow> relay_message \<Rightarrow> delivery_state" where
  "effective_state current d m =
     (if m_expires_at m \<le> current \<and> open_state (d_state d) then Expired
      else if d_state d = Claimed \<and> lease_over current d then Pending
      else d_state d)"

definition relay_pending_candidate ::
  "relay_db \<Rightarrow> pystr \<Rightarrow> pystr \<Rightarrow> pystr \<Rightarrow> pystr option \<Rightarrow> time \<Rightarrow> pending_candidate option" where
  "relay_pending_candidate db runtime session_ref container_ref delivery_id current =
     (case find_session db container_ref runtime session_ref of
        None \<Rightarrow> None
      | Some session \<Rightarrow>
          let rows = by_age (filter (\<lambda>(d, m). d_recipient_endpoint_id d = Some (s_id session)
                \<and> (case delivery_id of
                     Some k \<Rightarrow> d_id d = k
                   | None \<Rightarrow> m_expires_at m > current \<and> wake_pending current True d))
                (joined_deliveries db))
          in (case find (\<lambda>(d, m). delivery_id \<noteq> None \<or> render_safe (m_payload m)) rows of
                None \<Rightarrow> None
              | Some (d, m) \<Rightarrow>
                  Some \<lparr>pc_delivery_id = d_id d, pc_state = effective_state current d m,
                        pc_recipient_endpoint_id = s_id session\<rparr>))"

record wake_candidate =
  wc_delivery_id :: pystr
  wc_recipient_endpoint_id :: pystr
  wc_recipient_runtime :: pystr
  wc_recipient_session_ref :: pystr
  wc_container_ref :: pystr

text \<open>The loop over the rows, with the endpoints seen so far.\<close>

fun coalesce ::
  "bool \<Rightarrow> pystr list \<Rightarrow> (relay_delivery \<times> relay_message \<times> relay_session) list \<Rightarrow> wake_candidate list"
where
  "coalesce include_coalesced seen [] = []"
| "coalesce include_coalesced seen ((d, m, s) # rows) =
     (if \<not> render_safe (m_payload m) then coalesce include_coalesced seen rows
      else if \<not> include_coalesced \<and> s_id s \<in> set seen then coalesce include_coalesced seen rows
      else \<lparr>wc_delivery_id = d_id d, wc_recipient_endpoint_id = s_id s,
            wc_recipient_runtime = s_runtime s, wc_recipient_session_ref = s_session_ref s,
            wc_container_ref = s_container_ref s\<rparr>
           # coalesce include_coalesced (s_id s # seen) rows)"

definition relay_wake_candidates ::
  "relay_db \<Rightarrow> pystr option \<Rightarrow> time \<Rightarrow> bool \<Rightarrow> bool \<Rightarrow> wake_candidate list" where
  "relay_wake_candidates db delivery_id current include_pending include_coalesced =
     coalesce include_coalesced []
       (List.map_filter
         (\<lambda>(d, m). case session_by_endpoint db (d_recipient_endpoint_id d) of
              None \<Rightarrow> None
            | Some s \<Rightarrow> if s_state s = Active then Some (d, m, s) else None)
         (by_age (filter (\<lambda>(d, m).
              (d_recipient_runtime d = u ''codex'' \<or> d_recipient_runtime d = u ''claude-code'')
              \<and> wake_pending current include_pending d \<and> m_expires_at m > current
              \<and> (case delivery_id of None \<Rightarrow> True | Some k \<Rightarrow> d_id d = k))
            (joined_deliveries db))))"

definition relay_expired_claim_candidates ::
  "relay_db \<Rightarrow> pystr option \<Rightarrow> time \<Rightarrow> wake_candidate list" where
  "relay_expired_claim_candidates db delivery_id current =
     relay_wake_candidates db delivery_id current False False"

section \<open>The state a wake reservation is reconciled with\<close>

record wake_target =
  wt_runtime :: pystr
  wt_session_ref :: pystr
  wt_container_ref :: pystr

record reservation_state =
  rs_delivery_id :: pystr
  rs_recipient_endpoint_id :: "pystr option"
  rs_state :: delivery_state
  rs_stored_state :: delivery_state
  rs_attempts :: int
  rs_codex_wake_generation :: "int option"
  rs_wake_target :: "wake_target option"

definition relay_codex_wake_reservation_state ::
  "relay_db \<Rightarrow> pystr \<Rightarrow> time \<Rightarrow> (relay_error, reservation_state) result" where
  "relay_codex_wake_reservation_state db delivery_id current =
     (case delivery_with_message db delivery_id of
        None \<Rightarrow> Inl not_found_in_scope
      | Some (d, m) \<Rightarrow>
          Inr \<lparr>rs_delivery_id = d_id d, rs_recipient_endpoint_id = d_recipient_endpoint_id d,
               rs_state = effective_state current d m, rs_stored_state = d_state d,
               rs_attempts = d_attempts d,
               rs_codex_wake_generation = d_codex_wake_generation d,
               rs_wake_target =
                 (case session_by_endpoint db (d_recipient_endpoint_id d) of
                    None \<Rightarrow> None
                  | Some s \<Rightarrow>
                      if s_state s = Active \<and> s_runtime s = u ''codex''
                         \<and> d_recipient_runtime d = u ''codex'' \<and> render_safe (m_payload m)
                      then Some \<lparr>wt_runtime = s_runtime s, wt_session_ref = s_session_ref s,
                                 wt_container_ref = s_container_ref s\<rparr>
                      else None)\<rparr>)"

text \<open>\<open>_wake_retry_pending\<close>.\<close>

definition wake_retry_pending :: "reservation_state \<Rightarrow> bool" where
  "wake_retry_pending state \<longleftrightarrow> rs_state state = Pending
     \<and> ((rs_stored_state state = Pending \<and> rs_attempts state = 0)
        \<or> (rs_stored_state state = Claimed \<and> rs_attempts state > 0))"

section \<open>Facts\<close>

lemma effective_pending_iff:
  "effective_state current d m = Pending \<longleftrightarrow>
     wake_pending current True d \<and> current < m_expires_at m"
  by (auto simp: effective_state_def wake_pending_def open_state_def not_le)

lemma coalesce_endpoints:
  "distinct (map wc_recipient_endpoint_id (coalesce False seen rows))
   \<and> set (map wc_recipient_endpoint_id (coalesce False seen rows)) \<inter> set seen = {}"
  by (induction "False" seen rows rule: coalesce.induct) auto

lemma coalesce_sound:
  assumes "c \<in> set (coalesce ic seen rows)"
  shows "\<exists>d m s. (d, m, s) \<in> set rows \<and> wc_delivery_id c = d_id d
     \<and> wc_recipient_endpoint_id c = s_id s \<and> render_safe (m_payload m)"
  using assms
proof (induction ic seen rows rule: coalesce.induct)
  case (2 ic seen d m s rows)
  then show ?case by (fastforce split: if_splits)
qed simp

lemma coalesce_complete:
  assumes "(d, m, s) \<in> set rows" and "render_safe (m_payload m)" and "s_id s \<notin> set seen"
  shows "s_id s \<in> set (map wc_recipient_endpoint_id (coalesce ic seen rows))"
  using assms
proof (induction ic seen rows rule: coalesce.induct)
  case (2 ic seen d' m' s' rows)
  then show ?case by (cases "s_id s = s_id s'") auto
qed simp

end
