(* ===== verification/Relay_OpenCode.thy ===== *)
theory Relay_OpenCode
  imports Relay_Pending
begin

text \<open>
  The scheduling fence of a native OpenCode bridge: who owns the registration of an endpoint and
  until when, which delivery is offered to the native session under which generation, and the
  step each bridge request takes. The \<open>context\<close> request claims through \<open>relay_turn\<close> and is in
  the theory of turns.
\<close>

definition opencode_native_id :: "opencode_wake \<Rightarrow> pystr" where
  "opencode_native_id wake =
     u ''msg_pallium_'' @ drop 14 (o_endpoint_id wake) @ u ''_'' @ dec (o_generation wake)"

record opencode_view =
  ov_generation :: int
  ov_delivery_id :: pystr
  ov_native_input_id :: pystr
  ov_native_location :: pystr
  ov_scope_generation :: int
  ov_admitted :: bool
  ov_terminal :: bool
  ov_retry_exhausted :: bool

definition opencode_wake_view :: "opencode_wake option \<Rightarrow> opencode_view option" where
  "opencode_wake_view w =
     (case w of
        None \<Rightarrow> None
      | Some wake \<Rightarrow>
          (case o_delivery_id wake of
             None \<Rightarrow> None
           | Some k \<Rightarrow>
               Some \<lparr>ov_generation = o_generation wake, ov_delivery_id = k,
                     ov_native_input_id = opencode_native_id wake,
                     ov_native_location = o_native_location wake,
                     ov_scope_generation = o_scope_generation wake,
                     ov_admitted = (o_admitted wake \<noteq> 0), ov_terminal = (o_terminal wake \<noteq> 0),
                     ov_retry_exhausted = (o_failures wake \<ge> 20)\<rparr>))"

record opencode_request =
  oq_session_ref :: pystr
  oq_container_ref :: pystr
  oq_endpoint_id :: pystr
  oq_scope_generation :: int
  oq_native_location :: pystr
  oq_owner_id :: pystr
  oq_generation :: "int option"
  oq_delivery_id :: "pystr option"
  oq_native_input_id :: "pystr option"

definition registration_stale :: "opencode_request \<Rightarrow> time \<Rightarrow> opencode_wake option \<Rightarrow> bool" where
  "registration_stale request current w \<longleftrightarrow>
     (case w of
        None \<Rightarrow> True
      | Some wake \<Rightarrow>
          o_owner_id wake \<noteq> Some (oq_owner_id request)
          \<or> o_owner_expires_at wake \<le> current
          \<or> o_native_location wake \<noteq> oq_native_location request
          \<or> o_scope_generation wake \<noteq> oq_scope_generation request)"

definition snapshot_stale :: "opencode_request \<Rightarrow> opencode_wake option \<Rightarrow> bool" where
  "snapshot_stale request w \<longleftrightarrow>
     (case oq_generation request of
        None \<Rightarrow> False
      | Some g \<Rightarrow>
          (case w of
             None \<Rightarrow> True
           | Some wake \<Rightarrow>
               o_generation wake \<noteq> g
               \<or> o_delivery_id wake \<noteq> oq_delivery_id request
               \<or> Some (opencode_native_id wake) \<noteq> oq_native_input_id request))"

definition opencode_binding ::
  "relay_db \<Rightarrow> opencode_request \<Rightarrow> time \<Rightarrow> bool
     \<Rightarrow> (relay_error, relay_session \<times> opencode_wake option) result" where
  "opencode_binding db request current enrollment =
     (case get_session db (oq_endpoint_id request) of
        None \<Rightarrow> Inl (RelayNotFoundError ''OpenCode endpoint not found in the requested scope'')
      | Some session \<Rightarrow>
          let wake = get_opencode db (s_id session) in
          if s_runtime session \<noteq> u ''opencode'' \<or> s_session_ref session \<noteq> oq_session_ref request
             \<or> s_container_ref session \<noteq> oq_container_ref request
          then Inl (RelayNotFoundError ''OpenCode endpoint not found in the requested scope'')
          else if s_state session \<noteq> Active
             \<or> oq_scope_generation request \<noteq> scope_generation_of db (s_id session)
          then Inl (RelayConflictError ''OpenCode endpoint is closed or its scope changed'')
          else if \<not> enrollment \<and> registration_stale request current wake
          then Inl (RelayConflictError ''OpenCode registration is missing or stale'')
          else if snapshot_stale request wake
          then Inl (RelayConflictError ''OpenCode native wake snapshot is stale'')
          else Inr (session, wake))"

section \<open>The steps\<close>

datatype opencode_op = Enroll | Poll | Admitted | Terminal | Detach

text \<open>Enrolling creates the fence, or takes it over when its owner is gone; a changed scope or
  location invalidates what the fence offered before.\<close>

definition enroll_wake ::
  "opencode_request \<Rightarrow> relay_session \<Rightarrow> time \<Rightarrow> opencode_wake option \<Rightarrow> (relay_error, opencode_wake) result"
where
  "enroll_wake request session current w =
     (let started =
        (case w of
           None \<Rightarrow>
             Inr \<lparr>o_endpoint_id = s_id session, o_scope_generation = oq_scope_generation request,
                  o_native_location = oq_native_location request,
                  o_owner_id = Some (oq_owner_id request), o_owner_expires_at = current,
                  o_generation = 0, o_delivery_id = None, o_admitted = 0, o_terminal = 0,
                  o_claim_attempts = None, o_payload_chars = None, o_failures = 0,
                  o_retry_not_before = None\<rparr>
         | Some wake \<Rightarrow>
             if o_owner_id wake \<noteq> None \<and> o_owner_id wake \<noteq> Some (oq_owner_id request)
                \<and> o_owner_expires_at wake > current
             then Inl (RelayConflictError ''OpenCode endpoint already has a live native owner'')
             else Inr wake)
      in case started of
           Inl e \<Rightarrow> Inl e
         | Inr wake \<Rightarrow>
             let fenced =
               (if o_scope_generation wake \<noteq> oq_scope_generation request
                   \<or> o_native_location wake \<noteq> oq_native_location request
                then invalidate_opencode_wake wake else wake)
             in Inr (fenced\<lparr>o_scope_generation := oq_scope_generation request,
                            o_native_location := oq_native_location request,
                            o_owner_id := Some (oq_owner_id request)\<rparr>))"

text \<open>\<open>min(30, 2 ** min(failures + 1, 5))\<close> seconds.\<close>

definition retry_backoff :: "int \<Rightarrow> int" where
  "retry_backoff failures = min 30 (2 ^ nat (min (failures + 1) 5))"

definition terminal_wake ::
  "opencode_request \<Rightarrow> pystr option \<Rightarrow> time \<Rightarrow> opencode_wake \<Rightarrow> (relay_error, opencode_wake) result" where
  "terminal_wake request terminal_message_id current wake =
     (if terminal_message_id = None \<or> terminal_message_id = Some []
         \<or> terminal_message_id = oq_native_input_id request
      then Inl (RelayConflictError ''a distinct correlated native terminal record is required'')
      else if o_terminal wake = 0
      then Inr (wake\<lparr>o_terminal := 1,
                     o_retry_not_before := Some (current + seconds (retry_backoff (o_failures wake)))\<rparr>)
      else Inr wake)"

text \<open>Polling settles the delivery the fence holds: dropped when it can no longer be retried, or
  offered again under a new generation when its native run ended without an acknowledgement.
  \<open>wall\<close> is the clock read that stands in for a missing retry time.\<close>

definition anchor_row :: "relay_db \<Rightarrow> opencode_wake \<Rightarrow> relay_delivery option" where
  "anchor_row db wake =
     (case o_delivery_id wake of None \<Rightarrow> None
      | Some k \<Rightarrow> if k = [] then None else get_delivery db k)"

definition settle_wake :: "relay_db \<Rightarrow> time \<Rightarrow> time \<Rightarrow> opencode_wake \<Rightarrow> opencode_wake" where
  "settle_wake db current wall wake =
     (let anchor = anchor_row db wake;
          message = (case anchor of None \<Rightarrow> None | Some d \<Rightarrow> get_message db (d_message_id d));
          eligible =
            (case (anchor, message) of
               (Some d, Some m) \<Rightarrow> m_expires_at m > current
                 \<and> (d_state d = Pending \<or> d_state d = Claimed \<and> lease_over current d)
             | _ \<Rightarrow> False)
      in if o_delivery_id wake \<noteq> None \<and> o_delivery_id wake \<noteq> Some [] \<and> o_terminal wake \<noteq> 0 then
           if \<not> eligible
              \<and> (case anchor of None \<Rightarrow> True
                 | Some d \<Rightarrow> d_state d \<noteq> Claimed
                     \<or> (case message of None \<Rightarrow> True | Some m \<Rightarrow> m_expires_at m \<le> current))
           then wake\<lparr>o_delivery_id := None, o_failures := 0\<rparr>
           else if eligible \<and> o_failures wake < 20
              \<and> (case o_retry_not_before wake of None \<Rightarrow> wall | Some t \<Rightarrow> t) \<le> current
           then wake\<lparr>o_generation := o_generation wake + 1, o_admitted := 0, o_terminal := 0,
                     o_claim_attempts := None, o_payload_chars := None,
                     o_failures := o_failures wake + 1, o_retry_not_before := None\<rparr>
           else wake
         else wake)"

definition opencode_candidate ::
  "(time \<Rightarrow> pystr) \<Rightarrow> relay_db \<Rightarrow> relay_session \<Rightarrow> opencode_request \<Rightarrow> time
     \<Rightarrow> (relay_delivery \<times> relay_message) option" where
  "opencode_candidate fmt db session request current =
     find (\<lambda>(d, m). delivery_render_safe fmt d m)
       (by_age (filter (\<lambda>(d, m).
          d_recipient_endpoint_id d = Some (s_id session)
          \<and> d_recipient_runtime d = u ''opencode''
          \<and> d_recipient_session_ref d = oq_session_ref request
          \<and> d_recipient_container_ref d = Some (oq_container_ref request)
          \<and> m_expires_at m > current \<and> wake_pending current True d)
        (joined_deliveries db)))"

definition poll_wake ::
  "(time \<Rightarrow> pystr) \<Rightarrow> relay_db \<Rightarrow> relay_session \<Rightarrow> opencode_request \<Rightarrow> time \<Rightarrow> time
     \<Rightarrow> opencode_wake \<Rightarrow> opencode_wake" where
  "poll_wake fmt db session request current wall wake =
     (let settled = settle_wake db current wall wake
      in if o_delivery_id settled = None then
           (case opencode_candidate fmt db session request current of
              None \<Rightarrow> settled
            | Some (d, m) \<Rightarrow>
                settled\<lparr>o_generation := o_generation settled + 1, o_delivery_id := Some (d_id d),
                        o_admitted := 0, o_terminal := 0, o_failures := 0,
                        o_claim_attempts := None, o_payload_chars := None,
                        o_retry_not_before := None\<rparr>)
         else settled)"

text \<open>One request on the fence of a bound endpoint.\<close>

definition opencode_step ::
  "(time \<Rightarrow> pystr) \<Rightarrow> opencode_op \<Rightarrow> relay_db \<Rightarrow> relay_session \<Rightarrow> opencode_request \<Rightarrow> pystr option
     \<Rightarrow> time \<Rightarrow> time \<Rightarrow> opencode_wake option \<Rightarrow> (relay_error, opencode_wake) result" where
  "opencode_step fmt op db session request terminal_message_id current wall w =
     (case (op, w) of
        (Enroll, _) \<Rightarrow>
          (case enroll_wake request session current w of
             Inl e \<Rightarrow> Inl e
           | Inr wake \<Rightarrow> Inr (wake\<lparr>o_owner_expires_at := current + seconds 15\<rparr>))
      | (Poll, Some wake) \<Rightarrow>
          Inr (poll_wake fmt db session request current wall
                 (wake\<lparr>o_owner_expires_at := current + seconds 15\<rparr>))
      | (Detach, Some wake) \<Rightarrow> Inr (wake\<lparr>o_owner_id := None, o_owner_expires_at := current\<rparr>)
      | (Admitted, Some wake) \<Rightarrow> Inr (wake\<lparr>o_admitted := 1\<rparr>)
      | (Terminal, Some wake) \<Rightarrow> terminal_wake request terminal_message_id current wake
      | (_, None) \<Rightarrow> Inl (RelayConflictError ''OpenCode registration is missing or stale''))"

definition put_opencode :: "opencode_wake \<Rightarrow> opencode_wake list \<Rightarrow> opencode_wake list" where
  "put_opencode wake rows =
     (case row_get o_endpoint_id (o_endpoint_id wake) rows of
        None \<Rightarrow> rows @ [wake]
      | Some _ \<Rightarrow> row_upd o_endpoint_id (o_endpoint_id wake) (\<lambda>_. wake) rows)"

definition relay_opencode_wake ::
  "(time \<Rightarrow> pystr) \<Rightarrow> opencode_op \<Rightarrow> opencode_request \<Rightarrow> pystr option \<Rightarrow> time \<Rightarrow> time \<Rightarrow> relay_db
     \<Rightarrow> (session_view \<times> opencode_view option) relay_outcome" where
  "relay_opencode_wake fmt op request terminal_message_id current wall db =
     (case opencode_binding db request current (op = Enroll) of
        Inl e \<Rightarrow> (Inl e, db)
      | Inr (session, w) \<Rightarrow>
          (case opencode_step fmt op db session request terminal_message_id current wall w of
             Inl e \<Rightarrow> (Inl e, db)
           | Inr wake \<Rightarrow>
               let seen = (if op = Enroll \<or> op = Poll
                           then session\<lparr>s_last_seen_at := current\<rparr> else session);
                   db1 = db\<lparr>db_opencode := put_opencode wake (db_opencode db),
                            db_sessions := row_upd s_id (s_id session) (\<lambda>_. seen) (db_sessions db)\<rparr>
               in (Inr (relay_session_view db1 seen current (24 * 60 * 60),
                        opencode_wake_view (Some wake)), db1)))"

definition relay_opencode_wake_active :: "relay_db \<Rightarrow> pystr \<Rightarrow> time \<Rightarrow> bool" where
  "relay_opencode_wake_active db endpoint_id current =
     (case (get_opencode db endpoint_id, get_session db endpoint_id) of
        (Some wake, Some session) \<Rightarrow>
          s_state session = Active \<and> s_runtime session = u ''opencode''
          \<and> o_owner_id wake \<noteq> None \<and> o_owner_id wake \<noteq> Some []
          \<and> o_owner_expires_at wake > current
          \<and> o_scope_generation wake = scope_generation_of db endpoint_id
      | _ \<Rightarrow> False)"

section \<open>Facts\<close>

lemma retry_backoff_bounds: "0 \<le> failures \<Longrightarrow> 2 \<le> retry_backoff failures \<and> retry_backoff failures \<le> 30"
proof -
  assume "0 \<le> failures"
  then have "1 \<le> nat (min (failures + 1) 5)" by simp
  then have "(2::int) ^ 1 \<le> 2 ^ nat (min (failures + 1) 5)"
    by (rule power_increasing) simp
  then show ?thesis by (simp add: retry_backoff_def)
qed

lemma settle_wake_generation: "o_generation wake \<le> o_generation (settle_wake db c wl wake)"
  by (simp add: settle_wake_def Let_def)

lemma poll_wake_generation: "o_generation wake \<le> o_generation (poll_wake fmt db s q c wl wake)"
  using settle_wake_generation [of wake db c wl]
  by (auto simp: poll_wake_def Let_def split: option.splits)

lemma enroll_wake_generation:
  "enroll_wake q s c (Some wake) = Inr wake' \<Longrightarrow> o_generation wake \<le> o_generation wake'"
  by (auto simp: enroll_wake_def invalidate_opencode_wake_def Let_def split: if_splits)

lemma settle_wake_endpoint [simp]: "o_endpoint_id (settle_wake db c wl wake) = o_endpoint_id wake"
  by (simp add: settle_wake_def Let_def)

lemma poll_wake_endpoint [simp]: "o_endpoint_id (poll_wake fmt db s q c wl wake) = o_endpoint_id wake"
  by (simp add: poll_wake_def Let_def split: option.split)

lemma terminal_wake_keeps:
  "terminal_wake q tm c wake = Inr wake' \<Longrightarrow>
    o_endpoint_id wake' = o_endpoint_id wake \<and> o_generation wake' = o_generation wake
    \<and> o_delivery_id wake' = o_delivery_id wake"
  by (auto simp: terminal_wake_def split: if_splits)

lemma enroll_wake_endpoint:
  assumes "enroll_wake q s c w = Inr wake'" and "\<And>wake. w = Some wake \<Longrightarrow> o_endpoint_id wake = s_id s"
  shows "o_endpoint_id wake' = s_id s"
  using assms by (auto simp: enroll_wake_def invalidate_opencode_wake_def Let_def
      split: if_splits option.splits)

lemma step_endpoint:
  assumes "opencode_step fmt op db s q tm c wl w = Inr wake'"
    and "\<And>wake. w = Some wake \<Longrightarrow> o_endpoint_id wake = s_id s"
  shows "o_endpoint_id wake' = s_id s"
proof (cases op)
  case Enroll
  with assms(1) obtain wake where "enroll_wake q s c w = Inr wake"
    and "wake' = wake\<lparr>o_owner_expires_at := c + seconds 15\<rparr>"
    by (auto simp: opencode_step_def split: sum.splits)
  with enroll_wake_endpoint [of q s c w wake] assms(2) show ?thesis by simp
next
  case Terminal
  with assms show ?thesis
    by (auto simp: opencode_step_def split: option.splits dest: terminal_wake_keeps)
qed (use assms in \<open>auto simp: opencode_step_def split: option.splits\<close>)

lemma opencode_step_generation:
  assumes step: "opencode_step fmt op db s q tm c wl (Some wake) = Inr wake'"
  shows "o_generation wake \<le> o_generation wake'"
proof (cases op)
  case Enroll
  with step show ?thesis
    by (auto simp: opencode_step_def split: sum.splits dest: enroll_wake_generation)
next
  case Poll
  with step have "wake' = poll_wake fmt db s q c wl (wake\<lparr>o_owner_expires_at := c + seconds 15\<rparr>)"
    by (simp add: opencode_step_def)
  with poll_wake_generation [of "wake\<lparr>o_owner_expires_at := c + seconds 15\<rparr>" fmt db s q c wl]
  show ?thesis by simp
next
  case Terminal
  with step show ?thesis
    by (auto simp: opencode_step_def dest: terminal_wake_keeps)
qed (use step in \<open>auto simp: opencode_step_def\<close>)

end
