(* ===== verification/Relay_Turn.thy ===== *)
theory Relay_Turn
  imports Relay_OpenCode
begin

text \<open>
  \<open>SQLiteRelayMixin.relay_turn\<close>, the transaction in which a session registers, moves between
  scopes and claims the deliveries addressed to it, cut at the stages of its body: the OpenCode
  guard, the scope transition, the registration, the expiry sweep, the selection under the
  character, message and response budgets, and the claim.
\<close>

section \<open>Arguments, environment and response\<close>

record turn_args =
  ta_runtime :: pystr
  ta_session_ref :: pystr
  ta_container_ref :: pystr
  ta_title :: "pystr option"
  ta_max_chars :: nat
  ta_max_messages :: nat
  ta_lease_seconds :: int
  ta_exact_delivery_id :: "pystr option"
  ta_claim_expires_at_ms :: "int option"
  ta_codex_wake_endpoint_id :: "pystr option"
  ta_codex_wake_generation :: "int option"
  ta_opencode_wake :: "opencode_request option"
  ta_max_response_chars :: nat
  ta_register_session :: bool
  ta_previous_container_ref :: "pystr option"
  ta_previous_endpoint_id :: "pystr option"
  ta_previous_scope_generation :: "int option"

record turn_response =
  resp_session :: "session_view option"
  resp_deliveries :: "delivery_view list"
  resp_has_more :: bool
  resp_remaining_count :: int
  resp_wake :: "opencode_view option option"
  resp_restored :: "bool option"

text \<open>
  What a turn reads from outside the database: date formatting, the SHA-256 digest, the length
  of the compact JSON text of a response, the identifiers \<open>uuid4\<close> produces for a new endpoint
  and for the claim of each delivery it examines, and the clocks. The monotonic clock is read
  once for the deadline (at 0) and at each of the five checks.
\<close>

record turn_env =
  te_fmt :: "time \<Rightarrow> pystr"
  te_hash :: "pystr \<Rightarrow> pystr"
  te_json_chars :: "turn_response \<Rightarrow> nat"
  te_session_id :: pystr
  te_token :: "pystr \<Rightarrow> pystr"
  te_mono :: "nat \<Rightarrow> time"
  te_wall :: time

definition claim_expired :: "turn_env \<Rightarrow> turn_args \<Rightarrow> nat \<Rightarrow> bool" where
  "claim_expired env a i \<longleftrightarrow>
     (case ta_claim_expires_at_ms a of
        None \<Rightarrow> False
      | Some ms \<Rightarrow> te_mono env i \<ge> te_mono env 0 + (1000 * ms - te_wall env))"

definition claim_request_expired :: relay_error where
  "claim_request_expired = RelayConflictError ''Relay claim request expired''"

section \<open>The OpenCode guard\<close>

text \<open>\<open>Inr (Inl response)\<close> ends the turn; \<open>Inr (Inr wake)\<close> lets it go on. Both carry the store,
  in which the delivery of an expired message has been marked.\<close>

definition opencode_delivery ::
  "relay_db \<Rightarrow> turn_args \<Rightarrow> relay_session \<Rightarrow> (relay_delivery \<times> relay_message) option" where
  "opencode_delivery db a registered =
     (case ta_exact_delivery_id a of
        None \<Rightarrow> None
      | Some k \<Rightarrow>
          (case delivery_with_message db k of
             None \<Rightarrow> None
           | Some (d, m) \<Rightarrow>
               if d_recipient_endpoint_id d = Some (s_id registered)
                  \<and> d_recipient_runtime d = ta_runtime a
                  \<and> d_recipient_session_ref d = ta_session_ref a
                  \<and> d_recipient_container_ref d = Some (ta_container_ref a)
               then Some (d, m) else None))"

definition opencode_reuse ::
  "turn_env \<Rightarrow> turn_args \<Rightarrow> relay_db \<Rightarrow> relay_session \<Rightarrow> opencode_wake \<Rightarrow> relay_delivery \<Rightarrow> relay_message
     \<Rightarrow> time \<Rightarrow> turn_response" where
  "opencode_reuse env a db registered wake d m current =
     (let view = delivery_view (te_hash env) d m (Some (s_state registered)) 0 (o_payload_chars wake);
          reusable =
            o_claim_attempts wake = Some (d_attempts d) \<and> o_terminal wake = 0
            \<and> (d_state d = Delivered
               \<or> d_state d = Claimed
                 \<and> (case d_lease_expires_at d of None \<Rightarrow> False | Some t \<Rightarrow> t > current)
                 \<and> m_expires_at m > current)
            \<and> delivery_render_safe (te_fmt env) d m
            \<and> (ta_max_chars a = 0 \<or> length (delivery_text (te_fmt env) d m view) \<le> ta_max_chars a)
      in \<lparr>resp_session = Some (relay_session_view db registered current (24 * 60 * 60)),
          resp_deliveries = (if reusable then [view] else []),
          resp_has_more = False, resp_remaining_count = 0,
          resp_wake = Some (opencode_wake_view (Some wake)),
          resp_restored = Some (reusable \<and> d_state d = Delivered)\<rparr>)"

definition opencode_guard ::
  "turn_env \<Rightarrow> turn_args \<Rightarrow> time \<Rightarrow> relay_db
     \<Rightarrow> (turn_response + opencode_wake option) relay_outcome" where
  "opencode_guard env a current db =
     (case ta_opencode_wake a of
        None \<Rightarrow> (Inr (Inr None), db)
      | Some request \<Rightarrow>
          if ta_runtime a \<noteq> u ''opencode'' \<or> ta_register_session a \<or> ta_exact_delivery_id a = None
          then (Inl (RelayConflictError ''OpenCode wakes cannot register or change scope''), db)
          else
            (case opencode_binding db request current False of
               Inl e \<Rightarrow> (Inl e, db)
             | Inr (_, None) \<Rightarrow>
                 (Inl (RelayConflictError ''OpenCode registration is missing or stale''), db)
             | Inr (registered, Some wake) \<Rightarrow>
                 (case opencode_delivery db a registered of
                    None \<Rightarrow> (Inl (RelayNotFoundError
                               ''OpenCode delivery not found in the current endpoint scope''), db)
                  | Some (d, m) \<Rightarrow>
                      let over = open_state (d_state d) \<and> m_expires_at m \<le> current;
                          d1 = (if over then mark_expired d else d);
                          db1 = (if over then upd_delivery (d_id d) mark_expired db else db)
                      in if o_terminal wake \<noteq> 0 \<or> o_claim_attempts wake \<noteq> None \<or> d_state d1 = Delivered
                         then (Inr (Inl (opencode_reuse env a db1 registered wake d1 m current)), db1)
                         else (Inr (Inr (Some wake)), db1))))"

section \<open>Scope and registration\<close>

definition put_generation :: "pystr \<Rightarrow> int \<Rightarrow> relay_generation list \<Rightarrow> relay_generation list" where
  "put_generation e n rows =
     (case row_get g_endpoint_id e rows of
        None \<Rightarrow> rows @ [\<lparr>g_endpoint_id = e, g_generation = n\<rparr>]
      | Some _ \<Rightarrow> row_upd g_endpoint_id e (\<lambda>g. g\<lparr>g_generation := n\<rparr>) rows)"

text \<open>The session that is registered at the requested scope, and its scope generation.\<close>

definition scope_transition ::
  "turn_args \<Rightarrow> relay_db \<Rightarrow> (relay_session option \<times> int) relay_outcome" where
  "scope_transition a db =
     (let registered = find_session db (ta_container_ref a) (ta_runtime a) (ta_session_ref a);
          generation = (case registered of None \<Rightarrow> 0 | Some s \<Rightarrow> scope_generation_of db (s_id s))
      in case ta_previous_container_ref a of
           None \<Rightarrow> (Inr (registered, generation), db)
         | Some previous_container \<Rightarrow>
             (case (ta_previous_endpoint_id a, ta_previous_scope_generation a) of
                (Some previous_endpoint, Some previous_generation) \<Rightarrow>
                  let current_generation = scope_generation_of db previous_endpoint;
                      source = find_session db previous_container (ta_runtime a) (ta_session_ref a)
                  in if ta_container_ref a = previous_container then
                       (case registered of
                          None \<Rightarrow> (Inl (RelayConflictError
                                     ''stale or invalid Relay scope transition''), db)
                        | Some s \<Rightarrow>
                            if s_state s \<notin> {Active, Unreachable} \<or> s_id s \<noteq> previous_endpoint
                               \<or> current_generation \<noteq> previous_generation
                            then (Inl (RelayConflictError
                                    ''stale or invalid Relay scope transition''), db)
                            else (Inr (registered, current_generation), db))
                     else
                       (case registered of
                          Some s \<Rightarrow>
                            if s_state s \<noteq> Active \<or> s_id s \<noteq> previous_endpoint
                               \<or> current_generation \<noteq> previous_generation + 1
                            then (Inl (RelayConflictError
                                    ''Relay scope destination is occupied or stale''), db)
                            else if source \<noteq> None
                            then (Inl (RelayConflictError ''Relay scope transition is ambiguous''), db)
                            else (Inr (registered, previous_generation + 1), db)
                        | None \<Rightarrow>
                            (case source of
                               None \<Rightarrow> (Inl (RelayNotFoundError ''Relay transition source not found''), db)
                             | Some src \<Rightarrow>
                                 if s_id src \<noteq> previous_endpoint
                                 then (Inl (RelayNotFoundError ''Relay transition source not found''), db)
                                 else if s_state src \<noteq> Active
                                 then (Inl (RelayConflictError ''Relay transition source is not active''), db)
                                 else if current_generation \<noteq> previous_generation
                                 then (Inl (RelayConflictError ''stale Relay scope generation''), db)
                                 else
                                   let moved = src\<lparr>s_container_ref := ta_container_ref a\<rparr>
                                   in (Inr (Some moved, previous_generation + 1),
                                       db\<lparr>db_sessions :=
                                            row_upd s_id (s_id src) (\<lambda>_. moved) (db_sessions db),
                                          db_generations :=
                                            put_generation previous_endpoint
                                              (previous_generation + 1) (db_generations db)\<rparr>)))
              | _ \<Rightarrow> (Inl (RelayConflictError ''incomplete Relay scope transition''), db)))"

definition new_session :: "turn_env \<Rightarrow> turn_args \<Rightarrow> time \<Rightarrow> relay_session" where
  "new_session env a current =
     \<lparr>s_id = te_session_id env, s_runtime = ta_runtime a, s_session_ref = ta_session_ref a,
      s_container_ref = ta_container_ref a, s_title = ta_title a, s_alias = None,
      s_state = Active, s_first_seen_at = current, s_last_seen_at = current,
      s_closed_at = None, s_trial_enrolled = 0\<rparr>"

text \<open>\<open>Inl view\<close> ends the turn without deliveries, showing that session if there is one.\<close>

definition register_session ::
  "turn_env \<Rightarrow> turn_args \<Rightarrow> time \<Rightarrow> relay_session option \<Rightarrow> relay_db
     \<Rightarrow> (session_view option + relay_session) relay_outcome" where
  "register_session env a current registered db =
     (case registered of
        None \<Rightarrow>
          if \<not> ta_register_session a then (Inr (Inl None), db)
          else if te_session_id env \<in> s_id ` set (db_sessions db) then (Inl IntegrityError, db)
          else (Inr (Inr (new_session env a current)),
                db\<lparr>db_sessions := db_sessions db @ [new_session env a current]\<rparr>)
      | Some s \<Rightarrow>
          if \<not> ta_register_session a then
            if s_state s \<noteq> Active
            then (Inr (Inl (Some (relay_session_view db s current (24 * 60 * 60)))), db)
            else (Inr (Inr s), db)
          else
            let seen = s\<lparr>s_state := Active, s_closed_at := None, s_last_seen_at := current,
                         s_title := (case ta_title a of None \<Rightarrow> s_title s | Some t \<Rightarrow> Some t)\<rparr>
            in (Inr (Inr seen),
                db\<lparr>db_sessions := row_upd s_id (s_id s) (\<lambda>_. seen) (db_sessions db)\<rparr>))"

section \<open>Selection\<close>

definition message_expired :: "relay_db \<Rightarrow> time \<Rightarrow> pystr \<Rightarrow> bool" where
  "message_expired db current k \<longleftrightarrow>
     list_ex (\<lambda>m. m_id m = k \<and> m_expires_at m \<le> current) (db_messages db)"

definition expire_sweep :: "time \<Rightarrow> relay_db \<Rightarrow> relay_db" where
  "expire_sweep current db =
     db\<lparr>db_deliveries := rows_where
          (\<lambda>d. open_state (d_state d) \<and> message_expired db current (d_message_id d))
          mark_expired (db_deliveries db)\<rparr>"

definition eligible :: "relay_db \<Rightarrow> pystr \<Rightarrow> time \<Rightarrow> (relay_delivery \<times> relay_message) list" where
  "eligible db endpoint_id current =
     by_age (filter (\<lambda>(d, m). d_recipient_endpoint_id d = Some endpoint_id \<and> m_expires_at m > current
                         \<and> wake_pending current True d)
       (joined_deliveries db))"

definition turn_answer ::
  "session_view \<Rightarrow> nat \<Rightarrow> opencode_wake option \<Rightarrow> delivery_view list \<Rightarrow> turn_response" where
  "turn_answer view eligible_count wake deliveries =
     \<lparr>resp_session = Some view, resp_deliveries = deliveries,
      resp_has_more = int eligible_count - int (length deliveries) > 0,
      resp_remaining_count = int eligible_count - int (length deliveries),
      resp_wake = (case wake of None \<Rightarrow> None | Some w \<Rightarrow> Some (opencode_wake_view (Some w))),
      resp_restored = (case wake of None \<Rightarrow> None | Some w \<Rightarrow> Some False)\<rparr>"

text \<open>One delivery chosen for the turn: its rows, the view it was fitted with, the characters it
  adds to the turn, and its claim token.\<close>

record selection =
  sel_delivery :: relay_delivery
  sel_message :: relay_message
  sel_view :: delivery_view
  sel_chars :: nat
  sel_token :: pystr

definition projected_view ::
  "turn_env \<Rightarrow> turn_args \<Rightarrow> time \<Rightarrow> relay_session \<Rightarrow> relay_delivery \<Rightarrow> relay_message \<Rightarrow> nat
     \<Rightarrow> delivery_view" where
  "projected_view env a current registered d m prefix_chars =
     (let token = te_token env (d_id d);
          attempts = d_attempts d + 1;
          attempt = (if 1 \<le> attempts \<and> attempts \<le> 2 ^ 53 - 1 then Some attempts else None)
      in (delivery_view (te_hash env) d m (Some (s_state registered)) 0
            (if prefix_chars = length (m_payload m) then None else Some prefix_chars))
         \<lparr>dv_state := Claimed, dv_claim_token := Some token,
          dv_receipt := delivery_receipt (te_hash env) (Some token),
          dv_claimed_at := Some current,
          dv_lease_expires_at := Some (current + seconds (ta_lease_seconds a)),
          dv_attempts := attempts, dv_claim_attempt := attempt,
          dv_possible_redelivery := map_option (\<lambda>n. n > 1) attempt\<rparr>)"

definition project ::
  "turn_env \<Rightarrow> turn_args \<Rightarrow> time \<Rightarrow> relay_session \<Rightarrow> (delivery_view list \<Rightarrow> turn_response)
     \<Rightarrow> selection list \<Rightarrow> nat \<Rightarrow> relay_delivery \<Rightarrow> relay_message \<Rightarrow> nat
     \<Rightarrow> (delivery_view \<times> nat) option" where
  "project env a current registered answer selected used d m prefix_chars =
     (let view = projected_view env a current registered d m prefix_chars;
          rendered_chars = length (delivery_text (te_fmt env) d m view)
                           + (if selected \<noteq> [] then 2 else 0)
      in if ta_max_chars a \<noteq> 0 \<and> used + rendered_chars > ta_max_chars a then None
         else if ta_max_response_chars a \<noteq> 0
            \<and> te_json_chars env (answer (map sel_view selected @ [view])) > ta_max_response_chars a
         then None
         else Some (view, rendered_chars))"

text \<open>The bisection for the longest prefix of the payload that fits, from 1 to one less than its
  length.\<close>

function bisect ::
  "(nat \<Rightarrow> (delivery_view \<times> nat) option) \<Rightarrow> nat \<Rightarrow> nat \<Rightarrow> (delivery_view \<times> nat) option
     \<Rightarrow> (delivery_view \<times> nat) option" where
  "bisect p low high best =
     (if low \<le> high \<and> 0 < low then
        let middle = (low + high) div 2
        in case p middle of
             None \<Rightarrow> bisect p low (middle - 1) best
           | Some candidate \<Rightarrow> bisect p (middle + 1) high (Some candidate)
      else best)"
  by pat_completeness auto
termination
  by (relation "measure (\<lambda>(p, low, high, best). Suc high - low)") auto

declare bisect.simps [simp del]

definition fit_delivery ::
  "(nat \<Rightarrow> (delivery_view \<times> nat) option) \<Rightarrow> bool \<Rightarrow> nat \<Rightarrow> (delivery_view \<times> nat) option" where
  "fit_delivery p is_first payload_chars =
     (case p payload_chars of
        Some x \<Rightarrow> Some x
      | None \<Rightarrow>
          if is_first \<and> payload_chars > 1 then bisect p 1 (payload_chars - 1) None else None)"

fun select_rows ::
  "turn_env \<Rightarrow> turn_args \<Rightarrow> time \<Rightarrow> relay_session \<Rightarrow> (delivery_view list \<Rightarrow> turn_response)
     \<Rightarrow> selection list \<Rightarrow> nat \<Rightarrow> (relay_delivery \<times> relay_message) list \<Rightarrow> selection list" where
  "select_rows env a current registered answer selected used [] = selected"
| "select_rows env a current registered answer selected used ((d, m) # rows) =
     (if \<not> delivery_render_safe (te_fmt env) d m
      then select_rows env a current registered answer selected used rows
      else
        (case fit_delivery (project env a current registered answer selected used d m)
                (selected = []) (length (m_payload m)) of
           None \<Rightarrow> select_rows env a current registered answer selected used rows
         | Some (view, rendered_chars) \<Rightarrow>
             let selected1 = selected @ [\<lparr>sel_delivery = d, sel_message = m, sel_view = view,
                                          sel_chars = rendered_chars,
                                          sel_token = te_token env (d_id d)\<rparr>]
             in if ta_max_messages a \<noteq> 0 \<and> length selected1 \<ge> ta_max_messages a then selected1
                else select_rows env a current registered answer selected1
                       (used + rendered_chars) rows))"

section \<open>Claiming\<close>

definition claim_wake_generation ::
  "turn_args \<Rightarrow> relay_session \<Rightarrow> relay_delivery \<Rightarrow> int option" where
  "claim_wake_generation a registered d =
     (case ta_codex_wake_generation a of
        None \<Rightarrow> None
      | Some g \<Rightarrow>
          if ta_exact_delivery_id a = Some (d_id d)
             \<and> ta_codex_wake_endpoint_id a = Some (s_id registered) \<and> g > 0
             \<and> s_runtime registered = d_recipient_runtime d \<and> d_recipient_runtime d = u ''codex''
             \<and> s_session_ref registered = d_recipient_session_ref d
             \<and> Some (s_container_ref registered) = d_recipient_container_ref d
          then Some g else None)"

definition claim_delivery ::
  "turn_args \<Rightarrow> time \<Rightarrow> relay_session \<Rightarrow> pystr \<Rightarrow> relay_delivery \<Rightarrow> relay_delivery" where
  "claim_delivery a current registered token d =
     d\<lparr>d_state := Claimed, d_claim_token := Some token, d_claimed_at := Some current,
       d_lease_expires_at := Some (current + seconds (ta_lease_seconds a)),
       d_attempts := d_attempts d + 1,
       d_codex_wake_generation := claim_wake_generation a registered d\<rparr>"

definition claim_one ::
  "turn_args \<Rightarrow> time \<Rightarrow> relay_session \<Rightarrow> selection \<Rightarrow> relay_db \<Rightarrow> relay_db" where
  "claim_one a current registered x db =
     upd_delivery (d_id (sel_delivery x)) (claim_delivery a current registered (sel_token x)) db"

definition claimed_view ::
  "turn_env \<Rightarrow> turn_args \<Rightarrow> time \<Rightarrow> relay_session \<Rightarrow> selection \<Rightarrow> delivery_view" where
  "claimed_view env a current registered x =
     delivery_view (te_hash env)
       (claim_delivery a current registered (sel_token x) (sel_delivery x)) (sel_message x)
       (Some (s_state registered)) 0
       (if p_content_truncated (dv_page (sel_view x))
        then Some (length (p_payload (dv_page (sel_view x)))) else None)"

text \<open>The OpenCode fence remembers the attempt and the length of the payload it was shown.\<close>

definition claim_wake :: "selection \<Rightarrow> opencode_wake \<Rightarrow> opencode_wake" where
  "claim_wake x wake =
     wake\<lparr>o_claim_attempts := Some (d_attempts (sel_delivery x) + 1),
          o_payload_chars := Some (length (p_payload (dv_page (sel_view x))))\<rparr>"

definition claim_all ::
  "turn_env \<Rightarrow> turn_args \<Rightarrow> time \<Rightarrow> relay_session \<Rightarrow> opencode_wake option \<Rightarrow> selection list \<Rightarrow> relay_db
     \<Rightarrow> relay_db" where
  "claim_all env a current registered wake selected db =
     (let db1 = fold (claim_one a current registered) selected db
      in case wake of
           None \<Rightarrow> db1
         | Some w \<Rightarrow> upd_opencode (o_endpoint_id w) (fold claim_wake selected) db1)"

section \<open>The turn\<close>

definition turn_deliveries ::
  "turn_env \<Rightarrow> turn_args \<Rightarrow> time \<Rightarrow> relay_session \<Rightarrow> int \<Rightarrow> opencode_wake option \<Rightarrow> relay_db
     \<Rightarrow> turn_response relay_outcome" where
  "turn_deliveries env a current registered generation wake db =
     (let db1 = expire_sweep current db;
          rows = eligible db1 (s_id registered) current;
          examined = (case ta_exact_delivery_id a of
                        None \<Rightarrow> rows | Some k \<Rightarrow> filter (\<lambda>(d, m). d_id d = k) rows);
          view = session_view registered current (24 * 60 * 60) generation;
          answer = turn_answer view (length rows) wake
      in if ta_max_response_chars a \<noteq> 0 \<and> ta_max_response_chars a \<le> te_json_chars env (answer [])
         then if claim_expired env a 3 then (Inl claim_request_expired, db)
              else (Inr (answer []), db1)
         else
           let selected = select_rows env a current registered answer [] 0 examined
           in if claim_expired env a 4 then (Inl claim_request_expired, db)
              else (Inr (answer (map (claimed_view env a current registered) selected)),
                    claim_all env a current registered wake selected db1))"

definition turn_body ::
  "turn_env \<Rightarrow> turn_args \<Rightarrow> time \<Rightarrow> relay_db \<Rightarrow> turn_response relay_outcome" where
  "turn_body env a current db =
     (case opencode_guard env a current db of
        (Inl e, _) \<Rightarrow> (Inl e, db)
      | (Inr (Inl response), db1) \<Rightarrow> (Inr response, db1)
      | (Inr (Inr wake), db1) \<Rightarrow>
          (case scope_transition a db1 of
             (Inl e, _) \<Rightarrow> (Inl e, db)
           | (Inr (registered, generation), db2) \<Rightarrow>
               (case register_session env a current registered db2 of
                  (Inl e, _) \<Rightarrow> (Inl e, db)
                | (Inr (Inl view), db3) \<Rightarrow>
                    (Inr \<lparr>resp_session = view, resp_deliveries = [], resp_has_more = False,
                          resp_remaining_count = 0, resp_wake = None, resp_restored = None\<rparr>, db3)
                | (Inr (Inr s), db3) \<Rightarrow>
                    turn_deliveries env a current s generation wake db3)))"

definition relay_turn ::
  "turn_env \<Rightarrow> turn_args \<Rightarrow> time \<Rightarrow> relay_db \<Rightarrow> turn_response relay_outcome" where
  "relay_turn env a current db =
     (if \<not> ta_register_session a
         \<and> (ta_previous_container_ref a \<noteq> None \<or> ta_previous_endpoint_id a \<noteq> None
            \<or> ta_previous_scope_generation a \<noteq> None)
      then (Inl (RelayConflictError ''scope transitions require session registration''), db)
      else if (case ta_claim_expires_at_ms a of None \<Rightarrow> False | Some ms \<Rightarrow> \<not> (1 \<le> ms \<and> ms \<le> 2 ^ 53 - 1))
      then (Inl (ValueError (u ''invalid Relay claim expiry'')), db)
      else if claim_expired env a 1 \<or> claim_expired env a 2 then (Inl claim_request_expired, db)
      else
        (case turn_body env a current db of
           (Inl e, _) \<Rightarrow> (Inl e, db)
         | (Inr response, db1) \<Rightarrow>
             if claim_expired env a 5 then (Inl claim_request_expired, db)
             else (Inr response, db1)))"

text \<open>The \<open>context\<close> request of the OpenCode bridge: one message, for the delivery it was offered.\<close>

definition relay_opencode_context ::
  "turn_env \<Rightarrow> opencode_request \<Rightarrow> nat \<Rightarrow> time \<Rightarrow> relay_db \<Rightarrow> turn_response relay_outcome" where
  "relay_opencode_context env request max_chars current db =
     relay_turn env
       \<lparr>ta_runtime = u ''opencode'', ta_session_ref = oq_session_ref request,
        ta_container_ref = oq_container_ref request, ta_title = None, ta_max_chars = max_chars,
        ta_max_messages = 1, ta_lease_seconds = 60,
        ta_exact_delivery_id = oq_delivery_id request, ta_claim_expires_at_ms = None,
        ta_codex_wake_endpoint_id = None, ta_codex_wake_generation = None,
        ta_opencode_wake = Some request, ta_max_response_chars = 0,
        ta_register_session = False, ta_previous_container_ref = None,
        ta_previous_endpoint_id = None, ta_previous_scope_generation = None\<rparr> current db"

end
