(* ===== verification/Relay_Codex.thy ===== *)
theory Relay_Codex
  imports Relay_Turn
begin

text \<open>
  The durable Codex authorities of the store: the one-shot trial of an endpoint (enrolled, bound to
  one delivery, spent once), and the wake fences, one reservation per endpoint under a generation
  counter, moved by \<open>relay_codex_wake_transition\<close> in one transaction each. Times that the code
  keeps as epoch seconds are instants here. \<open>printable\<close> stands for \<open>str.isprintable\<close>.
\<close>

section \<open>The trial\<close>

definition invalid_trial :: relay_error where
  "invalid_trial = ValueError (u ''invalid trial authority'')"

definition relay_codex_trial_native_suppressed ::
  "relay_db \<Rightarrow> pystr \<Rightarrow> (relay_error, bool) result" where
  "relay_codex_trial_native_suppressed db endpoint_id =
     (case get_session db endpoint_id of
        None \<Rightarrow> Inl invalid_trial
      | Some session \<Rightarrow>
          if s_trial_enrolled session \<notin> {0, 1} then Inl invalid_trial
          else if s_trial_enrolled session = 0 then
            (if get_trial db endpoint_id \<noteq> None then Inl invalid_trial else Inr False)
          else
            (case get_trial db endpoint_id of
               None \<Rightarrow> Inl invalid_trial
             | Some row \<Rightarrow>
                 if t_recipient_endpoint_id row \<noteq> endpoint_id
                    \<or> t_session_ref row \<noteq> s_session_ref session
                    \<or> t_container_ref row \<noteq> s_container_ref session
                    \<or> t_trial_id row = [] \<or> t_scope_generation row < 0
                    \<or> t_spent row \<notin> {0, 1}
                 then Inl invalid_trial else Inr True))"

definition relay_codex_trial_enroll ::
  "pystr \<Rightarrow> pystr \<Rightarrow> pystr \<Rightarrow> pystr \<Rightarrow> relay_db \<Rightarrow> bool relay_outcome" where
  "relay_codex_trial_enroll endpoint_id session_ref container_ref trial_id db =
     (case get_session db endpoint_id of
        None \<Rightarrow> (Inr False, db)
      | Some session \<Rightarrow>
          if s_runtime session \<noteq> u ''codex'' \<or> s_state session \<noteq> Active
             \<or> s_session_ref session \<noteq> session_ref \<or> s_container_ref session \<noteq> container_ref
             \<or> s_trial_enrolled session \<noteq> 0 \<or> get_trial db endpoint_id \<noteq> None
             \<or> list_ex (\<lambda>d. d_recipient_endpoint_id d = Some endpoint_id) (db_deliveries db)
             \<or> get_reservation db endpoint_id \<noteq> None
          then (Inr False, db)
          else if trial_id \<in> t_trial_id ` set (db_trials db) then (Inl IntegrityError, db)
          else (Inr True,
                (upd_session endpoint_id (\<lambda>s. s\<lparr>s_trial_enrolled := 1\<rparr>) db)
                  \<lparr>db_trials := db_trials db @
                     [\<lparr>t_recipient_endpoint_id = endpoint_id, t_trial_id = trial_id,
                       t_session_ref = session_ref, t_container_ref = container_ref,
                       t_scope_generation = scope_generation_of db endpoint_id,
                       t_delivery_id = None, t_spent = 0\<rparr>]\<rparr>))"

definition codex_trial_endpoint_current :: "relay_db \<Rightarrow> relay_session \<Rightarrow> codex_trial \<Rightarrow> bool" where
  "codex_trial_endpoint_current db session row \<longleftrightarrow>
     s_runtime session = u ''codex'' \<and> s_state session = Active
     \<and> t_session_ref row = s_session_ref session
     \<and> t_container_ref row = s_container_ref session
     \<and> t_scope_generation row = scope_generation_of db (s_id session)"

definition codex_trial_pending :: "relay_db \<Rightarrow> codex_trial \<Rightarrow> pystr \<Rightarrow> time \<Rightarrow> bool" where
  "codex_trial_pending db row delivery_id now =
     (case delivery_with_message db delivery_id of
        None \<Rightarrow> False
      | Some (d, m) \<Rightarrow>
          d_recipient_endpoint_id d = Some (t_recipient_endpoint_id row)
          \<and> d_recipient_runtime d = u ''codex''
          \<and> d_recipient_session_ref d = t_session_ref row
          \<and> d_recipient_container_ref d = Some (t_container_ref row)
          \<and> d_state d = Pending \<and> d_attempts d = 0
          \<and> d_claim_token d = None \<and> d_claimed_at d = None
          \<and> m_expires_at m > now)"

text \<open>What binding and spending both require of the trial row of the endpoint.\<close>

definition trial_row_ready ::
  "relay_db \<Rightarrow> pystr \<Rightarrow> pystr \<Rightarrow> pystr option \<Rightarrow> int \<Rightarrow> pystr \<Rightarrow> time \<Rightarrow> bool" where
  "trial_row_ready db endpoint_id trial_id bound spent delivery_id now =
     (case (get_session db endpoint_id, get_trial db endpoint_id) of
        (Some session, Some row) \<Rightarrow>
          s_trial_enrolled session = 1 \<and> t_trial_id row = trial_id
          \<and> t_delivery_id row = bound \<and> t_spent row = spent
          \<and> codex_trial_endpoint_current db session row
          \<and> codex_trial_pending db row delivery_id now
      | _ \<Rightarrow> False)"

definition upd_trial :: "pystr \<Rightarrow> (codex_trial \<Rightarrow> codex_trial) \<Rightarrow> relay_db \<Rightarrow> relay_db" where
  "upd_trial k f db = db\<lparr>db_trials := row_upd t_recipient_endpoint_id k f (db_trials db)\<rparr>"

definition relay_codex_trial_bind ::
  "pystr \<Rightarrow> pystr \<Rightarrow> pystr \<Rightarrow> time \<Rightarrow> relay_db \<Rightarrow> bool relay_outcome" where
  "relay_codex_trial_bind endpoint_id trial_id delivery_id now db =
     (if \<not> trial_row_ready db endpoint_id trial_id None 0 delivery_id now
         \<or> get_reservation db endpoint_id \<noteq> None
      then (Inr False, db)
      else if Some delivery_id \<in> t_delivery_id ` set (db_trials db) then (Inl IntegrityError, db)
      else (Inr True, upd_trial endpoint_id (\<lambda>t. t\<lparr>t_delivery_id := Some delivery_id\<rparr>) db))"

definition relay_codex_trial_spend ::
  "pystr \<Rightarrow> pystr \<Rightarrow> pystr \<Rightarrow> time \<Rightarrow> relay_db \<Rightarrow> bool relay_outcome" where
  "relay_codex_trial_spend endpoint_id trial_id delivery_id now db =
     (if \<not> trial_row_ready db endpoint_id trial_id (Some delivery_id) 0 delivery_id now
         \<or> get_reservation db endpoint_id \<noteq> None
      then (Inr False, db)
      else (Inr True, upd_trial endpoint_id (\<lambda>t. t\<lparr>t_spent := 1\<rparr>) db))"

definition relay_codex_trial_action_ready ::
  "relay_db \<Rightarrow> pystr \<Rightarrow> pystr \<Rightarrow> pystr \<Rightarrow> time \<Rightarrow> bool" where
  "relay_codex_trial_action_ready db endpoint_id trial_id delivery_id now =
     trial_row_ready db endpoint_id trial_id (Some delivery_id) 1 delivery_id now"

section \<open>The wake authority\<close>

definition max_reservations :: nat where
  "max_reservations = 256"

definition wake_retry_cooldown :: time where
  "wake_retry_cooldown = seconds 60"

definition retry_cooldown_elapsed :: "time option \<Rightarrow> time \<Rightarrow> bool" where
  "retry_cooldown_elapsed retry_not_before now =
     (case retry_not_before of None \<Rightarrow> True | Some t \<Rightarrow> t \<le> now)"

text \<open>\<open>CodexWakeRegistry._valid\<close> and \<open>_valid_item\<close>.\<close>

definition bounded_printable :: "(pystr \<Rightarrow> bool) \<Rightarrow> nat \<Rightarrow> pystr \<Rightarrow> bool" where
  "bounded_printable printable maximum value \<longleftrightarrow>
     0 < length value \<and> length value \<le> maximum \<and> printable value"

definition valid_fields :: "(pystr \<Rightarrow> bool) \<Rightarrow> pystr \<Rightarrow> pystr \<Rightarrow> pystr \<Rightarrow> pystr \<Rightarrow> bool" where
  "valid_fields printable endpoint_id delivery_id session_ref container_ref \<longleftrightarrow>
     hex_suffixed (u ''relay-session-'') 32 endpoint_id
     \<and> bounded_printable printable 128 delivery_id
     \<and> bounded_printable printable 512 session_ref
     \<and> bounded_printable printable 512 container_ref"

definition valid_item :: "(pystr \<Rightarrow> bool) \<Rightarrow> codex_reservation \<Rightarrow> bool" where
  "valid_item printable item \<longleftrightarrow>
     valid_fields printable (r_recipient_endpoint_id item) (r_delivery_id item)
       (r_session_ref item) (r_container_ref item)
     \<and> 1 \<le> r_generation item \<and> r_generation item < 2 ^ 63
     \<and> (case r_correlated_claim_attempts item of None \<Rightarrow> True | Some n \<Rightarrow> 1 \<le> n \<and> n < 2 ^ 63)
     \<and> (case r_retry_not_before item of None \<Rightarrow> True | Some t \<Rightarrow> 0 \<le> t)"

definition invalid_authority :: relay_error where
  "invalid_authority = ValueError (u ''invalid persisted Codex wake authority'')"

definition validate_wake_authority ::
  "(pystr \<Rightarrow> bool) \<Rightarrow> relay_db \<Rightarrow> (relay_error, codex_reservation list) result" where
  "validate_wake_authority printable db =
     (let items = take (max_reservations + 1) (db_reservations db)
      in if length items > max_reservations
            \<or> (case db_wake_marker db of
                 None \<Rightarrow> items \<noteq> []
               | Some g \<Rightarrow> \<not> (0 \<le> g \<and> g < 2 ^ 63)
                   \<or> list_ex (\<lambda>i. \<not> valid_item printable i \<or> r_generation i > g) items)
         then Inl invalid_authority else Inr items)"

definition relay_codex_wake_snapshot ::
  "(pystr \<Rightarrow> bool) \<Rightarrow> relay_db \<Rightarrow> (relay_error, bool \<times> codex_reservation list) result" where
  "relay_codex_wake_snapshot printable db =
     (case validate_wake_authority printable db of
        Inl e \<Rightarrow> Inl e
      | Inr items \<Rightarrow> Inr (db_wake_marker db \<noteq> None, items))"

definition wake_high_water :: "relay_db \<Rightarrow> codex_reservation list \<Rightarrow> int" where
  "wake_high_water db reservations =
     fold max (map r_generation reservations @
       List.map_filter d_codex_wake_generation (db_deliveries db)) 0"

definition relay_codex_wake_initialize ::
  "codex_reservation list \<Rightarrow> relay_db \<Rightarrow> bool relay_outcome" where
  "relay_codex_wake_initialize reservations db =
     (if db_wake_marker db \<noteq> None then (Inr True, db)
      else if db_reservations db \<noteq> [] then (Inr False, db)
      else if wake_high_water db reservations \<ge> 2 ^ 63 - 1 then (Inr False, db)
      else if \<not> distinct (map r_recipient_endpoint_id reservations)
              \<or> \<not> distinct (map r_delivery_id reservations)
      then (Inl IntegrityError, db)
      else (Inr True, db\<lparr>db_reservations := reservations,
                         db_wake_marker := Some (wake_high_water db reservations)\<rparr>))"

end
