(* ===== verification/Relay_Wake.thy ===== *)
theory Relay_Wake
  imports Relay_Codex
begin

text \<open>
  \<open>relay_codex_wake_transition\<close>: one operation per kind of transition, each a compare-and-set on
  the reservation of an endpoint under the generation counter. \<open>now\<close> is the clock read the
  operation decides with, \<open>later\<close> the second one it may make. The health summary of the
  reservations closes the theory.
\<close>

section \<open>Results\<close>

datatype reconciliation = Released | Replaced | Resume | CooldownClamped | Retry

datatype wake_result =
    WNone
  | WItem codex_reservation
  | WItems "codex_reservation list"
  | WTarget wake_target
  | WReconciled reconciliation codex_reservation

definition put_reservation :: "codex_reservation \<Rightarrow> relay_db \<Rightarrow> relay_db" where
  "put_reservation r db =
     db\<lparr>db_reservations :=
          row_upd r_recipient_endpoint_id (r_recipient_endpoint_id r) (\<lambda>_. r) (db_reservations db)\<rparr>"

definition drop_reservation :: "pystr \<Rightarrow> relay_db \<Rightarrow> relay_db" where
  "drop_reservation e db =
     db\<lparr>db_reservations := row_del r_recipient_endpoint_id e (db_reservations db)\<rparr>"

section \<open>Reserving and correlating\<close>

definition codex_target :: "pystr \<Rightarrow> pystr \<Rightarrow> wake_target" where
  "codex_target session_ref container_ref =
     \<lparr>wt_runtime = u ''codex'', wt_session_ref = session_ref, wt_container_ref = container_ref\<rparr>"

definition wake_reserve ::
  "int \<Rightarrow> pystr \<Rightarrow> pystr \<Rightarrow> pystr \<Rightarrow> pystr \<Rightarrow> time \<Rightarrow> relay_db \<Rightarrow> wake_result relay_outcome" where
  "wake_reserve marker endpoint_id delivery_id session_ref container_ref now db =
     (if get_reservation db endpoint_id \<noteq> None
         \<or> list_ex (\<lambda>r. r_delivery_id r = delivery_id) (db_reservations db)
         \<or> length (db_reservations db) \<ge> max_reservations
      then (Inr WNone, db)
      else
        (case relay_codex_wake_reservation_state db delivery_id now of
           Inl e \<Rightarrow> (Inl e, db)
         | Inr state \<Rightarrow>
             if rs_state state \<noteq> Pending
                \<or> rs_recipient_endpoint_id state \<noteq> Some endpoint_id
                \<or> rs_wake_target state \<noteq> Some (codex_target session_ref container_ref)
                \<or> marker \<ge> 2 ^ 63 - 1
             then (Inr WNone, db)
             else
               let item = \<lparr>r_recipient_endpoint_id = endpoint_id, r_delivery_id = delivery_id,
                           r_session_ref = session_ref, r_container_ref = container_ref,
                           r_generation = marker + 1, r_outcome = Prepared,
                           r_correlated_claim_attempts = None, r_retry_not_before = None\<rparr>
               in (Inr (WItem item),
                   db\<lparr>db_reservations := db_reservations db @ [item],
                      db_wake_marker := Some (marker + 1)\<rparr>)))"

definition wake_correlate ::
  "pystr \<Rightarrow> pystr \<Rightarrow> pystr \<Rightarrow> pystr \<Rightarrow> int \<Rightarrow> int \<Rightarrow> relay_db \<Rightarrow> wake_result relay_outcome" where
  "wake_correlate endpoint_id delivery_id session_ref container_ref expected_generation attempts db =
     (case get_reservation db endpoint_id of
        None \<Rightarrow> (Inr WNone, db)
      | Some row \<Rightarrow>
          if r_delivery_id row \<noteq> delivery_id \<or> r_session_ref row \<noteq> session_ref
             \<or> r_container_ref row \<noteq> container_ref \<or> r_generation row \<noteq> expected_generation
             \<or> r_correlated_claim_attempts row \<notin> {None, Some attempts}
          then (Inr WNone, db)
          else
            let item = row\<lparr>r_correlated_claim_attempts := Some attempts\<rparr>
            in (Inr (WItem item), put_reservation item db))"

section \<open>Releasing\<close>

definition wake_release_delivery ::
  "codex_reservation list \<Rightarrow> pystr \<Rightarrow> relay_db \<Rightarrow> wake_result relay_outcome" where
  "wake_release_delivery items delivery_id db =
     (case find (\<lambda>i. r_delivery_id i = delivery_id) items of
        None \<Rightarrow> (Inr WNone, db)
      | Some expected \<Rightarrow>
          if get_reservation db (r_recipient_endpoint_id expected) \<noteq> Some expected
          then (Inr WNone, db)
          else (Inr (WItem expected), drop_reservation (r_recipient_endpoint_id expected) db))"

text \<open>Every listed reservation that is still current is removed; the rows are compared before any
  of them is deleted.\<close>

definition wake_release ::
  "codex_reservation list \<Rightarrow> relay_db \<Rightarrow> wake_result relay_outcome" where
  "wake_release reservations db =
     (let removed = filter (\<lambda>r. get_reservation db (r_recipient_endpoint_id r) = Some r) reservations
      in (Inr (WItems removed), fold (\<lambda>r. drop_reservation (r_recipient_endpoint_id r)) removed db))"

section \<open>Attempts and outcomes\<close>

text \<open>A spent reservation that nothing has correlated: the outcomes that a retry may follow.\<close>

definition spent_uncorrelated :: "codex_reservation \<Rightarrow> bool" where
  "spent_uncorrelated r \<longleftrightarrow>
     r_outcome r \<in> {Reserved, Accepted, Uncertain} \<and> r_correlated_claim_attempts r = None"

definition own_claim :: "reservation_state \<Rightarrow> codex_reservation \<Rightarrow> bool" where
  "own_claim state r \<longleftrightarrow>
     rs_stored_state state = Claimed \<and> rs_codex_wake_generation state = Some (r_generation r)"

definition wake_retry_target ::
  "codex_reservation \<Rightarrow> time \<Rightarrow> relay_db \<Rightarrow> wake_result relay_outcome" where
  "wake_retry_target expected now db =
     (if get_reservation db (r_recipient_endpoint_id expected) \<noteq> Some expected
         \<or> \<not> spent_uncorrelated expected
         \<or> \<not> retry_cooldown_elapsed (r_retry_not_before expected) now
      then (Inr WNone, db)
      else
        (case relay_codex_wake_reservation_state db (r_delivery_id expected) now of
           Inl _ \<Rightarrow> (Inr WNone, db)
         | Inr state \<Rightarrow>
             if \<not> wake_retry_pending state \<or> own_claim state expected
                \<or> rs_recipient_endpoint_id state \<noteq> Some (r_recipient_endpoint_id expected)
             then (Inr WNone, db)
             else (case rs_wake_target state of
                     None \<Rightarrow> (Inr WNone, db) | Some target \<Rightarrow> (Inr (WTarget target), db))))"

definition wake_outcome_op ::
  "codex_reservation \<Rightarrow> wake_outcome \<Rightarrow> relay_db \<Rightarrow> wake_result relay_outcome" where
  "wake_outcome_op expected outcome db =
     (case get_reservation db (r_recipient_endpoint_id expected) of
        None \<Rightarrow> (Inr WNone, db)
      | Some current \<Rightarrow>
          if outcome = Accepted then
            (if r_outcome expected = Uncertain \<and> r_outcome current = Uncertain
                \<and> r_delivery_id current = r_delivery_id expected
                \<and> r_session_ref current = r_session_ref expected
                \<and> r_container_ref current = r_container_ref expected
                \<and> r_generation current = r_generation expected
             then let item = current\<lparr>r_outcome := outcome\<rparr>
                  in (Inr (WItem item), put_reservation item db)
             else (Inr WNone, db))
          else if current \<noteq> expected then (Inr WNone, db)
          else let item = expected\<lparr>r_outcome := outcome\<rparr>
               in (Inr (WItem item), put_reservation item db))"

definition wake_begin_native_attempt ::
  "codex_reservation \<Rightarrow> time \<Rightarrow> time \<Rightarrow> relay_db \<Rightarrow> wake_result relay_outcome" where
  "wake_begin_native_attempt expected now later db =
     (if get_reservation db (r_recipient_endpoint_id expected) \<noteq> Some expected
         \<or> r_outcome expected \<noteq> Prepared \<or> r_correlated_claim_attempts expected \<noteq> None
         \<or> \<not> retry_cooldown_elapsed (r_retry_not_before expected) now
      then (Inr WNone, db)
      else
        (case relay_codex_wake_reservation_state db (r_delivery_id expected) now of
           Inl _ \<Rightarrow> (Inr WNone, db)
         | Inr state \<Rightarrow>
             if rs_recipient_endpoint_id state \<noteq> Some (r_recipient_endpoint_id expected)
                \<or> rs_wake_target state
                    \<noteq> Some (codex_target (r_session_ref expected) (r_container_ref expected))
                \<or> \<not> wake_retry_pending state \<or> own_claim state expected
             then (Inr WNone, db)
             else let item = expected\<lparr>r_outcome := Uncertain,
                                      r_retry_not_before := Some (later + wake_retry_cooldown)\<rparr>
                  in (Inr (WItem item), put_reservation item db)))"

definition wake_retry ::
  "int \<Rightarrow> codex_reservation \<Rightarrow> wake_target \<Rightarrow> time \<Rightarrow> relay_db \<Rightarrow> wake_result relay_outcome" where
  "wake_retry marker expected target now db =
     (if get_reservation db (r_recipient_endpoint_id expected) \<noteq> Some expected
         \<or> \<not> spent_uncorrelated expected
         \<or> \<not> retry_cooldown_elapsed (r_retry_not_before expected) now
      then (Inr WNone, db)
      else
        (case relay_codex_wake_reservation_state db (r_delivery_id expected) now of
           Inl _ \<Rightarrow> (Inr WNone, db)
         | Inr state \<Rightarrow>
             if \<not> wake_retry_pending state \<or> own_claim state expected
                \<or> rs_recipient_endpoint_id state \<noteq> Some (r_recipient_endpoint_id expected)
                \<or> rs_wake_target state \<noteq> Some target
                \<or> marker \<ge> 2 ^ 63 - 1
             then (Inr WNone, db)
             else
               let item = expected\<lparr>r_generation := marker + 1, r_outcome := Prepared,
                     r_correlated_claim_attempts := None,
                     r_retry_not_before :=
                       Some (min now (case r_retry_not_before expected of None \<Rightarrow> now | Some t \<Rightarrow> t)),
                     r_session_ref := wt_session_ref target,
                     r_container_ref := wt_container_ref target\<rparr>
               in (Inr (WItem item),
                   (put_reservation item db)\<lparr>db_wake_marker := Some (marker + 1)\<rparr>)))"

definition wake_replace ::
  "int \<Rightarrow> codex_reservation \<Rightarrow> pystr \<Rightarrow> pystr \<Rightarrow> relay_db \<Rightarrow> wake_result relay_outcome" where
  "wake_replace marker expected session_ref container_ref db =
     (if get_reservation db (r_recipient_endpoint_id expected) \<noteq> Some expected
         \<or> marker \<ge> 2 ^ 63 - 1
      then (Inr WNone, db)
      else
        let item = expected\<lparr>r_generation := marker + 1, r_outcome := Reserved,
              r_correlated_claim_attempts := None, r_retry_not_before := None,
              r_session_ref := session_ref, r_container_ref := container_ref\<rparr>
        in (Inr (WItem item), (put_reservation item db)\<lparr>db_wake_marker := Some (marker + 1)\<rparr>))"

section \<open>Reconciling\<close>

text \<open>What the state of the delivery calls for, in the order the code tests it.\<close>

definition reconcile_case :: "codex_reservation \<Rightarrow> reservation_state \<Rightarrow> time \<Rightarrow> reconciliation option" where
  "reconcile_case expected state now =
     (if rs_state state \<in> {Delivered, Expired, Suppressed} then Some Released
      else if rs_state state = Pending \<and> rs_stored_state state = Claimed \<and> rs_attempts state > 0
         \<and> (Some (rs_attempts state) = r_correlated_claim_attempts expected
            \<or> rs_codex_wake_generation state = Some (r_generation expected))
         \<and> rs_wake_target state \<noteq> None
      then Some Replaced
      else if r_outcome expected = Prepared \<and> r_correlated_claim_attempts expected = None
         \<and> wake_retry_pending state
         \<and> rs_wake_target state
             = Some (codex_target (r_session_ref expected) (r_container_ref expected))
      then Some Resume
      else if spent_uncorrelated expected
         \<and> (case r_retry_not_before expected of None \<Rightarrow> False
            | Some t \<Rightarrow> t - now > 2 * wake_retry_cooldown)
         \<and> wake_retry_pending state
      then Some CooldownClamped
      else if spent_uncorrelated expected \<and> retry_cooldown_elapsed (r_retry_not_before expected) now
         \<and> wake_retry_pending state \<and> rs_wake_target state \<noteq> None
      then Some Retry
      else None)"

definition wake_reconcile ::
  "int \<Rightarrow> codex_reservation \<Rightarrow> time \<Rightarrow> relay_db \<Rightarrow> wake_result relay_outcome" where
  "wake_reconcile marker expected now db =
     (if get_reservation db (r_recipient_endpoint_id expected) \<noteq> Some expected then (Inr WNone, db)
      else
        (case relay_codex_wake_reservation_state db (r_delivery_id expected) now of
           Inl _ \<Rightarrow>
             (Inr (WReconciled Released expected),
              drop_reservation (r_recipient_endpoint_id expected) db)
         | Inr state \<Rightarrow>
             if rs_recipient_endpoint_id state \<noteq> Some (r_recipient_endpoint_id expected)
             then (Inr WNone, db)
             else
               (case reconcile_case expected state now of
                  Some Released \<Rightarrow>
                    (Inr (WReconciled Released expected),
                     drop_reservation (r_recipient_endpoint_id expected) db)
                | Some Replaced \<Rightarrow>
                    (case rs_wake_target state of
                       None \<Rightarrow> (Inr WNone, db)
                     | Some target \<Rightarrow>
                         if marker \<ge> 2 ^ 63 - 1 then (Inr WNone, db)
                         else
                           let item = expected\<lparr>r_generation := marker + 1, r_outcome := Prepared,
                                 r_correlated_claim_attempts := None, r_retry_not_before := None,
                                 r_session_ref := wt_session_ref target,
                                 r_container_ref := wt_container_ref target\<rparr>
                           in (Inr (WReconciled Replaced item),
                               (put_reservation item db)\<lparr>db_wake_marker := Some (marker + 1)\<rparr>))
                | Some Resume \<Rightarrow> (Inr (WReconciled Resume expected), db)
                | Some CooldownClamped \<Rightarrow>
                    let item = expected\<lparr>r_retry_not_before := Some (now + wake_retry_cooldown)\<rparr>
                    in (Inr (WReconciled CooldownClamped item), put_reservation item db)
                | Some Retry \<Rightarrow> (Inr (WReconciled Retry expected), db)
                | None \<Rightarrow> (Inr WNone, db))))"

section \<open>The transition\<close>

datatype wake_op =
    WReserve pystr pystr pystr pystr
  | WCorrelate pystr pystr pystr pystr int int
  | WReleaseDelivery pystr
  | WRelease "codex_reservation list"
  | WRetryTarget codex_reservation
  | WOutcome codex_reservation wake_outcome
  | WBegin codex_reservation
  | WRetry codex_reservation wake_target
  | WReplace codex_reservation pystr pystr
  | WReconcile codex_reservation

definition wake_dispatch ::
  "codex_reservation list \<Rightarrow> int \<Rightarrow> wake_op \<Rightarrow> time \<Rightarrow> time \<Rightarrow> relay_db \<Rightarrow> wake_result relay_outcome" where
  "wake_dispatch items marker op now later db =
     (case op of
        WReserve e k ref c \<Rightarrow> wake_reserve marker e k ref c now db
      | WCorrelate e k ref c g n \<Rightarrow> wake_correlate e k ref c g n db
      | WReleaseDelivery k \<Rightarrow> wake_release_delivery items k db
      | WRelease rs \<Rightarrow> wake_release rs db
      | WRetryTarget r \<Rightarrow> wake_retry_target r now db
      | WOutcome r oc \<Rightarrow> wake_outcome_op r oc db
      | WBegin r \<Rightarrow> wake_begin_native_attempt r now later db
      | WRetry r target \<Rightarrow> wake_retry marker r target now db
      | WReplace r ref c \<Rightarrow> wake_replace marker r ref c db
      | WReconcile r \<Rightarrow> wake_reconcile marker r now db)"

definition relay_codex_wake_transition ::
  "(pystr \<Rightarrow> bool) \<Rightarrow> wake_op \<Rightarrow> time \<Rightarrow> time \<Rightarrow> relay_db \<Rightarrow> wake_result relay_outcome" where
  "relay_codex_wake_transition printable op now later db =
     (case validate_wake_authority printable db of
        Inl e \<Rightarrow> (Inl e, db)
      | Inr items \<Rightarrow>
          (case db_wake_marker db of
             None \<Rightarrow> (Inr WNone, db)
           | Some marker \<Rightarrow> wake_dispatch items marker op now later db))"

lemmas wake_opdefs = wake_reserve_def wake_correlate_def wake_release_delivery_def wake_release_def
  wake_retry_target_def wake_outcome_op_def wake_begin_native_attempt_def wake_retry_def
  wake_replace_def wake_reconcile_def

end
