(* ===== verification/Relay_Trace.thy ===== *)
theory Relay_Trace
  imports Relay_Wake
begin

text \<open>
  Diagnostics over the delivery tables: the append-only activation trace with its bounds
  (\<open>relay_trace_record\<close>), the pages of its events that belong to one message with
  the summary and the explanation a reader gets (\<open>relay_trace_message\<close>), and the health summary of the Codex wake reservations
  (\<open>relay_codex_wake_health\<close>). \<open>redact\<close> is the redactor applied to a reason.
\<close>

section \<open>Recording\<close>

definition trace_max_rows :: nat where
  "trace_max_rows = 100000"

definition trace_max_sequence :: int where
  "trace_max_sequence = 2 ^ 63 - 1"

record trace_args =
  xa_attempt_id :: pystr
  xa_delivery_id :: pystr
  xa_stage :: pystr
  xa_outcome :: "pystr option"
  xa_reason :: "pystr option"
  xa_evidence :: "pystr list option"
  xa_native_retry_safe :: "bool option"
  xa_destination_health_update :: "pystr option"
  xa_scope_generation :: "int option"

definition safe_reason :: "(pystr \<Rightarrow> pystr) \<Rightarrow> pystr option \<Rightarrow> pystr option" where
  "safe_reason redact reason =
     (case reason of
        None \<Rightarrow> None
      | Some r \<Rightarrow>
          if length (redact r) > 128 then Some (u ''[REDACTED: diagnostic reason omitted]'')
          else Some (redact r))"

definition trace_invalid :: "(pystr \<Rightarrow> pystr) \<Rightarrow> trace_args \<Rightarrow> pystr option" where
  "trace_invalid redact a =
     (let reason = safe_reason redact (xa_reason a);
          completed = (xa_stage a = u ''completed'')
      in if \<not> hex_suffixed (u ''relay-activation-'') 32 (xa_attempt_id a)
         then Some (u ''invalid trace attempt_id'')
         else if \<not> hex_suffixed (u ''relay-delivery-'') 32 (xa_delivery_id a)
         then Some (u ''invalid trace delivery_id'')
         else if xa_stage a \<notin> {u ''prepared'', u ''associated'', u ''completed''}
         then Some (u ''invalid trace stage'')
         else if (case xa_scope_generation a of None \<Rightarrow> False | Some g \<Rightarrow> g < 0)
         then Some (u ''invalid trace scope_generation'')
         else if \<not> completed \<and> (xa_outcome a \<noteq> None \<or> xa_reason a \<noteq> None \<or> xa_evidence a \<noteq> None
            \<or> xa_native_retry_safe a \<noteq> None \<or> xa_destination_health_update a \<noteq> None)
         then Some (u ''activation result is only valid for completed trace'')
         else if completed
            \<and> xa_outcome a \<notin> Some ` {u ''accepted'', u ''deferred'', u ''uncertain'', u ''failed''}
         then Some (u ''completed trace requires a valid outcome'')
         else if completed
            \<and> (case reason of None \<Rightarrow> True
               | Some r \<Rightarrow> \<not> (0 < length r \<and> length r \<le> 128) \<or> \<not> single_line_render_safe r)
         then Some (u ''completed trace requires a bounded safe reason'')
         else if completed
            \<and> ((case xa_evidence a of None \<Rightarrow> True
                | Some items \<Rightarrow> length items > 3 \<or> \<not> distinct items
                    \<or> \<not> set items \<subseteq> {u ''submission_attempted'', u ''transport_accepted'',
                                        u ''payload_admitted''})
               \<or> xa_native_retry_safe a = None
               \<or> xa_destination_health_update a \<notin> {None, Some (u ''unreachable'')})
         then Some (u ''invalid completed trace result'')
         else None)"

datatype trace_result =
    Recorded int
  | Missing
  | Duplicate int
  | Conflicting int
  | Dropped

definition trace_values ::
  "(pystr \<Rightarrow> pystr) \<Rightarrow> trace_args \<Rightarrow> pystr option \<times> pystr option \<times> pystr list option \<times> int option
     \<times> pystr option \<times> int option" where
  "trace_values redact a =
     (xa_outcome a, safe_reason redact (xa_reason a), xa_evidence a,
      map_option of_bool (xa_native_retry_safe a), xa_destination_health_update a,
      xa_scope_generation a)"

definition row_values ::
  "relay_trace \<Rightarrow> pystr option \<times> pystr option \<times> pystr list option \<times> int option
     \<times> pystr option \<times> int option" where
  "row_values t = (tr_outcome t, tr_reason t, tr_evidence t, tr_native_retry_safe t,
     tr_destination_health_update t, tr_scope_generation t)"

definition trace_full :: "relay_db \<Rightarrow> pystr \<Rightarrow> pystr \<Rightarrow> bool" where
  "trace_full db attempt_id delivery_id \<longleftrightarrow>
     (let traces = db_traces db;
          attempt_known = list_ex (\<lambda>t. tr_attempt_id t = attempt_id \<and> tr_delivery_id t = delivery_id) traces
      in length traces \<ge> trace_max_rows
         \<or> length (filter (\<lambda>t. tr_delivery_id t = delivery_id) traces) \<ge> 24
         \<or> \<not> attempt_known
            \<and> card (tr_attempt_id ` set (filter (\<lambda>t. tr_delivery_id t = delivery_id) traces)) \<ge> 8
         \<or> \<not> attempt_known
            \<and> card (tr_delivery_id ` set (filter (\<lambda>t. tr_attempt_id t = attempt_id) traces)) \<ge> 64)"

definition stamp_version :: "relay_delivery \<Rightarrow> relay_delivery" where
  "stamp_version d =
     d\<lparr>d_trace_version :=
         (if d_trace_version d = None \<or> d_trace_version d = Some 0 then Some 1 else d_trace_version d)\<rparr>"

definition relay_trace_record ::
  "(pystr \<Rightarrow> pystr) \<Rightarrow> trace_args \<Rightarrow> pystr \<Rightarrow> time \<Rightarrow> relay_db \<Rightarrow> trace_result relay_outcome" where
  "relay_trace_record redact a fresh current db =
     (case trace_invalid redact a of
        Some message \<Rightarrow> (Inl (ValueError message), db)
      | None \<Rightarrow>
          (case delivery_with_message db (xa_delivery_id a) of
             None \<Rightarrow> (Inr Missing, db)
           | Some (d, m) \<Rightarrow>
               (case find (\<lambda>t. tr_attempt_id t = xa_attempt_id a \<and> tr_delivery_id t = xa_delivery_id a
                              \<and> tr_stage t = xa_stage a) (db_traces db) of
                  Some existing \<Rightarrow>
                    (Inr (if row_values existing = trace_values redact a
                          then Duplicate (tr_sequence existing)
                          else Conflicting (tr_sequence existing)), db)
                | None \<Rightarrow>
                    if trace_full db (xa_attempt_id a) (xa_delivery_id a)
                    then (Inr Dropped,
                          upd_delivery (d_id d)
                            (\<lambda>r. (stamp_version r)\<lparr>d_trace_truncated := 1\<rparr>) db)
                    else if fresh \<in> tr_id ` set (db_traces db) then (Inl IntegrityError, db)
                    else
                      let seqno = db_trace_sequence db + 1;
                          row = \<lparr>tr_id = fresh, tr_sequence = seqno,
                                 tr_attempt_id = xa_attempt_id a, tr_delivery_id = xa_delivery_id a,
                                 tr_message_id = m_id m, tr_stage = xa_stage a,
                                 tr_outcome = xa_outcome a,
                                 tr_reason = safe_reason redact (xa_reason a),
                                 tr_evidence = xa_evidence a,
                                 tr_native_retry_safe = map_option of_bool (xa_native_retry_safe a),
                                 tr_destination_health_update = xa_destination_health_update a,
                                 tr_scope_generation = xa_scope_generation a,
                                 tr_recorded_at = current\<rparr>
                      in (Inr (Recorded seqno),
                          (upd_delivery (d_id d) stamp_version db)
                            \<lparr>db_traces := db_traces db @ [row], db_trace_sequence := seqno\<rparr>))))"

text \<open>\<open>relay_record_trace_event\<close>: the caller learns only whether the fact is on record.\<close>

definition relay_record_trace_event ::
  "(pystr \<Rightarrow> pystr) \<Rightarrow> trace_args \<Rightarrow> pystr \<Rightarrow> time \<Rightarrow> relay_db \<Rightarrow> bool relay_outcome" where
  "relay_record_trace_event redact a fresh current db =
     (case relay_trace_record redact a fresh current db of
        (Inl (ValueError _), db1) \<Rightarrow> (Inr False, db1)
      | (Inl e, db1) \<Rightarrow> (Inl e, db1)
      | (Inr (Recorded _), db1) \<Rightarrow> (Inr True, db1)
      | (Inr (Duplicate _), db1) \<Rightarrow> (Inr True, db1)
      | (Inr _, db1) \<Rightarrow> (Inr False, db1))"

section \<open>Reading\<close>

record trace_event =
  ev_sequence :: int
  ev_attempt_id :: pystr
  ev_delivery_id :: "pystr option"
  ev_shared :: bool
  ev_stage :: pystr
  ev_outcome :: "pystr option"
  ev_reason :: "pystr option"
  ev_evidence :: "pystr list option"
  ev_native_retry_safe :: "bool option"
  ev_destination_health_update :: "pystr option"
  ev_scope_generation :: "int option"
  ev_recorded_at :: time

definition trace_event :: "pystr list \<Rightarrow> relay_trace \<Rightarrow> trace_event" where
  "trace_event delivery_ids row =
     \<lparr>ev_sequence = tr_sequence row, ev_attempt_id = tr_attempt_id row,
      ev_delivery_id =
        (if tr_delivery_id row \<in> set delivery_ids then Some (tr_delivery_id row) else None),
      ev_shared = (tr_delivery_id row \<notin> set delivery_ids), ev_stage = tr_stage row,
      ev_outcome = tr_outcome row, ev_reason = tr_reason row, ev_evidence = tr_evidence row,
      ev_native_retry_safe = map_option (\<lambda>n. n \<noteq> 0) (tr_native_retry_safe row),
      ev_destination_health_update = tr_destination_health_update row,
      ev_scope_generation = tr_scope_generation row, ev_recorded_at = tr_recorded_at row\<rparr>"

text \<open>The message a trace request names: by its own identifier, or by that of one of its
  deliveries.\<close>

definition trace_subject :: "relay_db \<Rightarrow> pystr \<Rightarrow> (relay_error, relay_message) result" where
  "trace_subject db message_id =
     (case get_message db message_id of
        Some m \<Rightarrow> Inr m
      | None \<Rightarrow>
          if hex_suffixed (u ''relay-delivery-'') 32 message_id then
            (case delivery_with_message db message_id of
               None \<Rightarrow> Inl not_found_in_scope | Some (_, m) \<Rightarrow> Inr m)
          else Inl not_found_in_scope)"

definition trace_rows :: "relay_db \<Rightarrow> pystr list \<Rightarrow> int \<Rightarrow> int \<Rightarrow> relay_trace list" where
  "trace_rows db delivery_ids after_sequence upper =
     (let attempt_ids = map tr_attempt_id
            (filter (\<lambda>t. tr_delivery_id t \<in> set delivery_ids \<and> tr_sequence t \<le> upper) (db_traces db))
      in sort_key tr_sequence
           (filter (\<lambda>t. tr_attempt_id t \<in> set attempt_ids
                \<and> tr_sequence t > after_sequence \<and> tr_sequence t \<le> upper
                \<and> (tr_delivery_id t \<in> set delivery_ids
                   \<or> tr_stage t \<in> {u ''prepared'', u ''completed''})) (db_traces db)))"

record trace_page =
  tp_events :: "trace_event list"
  tp_has_more :: bool
  tp_upper :: int

definition trace_page_at ::
  "relay_db \<Rightarrow> pystr list \<Rightarrow> nat \<Rightarrow> int \<Rightarrow> int \<Rightarrow> trace_page" where
  "trace_page_at db delivery_ids limit after_sequence upper =
     (let rows = take (limit + 1) (trace_rows db delivery_ids after_sequence upper)
      in \<lparr>tp_events = map (trace_event delivery_ids) (take limit rows),
          tp_has_more = (length rows > limit), tp_upper = upper\<rparr>)"

text \<open>Whose facts a message's trace is read from: the rows of every attempt on one of its deliveries.\<close>

definition trace_attempts :: "relay_db \<Rightarrow> pystr list \<Rightarrow> int \<Rightarrow> pystr list" where
  "trace_attempts db delivery_ids upper =
     map tr_attempt_id
       (filter (\<lambda>t. tr_delivery_id t \<in> set delivery_ids \<and> tr_sequence t \<le> upper) (db_traces db))"

definition latest_completion :: "relay_db \<Rightarrow> pystr list \<Rightarrow> int \<Rightarrow> relay_trace option" where
  "latest_completion db delivery_ids upper =
     (case rev (sort_key tr_sequence
         (filter (\<lambda>t. tr_attempt_id t \<in> set (trace_attempts db delivery_ids upper)
             \<and> tr_stage t = u ''completed'' \<and> tr_sequence t \<le> upper) (db_traces db))) of
        [] \<Rightarrow> None
      | t # _ \<Rightarrow> Some t)"

section \<open>The summary of a trace\<close>

record delivery_snapshot =
  sn_delivery_id :: pystr
  sn_state :: delivery_state
  sn_stored_state :: delivery_state
  sn_attempts :: int
  sn_claimed_at :: "time option"
  sn_lease_expires_at :: "time option"
  sn_delivered_at :: "time option"
  sn_recipient_runtime :: pystr
  sn_recipient_session_ref :: pystr
  sn_recipient_endpoint_id :: "pystr option"
  sn_recipient_container_ref :: "pystr option"
  sn_recipient_endpoint_state :: "session_state option"
  sn_trace_version :: "int option"
  sn_trace_truncated :: bool
  sn_trace_pruned :: bool

definition delivery_snapshot :: "relay_db \<Rightarrow> relay_message \<Rightarrow> time \<Rightarrow> relay_delivery \<Rightarrow> delivery_snapshot" where
  "delivery_snapshot db m current d =
     \<lparr>sn_delivery_id = d_id d, sn_state = effective_state current d m, sn_stored_state = d_state d,
      sn_attempts = d_attempts d, sn_claimed_at = d_claimed_at d, sn_lease_expires_at = d_lease_expires_at d,
      sn_delivered_at = d_delivered_at d, sn_recipient_runtime = d_recipient_runtime d,
      sn_recipient_session_ref = d_recipient_session_ref d,
      sn_recipient_endpoint_id = d_recipient_endpoint_id d,
      sn_recipient_container_ref = d_recipient_container_ref d,
      sn_recipient_endpoint_state = map_option s_state (session_by_endpoint db (d_recipient_endpoint_id d)),
      sn_trace_version = d_trace_version d, sn_trace_truncated = (d_trace_truncated d \<noteq> 0),
      sn_trace_pruned = (d_trace_pruned d \<noteq> 0)\<rparr>"

definition state_text :: "delivery_state \<Rightarrow> pystr" where
  "state_text st =
     (case st of Pending \<Rightarrow> u ''pending'' | Claimed \<Rightarrow> u ''claimed'' | Delivered \<Rightarrow> u ''delivered''
      | Expired \<Rightarrow> u ''expired'' | Suppressed \<Rightarrow> u ''suppressed'')"

definition state_counts :: "delivery_snapshot list \<Rightarrow> pystr" where
  "state_counts snaps =
     join_texts (u '', '')
       (map (\<lambda>st. st @ u ''='' @ dec (int (length (filter (\<lambda>x. state_text (sn_state x) = st) snaps))))
         (sort (remdups (map (\<lambda>x. state_text (sn_state x)) snaps))))"

text \<open>What is known of the last activation of a message with a single or several recipients.\<close>

definition completed_as :: "relay_trace option \<Rightarrow> pystr list \<Rightarrow> bool" where
  "completed_as completion outcomes \<longleftrightarrow>
     (case completion of None \<Rightarrow> False | Some t \<Rightarrow> tr_outcome t \<in> Some ` set outcomes)"

definition guide_codex_prompt :: "delivery_snapshot list \<Rightarrow> relay_trace option \<Rightarrow> bool" where
  "guide_codex_prompt snaps completion \<longleftrightarrow>
     (case (snaps, completion) of
        ([x], Some t) \<Rightarrow> sn_recipient_runtime x = u ''codex'' \<and> tr_delivery_id t = sn_delivery_id x
      | _ \<Rightarrow> False)"

text \<open>What the reader of a trace is told, in the order the code decides it.\<close>

datatype trace_advice =
    TellDelivered
  | TellMixed
  | TellExpiredUnclaimed
  | TellExpired
  | TellLegacy
  | TellGap
  | TellHeldCodex
  | TellHeld
  | TellUnreachable
  | TellAccepted
  | TellNotCompleted
  | TellClaimed
  | TellNothingRecorded

definition trace_advice ::
  "delivery_snapshot list \<Rightarrow> relay_trace option \<Rightarrow> bool \<Rightarrow> bool \<Rightarrow> trace_advice" where
  "trace_advice snaps completion legacy gap =
     (let states = sn_state ` set snaps
      in if states = {Delivered} then TellDelivered
         else if 1 < card states then TellMixed
         else if states = {Expired} then
           (if list_all (\<lambda>x. sn_attempts x = 0 \<and> sn_claimed_at x = None) snaps then TellExpiredUnclaimed
            else TellExpired)
         else if legacy then TellLegacy
         else if gap then TellGap
         else if states = {Pending} \<and> completed_as completion [u ''uncertain''] then
           (if guide_codex_prompt snaps completion then TellHeldCodex else TellHeld)
         else if states = {Pending} \<and> Some Unreachable \<in> sn_recipient_endpoint_state ` set snaps
         then TellUnreachable
         else if states = {Pending} \<and> completed_as completion [u ''accepted''] then TellAccepted
         else if states = {Pending} \<and> completed_as completion [u ''deferred'', u ''failed'']
         then TellNotCompleted
         else if states = {Claimed} then TellClaimed
         else TellNothingRecorded)"

definition held_text :: pystr where
  "held_text = u ''Needs intervention: Native activation is uncertain, so automatic retry is held because the submission may already have succeeded. ''"

fun advice_text :: "delivery_snapshot list \<Rightarrow> trace_advice \<Rightarrow> pystr" where
  "advice_text snaps TellDelivered =
     u ''Delivered: All recipient deliveries were acknowledged; no reply or action is implied.''"
| "advice_text snaps TellMixed =
     u ''Mixed delivery states: '' @ state_counts snaps
       @ u ''. Review each recipient snapshot; current delivery state is authoritative.''"
| "advice_text snaps TellExpiredUnclaimed =
     u ''Expired: The message expired before any recipient claimed it; no valid payload was delivered before expiry.''"
| "advice_text snaps TellExpired =
     u ''Expired: No recipient delivery was acknowledged before expiry. Payload processing and hook outcome remain unknown despite prior claim or activation evidence.''"
| "advice_text snaps TellLegacy =
     u ''Unknown: This delivery predates trace support; activation evidence is unavailable. Use the current delivery state as authoritative.''"
| "advice_text snaps TellGap =
     u ''Unknown: Trace evidence has a known gap. Use the current delivery state as authoritative; recorded activation events may be incomplete.''"
| "advice_text snaps TellHeldCodex = held_text
     @ u ''Enter a normal user prompt directly in the existing Codex recipient task to process the retained message; app-message delegation may not invoke UserPromptSubmit; do not resend it.''"
| "advice_text snaps TellHeld = held_text
     @ u ''Start an ordinary turn in the recipient task to process the retained message; do not resend it.''"
| "advice_text snaps TellUnreachable =
     u ''Needs intervention: The target is currently unavailable. The pending delivery remains stored; restore the recipient and start an ordinary turn instead of resending it.''"
| "advice_text snaps TellAccepted =
     u ''Queued: Native activation was accepted and the Relay delivery remains pending. It may wait for the recipient's current turn to finish before a safe turn begins; acceptance does not prove payload admission.''"
| "advice_text snaps TellNotCompleted =
     u ''Queued: Native activation did not complete. The Relay delivery remains pending for an ordinary eligible recipient turn.''"
| "advice_text snaps TellClaimed =
     u ''Claimed: The recipient holds an active delivery lease, but ACK has not been recorded. Current delivery state is authoritative.''"
| "advice_text snaps TellNothingRecorded =
     u ''Queued: No activation outcome is recorded. The pending delivery remains stored for an ordinary eligible recipient turn.''"

text \<open>Four of the texts end with a note on missing evidence.\<close>

definition trace_explanation ::
  "delivery_snapshot list \<Rightarrow> relay_trace option \<Rightarrow> bool \<Rightarrow> bool \<Rightarrow> pystr" where
  "trace_explanation snaps completion legacy gap =
     (let advice = trace_advice snaps completion legacy gap
      in advice_text snaps advice
         @ (if gap \<and> advice \<in> {TellDelivered, TellMixed, TellExpiredUnclaimed, TellExpired}
            then u '' Activation evidence is incomplete or unavailable.'' else []))"

record trace_report =
  rp_contract :: pystr
  rp_message_id :: pystr
  rp_page :: trace_page
  rp_snapshots :: "delivery_snapshot list"
  rp_next_sequence :: int
  rp_completeness :: pystr
  rp_legacy :: bool
  rp_absent :: bool
  rp_truncated :: bool
  rp_pruned :: bool
  rp_gap :: bool
  rp_explanation :: pystr

definition trace_report ::
  "relay_db \<Rightarrow> relay_message \<Rightarrow> relay_delivery list \<Rightarrow> trace_page \<Rightarrow> int \<Rightarrow> time \<Rightarrow> trace_report" where
  "trace_report db m deliveries page after_sequence current =
     (let snaps = map (delivery_snapshot db m current) deliveries;
          truncated = list_ex (\<lambda>d. d_trace_truncated d \<noteq> 0) deliveries;
          pruned = list_ex (\<lambda>d. d_trace_pruned d \<noteq> 0) deliveries;
          legacy = (deliveries \<noteq> [] \<and> list_all (\<lambda>d. d_trace_version d = None) deliveries);
          gap = (list_ex (\<lambda>d. d_trace_version d = None) deliveries \<or> truncated \<or> pruned)
      in \<lparr>rp_contract = u ''relay-delivery-trace/v1'', rp_message_id = m_id m, rp_page = page,
          rp_snapshots = snaps,
          rp_next_sequence =
            (if tp_events page = [] then after_sequence else ev_sequence (last (tp_events page))),
          rp_completeness = u ''best_effort'', rp_legacy = legacy, rp_absent = (tp_events page = []),
          rp_truncated = truncated, rp_pruned = pruned, rp_gap = gap,
          rp_explanation =
            trace_explanation snaps (latest_completion db (map d_id deliveries) (tp_upper page)) legacy gap\<rparr>)"

definition relay_trace_message ::
  "relay_db \<Rightarrow> pystr \<Rightarrow> nat \<Rightarrow> int \<Rightarrow> int option \<Rightarrow> time \<Rightarrow> (relay_error, trace_report) result" where
  "relay_trace_message db message_id limit after_sequence as_of_sequence current =
     (if \<not> (1 \<le> limit \<and> limit \<le> 100)
         \<or> \<not> (0 \<le> after_sequence \<and> after_sequence \<le> trace_max_sequence)
         \<or> (case as_of_sequence of None \<Rightarrow> False
            | Some n \<Rightarrow> \<not> (0 \<le> n \<and> n \<le> trace_max_sequence) \<or> after_sequence > n)
      then Inl (ValueError (u ''invalid trace page''))
      else
        (case trace_subject db message_id of
           Inl e \<Rightarrow> Inl e
         | Inr m \<Rightarrow>
             let deliveries = sort_key d_id (message_deliveries db (m_id m));
                 upper = (case as_of_sequence of
                            Some n \<Rightarrow> n
                          | None \<Rightarrow> fold max (map tr_sequence (db_traces db)) 0)
             in Inr (trace_report db m deliveries
                  (trace_page_at db (map d_id deliveries) limit after_sequence upper) after_sequence current)))"

text \<open>Whether a report begins with a word.\<close>

definition told :: "string \<Rightarrow> trace_report \<Rightarrow> bool" where
  "told word r \<longleftrightarrow> take (length word) (rp_explanation r) = u word"

section \<open>Wake health\<close>

datatype evidence = Complete | RowLimit | Incomplete

record wake_health =
  wh_initialized :: bool
  wh_counts :: "wake_outcome \<Rightarrow> nat"
  wh_eligible_pending_count :: "nat option"
  wh_oldest_pending_age_seconds :: "int option"
  wh_pending_evidence :: evidence
  wh_unresolved_uncertain_count :: "nat option"
  wh_uncertainty_evidence :: evidence

definition outer_row ::
  "relay_db \<Rightarrow> relay_delivery \<Rightarrow> relay_delivery \<times> relay_message option \<times> relay_session option" where
  "outer_row db d =
     (d, get_message db (d_message_id d), session_by_endpoint db (d_recipient_endpoint_id d))"

definition health_candidates ::
  "relay_db \<Rightarrow> time \<Rightarrow> (relay_delivery \<times> relay_message option \<times> relay_session option) list" where
  "health_candidates db current =
     take (max_reservations + 1)
       (filter (\<lambda>(d, m, s). d_recipient_runtime d = u ''codex'' \<and> wake_pending current True d
           \<and> (case m of None \<Rightarrow> True | Some m \<Rightarrow> m_expires_at m > current)
           \<and> (case s of None \<Rightarrow> True | Some s \<Rightarrow> s_state s = Active))
         (map (outer_row db) (db_deliveries db)))"

definition candidate_bound :: "relay_delivery \<times> relay_message option \<times> relay_session option \<Rightarrow> bool" where
  "candidate_bound row =
     (case row of
        (d, Some m, Some s) \<Rightarrow> s_runtime s = d_recipient_runtime d
          \<and> s_session_ref s = d_recipient_session_ref d
          \<and> Some (s_container_ref s) = d_recipient_container_ref d
      | _ \<Rightarrow> False)"

datatype uncertainty = Settled | Unresolved | Unknown

definition classify_uncertain :: "relay_db \<Rightarrow> time \<Rightarrow> codex_reservation \<Rightarrow> uncertainty" where
  "classify_uncertain db current row =
     (case get_delivery db (r_delivery_id row) of
        None \<Rightarrow> Unknown
      | Some d \<Rightarrow>
          let message = get_message db (d_message_id d);
              session = session_by_endpoint db (d_recipient_endpoint_id d)
          in if d_state d \<in> {Delivered, Expired, Suppressed} then Settled
             else if open_state (d_state d)
                \<and> (case message of None \<Rightarrow> False | Some m \<Rightarrow> m_expires_at m \<le> current) then Settled
             else
               (case (message, session) of
                  (Some m, Some s) \<Rightarrow>
                    if \<not> open_state (d_state d)
                       \<or> d_recipient_endpoint_id d \<noteq> Some (r_recipient_endpoint_id row)
                       \<or> d_recipient_runtime d \<noteq> u ''codex'' \<or> s_runtime s \<noteq> u ''codex''
                       \<or> s_session_ref s \<noteq> r_session_ref row
                       \<or> d_recipient_session_ref d \<noteq> r_session_ref row
                       \<or> s_container_ref s \<noteq> r_container_ref row
                       \<or> d_recipient_container_ref d \<noteq> Some (r_container_ref row)
                       \<or> d_codex_wake_generation d \<notin> {None, Some (r_generation row)}
                    then Unknown else Unresolved
                | _ \<Rightarrow> Unknown))"

text \<open>The code stops its two loops at the first row that makes the evidence incomplete, and then
  reports no count; here every row is classified.\<close>

definition relay_codex_wake_health ::
  "(pystr \<Rightarrow> bool) \<Rightarrow> relay_db \<Rightarrow> time \<Rightarrow> (relay_error, wake_health) result" where
  "relay_codex_wake_health printable db current =
     (case validate_wake_authority printable db of
        Inl e \<Rightarrow> Inl e
      | Inr reservations \<Rightarrow>
          let candidates = health_candidates db current;
              pending_evidence =
                (if length candidates > max_reservations then RowLimit
                 else if list_all candidate_bound candidates then Complete else Incomplete);
              ages = List.map_filter (\<lambda>(d, m, s). case m of
                         None \<Rightarrow> None
                       | Some m \<Rightarrow>
                           if render_safe (m_payload m)
                           then Some (max 0 ((current - m_created_at m) div 1000000)) else None)
                       candidates;
              classes = map (classify_uncertain db current)
                          (filter (\<lambda>r. r_outcome r = Uncertain) reservations);
              unresolved = length (filter (\<lambda>c. c = Unresolved) classes);
              known = (Unknown \<notin> set classes)
          in Inr \<lparr>wh_initialized = (db_wake_marker db \<noteq> None),
                  wh_counts = (\<lambda>oc. length (filter (\<lambda>r. r_outcome r = oc) reservations)),
                  wh_eligible_pending_count =
                    (if pending_evidence = Complete then Some (length ages) else None),
                  wh_oldest_pending_age_seconds =
                    (if pending_evidence = Complete \<and> ages \<noteq> [] then Some (Max (set ages)) else None),
                  wh_pending_evidence = pending_evidence,
                  wh_unresolved_uncertain_count = (if known then Some unresolved else None),
                  wh_uncertainty_evidence = (if known then Complete else Incomplete)\<rparr>)"

end
