(* ===== verification/Relay_Invariant.thy ===== *)
theory Relay_Invariant
  imports Relay_Trace
begin

text \<open>
  What every Relay transaction keeps of the database, one predicate per table or pair of tables
  that constrain each other, and the order in which a database evolves: messages are immutable,
  deliveries only advance through their life cycle, the wake generation never goes back.
\<close>

section \<open>The life cycle of a delivery\<close>

definition delivery_wf :: "relay_delivery \<Rightarrow> bool" where
  "delivery_wf d \<longleftrightarrow> 0 \<le> d_attempts d \<and>
     (case d_state d of
        Pending \<Rightarrow> d_claim_token d = None \<and> d_claimed_at d = None \<and> d_lease_expires_at d = None
          \<and> d_delivered_at d = None \<and> d_attempts d = 0
      | Claimed \<Rightarrow> d_claim_token d \<noteq> None \<and> d_claimed_at d \<noteq> None \<and> d_lease_expires_at d \<noteq> None
          \<and> d_delivered_at d = None \<and> 1 \<le> d_attempts d
      | Delivered \<Rightarrow> d_claim_token d \<noteq> None \<and> d_claimed_at d \<noteq> None
          \<and> d_lease_expires_at d \<noteq> None \<and> d_delivered_at d \<noteq> None \<and> 1 \<le> d_attempts d
      | Expired \<Rightarrow> d_claim_token d = None \<and> d_delivered_at d = None
      | Suppressed \<Rightarrow> d_delivered_at d = None)"

definition same_address :: "relay_delivery \<Rightarrow> relay_delivery \<Rightarrow> bool" where
  "same_address d e \<longleftrightarrow> d_id e = d_id d \<and> d_message_id e = d_message_id d
     \<and> d_recipient_runtime e = d_recipient_runtime d
     \<and> d_recipient_session_ref e = d_recipient_session_ref d
     \<and> d_recipient_endpoint_id e = d_recipient_endpoint_id d
     \<and> d_recipient_container_ref e = d_recipient_container_ref d"

text \<open>A delivered, expired or suppressed delivery is final; a claimed one is never pending again.\<close>

definition advances :: "relay_delivery \<Rightarrow> relay_delivery \<Rightarrow> bool" where
  "advances d e \<longleftrightarrow> same_address d e \<and> d_attempts d \<le> d_attempts e
     \<and> (\<not> open_state (d_state d) \<longrightarrow> d_state e = d_state d \<and> d_claim_token e = d_claim_token d
          \<and> d_delivered_at e = d_delivered_at d \<and> d_attempts e = d_attempts d)
     \<and> (d_state d = Claimed \<longrightarrow> d_state e \<noteq> Pending)"

lemma advances_refl [simp, intro]: "advances d d"
  by (simp add: advances_def same_address_def)

lemma advances_trans: "advances a b \<Longrightarrow> advances b c \<Longrightarrow> advances a c"
  by (auto simp: advances_def same_address_def open_state_def)

text \<open>A change that keeps the row well formed and advances it.\<close>

definition good_change :: "relay_delivery \<Rightarrow> relay_delivery \<Rightarrow> bool" where
  "good_change d e \<longleftrightarrow> (delivery_wf d \<longrightarrow> delivery_wf e) \<and> advances d e"

lemma good_change_refl [simp, intro]: "good_change d d"
  by (simp add: good_change_def)

lemma good_change_id: "good_change d e \<Longrightarrow> d_id e = d_id d \<and> delivery_recipient e = delivery_recipient d
    \<and> d_message_id e = d_message_id d"
  by (simp add: good_change_def advances_def same_address_def delivery_recipient_def)

lemma mark_expired_good: "open_state (d_state d) \<Longrightarrow> good_change d (mark_expired d)"
  by (auto simp: good_change_def delivery_wf_def advances_def same_address_def mark_expired_def
      open_state_def)

lemma mark_delivered_good: "d_state d = Claimed \<Longrightarrow> good_change d (mark_delivered t d)"
  by (auto simp: good_change_def delivery_wf_def advances_def same_address_def mark_delivered_def
      open_state_def)

lemma claim_delivery_good:
  "open_state (d_state d) \<Longrightarrow> good_change d (claim_delivery a c s tok d)"
  by (auto simp: good_change_def delivery_wf_def advances_def same_address_def claim_delivery_def
      open_state_def)

lemma stamp_version_good: "good_change d (stamp_version d)"
  "good_change d ((stamp_version d)\<lparr>d_trace_truncated := n\<rparr>)"
  by (cases "d_state d"; simp add: good_change_def delivery_wf_def advances_def same_address_def
      stamp_version_def)+

section \<open>Invariants of the tables\<close>

text \<open>Messages and deliveries are inserted together, and neither is ever deleted, so the two
  tables run in step: one delivery for each message.\<close>

definition deliveries_ok :: "relay_delivery list \<Rightarrow> relay_message list \<Rightarrow> bool" where
  "deliveries_ok ds ms \<longleftrightarrow> distinct (map d_id ds) \<and> distinct (map delivery_recipient ds)
     \<and> list_all delivery_wf ds \<and> map d_message_id ds = map m_id ms"

definition messages_ok :: "relay_message list \<Rightarrow> bool" where
  "messages_ok ms \<longleftrightarrow> distinct (map m_id ms)"

definition sessions_ok :: "relay_session list \<Rightarrow> bool" where
  "sessions_ok ss \<longleftrightarrow> distinct (map s_id ss) \<and> distinct (map session_scope ss)
     \<and> (\<forall>s \<in> set ss. s_state s = Closed \<longrightarrow> s_alias s = None)"

definition aliases_ok :: "relay_session list \<Rightarrow> relay_alias list \<Rightarrow> bool" where
  "aliases_ok ss bs \<longleftrightarrow> distinct (map a_alias bs)
     \<and> (\<forall>s \<in> set ss. \<forall>a. s_alias s = Some a \<longrightarrow>
          (\<exists>b. row_get a_alias a bs = Some b \<and> a_endpoint_id b = Some (s_id s)))
     \<and> (\<forall>b \<in> set bs. \<forall>e. a_endpoint_id b = Some e \<longrightarrow>
          (\<exists>s \<in> set ss. s_id s = e \<and> s_alias s = Some (a_alias b)))"

definition work_refs_ok :: "relay_work_ref list \<Rightarrow> bool" where
  "work_refs_ok ws \<longleftrightarrow> distinct (map work_ref_key ws)
     \<and> (\<forall>e. length (filter (\<lambda>w. w_endpoint_id w = e \<and> w_origin w = Explicit) ws)
            \<le> max_explicit_work_refs)"

definition fences_ok :: "codex_reservation list \<Rightarrow> int option \<Rightarrow> bool" where
  "fences_ok rs marker \<longleftrightarrow> distinct (map r_recipient_endpoint_id rs) \<and> distinct (map r_delivery_id rs)
     \<and> (case marker of None \<Rightarrow> rs = []
        | Some g \<Rightarrow> 0 \<le> g \<and> g < 2 ^ 63 \<and> (\<forall>r \<in> set rs. r_generation r \<le> g))"

definition trials_ok :: "codex_trial list \<Rightarrow> bool" where
  "trials_ok ts \<longleftrightarrow> distinct (map t_recipient_endpoint_id ts) \<and> distinct (map t_trial_id ts)
     \<and> (\<forall>t \<in> set ts. t_spent t = 0 \<or> t_spent t = 1 \<and> t_delivery_id t \<noteq> None)"

definition opencode_ok :: "opencode_wake list \<Rightarrow> bool" where
  "opencode_ok os \<longleftrightarrow> distinct (map o_endpoint_id os)
     \<and> (\<forall>w \<in> set os. 0 \<le> o_failures w \<and> o_failures w \<le> 20)"

definition trace_key :: "relay_trace \<Rightarrow> pystr \<times> pystr \<times> pystr" where
  "trace_key t = (tr_attempt_id t, tr_delivery_id t, tr_stage t)"

definition traces_ok :: "relay_trace list \<Rightarrow> int \<Rightarrow> bool" where
  "traces_ok ts n \<longleftrightarrow> distinct (map tr_id ts) \<and> distinct (map trace_key ts)
     \<and> sorted_wrt (<) (map tr_sequence ts) \<and> (\<forall>t \<in> set ts. tr_sequence t \<le> n)
     \<and> length ts \<le> trace_max_rows
     \<and> (\<forall>k. length (filter (\<lambda>t. tr_delivery_id t = k) ts) \<le> 24)"

definition db_inv :: "relay_db \<Rightarrow> bool" where
  "db_inv db \<longleftrightarrow> sessions_ok (db_sessions db) \<and> aliases_ok (db_sessions db) (db_aliases db)
     \<and> messages_ok (db_messages db) \<and> deliveries_ok (db_deliveries db) (db_messages db)
     \<and> work_refs_ok (db_work_refs db) \<and> fences_ok (db_reservations db) (db_wake_marker db)
     \<and> trials_ok (db_trials db) \<and> opencode_ok (db_opencode db)
     \<and> distinct (map g_endpoint_id (db_generations db))
     \<and> traces_ok (db_traces db) (db_trace_sequence db)"

lemma db_inv_empty: "db_inv empty_db"
  by (simp add: db_inv_def empty_db_def sessions_ok_def aliases_ok_def messages_ok_def
      deliveries_ok_def work_refs_ok_def fences_ok_def trials_ok_def opencode_ok_def traces_ok_def)

section \<open>Evolution\<close>

definition same_identity :: "relay_session \<Rightarrow> relay_session \<Rightarrow> bool" where
  "same_identity s t \<longleftrightarrow> s_id t = s_id s \<and> s_runtime t = s_runtime s
     \<and> s_session_ref t = s_session_ref s \<and> s_first_seen_at t = s_first_seen_at s"

text \<open>A trial keeps the delivery it was bound to, and stays spent.\<close>

definition trial_advances :: "codex_trial \<Rightarrow> codex_trial \<Rightarrow> bool" where
  "trial_advances t t' \<longleftrightarrow> t_trial_id t' = t_trial_id t
     \<and> (t_delivery_id t \<noteq> None \<longrightarrow> t_delivery_id t' = t_delivery_id t)
     \<and> (t_spent t = 1 \<longrightarrow> t_spent t' = 1)"

lemma trial_advances_refl [simp, intro]: "trial_advances t t"
  by (simp add: trial_advances_def)

lemma trial_advances_trans: "trial_advances a b \<Longrightarrow> trial_advances b c \<Longrightarrow> trial_advances a c"
  by (auto simp: trial_advances_def)

lemma same_identity_refl [simp, intro]: "same_identity s s"
  by (simp add: same_identity_def)

lemma same_identity_trans: "same_identity a b \<Longrightarrow> same_identity b c \<Longrightarrow> same_identity a c"
  by (simp add: same_identity_def)

text \<open>The order: what was true of a message, a delivery, a session, the wake generation, a trial,
  an OpenCode fence, a scope generation and the trace stays true or moves forward.\<close>

definition evolves :: "relay_db \<Rightarrow> relay_db \<Rightarrow> bool" where
  "evolves db db' \<longleftrightarrow>
     (\<forall>k m. get_message db k = Some m \<longrightarrow> get_message db' k = Some m)
     \<and> (\<forall>k d. get_delivery db k = Some d \<longrightarrow> (\<exists>e. get_delivery db' k = Some e \<and> advances d e))
     \<and> (\<forall>k s. get_session db k = Some s \<longrightarrow> (\<exists>t. get_session db' k = Some t \<and> same_identity s t))
     \<and> (\<forall>g. db_wake_marker db = Some g \<longrightarrow> (\<exists>h \<ge> g. db_wake_marker db' = Some h))
     \<and> (\<forall>k t. get_trial db k = Some t \<longrightarrow> (\<exists>t'. get_trial db' k = Some t' \<and> trial_advances t t'))
     \<and> (\<forall>k w. get_opencode db k = Some w \<longrightarrow>
          (\<exists>w'. get_opencode db' k = Some w' \<and> o_generation w \<le> o_generation w'))
     \<and> (\<forall>k. scope_generation_of db k \<le> scope_generation_of db' k)
     \<and> (\<exists>ts. db_traces db' = db_traces db @ ts)"

lemma evolvesD:
  assumes "evolves db db'"
  shows "get_message db k = Some m \<Longrightarrow> get_message db' k = Some m"
    and "get_delivery db k = Some d \<Longrightarrow> \<exists>e. get_delivery db' k = Some e \<and> advances d e"
    and "get_session db k = Some s \<Longrightarrow> \<exists>t. get_session db' k = Some t \<and> same_identity s t"
    and "db_wake_marker db = Some g \<Longrightarrow> \<exists>h \<ge> g. db_wake_marker db' = Some h"
    and "get_trial db k = Some c \<Longrightarrow> \<exists>c'. get_trial db' k = Some c' \<and> trial_advances c c'"
    and "get_opencode db k = Some w \<Longrightarrow> \<exists>w'. get_opencode db' k = Some w' \<and> o_generation w \<le> o_generation w'"
    and "scope_generation_of db k \<le> scope_generation_of db' k"
    and "\<exists>ts. db_traces db' = db_traces db @ ts"
  using assms unfolding evolves_def by blast+

lemma evolvesI:
  assumes "\<And>k m. get_message db k = Some m \<Longrightarrow> get_message db' k = Some m"
    and "\<And>k d. get_delivery db k = Some d \<Longrightarrow> \<exists>e. get_delivery db' k = Some e \<and> advances d e"
    and "\<And>k s. get_session db k = Some s \<Longrightarrow> \<exists>t. get_session db' k = Some t \<and> same_identity s t"
    and "\<And>g. db_wake_marker db = Some g \<Longrightarrow> \<exists>h \<ge> g. db_wake_marker db' = Some h"
    and "\<And>k t. get_trial db k = Some t \<Longrightarrow> \<exists>t'. get_trial db' k = Some t' \<and> trial_advances t t'"
    and "\<And>k w. get_opencode db k = Some w \<Longrightarrow> \<exists>w'. get_opencode db' k = Some w' \<and> o_generation w \<le> o_generation w'"
    and "\<And>k. scope_generation_of db k \<le> scope_generation_of db' k"
    and "\<exists>ts. db_traces db' = db_traces db @ ts"
  shows "evolves db db'"
  using assms unfolding evolves_def by blast

lemma evolves_refl [simp, intro]: "evolves db db"
  by (rule evolvesI) auto

lemma evolves_trans:
  assumes ab: "evolves a b" and bc: "evolves b c"
  shows "evolves a c"
proof (rule evolvesI)
  show "get_message c k = Some m" if "get_message a k = Some m" for k m
    using evolvesD(1) [OF bc evolvesD(1) [OF ab that]] .
  show "\<exists>e. get_delivery c k = Some e \<and> advances d e" if "get_delivery a k = Some d" for k d
    using evolvesD(2) [OF ab that] evolvesD(2) [OF bc] advances_trans by blast
  show "\<exists>t. get_session c k = Some t \<and> same_identity s t" if "get_session a k = Some s" for k s
    using evolvesD(3) [OF ab that] evolvesD(3) [OF bc] same_identity_trans by blast
  show "\<exists>h \<ge> g. db_wake_marker c = Some h" if "db_wake_marker a = Some g" for g
    using evolvesD(4) [OF ab that] evolvesD(4) [OF bc] order_trans by blast
  show "\<exists>t'. get_trial c k = Some t' \<and> trial_advances t t'" if "get_trial a k = Some t" for k t
    using evolvesD(5) [OF ab that] evolvesD(5) [OF bc] trial_advances_trans by blast
  show "\<exists>w'. get_opencode c k = Some w' \<and> o_generation w \<le> o_generation w'" if "get_opencode a k = Some w" for k w
    using evolvesD(6) [OF ab that] evolvesD(6) [OF bc] order_trans by blast
  show "scope_generation_of a k \<le> scope_generation_of c k" for k
    using evolvesD(7) [OF ab] evolvesD(7) [OF bc] by (rule order_trans)
  show "\<exists>ts. db_traces c = db_traces a @ ts"
    using evolvesD(8) [OF ab] evolvesD(8) [OF bc] by auto
qed

text \<open>A change of columns that the order does not speak of.\<close>

lemma evolves_same:
  assumes "db_messages db' = db_messages db" "db_deliveries db' = db_deliveries db"
    "db_sessions db' = db_sessions db" "db_wake_marker db' = db_wake_marker db"
    "db_trials db' = db_trials db" "db_opencode db' = db_opencode db"
    "db_generations db' = db_generations db" "db_traces db' = db_traces db"
  shows "evolves db db'"
  using assms by (intro evolvesI) (auto simp: scope_generation_of_def)

lemma scope_generation_upd [simp]:
  "scope_generation_of (db_sessions_update f0 db) k = scope_generation_of db k"
  "scope_generation_of (db_work_refs_update f1 db) k = scope_generation_of db k"
  "scope_generation_of (db_messages_update f2 db) k = scope_generation_of db k"
  "scope_generation_of (db_deliveries_update f3 db) k = scope_generation_of db k"
  "scope_generation_of (db_traces_update f4 db) k = scope_generation_of db k"
  "scope_generation_of (db_trace_sequence_update f5 db) k = scope_generation_of db k"
  "scope_generation_of (db_aliases_update f6 db) k = scope_generation_of db k"
  "scope_generation_of (db_opencode_update f7 db) k = scope_generation_of db k"
  "scope_generation_of (db_trials_update f8 db) k = scope_generation_of db k"
  "scope_generation_of (db_reservations_update f9 db) k = scope_generation_of db k"
  "scope_generation_of (db_wake_marker_update f10 db) k = scope_generation_of db k"
  by (simp_all add: scope_generation_of_def)

text \<open>Both together: what one transaction does to a database.\<close>

definition keeps :: "relay_db \<Rightarrow> relay_db \<Rightarrow> bool" where
  "keeps db db' \<longleftrightarrow> (db_inv db \<longrightarrow> db_inv db') \<and> (db_inv db \<longrightarrow> evolves db db')"

lemma keeps_refl [simp, intro]: "keeps db db"
  by (simp add: keeps_def)

lemma keeps_trans: "keeps a b \<Longrightarrow> keeps b c \<Longrightarrow> keeps a c"
  by (auto simp: keeps_def intro: evolves_trans)

lemma keepsI: "(db_inv db \<Longrightarrow> db_inv db' \<and> evolves db db') \<Longrightarrow> keeps db db'"
  by (simp add: keeps_def)

section \<open>Changing delivery rows\<close>

lemma row_get_map:
  assumes "\<And>r. r \<in> set rows \<Longrightarrow> pk (g r) = pk r"
  shows "row_get pk k (map g rows) = map_option g (row_get pk k rows)"
  using assms by (induction rows) (auto simp: row_get_Cons)

lemma row_upd_as_map: "row_upd pk k f rows = map (\<lambda>r. if pk r = k then f r else r) rows"
  by (simp add: row_upd_def)

lemma deliveries_ok_map:
  assumes ok: "deliveries_ok ds ms" and good: "\<And>d. d \<in> set ds \<Longrightarrow> good_change d (g d)"
  shows "deliveries_ok (map g ds) ms"
proof -
  have "map d_id (map g ds) = map d_id ds" "map delivery_recipient (map g ds) = map delivery_recipient ds"
    using good good_change_id by auto
  moreover have "map d_message_id (map g ds) = map d_message_id ds" using good good_change_id by auto
  moreover have "list_all delivery_wf (map g ds)"
    using ok good by (auto simp: deliveries_ok_def good_change_def list_all_iff)
  ultimately show ?thesis using ok unfolding deliveries_ok_def by (simp only:)
qed

lemma keeps_deliveries:
  assumes "\<And>d. d \<in> set (db_deliveries db) \<Longrightarrow> good_change d (g d)"
  shows "keeps db (db\<lparr>db_deliveries := map g (db_deliveries db)\<rparr>)"
proof (rule keepsI, rule conjI)
  assume "db_inv db"
  then show "db_inv (db\<lparr>db_deliveries := map g (db_deliveries db)\<rparr>)"
    using deliveries_ok_map [OF _ assms] by (simp add: db_inv_def)
  have "row_get d_id k (map g (db_deliveries db)) = map_option g (get_delivery db k)" for k
    using assms good_change_id by (intro row_get_map) blast
  then show "evolves db (db\<lparr>db_deliveries := map g (db_deliveries db)\<rparr>)"
    using assms by (intro evolvesI) (auto simp: good_change_def dest: row_get_SomeD(1))
qed

lemma keeps_upd_delivery [preserves]:
  assumes "\<And>d. d \<in> set (db_deliveries db) \<Longrightarrow> d_id d = k \<Longrightarrow> good_change d (f d)"
  shows "keeps db (upd_delivery k f db)"
  unfolding upd_delivery_def row_upd_as_map using assms by (intro keeps_deliveries) auto

lemma keeps_expire_message [preserves]: "keeps db (expire_message_deliveries m db)"
  unfolding expire_message_deliveries_def rows_where_def
  by (intro keeps_deliveries) (auto intro: mark_expired_good)

lemma keeps_expire_sweep [preserves]: "keeps db (expire_sweep c db)"
  unfolding expire_sweep_def rows_where_def
  by (intro keeps_deliveries) (auto intro: mark_expired_good)

text \<open>Under the invariant an identifier determines its row.\<close>

lemma delivery_row_unique:
  assumes "db_inv db" and "get_delivery db k = Some d" and "e \<in> set (db_deliveries db)" and "d_id e = k"
  shows "e = d"
  using assms row_get_distinct [of d_id "db_deliveries db" e]
  by (simp add: db_inv_def deliveries_ok_def)

lemma keeps_upd_delivery_at:
  assumes "get_delivery db k = Some d" and "good_change d (f d)"
  shows "keeps db (upd_delivery k f db)"
proof (rule keepsI)
  assume inv: "db_inv db"
  have "keeps db (upd_delivery k f db)"
    using assms delivery_row_unique [OF inv assms(1)] by (intro keeps_upd_delivery) auto
  with inv show "db_inv (upd_delivery k f db) \<and> evolves db (upd_delivery k f db)"
    by (simp add: keeps_def)
qed

section \<open>Messages and acknowledgements\<close>

lemma keeps_status [preserves]: "keeps db (snd (relay_status_in_session H m c po pl db))"
  by (auto simp: relay_status_in_session_def Let_def intro: keeps_expire_message split: sum.split)

lemma keeps_insert:
  assumes "insert_message m d db = (Inr x, db')" and "delivery_wf d" and "d_message_id d = m_id m"
  shows "keeps db db'"
proof (rule keepsI)
  assume inv: "db_inv db"
  from assms(1) have new: "m_id m \<notin> m_id ` set (db_messages db)"
      "d_id d \<notin> d_id ` set (db_deliveries db)"
      "delivery_recipient d \<notin> delivery_recipient ` set (db_deliveries db)"
    and db': "db' = db\<lparr>db_messages := db_messages db @ [m], db_deliveries := db_deliveries db @ [d]\<rparr>"
    by (auto simp: insert_message_def split: if_splits)
  have "db_inv db'"
    using inv new assms(2,3) unfolding db' db_inv_def messages_ok_def deliveries_ok_def by auto
  moreover have "evolves db db'"
    by (intro evolvesI) (auto simp: db' row_get_append)
  ultimately show "db_inv db' \<and> evolves db db'" ..
qed

lemma new_delivery_wf [simp]: "delivery_wf (new_delivery fresh k t)"
  by (simp add: delivery_wf_def new_delivery_def)

lemma new_delivery_message [simp]: "d_message_id (new_delivery fresh k t) = k"
  by (simp add: new_delivery_def)

lemma insert_message_failed: "insert_message m d db = (Inl e, db') \<Longrightarrow> db' = db"
  by (auto simp: insert_message_def split: if_splits)

lemma keeps_insert_status:
  assumes "d_message_id d = m_id m" and "delivery_wf d"
  shows "keeps db (snd (case insert_message m d db of (Inl e, db1) \<Rightarrow> (Inl e, db1)
      | (Inr _, db1) \<Rightarrow> relay_status_in_session H m c 0 None db1))"
  using assms
  by (auto split: prod.split sum.split intro: keeps_trans [OF keeps_insert keeps_status]
      dest: insert_message_failed)

lemma keeps_send [preserves]: "keeps db (snd (relay_send H a fresh c db))"
  by (auto simp: relay_send_def Let_def intro!: keeps_status keeps_insert_status
      split: option.split sum.split)

lemma keeps_message_status [preserves]: "keeps db (snd (relay_message_status H k off n c db))"
  by (auto simp: relay_message_status_def intro!: keeps_status split: option.split)

lemma keeps_ack [preserves]: "keeps db (snd (relay_ack k tok c db))"
  by (auto simp: relay_ack_def open_state_def split: option.split prod.split
      intro!: keeps_upd_delivery_at mark_expired_good mark_delivered_good
      dest: delivery_with_message_SomeD)

lemma keeps_ack_by_receipt [preserves]: "keeps db (snd (relay_ack_by_receipt H k r c db))"
  by (auto simp: relay_ack_by_receipt_def open_state_def split: option.split prod.split sum.split
      intro!: keeps_upd_delivery_at mark_expired_good mark_delivered_good
      dest: delivery_with_message_SomeD)

end
