(* ===== verification/Relay_Preservation.thy ===== *)
theory Relay_Preservation
  imports Relay_Invariant
begin

text \<open>
  The remaining transactions keep the invariant and evolve the database: replies, session and
  alias changes, work references, the OpenCode fence, trials, wake reservations and the trace.
\<close>

section \<open>Replies\<close>

lemma delivery_with_message_row:
  "delivery_with_message db k = Some (d, m) \<Longrightarrow> get_delivery db (d_id d) = Some d"
  by (auto dest: delivery_with_message_SomeD)

lemma keeps_create_reply:
  assumes "get_delivery db (d_id d) = Some d"
  shows "keeps db (snd (create_reply H a d m s fresh c db))"
proof -
  have step: "keeps db (snd (relay_status_in_session H r c 0 None
      (if d_state d = Claimed then upd_delivery (d_id d) (mark_delivered c) db1 else db1)))"
    if "insert_message r (new_delivery fresh (ra_reply_message_id a) t) db = (Inr x, db1)"
      "m_id r = ra_reply_message_id a" for r t x db1
  proof -
    have "keeps db db1" using that by (intro keeps_insert) auto
    moreover have "get_delivery db1 (d_id d) = Some d"
      using that(1) assms by (auto simp: insert_message_def row_get_append split: if_splits)
    ultimately show ?thesis
      by (auto intro!: keeps_trans [OF _ keeps_status] keeps_trans [OF _ keeps_upd_delivery_at]
          mark_delivered_good)
  qed
  show ?thesis
    using step
    by (auto simp: create_reply_def Let_def split: sum.split prod.split dest: insert_message_failed)
qed

lemma keeps_reply [preserves]: "keeps db (snd (relay_reply_atomic H a fresh c db))"
proof -
  have exp: "keeps db (upd_delivery (d_id d) mark_expired db)"
    if "delivery_with_message db k = Some (d, m)" "reply_allowed H d m r c = Inr True" for d m k r
    using that delivery_with_message_SomeD [OF that(1)]
    by (intro keeps_upd_delivery_at [of _ _ d] mark_expired_good)
      (auto simp: reply_allowed_def open_state_def split: if_splits option.splits sum.splits)
  show ?thesis
    by (auto simp: relay_reply_atomic_def intro!: exp keeps_status keeps_create_reply
        dest: delivery_with_message_row split: option.split sum.split prod.split bool.split)
qed

section \<open>Sessions\<close>

text \<open>A session row rewritten in place, keeping its identity, scope and alias.\<close>

definition same_session :: "relay_session \<Rightarrow> relay_session \<Rightarrow> bool" where
  "same_session s t \<longleftrightarrow> same_identity s t \<and> s_container_ref t = s_container_ref s
     \<and> s_alias t = s_alias s \<and> (s_state t = Closed \<longrightarrow> s_state s = Closed)"

lemma same_session_refl [simp]: "same_session s s"
  by (simp add: same_session_def same_identity_def)

lemma keeps_sessions:
  assumes good: "\<And>s. s \<in> set (db_sessions db) \<Longrightarrow> same_session s (g s)"
  shows "keeps db (db\<lparr>db_sessions := map g (db_sessions db)\<rparr>)"
proof (rule keepsI, rule conjI)
  assume inv: "db_inv db"
  have same: "map s_id (map g (db_sessions db)) = map s_id (db_sessions db)"
    "map session_scope (map g (db_sessions db)) = map session_scope (db_sessions db)"
    using good by (auto simp: same_session_def same_identity_def session_scope_def)
  have "sessions_ok (map g (db_sessions db))"
    using inv good same unfolding db_inv_def sessions_ok_def same_session_def
    by (simp only: same set_map) (metis (no_types, lifting) imageE)
  moreover have "aliases_ok (map g (db_sessions db)) (db_aliases db)"
    using inv good unfolding db_inv_def aliases_ok_def same_session_def same_identity_def
    by (simp only: set_map ball_simps bex_simps) (metis (no_types, lifting))
  ultimately show "db_inv (db\<lparr>db_sessions := map g (db_sessions db)\<rparr>)"
    using inv by (simp add: db_inv_def)
  have "row_get s_id k (map g (db_sessions db)) = map_option g (get_session db k)" for k
    using good by (intro row_get_map) (simp add: same_session_def same_identity_def)
  then show "evolves db (db\<lparr>db_sessions := map g (db_sessions db)\<rparr>)"
    using good by (intro evolvesI) (auto simp: same_session_def dest: row_get_SomeD(1))
qed

lemma session_row_unique:
  assumes "db_inv db" and "s \<in> set (db_sessions db)" and "t \<in> set (db_sessions db)" and "s_id s = s_id t"
  shows "s = t"
  using assms by (auto simp: db_inv_def sessions_ok_def distinct_map inj_on_def)

lemma keeps_upd_session:
  assumes "s \<in> set (db_sessions db)" and "k = s_id s" and "same_session s (f s)"
  shows "keeps db (db\<lparr>db_sessions := row_upd s_id k f (db_sessions db)\<rparr>)"
proof (rule keepsI)
  assume inv: "db_inv db"
  have "keeps db (db\<lparr>db_sessions := row_upd s_id k f (db_sessions db)\<rparr>)"
    unfolding row_upd_def using assms session_row_unique [OF inv _ assms(1)]
    by (intro keeps_sessions) auto
  with inv show "db_inv (db\<lparr>db_sessions := row_upd s_id k f (db_sessions db)\<rparr>)
      \<and> evolves db (db\<lparr>db_sessions := row_upd s_id k f (db_sessions db)\<rparr>)"
    by (simp add: keeps_def)
qed

lemma keeps_mark_unreachable [preserves]: "keeps db (snd (relay_mark_unreachable r ref ct t db))"
  by (auto simp: relay_mark_unreachable_def upd_session_def same_session_def same_identity_def
      intro!: keeps_upd_session dest: find_session_SomeD split: option.split)

lemma keeps_mark_active [preserves]: "keeps db (snd (relay_mark_active r ref ct t db))"
  by (auto simp: relay_mark_active_def upd_session_def same_session_def same_identity_def
      intro!: keeps_upd_session dest: find_session_SomeD split: option.split)

section \<open>Aliases\<close>

text \<open>The endpoint a name is bound to, and the invariant restated over it.\<close>

definition alias_owner :: "relay_alias list \<Rightarrow> pystr \<Rightarrow> pystr option" where
  "alias_owner bs a = Option.bind (row_get a_alias a bs) a_endpoint_id"

lemma aliases_ok_iff:
  "aliases_ok ss bs \<longleftrightarrow> distinct (map a_alias bs)
     \<and> (\<forall>s \<in> set ss. \<forall>a. s_alias s = Some a \<longrightarrow> alias_owner bs a = Some (s_id s))
     \<and> (\<forall>a e. alias_owner bs a = Some e \<longrightarrow> (\<exists>s \<in> set ss. s_id s = e \<and> s_alias s = Some a))"
proof -
  have "(\<forall>b \<in> set bs. \<forall>e. a_endpoint_id b = Some e \<longrightarrow> P (a_alias b) e)
      \<longleftrightarrow> (\<forall>a e. alias_owner bs a = Some e \<longrightarrow> P a e)" if "distinct (map a_alias bs)" for P
  proof
    assume all: "\<forall>b \<in> set bs. \<forall>e. a_endpoint_id b = Some e \<longrightarrow> P (a_alias b) e"
    show "\<forall>a e. alias_owner bs a = Some e \<longrightarrow> P a e"
      using all row_get_SomeD [of a_alias _ bs] by (fastforce simp: alias_owner_def bind_eq_Some_conv)
  next
    assume all: "\<forall>a e. alias_owner bs a = Some e \<longrightarrow> P a e"
    show "\<forall>b \<in> set bs. \<forall>e. a_endpoint_id b = Some e \<longrightarrow> P (a_alias b) e"
      using all row_get_distinct [OF that] by (simp add: alias_owner_def)
  qed
  from this [of "\<lambda>a e. \<exists>s \<in> set ss. s_id s = e \<and> s_alias s = Some a"] show ?thesis
    by (auto simp: aliases_ok_def alias_owner_def bind_eq_Some_conv)
qed

lemma keeps_session_names:
  assumes good: "\<And>s. db_inv db \<Longrightarrow> s \<in> set (db_sessions db) \<Longrightarrow>
      same_identity s (g s) \<and> s_container_ref (g s) = s_container_ref s
        \<and> (s_state (g s) = Closed \<longrightarrow> s_alias (g s) = None)"
    and names: "db_inv db \<Longrightarrow> aliases_ok (map g (db_sessions db)) bs"
  shows "keeps db (db\<lparr>db_sessions := map g (db_sessions db), db_aliases := bs\<rparr>)"
proof (rule keepsI, rule conjI)
  assume inv: "db_inv db"
  have same: "map s_id (map g (db_sessions db)) = map s_id (db_sessions db)"
    "map session_scope (map g (db_sessions db)) = map session_scope (db_sessions db)"
    using good [OF inv] by (auto simp: same_identity_def session_scope_def)
  have "sessions_ok (map g (db_sessions db))"
    using inv good [OF inv] same unfolding db_inv_def sessions_ok_def
    by (simp only: same set_map) (metis (no_types, lifting) imageE)
  with names [OF inv] inv show "db_inv (db\<lparr>db_sessions := map g (db_sessions db), db_aliases := bs\<rparr>)"
    by (simp add: db_inv_def)
  have "row_get s_id k (map g (db_sessions db)) = map_option g (get_session db k)" for k
    using good [OF inv] by (intro row_get_map) (simp add: same_identity_def)
  then show "evolves db (db\<lparr>db_sessions := map g (db_sessions db), db_aliases := bs\<rparr>)"
    using good [OF inv] by (intro evolvesI) (auto dest: row_get_SomeD(1))
qed

lemma alias_owner_released:
  assumes "aliases_ok ss bs" and "s \<in> set ss"
  shows "alias_owner (delete_own_alias (s_alias s) (s_id s) bs) a =
      (if s_alias s = Some a then None else alias_owner bs a)"
    and "distinct (map a_alias (delete_own_alias (s_alias s) (s_id s) bs))"
  using assms
  by (auto simp: aliases_ok_def delete_own_alias_def alias_owner_def row_get_row_del
      split: option.split)

lemma alias_owner_bound:
  "alias_owner (bind_alias a e bs) x = (if x = a then Some e else alias_owner bs x)"
  by (auto simp: bind_alias_def alias_owner_def row_get_append row_get_row_upd split: option.split)

lemma bind_alias_distinct:
  "distinct (map a_alias bs) \<Longrightarrow> distinct (map a_alias (bind_alias a e bs))"
  by (auto simp: bind_alias_def row_get_None_iff split: option.split)

lemma alias_unique:
  assumes "aliases_ok ss bs" and "s \<in> set ss" "t \<in> set ss" and "s_alias s = Some a" "s_alias t = Some a"
  shows "s_id s = s_id t"
  using assms unfolding aliases_ok_iff by (metis option.inject)

text \<open>Giving up a name, and taking one: what the rewritten sessions need.\<close>

lemma aliases_release:
  assumes "aliases_ok ss bs" and "distinct (map s_id ss)" and "row \<in> set ss"
    and "s_id row' = s_id row" and "s_alias row' = None"
  shows "aliases_ok (map (\<lambda>s. if s_id s = s_id row then row' else s) ss)
    (delete_own_alias (s_alias row) (s_id row) bs)"
  unfolding aliases_ok_iff
proof (intro conjI)
  have same: "s = row" if "s \<in> set ss" "s_id s = s_id row" for s
    using that assms(2,3) by (auto simp: distinct_map inj_on_def)
  show "distinct (map a_alias (delete_own_alias (s_alias row) (s_id row) bs))"
    using assms by (simp add: alias_owner_released)
  show "\<forall>s \<in> set (map (\<lambda>s. if s_id s = s_id row then row' else s) ss). \<forall>a. s_alias s = Some a \<longrightarrow>
      alias_owner (delete_own_alias (s_alias row) (s_id row) bs) a = Some (s_id s)"
  proof (intro ballI allI impI)
    fix s' a assume "s' \<in> set (map (\<lambda>s. if s_id s = s_id row then row' else s) ss)" and named: "s_alias s' = Some a"
    then have s': "s' \<in> set ss" "s_id s' \<noteq> s_id row" using assms(5) by (auto split: if_splits)
    with named alias_unique [OF assms(1) s'(1) assms(3) named] have "s_alias row \<noteq> Some a" by blast
    with s' named assms(1) show "alias_owner (delete_own_alias (s_alias row) (s_id row) bs) a = Some (s_id s')"
      by (simp add: alias_owner_released [OF assms(1,3)]) (simp add: aliases_ok_iff)
  qed
  show "\<forall>a e. alias_owner (delete_own_alias (s_alias row) (s_id row) bs) a = Some e \<longrightarrow>
      (\<exists>s \<in> set (map (\<lambda>s. if s_id s = s_id row then row' else s) ss). s_id s = e \<and> s_alias s = Some a)"
  proof (intro allI impI)
    fix a e assume "alias_owner (delete_own_alias (s_alias row) (s_id row) bs) a = Some e"
    then have "alias_owner bs a = Some e" and other: "s_alias row \<noteq> Some a"
      by (auto simp: alias_owner_released [OF assms(1,3)] split: if_splits)
    with assms(1) obtain s where "s \<in> set ss" "s_id s = e" "s_alias s = Some a"
      unfolding aliases_ok_iff by blast
    with other same show "\<exists>s \<in> set (map (\<lambda>s. if s_id s = s_id row then row' else s) ss).
        s_id s = e \<and> s_alias s = Some a"
      by (auto intro!: bexI [of _ s])
  qed
qed

lemma aliases_take:
  assumes "aliases_ok ss bs" and "distinct (map s_id ss)" and "row \<in> set ss"
    and own: "\<And>x. x \<noteq> a \<Longrightarrow> alias_owner bs1 x = (if s_alias row = Some x then None else alias_owner bs x)"
    and "distinct (map a_alias bs1)"
  shows "aliases_ok (map (\<lambda>s. if s_id s = s_id row then row\<lparr>s_alias := Some a\<rparr>
                              else if s_alias s = Some a then s\<lparr>s_alias := None\<rparr> else s) ss)
    (bind_alias a (s_id row) bs1)"
    (is "aliases_ok (map ?g ss) _")
  unfolding aliases_ok_iff
proof (intro conjI)
  have same: "s = row" if "s \<in> set ss" "s_id s = s_id row" for s
    using that assms(2,3) by (auto simp: distinct_map inj_on_def)
  show "distinct (map a_alias (bind_alias a (s_id row) bs1))"
    using assms by (simp add: bind_alias_distinct)
  show "\<forall>s \<in> set (map ?g ss). \<forall>x. s_alias s = Some x \<longrightarrow>
      alias_owner (bind_alias a (s_id row) bs1) x = Some (s_id s)"
    using assms(1) alias_unique [OF assms(1) _ assms(3)]
    by (auto simp: alias_owner_bound own aliases_ok_iff)
  show "\<forall>x e. alias_owner (bind_alias a (s_id row) bs1) x = Some e \<longrightarrow>
      (\<exists>s \<in> set (map ?g ss). s_id s = e \<and> s_alias s = Some x)"
  proof (intro allI impI)
    fix x e assume owner: "alias_owner (bind_alias a (s_id row) bs1) x = Some e"
    show "\<exists>s \<in> set (map ?g ss). s_id s = e \<and> s_alias s = Some x"
    proof (cases "x = a")
      case True
      with owner assms(3) show ?thesis by (auto simp: alias_owner_bound image_iff intro!: bexI [of _ "?g row"])
    next
      case False
      with owner have "alias_owner bs x = Some e" and other: "s_alias row \<noteq> Some x"
        by (auto simp: alias_owner_bound own split: if_splits)
      with assms(1) obtain s where "s \<in> set ss" "s_id s = e" "s_alias s = Some x"
        unfolding aliases_ok_iff by blast
      with other False same show ?thesis by (auto intro!: bexI [of _ s])
    qed
  qed
qed

lemma keeps_release:
  assumes "row \<in> set (db_sessions db)" and "same_identity row row'"
    and "s_container_ref row' = s_container_ref row" and "s_alias row' = None"
  shows "keeps db (db\<lparr>db_sessions := row_upd s_id (s_id row) (\<lambda>_. row') (db_sessions db),
      db_aliases := delete_own_alias (s_alias row) (s_id row) (db_aliases db)\<rparr>)"
  unfolding row_upd_def
proof (rule keeps_session_names)
  assume inv: "db_inv db"
  show "aliases_ok (map (\<lambda>s. if s_id s = s_id row then row' else s) (db_sessions db))
      (delete_own_alias (s_alias row) (s_id row) (db_aliases db))"
    using inv assms by (intro aliases_release) (auto simp: db_inv_def sessions_ok_def same_identity_def)
  fix s assume "s \<in> set (db_sessions db)"
  then show "same_identity s (if s_id s = s_id row then row' else s)
      \<and> s_container_ref (if s_id s = s_id row then row' else s) = s_container_ref s
      \<and> (s_state (if s_id s = s_id row then row' else s) = Closed \<longrightarrow>
           s_alias (if s_id s = s_id row then row' else s) = None)"
    using inv assms session_row_unique [OF inv _ assms(1)]
    by (auto simp: same_identity_def db_inv_def sessions_ok_def)
qed

lemma keeps_name [preserves]: "keeps db (snd (relay_name_session r ref ct al rep c db))"
proof -
  have named: "keeps db (db\<lparr>db_sessions := row_upd s_id (s_id row) (\<lambda>_. row\<lparr>s_alias := Some a\<rparr>)
        (rows_where (\<lambda>s. s_alias s = Some a \<and> s_id s \<noteq> s_id row) (\<lambda>s. s\<lparr>s_alias := None\<rparr>)
          (db_sessions db)),
      db_aliases := bind_alias a (s_id row)
        (if s_alias row \<noteq> Some a then delete_own_alias (s_alias row) (s_id row) (db_aliases db)
         else db_aliases db)\<rparr>)"
    if "row \<in> set (db_sessions db)" "s_state row \<noteq> Closed" for row a
  proof -
    let ?g = "\<lambda>s. if s_id s = s_id row then row\<lparr>s_alias := Some a\<rparr>
                  else if s_alias s = Some a then s\<lparr>s_alias := None\<rparr> else s"
    have "row_upd s_id (s_id row) (\<lambda>_. row\<lparr>s_alias := Some a\<rparr>)
        (rows_where (\<lambda>s. s_alias s = Some a \<and> s_id s \<noteq> s_id row) (\<lambda>s. s\<lparr>s_alias := None\<rparr>)
          (db_sessions db)) = map ?g (db_sessions db)"
      by (auto simp: row_upd_def rows_where_def)
    moreover have "keeps db (db\<lparr>db_sessions := map ?g (db_sessions db),
        db_aliases := bind_alias a (s_id row)
          (if s_alias row \<noteq> Some a then delete_own_alias (s_alias row) (s_id row) (db_aliases db)
           else db_aliases db)\<rparr>)"
    proof (rule keeps_session_names)
      assume inv: "db_inv db"
      show "aliases_ok (map ?g (db_sessions db)) (bind_alias a (s_id row)
          (if s_alias row \<noteq> Some a then delete_own_alias (s_alias row) (s_id row) (db_aliases db)
           else db_aliases db))"
      proof (rule aliases_take)
        show names: "aliases_ok (db_sessions db) (db_aliases db)" and
          "distinct (map s_id (db_sessions db))" and "row \<in> set (db_sessions db)"
          using inv that by (auto simp: db_inv_def sessions_ok_def)
        then show "distinct (map a_alias (if s_alias row \<noteq> Some a
            then delete_own_alias (s_alias row) (s_id row) (db_aliases db) else db_aliases db))"
          using alias_owner_released(2) [OF names] by (auto simp: aliases_ok_def)
        show "alias_owner (if s_alias row \<noteq> Some a
            then delete_own_alias (s_alias row) (s_id row) (db_aliases db) else db_aliases db) x =
            (if s_alias row = Some x then None else alias_owner (db_aliases db) x)" if "x \<noteq> a" for x
          using alias_owner_released(1) [OF names \<open>row \<in> set (db_sessions db)\<close>] that
          by (cases "s_alias row = Some a") auto
      qed
      next
      assume inv: "db_inv db"
      fix s assume "s \<in> set (db_sessions db)"
      then show "same_identity s (?g s) \<and> s_container_ref (?g s) = s_container_ref s
          \<and> (s_state (?g s) = Closed \<longrightarrow> s_alias (?g s) = None)"
        using inv that session_row_unique [OF inv _ that(1)]
        by (auto simp: same_identity_def db_inv_def sessions_ok_def)
    qed
    ultimately show ?thesis by simp
  qed
  have unnamed: "keeps db (db\<lparr>db_sessions := row_upd s_id (s_id row) (\<lambda>_. row\<lparr>s_alias := None\<rparr>) (db_sessions db),
      db_aliases := delete_own_alias (s_alias row) (s_id row) (db_aliases db)\<rparr>)"
    if "row \<in> set (db_sessions db)" for row
    using that by (intro keeps_release) (auto simp: same_identity_def)
  have fresh_name: "keeps db (db\<lparr>db_sessions := row_upd s_id (s_id row) (\<lambda>_. row\<lparr>s_alias := Some a\<rparr>)
        (rows_where (\<lambda>s. s_alias s = Some a \<and> s_id s \<noteq> s_id row) (\<lambda>s. s\<lparr>s_alias := None\<rparr>)
          (db_sessions db)),
      db_aliases := bind_alias a (s_id row) (delete_own_alias (s_alias row) (s_id row) (db_aliases db))\<rparr>)"
    if "s_alias row \<noteq> Some a" "row \<in> set (db_sessions db)" "s_state row \<noteq> Closed" for row a
    using named [OF that(2,3), of a] that(1) by simp
  have same_name: "keeps db (db\<lparr>db_sessions := row_upd s_id (s_id row) (\<lambda>_. row\<lparr>s_alias := Some a\<rparr>)
        (rows_where (\<lambda>s. s_alias s = Some a \<and> s_id s \<noteq> s_id row) (\<lambda>s. s\<lparr>s_alias := None\<rparr>)
          (db_sessions db)),
      db_aliases := bind_alias a (s_id row) (db_aliases db)\<rparr>)"
    if "s_alias row = Some a" "row \<in> set (db_sessions db)" "s_state row \<noteq> Closed" for row a
    using named [OF that(2,3), of a] that(1) by simp
  show ?thesis
    by (auto simp: relay_name_session_def Let_def intro!: fresh_name same_name unnamed
        dest: find_session_SomeD split: option.split)
qed

text \<open>The OpenCode fence is its own table: a change of it that keeps its invariant keeps all.\<close>

lemma keeps_opencode:
  assumes "opencode_ok (db_opencode db) \<Longrightarrow> opencode_ok os"
    and "\<And>k w. get_opencode db k = Some w \<Longrightarrow>
      \<exists>w'. row_get o_endpoint_id k os = Some w' \<and> o_generation w \<le> o_generation w'"
  shows "keeps db (db\<lparr>db_opencode := os\<rparr>)"
  using assms by (auto simp: keeps_def db_inv_def intro!: evolvesI)

lemma opencode_ok_upd:
  assumes "opencode_ok os" and "\<And>w. o_endpoint_id w = k \<Longrightarrow> o_endpoint_id (f w) = k"
    and "\<And>w. 0 \<le> o_failures w \<Longrightarrow> o_failures w \<le> 20 \<Longrightarrow> 0 \<le> o_failures (f w) \<and> o_failures (f w) \<le> 20"
  shows "opencode_ok (row_upd o_endpoint_id k f os)"
proof -
  have "map o_endpoint_id (row_upd o_endpoint_id k f os) = map o_endpoint_id os"
    using assms(2) by (auto simp: row_upd_def)
  with assms show ?thesis by (auto simp: opencode_ok_def set_row_upd)
qed

lemma keeps_upd_opencode:
  assumes "\<And>w. o_endpoint_id w = k \<Longrightarrow> o_endpoint_id (f w) = k"
    and "\<And>w. 0 \<le> o_failures w \<Longrightarrow> o_failures w \<le> 20 \<Longrightarrow> 0 \<le> o_failures (f w) \<and> o_failures (f w) \<le> 20"
    and "\<And>w. o_generation w \<le> o_generation (f w)"
  shows "keeps db (db\<lparr>db_opencode := row_upd o_endpoint_id k f (db_opencode db)\<rparr>)"
  using assms by (intro keeps_opencode opencode_ok_upd) (auto simp: row_get_row_upd)

lemma keeps_close [preserves]: "keeps db (snd (relay_close_session r ref ct c db))"
proof -
  have "keeps db (db\<lparr>db_sessions := row_upd s_id (s_id row)
        (\<lambda>_. row\<lparr>s_state := Closed, s_closed_at := Some c, s_alias := None\<rparr>) (db_sessions db),
      db_aliases := delete_own_alias (s_alias row) (s_id row) (db_aliases db)\<rparr>)"
    if "row \<in> set (db_sessions db)" for row
    using that by (intro keeps_release) (auto simp: same_identity_def)
  then have plain: "keeps db (db\<lparr>db_sessions := row_upd s_id (s_id row)
        (\<lambda>_. row\<lparr>s_state := Closed, s_closed_at := Some c, s_alias := None\<rparr>) (db_sessions db),
      db_aliases := delete_own_alias (s_alias row) (s_id row) (db_aliases db)\<rparr>)"
      (is "keeps db (?closed row)") if "row \<in> set (db_sessions db)" for row
    using that by blast
  have fence: "keeps d (d\<lparr>db_opencode := row_upd o_endpoint_id k
      (\<lambda>w. (invalidate_opencode_wake w)\<lparr>o_owner_id := None, o_owner_expires_at := c\<rparr>)
      (db_opencode d)\<rparr>)" for d k
    by (intro keeps_upd_opencode) (auto simp: invalidate_opencode_wake_def)
  have "keeps db (db\<lparr>db_sessions := row_upd s_id (s_id row)
        (\<lambda>_. row\<lparr>s_state := Closed, s_closed_at := Some c, s_alias := None\<rparr>) (db_sessions db),
      db_opencode := row_upd o_endpoint_id k
        (\<lambda>w. (invalidate_opencode_wake w)\<lparr>o_owner_id := None, o_owner_expires_at := c\<rparr>)
        (db_opencode db),
      db_aliases := delete_own_alias (s_alias row) (s_id row) (db_aliases db)\<rparr>)"
    if "row \<in> set (db_sessions db)" for row k
  proof -
    have swap: "d\<lparr>db_aliases := x, db_opencode := y\<rparr> = d\<lparr>db_opencode := y, db_aliases := x\<rparr>"
      for d :: relay_db and x y by simp
    show ?thesis
      using keeps_trans [OF plain [OF that] fence [of "?closed row" k]] by (simp add: swap)
  qed
  with plain show ?thesis
    by (auto simp: relay_close_session_def Let_def upd_session_def upd_opencode_def
        dest!: find_session_SomeD(1) split: option.split)
qed

end
