(* ===== verification/Relay_Fences.thy ===== *)
theory Relay_Fences
  imports Relay_Preservation
begin

text \<open>
  The side tables keep their invariants under every transaction: work references, the OpenCode
  fence, Codex trials, wake reservations under the generation counter, and the activation trace.
\<close>

section \<open>Work references\<close>

lemma keeps_work_refs:
  assumes "work_refs_ok (db_work_refs db) \<Longrightarrow> work_refs_ok ws"
  shows "keeps db (db\<lparr>db_work_refs := ws\<rparr>)"
  using assms by (auto simp: keeps_def db_inv_def intro!: evolves_same)

lemma structural_rows_keys:
  "map work_ref_key (structural_rows e t c n rs) = map (\<lambda>r. (e, wi_work_ref r, Structural)) rs"
  by (induction rs arbitrary: n) (auto simp: work_ref_key_def)

lemma work_refs_refresh:
  assumes ok: "work_refs_ok ws" and new: "distinct (map wi_work_ref rs)"
  shows "work_refs_ok (filter (\<lambda>w. w_endpoint_id w = e \<longrightarrow> w_origin w \<noteq> Structural) ws
    @ structural_rows e t c n rs)"
proof -
  let ?kept = "filter (\<lambda>w. w_endpoint_id w = e \<longrightarrow> w_origin w \<noteq> Structural) ws"
  have "distinct (map work_ref_key ?kept)"
    using ok by (simp add: work_refs_ok_def distinct_map_filter)
  moreover have "distinct (map (\<lambda>r. (e, wi_work_ref r, Structural)) rs)"
    using new by (auto simp: distinct_map inj_on_def)
  moreover have "work_ref_key ` set ?kept \<inter> set (map (\<lambda>r. (e, wi_work_ref r, Structural)) rs) = {}"
    by (auto simp: work_ref_key_def)
  ultimately have "distinct (map work_ref_key (?kept @ structural_rows e t c n rs))"
    unfolding map_append distinct_append structural_rows_keys by (simp only: set_map)
  moreover have none: "filter (\<lambda>w. w_endpoint_id w = e' \<and> w_origin w = Explicit)
      (structural_rows e t c n rs) = []" for e'
    using structural_rows_facts(2) [of _ e t c n rs] by (auto simp: filter_empty_conv)
  have "length (filter (\<lambda>w. w_endpoint_id w = e' \<and> w_origin w = Explicit) ?kept)
      \<le> length (filter (\<lambda>w. w_endpoint_id w = e' \<and> w_origin w = Explicit) ws)" for e'
    by (induction ws) auto
  with ok have "length (filter (\<lambda>w. w_endpoint_id w = e' \<and> w_origin w = Explicit)
      (?kept @ structural_rows e t c n rs)) \<le> max_explicit_work_refs" for e'
    unfolding filter_append none work_refs_ok_def by (metis (no_types, lifting) append_Nil2 order_trans)
  ultimately show ?thesis by (simp add: work_refs_ok_def)
qed

lemma keeps_refresh [preserves]:
  "keeps db (snd (relay_refresh_structural_work_refs r ref ct ws c db))"
  by (auto simp: relay_refresh_structural_work_refs_def Let_def split: option.split
      intro!: keeps_work_refs work_refs_refresh)

lemma length_filter_map:
  "(\<And>x. x \<in> set xs \<Longrightarrow> P (g x) = P x) \<Longrightarrow> length (filter P (map g xs)) = length (filter P xs)"
  by (induction xs) auto

lemma work_refs_rewrite:
  assumes ok: "work_refs_ok ws" and "work_ref_key row = k"
  shows "work_refs_ok (row_upd work_ref_key k (\<lambda>_. row) ws)"
proof -
  have keys: "map work_ref_key (row_upd work_ref_key k (\<lambda>_. row) ws) = map work_ref_key ws"
    using assms(2) by (auto simp: row_upd_def)
  have "length (filter (\<lambda>w. w_endpoint_id w = e \<and> w_origin w = Explicit)
      (row_upd work_ref_key k (\<lambda>_. row) ws))
      = length (filter (\<lambda>w. w_endpoint_id w = e \<and> w_origin w = Explicit) ws)" for e
    unfolding row_upd_def using assms(2) by (intro length_filter_map) (auto simp: work_ref_key_def)
  with ok keys show ?thesis by (simp add: work_refs_ok_def)
qed

lemma work_refs_attach:
  assumes "work_refs_ok ws" and "row_get work_ref_key (work_ref_key row) ws = None"
    and "length (filter (\<lambda>w. w_endpoint_id w = w_endpoint_id row \<and> w_origin w = Explicit) ws)
      < max_explicit_work_refs"
  shows "work_refs_ok (ws @ [row])"
  using assms by (auto simp: work_refs_ok_def row_get_None_iff)

lemma keeps_attach [preserves]: "keeps db (snd (relay_attach_work_ref r ref ct w c al db))"
  by (auto simp: relay_attach_work_ref_def Let_def work_ref_key_def endpoint_refs_def not_le
      intro!: keeps_work_refs work_refs_attach work_refs_rewrite dest!: row_get_SomeD(2)
      split: option.split)

lemma work_refs_delete: "work_refs_ok ws \<Longrightarrow> work_refs_ok (row_del work_ref_key k ws)"
proof -
  assume ok: "work_refs_ok ws"
  have "length (filter (\<lambda>w. w_endpoint_id w = e \<and> w_origin w = Explicit) (row_del work_ref_key k ws))
      \<le> length (filter (\<lambda>w. w_endpoint_id w = e \<and> w_origin w = Explicit) ws)" for e
    unfolding row_del_def by (induction ws) auto
  with ok show ?thesis
    unfolding work_refs_ok_def by (meson distinct_keys_row_del order_trans)
qed

lemma keeps_detach [preserves]: "keeps db (snd (relay_detach_work_ref r ref ct w al c db))"
  by (auto simp: relay_detach_work_ref_def Let_def intro!: keeps_work_refs work_refs_delete
      split: option.split)

section \<open>Codex trials\<close>

lemma keeps_trials:
  assumes "trials_ok (db_trials db) \<Longrightarrow> trials_ok ts"
    and "\<And>k t. get_trial db k = Some t \<Longrightarrow>
      \<exists>t'. row_get t_recipient_endpoint_id k ts = Some t' \<and> trial_advances t t'"
  shows "keeps db (db\<lparr>db_trials := ts\<rparr>)"
  using assms by (auto simp: keeps_def db_inv_def intro!: evolvesI)

lemma trials_ok_upd:
  assumes "trials_ok ts" and "row_get t_recipient_endpoint_id k ts = Some t"
    and "t_recipient_endpoint_id (f t) = k" and "t_trial_id (f t) = t_trial_id t"
    and "t_spent (f t) = 0 \<or> t_spent (f t) = 1 \<and> t_delivery_id (f t) \<noteq> None"
  shows "trials_ok (row_upd t_recipient_endpoint_id k f ts)"
proof -
  have only: "x = t" if "x \<in> set ts" "t_recipient_endpoint_id x = k" for x
    using that assms(1) row_get_SomeD [OF assms(2)] by (auto simp: trials_ok_def distinct_map inj_on_def)
  have "map t_recipient_endpoint_id (row_upd t_recipient_endpoint_id k f ts) = map t_recipient_endpoint_id ts"
    "map t_trial_id (row_upd t_recipient_endpoint_id k f ts) = map t_trial_id ts"
    using only assms(3,4) by (auto simp: row_upd_def)
  with assms only show ?thesis by (auto simp: trials_ok_def set_row_upd)
qed

lemma trial_row_readyD:
  assumes "trial_row_ready db e i b n k now"
  obtains t where "get_trial db e = Some t" "t_delivery_id t = b" "t_spent t = n" "t_trial_id t = i"
    "t_recipient_endpoint_id t = e"
  using assms by (auto simp: trial_row_ready_def dest: row_get_SomeD split: option.splits)

lemma keeps_trial_bind [preserves]: "keeps db (snd (relay_codex_trial_bind e i k now db))"
  by (auto simp: relay_codex_trial_bind_def upd_trial_def intro!: keeps_trials
      elim!: trial_row_readyD intro: trials_ok_upd simp: row_get_row_upd trial_advances_def)

lemma keeps_trial_spend [preserves]: "keeps db (snd (relay_codex_trial_spend e i k now db))"
  by (auto simp: relay_codex_trial_spend_def upd_trial_def intro!: keeps_trials
      elim!: trial_row_readyD intro: trials_ok_upd simp: row_get_row_upd trial_advances_def)

lemma keeps_trial_enroll [preserves]:
  "keeps db (snd (relay_codex_trial_enroll e ref ct i db))"
proof -
  let ?flag = "upd_session e (\<lambda>s. s\<lparr>s_trial_enrolled := 1\<rparr>) db"
  have "keeps db ?flag"
    unfolding upd_session_def row_upd_def
    by (intro keeps_sessions) (auto simp: same_session_def same_identity_def)
  moreover have "keeps ?flag (?flag\<lparr>db_trials := db_trials db @ [t]\<rparr>)"
    if "get_trial db e = None" "t_recipient_endpoint_id t = e" "t_spent t = 0"
      "t_trial_id t \<notin> t_trial_id ` set (db_trials db)" for t
    using that by (intro keeps_trials) (auto simp: trials_ok_def upd_session_def row_get_None_iff row_get_append)
  ultimately have "keeps db (?flag\<lparr>db_trials := db_trials db @ [t]\<rparr>)"
    if "get_trial db e = None" "t_recipient_endpoint_id t = e" "t_spent t = 0"
      "t_trial_id t \<notin> t_trial_id ` set (db_trials db)" for t
    using that keeps_trans by blast
  then show ?thesis
    by (auto simp: relay_codex_trial_enroll_def split: option.split)
qed

section \<open>Wake reservations\<close>

lemma keeps_fences:
  assumes "fences_ok (db_reservations db) (db_wake_marker db) \<Longrightarrow> fences_ok rs m"
    and "\<And>g. db_wake_marker db = Some g \<Longrightarrow> \<exists>h \<ge> g. m = Some h"
  shows "keeps db (db\<lparr>db_reservations := rs, db_wake_marker := m\<rparr>)"
  using assms by (auto simp: keeps_def db_inv_def intro!: evolvesI)

lemma keeps_reservations:
  assumes "fences_ok (db_reservations db) (db_wake_marker db) \<Longrightarrow> fences_ok rs (db_wake_marker db)"
  shows "keeps db (db\<lparr>db_reservations := rs\<rparr>)"
  using assms by (auto simp: keeps_def db_inv_def intro!: evolvesI)

lemma fold_max_bounds: "0 \<le> fold max xs (0::int)" "x \<in> set xs \<Longrightarrow> x \<le> fold max xs 0"
proof -
  have "fold max xs 0 = Max (set (0 # xs))"
    by (simp only: Max.set_eq_fold)
  then show "0 \<le> fold max xs (0::int)" "x \<in> set xs \<Longrightarrow> x \<le> fold max xs 0" by auto
qed

lemma keeps_initialize [preserves]: "keeps db (snd (relay_codex_wake_initialize rs db))"
proof -
  have "0 \<le> wake_high_water db rs" "\<And>r. r \<in> set rs \<Longrightarrow> r_generation r \<le> wake_high_water db rs"
    unfolding wake_high_water_def by (intro fold_max_bounds; simp)+
  then have "fences_ok rs (Some (wake_high_water db rs))"
    if "distinct (map r_recipient_endpoint_id rs)" "distinct (map r_delivery_id rs)"
      "wake_high_water db rs < 2 ^ 63 - 1"
    using that by (auto simp: fences_ok_def)
  then show ?thesis
    by (auto simp: relay_codex_wake_initialize_def not_le intro!: keeps_fences)
qed

text \<open>The reservation of an endpoint rewritten for the same delivery, and dropped.\<close>

lemma fences_ok_put:
  assumes ok: "fences_ok rs (Some g)" and get: "row_get r_recipient_endpoint_id e rs = Some old"
    and "r_recipient_endpoint_id r = e" "r_delivery_id r = r_delivery_id old"
    and "r_generation r \<le> h" and "g \<le> h" "h < 2 ^ 63"
  shows "fences_ok (row_upd r_recipient_endpoint_id e (\<lambda>_. r) rs) (Some h)"
proof -
  have only: "x = old" if "x \<in> set rs" "r_recipient_endpoint_id x = e" for x
    using that ok row_get_SomeD [OF get] by (auto simp: fences_ok_def distinct_map inj_on_def)
  have "map r_recipient_endpoint_id (row_upd r_recipient_endpoint_id e (\<lambda>_. r) rs) = map r_recipient_endpoint_id rs"
    "map r_delivery_id (row_upd r_recipient_endpoint_id e (\<lambda>_. r) rs) = map r_delivery_id rs"
    using only assms(3,4) by (auto simp: row_upd_def)
  with assms show ?thesis by (fastforce simp: fences_ok_def set_row_upd)
qed

lemma fences_ok_drop: "fences_ok rs m \<Longrightarrow> fences_ok (row_del r_recipient_endpoint_id e rs) m"
  by (auto simp: fences_ok_def row_del_def distinct_map_filter split: option.splits)

lemma keeps_drop_reservation: "keeps db (drop_reservation e db)"
  unfolding drop_reservation_def by (intro keeps_reservations fences_ok_drop)

lemma keeps_put_reservation:
  assumes "get_reservation db e = Some old" and "db_wake_marker db = Some g"
    and "r_recipient_endpoint_id r = e" "r_delivery_id r = r_delivery_id old"
    and "r_generation r = r_generation old"
  shows "keeps db (put_reservation r db)"
  unfolding put_reservation_def
proof (intro keeps_reservations)
  assume ok: "fences_ok (db_reservations db) (db_wake_marker db)"
  then have "r_generation old \<le> g \<and> g < 2 ^ 63"
    using assms(2) row_get_SomeD(1) [OF assms(1)] by (auto simp: fences_ok_def)
  then show "fences_ok (row_upd r_recipient_endpoint_id (r_recipient_endpoint_id r) (\<lambda>_. r) (db_reservations db)) (db_wake_marker db)"
    unfolding assms(2,3) using ok assms by (intro fences_ok_put [OF _ assms(1)]) auto
qed

lemma keeps_next_reservation:
  assumes "get_reservation db e = Some old" and "db_wake_marker db = Some g" and "g < 2 ^ 63 - 1"
    and "r_recipient_endpoint_id r = e" "r_delivery_id r = r_delivery_id old"
    and "r_generation r = g + 1"
  shows "keeps db ((put_reservation r db)\<lparr>db_wake_marker := Some (g + 1)\<rparr>)"
proof -
  have "keeps db (db\<lparr>db_reservations :=
      row_upd r_recipient_endpoint_id e (\<lambda>_. r) (db_reservations db), db_wake_marker := Some (g + 1)\<rparr>)"
    using assms by (intro keeps_fences) (auto intro: fences_ok_put)
  then show ?thesis by (simp add: put_reservation_def assms(4))
qed

lemma delivery_reserved_iff:
  "list_ex (\<lambda>r. r_delivery_id r = k) rs \<longleftrightarrow> k \<in> r_delivery_id ` set rs"
  by (auto simp: list_ex_iff)

lemma fences_ok_append:
  assumes "fences_ok rs (Some g)" and "r_recipient_endpoint_id r \<notin> r_recipient_endpoint_id ` set rs"
    and "r_delivery_id r \<notin> r_delivery_id ` set rs" and "r_generation r = g + 1" and "g < 2 ^ 63 - 1"
  shows "fences_ok (rs @ [r]) (Some (g + 1))"
  using assms by (force simp: fences_ok_def)

lemma keeps_reserve: "db_wake_marker db = Some g \<Longrightarrow> keeps db (snd (wake_reserve g e k ref ct now db))"
  by (auto simp: wake_reserve_def Let_def not_le row_get_None_iff delivery_reserved_iff
      intro!: keeps_fences fences_ok_append split: sum.split)

lemma keeps_correlate: "db_wake_marker db = Some g \<Longrightarrow> keeps db (snd (wake_correlate e k ref ct x n db))"
  by (auto simp: wake_correlate_def Let_def intro!: keeps_put_reservation dest: row_get_SomeD(2)
      split: option.split)

lemma keeps_release_delivery: "keeps db (snd (wake_release_delivery items k db))"
  by (auto simp: wake_release_delivery_def intro: keeps_drop_reservation split: option.split)

lemma keeps_fold_drop: "keeps db (fold (\<lambda>r. drop_reservation (f r)) rs db)"
  by (induction rs arbitrary: db) (auto intro: keeps_trans [OF keeps_drop_reservation])

lemma keeps_wake_release: "keeps db (snd (wake_release rs db))"
  by (simp add: wake_release_def Let_def keeps_fold_drop)

lemma keeps_retry_target: "keeps db (snd (wake_retry_target r now db))"
  by (auto simp: wake_retry_target_def split: sum.split option.split)

lemma keeps_outcome: "db_wake_marker db = Some g \<Longrightarrow> keeps db (snd (wake_outcome_op r oc db))"
  by (auto simp: wake_outcome_op_def Let_def intro!: keeps_put_reservation dest: row_get_SomeD(2)
      split: option.split)

lemma keeps_begin: "db_wake_marker db = Some g \<Longrightarrow> keeps db (snd (wake_begin_native_attempt r now later db))"
  by (auto simp: wake_begin_native_attempt_def Let_def intro!: keeps_put_reservation
      split: option.split sum.split)

lemma keeps_wake_retry: "db_wake_marker db = Some g \<Longrightarrow> keeps db (snd (wake_retry g r target now db))"
  by (auto simp: wake_retry_def Let_def not_le intro!: keeps_next_reservation split: option.split sum.split)

lemma keeps_replace: "db_wake_marker db = Some g \<Longrightarrow> keeps db (snd (wake_replace g r ref ct db))"
  by (auto simp: wake_replace_def Let_def not_le intro!: keeps_next_reservation)

lemma keeps_reconcile: "db_wake_marker db = Some g \<Longrightarrow> keeps db (snd (wake_reconcile g r now db))"
  by (auto simp: wake_reconcile_def Let_def not_le
      intro!: keeps_next_reservation keeps_drop_reservation keeps_put_reservation
      split: option.split sum.split reconciliation.split)

lemmas keeps_wake_steps = keeps_reserve keeps_correlate keeps_release_delivery keeps_wake_release
  keeps_retry_target keeps_outcome keeps_begin keeps_wake_retry keeps_replace keeps_reconcile

lemma keeps_wake_transition [preserves]:
  "keeps db (snd (relay_codex_wake_transition pr op now later db))"
  by (auto simp: relay_codex_wake_transition_def wake_dispatch_def intro: keeps_wake_steps
      split: sum.split option.split wake_op.split)

end
