(* ===== verification/Relay_Machine.thy ===== *)
theory Relay_Machine
  imports Relay_Fences
begin

text \<open>
  The turn, the OpenCode bridge and the activation trace keep the invariant, and the whole store
  as one machine: \<open>relay_exec\<close> runs any transaction of \<open>SQLiteRelayMixin\<close>, and the locale
  \<open>ordered_machine\<close> is interpreted on it.
\<close>

section \<open>The OpenCode fence\<close>

definition failures_ok :: "opencode_wake \<Rightarrow> bool" where
  "failures_ok w \<longleftrightarrow> 0 \<le> o_failures w \<and> o_failures w \<le> 20"

lemma opencode_ok_row: "opencode_ok os \<Longrightarrow> row_get o_endpoint_id k os = Some w \<Longrightarrow> failures_ok w"
  by (auto simp: opencode_ok_def failures_ok_def dest: row_get_SomeD)

lemma opencode_ok_put:
  assumes "opencode_ok os" and "failures_ok w"
  shows "opencode_ok (put_opencode w os)"
proof (cases "row_get o_endpoint_id (o_endpoint_id w) os")
  case None
  then have "put_opencode w os = os @ [w]" by (simp add: put_opencode_def)
  moreover from None have "o_endpoint_id w \<notin> o_endpoint_id ` set os" by (simp add: row_get_None_iff)
  ultimately show ?thesis using assms by (auto simp: opencode_ok_def failures_ok_def)
next
  case (Some old)
  with assms show ?thesis
    by (auto simp: put_opencode_def failures_ok_def intro!: opencode_ok_upd)
qed

lemma failures_ok_settle: "failures_ok w \<Longrightarrow> failures_ok (settle_wake db c wl w)"
  by (auto simp: settle_wake_def failures_ok_def Let_def)

lemma failures_ok_poll: "failures_ok w \<Longrightarrow> failures_ok (poll_wake fmt db s q c wl w)"
  using failures_ok_settle [of w db c wl]
  by (auto simp: poll_wake_def Let_def failures_ok_def split: option.split)

lemma failures_ok_owner [simp]: "failures_ok (w\<lparr>o_owner_expires_at := t\<rparr>) = failures_ok w"
  by (simp add: failures_ok_def)

lemma failures_ok_step:
  assumes "opencode_step fmt op db s q tm c wl w = Inr w'" and "\<And>x. w = Some x \<Longrightarrow> failures_ok x"
  shows "failures_ok w'"
proof (cases op)
  case Enroll
  with assms show ?thesis
    by (auto simp: opencode_step_def enroll_wake_def invalidate_opencode_wake_def failures_ok_def Let_def
        split: sum.splits option.splits if_splits)
next
  case Poll
  with assms show ?thesis
    by (auto simp: opencode_step_def intro!: failures_ok_poll split: option.splits)
next
  case Terminal
  with assms show ?thesis
    by (auto simp: opencode_step_def terminal_wake_def failures_ok_def split: option.splits if_splits)
qed (use assms in \<open>auto simp: opencode_step_def failures_ok_def split: option.splits\<close>)

lemma opencode_bindingD:
  assumes "opencode_binding db q c en = Inr (s, w)"
  shows "s \<in> set (db_sessions db)" "get_session db (oq_endpoint_id q) = Some s" "s_id s = oq_endpoint_id q"
    "w = get_opencode db (s_id s)" "s_state s = Active"
  using assms row_get_SomeD [of s_id "oq_endpoint_id q" "db_sessions db"]
  by (auto simp: opencode_binding_def Let_def split: option.splits if_splits)

lemma keeps_opencode_wake [preserves]:
  "keeps db (snd (relay_opencode_wake fmt op q tm c wl db))"
proof -
  have "keeps db (db\<lparr>db_opencode := put_opencode w (db_opencode db),
      db_sessions := row_upd s_id (s_id s) (\<lambda>_. t) (db_sessions db)\<rparr>)"
    if bind: "opencode_binding db q c en = Inr (s, x)"
      and step: "opencode_step fmt op db s q tm c wl x = Inr w" and "same_session s t" for s t x w en
  proof -
    have row: "s \<in> set (db_sessions db)" and x: "x = get_opencode db (s_id s)"
      using opencode_bindingD [OF bind] by blast+
    have "failures_ok w" if "opencode_ok (db_opencode db)"
      using x by (intro failures_ok_step [OF step]) (auto intro: opencode_ok_row [OF that])
    have "o_endpoint_id w = s_id s"
      using step_endpoint [OF step] x by (auto dest: row_get_SomeD(2))
    then have rows: "row_get o_endpoint_id k (put_opencode w (db_opencode db)) =
        (if k = s_id s then Some w else get_opencode db k)" for k
      by (auto simp: put_opencode_def row_get_append row_get_row_upd split: option.split)
    have "keeps db (db\<lparr>db_opencode := put_opencode w (db_opencode db)\<rparr>)"
    proof (rule keeps_opencode)
      show "\<exists>w'. row_get o_endpoint_id k (put_opencode w (db_opencode db)) = Some w'
          \<and> o_generation y \<le> o_generation w'" if "get_opencode db k = Some y" for k y
        using rows opencode_step_generation step x that by auto
    qed (intro opencode_ok_put \<open>opencode_ok (db_opencode db) \<Longrightarrow> failures_ok w\<close>)
    from keeps_trans [OF this keeps_upd_session [of s _ "s_id s" "\<lambda>_. t"]] row that(3)
    show ?thesis by simp
  qed
  then show ?thesis
    by (auto simp: relay_opencode_wake_def Let_def same_session_def same_identity_def
        split: sum.split prod.split)
qed

section \<open>The turn\<close>

lemma keeps_guard:
  "opencode_guard env a c db = (Inr x, db1) \<Longrightarrow> keeps db db1"
  by (auto simp: opencode_guard_def opencode_delivery_def Let_def
      intro!: keeps_upd_delivery_at mark_expired_good dest!: delivery_with_message_row
      split: option.splits sum.splits if_splits prod.splits)

lemma put_generation_distinct:
  "distinct (map g_endpoint_id gs) \<Longrightarrow> distinct (map g_endpoint_id (put_generation e n gs))"
  by (auto simp: put_generation_def row_get_None_iff split: option.split)

lemma keeps_put_generation:
  assumes "scope_generation_of db e \<le> n"
  shows "keeps db (db\<lparr>db_generations := put_generation e n (db_generations db)\<rparr>)"
proof -
  have "scope_generation_of (db\<lparr>db_generations := put_generation e n (db_generations db)\<rparr>) k
      = (if k = e then n else scope_generation_of db k)" for k
    by (auto simp: scope_generation_of_def put_generation_def row_get_append row_get_row_upd
        split: option.split)
  with assms show ?thesis
    by (auto simp: keeps_def db_inv_def put_generation_distinct intro!: evolvesI)
qed

lemma aliases_ok_map:
  assumes "\<And>s. s \<in> set ss \<Longrightarrow> s_id (g s) = s_id s \<and> s_alias (g s) = s_alias s" and ok: "aliases_ok ss bs"
  shows "aliases_ok (map g ss) bs"
proof -
  have "\<exists>s \<in> set (map g ss). s_id s = e \<and> s_alias s = x" if "\<exists>s \<in> set ss. s_id s = e \<and> s_alias s = x" for e x
    using that assms(1) by auto
  with ok assms(1) show ?thesis unfolding aliases_ok_def by simp
qed

text \<open>A session moved to a scope that no session has.\<close>

lemma keeps_move:
  assumes src: "s \<in> set (db_sessions db)" and free: "find_session db ct (s_runtime s) (s_session_ref s) = None"
  shows "keeps db (db\<lparr>db_sessions := row_upd s_id (s_id s) (\<lambda>_. s\<lparr>s_container_ref := ct\<rparr>) (db_sessions db)\<rparr>)"
proof (rule keepsI, rule conjI)
  assume inv: "db_inv db"
  let ?g = "\<lambda>r. if s_id r = s_id s then s\<lparr>s_container_ref := ct\<rparr> else r"
  have only: "r = s" if "r \<in> set (db_sessions db)" "s_id r = s_id s" for r
    using session_row_unique [OF inv that(1) src] that(2) by simp
  have upd: "row_upd s_id (s_id s) (\<lambda>_. s\<lparr>s_container_ref := ct\<rparr>) (db_sessions db) = map ?g (db_sessions db)"
    by (simp add: row_upd_def)
  have ids: "map s_id (map ?g (db_sessions db)) = map s_id (db_sessions db)" by simp
  have inj: "inj_on session_scope (set (db_sessions db))" and dist: "distinct (db_sessions db)"
    using inv by (auto simp: db_inv_def sessions_ok_def distinct_map)
  have unused: "session_scope r \<noteq> (ct, s_runtime s, s_session_ref s)" if "r \<in> set (db_sessions db)" for r
    using free that by (auto simp: find_session_None_iff session_scope_def)
  have moved: "session_scope (?g s) = (ct, s_runtime s, s_session_ref s)" by (simp add: session_scope_def)
  have "inj_on (\<lambda>r. session_scope (?g r)) (set (db_sessions db))"
  proof (rule inj_onI)
    fix x y assume x: "x \<in> set (db_sessions db)" and y: "y \<in> set (db_sessions db)"
      and same: "session_scope (?g x) = session_scope (?g y)"
    show "x = y"
    proof (cases "s_id x = s_id s"; cases "s_id y = s_id s")
      assume "s_id x \<noteq> s_id s" "s_id y \<noteq> s_id s"
      with same inj x y show ?thesis by (simp add: inj_on_eq_iff)
    qed (use x y same only unused moved in \<open>simp_all, metis+\<close>)
  qed
  with dist have scopes: "distinct (map session_scope (map ?g (db_sessions db)))"
    by (simp add: distinct_map comp_def)
  have "sessions_ok (map ?g (db_sessions db))"
    unfolding sessions_ok_def ids
  proof (intro conjI scopes)
    show "distinct (map s_id (db_sessions db))" using inv by (simp add: db_inv_def sessions_ok_def)
    show "\<forall>r \<in> set (map ?g (db_sessions db)). s_state r = Closed \<longrightarrow> s_alias r = None"
      using inv src by (auto simp: db_inv_def sessions_ok_def)
  qed
  moreover have "aliases_ok (map ?g (db_sessions db)) (db_aliases db)"
    using inv by (intro aliases_ok_map) (auto simp: db_inv_def dest: only)
  ultimately show "db_inv (db\<lparr>db_sessions := row_upd s_id (s_id s) (\<lambda>_. s\<lparr>s_container_ref := ct\<rparr>) (db_sessions db)\<rparr>)"
    using inv unfolding upd by (simp add: db_inv_def)
  have "row_get s_id k (map ?g (db_sessions db)) = map_option ?g (get_session db k)" for k
    by (intro row_get_map) simp
  then show "evolves db (db\<lparr>db_sessions := row_upd s_id (s_id s) (\<lambda>_. s\<lparr>s_container_ref := ct\<rparr>) (db_sessions db)\<rparr>)"
    unfolding upd using only by (intro evolvesI) (auto simp: same_identity_def dest!: row_get_SomeD(1))
qed

lemma keeps_scope_transition:
  assumes "scope_transition a db = (Inr (r, g), db1)"
  shows "keeps db db1"
proof -
  have "keeps db (db\<lparr>db_sessions := row_upd s_id (s_id s) (\<lambda>_. s\<lparr>s_container_ref := ct\<rparr>) (db_sessions db),
      db_generations := put_generation e n (db_generations db)\<rparr>)"
    if "find_session db prev (ta_runtime a) (ta_session_ref a) = Some s"
      "find_session db ct (ta_runtime a) (ta_session_ref a) = None" "scope_generation_of db e \<le> n" for s ct prev e n
  proof -
    have "s \<in> set (db_sessions db)" "find_session db ct (s_runtime s) (s_session_ref s) = None"
      using find_session_SomeD [OF that(1)] that(2) by auto
    from keeps_trans [OF keeps_move [OF this] keeps_put_generation [of _ e n]] that(3)
    show ?thesis by simp
  qed
  then show ?thesis
    using assms by (auto simp: scope_transition_def Let_def split: option.splits if_splits)
qed

lemma scope_transition_row:
  assumes "scope_transition a db = (Inr (r, g), db1)"
  shows "case r of None \<Rightarrow> find_session db1 (ta_container_ref a) (ta_runtime a) (ta_session_ref a) = None
    | Some s \<Rightarrow> s \<in> set (db_sessions db1)"
  using assms
  by (auto simp: scope_transition_def Let_def row_upd_def split: option.splits if_splits
      dest: find_session_SomeD(1) intro!: image_eqI)

lemma keeps_register:
  assumes reg: "register_session env a c r db = (Inr x, db1)"
    and row: "case r of None \<Rightarrow> find_session db (ta_container_ref a) (ta_runtime a) (ta_session_ref a) = None
      | Some s \<Rightarrow> s \<in> set (db_sessions db)"
  shows "keeps db db1"
proof (cases r)
  case None
  have "keeps db (db\<lparr>db_sessions := db_sessions db @ [new_session env a c]\<rparr>)"
    if new: "te_session_id env \<notin> s_id ` set (db_sessions db)"
  proof (rule keepsI, rule conjI)
    assume inv: "db_inv db"
    have "session_scope (new_session env a c) \<notin> session_scope ` set (db_sessions db)"
      using row None by (auto simp: find_session_None_iff session_scope_def new_session_def)
    with new inv have "sessions_ok (db_sessions db @ [new_session env a c])"
      by (auto simp: db_inv_def sessions_ok_def new_session_def)
    moreover have "aliases_ok (db_sessions db @ [new_session env a c]) (db_aliases db)"
      using inv by (auto simp: db_inv_def aliases_ok_def new_session_def)
    ultimately show "db_inv (db\<lparr>db_sessions := db_sessions db @ [new_session env a c]\<rparr>)"
      using inv by (simp add: db_inv_def)
    show "evolves db (db\<lparr>db_sessions := db_sessions db @ [new_session env a c]\<rparr>)"
      by (rule evolvesI) (auto simp: row_get_append same_identity_def)
  qed
  with None reg show ?thesis
    by (auto simp: register_session_def split: if_splits)
next
  case (Some s)
  with reg row show ?thesis
    by (auto simp: register_session_def Let_def same_session_def same_identity_def
        intro!: keeps_upd_session split: if_splits)
qed

lemma select_rows_from:
  "x \<in> set (select_rows env a c r ans sel used rows) \<Longrightarrow>
    x \<in> set sel \<or> (sel_delivery x, sel_message x) \<in> set rows"
proof (induction env a c r ans sel used rows rule: select_rows.induct)
  case (2 env a c r ans sel used d m rows)
  then show ?case
    by (fastforce simp: Let_def split: if_splits option.splits prod.splits)
qed simp

lemma keeps_claims:
  assumes "\<And>x d. x \<in> set sel \<Longrightarrow> d \<in> set (db_deliveries db) \<Longrightarrow> d_id d = d_id (sel_delivery x)
      \<Longrightarrow> open_state (d_state d)"
  shows "keeps db (fold (claim_one a c r) sel db)"
  using assms
proof (induction sel arbitrary: db)
  case (Cons x sel)
  have "keeps db (claim_one a c r x db)"
    unfolding claim_one_def using Cons.prems by (intro keeps_upd_delivery claim_delivery_good) auto
  moreover have "keeps (claim_one a c r x db) (fold (claim_one a c r) sel (claim_one a c r x db))"
  proof (rule Cons.IH)
    fix y d assume y: "y \<in> set sel" and d: "d \<in> set (db_deliveries (claim_one a c r x db))"
      and same: "d_id d = d_id (sel_delivery y)"
    from d obtain e where e: "e \<in> set (db_deliveries db)" and
      "d = e \<or> d = claim_delivery a c r (sel_token x) e"
      by (auto simp: claim_one_def upd_delivery_def set_row_upd split: if_splits)
    with same Cons.prems [of y e] y show "open_state (d_state d)"
      by (auto simp: claim_delivery_def open_state_def)
  qed
  ultimately show ?case by (simp add: keeps_trans)
qed simp

lemma fold_claim_wake:
  "o_endpoint_id (fold claim_wake xs w) = o_endpoint_id w" "o_generation (fold claim_wake xs w) = o_generation w"
  "failures_ok (fold claim_wake xs w) = failures_ok w"
  by (induction xs arbitrary: w) (auto simp: claim_wake_def failures_ok_def)

lemma keeps_claim_all:
  assumes "\<And>x d. x \<in> set sel \<Longrightarrow> d \<in> set (db_deliveries db) \<Longrightarrow> d_id d = d_id (sel_delivery x)
      \<Longrightarrow> open_state (d_state d)"
  shows "keeps db (claim_all env a c r w sel db)"
proof -
  have "keeps d (upd_opencode k (fold claim_wake sel) d)" for d k
    unfolding upd_opencode_def using fold_claim_wake(3) [of sel]
    by (intro keeps_upd_opencode) (auto simp: fold_claim_wake failures_ok_def)
  moreover have "keeps db (fold (claim_one a c r) sel db)" using assms by (rule keeps_claims)
  ultimately show ?thesis
    by (auto simp: claim_all_def Let_def intro: keeps_trans split: option.split)
qed

lemma eligible_iff:
  "(d, m) \<in> set (eligible db e c) \<longleftrightarrow> d \<in> set (db_deliveries db)
     \<and> get_message db (d_message_id d) = Some m \<and> d_recipient_endpoint_id d = Some e
     \<and> c < m_expires_at m \<and> wake_pending c True d"
  by (auto simp: eligible_def joined_deliveries_iff)

lemma keeps_turn_deliveries:
  "keeps db (snd (turn_deliveries env a c s g w db))"
proof (rule keepsI)
  assume inv: "db_inv db"
  let ?db1 = "expire_sweep c db"
  have inv1: "db_inv ?db1" using keeps_expire_sweep inv by (simp add: keeps_def)
  let ?examined = "case ta_exact_delivery_id a of None \<Rightarrow> eligible ?db1 (s_id s) c
      | Some k \<Rightarrow> filter (\<lambda>(d, m). d_id d = k) (eligible ?db1 (s_id s) c)"
  let ?sel = "select_rows env a c s (turn_answer (session_view s c (24 * 60 * 60) g)
      (length (eligible ?db1 (s_id s) c)) w) [] 0 ?examined"
  have "open_state (d_state d)"
    if "x \<in> set ?sel" "d \<in> set (db_deliveries ?db1)" "d_id d = d_id (sel_delivery x)" for x d
  proof -
    have "(sel_delivery x, sel_message x) \<in> set (eligible ?db1 (s_id s) c)"
      using select_rows_from [OF that(1)] by (auto split: option.splits)
    then have "sel_delivery x \<in> set (db_deliveries ?db1)" "wake_pending c True (sel_delivery x)"
      by (auto simp: eligible_iff)
    moreover from this have "d = sel_delivery x"
      using that(2,3) inv1 by (auto simp: db_inv_def deliveries_ok_def distinct_map inj_on_def)
    ultimately show ?thesis by (auto simp: wake_pending_def open_state_def)
  qed
  then have "keeps ?db1 (claim_all env a c s w ?sel ?db1)" by (rule keeps_claim_all)
  then have "keeps db (claim_all env a c s w ?sel ?db1)" "keeps db ?db1"
    using keeps_expire_sweep keeps_trans by blast+
  then have "keeps db (snd (turn_deliveries env a c s g w db))"
    unfolding turn_deliveries_def Let_def by simp
  with inv show "db_inv (snd (turn_deliveries env a c s g w db))
      \<and> evolves db (snd (turn_deliveries env a c s g w db))"
    by (simp add: keeps_def)
qed

lemma keeps_turn_body: "keeps db (snd (turn_body env a c db))"
proof -
  have "keeps db db3" if "opencode_guard env a c db = (Inr y, db1)"
      "scope_transition a db1 = (Inr (r, g), db2)" "register_session env a c r db2 = (Inr x, db3)"
    for db1 db2 db3 x y r g
    using keeps_trans [OF keeps_trans [OF keeps_guard [OF that(1)] keeps_scope_transition [OF that(2)]]
        keeps_register [OF that(3) scope_transition_row [OF that(2)]]] .
  then show ?thesis
    by (auto simp: turn_body_def split: prod.split sum.split
        intro: keeps_guard keeps_trans [OF _ keeps_turn_deliveries])
qed

lemma keeps_turn [preserves]: "keeps db (snd (relay_turn env a c db))"
  using keeps_turn_body [of db env a c]
  by (auto simp: relay_turn_def split: prod.split sum.split)

lemma keeps_context [preserves]: "keeps db (snd (relay_opencode_context env q n c db))"
  by (simp add: relay_opencode_context_def keeps_turn)

section \<open>The trace\<close>

lemma trace_fullD:
  assumes "\<not> trace_full db x k"
  shows "length (db_traces db) < trace_max_rows"
    and "length (filter (\<lambda>t. tr_delivery_id t = k) (db_traces db)) < 24"
  using assms by (auto simp: trace_full_def Let_def not_le)

lemma traces_ok_append:
  assumes ok: "traces_ok ts n" and "tr_id t \<notin> tr_id ` set ts" and "trace_key t \<notin> trace_key ` set ts"
    and "tr_sequence t = n + 1" and "length ts < trace_max_rows"
    and "length (filter (\<lambda>x. tr_delivery_id x = tr_delivery_id t) ts) < 24"
  shows "traces_ok (ts @ [t]) (n + 1)"
  using assms by (fastforce simp: traces_ok_def sorted_wrt_append)

lemma keeps_trace_record [preserves]:
  "keeps db (snd (relay_trace_record redact a fresh c db))"
proof -
  have rec: "keeps db ((upd_delivery k stamp_version db)\<lparr>db_traces := db_traces db @ [t], db_trace_sequence := n\<rparr>)"
    if "\<not> trace_full db (tr_attempt_id t) (tr_delivery_id t)" "tr_id t \<notin> tr_id ` set (db_traces db)"
      "find (\<lambda>x. tr_attempt_id x = tr_attempt_id t \<and> tr_delivery_id x = tr_delivery_id t
          \<and> tr_stage x = tr_stage t) (db_traces db) = None"
      "tr_sequence t = n" "n = db_trace_sequence db + 1" for k t n
  proof -
    have "trace_key t \<notin> trace_key ` set (db_traces db)"
      using that(3) by (auto simp: find_None_iff trace_key_def)
    then have "traces_ok (db_traces db) (db_trace_sequence db) \<Longrightarrow> traces_ok (db_traces db @ [t]) n"
      using trace_fullD [OF that(1)] that(2,4,5) by (auto intro!: traces_ok_append)
    then have "keeps (upd_delivery k stamp_version db)
        ((upd_delivery k stamp_version db)\<lparr>db_traces := db_traces db @ [t], db_trace_sequence := n\<rparr>)"
      by (auto simp: keeps_def db_inv_def upd_delivery_def intro!: evolvesI)
    then show ?thesis
      using keeps_trans [OF keeps_upd_delivery] stamp_version_good(1) by blast
  qed
  show ?thesis
    by (auto simp: relay_trace_record_def Let_def intro!: rec keeps_upd_delivery stamp_version_good
        split: option.split prod.split)
qed

lemma keeps_record_trace_event [preserves]:
  "keeps db (snd (relay_record_trace_event redact a fresh c db))"
  using keeps_trace_record [of db redact a fresh c]
  by (auto simp: relay_record_trace_event_def split: prod.split sum.split relay_error.split trace_result.split)

section \<open>The store as a machine\<close>

text \<open>What the transactions take from outside: the digest, the redactor, the printable test and
  the date format.\<close>

record relay_world =
  rw_hash :: "pystr \<Rightarrow> pystr"
  rw_redact :: "pystr \<Rightarrow> pystr"
  rw_printable :: "pystr \<Rightarrow> bool"
  rw_fmt :: "time \<Rightarrow> pystr"

datatype relay_op =
    OpTurn turn_env turn_args time
  | OpContext turn_env opencode_request nat time
  | OpOpenCode opencode_op opencode_request "pystr option" time time
  | OpSend send_args pystr time
  | OpReply reply_args pystr time
  | OpStatus pystr "nat option" "nat option" time
  | OpAck pystr pystr time
  | OpAckByReceipt pystr pystr time
  | OpMarkUnreachable pystr pystr pystr time
  | OpMarkActive pystr pystr pystr time
  | OpClose pystr pystr pystr time
  | OpName pystr pystr pystr "pystr option" bool time
  | OpRefreshWorkRefs pystr pystr pystr "work_ref_input list" time
  | OpAttach pystr pystr pystr work_ref_input time bool
  | OpDetach pystr pystr pystr pystr bool time
  | OpTrialEnroll pystr pystr pystr pystr
  | OpTrialBind pystr pystr pystr time
  | OpTrialSpend pystr pystr pystr time
  | OpWakeInitialize "codex_reservation list"
  | OpWake wake_op time time
  | OpTrace trace_args pystr time

fun relay_exec :: "relay_world \<Rightarrow> relay_op \<Rightarrow> relay_db \<Rightarrow> relay_db" where
  "relay_exec W (OpTurn env a c) db = snd (relay_turn env a c db)"
| "relay_exec W (OpContext env q n c) db = snd (relay_opencode_context env q n c db)"
| "relay_exec W (OpOpenCode op q tm c wl) db = snd (relay_opencode_wake (rw_fmt W) op q tm c wl db)"
| "relay_exec W (OpSend a fresh c) db = snd (relay_send (rw_hash W) a fresh c db)"
| "relay_exec W (OpReply a fresh c) db = snd (relay_reply_atomic (rw_hash W) a fresh c db)"
| "relay_exec W (OpStatus k off n c) db = snd (relay_message_status (rw_hash W) k off n c db)"
| "relay_exec W (OpAck k tok c) db = snd (relay_ack k tok c db)"
| "relay_exec W (OpAckByReceipt k r c) db = snd (relay_ack_by_receipt (rw_hash W) k r c db)"
| "relay_exec W (OpMarkUnreachable r ref ct c) db = snd (relay_mark_unreachable r ref ct c db)"
| "relay_exec W (OpMarkActive r ref ct c) db = snd (relay_mark_active r ref ct c db)"
| "relay_exec W (OpClose r ref ct c) db = snd (relay_close_session r ref ct c db)"
| "relay_exec W (OpName r ref ct al rep c) db = snd (relay_name_session r ref ct al rep c db)"
| "relay_exec W (OpRefreshWorkRefs r ref ct ws c) db =
     snd (relay_refresh_structural_work_refs r ref ct ws c db)"
| "relay_exec W (OpAttach r ref ct w c al) db = snd (relay_attach_work_ref r ref ct w c al db)"
| "relay_exec W (OpDetach r ref ct w al c) db = snd (relay_detach_work_ref r ref ct w al c db)"
| "relay_exec W (OpTrialEnroll e ref ct i) db = snd (relay_codex_trial_enroll e ref ct i db)"
| "relay_exec W (OpTrialBind e i k c) db = snd (relay_codex_trial_bind e i k c db)"
| "relay_exec W (OpTrialSpend e i k c) db = snd (relay_codex_trial_spend e i k c db)"
| "relay_exec W (OpWakeInitialize rs) db = snd (relay_codex_wake_initialize rs db)"
| "relay_exec W (OpWake op now later) db = snd (relay_codex_wake_transition (rw_printable W) op now later db)"
| "relay_exec W (OpTrace a fresh c) db = snd (relay_record_trace_event (rw_redact W) a fresh c db)"

lemma keeps_exec: "keeps db (relay_exec W op db)"
  by (cases op) (simp_all add: preserves)

interpretation relay: ordered_machine "relay_exec W" db_inv evolves for W
proof unfold_locales
  show "db_inv (relay_exec W op db)" if "db_inv db" for op db
    using keeps_exec [of db W op] that by (simp add: keeps_def)
  show "evolves db (relay_exec W op db)" if "db_inv db" for op db
    using keeps_exec [of db W op] that by (simp add: keeps_def)
qed (auto intro: evolves_trans)

text \<open>A database reached from the empty one by any sequence of transactions.\<close>

lemma reachable_inv: "db_inv (fold (relay_exec W) ops empty_db)"
  by (rule relay.run_inv [OF db_inv_empty])

end
