(* ===== verification/Relay_Turn_Facts.thy ===== *)
theory Relay_Turn_Facts
  imports Relay_Machine "HOL-Library.Sublist"
begin

text \<open>
  What a turn selects and what it writes: the bisection for the longest fitting prefix, the
  budgets and the order of the selection, the rows of the claimed deliveries, and the rows a turn
  leaves alone.
\<close>

section \<open>The bisection\<close>

lemma bisect_cases:
  assumes "bisect p low high best = Some x"
  shows "best = Some x \<or> (\<exists>k. low \<le> k \<and> k \<le> high \<and> p k = Some x)"
  using assms
proof (induction p low high best rule: bisect.induct)
  case (1 p low high best)
  show ?case
  proof (cases "low \<le> high \<and> 0 < low")
    case True
    define mid where "mid = (low + high) div 2"
    have mid: "low \<le> mid" "mid \<le> high" using True by (auto simp: mid_def)
    show ?thesis
    proof (cases "p mid")
      case None
      with 1(3) True have "bisect p low (mid - 1) best = Some x"
        by (subst (asm) bisect.simps) (simp add: mid_def Let_def)
      with 1(1) [OF True mid_def None] mid show ?thesis by fastforce
    next
      case (Some y)
      with 1(3) True have "bisect p (mid + 1) high (Some y) = Some x"
        by (subst (asm) bisect.simps) (simp add: mid_def Let_def)
      with 1(2) [OF True mid_def Some] mid Some show ?thesis by fastforce
    qed
  next
    case False
    with 1(3) show ?thesis by (subst (asm) bisect.simps) auto
  qed
qed

lemma bisect_stuck:
  assumes "\<And>j. low \<le> j \<Longrightarrow> j \<le> high \<Longrightarrow> p j = None"
  shows "bisect p low high best = best"
  using assms
proof (induction p low high best rule: bisect.induct)
  case (1 p low high best)
  show ?case
  proof (cases "low \<le> high \<and> 0 < low")
    case True
    then have none: "p ((low + high) div 2) = None" by (intro 1(3)) auto
    with 1(1) [OF True refl] 1(3) True show ?thesis
      by (subst bisect.simps) (simp add: Let_def)
  next
    case False
    then show ?thesis by (subst bisect.simps) auto
  qed
qed

text \<open>When shorter prefixes always fit where longer ones do, the bisection finds the longest.\<close>

lemma bisect_longest:
  assumes "\<And>i j. i \<le> j \<Longrightarrow> j \<le> high \<Longrightarrow> p j \<noteq> None \<Longrightarrow> p i \<noteq> None"
    and "0 < low" and "low \<le> k" "k \<le> high" and "p k \<noteq> None" and "p (Suc k) = None \<or> k = high"
  shows "bisect p low high best = p k"
  using assms
proof (induction p low high best rule: bisect.induct)
  case (1 p low high best)
  note down = 1(3) and over = 1(8)
  define mid where "mid = (low + high) div 2"
  have True: "low \<le> high \<and> 0 < low" and mid: "low \<le> mid" "mid \<le> high" using 1 by (auto simp: mid_def)
  show ?case
  proof (cases "p mid")
    case None
    with down [of mid k] 1(6,7) have "k < mid" by (metis not_le)
    then have "bisect p low (mid - 1) best = p k"
      using over mid down by (intro 1(1) [OF True mid_def None _ 1(4,5) _ 1(7)]) auto
    with None True show ?thesis by (subst bisect.simps) (simp add: mid_def Let_def)
  next
    case (Some y)
    have "mid \<le> k"
    proof (rule ccontr)
      assume "\<not> mid \<le> k"
      with down [of "Suc k" mid] Some over mid show False by auto
    qed
    have "bisect p (mid + 1) high (Some y) = p k"
    proof (cases "mid = k")
      case True
      have "p j = None" if "k + 1 \<le> j" "j \<le> high" for j
        using over down [of "Suc k" j] that by (cases "p j") auto
      then have "bisect p (k + 1) high (Some y) = Some y" by (rule bisect_stuck) auto
      with Some True show ?thesis by simp
    next
      case False
      with \<open>mid \<le> k\<close> show ?thesis
        using over down by (intro 1(2) [OF \<open>low \<le> high \<and> 0 < low\<close> mid_def Some _ _ _ 1(6,7)]) auto
    qed
    with Some True show ?thesis by (subst bisect.simps) (simp add: mid_def Let_def)
  qed
qed

section \<open>The selection and its budgets\<close>

definition rendered :: "turn_env \<Rightarrow> selection \<Rightarrow> nat" where
  "rendered env x = length (delivery_text (te_fmt env) (sel_delivery x) (sel_message x) (sel_view x))"

text \<open>The characters of the selected texts joined by a blank line.\<close>

definition turn_chars :: "turn_env \<Rightarrow> selection list \<Rightarrow> nat" where
  "turn_chars env sel = sum_list (map (rendered env) sel) + 2 * (length sel - 1)"

definition within_budget ::
  "turn_env \<Rightarrow> turn_args \<Rightarrow> (delivery_view list \<Rightarrow> turn_response) \<Rightarrow> selection list \<Rightarrow> bool" where
  "within_budget env a answer sel \<longleftrightarrow> sel = [] \<or>
     (ta_max_chars a = 0 \<or> turn_chars env sel \<le> ta_max_chars a)
     \<and> (ta_max_messages a = 0 \<or> length sel \<le> ta_max_messages a)
     \<and> (ta_max_response_chars a = 0
        \<or> te_json_chars env (answer (map sel_view sel)) \<le> ta_max_response_chars a)"

lemma project_SomeD:
  assumes "project env a c r ans sel used d m n = Some (view, chars)"
  shows "view = projected_view env a c r d m n"
    and "chars = length (delivery_text (te_fmt env) d m view) + (if sel = [] then 0 else 2)"
    and "ta_max_chars a = 0 \<or> used + chars \<le> ta_max_chars a"
    and "ta_max_response_chars a = 0
      \<or> te_json_chars env (ans (map sel_view sel @ [view])) \<le> ta_max_response_chars a"
  using assms by (auto simp: project_def Let_def not_le split: if_splits)

lemma fit_delivery_SomeD:
  assumes "fit_delivery p is_first n = Some x"
  shows "\<exists>k \<le> n. p k = Some x \<and> (k = n \<or> 0 < k)"
proof (cases "p n")
  case None
  with assms have "bisect p 1 (n - 1) None = Some x" by (auto simp: fit_delivery_def split: if_splits)
  from bisect_cases [OF this] obtain k where "1 \<le> k" "k \<le> n - 1" "p k = Some x" by auto
  then show ?thesis by (intro exI [of _ k]) auto
qed (use assms in \<open>auto simp: fit_delivery_def\<close>)

lemma turn_chars_snoc:
  "turn_chars env (sel @ [x]) = turn_chars env sel + rendered env x + (if sel = [] then 0 else 2)"
  by (cases sel) (auto simp: turn_chars_def)

lemma select_rows_budget:
  assumes "within_budget env a ans sel" and "used = turn_chars env sel"
    and "ta_max_messages a = 0 \<or> length sel < ta_max_messages a"
  shows "within_budget env a ans (select_rows env a c r ans sel used rows)"
  using assms
proof (induction env a c r ans sel used rows rule: select_rows.induct)
  case (2 env a c r ans sel used d m rows)
  show ?case
  proof (cases "delivery_render_safe (te_fmt env) d m")
    case safe: True
    let ?p = "project env a c r ans sel used d m"
    show ?thesis
    proof (cases "fit_delivery ?p (sel = []) (length (m_payload m))")
      case None
      with safe 2(2) [of] 2(4-) show ?thesis by simp
    next
      case (Some x)
      obtain view chars where x: "x = (view, chars)" by (cases x)
      define y where "y = \<lparr>sel_delivery = d, sel_message = m, sel_view = view, sel_chars = chars,
        sel_token = te_token env (d_id d)\<rparr>"
      from Some x obtain n where p: "?p n = Some (view, chars)"
        using fit_delivery_SomeD by blast
      have chars: "used + chars = turn_chars env (sel @ [y])"
        using project_SomeD(2) [OF p] 2(5) by (simp add: turn_chars_snoc rendered_def y_def)
      have budget: "within_budget env a ans (sel @ [y])"
        using project_SomeD(3,4) [OF p] 2(6) unfolding within_budget_def chars by (auto simp: y_def)
      show ?thesis
        using 2(3) [of] safe Some x budget chars
        by (auto simp: y_def Let_def not_le)
    qed
  next
    case False
    with 2 show ?thesis by simp
  qed
qed simp

lemma select_rows_subseq:
  "\<exists>ys. map (\<lambda>x. (sel_delivery x, sel_message x)) (select_rows env a c r ans sel used rows)
      = map (\<lambda>x. (sel_delivery x, sel_message x)) sel @ ys \<and> subseq ys rows"
proof (induction env a c r ans sel used rows rule: select_rows.induct)
  case (2 env a c r ans sel used d m rows)
  show ?case
  proof (cases "delivery_render_safe (te_fmt env) d m
      \<and> fit_delivery (project env a c r ans sel used d m) (sel = []) (length (m_payload m)) \<noteq> None")
    case False
    with 2(1,2) show ?thesis by (auto split: option.split)
  next
    case True
    then obtain view chars where fit:
      "fit_delivery (project env a c r ans sel used d m) (sel = []) (length (m_payload m)) = Some (view, chars)"
      by auto
    show ?thesis
      using 2(3) [of "(view, chars)" view chars] True fit
      by (auto simp: Let_def)
  qed
qed auto

text \<open>Every selected view is the projection of its rows, with the token drawn for its delivery.\<close>

definition projected :: "turn_env \<Rightarrow> turn_args \<Rightarrow> time \<Rightarrow> relay_session \<Rightarrow> selection \<Rightarrow> bool" where
  "projected env a c r x \<longleftrightarrow> sel_token x = te_token env (d_id (sel_delivery x))
     \<and> delivery_render_safe (te_fmt env) (sel_delivery x) (sel_message x)
     \<and> (\<exists>n \<le> length (m_payload (sel_message x)).
          sel_view x = projected_view env a c r (sel_delivery x) (sel_message x) n)"

lemma select_rows_projected:
  assumes "\<And>x. x \<in> set sel \<Longrightarrow> projected env a c r x"
  shows "x \<in> set (select_rows env a c r ans sel used rows) \<Longrightarrow> projected env a c r x"
  using assms
proof (induction env a c r ans sel used rows rule: select_rows.induct)
  case (2 env a c r ans sel used d m rows)
  show ?case
  proof (cases "delivery_render_safe (te_fmt env) d m
      \<and> fit_delivery (project env a c r ans sel used d m) (sel = []) (length (m_payload m)) \<noteq> None")
    case False
    with 2(1,2,4,5) show ?thesis by (auto split: option.splits)
  next
    case True
    then obtain view chars where fit:
      "fit_delivery (project env a c r ans sel used d m) (sel = []) (length (m_payload m)) = Some (view, chars)"
      by auto
    then have "projected env a c r \<lparr>sel_delivery = d, sel_message = m, sel_view = view, sel_chars = chars,
        sel_token = te_token env (d_id d)\<rparr>"
      using True by (auto simp: projected_def dest!: fit_delivery_SomeD project_SomeD(1))
    with 2(3) [of "(view, chars)" view chars] 2(4,5) True fit show ?thesis
      by (auto simp: Let_def split: if_splits)
  qed
qed auto

text \<open>Without budgets nothing that can be rendered is left behind.\<close>

lemma select_rows_all:
  assumes "ta_max_chars a = 0" "ta_max_messages a = 0" "ta_max_response_chars a = 0"
  shows "map (\<lambda>x. (sel_delivery x, sel_message x)) (select_rows env a c r ans sel used rows)
    = map (\<lambda>x. (sel_delivery x, sel_message x)) sel
      @ filter (\<lambda>(d, m). delivery_render_safe (te_fmt env) d m) rows"
  using assms
proof (induction env a c r ans sel used rows rule: select_rows.induct)
  case (2 env a c r ans sel used d m rows)
  then obtain view chars where fit:
    "fit_delivery (project env a c r ans sel used d m) (sel = []) (length (m_payload m)) = Some (view, chars)"
    by (auto simp: fit_delivery_def project_def Let_def)
  show ?case
    using 2(1) 2(3) [of "(view, chars)" view chars] 2(4-) fit by (simp add: Let_def)
qed simp

section \<open>The longest prefix\<close>

lemma dec_digits_step: "length (dec_digits (Suc n)) \<le> Suc (length (dec_digits n))"
proof (induction n rule: less_induct)
  case (less n)
  show ?case
  proof (cases "n < 10")
    case True
    then have "Suc n div 10 \<le> 1" by arith
    with True show ?thesis by (simp add: dec_digits.simps [of "Suc n"] dec_digits.simps [of n]
          dec_digits.simps [of "Suc n div 10"])
  next
    case False
    have "Suc n div 10 = n div 10 \<or> Suc n div 10 = Suc (n div 10)" by arith
    with less [of "n div 10"] False show ?thesis
      by (auto simp: dec_digits.simps [of "Suc n"] dec_digits.simps [of n])
  qed
qed

lemma dec_digits_mono: "m \<le> n \<Longrightarrow> length (dec_digits m) \<le> length (dec_digits n)"
proof (induction n arbitrary: m rule: less_induct)
  case (less n)
  show ?case
  proof (cases "m < 10")
    case True
    then show ?thesis by (simp add: dec_digits.simps [of m] dec_digits.simps [of n])
  next
    case False
    with less(1) [of "n div 10" "m div 10"] less(2) show ?thesis
      by (simp add: dec_digits.simps [of m] dec_digits.simps [of n] div_le_mono)
  qed
qed

lemma length_join_lines:
  "length (join_lines ls) = sum_list (map length ls) + (length ls - 1)"
  by (induction ls) (auto simp: join_lines_def length_concat comp_def sum_list_Suc)

text \<open>The length of the text of a shortened delivery grows with the prefix it shows: one more
  character is never outweighed by the digits of the count of omitted ones.\<close>

lemma prefix_text_mono:
  assumes "i \<le> j" and "j < length (m_payload m)"
  shows "length (delivery_text fmt d m (projected_view env a c r d m i))
    \<le> length (delivery_text fmt d m (projected_view env a c r d m j))"
  using assms
proof (induction j)
  case (Suc j)
  let ?T = "\<lambda>n. length (delivery_text fmt d m (projected_view env a c r d m n))"
  show ?case
  proof (cases "i = Suc j")
    case False
    have page: "dv_page (projected_view env a c r d m n) = payload_page_at (m_payload m) 0 (Some n)"
      if "n < length (m_payload m)" for n
      using that by (auto simp: projected_view_def Let_def)
    have "length (dec (int (length (m_payload m)) - int j)) \<le> Suc (length (dec (int (length (m_payload m)) - int (Suc j))))"
      using dec_digits_step [of "length (m_payload m) - Suc j"] Suc.prems
      by (simp add: dec_def nat_diff_distrib Suc_diff_Suc nat_add_distrib del: of_nat_Suc)
    moreover have "length (dec (int j)) \<le> length (dec (int (Suc j)))"
      using dec_digits_mono [of j "Suc j"] by (simp add: dec_def nat_add_distrib)
    ultimately have "?T j \<le> ?T (Suc j)"
      using Suc.prems
      unfolding delivery_text_def length_join_lines page [OF Suc.prems(2)] page [OF Suc_lessD [OF Suc.prems(2)]]
      by (auto simp: payload_page_at_def Let_def projected_view_def split: option.split)
    with Suc False show ?thesis by (simp add: le_Suc_eq)
  qed simp
qed simp

lemma fit_delivery_longest:
  assumes "ta_max_response_chars a = 0" and "project env a c r ans [] used d m (length (m_payload m)) = None"
    and "0 < k" "k < length (m_payload m)" and fits: "project env a c r ans [] used d m k \<noteq> None"
    and over: "project env a c r ans [] used d m (Suc k) = None \<or> Suc k = length (m_payload m)"
  shows "fit_delivery (project env a c r ans [] used d m) True (length (m_payload m))
    = project env a c r ans [] used d m k"
proof -
  let ?p = "project env a c r ans [] used d m"
  let ?L = "length (m_payload m)"
  have "?p i \<noteq> None" if "i \<le> j" "j \<le> ?L - 1" "?p j \<noteq> None" for i j
  proof -
    have "j < ?L" using that(2) assms(4) by arith
    from prefix_text_mono [OF that(1) this, of "te_fmt env" d env a c r] that(3) assms(1) show ?thesis
      by (auto simp: project_def Let_def split: if_splits)
  qed
  then have "bisect ?p 1 (?L - 1) None = ?p k"
    using assms by (intro bisect_longest) auto
  with assms show ?thesis by (simp add: fit_delivery_def)
qed

end
