(* ===== verification/Relay_Claims.thy ===== *)
theory Relay_Claims
  imports Relay_Turn_Facts
begin

text \<open>
  The rows a turn writes: the claimed deliveries get the token of their view, and every other
  delivery keeps its row, a delivery under a live claim above all.
\<close>

section \<open>The claimed rows\<close>

definition sel_id :: "selection \<Rightarrow> pystr" where
  "sel_id x = d_id (sel_delivery x)"

lemma claim_delivery_id [simp]: "d_id (claim_delivery a c r t d) = d_id d"
  by (simp add: claim_delivery_def)

lemma get_claim_one:
  "get_delivery (claim_one a c r x db) k =
    (if k = sel_id x then map_option (claim_delivery a c r (sel_token x)) (get_delivery db k)
     else get_delivery db k)"
  by (simp add: claim_one_def upd_delivery_def row_get_row_upd sel_id_def)

lemma get_claims_other:
  "k \<notin> sel_id ` set sel \<Longrightarrow> get_delivery (fold (claim_one a c r) sel db) k = get_delivery db k"
  by (induction sel arbitrary: db) (auto simp: get_claim_one)

lemma get_claims:
  assumes "distinct (map sel_id sel)" and "x \<in> set sel"
  shows "get_delivery (fold (claim_one a c r) sel db) (sel_id x) =
    map_option (claim_delivery a c r (sel_token x)) (get_delivery db (sel_id x))"
  using assms
proof (induction sel arbitrary: db)
  case (Cons y sel)
  show ?case
  proof (cases "x = y")
    case True
    with Cons.prems have "sel_id x \<notin> sel_id ` set sel" by simp
    with True show ?thesis by (simp add: get_claims_other get_claim_one)
  next
    case False
    with Cons.prems have "x \<in> set sel" "sel_id x \<noteq> sel_id y" by (auto simp: image_iff)
    with Cons.prems Cons.IH show ?thesis by (simp add: get_claim_one)
  qed
qed simp

lemma claim_all_deliveries:
  "db_deliveries (claim_all env a c r w sel db) = db_deliveries (fold (claim_one a c r) sel db)"
  by (simp add: claim_all_def Let_def upd_opencode_def split: option.split)

lemma claims_others:
  "db_sessions (fold (claim_one a c r) sel db) = db_sessions db"
  "db_messages (fold (claim_one a c r) sel db) = db_messages db"
  by (induction sel arbitrary: db) (auto simp: claim_one_def upd_delivery_def)

lemma claim_all_others:
  "db_sessions (claim_all env a c r w sel db) = db_sessions db"
  "db_messages (claim_all env a c r w sel db) = db_messages db"
  by (simp_all add: claim_all_def Let_def upd_opencode_def claims_others split: option.split)

text \<open>The deliveries that are eligible are distinct rows, so a selection claims each once.\<close>

lemma joined_ids: "map (d_id \<circ> fst) (joined_deliveries db) =
    map d_id (filter (\<lambda>d. get_message db (d_message_id d) \<noteq> None) (db_deliveries db))"
proof -
  have "map (d_id \<circ> fst) (List.map_filter (\<lambda>d. map_option (Pair d) (f d)) ds)
      = map d_id (filter (\<lambda>d. f d \<noteq> None) ds)" for f :: "relay_delivery \<Rightarrow> relay_message option" and ds
    by (induction ds) (auto simp: List.map_filter_simps split: option.split)
  then show ?thesis by (simp add: joined_deliveries_def)
qed

lemma eligible_distinct:
  assumes "db_inv db"
  shows "distinct (map (d_id \<circ> fst) (eligible db e c))"
proof -
  have "distinct (map (d_id \<circ> fst) (joined_deliveries db))"
    unfolding joined_ids using assms by (simp add: db_inv_def deliveries_ok_def distinct_map_filter)
  then have "distinct (map (d_id \<circ> fst) (filter P (joined_deliveries db)))" for P
    by (rule distinct_map_filter)
  then show ?thesis
    by (simp add: eligible_def by_age_def distinct_map distinct_sort)
qed

section \<open>The selection of a turn\<close>

lemma subseq_set: "subseq xs ys \<Longrightarrow> x \<in> set xs \<Longrightarrow> x \<in> set ys"
  using subseq_conv_nths notin_set_nthsI by metis

lemma subseq_distinct: "subseq xs ys \<Longrightarrow> distinct ys \<Longrightarrow> distinct xs"
  using subseq_conv_nths distinct_nthsI by metis

lemma subseq_sorted: "subseq xs ys \<Longrightarrow> sorted ys \<Longrightarrow> sorted xs"
  using subseq_conv_nths sorted_nths by metis

text \<open>The candidates a turn examines, and what it selects of them.\<close>

definition turn_rows ::
  "turn_args \<Rightarrow> time \<Rightarrow> relay_session \<Rightarrow> relay_db \<Rightarrow> (relay_delivery \<times> relay_message) list" where
  "turn_rows a c s db = (case ta_exact_delivery_id a of None \<Rightarrow> eligible db (s_id s) c
     | Some k \<Rightarrow> filter (\<lambda>(d, m). d_id d = k) (eligible db (s_id s) c))"

definition turn_answer_for ::
  "time \<Rightarrow> relay_session \<Rightarrow> int \<Rightarrow> opencode_wake option \<Rightarrow> relay_db \<Rightarrow> delivery_view list \<Rightarrow> turn_response" where
  "turn_answer_for c s g w db =
     turn_answer (session_view s c (24 * 60 * 60) g) (length (eligible db (s_id s) c)) w"

definition turn_selection ::
  "turn_env \<Rightarrow> turn_args \<Rightarrow> time \<Rightarrow> relay_session \<Rightarrow> int \<Rightarrow> opencode_wake option \<Rightarrow> relay_db \<Rightarrow> selection list" where
  "turn_selection env a c s g w db =
     select_rows env a c s (turn_answer_for c s g w db) [] 0 (turn_rows a c s db)"

lemma subseq_turn_rows: "subseq (turn_rows a c s db) (eligible db (s_id s) c)"
  by (auto simp: turn_rows_def split: option.split)

lemma turn_selection_rows:
  "subseq (map (\<lambda>x. (sel_delivery x, sel_message x)) (turn_selection env a c s g w db)) (eligible db (s_id s) c)"
  using select_rows_subseq [of env a c s "turn_answer_for c s g w db" "[]" 0 "turn_rows a c s db"]
    subseq_order.trans [OF _ subseq_turn_rows]
  by (auto simp: turn_selection_def)

lemma turn_selection_eligible:
  assumes "x \<in> set (turn_selection env a c s g w db)"
  shows "(sel_delivery x, sel_message x) \<in> set (eligible db (s_id s) c)"
proof -
  have "(sel_delivery x, sel_message x) \<in> set (map (\<lambda>x. (sel_delivery x, sel_message x)) (turn_selection env a c s g w db))"
    using assms by simp
  then show ?thesis by (rule subseq_set [OF turn_selection_rows])
qed

lemma turn_selection_distinct:
  assumes "db_inv db"
  shows "distinct (map sel_id (turn_selection env a c s g w db))"
proof -
  have "subseq (map (d_id \<circ> fst) (map (\<lambda>x. (sel_delivery x, sel_message x)) (turn_selection env a c s g w db)))
      (map (d_id \<circ> fst) (eligible db (s_id s) c))"
    by (rule subseq_map [OF turn_selection_rows])
  then have "distinct (map (d_id \<circ> fst) (map (\<lambda>x. (sel_delivery x, sel_message x)) (turn_selection env a c s g w db)))"
    using eligible_distinct [OF assms] subseq_distinct by blast
  then show ?thesis by (simp add: comp_def sel_id_def [abs_def])
qed

text \<open>The two ways a turn over deliveries succeeds: with nothing, because not even the empty
  response is below the limit, or with its selection claimed.\<close>

lemma turn_deliveries_cases:
  assumes "turn_deliveries env a c s g w db = (Inr resp, db')"
  obtains (nothing) "resp_deliveries resp = []" "db' = expire_sweep c db"
  | (claimed) "resp_deliveries resp = map (claimed_view env a c s) (turn_selection env a c s g w (expire_sweep c db))"
      "db' = claim_all env a c s w (turn_selection env a c s g w (expire_sweep c db)) (expire_sweep c db)"
      "resp = turn_answer_for c s g w (expire_sweep c db)
         (map (claimed_view env a c s) (turn_selection env a c s g w (expire_sweep c db)))"
proof -
  let ?db1 = "expire_sweep c db"
  let ?ans = "turn_answer_for c s g w ?db1"
  have step: "turn_deliveries env a c s g w db =
      (if ta_max_response_chars a \<noteq> 0 \<and> ta_max_response_chars a \<le> te_json_chars env (?ans []) then
         if claim_expired env a 3 then (Inl claim_request_expired, db) else (Inr (?ans []), ?db1)
       else if claim_expired env a 4 then (Inl claim_request_expired, db)
       else (Inr (?ans (map (claimed_view env a c s) (turn_selection env a c s g w ?db1))),
             claim_all env a c s w (turn_selection env a c s g w ?db1) ?db1))"
    unfolding turn_deliveries_def Let_def turn_selection_def turn_answer_for_def turn_rows_def by (rule refl)
  have "resp_deliveries (?ans vs) = vs" for vs
    by (simp add: turn_answer_for_def turn_answer_def)
  with assms that show thesis
    unfolding step by (auto split: if_splits)
qed

section \<open>Live claims\<close>

text \<open>A delivery under a live claim, at an instant.\<close>

definition held :: "relay_db \<Rightarrow> time \<Rightarrow> relay_delivery \<Rightarrow> bool" where
  "held db c d \<longleftrightarrow> get_delivery db (d_id d) = Some d
     \<and> (\<exists>m. get_message db (d_message_id d) = Some m \<and> live_claim d m c)"

lemma held_same_tables:
  "db_deliveries db' = db_deliveries db \<Longrightarrow> db_messages db' = db_messages db \<Longrightarrow> held db' c d = held db c d"
  by (simp add: held_def)

lemma held_guard:
  assumes "held db c d" and "opencode_guard env a c db = (Inr x, db1)"
  shows "held db1 c d"
proof -
  have "held (upd_delivery k mark_expired db) c d"
    if "delivery_with_message db k = Some (d', m')" "m_expires_at m' \<le> c" for k d' m'
  proof -
    have "k \<noteq> d_id d"
      using that assms(1) by (auto simp: held_def delivery_with_message_def live_claim_def split: option.splits)
    with assms(1) show ?thesis
      by (auto simp: held_def upd_delivery_def row_get_row_upd mark_expired_def)
  qed
  with assms show ?thesis
    by (auto simp: opencode_guard_def opencode_delivery_def Let_def dest: delivery_with_message_SomeD
        split: option.splits sum.splits if_splits prod.splits)
qed

lemma scope_transition_tables:
  "scope_transition a db = (Inr x, db1) \<Longrightarrow> db_deliveries db1 = db_deliveries db \<and> db_messages db1 = db_messages db"
  by (auto simp: scope_transition_def Let_def split: option.splits if_splits)

lemma register_tables:
  "register_session env a c r db = (Inr x, db1) \<Longrightarrow> db_deliveries db1 = db_deliveries db \<and> db_messages db1 = db_messages db"
  by (auto simp: register_session_def Let_def split: option.splits if_splits)

lemma get_expire_sweep:
  "get_delivery (expire_sweep c db) k = map_option
    (\<lambda>d. if open_state (d_state d) \<and> message_expired db c (d_message_id d) then mark_expired d else d)
    (get_delivery db k)"
  unfolding expire_sweep_def by (simp add: row_get_rows_where mark_expired_def)

lemma message_unique:
  "db_inv db \<Longrightarrow> get_message db k = Some m \<Longrightarrow> message_expired db c k \<longleftrightarrow> m_expires_at m \<le> c"
  using row_get_distinct [of m_id "db_messages db"]
  by (auto simp: message_expired_def list_ex_iff db_inv_def messages_ok_def dest: row_get_SomeD)

lemma held_sweep:
  assumes "db_inv db" and "held db c d"
  shows "held (expire_sweep c db) c d"
proof -
  obtain m where m: "get_message db (d_message_id d) = Some m" and live: "live_claim d m c"
    and d: "get_delivery db (d_id d) = Some d" using assms(2) by (auto simp: held_def)
  then have "\<not> message_expired db c (d_message_id d)"
    using message_unique [OF assms(1) m] by (simp add: live_claim_def)
  then have "get_delivery (expire_sweep c db) (d_id d) = Some d" by (simp add: get_expire_sweep d)
  then show ?thesis using m live by (simp add: held_def expire_sweep_def)
qed

lemma held_not_eligible:
  assumes "held db c d" and "(d', m') \<in> set (eligible db e c)"
  shows "d_id d' \<noteq> d_id d \<or> d' \<noteq> d"
  using assms by (auto simp: held_def eligible_iff wake_pending_def live_claim_def lease_over_def
      split: option.splits)

lemma held_turn_deliveries:
  assumes inv: "db_inv db" and held: "held db c d"
    and turn: "turn_deliveries env a c s g w db = (Inr resp, db')"
  shows "held db' c d"
  using turn
proof (cases rule: turn_deliveries_cases)
  case nothing
  with held_sweep [OF inv held] show ?thesis by simp
next
  case claimed
  let ?db1 = "expire_sweep c db"
  have inv1: "db_inv ?db1" using keeps_expire_sweep inv by (simp add: keeps_def)
  have held1: "held ?db1 c d" by (rule held_sweep [OF inv held])
  have "d_id d \<notin> sel_id ` set (turn_selection env a c s g w ?db1)"
  proof
    assume "d_id d \<in> sel_id ` set (turn_selection env a c s g w ?db1)"
    then obtain x where "x \<in> set (turn_selection env a c s g w ?db1)" and same: "d_id d = sel_id x"
      by auto
    then have x: "(sel_delivery x, sel_message x) \<in> set (eligible ?db1 (s_id s) c)"
      by (intro turn_selection_eligible)
    then have "sel_delivery x \<in> set (db_deliveries ?db1)" by (simp add: eligible_iff)
    then have "sel_delivery x = d"
      using delivery_row_unique [OF inv1, of "d_id d" d] held1 same by (simp add: held_def sel_id_def)
    with held_not_eligible [OF held1 x] show False by simp
  qed
  then have "get_delivery db' (d_id d) = get_delivery ?db1 (d_id d)"
    by (simp add: claimed claim_all_deliveries get_claims_other)
  with held1 show ?thesis by (simp add: held_def claimed claim_all_others)
qed

lemma held_turn:
  assumes inv: "db_inv db" and held: "held db c d"
  shows "held (snd (relay_turn env a c db)) c d"
proof (cases "turn_body env a c db")
  case (Pair out db')
  have "held db' c d" if "out = Inr resp" for resp
  proof -
    have body: "turn_body env a c db = (Inr resp, db')" using Pair that by simp
    then obtain y db1 where guard: "opencode_guard env a c db = (Inr y, db1)"
      by (auto simp: turn_body_def split: prod.splits sum.splits)
    have held1: "held db1 c d" by (rule held_guard [OF held guard])
    have keep1: "keeps db db1" by (rule keeps_guard [OF guard])
    show ?thesis
    proof (cases y)
      case (Inl z)
      with body guard held1 show ?thesis by (auto simp: turn_body_def)
    next
      case (Inr w)
      then obtain r g db2 where st: "scope_transition a db1 = (Inr (r, g), db2)"
        using body guard by (auto simp: turn_body_def split: prod.splits sum.splits)
      then obtain v db3 where reg: "register_session env a c r db2 = (Inr v, db3)"
        using body guard Inr by (auto simp: turn_body_def split: prod.splits sum.splits)
      have held3: "held db3 c d"
        using held1 scope_transition_tables [OF st] register_tables [OF reg] by (simp add: held_def)
      have "keeps db db3"
        using keep1 keeps_scope_transition [OF st] keeps_register [OF reg scope_transition_row [OF st]]
        by (blast intro: keeps_trans)
      then have inv3: "db_inv db3" using inv by (simp add: keeps_def)
      show ?thesis
      proof (cases v)
        case (Inl z)
        with body guard Inr st reg held3 show ?thesis by (auto simp: turn_body_def)
      next
        case (Inr s)
        with body guard \<open>y = Inr w\<close> st reg have "turn_deliveries env a c s g w db3 = (Inr resp, db')"
          by (simp add: turn_body_def)
        then show ?thesis by (rule held_turn_deliveries [OF inv3 held3])
      qed
    qed
  qed
  with Pair held show ?thesis by (auto simp: relay_turn_def split: sum.split)
qed

end
