(* ===== verification/Relay_Example.thy ===== *)
theory Relay_Example
  imports Relay_Turn_Facts
begin

text \<open>
  A small history of the store, run by the model: two sessions register, one sends the other a
  message, and the recipient claims it. The witnesses of the guarantees are evaluated on it.
\<close>

definition ex_env :: "pystr \<Rightarrow> turn_env" where
  "ex_env sid = \<lparr>te_fmt = (\<lambda>_. [116]), te_hash = (\<lambda>s. s), te_json_chars = (\<lambda>_. 0), te_session_id = sid,
     te_token = (\<lambda>k. 107 # k), te_mono = (\<lambda>_. 0), te_wall = 0\<rparr>"

definition ex_world :: relay_world where
  "ex_world = \<lparr>rw_hash = (\<lambda>s. s), rw_redact = (\<lambda>s. s), rw_printable = (\<lambda>_. True), rw_fmt = (\<lambda>_. [116])\<rparr>"

definition ex_args :: "pystr \<Rightarrow> pystr \<Rightarrow> nat \<Rightarrow> turn_args" where
  "ex_args runtime ref chars =
     \<lparr>ta_runtime = runtime, ta_session_ref = ref, ta_container_ref = [99], ta_title = None,
      ta_max_chars = chars, ta_max_messages = 0, ta_lease_seconds = 60, ta_exact_delivery_id = None,
      ta_claim_expires_at_ms = None, ta_codex_wake_endpoint_id = None,
      ta_codex_wake_generation = None, ta_opencode_wake = None, ta_max_response_chars = 0,
      ta_register_session = True, ta_previous_container_ref = None,
      ta_previous_endpoint_id = None, ta_previous_scope_generation = None\<rparr>"

definition ex_send :: "pystr \<Rightarrow> send_args" where
  "ex_send k = \<lparr>sa_message_id = k, sa_sender_runtime = u ''codex'', sa_sender_session_ref = [97],
     sa_recipient = [2], sa_recipient_runtime = None, sa_recipient_kind = KEndpoint,
     sa_recipient_value = [2], sa_payload = [104, 105], sa_redacted = False, sa_container_ref = [99],
     sa_expires_in_seconds = Some 600, sa_expiry_supplied = True, sa_in_reply_to = None\<rparr>"

definition ex_registered :: relay_db where
  "ex_registered = fold (relay_exec ex_world)
     [OpTurn (ex_env [1]) (ex_args (u ''codex'') [97] 0) 1,
      OpTurn (ex_env [2]) (ex_args (u ''claude-code'') [98] 0) 2] empty_db"

definition ex_sent :: relay_db where
  "ex_sent = relay_exec ex_world (OpSend (ex_send [109]) [100] 3) ex_registered"

definition ex_claimed :: relay_db where
  "ex_claimed = relay_exec ex_world (OpTurn (ex_env []) (ex_args (u ''claude-code'') [98] 0) 4) ex_sent"

definition ex_delivered :: relay_db where
  "ex_delivered = relay_exec ex_world (OpAck [100] [107, 100] 5) ex_claimed"

lemma ex_inv: "db_inv ex_registered" "db_inv ex_sent" "db_inv ex_claimed" "db_inv ex_delivered"
proof -
  show r: "db_inv ex_registered" unfolding ex_registered_def by (rule reachable_inv)
  show s: "db_inv ex_sent" unfolding ex_sent_def by (rule relay.exec_inv [OF r])
  show c: "db_inv ex_claimed" unfolding ex_claimed_def by (rule relay.exec_inv [OF s])
  show "db_inv ex_delivered" unfolding ex_delivered_def by (rule relay.exec_inv [OF c])
qed

section \<open>The rows of the history\<close>

definition ex_session :: "pystr \<Rightarrow> pystr \<Rightarrow> pystr \<Rightarrow> time \<Rightarrow> relay_session" where
  "ex_session sid runtime ref t =
     \<lparr>s_id = sid, s_runtime = runtime, s_session_ref = ref, s_container_ref = [99], s_title = None,
      s_alias = None, s_state = Active, s_first_seen_at = t, s_last_seen_at = t, s_closed_at = None,
      s_trial_enrolled = 0\<rparr>"

definition ex_message :: relay_message where
  "ex_message = \<lparr>m_id = [109], m_sender_runtime = u ''codex'', m_sender_session_ref = [97],
     m_sender_endpoint_id = Some [1], m_recipient_selector = [2], m_container_ref = [99],
     m_payload = [104, 105], m_redacted = 0, m_in_reply_to = None, m_created_at = 3,
     m_expires_at = 600000003\<rparr>"

definition ex_pending :: relay_delivery where
  "ex_pending = \<lparr>d_id = [100], d_message_id = [109], d_recipient_runtime = u ''claude-code'',
     d_recipient_session_ref = [98], d_recipient_endpoint_id = Some [2],
     d_recipient_container_ref = Some [99], d_state = Pending, d_claim_token = None,
     d_claimed_at = None, d_lease_expires_at = None, d_delivered_at = None, d_attempts = 0,
     d_trace_version = Some 1, d_trace_truncated = 0, d_trace_pruned = 0, d_codex_wake_generation = None\<rparr>"

definition ex_claim :: relay_delivery where
  "ex_claim = ex_pending\<lparr>d_state := Claimed, d_claim_token := Some [107, 100], d_claimed_at := Some 4,
     d_lease_expires_at := Some 60000004, d_attempts := 1\<rparr>"

lemmas ex_rows = ex_session_def ex_message_def ex_pending_def ex_claim_def

lemmas turn_steps = relay_turn_def turn_body_def opencode_guard_def scope_transition_def
  register_session_def turn_deliveries_def claim_expired_def find_session_def new_session_def
  expire_sweep_def rows_where_def eligible_def joined_deliveries_def by_age_def claim_all_def
  turn_answer_def Let_def ex_args_def ex_env_def List.map_filter_simps

lemma ex_registered_rows: "ex_registered = empty_db\<lparr>db_sessions :=
    [ex_session [1] (u ''codex'') [97] 1, ex_session [2] (u ''claude-code'') [98] 2]\<rparr>"
  by (simp add: ex_registered_def turn_steps empty_db_def ex_session_def)

lemma ex_sent_rows: "ex_sent = ex_registered\<lparr>db_messages := [ex_message], db_deliveries := [ex_pending]\<rparr>"
  by (simp add: ex_sent_def ex_registered_rows ex_rows relay_send_def ex_send_def find_session_def
      empty_db_def relay_target_def relay_target_row_def session_by_endpoint_def row_get_def
      active_recipient_def expiry_at_def durable_expiry_def seconds_def Let_def insert_message_def
      new_delivery_def relay_status_in_session_def payload_view_def)

lemma ex_send_success:
  "\<exists>st. relay_send (\<lambda>s. s) (ex_send [109]) [100] 3 ex_registered = (Inr st, ex_sent)"
proof -
  have "\<exists>st. fst (relay_send (\<lambda>s. s) (ex_send [109]) [100] 3 ex_registered) = Inr st"
    by (simp add: ex_registered_rows ex_rows relay_send_def ex_send_def find_session_def
      empty_db_def relay_target_def relay_target_row_def session_by_endpoint_def row_get_def
      active_recipient_def expiry_at_def durable_expiry_def seconds_def Let_def insert_message_def
      new_delivery_def relay_status_in_session_def payload_view_def)
  moreover have "snd (relay_send (\<lambda>s. s) (ex_send [109]) [100] 3 ex_registered) = ex_sent"
    by (simp add: ex_sent_def ex_world_def)
  ultimately show ?thesis by (metis prod.collapse)
qed

lemma ex_claimed_rows: "db_deliveries ex_claimed = [ex_claim]" "db_messages ex_claimed = [ex_message]"
  "db_sessions ex_claimed = [ex_session [1] (u ''codex'') [97] 1, (ex_session [2] (u ''claude-code'') [98] 2)\<lparr>s_last_seen_at := 4\<rparr>]"
  by (simp_all add: ex_claimed_def ex_sent_rows ex_registered_rows ex_rows turn_steps empty_db_def
      row_get_def message_expired_def wake_pending_def open_state_def delivery_render_safe_def
      single_line_render_safe_def render_safe_def render_safe_char_def cat_Cc_def cat_Zl_def cat_Zp_def
      u_def fit_delivery_def project_def claim_one_def upd_delivery_def row_upd_def claim_delivery_def
      claim_wake_generation_def seconds_def)

lemma ex_delivered_rows: "db_deliveries ex_delivered = [mark_delivered 5 ex_claim]" "db_messages ex_delivered = [ex_message]"
  by (simp_all add: ex_delivered_def relay_ack_def delivery_with_message_def row_get_def ex_claimed_rows
      ex_rows upd_delivery_def row_upd_def)

lemma ex_safe: "delivery_render_safe (\<lambda>_. [116]) ex_pending ex_message"
  by (simp add: ex_rows delivery_render_safe_def single_line_render_safe_def render_safe_def
      render_safe_char_def cat_Cc_def cat_Zl_def cat_Zp_def u_def)

text \<open>The turn that claimed it, as the recipient saw it.\<close>

definition ex_turn :: "turn_response relay_outcome" where
  "ex_turn = relay_turn (ex_env []) (ex_args (u ''claude-code'') [98] 0) 4 ex_sent"

lemma ex_turn_success: "\<exists>resp. ex_turn = (Inr resp, ex_claimed) \<and> map dv_delivery_id (resp_deliveries resp) = [[100]]"
proof -
  have "\<exists>resp. fst ex_turn = Inr resp \<and> map dv_delivery_id (resp_deliveries resp) = [[100]]"
    by (simp add: ex_turn_def ex_sent_rows ex_registered_rows ex_rows turn_steps empty_db_def
      row_get_def message_expired_def wake_pending_def open_state_def delivery_render_safe_def
      single_line_render_safe_def render_safe_def render_safe_char_def cat_Cc_def cat_Zl_def cat_Zp_def
      u_def fit_delivery_def project_def claim_one_def upd_delivery_def row_upd_def claim_delivery_def
      claim_wake_generation_def claimed_view_def)
  moreover have "snd ex_turn = ex_claimed" by (simp add: ex_turn_def ex_claimed_def)
  ultimately show ?thesis by (metis prod.collapse)
qed

text \<open>A message of 300 characters under a budget of 620: 21 of them fit.\<close>

definition ex_long :: relay_message where
  "ex_long = ex_message\<lparr>m_payload := replicate 300 97\<rparr>"

definition ex_project :: "nat \<Rightarrow> (delivery_view \<times> nat) option" where
  "ex_project = project (ex_env []) (ex_args (u ''claude-code'') [98] 620) 4
     (ex_session [2] (u ''claude-code'') [98] 2)
     (turn_answer (session_view (ex_session [2] (u ''claude-code'') [98] 2) 4 86400 0) 1 None) []
     0 ex_pending ex_long"

lemma ex_project_fits: "ex_project 21 \<noteq> None" "ex_project 22 = None" "ex_project 300 = None"
  by (simp_all add: ex_project_def ex_long_def project_def projected_view_def delivery_view_def
      delivery_text_def length_join_lines payload_page_at_def redelivery_guidance_def ex_rows
      ex_args_def ex_env_def Let_def dec_def dec_digits.simps)

end
