(* ===== verification/Relay_Claimed.thy ===== *)
theory Relay_Claimed
  imports Relay_Claims Relay_Example
begin

text \<open>
  What a successful turn answers and stores: every delivery it returns is claimed under the token
  it shows, and an unbudgeted turn returns every delivery that can be handed out.
\<close>

section \<open>The session of a turn\<close>

lemma scope_transition_scope:
  assumes "scope_transition a db = (Inr (Some s, g), db1)"
  shows "s_container_ref s = ta_container_ref a \<and> s_runtime s = ta_runtime a \<and> s_session_ref s = ta_session_ref a"
  using assms
  by (auto simp: scope_transition_def Let_def split: option.splits if_splits dest: find_session_SomeD)

lemma register_session_scope:
  assumes reg: "register_session env a c r db = (Inr (Inr s), db1)"
    and "case r of None \<Rightarrow> True | Some x \<Rightarrow> s_container_ref x = ta_container_ref a
      \<and> s_runtime x = ta_runtime a \<and> s_session_ref x = ta_session_ref a"
  shows "s_container_ref s = ta_container_ref a \<and> s_runtime s = ta_runtime a \<and> s_session_ref s = ta_session_ref a
    \<and> s_state s = Active"
  using assms
  by (auto simp: register_session_def Let_def new_session_def split: option.splits if_splits)

lemma register_session_stored:
  assumes "register_session env a c r db = (Inr (Inr s), db1)"
    and "case r of None \<Rightarrow> True | Some x \<Rightarrow> x \<in> set (db_sessions db)"
  shows "s \<in> set (db_sessions db1)"
  using assms
  by (auto simp: register_session_def Let_def row_upd_def image_iff split: option.splits if_splits)

text \<open>A turn without an OpenCode fence runs its three stages in order.\<close>

lemma turn_stages:
  assumes turn: "relay_turn env a c db = (Inr resp, db')" and "ta_opencode_wake a = None"
    and some: "resp_deliveries resp \<noteq> [] \<or> ta_register_session a"
  obtains s g r db2 db3 where "scope_transition a db = (Inr (r, g), db2)"
    "register_session env a c r db2 = (Inr (Inr s), db3)"
    "turn_deliveries env a c s g None db3 = (Inr resp, db')"
proof -
  have body: "turn_body env a c db = (Inr resp, db')"
    using turn by (auto simp: relay_turn_def split: if_splits prod.splits sum.splits)
  have guard: "opencode_guard env a c db = (Inr (Inr None), db)"
    using assms(2) by (simp add: opencode_guard_def)
  obtain r g db2 where st: "scope_transition a db = (Inr (r, g), db2)"
    using body guard by (auto simp: turn_body_def split: prod.splits sum.splits)
  obtain v db3 where reg: "register_session env a c r db2 = (Inr v, db3)"
    using body guard st by (auto simp: turn_body_def split: prod.splits sum.splits)
  obtain s where v: "v = Inr s"
  proof (cases v)
    case (Inl z)
    with reg have "\<not> ta_register_session a"
      by (auto simp: register_session_def Let_def split: option.splits if_splits)
    moreover have "resp_deliveries resp = []" using body guard st reg Inl by (auto simp: turn_body_def)
    ultimately show ?thesis using some by simp
  qed
  with body guard st reg have "turn_deliveries env a c s g None db3 = (Inr resp, db')"
    by (simp add: turn_body_def)
  with st reg v that show thesis by blast
qed

text \<open>What the stages before the claims leave: the deliveries and messages as they were, and the
  session stored at the requested scope.\<close>

lemma turn_session:
  assumes "db_inv db" and st: "scope_transition a db = (Inr (r, g), db2)"
    and reg: "register_session env a c r db2 = (Inr (Inr s), db3)"
  shows "db_inv db3" and "db_deliveries db3 = db_deliveries db" "db_messages db3 = db_messages db"
    and "find_session db3 (ta_container_ref a) (ta_runtime a) (ta_session_ref a) = Some s"
    and "s_state s = Active"
proof -
  note row = scope_transition_row [OF st]
  have "keeps db db3"
    by (rule keeps_trans [OF keeps_scope_transition [OF st] keeps_register [OF reg row]])
  then show inv: "db_inv db3" using assms(1) by (simp add: keeps_def)
  show "db_deliveries db3 = db_deliveries db" "db_messages db3 = db_messages db"
    using scope_transition_tables [OF st] register_tables [OF reg] by simp_all
  have scope: "s_container_ref s = ta_container_ref a \<and> s_runtime s = ta_runtime a
      \<and> s_session_ref s = ta_session_ref a \<and> s_state s = Active"
    by (rule register_session_scope [OF reg])
      (use st scope_transition_scope in \<open>auto split: option.split\<close>)
  then show "s_state s = Active" by blast
  have stored: "s \<in> set (db_sessions db3)"
    by (rule register_session_stored [OF reg]) (use row in \<open>auto split: option.splits\<close>)
  obtain t where t: "find_session db3 (ta_container_ref a) (ta_runtime a) (ta_session_ref a) = Some t"
    using stored scope by (cases "find_session db3 (ta_container_ref a) (ta_runtime a) (ta_session_ref a)")
      (auto simp: find_session_None_iff)
  then have "session_scope t = session_scope s" "t \<in> set (db_sessions db3)"
    using scope find_session_SomeD [OF t] by (auto simp: session_scope_def)
  then have "t = s"
    using inv stored by (auto simp: db_inv_def sessions_ok_def distinct_map inj_on_def)
  with t show "find_session db3 (ta_container_ref a) (ta_runtime a) (ta_session_ref a) = Some s" by simp
qed

text \<open>An open delivery whose message has not expired survives the sweep, and only such a one.\<close>

lemma sweep_row:
  assumes "db_inv db" and "get_message db (d_message_id d) = Some m" and "c < m_expires_at m"
  shows "get_delivery (expire_sweep c db) k = Some d \<longleftrightarrow> get_delivery db k = Some d"
proof -
  have "\<not> message_expired db c (d_message_id d)"
    using message_unique [OF assms(1,2)] assms(3) by simp
  moreover have "d_message_id (mark_expired e) = d_message_id e" for e by (simp add: mark_expired_def)
  ultimately show ?thesis by (auto simp: get_expire_sweep)
qed

lemma claimed_view_facts:
  "dv_delivery_id (claimed_view env a c s x) = sel_id x"
  "dv_message_id (claimed_view env a c s x) = m_id (sel_message x)"
  "dv_state (claimed_view env a c s x) = Claimed"
  "dv_claim_token (claimed_view env a c s x) = Some (sel_token x)"
  "dv_receipt (claimed_view env a c s x) = Some (take 32 (te_hash env (sel_token x)))"
  by (simp_all add: claimed_view_def claim_delivery_def delivery_view_def sel_id_def delivery_receipt_def)

lemma turn_selection_token:
  assumes "x \<in> set (turn_selection env a c s g w db)"
  shows "sel_token x = te_token env (d_id (sel_delivery x))"
proof -
  have "projected env a c s x"
    by (rule select_rows_projected [OF _ assms [unfolded turn_selection_def]]) simp
  then show ?thesis by (simp add: projected_def)
qed

section \<open>Every returned delivery is claimed\<close>

lemma turn_claims_each:
  assumes inv: "db_inv db" and turn: "relay_turn env a c db = (Inr resp, db')"
    and fence: "ta_opencode_wake a = None" and v: "v \<in> set (resp_deliveries resp)"
  shows "\<exists>d m s. get_delivery db (dv_delivery_id v) = Some d \<and> get_message db (d_message_id d) = Some m
     \<and> find_session db' (ta_container_ref a) (ta_runtime a) (ta_session_ref a) = Some s
     \<and> s_state s = Active \<and> d_recipient_endpoint_id d = Some (s_id s)
     \<and> wake_pending c True d \<and> c < m_expires_at m
     \<and> dv_state v = Claimed \<and> dv_message_id v = m_id m
     \<and> dv_claim_token v = Some (te_token env (d_id d))
     \<and> dv_receipt v = Some (take 32 (te_hash env (te_token env (d_id d))))
     \<and> get_delivery db' (dv_delivery_id v) = Some (claim_delivery a c s (te_token env (d_id d)) d)"
proof -
  from v have some: "resp_deliveries resp \<noteq> [] \<or> ta_register_session a" by auto
  obtain s g r db2 db3 where st: "scope_transition a db = (Inr (r, g), db2)"
    and reg: "register_session env a c r db2 = (Inr (Inr s), db3)"
    and deliver: "turn_deliveries env a c s g None db3 = (Inr resp, db')"
    by (rule turn_stages [OF turn fence some])
  note sess = turn_session [OF inv st reg]
  let ?db1 = "expire_sweep c db3"
  let ?sel = "turn_selection env a c s g None ?db1"
  have inv1: "db_inv ?db1" using sess(1) keeps_expire_sweep by (simp add: keeps_def)
  from deliver show ?thesis
  proof (cases rule: turn_deliveries_cases)
    case nothing
    with v show ?thesis by simp
  next
    case claimed
    then obtain x where x: "x \<in> set ?sel" and vx: "v = claimed_view env a c s x" using v by auto
    let ?d = "sel_delivery x" and ?m = "sel_message x"
    have elig: "?d \<in> set (db_deliveries ?db1)" "get_message ?db1 (d_message_id ?d) = Some ?m"
      "d_recipient_endpoint_id ?d = Some (s_id s)" "c < m_expires_at ?m" "wake_pending c True ?d"
      using turn_selection_eligible [OF x] by (auto simp: eligible_iff)
    have "get_delivery ?db1 (sel_id x) = Some ?d"
      using inv1 elig(1) by (auto simp: db_inv_def deliveries_ok_def sel_id_def intro: row_get_distinct)
    moreover have msg: "get_message db3 (d_message_id ?d) = Some ?m"
      using elig(2) by (simp add: expire_sweep_def)
    ultimately have "get_delivery db3 (sel_id x) = Some ?d"
      using sweep_row [OF sess(1) msg elig(4)] by blast
    moreover have tok: "sel_token x = te_token env (d_id ?d)"
      by (rule turn_selection_token [OF x])
    moreover have "get_delivery db' (sel_id x) = Some (claim_delivery a c s (sel_token x) ?d)"
      using get_claims [OF turn_selection_distinct [OF inv1] x] \<open>get_delivery ?db1 (sel_id x) = Some ?d\<close>
      by (simp add: claimed claim_all_deliveries)
    moreover have "find_session db' (ta_container_ref a) (ta_runtime a) (ta_session_ref a) = Some s"
      using sess(4) by (simp add: claimed claim_all_others find_session_def expire_sweep_def)
    ultimately show ?thesis
      using elig msg sess(2,3,5) by (auto simp: vx claimed_view_facts)
  qed
qed

section \<open>Nothing is withheld\<close>

lemma turn_hands_out_each:
  assumes inv: "db_inv db" and turn: "relay_turn env a c db = (Inr resp, db')"
    and free: "ta_opencode_wake a = None" "ta_register_session a" "ta_previous_container_ref a = None"
      "ta_max_chars a = 0" "ta_max_messages a = 0" "ta_max_response_chars a = 0" "ta_exact_delivery_id a = None"
    and s: "find_session db (ta_container_ref a) (ta_runtime a) (ta_session_ref a) = Some s"
    and d: "d \<in> set (db_deliveries db)" "get_message db (d_message_id d) = Some m"
      "d_recipient_endpoint_id d = Some (s_id s)" "c < m_expires_at m" "wake_pending c True d"
      "delivery_render_safe (te_fmt env) d m"
  shows "\<exists>v \<in> set (resp_deliveries resp). dv_delivery_id v = d_id d
     \<and> dv_claim_token v = Some (te_token env (d_id d))"
proof -
  obtain t g r db2 db3 where st: "scope_transition a db = (Inr (r, g), db2)"
    and reg: "register_session env a c r db2 = (Inr (Inr t), db3)"
    and deliver: "turn_deliveries env a c t g None db3 = (Inr resp, db')"
    by (rule turn_stages [OF turn free(1) disjI2 [OF free(2)]])
  have r: "r = Some s" using st s free(3) by (auto simp: scope_transition_def Let_def)
  then have id: "s_id t = s_id s"
    using reg free(2) by (auto simp: register_session_def Let_def)
  note sess = turn_session [OF inv st reg]
  let ?db1 = "expire_sweep c db3"
  let ?sel = "turn_selection env a c t g None ?db1"
  have msg: "get_message db3 (d_message_id d) = Some m" using d(2) sess(3) by simp
  have "get_delivery db3 (d_id d) = Some d"
    using sess(1,2) d(1) by (auto simp: db_inv_def deliveries_ok_def intro: row_get_distinct)
  then have "get_delivery ?db1 (d_id d) = Some d" using sweep_row [OF sess(1) msg d(4)] by blast
  then have "(d, m) \<in> set (eligible ?db1 (s_id t) c)"
    using msg d(3-5) id row_get_SomeD(1) by (fastforce simp: eligible_iff expire_sweep_def)
  then have "(d, m) \<in> set (map (\<lambda>x. (sel_delivery x, sel_message x)) ?sel)"
    using free(4-7) d(6) by (simp add: turn_selection_def turn_rows_def select_rows_all del: set_map)
  then obtain x where x: "x \<in> set ?sel" and xd: "sel_delivery x = d" by auto
  from deliver have "resp_deliveries resp = map (claimed_view env a c t) ?sel"
  proof (cases rule: turn_deliveries_cases)
    case nothing
    with deliver free(6) x show ?thesis
      by (auto simp: turn_deliveries_def turn_selection_def turn_answer_for_def turn_rows_def Let_def
          turn_answer_def split: if_splits)
  qed simp
  moreover have "sel_token x = te_token env (d_id d)"
    using turn_selection_token [OF x] xd by simp
  ultimately show ?thesis
    using x xd by (auto simp: claimed_view_facts sel_id_def intro!: bexI [of _ "claimed_view env a c t x"])
qed

end
