(* ===== verification/Relay_Contracts.thy ===== *)
theory Relay_Contracts
  imports Relay_Claimed
begin

text \<open>
  The outcome of each message operation, branch by branch, in the form the guarantees use: what a
  successful send, acknowledgement and reply have done, and what a failed transaction leaves.
\<close>

section \<open>Status\<close>

lemma status_same_tables:
  assumes "relay_status_in_session H m c po pl db = (Inr st, db1)"
  shows "ms_message_id st = m_id m" "db_messages db1 = db_messages db" "db_sessions db1 = db_sessions db"
    "map d_id (db_deliveries db1) = map d_id (db_deliveries db)"
  using assms by (auto simp: relay_status_in_session_def Let_def expire_message_deliveries_def
      rows_where_def mark_expired_def split: sum.splits if_splits)

lemma status_whole:
  obtains st db1 where "relay_status_in_session H m c 0 None db = (Inr st, db1)"
  by (auto simp: relay_status_in_session_def Let_def payload_view_def)

lemma status_unexpired:
  "c < m_expires_at m \<Longrightarrow> relay_status_in_session H m c po pl db = (r, db1) \<Longrightarrow> db1 = db"
  by (auto simp: relay_status_in_session_def Let_def split: sum.splits)

lemma status_failed: "relay_status_in_session H m c po pl db = (Inl e, db1) \<Longrightarrow> db1 = db"
  by (auto simp: relay_status_in_session_def Let_def split: sum.splits)

section \<open>Send\<close>

definition sent_message :: "send_args \<Rightarrow> relay_session \<Rightarrow> time \<Rightarrow> time \<Rightarrow> relay_message" where
  "sent_message a sender current expires_at =
     \<lparr>m_id = sa_message_id a, m_sender_runtime = sa_sender_runtime a,
      m_sender_session_ref = sa_sender_session_ref a, m_sender_endpoint_id = Some (s_id sender),
      m_recipient_selector = sa_recipient a, m_container_ref = s_container_ref sender,
      m_payload = sa_payload a, m_redacted = (if sa_redacted a then 1 else 0),
      m_in_reply_to = sa_in_reply_to a, m_created_at = current, m_expires_at = expires_at\<rparr>"

lemma send_success:
  assumes "relay_send H a fresh c db = (Inr st, db1)"
  obtains (repeated) sender ex where
      "find_session db (sa_container_ref a) (sa_sender_runtime a) (sa_sender_session_ref a) = Some sender"
      "s_state sender \<noteq> Closed" "\<forall>p. sa_in_reply_to a = Some p \<longrightarrow> get_message db p \<noteq> None"
      "get_message db (sa_message_id a) = Some ex" "same_send ex sender a"
      "relay_status_in_session H ex c 0 None db = (Inr st, db1)"
  | (stored) sender t e where
      "find_session db (sa_container_ref a) (sa_sender_runtime a) (sa_sender_session_ref a) = Some sender"
      "s_state sender \<noteq> Closed" "\<forall>p. sa_in_reply_to a = Some p \<longrightarrow> get_message db p \<noteq> None"
      "get_message db (sa_message_id a) = None"
      "relay_target db (sa_recipient_runtime a) (sa_recipient_kind a) (sa_recipient_value a) = Inr t"
      "expiry_at c (sa_expires_in_seconds a) = Inr e"
      "relay_status_in_session H (sent_message a sender c e) c 0 None
         (db\<lparr>db_messages := db_messages db @ [sent_message a sender c e],
             db_deliveries := db_deliveries db @ [new_delivery fresh (sa_message_id a) t]\<rparr>) = (Inr st, db1)"
proof -
  obtain sender where s: "find_session db (sa_container_ref a) (sa_sender_runtime a) (sa_sender_session_ref a) = Some sender"
    "s_state sender \<noteq> Closed" and p: "\<forall>p. sa_in_reply_to a = Some p \<longrightarrow> get_message db p \<noteq> None"
    using assms by (auto simp: relay_send_def split: option.splits if_splits)
  then have open': "\<not> (case sa_in_reply_to a of None \<Rightarrow> False | Some p \<Rightarrow> get_message db p = None)"
    by (auto split: option.split)
  show thesis
  proof (cases "get_message db (sa_message_id a)")
    case (Some ex)
    with assms s open' have "same_send ex sender a" "relay_status_in_session H ex c 0 None db = (Inr st, db1)"
      by (auto simp: relay_send_def split: if_splits)
    with repeated s p Some show thesis by blast
  next
    case None
    obtain t e where t: "relay_target db (sa_recipient_runtime a) (sa_recipient_kind a) (sa_recipient_value a) = Inr t"
      and e: "expiry_at c (sa_expires_in_seconds a) = Inr e"
      using assms s open' None by (auto simp: relay_send_def split: sum.splits)
    have "relay_status_in_session H (sent_message a sender c e) c 0 None
        (db\<lparr>db_messages := db_messages db @ [sent_message a sender c e],
            db_deliveries := db_deliveries db @ [new_delivery fresh (sa_message_id a) t]\<rparr>) = (Inr st, db1)"
      using assms s open' None t e
      by (simp add: relay_send_def Let_def sent_message_def insert_message_def split: if_splits)
    with stored s p None t e show thesis by blast
  qed
qed

lemma send_failed: "relay_send H a fresh c db = (Inl e, db1) \<Longrightarrow> db1 = db"
  by (auto simp: relay_send_def Let_def relay_status_in_session_def payload_view_def insert_message_def
      split: option.splits sum.splits if_splits)

lemma same_send_fresh:
  "expiry_at c (sa_expires_in_seconds a) = Inr e \<Longrightarrow> same_send (sent_message a sender c e) sender a"
  by (auto simp: same_send_def sent_message_def intro: expiry_at_matches)

lemma send_again:
  assumes "relay_send H a fresh c db = (Inr st, db1)"
  shows "\<exists>st' db2. relay_send H a fresh' c' db1 = (Inr st', db2) \<and> ms_message_id st' = sa_message_id a
     \<and> db_messages db2 = db_messages db1 \<and> map d_id (db_deliveries db2) = map d_id (db_deliveries db1)"
proof -
  have again: ?thesis
    if "find_session db1 (sa_container_ref a) (sa_sender_runtime a) (sa_sender_session_ref a) = Some sender"
      "s_state sender \<noteq> Closed" "\<forall>p. sa_in_reply_to a = Some p \<longrightarrow> get_message db1 p \<noteq> None"
      "get_message db1 (sa_message_id a) = Some ex" "same_send ex sender a" for sender ex
  proof -
    obtain st' db2 where st: "relay_status_in_session H ex c' 0 None db1 = (Inr st', db2)"
      by (rule status_whole)
    then have "relay_send H a fresh' c' db1 = (Inr st', db2)"
      using that by (auto simp: relay_send_def split: option.split)
    with status_same_tables [OF st] row_get_SomeD(2) [OF that(4)] show ?thesis by auto
  qed
  from assms show ?thesis
  proof (cases rule: send_success)
    case (repeated sender ex)
    with again [of sender ex] status_same_tables [OF repeated(6)] show ?thesis
      by (simp add: find_session_def)
  next
    case (stored sender t e)
    note tables = status_same_tables [OF stored(7)]
    have "get_message db1 (sa_message_id a) = Some (sent_message a sender c e)"
      using stored(4) by (simp add: tables row_get_append sent_message_def)
    moreover have "\<forall>p. sa_in_reply_to a = Some p \<longrightarrow> get_message db1 p \<noteq> None"
      using stored(3) by (auto simp: tables row_get_append split: option.split)
    ultimately show ?thesis
      using again [of sender "sent_message a sender c e"] stored(1,2) same_send_fresh [OF stored(6)]
      by (simp add: tables find_session_def)
  qed
qed

lemma expiry_at_future:
  assumes "expiry_at c e = Inr t" and "\<And>n. e = Some n \<Longrightarrow> 0 < n" and "c < durable_expiry"
  shows "c < t"
  using assms expiry_at_later [of c _ t] by (cases e) (auto simp: expiry_at_def)

section \<open>Acknowledgement\<close>

lemma relay_ack_success:
  assumes "relay_ack k tok c db = (Inr r, db1)"
  obtains d m where "delivery_with_message db k = Some (d, m)" "d_claim_token d = Some tok"
    "if ar_already_delivered r then d_state d = Delivered \<and> db1 = db \<and> r = ack_answer d (d_delivered_at d) True
     else live_claim d m c \<and> db1 = upd_delivery k (mark_delivered c) db \<and> r = ack_answer d (Some c) False"
proof -
  obtain d m where dm: "delivery_with_message db k = Some (d, m)"
    using assms by (auto simp: relay_ack_def split: option.splits)
  moreover have "d_id d = k" using delivery_with_message_SomeD(3) [OF dm] .
  moreover have "d_claim_token d = Some tok"
    "if ar_already_delivered r then d_state d = Delivered \<and> db1 = db \<and> r = ack_answer d (d_delivered_at d) True
     else live_claim d m c \<and> db1 = upd_delivery k (mark_delivered c) db \<and> r = ack_answer d (Some c) False"
    using assms dm \<open>d_id d = k\<close>
    by (auto simp: relay_ack_def live_claim_def not_le ack_answer_def split: option.splits if_splits)
  ultimately show thesis using that by blast
qed

lemma delivery_with_message_acked:
  assumes "delivery_with_message db k = Some (d, m)"
  shows "delivery_with_message (upd_delivery k (mark_delivered c) db) k = Some (mark_delivered c d, m)"
  using assms
  by (auto simp: delivery_with_message_def upd_delivery_def row_get_row_upd mark_delivered_def
      split: option.splits)

lemma relay_ack_again:
  assumes "relay_ack k tok c db = (Inr r, db1)"
  shows "\<exists>r'. relay_ack k tok c' db1 = (Inr r', db1) \<and> ar_already_delivered r'
    \<and> ar_delivered_at r' = ar_delivered_at r \<and> ar_delivery_id r' = ar_delivery_id r"
  using assms
proof (rule relay_ack_success)
  fix d m
  assume row: "delivery_with_message db k = Some (d, m)" and tok: "d_claim_token d = Some tok"
    and rest: "if ar_already_delivered r then d_state d = Delivered \<and> db1 = db \<and> r = ack_answer d (d_delivered_at d) True
     else live_claim d m c \<and> db1 = upd_delivery k (mark_delivered c) db \<and> r = ack_answer d (Some c) False"
  show ?thesis
  proof (cases "ar_already_delivered r")
    case True
    with rest row tok show ?thesis by (simp add: relay_ack_def ack_answer_def)
  next
    case False
    with rest delivery_with_message_acked [OF row, of c] tok show ?thesis
      by (simp add: relay_ack_def ack_answer_def mark_delivered_def)
  qed
qed

lemma relay_ack_failure:
  assumes "relay_ack k tok c db = (Inl e, db1)"
  shows "db1 = db \<or> (\<exists>d m. delivery_with_message db k = Some (d, m) \<and> d_state d = Claimed
    \<and> m_expires_at m \<le> c \<and> db1 = upd_delivery k mark_expired db)"
  using assms
  by (auto simp: relay_ack_def dest: delivery_with_message_SomeD split: option.splits prod.splits if_splits)

section \<open>Reply\<close>

definition reply_message :: "reply_args \<Rightarrow> relay_message \<Rightarrow> relay_session \<Rightarrow> relay_session \<Rightarrow> time \<Rightarrow> time \<Rightarrow> relay_message" where
  "reply_message a m sender recipient c e =
     \<lparr>m_id = ra_reply_message_id a, m_sender_runtime = s_runtime sender,
      m_sender_session_ref = s_session_ref sender, m_sender_endpoint_id = Some (s_id sender),
      m_recipient_selector = s_id recipient, m_container_ref = s_container_ref sender,
      m_payload = ra_payload a, m_redacted = (if ra_redacted a then 1 else 0),
      m_in_reply_to = Some (m_id m), m_created_at = c, m_expires_at = e\<rparr>"

lemma reply_new_success:
  assumes "relay_reply_atomic H a fresh c db = (Inr st, db1)" and "get_message db (ra_reply_message_id a) = None"
  obtains d m sender recipient e db2 where "delivery_with_message db (ra_delivery_id a) = Some (d, m)"
    "reply_allowed H d m (ra_receipt a) c = Inr False"
    "reply_sender db d = Inr sender" "reply_recipient db m = Inr recipient"
    "expiry_at c (ra_expires_in_seconds a) = Inr e"
    "insert_message (reply_message a m sender recipient c e)
       (new_delivery fresh (ra_reply_message_id a) recipient) db = (Inr (), db2)"
    "relay_status_in_session H (reply_message a m sender recipient c e) c 0 None
       (if d_state d = Claimed then upd_delivery (d_id d) (mark_delivered c) db2 else db2) = (Inr st, db1)"
proof -
  obtain d m where dm: "delivery_with_message db (ra_delivery_id a) = Some (d, m)"
    using assms(1) by (auto simp: relay_reply_atomic_def split: option.splits)
  have ok: "reply_allowed H d m (ra_receipt a) c = Inr False"
    using assms(1) dm by (auto simp: relay_reply_atomic_def split: sum.splits if_splits)
  obtain sender where s: "reply_sender db d = Inr sender"
    using assms(1) dm ok by (auto simp: relay_reply_atomic_def split: sum.splits)
  have create: "create_reply H a d m sender fresh c db = (Inr st, db1)"
    using assms dm ok s by (simp add: relay_reply_atomic_def)
  obtain recipient e where r: "reply_recipient db m = Inr recipient" "expiry_at c (ra_expires_in_seconds a) = Inr e"
    using create by (auto simp: create_reply_def split: sum.splits)
  then show thesis
    using create that [OF dm ok s r]
    by (auto simp: create_reply_def Let_def reply_message_def split: sum.splits prod.splits)
qed

lemma reply_failed:
  assumes "relay_reply_atomic H a fresh c db = (Inl e, db1)"
  shows "db1 = db \<or> (\<exists>d m. delivery_with_message db (ra_delivery_id a) = Some (d, m) \<and> d_state d = Claimed
    \<and> m_expires_at m \<le> c \<and> db1 = upd_delivery (ra_delivery_id a) mark_expired db)"
proof (cases "delivery_with_message db (ra_delivery_id a)")
  case None
  with assms show ?thesis by (simp add: relay_reply_atomic_def)
next
  case (Some dm)
  obtain d m where dm: "dm = (d, m)" by (cases dm)
  have exp: "d_state d = Claimed \<and> m_expires_at m \<le> c" if "reply_allowed H d m r c = Inr True" for r
    using that by (auto simp: reply_allowed_def split: if_splits option.splits sum.splits)
  have create: "db1 = db" if "create_reply H a d m s fresh c db = (Inl e, db1)" for s
    using that by (auto simp: create_reply_def Let_def relay_status_in_session_def payload_view_def
        split: sum.splits prod.splits dest: insert_message_failed)
  show ?thesis
    using assms Some dm delivery_with_message_SomeD(3) [OF Some [unfolded dm]]
    by (auto simp: relay_reply_atomic_def dest: exp create status_failed
        split: sum.splits option.splits if_splits)
qed

end
