(* ===== verification/Relay_Guarantees.thy ===== *)
theory Relay_Guarantees
  imports Relay_Contracts
begin

text \<open>
  What the Relay store promises its clients: the invariant of every reachable database, the order
  it evolves in, and the contract of sending, claiming, acknowledging, replying and naming.
\<close>

section \<open>Reachable databases\<close>

text \<open>C1: every database that any sequence of Relay transactions produces, starting from the empty
  one, satisfies the invariant of its tables: unique keys, one well-formed delivery for each
  message, closed sessions without a name, every name bound to the one session that carries it, at
  most three explicit work references for an endpoint, at most one wake reservation for an endpoint
  and for a delivery, none above the generation counter, and a bounded trace.\<close>

theorem relay_store_invariant: "db_inv (fold (relay_exec W) ops empty_db)"
  by (rule reachable_inv)


text \<open>Once a delivery is acknowledged its state, claim token, time of delivery and number of
  attempts never change again, and its message is still there unaltered, whatever runs later.\<close>

theorem delivered_is_final:
  assumes "db_inv db" and "get_delivery db k = Some d" and "d_state d = Delivered"
  shows "\<exists>e m. get_delivery (fold (relay_exec W) ops db) k = Some e \<and> d_state e = Delivered
     \<and> d_claim_token e = d_claim_token d \<and> d_delivered_at e = d_delivered_at d
     \<and> d_attempts e = d_attempts d
     \<and> get_message db (d_message_id d) = Some m
     \<and> get_message (fold (relay_exec W) ops db) (d_message_id e) = Some m"
proof -
  have ev: "evolves db (fold (relay_exec W) ops db)" by (rule relay.run_below [OF assms(1)])
  obtain e where e: "get_delivery (fold (relay_exec W) ops db) k = Some e" "advances d e"
    using evolvesD(2) [OF ev assms(2)] by blast
  have "d_message_id d \<in> set (map d_message_id (db_deliveries db))"
    using row_get_SomeD(1) [OF assms(2)] by simp
  then have "d_message_id d \<in> m_id ` set (db_messages db)"
    using assms(1) unfolding db_inv_def deliveries_ok_def by (metis list.set_map)
  then obtain m where "get_message db (d_message_id d) = Some m"
    using row_get_None_iff [of m_id "d_message_id d" "db_messages db"] by fastforce
  with e assms(3) evolvesD(1) [OF ev] show ?thesis
    by (auto simp: advances_def same_address_def open_state_def)
qed

section \<open>Turns\<close>

text \<open>C3: a turn never touches a delivery under a live claim. Whoever asks, and with whatever
  arguments, the row of a claimed delivery whose lease and message have not run out is unchanged,
  so no second session is handed it and its token stays good.\<close>

theorem turn_spares_live_claims:
  assumes "db_inv db" and "get_delivery db k = Some d" and "get_message db (d_message_id d) = Some m"
    and "live_claim d m current"
  shows "get_delivery (snd (relay_turn env a current db)) k = Some d"
proof -
  have "d_id d = k" using row_get_SomeD(2) [OF assms(2)] .
  with assms have "held db current d" by (auto simp: held_def)
  from held_turn [OF assms(1) this] \<open>d_id d = k\<close> show ?thesis by (auto simp: held_def)
qed

theorem turn_spares_live_claims_witness:
  "get_delivery (snd (relay_turn (ex_env []) (ex_args (u ''claude-code'') [98] 0) 5 ex_claimed)) [100] = Some ex_claim"
  by (rule turn_spares_live_claims [OF ex_inv(3), where m = ex_message])
    (simp_all add: ex_claimed_rows row_get_def ex_rows live_claim_def)

text \<open>C6: the deliveries a turn selects fit its budgets: their texts, joined by a blank line, the
  number of messages, and the compact JSON text of the response that holds them.\<close>

theorem turn_selection_within_budget:
  "within_budget env a (turn_answer_for c s g w db) (turn_selection env a c s g w db)"
  unfolding turn_selection_def
  by (rule select_rows_budget) (auto simp: within_budget_def turn_chars_def)

text \<open>A turn hands out distinct deliveries in the order of their messages, oldest first, all of
  them addressed to the session, unexpired, and pending or with a lapsed lease.\<close>

theorem turn_selection_oldest_first:
  assumes "db_inv db"
  shows "sorted (map (\<lambda>x. (m_created_at (sel_message x), sel_id x)) (turn_selection env a c s g w db))
    \<and> distinct (map sel_id (turn_selection env a c s g w db))
    \<and> (\<forall>x \<in> set (turn_selection env a c s g w db).
         d_recipient_endpoint_id (sel_delivery x) = Some (s_id s)
         \<and> c < m_expires_at (sel_message x)
         \<and> (d_state (sel_delivery x) = Pending
            \<or> d_state (sel_delivery x) = Claimed \<and> lease_over c (sel_delivery x)))"
proof (intro conjI ballI)
  have "sorted (map (\<lambda>(d, m). (m_created_at m, d_id d)) (eligible db (s_id s) c))"
    unfolding eligible_def by (rule sorted_by_age)
  from subseq_sorted [OF subseq_map [OF turn_selection_rows] this]
  show "sorted (map (\<lambda>x. (m_created_at (sel_message x), sel_id x)) (turn_selection env a c s g w db))"
    by (simp add: comp_def sel_id_def)
  show "distinct (map sel_id (turn_selection env a c s g w db))"
    by (rule turn_selection_distinct [OF assms])
qed (auto dest!: turn_selection_eligible simp: eligible_iff wake_pending_def)





text \<open>C7: a first message that is too long for the character budget is cut to its longest prefix
  that fits: when the whole payload does not fit and a prefix does, the one selected fits and one
  character more would not, or is the whole payload.\<close>

theorem turn_cuts_to_longest_prefix:
  assumes "ta_max_response_chars a = 0"
    and "project env a c r ans [] used d m (length (m_payload m)) = None"
    and "0 < k" "k < length (m_payload m)" and "project env a c r ans [] used d m k \<noteq> None"
    and "project env a c r ans [] used d m (Suc k) = None \<or> Suc k = length (m_payload m)"
  shows "fit_delivery (project env a c r ans [] used d m) True (length (m_payload m))
    = project env a c r ans [] used d m k"
  using assms by (rule fit_delivery_longest)

theorem turn_cuts_to_longest_prefix_witness:
  "fit_delivery ex_project True 300 = ex_project 21"
proof -
  have long: "length (m_payload ex_long) = 300" by (simp add: ex_long_def)
  have "ta_max_response_chars (ex_args (u ''claude-code'') [98] 620) = 0" by (simp add: ex_args_def)
  from turn_cuts_to_longest_prefix [OF this, where m = ex_long and k = 21, unfolded long,
      folded ex_project_def] ex_project_fits
  show ?thesis by (simp add: ex_project_def)
qed

section \<open>Sending\<close>

text \<open>C8: sending a new message to an active recipient stores the message and exactly one delivery,
  pending and addressed to the endpoint the selector resolves to; nothing else changes.\<close>

theorem send_stores_one_delivery:
  assumes "relay_send H a fresh c db = (Inr st, db')" and "get_message db (sa_message_id a) = None"
    and "\<And>n. sa_expires_in_seconds a = Some n \<Longrightarrow> 0 < n" and "c < durable_expiry"
  shows "\<exists>m t. relay_target db (sa_recipient_runtime a) (sa_recipient_kind a) (sa_recipient_value a) = Inr t
     \<and> s_state t = Active \<and> m_id m = sa_message_id a \<and> m_payload m = sa_payload a
     \<and> m_created_at m = c \<and> c < m_expires_at m \<and> expiry_matches m (sa_expires_in_seconds a)
     \<and> db' = db\<lparr>db_messages := db_messages db @ [m],
                db_deliveries := db_deliveries db @ [new_delivery fresh (m_id m) t]\<rparr>"
  using assms(1)
proof (cases rule: send_success)
  case (repeated sender ex)
  with assms(2) show ?thesis by simp
next
  case (stored sender t e)
  have "c < e" by (rule expiry_at_future [OF stored(6) assms(3,4)])
  with status_unexpired [OF _ stored(7)] stored(5,6) relay_target_active [OF stored(5)] show ?thesis
    by (auto simp: sent_message_def intro!: exI [of _ "sent_message a sender c e"] expiry_at_matches)
qed

theorem send_stores_one_delivery_witness:
  "\<exists>m t. relay_target ex_registered None KEndpoint [2] = Inr t \<and> m_id m = [109]
     \<and> ex_sent = ex_registered\<lparr>db_messages := db_messages ex_registered @ [m],
         db_deliveries := db_deliveries ex_registered @ [new_delivery [100] (m_id m) t]\<rparr>"
proof -
  obtain st where st: "relay_send (\<lambda>s. s) (ex_send [109]) [100] 3 ex_registered = (Inr st, ex_sent)"
    using ex_send_success by blast
  from send_stores_one_delivery [OF st] show ?thesis
    by (simp add: ex_registered_rows empty_db_def ex_send_def durable_expiry_def) blast
qed

text \<open>Sending is idempotent. After a send has succeeded, the same request, at any later time and
  whatever identifier is drawn for it, succeeds again for the same message and adds no message and
  no delivery.\<close>

theorem send_is_idempotent:
  assumes "relay_send H a fresh c db = (Inr st, db1)"
  shows "\<exists>st' db2. relay_send H a fresh' c' db1 = (Inr st', db2) \<and> ms_message_id st' = sa_message_id a
     \<and> db_messages db2 = db_messages db1 \<and> map d_id (db_deliveries db2) = map d_id (db_deliveries db1)"
  using assms by (rule send_again)

section \<open>Acknowledging and replying\<close>

text \<open>C10: a delivery can be acknowledged with a claim token exactly when that token is the one its row
  holds, and it is either delivered already or under a live claim: lapsed leases, superseded
  tokens and expired messages are refused.\<close>

theorem ack_accepts_exactly:
  "(\<exists>r. fst (relay_ack k token current db) = Inr r) \<longleftrightarrow>
     (\<exists>d m. delivery_with_message db k = Some (d, m) \<and> d_claim_token d = Some token
        \<and> (d_state d = Delivered \<or> live_claim d m current))"
  by (rule relay_ack_success_iff)

text \<open>Acknowledging is idempotent: once it has succeeded, the same token is accepted at any later
  time, even after the lease and the message have run out, with the first time of delivery and
  without changing the store.\<close>

theorem ack_is_idempotent:
  assumes "relay_ack k tok c db = (Inr r, db1)"
  shows "\<exists>r'. relay_ack k tok c' db1 = (Inr r', db1) \<and> ar_already_delivered r'
    \<and> ar_delivered_at r' = ar_delivered_at r \<and> ar_delivery_id r' = ar_delivery_id r"
  using assms by (rule relay_ack_again)

text \<open>An acknowledgement by receipt that is not a repetition needs a live claim whose token has
  that receipt, and marks exactly that delivery delivered.\<close>

theorem ack_by_receipt_needs_live_claim:
  assumes "relay_ack_by_receipt H k receipt current db = (Inr r, db')" and "\<not> ar_already_delivered r"
    and "db_inv db"
  shows "\<exists>d m t. delivery_with_message db k = Some (d, m) \<and> live_claim d m current
     \<and> d_claim_token d = Some t \<and> receipt = take 32 (H t)
     \<and> db' = upd_delivery k (mark_delivered current) db"
proof -
  obtain d m where dm: "delivery_with_message db k = Some (d, m)" "live_claim d m current"
    "db' = upd_delivery k (mark_delivered current) db"
    "(\<exists>t. d_claim_token d = Some t \<and> receipt = take 32 (H t)) \<or> d_claim_token d = None"
    using relay_ack_by_receipt_fresh [OF assms(1,2)] by blast
  have "delivery_wf d"
    using assms(3) delivery_with_message_SomeD(2) [OF dm(1)]
    by (simp add: db_inv_def deliveries_ok_def list_all_iff)
  then have "d_claim_token d \<noteq> None" using dm(2) by (simp add: delivery_wf_def live_claim_def)
  with dm show ?thesis by blast
qed

text \<open>A failed transaction leaves the store as it found it; the one exception is that an
  acknowledgement or a reply that finds its message expired under the claim records the expiry.\<close>

theorem failures_roll_back:
  "(relay_send H sa f c db = (Inl e, db1) \<longrightarrow> db1 = db)
   \<and> (relay_turn env ta c db = (Inl e, db1) \<longrightarrow> db1 = db)
   \<and> (relay_ack k tok c db = (Inl e, db1) \<longrightarrow> db1 = db \<or>
        (\<exists>d m. delivery_with_message db k = Some (d, m) \<and> d_state d = Claimed \<and> m_expires_at m \<le> c
           \<and> db1 = upd_delivery k mark_expired db))
   \<and> (relay_reply_atomic H ra f c db = (Inl e, db1) \<longrightarrow> db1 = db \<or>
        (\<exists>d m. delivery_with_message db (ra_delivery_id ra) = Some (d, m) \<and> d_state d = Claimed
           \<and> m_expires_at m \<le> c \<and> db1 = upd_delivery (ra_delivery_id ra) mark_expired db))"
proof (intro conjI impI)
  show "db1 = db" if "relay_turn env ta c db = (Inl e, db1)"
    using that by (auto simp: relay_turn_def split: if_splits prod.splits sum.splits)
qed (simp_all add: send_failed relay_ack_failure reply_failed)

definition ex_reply :: reply_args where
  "ex_reply = \<lparr>ra_delivery_id = [100], ra_receipt = Some [107, 100], ra_reply_message_id = [110],
     ra_payload = [111], ra_redacted = False, ra_expires_in_seconds = None, ra_expiry_supplied = False\<rparr>"

text \<open>C9: a reply is atomic. When a new reply succeeds, the reply is stored with one delivery to the
  sender of the original message, it names that message, and the delivery it answers is delivered:
  no claim is left open behind a sent reply.\<close>

theorem reply_answers_and_delivers:
  assumes "db_inv db" and "relay_reply_atomic H a fresh c db = (Inr st, db')"
    and "get_message db (ra_reply_message_id a) = None"
    and "\<And>n. ra_expires_in_seconds a = Some n \<Longrightarrow> 0 < n" and "c < durable_expiry"
  shows "\<exists>d m r t. delivery_with_message db (ra_delivery_id a) = Some (d, m)
     \<and> m_sender_endpoint_id m = Some (s_id t)
     \<and> get_message db' (ra_reply_message_id a) = Some r \<and> m_payload r = ra_payload a
     \<and> m_in_reply_to r = Some (m_id m) \<and> m_sender_endpoint_id r = d_recipient_endpoint_id d
     \<and> get_delivery db' fresh = Some (new_delivery fresh (m_id r) t)
     \<and> (\<exists>e. get_delivery db' (ra_delivery_id a) = Some e \<and> d_state e = Delivered)"
  using assms(2,3)
proof (rule reply_new_success)
  fix d m sender recipient e db2
  assume dm: "delivery_with_message db (ra_delivery_id a) = Some (d, m)"
    and ok: "reply_allowed H d m (ra_receipt a) c = Inr False"
    and ends: "reply_sender db d = Inr sender" "reply_recipient db m = Inr recipient"
    and e: "expiry_at c (ra_expires_in_seconds a) = Inr e"
    and ins: "insert_message (reply_message a m sender recipient c e)
       (new_delivery fresh (ra_reply_message_id a) recipient) db = (Inr (), db2)"
    and st: "relay_status_in_session H (reply_message a m sender recipient c e) c 0 None
       (if d_state d = Claimed then upd_delivery (d_id d) (mark_delivered c) db2 else db2) = (Inr st, db')"
  let ?r = "reply_message a m sender recipient c e"
  let ?n = "new_delivery fresh (ra_reply_message_id a) recipient"
  note row = delivery_with_message_SomeD [OF dm]
  have "c < e" by (rule expiry_at_future [OF e assms(4,5)])
  with status_unexpired [OF _ st] have db': "db' = (if d_state d = Claimed then upd_delivery (d_id d) (mark_delivered c) db2 else db2)"
    by (simp add: reply_message_def)
  have db2: "db2 = db\<lparr>db_messages := db_messages db @ [?r], db_deliveries := db_deliveries db @ [?n]\<rparr>"
    and new: "fresh \<notin> d_id ` set (db_deliveries db)"
    using ins by (auto simp: insert_message_def new_delivery_def split: if_splits)
  have "fresh \<noteq> ra_delivery_id a" using new row(2,3) by (metis imageI)
  then have "get_delivery db' fresh = Some ?n"
    using new row_get_None_iff [of d_id fresh "db_deliveries db"]
    by (simp add: db' db2 upd_delivery_def row_get_row_upd row_get_append mark_delivered_def row(3))
      (simp add: new_delivery_def)
  moreover have "get_message db' (ra_reply_message_id a) = Some ?r"
    using assms(3) by (simp add: db' db2 upd_delivery_def row_get_append reply_message_def)
  moreover have "d_state d = Claimed \<or> d_state d = Delivered"
    using ok by (auto simp: reply_allowed_def split: if_splits)
  then have "\<exists>e. get_delivery db' (ra_delivery_id a) = Some e \<and> d_state e = Delivered"
    using row(1,3) by (auto simp: db' db2 upd_delivery_def row_get_row_upd row_get_append mark_delivered_def)
  moreover have "m_sender_endpoint_id m = Some (s_id recipient)" "d_recipient_endpoint_id d = Some (s_id sender)"
    using ends by (auto simp: reply_recipient_def reply_sender_def session_by_endpoint_def active_recipient_def
        dest: row_get_SomeD split: option.splits if_splits)
  ultimately show ?thesis using dm by (auto simp: reply_message_def)
qed

theorem reply_answers_and_delivers_witness:
  "\<exists>e. get_delivery (snd (relay_reply_atomic (\<lambda>s. s) ex_reply [101] 5 ex_claimed)) [100] = Some e
     \<and> d_state e = Delivered"
proof -
  let ?run = "relay_reply_atomic (\<lambda>s. s) ex_reply [101] 5 ex_claimed"
  have "\<exists>st. ?run = (Inr st, snd ?run)"
    by (simp add: relay_reply_atomic_def ex_reply_def delivery_with_message_def row_get_def ex_claimed_rows ex_rows
        reply_allowed_def compare_digest_def delivery_receipt_def reply_sender_def session_by_endpoint_def
        create_reply_def reply_recipient_def active_recipient_def expiry_at_def durable_expiry_def Let_def
        insert_message_def new_delivery_def delivery_recipient_def upd_delivery_def relay_status_in_session_def
        payload_view_def)
  then obtain st where "?run = (Inr st, snd ?run)" by blast
  from reply_answers_and_delivers [OF ex_inv(3) this] show ?thesis
    by (simp add: ex_reply_def ex_claimed_rows row_get_def ex_rows durable_expiry_def) blast
qed

end
