(* ===== verification/Relay_Fence_Guarantees.thy ===== *)
theory Relay_Fence_Guarantees
  imports Relay_Contracts
begin

text \<open>
  What the fences around a delivery promise: names and endpoints, work references, wake candidates,
  the Codex wake reservations under their generation counter, the one-shot trial, the OpenCode
  fence, the activation trace, and the pages of a payload.
\<close>

section \<open>Examples\<close>

text \<open>A Codex endpoint with one pending delivery, on which the witnesses below are evaluated.\<close>

definition ex_endpoint :: pystr where
  "ex_endpoint = u ''relay-session-'' @ replicate 32 48"

definition ex_codex_session :: relay_session where
  "ex_codex_session = (ex_session ex_endpoint (u ''codex'') [98] 2)\<lparr>s_trial_enrolled := 1\<rparr>"

definition ex_codex_delivery :: relay_delivery where
  "ex_codex_delivery = ex_pending\<lparr>d_recipient_runtime := u ''codex'', d_recipient_endpoint_id := Some ex_endpoint\<rparr>"

definition ex_wake :: relay_db where
  "ex_wake = empty_db\<lparr>db_sessions := [ex_codex_session], db_messages := [ex_message],
     db_deliveries := [ex_codex_delivery], db_wake_marker := Some 0\<rparr>"

definition ex_reserve :: wake_op where
  "ex_reserve = WReserve ex_endpoint [100] [98] [99]"

definition ex_reservation :: codex_reservation where
  "ex_reservation = \<lparr>r_recipient_endpoint_id = ex_endpoint, r_delivery_id = [100], r_session_ref = [98],
     r_container_ref = [99], r_generation = 1, r_outcome = Prepared, r_correlated_claim_attempts = None,
     r_retry_not_before = None\<rparr>"

definition ex_reserved :: relay_db where
  "ex_reserved = snd (relay_codex_wake_transition (\<lambda>_. True) ex_reserve 7 7 ex_wake)"

definition ex_trial :: codex_trial where
  "ex_trial = \<lparr>t_recipient_endpoint_id = ex_endpoint, t_trial_id = [116], t_session_ref = [98],
     t_container_ref = [99], t_scope_generation = 0, t_delivery_id = Some [100], t_spent = 0\<rparr>"

definition ex_bound :: relay_db where
  "ex_bound = ex_wake\<lparr>db_trials := [ex_trial]\<rparr>"

lemmas ex_codex_rows = ex_codex_session_def ex_codex_delivery_def ex_rows

lemma ex_wake_rows: "db_sessions ex_wake = [ex_codex_session]" "db_messages ex_wake = [ex_message]"
  "db_deliveries ex_wake = [ex_codex_delivery]" "db_wake_marker ex_wake = Some 0" "db_reservations ex_wake = []"
  "db_generations ex_wake = []"
  by (simp_all add: ex_wake_def empty_db_def)

lemma ex_bound_rows: "db_sessions ex_bound = [ex_codex_session]" "db_messages ex_bound = [ex_message]"
  "db_deliveries ex_bound = [ex_codex_delivery]" "db_trials ex_bound = [ex_trial]" "db_reservations ex_bound = []"
  "db_generations ex_bound = []"
  by (simp_all add: ex_bound_def ex_wake_rows)

lemma ex_wake_inv: "db_inv ex_wake"
  by (simp add: ex_wake_def ex_codex_rows db_inv_def empty_db_def sessions_ok_def aliases_ok_def messages_ok_def
      deliveries_ok_def work_refs_ok_def fences_ok_def trials_ok_def opencode_ok_def traces_ok_def delivery_wf_def)

lemma ex_bound_inv: "db_inv ex_bound"
  using ex_wake_inv by (simp add: ex_bound_def db_inv_def trials_ok_def ex_trial_def)

lemma ex_reserve_transition:
  "relay_codex_wake_transition (\<lambda>_. True) ex_reserve 7 7 ex_wake =
     (Inr (WItem ex_reservation), ex_wake\<lparr>db_reservations := [ex_reservation], db_wake_marker := Some 1\<rparr>)"
  by (simp add: relay_codex_wake_transition_def validate_wake_authority_def ex_wake_rows ex_reserve_def
      wake_dispatch_def wake_reserve_def row_get_def max_reservations_def relay_codex_wake_reservation_state_def
      delivery_with_message_def session_by_endpoint_def effective_state_def codex_target_def ex_codex_rows
      render_safe_def render_safe_char_def cat_Cc_def cat_Zl_def cat_Zp_def ex_reservation_def Let_def)

lemma ex_reserve_runs: "\<exists>r. relay_codex_wake_transition (\<lambda>_. True) ex_reserve 7 7 ex_wake
    = (Inr (WItem r), snd (relay_codex_wake_transition (\<lambda>_. True) ex_reserve 7 7 ex_wake))"
  by (simp add: ex_reserve_transition)

lemma ex_reserved_rows: "db_sessions ex_reserved = [ex_codex_session]" "db_messages ex_reserved = [ex_message]"
  "db_deliveries ex_reserved = [ex_codex_delivery]" "db_wake_marker ex_reserved = Some 1"
  "db_reservations ex_reserved = [ex_reservation]"
  by (simp_all add: ex_reserved_def ex_reserve_transition ex_wake_rows)

lemma ex_reserved_inv: "db_inv ex_reserved"
  using keeps_wake_transition [of ex_wake "\<lambda>_. True" ex_reserve 7 7] ex_wake_inv
  by (simp add: keeps_def ex_reserved_def)

definition ex_fence :: opencode_wake where
  "ex_fence = \<lparr>o_endpoint_id = [1], o_scope_generation = 0, o_native_location = [], o_owner_id = Some [111],
     o_owner_expires_at = 9, o_generation = 0, o_delivery_id = None, o_admitted = 0, o_terminal = 0,
     o_claim_attempts = None, o_payload_chars = None, o_failures = 0, o_retry_not_before = None\<rparr>"

definition ex_request :: opencode_request where
  "ex_request = \<lparr>oq_session_ref = [], oq_container_ref = [], oq_endpoint_id = [1], oq_scope_generation = 0,
     oq_native_location = [], oq_owner_id = [112], oq_generation = None, oq_delivery_id = None,
     oq_native_input_id = None\<rparr>"

definition ex_fact :: trace_args where
  "ex_fact = \<lparr>xa_attempt_id = u ''relay-activation-'' @ replicate 32 48,
     xa_delivery_id = u ''relay-delivery-'' @ replicate 32 48, xa_stage = u ''prepared'', xa_outcome = None,
     xa_reason = None, xa_evidence = None, xa_native_retry_safe = None, xa_destination_health_update = None,
     xa_scope_generation = None\<rparr>"

definition ex_traced :: relay_db where
  "ex_traced = empty_db\<lparr>db_messages := [ex_message],
     db_deliveries := [ex_pending\<lparr>d_id := u ''relay-delivery-'' @ replicate 32 48\<rparr>]\<rparr>"

definition ex_trace :: "int \<Rightarrow> relay_trace" where
  "ex_trace n = \<lparr>tr_id = [nat n], tr_sequence = n, tr_attempt_id = [97], tr_delivery_id = [100],
     tr_message_id = [109], tr_stage = (if n = 1 then u ''prepared'' else u ''completed''), tr_outcome = None,
     tr_reason = None, tr_evidence = None, tr_native_retry_safe = None, tr_destination_health_update = None,
     tr_scope_generation = None, tr_recorded_at = 0\<rparr>"

definition ex_two_traces :: relay_db where
  "ex_two_traces = empty_db\<lparr>db_traces := [ex_trace 1, ex_trace 2], db_trace_sequence := 2\<rparr>"

section \<open>Names and endpoints\<close>

text \<open>Naming a session takes effect: in the new store exactly that session carries the name, and
  the name resolves to it whatever held it before.\<close>

theorem name_binds_one_session:
  assumes "db_inv db" and "relay_name_session r ref ct (Some a) rep c db = (Inr v, db')"
  shows "\<exists>s. find_session db ct r ref = Some s
     \<and> (\<forall>t \<in> set (db_sessions db'). s_alias t = Some a \<longleftrightarrow> s_id t = s_id s)
     \<and> (s_state s = Active \<longrightarrow> relay_target db' None KAlias a = Inr (s\<lparr>s_alias := Some a\<rparr>))"
proof -
  obtain s where s: "find_session db ct r ref = Some s" "s_state s \<noteq> Closed"
    using assms(2) by (auto simp: relay_name_session_def split: option.splits if_splits)
  let ?named = "s\<lparr>s_alias := Some a\<rparr>"
  have row: "get_session db (s_id s) = Some s"
    using assms(1) find_session_SomeD(1) [OF s(1)] row_get_distinct [of s_id "db_sessions db" s]
    by (simp add: db_inv_def sessions_ok_def)
  have "get_session db' (s_id s) = Some ?named" and owner: "alias_owner (db_aliases db') a = Some (s_id s)"
    using assms(2) s row
    by (auto simp: relay_name_session_def Let_def row_get_row_upd row_get_rows_where alias_owner_bound
        split: if_splits)
  moreover have inv: "db_inv db'"
    using keeps_name [of db r ref ct "Some a" rep c] assms by (simp add: keeps_def)
  ultimately have named: "?named \<in> set (db_sessions db')" "get_session db' (s_id s) = Some ?named"
    by (auto dest: row_get_SomeD(1))
  have "s_alias t = Some a \<longleftrightarrow> s_id t = s_id s" if t: "t \<in> set (db_sessions db')" for t
  proof
    assume "s_alias t = Some a"
    moreover have "aliases_ok (db_sessions db') (db_aliases db')" using inv by (simp add: db_inv_def)
    ultimately show "s_id t = s_id s" using alias_unique [OF _ t named(1)] by fastforce
  next
    assume "s_id t = s_id s"
    with session_row_unique [OF inv t named(1)] show "s_alias t = Some a" by simp
  qed
  moreover have "relay_target db' None KAlias a = Inr ?named" if "s_state s = Active"
  proof -
    obtain b where "get_alias db' a = Some b" "a_endpoint_id b = Some (s_id s)"
      using owner by (auto simp: alias_owner_def bind_eq_Some_conv)
    with named(2) that show ?thesis
      by (simp add: relay_target_def relay_target_row_def session_by_endpoint_def active_recipient_def Let_def)
  qed
  ultimately show ?thesis using s by blast
qed

text \<open>Closing a session withdraws it: it is closed and carries no name, the name it had resolves
  to nothing, and its endpoint is refused as a recipient.\<close>

theorem close_withdraws_session:
  assumes "db_inv db" and "relay_close_session r ref ct c db = (Inr v, db')"
    and "find_session db ct r ref = Some s"
  shows "\<exists>t. get_session db' (s_id s) = Some t \<and> s_state t = Closed \<and> s_alias t = None
     \<and> relay_target db' rt KEndpoint (s_id s) = Inl (RelayConflictError ''recipient session is closed'')
     \<and> (\<forall>a. s_alias s = Some a \<longrightarrow> relay_target db' rt KAlias a = Inl not_found_in_scope)"
proof -
  let ?t = "s\<lparr>s_state := Closed, s_closed_at := Some c, s_alias := None\<rparr>"
  have row: "get_session db (s_id s) = Some s" "s \<in> set (db_sessions db)"
    using assms(1) find_session_SomeD(1) [OF assms(3)] row_get_distinct [of s_id "db_sessions db" s]
    by (simp_all add: db_inv_def sessions_ok_def)
  have t: "get_session db' (s_id s) = Some ?t"
    and al: "db_aliases db' = delete_own_alias (s_alias s) (s_id s) (db_aliases db)"
    using assms(2,3) row
    by (auto simp: relay_close_session_def Let_def upd_session_def upd_opencode_def row_get_row_upd)
  have "get_alias db' a = None" if "s_alias s = Some a" for a
  proof -
    have "\<exists>b. get_alias db a = Some b \<and> a_endpoint_id b = Some (s_id s)"
      using assms(1) row(2) that by (simp add: db_inv_def aliases_ok_def)
    with that show ?thesis by (auto simp: al delete_own_alias_def row_get_row_del)
  qed
  with t show ?thesis
    by (auto simp: relay_target_def relay_target_row_def session_by_endpoint_def active_recipient_def)
qed

section \<open>Wake candidates\<close>

lemma in_map_filter: "y \<in> set (List.map_filter f xs) \<longleftrightarrow> (\<exists>x \<in> set xs. f x = Some y)"
  by (induction xs) (auto simp: List.map_filter_simps split: option.split)

lemma coalesce_covers:
  "e \<in> set (map wc_recipient_endpoint_id (coalesce False [] rows)) \<longleftrightarrow>
     (\<exists>d m s. (d, m, s) \<in> set rows \<and> render_safe (m_payload m) \<and> s_id s = e)"
proof
  assume "e \<in> set (map wc_recipient_endpoint_id (coalesce False [] rows))"
  then obtain w where "w \<in> set (coalesce False [] rows)" "e = wc_recipient_endpoint_id w" by auto
  with coalesce_sound show "\<exists>d m s. (d, m, s) \<in> set rows \<and> render_safe (m_payload m) \<and> s_id s = e"
    by metis
next
  assume "\<exists>d m s. (d, m, s) \<in> set rows \<and> render_safe (m_payload m) \<and> s_id s = e"
  then obtain d m s where "(d, m, s) \<in> set rows" "render_safe (m_payload m)" "s_id s = e" by blast
  with coalesce_complete [of d m s rows "[]" False]
  show "e \<in> set (map wc_recipient_endpoint_id (coalesce False [] rows))" by simp
qed

lemma pair_map_filter:
  assumes "\<And>d' m' d m s. F d' m' = Some (d, m, s) \<longleftrightarrow> d' = d \<and> m' = m \<and> Q d s"
  shows "(d, m, s) \<in> set (List.map_filter (\<lambda>(d, m). F d m) xs) \<longleftrightarrow> (d, m) \<in> set xs \<and> Q d s"
  using assms by (auto simp: in_map_filter split: prod.splits)

lemma active_session_iff:
  "(case session_by_endpoint db (d_recipient_endpoint_id d') of None \<Rightarrow> None
    | Some s \<Rightarrow> if s_state s = Active then Some (d', m', s) else None) = Some (d, m, s)
   \<longleftrightarrow> d' = d \<and> m' = m \<and> (session_by_endpoint db (d_recipient_endpoint_id d) = Some s \<and> s_state s = Active)"
  by (auto split: option.splits if_splits)

text \<open>The coalesced wake candidates name every endpoint once, and exactly the endpoints that have
  something to wake for: an active recipient with an unexpired, renderable delivery that is pending
  or whose lease has lapsed.\<close>

theorem wake_candidates_cover_endpoints:
  "distinct (map wc_recipient_endpoint_id (relay_wake_candidates db None c True False))
   \<and> (\<forall>e. e \<in> set (map wc_recipient_endpoint_id (relay_wake_candidates db None c True False)) \<longleftrightarrow>
        (\<exists>d m s. (d, m) \<in> set (joined_deliveries db) \<and> d_recipient_endpoint_id d = Some e
           \<and> (d_recipient_runtime d = u ''codex'' \<or> d_recipient_runtime d = u ''claude-code'')
           \<and> wake_pending c True d \<and> c < m_expires_at m \<and> render_safe (m_payload m)
           \<and> get_session db e = Some s \<and> s_state s = Active))"
proof -
  let ?rows = "List.map_filter
         (\<lambda>(d, m). case session_by_endpoint db (d_recipient_endpoint_id d) of
              None \<Rightarrow> None
            | Some s \<Rightarrow> if s_state s = Active then Some (d, m, s) else None)
         (by_age (filter (\<lambda>(d, m).
              (d_recipient_runtime d = u ''codex'' \<or> d_recipient_runtime d = u ''claude-code'')
              \<and> wake_pending c True d \<and> c < m_expires_at m \<and> True) (joined_deliveries db)))"
  have run: "relay_wake_candidates db None c True False = coalesce False [] ?rows"
    by (simp add: relay_wake_candidates_def)
  have rows: "(d, m, s) \<in> set ?rows \<longleftrightarrow> (d, m) \<in> set (joined_deliveries db)
      \<and> (d_recipient_runtime d = u ''codex'' \<or> d_recipient_runtime d = u ''claude-code'')
      \<and> wake_pending c True d \<and> c < m_expires_at m
      \<and> (\<exists>e. d_recipient_endpoint_id d = Some e \<and> get_session db e = Some s) \<and> s_state s = Active" for d m s
    by (subst pair_map_filter [OF active_session_iff])
      (auto simp: session_by_endpoint_def split: option.splits)
  have endpoint: "s_id s = e" if "get_session db e = Some s" for s e
    using row_get_SomeD(2) [OF that] .
  have "e \<in> set (map wc_recipient_endpoint_id (relay_wake_candidates db None c True False)) \<longleftrightarrow>
      (\<exists>d m s. (d, m) \<in> set (joined_deliveries db) \<and> d_recipient_endpoint_id d = Some e
         \<and> (d_recipient_runtime d = u ''codex'' \<or> d_recipient_runtime d = u ''claude-code'')
         \<and> wake_pending c True d \<and> c < m_expires_at m \<and> render_safe (m_payload m)
         \<and> get_session db e = Some s \<and> s_state s = Active)" for e
    unfolding run coalesce_covers rows using endpoint by blast
  moreover have "distinct (map wc_recipient_endpoint_id (relay_wake_candidates db None c True False))"
    unfolding run using coalesce_endpoints by blast
  ultimately show ?thesis by blast
qed

section \<open>Wake reservations\<close>

text \<open>Every reservation a transition creates or renews gets a generation above all that exist: it
  is one more than the counter, which moves to it.\<close>

theorem wake_generations_are_fresh:
  assumes "db_inv db" and "relay_codex_wake_transition pr op now later db = (Inr res, db')"
    and "(\<exists>e k ref ct. op = WReserve e k ref ct) \<or> (\<exists>x t. op = WRetry x t) \<or> (\<exists>x ref ct. op = WReplace x ref ct)"
    and "res = WItem r"
  shows "get_reservation db' (r_recipient_endpoint_id r) = Some r \<and> db_wake_marker db' = Some (r_generation r)
     \<and> (\<forall>g. db_wake_marker db = Some g \<longrightarrow> r_generation r = g + 1)
     \<and> (\<forall>x \<in> set (db_reservations db). r_generation x < r_generation r)"
proof -
  obtain g where g: "db_wake_marker db = Some g"
    using assms(2,4) by (auto simp: relay_codex_wake_transition_def split: sum.splits option.splits)
  have below: "\<forall>x \<in> set (db_reservations db). r_generation x < g + 1"
    using assms(1) g by (auto simp: db_inv_def fences_ok_def)
  obtain items where run: "wake_dispatch items g op now later db = (Inr (WItem r), db')"
    using assms(2,4) g by (auto simp: relay_codex_wake_transition_def split: sum.splits)
  have renewed: ?thesis
    if "get_reservation db (r_recipient_endpoint_id r) \<noteq> None" "r_generation r = g + 1"
      "db' = (put_reservation r db)\<lparr>db_wake_marker := Some (g + 1)\<rparr>"
    using that g below by (auto simp: put_reservation_def row_get_row_upd)
  from assms(3) show ?thesis
  proof (elim disjE exE)
    fix e k ref ct assume "op = WReserve e k ref ct"
    with run g below show ?thesis
      by (auto simp: wake_dispatch_def wake_reserve_def Let_def row_get_append
          split: if_splits sum.splits option.splits)
  next
    fix x t assume "op = WRetry x t"
    with run show ?thesis
      by (intro renewed)
        (auto simp: wake_dispatch_def wake_retry_def Let_def split: if_splits sum.splits)
  next
    fix x ref ct assume "op = WReplace x ref ct"
    with run show ?thesis
      by (intro renewed) (auto simp: wake_dispatch_def wake_replace_def Let_def split: if_splits)
  qed
qed

text \<open>The transitions compare before they set: when the reservation a client holds is not the one
  in the store, none of them changes anything.\<close>

theorem wake_transitions_compare_first:
  assumes "get_reservation db (r_recipient_endpoint_id r) \<noteq> Some r" and "db_wake_marker db = Some g"
    and "op \<in> {WRetryTarget r, WBegin r, WRetry r t, WReplace r ref ct, WReconcile r, WRelease [r]}"
  shows "snd (relay_codex_wake_transition pr op now later db) = db"
proof -
  have "snd (wake_dispatch items g op now later db) = db" for items
    using assms(1,3)
    by (auto simp: wake_dispatch_def wake_retry_target_def wake_begin_native_attempt_def wake_retry_def
        wake_replace_def wake_reconcile_def wake_release_def)
  then show ?thesis
    using assms(2) by (auto simp: relay_codex_wake_transition_def split: sum.split)
qed

lemma effective_over:
  "\<not> open_state (d_state d) \<or> m_expires_at m \<le> now \<Longrightarrow> effective_state now d m \<in> {Delivered, Expired, Suppressed}"
  by (cases "d_state d") (auto simp: effective_state_def open_state_def)

text \<open>Reconciling frees the endpoint of a delivery that is over: when the delivery is delivered,
  expired or gone, its reservation is released.\<close>

theorem reconcile_releases_finished:
  assumes "db_inv db" and "get_reservation db (r_recipient_endpoint_id r) = Some r"
    and "validate_wake_authority pr db = Inr items" "db_wake_marker db = Some g"
    and "case delivery_with_message db (r_delivery_id r) of None \<Rightarrow> True
      | Some (d, m) \<Rightarrow> d_recipient_endpoint_id d = Some (r_recipient_endpoint_id r)
          \<and> (\<not> open_state (d_state d) \<or> m_expires_at m \<le> now)"
  shows "\<exists>db'. relay_codex_wake_transition pr (WReconcile r) now later db = (Inr (WReconciled Released r), db')
     \<and> get_reservation db' (r_recipient_endpoint_id r) = None
     \<and> \<not> list_ex (\<lambda>x. r_delivery_id x = r_delivery_id r) (db_reservations db')"
proof -
  have one: "r_delivery_id x \<noteq> r_delivery_id r"
    if "x \<in> set (db_reservations db)" "r_recipient_endpoint_id x \<noteq> r_recipient_endpoint_id r" for x
    using that assms(1) row_get_SomeD(1) [OF assms(2)]
    by (auto simp: db_inv_def fences_ok_def distinct_map inj_on_def)
  have "wake_reconcile g r now db = (Inr (WReconciled Released r), drop_reservation (r_recipient_endpoint_id r) db)"
  proof (cases "delivery_with_message db (r_delivery_id r)")
    case None
    with assms(2) show ?thesis by (simp add: wake_reconcile_def relay_codex_wake_reservation_state_def)
  next
    case (Some dm)
    obtain d m where dm: "dm = (d, m)" by (cases dm)
    with assms(5) Some have over: "effective_state now d m \<in> {Delivered, Expired, Suppressed}"
      and own: "d_recipient_endpoint_id d = Some (r_recipient_endpoint_id r)"
      using effective_over by auto
    then have "reconcile_case r st now = Some Released" if "rs_state st = effective_state now d m" for st
      using that by (simp add: reconcile_case_def)
    with Some dm own assms(2) show ?thesis
      by (simp add: wake_reconcile_def relay_codex_wake_reservation_state_def)
  qed
  then have "relay_codex_wake_transition pr (WReconcile r) now later db
      = (Inr (WReconciled Released r), drop_reservation (r_recipient_endpoint_id r) db)"
    by (simp add: relay_codex_wake_transition_def assms(3,4) wake_dispatch_def)
  then show ?thesis
    using one by (auto simp: drop_reservation_def row_get_row_del list_ex_iff set_row_del)
qed

section \<open>The trial\<close>

text \<open>A trial is spent at most once: after a spend has succeeded no spend for that endpoint ever
  succeeds again, whatever runs in between.\<close>

theorem trial_spent_once:
  assumes "db_inv db" and "relay_codex_trial_spend e i k c db = (Inr True, db')"
  shows "fst (relay_codex_trial_spend e i' k' c' (fold (relay_exec W) ops db')) = Inr False"
proof -
  obtain t where t: "get_trial db e = Some t"
    and db': "db' = upd_trial e (\<lambda>t. t\<lparr>t_spent := 1\<rparr>) db"
    using assms(2) by (auto simp: relay_codex_trial_spend_def split: if_splits elim!: trial_row_readyD)
  have inv: "db_inv db'"
    using keeps_trial_spend [of db e i k c] assms by (simp add: keeps_def)
  have "get_trial db' e = Some (t\<lparr>t_spent := 1\<rparr>)"
    using row_get_SomeD(2) [OF t] t by (simp add: db' upd_trial_def row_get_row_upd)
  then have "\<exists>t'. get_trial (fold (relay_exec W) ops db') e = Some t' \<and> trial_advances (t\<lparr>t_spent := 1\<rparr>) t'"
    by (rule evolvesD(5) [OF relay.run_below [OF inv]])
  then obtain t' where "get_trial (fold (relay_exec W) ops db') e = Some t'" "t_spent t' = 1"
    by (auto simp: trial_advances_def)
  then show ?thesis
    by (auto simp: relay_codex_trial_spend_def trial_row_ready_def split: option.split)
qed

section \<open>The OpenCode fence\<close>

text \<open>While the owner of an OpenCode fence is live no other owner can enroll, poll or settle it:
  every step of the bridge by someone else is refused and changes nothing.\<close>

theorem opencode_owner_is_exclusive:
  assumes "get_opencode db (oq_endpoint_id q) = Some w" and "o_owner_id w = Some owner"
    and "owner \<noteq> oq_owner_id q" and "c < o_owner_expires_at w"
  shows "(\<exists>e. fst (relay_opencode_wake fmt op q tm c wl db) = Inl e)
     \<and> snd (relay_opencode_wake fmt op q tm c wl db) = db"
proof -
  have "(\<exists>e. opencode_binding db q c (op = Enroll) = Inl e)
      \<or> (\<exists>s. opencode_binding db q c True = Inr (s, Some w) \<and> op = Enroll)"
    using assms row_get_SomeD(2) [of s_id "oq_endpoint_id q" "db_sessions db"]
    by (auto simp: opencode_binding_def Let_def registration_stale_def split: option.splits)
  then show ?thesis
  proof (elim disjE exE conjE)
    fix s assume "opencode_binding db q c True = Inr (s, Some w)" "op = Enroll"
    moreover have "\<exists>e. enroll_wake q s c (Some w) = Inl e"
      using assms(2-4) by (auto simp: enroll_wake_def Let_def)
    ultimately show ?thesis by (auto simp: relay_opencode_wake_def opencode_step_def)
  qed (simp add: relay_opencode_wake_def)
qed

section \<open>The trace\<close>

lemma find_append: "find P (xs @ ys) = (case find P xs of None \<Rightarrow> find P ys | Some x \<Rightarrow> Some x)"
  by (induction xs) auto

text \<open>Recording a trace fact twice records it once: the repetition is reported as a duplicate of
  the first and leaves the store alone.\<close>

theorem trace_record_is_idempotent:
  assumes "relay_trace_record redact a fresh c db = (Inr (Recorded n), db')"
  shows "relay_trace_record redact a fresh' c' db' = (Inr (Duplicate n), db')"
proof -
  obtain d m where valid: "trace_invalid redact a = None"
    and dm: "delivery_with_message db (xa_delivery_id a) = Some (d, m)"
    and new: "find (\<lambda>t. tr_attempt_id t = xa_attempt_id a \<and> tr_delivery_id t = xa_delivery_id a
        \<and> tr_stage t = xa_stage a) (db_traces db) = None"
    using assms by (auto simp: relay_trace_record_def Let_def split: option.splits if_splits)
  obtain row where db': "db' = (upd_delivery (d_id d) stamp_version db)
      \<lparr>db_traces := db_traces db @ [row], db_trace_sequence := n\<rparr>"
    and row: "tr_attempt_id row = xa_attempt_id a" "tr_delivery_id row = xa_delivery_id a"
      "tr_stage row = xa_stage a" "tr_sequence row = n" "row_values row = trace_values redact a"
    using assms valid dm new
    by (auto simp: relay_trace_record_def Let_def row_values_def trace_values_def split: if_splits)
  have "delivery_with_message db' (xa_delivery_id a) \<noteq> None"
    using dm by (auto simp: delivery_with_message_def db' upd_delivery_def row_get_row_upd stamp_version_def
        split: option.splits)
  moreover have "find (\<lambda>t. tr_attempt_id t = xa_attempt_id a \<and> tr_delivery_id t = xa_delivery_id a
        \<and> tr_stage t = xa_stage a) (db_traces db') = Some row"
    using new row by (simp add: db' find_append)
  ultimately show ?thesis
    using valid row by (auto simp: relay_trace_record_def)
qed

lemma trace_rows_filter:
  assumes "db_inv db"
  shows "trace_rows db ids after upper = filter (\<lambda>t.
      tr_attempt_id t \<in> tr_attempt_id ` set (filter (\<lambda>t. tr_delivery_id t \<in> set ids \<and> tr_sequence t \<le> upper) (db_traces db))
      \<and> tr_sequence t > after \<and> tr_sequence t \<le> upper
      \<and> (tr_delivery_id t \<in> set ids \<or> tr_stage t \<in> {u ''prepared'', u ''completed''})) (db_traces db)"
    and "sorted_wrt (\<lambda>x y. tr_sequence x < tr_sequence y) (trace_rows db ids after upper)"
proof -
  have strict: "sorted_wrt (\<lambda>x y. tr_sequence x < tr_sequence y) (filter P (db_traces db))" for P
    using assms by (simp add: db_inv_def traces_ok_def sorted_wrt_map sorted_wrt_filter)
  have "sorted (map tr_sequence (filter P (db_traces db)))" for P
    using sorted_wrt_mono_rel [OF _ strict [of P], of "\<lambda>x y. tr_sequence x \<le> tr_sequence y"]
    by (simp add: sorted_wrt_map)
  then have "sort_key tr_sequence (filter P (db_traces db)) = filter P (db_traces db)" for P
    by (rule sort_key_id_if_sorted)
  then show "trace_rows db ids after upper = filter (\<lambda>t.
      tr_attempt_id t \<in> tr_attempt_id ` set (filter (\<lambda>t. tr_delivery_id t \<in> set ids \<and> tr_sequence t \<le> upper) (db_traces db))
      \<and> tr_sequence t > after \<and> tr_sequence t \<le> upper
      \<and> (tr_delivery_id t \<in> set ids \<or> tr_stage t \<in> {u ''prepared'', u ''completed''})) (db_traces db)"
    by (simp add: trace_rows_def Let_def)
  with strict show "sorted_wrt (\<lambda>x y. tr_sequence x < tr_sequence y) (trace_rows db ids after upper)"
    by simp
qed

lemma filter_above_nth:
  fixes f :: "'a \<Rightarrow> int"
  assumes "sorted_wrt (\<lambda>x y. f x < f y) xs" and "n < length xs"
  shows "filter (\<lambda>x. f (xs ! n) < f x) xs = drop (Suc n) xs"
proof -
  have "filter (\<lambda>x. f (xs ! n) < f x) (take (Suc n) xs) = []"
    using assms by (auto simp: filter_empty_conv in_set_conv_nth sorted_wrt_iff_nth_less less_Suc_eq not_less)
      (meson less_imp_le)
  moreover have "filter (\<lambda>x. f (xs ! n) < f x) (drop (Suc n) xs) = drop (Suc n) xs"
    using assms by (auto simp: filter_id_conv in_set_conv_nth sorted_wrt_iff_nth_less)
  ultimately show ?thesis by (metis append_Nil append_take_drop_id filter_append)
qed

text \<open>Paging a trace loses nothing: the page after a full page, asked for with the sequence number
  that page ends in and the same upper bound, starts with the next row.\<close>

theorem trace_pages_continue:
  assumes "db_inv db" and "rows = trace_rows db ids after_sequence upper" and "0 < limit" "limit < length rows"
  shows "trace_rows db ids (tr_sequence (rows ! (limit - 1))) upper = drop limit rows
     \<and> tp_events (trace_page_at db ids limit after_sequence upper)
         = map (trace_event ids) (take limit rows)
     \<and> tp_has_more (trace_page_at db ids limit after_sequence upper)"
proof -
  let ?last = "tr_sequence (rows ! (limit - 1))"
  have sorted: "sorted_wrt (\<lambda>x y. tr_sequence x < tr_sequence y) rows"
    using trace_rows_filter(2) [OF assms(1)] by (simp add: assms(2))
  have "rows ! (limit - 1) \<in> set rows" using assms(4) by simp
  then have "after_sequence < ?last" by (simp add: assms(2) trace_rows_filter(1) [OF assms(1)])
  then have "trace_rows db ids ?last upper = filter (\<lambda>t. ?last < tr_sequence t) rows"
    unfolding assms(2) trace_rows_filter(1) [OF assms(1)] filter_filter by (intro filter_cong) auto
  also have "\<dots> = drop (Suc (limit - 1)) rows"
    using assms(4) by (intro filter_above_nth [OF sorted]) simp
  finally show ?thesis
    using assms(3,4) by (simp add: trace_page_at_def Let_def assms(2) [symmetric])
qed

section \<open>What a trace tells\<close>

lemma effective_pending: "effective_state current d m = Pending \<longleftrightarrow> current < m_expires_at m \<and> wake_pending current True d"
  by (auto simp: effective_state_def wake_pending_def open_state_def)

text \<open>The words the texts begin with.\<close>

definition advice_word :: "trace_advice \<Rightarrow> string" where
  "advice_word a =
     (case a of TellDelivered \<Rightarrow> ''Delivered'' | TellMixed \<Rightarrow> ''Mixed'' | TellExpiredUnclaimed \<Rightarrow> ''Expired''
      | TellExpired \<Rightarrow> ''Expired'' | TellLegacy \<Rightarrow> ''Unknown'' | TellGap \<Rightarrow> ''Unknown''
      | TellHeldCodex \<Rightarrow> ''Needs intervention'' | TellHeld \<Rightarrow> ''Needs intervention''
      | TellUnreachable \<Rightarrow> ''Needs intervention'' | TellAccepted \<Rightarrow> ''Queued'' | TellNotCompleted \<Rightarrow> ''Queued''
      | TellClaimed \<Rightarrow> ''Claimed'' | TellNothingRecorded \<Rightarrow> ''Queued'')"

lemma advice_begins: "\<exists>rest. advice_text snaps a = u (advice_word a) @ rest"
  by (cases a) (simp_all add: advice_word_def held_text_def u_def)

lemma first_char: "take (length w) (u v @ rest) = u w \<Longrightarrow> w \<noteq> [] \<Longrightarrow> v \<noteq> [] \<Longrightarrow> hd w = hd v"
  by (cases w; cases v; simp add: u_def)

lemma same_letter:
  "w \<in> {''Delivered'', ''Needs intervention'', ''Expired'', ''Claimed'', ''Queued''} \<Longrightarrow> hd w = hd (advice_word a)
    \<Longrightarrow> advice_word a = w"
  by (elim insertE emptyE; cases a; simp add: advice_word_def)

lemma told_word:
  assumes "w \<in> {''Delivered'', ''Needs intervention'', ''Expired'', ''Claimed'', ''Queued''}"
  shows "take (length w) (trace_explanation snaps c legacy gap) = u w
    \<longleftrightarrow> advice_word (trace_advice snaps c legacy gap) = w"
proof -
  let ?a = "trace_advice snaps c legacy gap"
  obtain rest where says: "trace_explanation snaps c legacy gap = u (advice_word ?a) @ rest"
    using advice_begins [of snaps ?a] by (auto simp: trace_explanation_def Let_def)
  have "w \<noteq> []" "advice_word ?a \<noteq> []" using assms by (auto simp: advice_word_def split: trace_advice.split)
  then have "hd w = hd (advice_word ?a)" if "take (length w) (trace_explanation snaps c legacy gap) = u w"
    using that first_char unfolding says by blast
  moreover have "advice_word ?a = w" if "hd w = hd (advice_word ?a)"
    using same_letter [OF assms that] .
  moreover have "take (length w) (trace_explanation snaps c legacy gap) = u w" if "advice_word ?a = w"
    unfolding says that by simp
  ultimately show ?thesis by blast
qed

text \<open>A trace of a message, seen from its rows.\<close>

lemma trace_report_rows:
  assumes "relay_trace_message db k limit after_sequence as_of current = Inr r"
  obtains m ds c where "rp_snapshots r = map (delivery_snapshot db m current) ds"
    "\<forall>d\<in>set ds. d \<in> set (db_deliveries db) \<and> get_message db (d_message_id d) = Some m"
    "rp_explanation r = trace_explanation (rp_snapshots r) c (rp_legacy r) (rp_gap r)"
    "rp_legacy r \<longrightarrow> rp_gap r"
proof -
  from assms obtain m where m: "trace_subject db k = Inr m"
    by (auto simp: relay_trace_message_def split: if_splits sum.splits)
  then have "\<exists>k'. get_message db k' = Some m"
    by (auto simp: trace_subject_def delivery_with_message_def split: option.splits if_splits)
  then have found: "get_message db (m_id m) = Some m" using row_get_SomeD(2) by metis
  let ?ds = "sort_key d_id (message_deliveries db (m_id m))"
  have "\<forall>d\<in>set ?ds. d \<in> set (db_deliveries db) \<and> get_message db (d_message_id d) = Some m"
    using found by (auto simp: message_deliveries_def)
  moreover from assms m obtain page where "r = trace_report db m ?ds page after_sequence current"
    by (auto simp: relay_trace_message_def Let_def split: if_splits)
  ultimately show thesis
    by (intro that [of m ?ds]) (auto simp: trace_report_def Let_def list_all_iff list_ex_iff neq_Nil_conv)
qed

text \<open>A turn of the recipient would be offered the delivery.\<close>

definition offered :: "relay_db \<Rightarrow> time \<Rightarrow> delivery_snapshot \<Rightarrow> bool" where
  "offered db current x \<longleftrightarrow>
     (case sn_recipient_endpoint_id x of
        None \<Rightarrow> False
      | Some e \<Rightarrow> list_ex (\<lambda>(d, m). d_id d = sn_delivery_id x) (eligible db e current))"

lemma offered_iff:
  assumes "distinct (map d_id (db_deliveries db))" "d \<in> set (db_deliveries db)"
    "get_message db (d_message_id d) = Some m"
    "x = delivery_snapshot db m current d"
  shows "offered db current x \<longleftrightarrow> sn_state x = Pending \<and> sn_recipient_endpoint_id x \<noteq> None"
proof -
  have same: "d' = d" if "d' \<in> set (db_deliveries db)" "d_id d' = d_id d" for d'
    using that assms(1,2) by (auto simp: distinct_map dest: inj_onD)
  have "offered db current x \<longleftrightarrow> (\<exists>e. d_recipient_endpoint_id d = Some e
      \<and> (\<exists>d' m'. (d', m') \<in> set (eligible db e current) \<and> d_id d' = d_id d))"
    unfolding assms(4) by (auto simp: offered_def delivery_snapshot_def list_ex_iff split: option.split)
  also have "\<dots> \<longleftrightarrow> (\<exists>e. d_recipient_endpoint_id d = Some e \<and> effective_state current d m = Pending)"
    using assms(2,3) same by (force simp: eligible_def joined_deliveries_iff effective_pending)
  finally show ?thesis unfolding assms(4) by (auto simp: delivery_snapshot_def)
qed

text \<open>C35: what a trace tells its reader is what a turn would do at that instant. It says "Delivered" exactly
  if there are deliveries and all are acknowledged. When it asks for an ordinary turn of the recipient
  ("Needs intervention"), such a turn is offered every delivery bound to an endpoint; when it says
  "Expired" or "Claimed", none is. But a message whose deliveries were suppressed by repair, without a
  gap in its trace, is called "Queued" for such a turn, although none will ever be offered it.\<close>

theorem trace_tells_the_truth:
  assumes "db_inv db" "relay_trace_message db k limit after_sequence as_of current = Inr r"
  shows "(told ''Delivered'' r \<longleftrightarrow> rp_snapshots r \<noteq> [] \<and> (\<forall>x\<in>set (rp_snapshots r). sn_stored_state x = Delivered))
    \<and> (told ''Needs intervention'' r \<longrightarrow>
        (\<forall>x\<in>set (rp_snapshots r). sn_recipient_endpoint_id x \<noteq> None \<longrightarrow> offered db current x))
    \<and> (told ''Expired'' r \<or> told ''Claimed'' r \<longrightarrow> (\<forall>x\<in>set (rp_snapshots r). \<not> offered db current x))
    \<and> (rp_snapshots r \<noteq> [] \<and> (\<forall>x\<in>set (rp_snapshots r). sn_stored_state x = Suppressed) \<and> \<not> rp_gap r
        \<longrightarrow> told ''Queued'' r \<and> (\<forall>x\<in>set (rp_snapshots r). \<not> offered db current x))"
proof -
  obtain m ds c where rows: "rp_snapshots r = map (delivery_snapshot db m current) ds"
      "\<forall>d\<in>set ds. d \<in> set (db_deliveries db) \<and> get_message db (d_message_id d) = Some m"
    and says: "rp_explanation r = trace_explanation (rp_snapshots r) c (rp_legacy r) (rp_gap r)"
    and gap: "rp_legacy r \<longrightarrow> rp_gap r"
    by (rule trace_report_rows [OF assms(2)])
  let ?states = "sn_state ` set (rp_snapshots r)"
  let ?advice = "trace_advice (rp_snapshots r) c (rp_legacy r) (rp_gap r)"
  have told: "told w r \<longleftrightarrow> advice_word ?advice = w"
    if "w \<in> {''Delivered'', ''Needs intervention'', ''Expired'', ''Claimed'', ''Queued''}" for w
    using told_word [OF that] by (simp add: told_def says)
  have "distinct (map d_id (db_deliveries db))" using assms(1) by (simp add: db_inv_def deliveries_ok_def)
  then have offered: "offered db current x \<longleftrightarrow> sn_state x = Pending \<and> sn_recipient_endpoint_id x \<noteq> None"
    if "x \<in> set (rp_snapshots r)" for x
    using that rows offered_iff by auto
  have stored: "sn_state x = Delivered \<longleftrightarrow> sn_stored_state x = Delivered"
      "sn_stored_state x = Suppressed \<Longrightarrow> sn_state x = Suppressed" if "x \<in> set (rp_snapshots r)" for x
    using that unfolding rows(1) by (auto simp: delivery_snapshot_def effective_state_def open_state_def split: if_splits)
  have delivered: "told ''Delivered'' r \<longleftrightarrow> ?states = {Delivered}"
    by (simp add: told trace_advice_def Let_def advice_word_def)
  have one: "told ''Needs intervention'' r \<Longrightarrow> ?states = {Pending}"
    "told ''Expired'' r \<Longrightarrow> ?states = {Expired}" "told ''Claimed'' r \<Longrightarrow> ?states = {Claimed}"
    by (simp_all add: told trace_advice_def Let_def advice_word_def split: if_splits)
  have suppressed: "?states = {Suppressed} \<Longrightarrow> \<not> rp_gap r \<Longrightarrow> told ''Queued'' r"
    using gap by (simp add: told trace_advice_def Let_def advice_word_def)
  have all: "?states = {st} \<longleftrightarrow> rp_snapshots r \<noteq> [] \<and> (\<forall>x\<in>set (rp_snapshots r). sn_state x = st)" for st
    by (cases "rp_snapshots r") auto
  show ?thesis
    using all [of Delivered] all [of Pending] all [of Expired] all [of Claimed] all [of Suppressed]
      delivered one suppressed stored offered by auto
qed

theorem trace_tells_the_truth_witness:
  "\<exists>r. relay_trace_message ex_delivered [109] 50 0 None 6 = Inr r \<and> told ''Delivered'' r"
proof -
  have subject: "trace_subject ex_delivered [109] = Inr ex_message"
    by (simp add: trace_subject_def row_get_def ex_delivered_rows ex_message_def)
  define r where "r = trace_report ex_delivered ex_message [mark_delivered 5 ex_claim]
    (trace_page_at ex_delivered [d_id ex_claim] 50 0 (fold max (map tr_sequence (db_traces ex_delivered)) 0)) 0 6"
  have run: "relay_trace_message ex_delivered [109] 50 0 None 6 = Inr r"
    using subject by (simp add: relay_trace_message_def trace_max_sequence_def r_def message_deliveries_def
        ex_delivered_rows ex_rows mark_delivered_def)
  have snaps: "rp_snapshots r = [delivery_snapshot ex_delivered ex_message 6 (mark_delivered 5 ex_claim)]"
    by (simp add: r_def trace_report_def Let_def)
  have "sn_stored_state (delivery_snapshot ex_delivered ex_message 6 (mark_delivered 5 ex_claim)) = Delivered"
    by (simp add: delivery_snapshot_def mark_delivered_def)
  then have "told ''Delivered'' r" using trace_tells_the_truth [OF ex_inv(4) run] snaps by simp
  then show ?thesis using run by blast
qed

section \<open>Payload pages\<close>

text \<open>Reading a payload page by page, following the offset each page names, yields the payload,
  whatever the page size.\<close>

theorem payload_pages_round_trip:
  assumes "0 < psize"
  shows "read_pages payload psize 0 = payload"
  using assms by (simp add: read_pages_suffix)

end
