(* ===== verification/Work_Ref.thy ===== *)
theory Work_Ref
  imports Relay_Schema
begin

text \<open>
  Work references, \<open>core/work_ref.py\<close>: the readable form with its key, and the normal form of the
  legacy identifiers. Unicode normalisation (\<open>nfc\<close>), the redactor (\<open>redact\<close>), SHA-256 of the UTF-8
  encoding in hexadecimal (\<open>H\<close>) and the case folding of one character (\<open>cf\<close>) are parameters.
\<close>

section \<open>Readable references\<close>

definition ascii_whitespace :: "nat \<Rightarrow> bool" where
  "ascii_whitespace c \<longleftrightarrow> c = 32 \<or> (9 \<le> c \<and> c \<le> 13)"

text \<open>The number of bytes of a code point and of a text in UTF-8.\<close>

definition utf8_width :: "nat \<Rightarrow> nat" where
  "utf8_width c = (if c < 128 then 1 else if c < 2048 then 2 else if c < 65536 then 3 else 4)"

definition utf8_length :: "pystr \<Rightarrow> nat" where
  "utf8_length s = sum_list (map utf8_width s)"

text \<open>\<open>sub in s\<close> for texts.\<close>

fun occurs_in :: "pystr \<Rightarrow> pystr \<Rightarrow> bool" where
  "occurs_in sub [] \<longleftrightarrow> sub = []"
| "occurs_in sub (c # s) \<longleftrightarrow> take (length sub) (c # s) = sub \<or> occurs_in sub s"

definition validate_readable_part ::
  "(pystr \<Rightarrow> pystr) \<Rightarrow> (pystr \<Rightarrow> pystr) \<Rightarrow> bool \<Rightarrow> pystr \<Rightarrow> (relay_error, pystr) result" where
  "validate_readable_part nfc redact local raw =
     (if raw = [] \<or> list_ex (\<lambda>c. 55296 \<le> c \<and> c \<le> 57343) raw
      then Inl (ValueError (u ''work identity must contain well-formed Unicode text''))
      else
        let value = nfc raw
        in if value = [] \<or> ascii_whitespace (hd value) \<or> ascii_whitespace (last value)
           then Inl (ValueError
                  (u ''work identity must not have leading or trailing ASCII whitespace''))
           else if list_ex (\<lambda>c. c \<le> 31 \<or> (127 \<le> c \<and> c \<le> 159) \<or> c = 8232 \<or> c = 8233) value
           then Inl (ValueError (u ''work identity contains a control character''))
           else if utf8_length value > 512 \<or> (local \<and> length value > 128)
           then Inl (ValueError (u ''work identity exceeds its bound''))
           else if occurs_in (u ''[REDACTED'') value \<or> redact value \<noteq> value
           then Inl (ValueError (u ''work identity contains redacted or secret material''))
           else Inr value)"

record readable_ref =
  rr_scope_ref :: pystr
  rr_local_ref :: pystr
  rr_key :: pystr

text \<open>The digest is taken over the encoding of both parts around a zero byte, which is the encoding of
  the text put together around a zero character.\<close>

definition work_key :: "(pystr \<Rightarrow> pystr) \<Rightarrow> pystr \<Rightarrow> pystr \<Rightarrow> pystr" where
  "work_key H scope local = u ''work:v1:'' @ H (scope @ 0 # local)"

definition readable_work_ref ::
  "(pystr \<Rightarrow> pystr) \<Rightarrow> (pystr \<Rightarrow> pystr) \<Rightarrow> (pystr \<Rightarrow> pystr) \<Rightarrow> pystr \<Rightarrow> pystr
     \<Rightarrow> (relay_error, readable_ref) result" where
  "readable_work_ref H nfc redact scope_ref local_ref =
     (case validate_readable_part nfc redact False scope_ref of
        Inl e \<Rightarrow> Inl e
      | Inr scope \<Rightarrow>
          (case validate_readable_part nfc redact True local_ref of
             Inl e \<Rightarrow> Inl e
           | Inr local \<Rightarrow>
               Inr \<lparr>rr_scope_ref = scope, rr_local_ref = local, rr_key = work_key H scope local\<rparr>))"

definition validate_work_ref_key :: "pystr \<Rightarrow> (relay_error, pystr) result" where
  "validate_work_ref_key value =
     (if hex_suffixed (u ''work:v1:'') 64 value then Inr value
      else Inl (ValueError (u ''invalid advanced work reference key'')))"

section \<open>Legacy identifiers\<close>

definition casefold :: "(nat \<Rightarrow> pystr) \<Rightarrow> pystr \<Rightarrow> pystr" where
  "casefold cf s = concat (map cf s)"

definition separator :: "nat \<Rightarrow> bool" where
  "separator c \<longleftrightarrow> py_isspace c \<or> c = 95 \<or> c = 45"

text \<open>\<open>_WORK_REF_SEPARATOR_RE.sub("-", s)\<close>: every maximal run of separators becomes one hyphen.\<close>

fun hyphenate :: "pystr \<Rightarrow> pystr" where
  "hyphenate [] = []"
| "hyphenate [c] = (if separator c then [45] else [c])"
| "hyphenate (c # d # s) =
     (if separator c then (if separator d then hyphenate (d # s) else 45 # hyphenate (d # s))
      else c # hyphenate (d # s))"

text \<open>\<open>s.strip("-")\<close>.\<close>

definition strip_hyphens :: "pystr \<Rightarrow> pystr" where
  "strip_hyphens s = rev (dropWhile (\<lambda>c. c = 45) (rev (dropWhile (\<lambda>c. c = 45) s)))"

definition normalize_work_ref :: "(nat \<Rightarrow> pystr) \<Rightarrow> pystr \<Rightarrow> pystr option" where
  "normalize_work_ref cf raw =
     (let value = casefold cf (strip raw)
      in if value = [] \<or> length value > 128 then None
         else let v = strip_hyphens (hyphenate value) in if v = [] then None else Some v)"

text \<open>Values as the callers hand them over: texts, lists, and whatever else Python offers.\<close>

datatype pyvalue = PText pystr | PList "pyvalue list" | PNone | POther

definition max_work_refs :: nat where
  "max_work_refs = 5"

fun collect_work_refs :: "(nat \<Rightarrow> pystr) \<Rightarrow> pystr list \<Rightarrow> pyvalue list \<Rightarrow> pystr list" where
  "collect_work_refs cf result [] = result"
| "collect_work_refs cf result (item # items) =
     (case item of
        PText t \<Rightarrow>
          (case normalize_work_ref cf t of
             None \<Rightarrow> collect_work_refs cf result items
           | Some v \<Rightarrow>
               if v \<in> set result then collect_work_refs cf result items
               else if length (result @ [v]) = max_work_refs then result @ [v]
               else collect_work_refs cf (result @ [v]) items)
      | _ \<Rightarrow> collect_work_refs cf result items)"

definition normalize_work_refs :: "(nat \<Rightarrow> pystr) \<Rightarrow> pyvalue \<Rightarrow> pystr list" where
  "normalize_work_refs cf value =
     (case value of PList items \<Rightarrow> collect_work_refs cf [] items | _ \<Rightarrow> [])"

text \<open>\<open>metadata\<close> is the mapping of the metadata, or nothing when it is not a mapping.\<close>

definition work_refs_from_metadata ::
  "(nat \<Rightarrow> pystr) \<Rightarrow> (pystr \<Rightarrow> pystr) \<Rightarrow> (pystr \<rightharpoonup> pyvalue) option \<Rightarrow> pystr list" where
  "work_refs_from_metadata cf redact metadata =
     (case metadata of
        None \<Rightarrow> []
      | Some d \<Rightarrow>
          (case d (u ''pallium_work_refs'') of
             Some (PList items) \<Rightarrow>
               normalize_work_refs cf (PList (filter
                 (\<lambda>item. case item of
                    PText t \<Rightarrow> 0 \<notin> set t \<and> \<not> occurs_in (u ''[REDACTED'') t \<and> redact t = t
                  | _ \<Rightarrow> False) items))
           | _ \<Rightarrow> []))"

section \<open>The normal form\<close>

definition no_double_hyphen :: "pystr \<Rightarrow> bool" where
  "no_double_hyphen = successively (\<lambda>c d. \<not> (c = 45 \<and> d = 45))"

text \<open>A normalised identifier: single hyphens are its only separators and none is at an end.\<close>

definition normal_ref :: "pystr \<Rightarrow> bool" where
  "normal_ref r \<longleftrightarrow> r \<noteq> [] \<and> hd r \<noteq> 45 \<and> last r \<noteq> 45 \<and> length r \<le> 128
     \<and> list_all (\<lambda>c. separator c \<longrightarrow> c = 45) r \<and> no_double_hyphen r"

lemma length_hyphenate: "length (hyphenate s) \<le> length s"
  by (induction s rule: hyphenate.induct) auto

lemma set_hyphenate: "c \<in> set (hyphenate s) \<Longrightarrow> c = 45 \<or> c \<in> set s \<and> \<not> separator c"
  by (induction s rule: hyphenate.induct) (auto split: if_splits)

lemma hyphenate_Cons: "\<exists>x xs. hyphenate (d # s) = x # xs \<and> (x = 45 \<longleftrightarrow> separator d)"
  by (induction "d # s" arbitrary: d s rule: hyphenate.induct) (auto simp: separator_def)

lemma hyphenate_single: "no_double_hyphen (hyphenate s)"
proof (induction s rule: hyphenate.induct)
  case (3 c d s)
  obtain x xs where "hyphenate (d # s) = x # xs" "x = 45 \<longleftrightarrow> separator d"
    using hyphenate_Cons by blast
  with 3 show ?case
    by (auto simp: no_double_hyphen_def separator_def)
qed (auto simp: no_double_hyphen_def)

lemma hyphenate_id:
  assumes "no_double_hyphen s" and "list_all (\<lambda>c. separator c \<longrightarrow> c = 45) s"
  shows "hyphenate s = s"
  using assms
proof (induction s rule: hyphenate.induct)
  case (3 c d s)
  have rest: "no_double_hyphen (d # s)" "list_all (\<lambda>c. separator c \<longrightarrow> c = 45) (d # s)"
    and here: "\<not> (c = 45 \<and> d = 45)" "separator c \<longrightarrow> c = 45" "separator d \<longrightarrow> d = 45"
    using "3.prems" by (simp_all add: no_double_hyphen_def)
  have "hyphenate (d # s) = d # s"
    using "3.IH"(1) [OF _ _ rest] "3.IH"(2) [OF _ _ rest] "3.IH"(3) [OF _ rest] by blast
  with here show ?case by auto
qed simp_all

lemma dropWhile_hd: "s \<noteq> [] \<Longrightarrow> \<not> P (hd s) \<Longrightarrow> dropWhile P s = s"
  by (cases s) auto

lemma strip_hyphens_suffix:
  "\<exists>b. dropWhile (\<lambda>c. c = 45) s = strip_hyphens s @ b"
proof -
  let ?P = "\<lambda>c. c = (45::nat)"
  have "rev (rev (dropWhile ?P s)) =
      rev (takeWhile ?P (rev (dropWhile ?P s)) @ dropWhile ?P (rev (dropWhile ?P s)))"
    by (simp only: takeWhile_dropWhile_id)
  then have "dropWhile ?P s = strip_hyphens s @ rev (takeWhile ?P (rev (dropWhile ?P s)))"
    unfolding strip_hyphens_def rev_append rev_rev_ident .
  then show ?thesis by blast
qed

lemma strip_hyphens_infix: "\<exists>a b. s = a @ strip_hyphens s @ b"
proof -
  obtain b where "dropWhile (\<lambda>c. c = 45) s = strip_hyphens s @ b" using strip_hyphens_suffix by blast
  then have "s = takeWhile (\<lambda>c. c = 45) s @ strip_hyphens s @ b" by (metis takeWhile_dropWhile_id)
  then show ?thesis by blast
qed

lemma strip_hyphens_ends:
  assumes "strip_hyphens s \<noteq> []"
  shows "hd (strip_hyphens s) \<noteq> 45" and "last (strip_hyphens s) \<noteq> 45"
proof -
  let ?P = "\<lambda>c. c = (45::nat)"
  obtain b where t: "dropWhile ?P s = strip_hyphens s @ b" using strip_hyphens_suffix by blast
  then have "dropWhile ?P s \<noteq> []" using assms by simp
  then have "hd (dropWhile ?P s) \<noteq> 45" using hd_dropWhile [of ?P s] by (simp add: dropWhile_eq_Nil_conv)
  with t assms show "hd (strip_hyphens s) \<noteq> 45" by simp
  have "dropWhile ?P (rev (dropWhile ?P s)) \<noteq> []" using assms by (simp add: strip_hyphens_def)
  then have "hd (dropWhile ?P (rev (dropWhile ?P s))) \<noteq> 45"
    using hd_dropWhile [of ?P "rev (dropWhile ?P s)"] by (simp add: dropWhile_eq_Nil_conv)
  then show "last (strip_hyphens s) \<noteq> 45" by (simp add: strip_hyphens_def last_rev)
qed

lemma strip_hyphens_id: "s \<noteq> [] \<Longrightarrow> hd s \<noteq> 45 \<Longrightarrow> last s \<noteq> 45 \<Longrightarrow> strip_hyphens s = s"
  by (simp add: strip_hyphens_def dropWhile_hd hd_rev)

lemma strip_id: "\<forall>c\<in>set s. \<not> py_isspace c \<Longrightarrow> strip s = s"
  by (cases "s = []") (simp_all add: strip_def dropWhile_hd hd_rev)

lemma normalize_work_ref_normal:
  assumes "normalize_work_ref cf raw = Some r"
  shows "normal_ref r" and "set r \<subseteq> insert 45 (set (casefold cf (strip raw)))"
proof -
  let ?v = "casefold cf (strip raw)"
  have r: "r = strip_hyphens (hyphenate ?v)" "r \<noteq> []" "length ?v \<le> 128"
    using assms by (auto simp: normalize_work_ref_def Let_def split: if_splits)
  obtain a b where ab: "hyphenate ?v = a @ r @ b" using strip_hyphens_infix r(1) by metis
  then have "length r \<le> length (hyphenate ?v)" by simp
  with r(3) have "length r \<le> 128" using length_hyphenate [of ?v] by linarith
  moreover have "no_double_hyphen r"
    using hyphenate_single [of ?v] ab by (auto simp: no_double_hyphen_def successively_append_iff)
  moreover have sub: "set r \<subseteq> set (hyphenate ?v)" using ab by auto
  then have "list_all (\<lambda>c. separator c \<longrightarrow> c = 45) r" using set_hyphenate unfolding list_all_iff by blast
  ultimately show "normal_ref r"
    using r strip_hyphens_ends [of "hyphenate ?v"] by (simp add: normal_ref_def)
  show "set r \<subseteq> insert 45 (set ?v)" using sub set_hyphenate by blast
qed

text \<open>The property of Unicode case folding the next fact needs: folding twice changes nothing, and a
  hyphen is its own folding.\<close>

definition casefold_law :: "(nat \<Rightarrow> pystr) \<Rightarrow> bool" where
  "casefold_law cf \<longleftrightarrow> (\<forall>c. \<forall>d\<in>set (cf c). cf d = [d]) \<and> cf 45 = [45]"

lemma casefold_id: "\<forall>c\<in>set s. cf c = [c] \<Longrightarrow> casefold cf s = s"
  by (induction s) (auto simp: casefold_def)

lemma normalize_work_ref_again:
  assumes "normalize_work_ref cf raw = Some r" and "casefold_law cf"
  shows "normalize_work_ref cf r = Some r"
proof -
  have n: "normal_ref r" using assms(1) by (rule normalize_work_ref_normal)
  have "\<not> py_isspace c" if "c \<in> set r" for c
  proof
    assume "py_isspace c"
    then have "c = 45" using n that by (simp add: normal_ref_def list_all_iff separator_def)
    with \<open>py_isspace c\<close> show False by (simp add: py_isspace_def)
  qed
  then have "strip r = r" by (simp add: strip_id)
  moreover have "\<forall>c\<in>set r. cf c = [c]"
    using normalize_work_ref_normal(2) [OF assms(1)] assms(2)
    by (fastforce simp: casefold_def casefold_law_def)
  then have "casefold cf r = r" by (rule casefold_id)
  ultimately show ?thesis
    using n by (simp add: normalize_work_ref_def normal_ref_def hyphenate_id strip_hyphens_id)
qed

section \<open>Lists of identifiers\<close>

text \<open>The list the loop is to build: the first occurrence of each normal form, in order.\<close>

fun first_occurrences :: "'a list \<Rightarrow> 'a list" where
  "first_occurrences [] = []"
| "first_occurrences (x # xs) = x # filter (\<lambda>y. y \<noteq> x) (first_occurrences xs)"

lemma distinct_first_occurrences [simp]: "distinct (first_occurrences xs)"
  by (induction xs) auto

lemma set_first_occurrences [simp]: "set (first_occurrences xs) = set xs"
  by (induction xs) auto

definition normal_texts :: "(nat \<Rightarrow> pystr) \<Rightarrow> pyvalue list \<Rightarrow> pystr list" where
  "normal_texts cf = List.map_filter
     (\<lambda>item. case item of PText t \<Rightarrow> normalize_work_ref cf t | _ \<Rightarrow> None)"

lemma normal_texts_simps:
  "normal_texts cf [] = []"
  "normal_texts cf (PText t # items) =
     (case normalize_work_ref cf t of None \<Rightarrow> normal_texts cf items | Some v \<Rightarrow> v # normal_texts cf items)"
  "normal_texts cf (PList l # items) = normal_texts cf items"
  "normal_texts cf (PNone # items) = normal_texts cf items"
  "normal_texts cf (POther # items) = normal_texts cf items"
  by (simp_all add: normal_texts_def List.map_filter_def split: option.split)

lemma collect_work_refs_take:
  assumes "length result < max_work_refs"
  shows "collect_work_refs cf result items = result @
     take (max_work_refs - length result)
       (filter (\<lambda>v. v \<notin> set result) (first_occurrences (normal_texts cf items)))"
  using assms
proof (induction cf result items rule: collect_work_refs.induct)
  case (2 cf result item items)
  show ?case
  proof (cases item)
    case (PText t)
    show ?thesis
    proof (cases "normalize_work_ref cf t")
      case None
      with 2 PText show ?thesis by (simp add: normal_texts_simps)
    next
      case (Some v)
      note v = Some
      show ?thesis
      proof (cases "v \<in> set result")
        case True
        then have "filter (\<lambda>w. w \<notin> set result) (filter (\<lambda>w. w \<noteq> v) xs) = filter (\<lambda>w. w \<notin> set result) xs" for xs
          by (auto intro: filter_cong)
        with 2 PText v True show ?thesis by (simp add: normal_texts_simps)
      next
        case False
        have f: "filter (\<lambda>w. w \<notin> set result) (filter (\<lambda>w. w \<noteq> v) xs)
            = filter (\<lambda>w. w \<notin> set (result @ [v])) xs" for xs
          by (auto intro: filter_cong)
        have k: "max_work_refs - length result = Suc (max_work_refs - length (result @ [v]))"
          using "2.prems" by simp
        show ?thesis
        proof (cases "length (result @ [v]) = max_work_refs")
          case True
          with 2 PText v False k show ?thesis by (simp add: normal_texts_simps)
        next
          case full: False
          then have "length (result @ [v]) < max_work_refs" using "2.prems" by simp
          with "2.IH"(3) [OF PText v False full] PText v False full k f
          show ?thesis by (simp add: normal_texts_simps)
        qed
      qed
    qed
  qed (use 2 in \<open>simp_all add: normal_texts_simps\<close>)
qed (simp add: normal_texts_def List.map_filter_def)

lemma normalize_work_refs_take:
  "normalize_work_refs cf (PList items) = take max_work_refs (first_occurrences (normal_texts cf items))"
  using collect_work_refs_take [of "[]" cf items]
  by (simp add: normalize_work_refs_def max_work_refs_def)

lemma normal_texts_normal: "r \<in> set (normal_texts cf items) \<Longrightarrow> \<exists>raw. normalize_work_ref cf raw = Some r"
  by (auto simp: normal_texts_def List.map_filter_def split: pyvalue.splits)

lemma take_filter_subset: "set (take n (filter P xs)) \<subseteq> set xs"
  by (meson filter_is_subset set_take_subset subset_trans)

lemma normalize_work_refs_normal:
  assumes "r \<in> set (normalize_work_refs cf value)"
  shows "\<exists>raw. normalize_work_ref cf raw = Some r"
proof -
  obtain items where "value = PList items" "r \<in> set (take max_work_refs (first_occurrences (normal_texts cf items)))"
    using assms normalize_work_refs_take by (cases "value") (auto simp: normalize_work_refs_def)
  then show ?thesis using normal_texts_normal set_take_subset set_first_occurrences by fastforce
qed

lemma first_occurrences_distinct: "distinct xs \<Longrightarrow> first_occurrences xs = xs"
  by (induction xs) (auto intro: filter_True)

lemma normal_texts_fixed:
  "\<forall>r\<in>set rs. normalize_work_ref cf r = Some r \<Longrightarrow> normal_texts cf (map PText rs) = rs"
  by (induction rs) (auto simp: normal_texts_simps)

lemma normalize_work_refs_shape:
  "distinct (normalize_work_refs cf value)" "length (normalize_work_refs cf value) \<le> max_work_refs"
proof -
  have "distinct (normalize_work_refs cf value) \<and> length (normalize_work_refs cf value) \<le> max_work_refs"
    by (cases "value") (simp_all add: normalize_work_refs_take, simp_all add: normalize_work_refs_def)
  then show "distinct (normalize_work_refs cf value)" "length (normalize_work_refs cf value) \<le> max_work_refs"
    by simp_all
qed

lemma normalize_work_refs_again:
  assumes "casefold_law cf"
  shows "normalize_work_refs cf (PList (map PText (normalize_work_refs cf value))) = normalize_work_refs cf value"
proof -
  have "normal_texts cf (map PText (normalize_work_refs cf value)) = normalize_work_refs cf value"
    using normalize_work_refs_normal [of _ cf "value"] normalize_work_ref_again [OF _ assms]
    by (intro normal_texts_fixed) blast
  then show ?thesis
    using normalize_work_refs_shape [of cf "value"]
    by (simp add: normalize_work_refs_take first_occurrences_distinct)
qed

section \<open>Readable keys\<close>

lemma readable_part_no_zero:
  "validate_readable_part nfc redact local raw = Inr v \<Longrightarrow> 0 \<notin> set v"
  by (auto simp: validate_readable_part_def Let_def list_ex_iff split: if_splits)

lemma readable_part_bounds:
  assumes "validate_readable_part nfc redact local raw = Inr v"
  shows "v \<noteq> []" and "utf8_length v \<le> 512" and "local \<Longrightarrow> length v \<le> 128" and "redact v = v"
  using assms by (auto simp: validate_readable_part_def Let_def split: if_splits)

lemma work_key_parts:
  assumes "scope @ 0 # local = scope' @ 0 # (local' :: pystr)" and "0 \<notin> set scope" "0 \<notin> set scope'"
  shows "scope = scope' \<and> local = local'"
proof -
  have "(scope, True, local) = (scope', True, local')"
    using assms partition_at_append [of 0 scope local] partition_at_append [of 0 scope' local'] by metis
  then show ?thesis by simp
qed

end
