(* ===== verification/Container_Ref.thy ===== *)
theory Container_Ref
  imports Relay_Schema
begin

text \<open>
  The canonical form of a container reference, \<open>core/container_ref.py\<close>: the GitHub pattern, its
  canonicalisation, and the validation at the boundary of the service. \<open>str.lower\<close> is the
  parameter \<open>lower\<close>, because it depends on the Unicode tables; the facts that need anything of it
  say so.
\<close>

section \<open>The GitHub pattern\<close>

text \<open>How a lower-case literal of a pattern compiled with \<open>re.IGNORECASE\<close> matches a character: in
  either case, and \<open>i\<close> also as the dotted capital and the dotless small letter of Turkish. (The
  long s would match \<open>s\<close>, which the pattern does not contain.)\<close>

definition lit_match :: "nat \<Rightarrow> nat \<Rightarrow> bool" where
  "lit_match p c \<longleftrightarrow> lower_char c = p \<or> (p = 105 \<and> (c = 304 \<or> c = 305))"

definition is_git_suffix :: "pystr \<Rightarrow> bool" where
  "is_git_suffix s = list_all2 lit_match (u ''.git'') s"

definition ends_git :: "pystr \<Rightarrow> bool" where
  "ends_git repo \<longleftrightarrow> length repo > 4 \<and> is_git_suffix (drop (length repo - 4) repo)"

definition drop_git :: "pystr \<Rightarrow> pystr" where
  "drop_git repo = (if ends_git repo then take (length repo - 4) repo else repo)"

definition is_github_prefix :: "pystr \<Rightarrow> bool" where
  "is_github_prefix s = list_all2 lit_match (u ''git:github.com/'') s"

text \<open>\<open>_GITHUB_REF.fullmatch\<close>: the two groups of the match. The owner reaches to the first slash; one
  trailing slash is dropped; what is left must be one component, and loses one \<open>.git\<close> unless
  nothing would remain.\<close>

definition github_ref :: "pystr \<Rightarrow> (pystr \<times> pystr) option" where
  "github_ref v =
     (if \<not> is_github_prefix (take 15 v) then None
      else case partition_at 47 (drop 15 v) of
        (owner, found, rest) \<Rightarrow>
          let repo = (if rest \<noteq> [] \<and> last rest = 47 then butlast rest else rest)
          in if owner = [] \<or> \<not> found \<or> repo = [] \<or> 47 \<in> set repo then None
             else Some (owner, drop_git repo))"

section \<open>Canonicalisation and validation\<close>

definition canonical_text :: "(pystr \<Rightarrow> pystr) \<Rightarrow> pystr \<Rightarrow> pystr" where
  "canonical_text lower v =
     (case github_ref v of
        None \<Rightarrow> v
      | Some (owner, repo) \<Rightarrow> u ''git:github.com/'' @ lower owner @ u ''/'' @ lower repo)"

definition canonicalize_container_ref :: "(pystr \<Rightarrow> pystr) \<Rightarrow> pystr option \<Rightarrow> pystr option" where
  "canonicalize_container_ref lower value = map_option (canonical_text lower) value"

text \<open>\<open>_RAW_ABSOLUTE_PATH.match\<close>: a drive letter with a slash, a slash, or two backslashes.\<close>

definition raw_absolute_path :: "pystr \<Rightarrow> bool" where
  "raw_absolute_path v =
     (case v of
        c # d # e # _ \<Rightarrow> c = 47 \<or> (c = 92 \<and> d = 92)
          \<or> (is_lower (lower_char c) \<and> c < 128 \<and> d = 58 \<and> (e = 92 \<or> e = 47))
      | [c, d] \<Rightarrow> c = 47 \<or> (c = 92 \<and> d = 92)
      | [c] \<Rightarrow> c = 47
      | [] \<Rightarrow> False)"

definition validate_explicit_container_ref ::
  "(pystr \<Rightarrow> pystr) \<Rightarrow> pystr option \<Rightarrow> (relay_error, pystr) result" where
  "validate_explicit_container_ref lower value =
     (case value of
        None \<Rightarrow> Inl (ValueError (u ''container_ref is required and must be non-blank''))
      | Some v \<Rightarrow>
          if strip v = [] then Inl (ValueError (u ''container_ref is required and must be non-blank''))
          else if v \<noteq> strip v
          then Inl (ValueError (u ''container_ref must not have leading or trailing whitespace''))
          else if raw_absolute_path v
          then Inl (ValueError
                 (u ''container_ref must be an opaque scope, not an absolute filesystem path''))
          else Inr (case canonicalize_container_ref lower value of
                      None \<Rightarrow> v | Some c \<Rightarrow> if c = [] then v else c))"

section \<open>The pattern as a specification\<close>

text \<open>What the regular expression says: the groups and the optional tails put together give the
  text.\<close>

definition github_match :: "pystr \<Rightarrow> pystr \<Rightarrow> pystr \<Rightarrow> bool" where
  "github_match v owner repo \<longleftrightarrow>
     (\<exists>p g t. v = p @ owner @ 47 # repo @ g @ t \<and> is_github_prefix p
        \<and> owner \<noteq> [] \<and> 47 \<notin> set owner \<and> repo \<noteq> [] \<and> 47 \<notin> set repo
        \<and> (g = [] \<or> is_git_suffix g) \<and> (t = [] \<or> t = [47]))"

lemma is_git_suffix_length: "is_git_suffix g \<Longrightarrow> length g = 4"
  by (auto simp: is_git_suffix_def dest: list_all2_lengthD)

lemma is_github_prefix_length: "is_github_prefix p \<Longrightarrow> length p = 15"
  by (auto simp: is_github_prefix_def dest: list_all2_lengthD)

lemma is_git_suffix_no_slash: "is_git_suffix g \<Longrightarrow> 47 \<notin> set g"
proof
  assume "is_git_suffix g" "47 \<in> set g"
  then obtain p where "p \<in> set (u ''.git'')" "lit_match p 47"
    by (auto simp: is_git_suffix_def list_all2_conv_all_nth in_set_conv_nth) metis
  then show False by (auto simp: u_def lit_match_def lower_char_def)
qed

lemma ends_git_append [simp]:
  "is_git_suffix g \<Longrightarrow> r \<noteq> [] \<Longrightarrow> ends_git (r @ g)"
  using is_git_suffix_length [of g] by (simp add: ends_git_def)

lemma drop_git_append [simp]: "is_git_suffix g \<Longrightarrow> r \<noteq> [] \<Longrightarrow> drop_git (r @ g) = r"
  by (auto simp: drop_git_def dest: is_git_suffix_length)

lemma drop_git_cases:
  obtains "\<not> ends_git repo" "drop_git repo = repo"
  | g where "is_git_suffix g" "repo = drop_git repo @ g" "drop_git repo \<noteq> []"
proof (cases "ends_git repo")
  case True
  show ?thesis
  proof (rule that(2))
    show "is_git_suffix (drop (length repo - 4) repo)" using True by (simp add: ends_git_def)
    show "repo = drop_git repo @ drop (length repo - 4) repo" using True by (simp add: drop_git_def)
    show "drop_git repo \<noteq> []" using True by (auto simp: drop_git_def ends_git_def)
  qed
qed (use that(1) in \<open>simp add: drop_git_def\<close>)

lemma github_ref_append:
  assumes "is_github_prefix p" and "owner \<noteq> []" "47 \<notin> set owner"
    and "repo \<noteq> []" "47 \<notin> set repo" and "t = [] \<or> t = [47]"
  shows "github_ref (p @ owner @ 47 # repo @ t) = Some (owner, drop_git repo)"
proof -
  have "last repo \<noteq> 47" using assms(4,5) last_in_set [of repo] by metis
  then show ?thesis
    using assms is_github_prefix_length [OF assms(1)]
    by (auto simp: github_ref_def Let_def butlast_append)
qed

lemma github_ref_SomeD:
  assumes "github_ref v = Some (owner, r)"
  obtains p repo t where "v = p @ owner @ 47 # repo @ t" "is_github_prefix p" "r = drop_git repo"
    "owner \<noteq> []" "47 \<notin> set owner" "repo \<noteq> []" "47 \<notin> set repo" "t = [] \<or> t = [47]"
proof -
  obtain rest where rest: "is_github_prefix (take 15 v)" "partition_at 47 (drop 15 v) = (owner, True, rest)"
    using assms by (auto simp: github_ref_def Let_def split: if_splits prod.splits)
  let ?t = "if rest \<noteq> [] \<and> last rest = 47 then [47] else []"
  let ?repo = "if rest \<noteq> [] \<and> last rest = 47 then butlast rest else rest"
  have parts: "owner \<noteq> []" "?repo \<noteq> []" "47 \<notin> set ?repo" "r = drop_git ?repo"
    using assms rest by (auto simp: github_ref_def Let_def split: if_splits)
  have "drop 15 v = owner @ 47 # rest" "47 \<notin> set owner"
    using partition_at_found [OF rest(2)] by auto
  moreover have "rest = ?repo @ ?t" by (cases rest rule: rev_cases) auto
  ultimately have "v = take 15 v @ owner @ 47 # ?repo @ ?t"
    by (metis append_take_drop_id)
  with parts rest(1) \<open>47 \<notin> set owner\<close> show ?thesis
    using that [of "take 15 v" ?repo ?t] by simp
qed

text \<open>The executable match is the pattern: it finds groups exactly when there are some, and the
  second is the shortest possible, as the lazy quantifier asks.\<close>

lemma github_match_unique:
  assumes "github_match v owner r"
  shows "\<exists>repo. github_ref v = Some (owner, drop_git repo) \<and> (r = repo \<or> r = drop_git repo)"
proof -
  from assms obtain p g t where m: "v = p @ owner @ 47 # r @ g @ t" "is_github_prefix p"
    "owner \<noteq> []" "47 \<notin> set owner" "r \<noteq> []" "47 \<notin> set r"
    "g = [] \<or> is_git_suffix g" "t = [] \<or> t = [47]"
    by (auto simp: github_match_def)
  have "github_ref (p @ owner @ 47 # (r @ g) @ t) = Some (owner, drop_git (r @ g))"
    using m by (intro github_ref_append) (auto dest: is_git_suffix_no_slash)
  moreover have "r = r @ g \<or> r = drop_git (r @ g)" using m(5,7) by auto
  ultimately show ?thesis using m(1) by auto
qed

lemma github_ref_match:
  assumes "github_ref v = Some (owner, r)"
  shows "github_match v owner r"
proof -
  from assms obtain p repo t where s: "v = p @ owner @ 47 # repo @ t" "is_github_prefix p"
    "r = drop_git repo" "owner \<noteq> []" "47 \<notin> set owner" "repo \<noteq> []" "47 \<notin> set repo" "t = [] \<or> t = [47]"
    by (rule github_ref_SomeD)
  show ?thesis
  proof (cases repo rule: drop_git_cases)
    case 1
    then have "v = p @ owner @ 47 # r @ [] @ t" using s by simp
    with s 1 show ?thesis unfolding github_match_def by metis
  next
    case (2 g)
    then have "v = p @ owner @ 47 # r @ g @ t" "47 \<notin> set r" "r \<noteq> []"
      using s by (metis append.assoc, metis Un_iff set_append, simp)
    with s 2(1) show ?thesis unfolding github_match_def by metis
  qed
qed

lemma drop_git_shorter: "length (drop_git repo) \<le> length repo"
  by (simp add: drop_git_def)

lemma github_ref_is_pattern:
  "github_ref v = Some (owner, r) \<longleftrightarrow>
     github_match v owner r \<and> (\<forall>r'. github_match v owner r' \<longrightarrow> length r \<le> length r')"
proof
  assume ref: "github_ref v = Some (owner, r)"
  have "length r \<le> length r'" if "github_match v owner r'" for r'
    using github_match_unique [OF that] ref drop_git_shorter by fastforce
  with github_ref_match [OF ref]
  show "github_match v owner r \<and> (\<forall>r'. github_match v owner r' \<longrightarrow> length r \<le> length r')" by simp
next
  assume r: "github_match v owner r \<and> (\<forall>r'. github_match v owner r' \<longrightarrow> length r \<le> length r')"
  then obtain repo where repo: "github_ref v = Some (owner, drop_git repo)" "r = repo \<or> r = drop_git repo"
    using github_match_unique by blast
  then have "length r \<le> length (drop_git repo)" using r github_ref_match by blast
  then have "r = drop_git repo" using repo(2) by (auto simp: drop_git_def ends_git_def split: if_splits)
  with repo(1) show "github_ref v = Some (owner, r)" by simp
qed

section \<open>Facts of the canonical form\<close>

text \<open>What the facts below need of \<open>str.lower\<close>: it keeps slashes out and texts non-empty, and
  lower-casing the beginning of a lower-cased text changes nothing.\<close>

definition lower_law :: "(pystr \<Rightarrow> pystr) \<Rightarrow> bool" where
  "lower_law lower \<longleftrightarrow> (\<forall>s x y. lower s = x @ y \<longrightarrow> lower x = x) \<and> (\<forall>s. 47 \<notin> set s \<longrightarrow> 47 \<notin> set (lower s))
     \<and> (\<forall>s. s \<noteq> [] \<longrightarrow> lower s \<noteq> [])"

lemma lower_law_ascii: "lower_law lower_ascii"
proof -
  have a: "lower_ascii x = x" if "lower_ascii s = x @ y" for s x y
  proof -
    have "lower_ascii x @ lower_ascii y = lower_ascii (lower_ascii s)"
      unfolding that by (simp only: lower_ascii_def map_append)
    also have "\<dots> = x @ y" unfolding lower_ascii_idem by (rule that)
    finally show ?thesis by (simp add: append_eq_append_conv)
  qed
  have b: "47 \<notin> set (lower_ascii s)" if "47 \<notin> set s" for s
    using that by (auto simp: lower_ascii_def lower_char_def split: if_splits)
  have c: "lower_ascii s \<noteq> []" if "s \<noteq> []" for s using that by (simp add: lower_ascii_def)
  show ?thesis unfolding lower_law_def by (intro conjI allI impI) (erule a b c)+
qed

lemma lower_law_prefix: "lower_law lower \<Longrightarrow> lower s = x @ y \<Longrightarrow> lower x = x"
  unfolding lower_law_def by blast

lemma lower_law_idem: "lower_law lower \<Longrightarrow> lower (lower s) = lower s"
  by (rule lower_law_prefix [of lower s _ "[]"]) simp_all

lemma github_prefix_self: "is_github_prefix (u ''git:github.com/'')"
  by (simp add: is_github_prefix_def u_def lit_match_def lower_char_def)

lemma canonical_github:
  assumes "github_ref v = Some (owner, r)" and "lower_law lower"
  shows "github_ref (canonical_text lower v) = Some (lower owner, drop_git (lower r))"
proof -
  from assms(1) have "owner \<noteq> []" "47 \<notin> set owner" "r \<noteq> []" "47 \<notin> set r"
    using github_ref_match [OF assms(1)] by (auto simp: github_match_def)
  then have "github_ref (u ''git:github.com/'' @ lower owner @ 47 # lower r @ []) =
      Some (lower owner, drop_git (lower r))"
    using assms(2) by (intro github_ref_append) (auto simp: lower_law_def github_prefix_self)
  then show ?thesis using assms(1) by (simp add: canonical_text_def u_def)
qed

text \<open>One pass removes one suffix, so a canonical text that still ends in \<open>.git\<close> changes again.\<close>

lemma canonical_text_again:
  assumes "lower_law lower"
  shows "canonical_text lower (canonical_text lower v) = canonical_text lower v \<longleftrightarrow>
    (case github_ref v of None \<Rightarrow> True | Some (owner, r) \<Rightarrow> \<not> ends_git (lower r))"
proof (cases "github_ref v")
  case (Some p)
  obtain owner r where p: "p = (owner, r)" by (cases p)
  have "lower (drop_git (lower r)) = drop_git (lower r)"
    using lower_law_idem [OF assms]
      lower_law_prefix [OF assms, of r "take (length (lower r) - 4) (lower r)" "drop (length (lower r) - 4) (lower r)"]
    by (simp add: drop_git_def)
  moreover have "drop_git (lower r) = lower r \<longleftrightarrow> \<not> ends_git (lower r)"
    by (auto simp: drop_git_def ends_git_def dest: arg_cong [of _ _ length])
  moreover have "canonical_text lower v = u ''git:github.com/'' @ lower owner @ u ''/'' @ lower r"
    using Some p by (simp add: canonical_text_def)
  moreover have "canonical_text lower (canonical_text lower v) =
      u ''git:github.com/'' @ lower owner @ u ''/'' @ lower (drop_git (lower r))"
    using canonical_github [OF Some [unfolded p] assms] lower_law_idem [OF assms]
    by (simp add: canonical_text_def)
  ultimately show ?thesis using Some p by simp
qed (simp add: canonical_text_def)

lemma canonical_text_nonempty: "v \<noteq> [] \<Longrightarrow> canonical_text lower v \<noteq> []"
  by (auto simp: canonical_text_def u_def split: option.split prod.split)

lemma validate_container_Inr:
  "validate_explicit_container_ref lower value = Inr c \<longleftrightarrow>
     (\<exists>v. value = Some v \<and> v \<noteq> [] \<and> strip v = v \<and> \<not> raw_absolute_path v \<and> c = canonical_text lower v)"
  using canonical_text_nonempty [of _ lower]
  by (auto simp: validate_explicit_container_ref_def canonicalize_container_ref_def split: option.splits if_splits)

end
