(* ===== verification/Relay_Validation.thy ===== *)
theory Relay_Validation
  imports Relay_Sessions Work_Ref Container_Ref
begin

text \<open>
  The checks of \<open>core/relay.py\<close> on what callers send: opaque identifiers, runtimes, aliases,
  payloads, and the recipient selector. A check returns the value it accepts. Where a caller may
  leave a value out, it comes as an option; \<open>None\<close> is not a \<open>str\<close>.
\<close>

definition relay_runtimes :: "pystr list" where
  "relay_runtimes = [u ''claude-code'', u ''codex'', u ''opencode'', u ''hermes'']"

definition message_max_chars :: nat where
  "message_max_chars = 16000"

section \<open>Identifiers\<close>

definition opaque :: "string \<Rightarrow> nat \<Rightarrow> pystr option \<Rightarrow> (relay_error, pystr) result" where
  "opaque field maximum value =
     (case value of
        None \<Rightarrow> Inl (ValueError (u (field
                  @ '' is required, non-blank, and must not have surrounding whitespace'')))
      | Some v \<Rightarrow>
          if v = [] \<or> v \<noteq> strip v
          then Inl (ValueError (u (field
                  @ '' is required, non-blank, and must not have surrounding whitespace'')))
          else if length v > maximum
          then Inl (ValueError (u (field @ '' exceeds '') @ dec (int maximum) @ u '' characters''))
          else if list_ex (\<lambda>c. cat_Cc c \<or> cat_Zl c \<or> cat_Zp c) v
          then Inl (ValueError (u (field @ '' contains control characters'')))
          else Inr v)"

definition validate_runtime :: "pystr option \<Rightarrow> (relay_error, pystr) result" where
  "validate_runtime value =
     (case opaque ''runtime'' 32 value of
        Inl e \<Rightarrow> Inl e
      | Inr runtime \<Rightarrow>
          if runtime \<notin> set relay_runtimes then Inl (ValueError (u ''unknown runtime: '' @ runtime))
          else Inr runtime)"

text \<open>\<open>_ALIAS_RE\<close>: 1 to 32 characters, the first a small letter or a digit. An alias whose lower
  case has a character beyond ASCII is refused, so that lower-casing matters only where its result
  is ASCII.\<close>

definition alias_start :: "nat \<Rightarrow> bool" where
  "alias_start c \<longleftrightarrow> is_lower c \<or> is_digit c"

definition alias_char :: "nat \<Rightarrow> bool" where
  "alias_char c \<longleftrightarrow> alias_start c \<or> c = 95 \<or> c = 45"

definition is_alias :: "pystr \<Rightarrow> bool" where
  "is_alias a =
     (case a of [] \<Rightarrow> False | c # cs \<Rightarrow> alias_start c \<and> length cs \<le> 31 \<and> list_all alias_char cs)"

definition validate_alias :: "pystr option \<Rightarrow> (relay_error, pystr) result" where
  "validate_alias value =
     (case opaque ''alias'' 32 value of
        Inl e \<Rightarrow> Inl e
      | Inr v \<Rightarrow>
          if is_alias (lower_ascii v) then Inr (lower_ascii v)
          else Inl (ValueError (u ''alias must match [a-z0-9][a-z0-9_-]{0,31}'')))"

text \<open>\<open>_ENDPOINT_ID_RE\<close>.\<close>

definition is_endpoint_id :: "pystr \<Rightarrow> bool" where
  "is_endpoint_id s = hex_suffixed (u ''relay-session-'') 32 s"

section \<open>Payloads\<close>

definition validate_payload :: "pystr \<Rightarrow> (relay_error, pystr) result" where
  "validate_payload value =
     (if strip value = [] then Inl (ValueError (u ''payload is required and must be non-blank''))
      else if length value > message_max_chars
      then Inl (ValueError (u ''payload exceeds '' @ dec (int message_max_chars)
                  @ u '' Unicode code points''))
      else if list_ex (\<lambda>c. (cat_Cc c \<and> c \<notin> {10, 13, 9}) \<or> cat_Zl c \<or> cat_Zp c) value
      then Inl (ValueError (u ''payload contains unsafe control characters''))
      else Inr value)"

definition redacted_overflow :: pystr where
  "redacted_overflow =
     u ''[REDACTED: payload omitted because sanitization exceeded the Relay limit]''"

definition stored_payload :: "(pystr \<Rightarrow> pystr) \<Rightarrow> pystr \<Rightarrow> (relay_error, pystr \<times> pystr) result" where
  "stored_payload redact value =
     (case validate_payload value of
        Inl e \<Rightarrow> Inl e
      | Inr raw \<Rightarrow>
          let stored = redact raw
          in Inr (raw, if length stored > message_max_chars then redacted_overflow else stored))"

section \<open>Recipients\<close>

definition parse_selector ::
  "pystr \<Rightarrow> (relay_error, pystr option \<times> recipient_kind \<times> pystr) result" where
  "parse_selector value =
     (case opaque ''recipient'' 320 (Some value) of
        Inl e \<Rightarrow> Inl e
      | Inr selector \<Rightarrow>
          if is_endpoint_id selector then Inr (None, KEndpoint, selector)
          else if take 1 selector = u ''@'' then
            (case validate_alias (Some (drop 1 selector)) of
               Inl e \<Rightarrow> Inl e | Inr a \<Rightarrow> Inr (None, KAlias, a))
          else
            (case partition_at 58 selector of
               (runtime, found, target) \<Rightarrow>
                 (case validate_runtime (Some runtime) of
                    Inl e \<Rightarrow> Inl e
                  | Inr _ \<Rightarrow>
                      if \<not> found
                      then Inl (ValueError (u (''recipient must name one exact endpoint or alias; ''
                             @ ''broadcast is not supported'')))
                      else if target = []
                      then Inl (ValueError
                             (u ''recipient session or alias is required after '' @ [39, 58, 39]))
                      else if take 1 target = u ''@'' then
                        (case validate_alias (Some (drop 1 target)) of
                           Inl e \<Rightarrow> Inl e | Inr a \<Rightarrow> Inr (Some runtime, KAlias, a))
                      else
                        (case opaque ''recipient session_ref'' 255 (Some target) of
                           Inl e \<Rightarrow> Inl e | Inr t \<Rightarrow> Inr (Some runtime, KSession, t)))))"

text \<open>The selector of a recipient, as the parser accepts it.\<close>

definition print_selector :: "pystr option \<Rightarrow> recipient_kind \<Rightarrow> pystr \<Rightarrow> pystr" where
  "print_selector runtime kind target =
     (case runtime of None \<Rightarrow> [] | Some r \<Rightarrow> r @ u '':'')
     @ (if kind = KAlias then u ''@'' else []) @ target"

section \<open>What the checks accept\<close>

definition opaque_text :: "nat \<Rightarrow> pystr \<Rightarrow> bool" where
  "opaque_text maximum v \<longleftrightarrow> v \<noteq> [] \<and> strip v = v \<and> length v \<le> maximum
     \<and> list_all (\<lambda>c. \<not> (cat_Cc c \<or> cat_Zl c \<or> cat_Zp c)) v"

lemma opaque_Inr [simp]: "opaque field n value = Inr r \<longleftrightarrow> value = Some r \<and> opaque_text n r"
  by (auto simp: opaque_def opaque_text_def list_ex_iff list_all_iff split: option.split)

lemma opaque_ok [simp]: "opaque_text n v \<Longrightarrow> opaque field n (Some v) = Inr v"
  by simp

lemma opaque_Inl: "opaque field n value = Inl e \<Longrightarrow> \<exists>m. e = ValueError m"
  by (auto simp: opaque_def split: option.splits if_splits)

lemma plain_text_strip: "\<forall>c\<in>set v. 33 \<le> c \<and> c \<le> 126 \<Longrightarrow> strip v = v"
  by (rule strip_id) (force simp: py_isspace_def)

lemma plain_text_opaque:
  assumes "v \<noteq> []" "length v \<le> n" "\<forall>c\<in>set v. 33 \<le> c \<and> c \<le> 126"
  shows "opaque_text n v"
  using assms by (force simp: opaque_text_def plain_text_strip list_all_iff cat_Cc_def cat_Zl_def cat_Zp_def)

lemma runtime_chars: "r \<in> set relay_runtimes \<Longrightarrow> list_all (\<lambda>c. 33 \<le> c \<and> c \<le> 126 \<and> c \<noteq> 58) r"
  by (auto simp: relay_runtimes_def u_def)

lemma runtime_length: "r \<in> set relay_runtimes \<Longrightarrow> r \<noteq> [] \<and> length r \<le> 11"
  by (auto simp: relay_runtimes_def)

lemma runtime_opaque: "r \<in> set relay_runtimes \<Longrightarrow> opaque_text 32 r"
  using runtime_chars [of r] runtime_length [of r] by (intro plain_text_opaque) (auto simp: list_all_iff)

lemma validate_runtime_Inr [simp]:
  "validate_runtime value = Inr r \<longleftrightarrow> value = Some r \<and> r \<in> set relay_runtimes"
proof
  assume "validate_runtime value = Inr r"
  then show "value = Some r \<and> r \<in> set relay_runtimes"
    by (auto simp: validate_runtime_def split: sum.splits if_splits)
qed (simp add: validate_runtime_def runtime_opaque)

lemma validate_runtime_ok [simp]: "r \<in> set relay_runtimes \<Longrightarrow> validate_runtime (Some r) = Inr r"
  by simp

lemma alias_chars: "is_alias a \<Longrightarrow> list_all (\<lambda>c. 33 \<le> c \<and> c \<le> 126 \<and> c \<noteq> 58 \<and> c \<noteq> 64 \<and> lower_char c = c) a"
  by (auto simp: is_alias_def alias_char_def alias_start_def is_lower_def is_digit_def list_all_iff
      lower_char_def split: list.splits)

lemma alias_length: "is_alias a \<Longrightarrow> a \<noteq> [] \<and> length a \<le> 32"
  by (auto simp: is_alias_def split: list.splits)

lemma alias_lower: "is_alias a \<Longrightarrow> lower_ascii a = a"
  using alias_chars [of a] by (auto simp: lower_ascii_def list_all_iff intro: map_idI)

lemma alias_opaque: "is_alias a \<Longrightarrow> opaque_text 32 a"
  using alias_chars [of a] alias_length [of a] by (intro plain_text_opaque) (auto simp: list_all_iff)

lemma validate_alias_Inr:
  "validate_alias value = Inr a \<longleftrightarrow> is_alias a \<and> (\<exists>v. value = Some v \<and> opaque_text 32 v \<and> a = lower_ascii v)"
proof
  assume "validate_alias value = Inr a"
  then show "is_alias a \<and> (\<exists>v. value = Some v \<and> opaque_text 32 v \<and> a = lower_ascii v)"
    by (auto simp: validate_alias_def split: sum.splits if_splits)
qed (auto simp: validate_alias_def)

lemma validate_alias_self [simp]: "is_alias a \<Longrightarrow> validate_alias (Some a) = Inr a"
  by (simp add: validate_alias_Inr alias_opaque alias_lower)

lemma is_hex_plain: "is_hex c \<Longrightarrow> 33 \<le> c \<and> c \<le> 126"
  by (auto simp: is_hex_def is_digit_def)

lemma endpoint_id_chars: "is_endpoint_id e \<Longrightarrow> list_all (\<lambda>c. 33 \<le> c \<and> c \<le> 126) e \<and> length e = 46"
  using is_hex_plain by (auto simp: is_endpoint_id_def hex_suffixed_iff u_def list_all_iff)

lemma endpoint_id_opaque: "is_endpoint_id e \<Longrightarrow> 46 \<le> n \<Longrightarrow> opaque_text n e"
  using endpoint_id_chars [of e] by (intro plain_text_opaque) (auto simp: list_all_iff)

text \<open>The recipients the parser can produce.\<close>

definition valid_selector :: "pystr option \<Rightarrow> recipient_kind \<Rightarrow> pystr \<Rightarrow> bool" where
  "valid_selector runtime kind target \<longleftrightarrow>
     (case runtime of None \<Rightarrow> True | Some r \<Rightarrow> r \<in> set relay_runtimes)
     \<and> (case kind of
          KEndpoint \<Rightarrow> runtime = None \<and> is_endpoint_id target
        | KAlias \<Rightarrow> is_alias target
        | KSession \<Rightarrow> runtime \<noteq> None \<and> opaque_text 255 target \<and> take 1 target \<noteq> u ''@'')"

lemma parse_selector_valid:
  assumes "parse_selector v = Inr (runtime, kind, target)"
  shows "valid_selector runtime kind target"
  using assms
  by (auto simp: parse_selector_def valid_selector_def validate_alias_Inr split: sum.splits if_splits prod.splits)

lemma opaque_text_append:
  assumes "opaque_text n a" "opaque_text m b" "length a + length b + 1 \<le> k" "33 \<le> c" "c \<le> 126"
    "\<not> py_isspace (hd a)" "\<not> py_isspace (last b)"
  shows "opaque_text k (a @ c # b)"
  using assms by (cases a)
    (auto simp: opaque_text_def strip_def dropWhile_hd hd_rev cat_Cc_def cat_Zl_def cat_Zp_def)

lemma strip_ends:
  assumes "strip v = v" "v \<noteq> []"
  shows "\<not> py_isspace (hd v)" and "\<not> py_isspace (last v)"
proof -
  have d: "length (dropWhile py_isspace v) = length v"
  proof -
    have "length v = length (strip v)" using assms(1) by simp
    also have "\<dots> \<le> length (dropWhile py_isspace v)"
      unfolding strip_def by (metis length_dropWhile_le length_rev)
    finally show ?thesis using length_dropWhile_le [of py_isspace v] by linarith
  qed
  then show "\<not> py_isspace (hd v)"
    using assms(2) length_dropWhile_le [of py_isspace "tl v"] by (cases v) (auto split: if_splits)
  then have "dropWhile py_isspace v = v" using assms(2) by (simp add: dropWhile_hd)
  then have r: "dropWhile py_isspace (rev v) = rev v" using assms(1) by (metis strip_def rev_swap)
  have "rev v \<noteq> []" using assms(2) by simp
  then have "\<not> py_isspace (hd (rev v))" using hd_dropWhile [of py_isspace "rev v"] r by simp
  then show "\<not> py_isspace (last v)" by (simp add: hd_rev)
qed

lemma qualified_not_endpoint: "r \<in> set relay_runtimes \<Longrightarrow> \<not> is_endpoint_id (r @ 58 # t)"
  by (auto simp: relay_runtimes_def is_endpoint_id_def hex_suffixed_def u_def)

lemma qualified_not_at: "r \<in> set relay_runtimes \<Longrightarrow> take 1 (r @ 58 # t) \<noteq> u ''@''"
  by (auto simp: relay_runtimes_def u_def)

lemma qualified_opaque:
  assumes r: "r \<in> set relay_runtimes" and t: "opaque_text 255 t"
  shows "opaque_text 320 (r @ 58 # t)"
proof (rule opaque_text_append [OF runtime_opaque [OF r] t])
  show "length r + length t + 1 \<le> 320" using runtime_length [OF r] t by (simp add: opaque_text_def)
  show "\<not> py_isspace (hd r)" using runtime_opaque [OF r] strip_ends by (auto simp: opaque_text_def)
  show "\<not> py_isspace (last t)" using t strip_ends by (auto simp: opaque_text_def)
qed simp_all

lemma at_opaque: "is_alias a \<Longrightarrow> opaque_text 255 (64 # a)"
  using alias_chars [of a] alias_length [of a] by (intro plain_text_opaque) (auto simp: list_all_iff)

lemma parse_qualified:
  assumes r: "r \<in> set relay_runtimes" and t: "opaque_text 255 t"
  shows "parse_selector (r @ 58 # t) =
    (if take 1 t = u ''@'' then (case validate_alias (Some (drop 1 t)) of
        Inl e \<Rightarrow> Inl e | Inr a \<Rightarrow> Inr (Some r, KAlias, a))
     else Inr (Some r, KSession, t))"
proof -
  have "opaque ''recipient'' 320 (Some (r @ 58 # t)) = Inr (r @ 58 # t)"
    using qualified_opaque [OF r t] by simp
  moreover have "58 \<notin> set r" using runtime_chars [OF r] by (auto simp: list_all_iff)
  moreover have "validate_runtime (Some r) = Inr r" "opaque ''recipient session_ref'' 255 (Some t) = Inr t"
    "t \<noteq> []" using r t by (simp_all add: opaque_text_def)
  ultimately show ?thesis
    using qualified_not_endpoint [OF r] qualified_not_at [OF r] by (simp add: parse_selector_def)
qed

lemma parse_print_valid:
  assumes "valid_selector runtime kind target"
  shows "parse_selector (print_selector runtime kind target) = Inr (runtime, kind, target)"
proof (cases runtime)
  case None
  show ?thesis
  proof (cases kind)
    case KEndpoint
    with None assms have "is_endpoint_id target" by (simp add: valid_selector_def)
    with None KEndpoint show ?thesis
      by (simp add: print_selector_def parse_selector_def endpoint_id_opaque)
  next
    case KAlias
    with None assms have a: "is_alias target" by (simp add: valid_selector_def)
    have "opaque_text 320 (64 # target)" using at_opaque [OF a] by (simp add: opaque_text_def)
    moreover have "\<not> is_endpoint_id (64 # target)"
      by (simp add: is_endpoint_id_def hex_suffixed_def u_def)
    ultimately show ?thesis using None KAlias a by (simp add: print_selector_def parse_selector_def u_def)
  qed (use None assms in \<open>simp add: valid_selector_def\<close>)
next
  case (Some r)
  then have r: "r \<in> set relay_runtimes" using assms by (simp add: valid_selector_def)
  show ?thesis
  proof (cases kind)
    case KAlias
    with assms have a: "is_alias target" by (simp add: valid_selector_def)
    have "print_selector runtime kind target = r @ 58 # 64 # target"
      using Some KAlias by (simp add: print_selector_def u_def)
    with parse_qualified [OF r at_opaque [OF a]] a Some KAlias show ?thesis by (simp add: u_def)
  next
    case KSession
    with assms have t: "opaque_text 255 target" "take 1 target \<noteq> u ''@''"
      by (simp_all add: valid_selector_def)
    have "print_selector runtime kind target = r @ 58 # target"
      using Some KSession by (simp add: print_selector_def u_def)
    with parse_qualified [OF r t(1)] t(2) Some KSession show ?thesis by simp
  qed (use Some assms in \<open>simp add: valid_selector_def\<close>)
qed

lemma stored_payload_Inr:
  assumes "stored_payload redact value = Inr (raw, stored)"
  shows "raw = value" and "length stored \<le> message_max_chars" and "render_safe raw"
    and "stored = redact raw \<or> stored = redacted_overflow"
  using assms by (auto simp: stored_payload_def validate_payload_def Let_def redacted_overflow_def
      message_max_chars_def render_safe_def render_safe_char_def list_all_iff list_ex_iff split: if_splits)

end
