(* ===== verification/Relay_Service.thy ===== *)
theory Relay_Service
  imports Relay_Validation Relay_Machine
begin

text \<open>
  \<open>RelayService\<close> of \<open>core/relay.py\<close>: the checked boundary over the store. Every operation checks
  its arguments in the order Python evaluates them, and only then calls the store; the store's
  transaction gets the canonical container and the validated texts. Clocks and random identifiers
  are arguments, as in the store. The four operations of the durable Codex wake that only forward
  their arguments are the store's own.
\<close>

section \<open>Sequencing\<close>

text \<open>A check before an operation on the store, and a check after a check.\<close>

definition checked :: "('e, 'a) result \<Rightarrow> 's \<Rightarrow> ('a \<Rightarrow> ('s, 'e, 'b) outcome) \<Rightarrow> ('s, 'e, 'b) outcome" where
  "checked r db k = (case r of Inl e \<Rightarrow> (Inl e, db) | Inr x \<Rightarrow> k x)"

definition andthen :: "('e, 'a) result \<Rightarrow> ('a \<Rightarrow> ('e, 'b) result) \<Rightarrow> ('e, 'b) result" where
  "andthen r k = (case r of Inl e \<Rightarrow> Inl e | Inr x \<Rightarrow> k x)"

definition mapped :: "('a \<Rightarrow> 'b) \<Rightarrow> ('s, 'e, 'a) outcome \<Rightarrow> ('s, 'e, 'b) outcome" where
  "mapped f r = (case r of (Inl e, db) \<Rightarrow> (Inl e, db) | (Inr x, db) \<Rightarrow> (Inr (f x), db))"

definition optional :: "('a \<Rightarrow> ('e, 'b) result) \<Rightarrow> 'a option \<Rightarrow> ('e, 'b option) result" where
  "optional check value =
     (case value of None \<Rightarrow> Inr None | Some v \<Rightarrow> andthen (check v) (\<lambda>x. Inr (Some x)))"

definition require :: "bool \<Rightarrow> pystr \<Rightarrow> (relay_error, unit) result" where
  "require ok msg = (if ok then Inr () else Inl (ValueError msg))"

lemma checked_Inr [simp]: "checked (Inr x) db k = k x"
  by (simp add: checked_def)

lemma checked_Inl [simp]: "checked (Inl e) db k = (Inl e, db)"
  by (simp add: checked_def)

lemma andthen_Inr_iff: "andthen r k = Inr y \<longleftrightarrow> (\<exists>x. r = Inr x \<and> k x = Inr y)"
  by (simp add: andthen_def split: sum.split)

lemma require_Inr [simp]: "require ok msg = Inr x \<longleftrightarrow> ok"
  by (simp add: require_def)

lemma optional_Inr_iff:
  "optional check value = Inr y \<longleftrightarrow>
     (case value of None \<Rightarrow> y = None | Some v \<Rightarrow> \<exists>x. check v = Inr x \<and> y = Some x)"
  by (auto simp: optional_def andthen_Inr_iff split: option.split)

lemma snd_mapped [simp]: "snd (mapped f r) = snd r"
  by (simp add: mapped_def split: prod.split sum.split)

text \<open>What the service takes from outside: SHA-256, the redactor, \<open>str.lower\<close> of a text and
  Unicode normalisation, the printable test, and the date format.\<close>

record service_env =
  sv_hash :: "pystr \<Rightarrow> pystr"
  sv_redact :: "pystr \<Rightarrow> pystr"
  sv_lower :: "pystr \<Rightarrow> pystr"
  sv_nfc :: "pystr \<Rightarrow> pystr"
  sv_printable :: "pystr \<Rightarrow> bool"
  sv_fmt :: "time \<Rightarrow> pystr"

definition scope :: "service_env \<Rightarrow> pystr \<Rightarrow> (relay_error, pystr) result" where
  "scope E container_ref = validate_explicit_container_ref (sv_lower E) (Some container_ref)"

definition max_sequence :: int where
  "max_sequence = 2 ^ 63 - 1"

definition recent_seconds :: int where
  "recent_seconds = 24 * 60 * 60"

definition default_expiry_seconds :: int where
  "default_expiry_seconds = 24 * 60 * 60"

definition min_expiry_seconds :: int where
  "min_expiry_seconds = 60"

definition max_expiry_seconds :: int where
  "max_expiry_seconds = 7 * 24 * 60 * 60"

definition canonical_endpoint :: "pystr \<Rightarrow> (relay_error, pystr) result" where
  "canonical_endpoint endpoint_id =
     andthen (opaque ''endpoint_id'' 46 (Some endpoint_id)) (\<lambda>e.
       if is_endpoint_id e then Inr e
       else Inl (ValueError (u ''endpoint_id must be a canonical Relay endpoint'')))"

section \<open>Codex trials\<close>

definition service_trial_native_suppressed ::
  "pystr \<Rightarrow> relay_db \<Rightarrow> (relay_error, bool) result" where
  "service_trial_native_suppressed endpoint_id db =
     andthen (canonical_endpoint endpoint_id) (relay_codex_trial_native_suppressed db)"

definition service_enroll_trial ::
  "service_env \<Rightarrow> pystr \<Rightarrow> pystr \<Rightarrow> pystr \<Rightarrow> pystr \<Rightarrow> relay_db \<Rightarrow> bool relay_outcome" where
  "service_enroll_trial E endpoint_id session_ref container_ref trial_id db =
     checked (canonical_endpoint endpoint_id) db (\<lambda>e.
     checked (opaque ''session_ref'' 255 (Some session_ref)) db (\<lambda>s.
     checked (scope E container_ref) db (\<lambda>c.
     checked (opaque ''trial_id'' 128 (Some trial_id)) db (\<lambda>t.
       relay_codex_trial_enroll e s c t db))))"

definition trial_delivery ::
  "pystr \<Rightarrow> pystr \<Rightarrow> pystr \<Rightarrow> (relay_error, pystr \<times> pystr \<times> pystr) result" where
  "trial_delivery endpoint_id trial_id delivery_id =
     andthen (canonical_endpoint endpoint_id) (\<lambda>e.
     andthen (opaque ''trial_id'' 128 (Some trial_id)) (\<lambda>t.
     andthen (opaque ''delivery_id'' 128 (Some delivery_id)) (\<lambda>d. Inr (e, t, d))))"

definition service_bind_trial ::
  "pystr \<Rightarrow> pystr \<Rightarrow> pystr \<Rightarrow> time \<Rightarrow> relay_db \<Rightarrow> bool relay_outcome" where
  "service_bind_trial endpoint_id trial_id delivery_id current db =
     checked (trial_delivery endpoint_id trial_id delivery_id) db
       (\<lambda>(e, t, d). relay_codex_trial_bind e t d current db)"

definition service_spend_trial ::
  "pystr \<Rightarrow> pystr \<Rightarrow> pystr \<Rightarrow> time \<Rightarrow> relay_db \<Rightarrow> bool relay_outcome" where
  "service_spend_trial endpoint_id trial_id delivery_id current db =
     checked (trial_delivery endpoint_id trial_id delivery_id) db
       (\<lambda>(e, t, d). relay_codex_trial_spend e t d current db)"

definition service_trial_action_ready ::
  "pystr \<Rightarrow> pystr \<Rightarrow> pystr \<Rightarrow> time \<Rightarrow> relay_db \<Rightarrow> (relay_error, bool) result" where
  "service_trial_action_ready endpoint_id trial_id delivery_id current db =
     andthen (trial_delivery endpoint_id trial_id delivery_id)
       (\<lambda>(e, t, d). Inr (relay_codex_trial_action_ready db e t d current))"

section \<open>The turn\<close>

text \<open>The structural references a hook sends along: nothing, something that is not a list, or a
  list whose items have both parts or not.\<close>

datatype structural_refs = NoRefs | NotAList | RefList "(pystr \<times> pystr) option list"

record turn_call =
  tc_runtime :: pystr
  tc_session_ref :: pystr
  tc_container_ref :: pystr
  tc_title :: "pystr option"
  tc_max_chars :: int
  tc_max_response_chars :: int
  tc_max_messages :: int
  tc_register_session :: bool
  tc_structural :: structural_refs
  tc_exact_delivery_id :: "pystr option"
  tc_claim_expires_at_ms :: "int option"
  tc_codex_wake_endpoint_id :: "pystr option"
  tc_codex_wake_generation :: "int option"
  tc_previous_container_ref :: "pystr option"
  tc_previous_endpoint_id :: "pystr option"
  tc_previous_scope_generation :: "int option"

definition exact_delivery :: "pystr \<Rightarrow> pystr option \<Rightarrow> (relay_error, pystr option) result" where
  "exact_delivery runtime value =
     optional (\<lambda>v. andthen (opaque ''exact_delivery_id'' 128 (Some v)) (\<lambda>d.
        if runtime \<noteq> u ''codex'' \<or> \<not> hex_suffixed (u ''relay-delivery-'') 32 d
        then Inl (ValueError (u ''exact_delivery_id requires a canonical Codex delivery ID''))
        else Inr d)) value"

definition wake_claim_ok :: "pystr option \<Rightarrow> pystr option \<Rightarrow> int option \<Rightarrow> bool" where
  "wake_claim_ok exact endpoint generation \<longleftrightarrow>
     (endpoint = None \<and> generation = None)
     \<or> (exact \<noteq> None \<and> (case endpoint of None \<Rightarrow> False | Some e \<Rightarrow> is_endpoint_id e)
        \<and> (case generation of None \<Rightarrow> False | Some g \<Rightarrow> 1 \<le> g))"

definition transition_complete :: "pystr option \<Rightarrow> pystr option \<Rightarrow> int option \<Rightarrow> bool" where
  "transition_complete container endpoint generation \<longleftrightarrow>
     (container = None \<and> endpoint = None \<and> generation = None)
     \<or> (container \<noteq> None \<and> endpoint \<noteq> None \<and> generation \<noteq> None)"

definition check_turn :: "service_env \<Rightarrow> turn_call \<Rightarrow> (relay_error, turn_args) result" where
  "check_turn E q =
     andthen (scope E (tc_container_ref q)) (\<lambda>container.
     andthen (require (0 \<le> tc_max_chars q) (u ''max_chars must be >= 0 (0 = no limit)'')) (\<lambda>_.
     andthen (require (0 \<le> tc_max_response_chars q)
                (u ''max_response_chars must be >= 0 (0 = no limit)'')) (\<lambda>_.
     andthen (require (0 \<le> tc_max_messages q) (u ''max_messages must be >= 0 (0 = no limit)'')) (\<lambda>_.
     andthen (require (case tc_claim_expires_at_ms q of None \<Rightarrow> True
                       | Some ms \<Rightarrow> 1 \<le> ms \<and> ms \<le> 2 ^ 53 - 1) (u ''invalid Relay claim expiry'')) (\<lambda>_.
     andthen (validate_runtime (Some (tc_runtime q))) (\<lambda>runtime.
     andthen (opaque ''session_ref'' 255 (Some (tc_session_ref q))) (\<lambda>session_ref.
     andthen (exact_delivery runtime (tc_exact_delivery_id q)) (\<lambda>exact.
     andthen (require (wake_claim_ok exact (tc_codex_wake_endpoint_id q) (tc_codex_wake_generation q))
                (u ''invalid Codex wake claim snapshot'')) (\<lambda>_.
     andthen (require (transition_complete (tc_previous_container_ref q) (tc_previous_endpoint_id q)
                         (tc_previous_scope_generation q))
                (u ''Relay scope transition fields are required together'')) (\<lambda>_.
     andthen (optional (scope E) (tc_previous_container_ref q)) (\<lambda>previous_container.
     andthen (optional (\<lambda>v. opaque ''previous_endpoint_id'' 255 (Some v)) (tc_previous_endpoint_id q))
       (\<lambda>previous_endpoint.
     andthen (optional (\<lambda>v. opaque ''title'' 255 (Some v)) (tc_title q)) (\<lambda>title.
       Inr \<lparr>ta_runtime = runtime, ta_session_ref = session_ref, ta_container_ref = container,
            ta_title = title, ta_max_chars = nat (tc_max_chars q),
            ta_max_messages = nat (tc_max_messages q), ta_lease_seconds = 60,
            ta_exact_delivery_id = exact, ta_claim_expires_at_ms = tc_claim_expires_at_ms q,
            ta_codex_wake_endpoint_id = tc_codex_wake_endpoint_id q,
            ta_codex_wake_generation = tc_codex_wake_generation q, ta_opencode_wake = None,
            ta_max_response_chars = nat (tc_max_response_chars q),
            ta_register_session = tc_register_session q,
            ta_previous_container_ref = previous_container,
            ta_previous_endpoint_id = previous_endpoint,
            ta_previous_scope_generation = tc_previous_scope_generation q\<rparr>)))))))))))))"

definition work_ref_input_of :: "service_env \<Rightarrow> pystr \<Rightarrow> pystr \<Rightarrow> (relay_error, work_ref_input) result" where
  "work_ref_input_of E scope_ref local_ref =
     andthen (readable_work_ref (sv_hash E) (sv_nfc E) (sv_redact E) scope_ref local_ref) (\<lambda>r.
       Inr \<lparr>wi_work_ref = rr_key r, wi_scope_ref = rr_scope_ref r, wi_local_ref = rr_local_ref r\<rparr>)"

text \<open>The loop over the items, with the references collected so far; an item without its parts
  raises.\<close>

fun collect_structural ::
  "service_env \<Rightarrow> work_ref_input list \<Rightarrow> (pystr \<times> pystr) option list
     \<Rightarrow> (relay_error, work_ref_input list) result" where
  "collect_structural E normalized [] = Inr normalized"
| "collect_structural E normalized (None # items) = Inl TypeError"
| "collect_structural E normalized (Some (s, l) # items) =
     (case work_ref_input_of E s l of
        Inl e \<Rightarrow> Inl e
      | Inr v \<Rightarrow>
          collect_structural E
            (if list_ex (\<lambda>r. wi_work_ref r = wi_work_ref v) normalized then normalized
             else normalized @ [v]) items)"

definition structural_input ::
  "service_env \<Rightarrow> structural_refs \<Rightarrow> (relay_error, work_ref_input list) result" where
  "structural_input E refs =
     (case refs of
        RefList items \<Rightarrow>
          if length items > 2
          then Inl (ValueError
                 (u ''structural_work_refs must contain at most 2 readable work references''))
          else collect_structural E [] items
      | _ \<Rightarrow> Inl (ValueError
                 (u ''structural_work_refs must contain at most 2 readable work references'')))"

datatype refs_status = Unchanged | Complete "work_ref_view list" | Unavailable

text \<open>A refresh that fails leaves the turn as it is and says so in its answer.\<close>

definition service_turn ::
  "service_env \<Rightarrow> turn_env \<Rightarrow> turn_call \<Rightarrow> time \<Rightarrow> time \<Rightarrow> relay_db
     \<Rightarrow> (turn_response \<times> refs_status) relay_outcome" where
  "service_turn E env q current later db =
     checked (check_turn E q) db (\<lambda>a.
       (case relay_turn env a current db of
          (Inl e, db1) \<Rightarrow> (Inl e, db1)
        | (Inr response, db1) \<Rightarrow>
            if tc_structural q = NoRefs then (Inr (response, Unchanged), db1)
            else
              (case structural_input E (tc_structural q) of
                 Inl _ \<Rightarrow> (Inr (response, Unavailable), db1)
               | Inr refs \<Rightarrow>
                   (case relay_refresh_structural_work_refs (ta_runtime a) (ta_session_ref a)
                           (ta_container_ref a) refs later db1 of
                      (Inl _, db2) \<Rightarrow> (Inr (response, Unavailable), db2)
                    | (Inr views, db2) \<Rightarrow> (Inr (response, Complete views), db2)))))"

section \<open>Work references\<close>

definition work_ref_guidance :: "pystr \<Rightarrow> pystr" where
  "work_ref_guidance work_ref =
     u ''Copy exact key '' @ [34] @ work_ref @ [34]
     @ u '' into the existing exact History work_ref search; ''
     @ u ''the persisted association is evaluated independently on each turn.''"

definition session_triple ::
  "service_env \<Rightarrow> pystr \<Rightarrow> pystr \<Rightarrow> pystr \<Rightarrow> (relay_error, pystr \<times> pystr \<times> pystr) result" where
  "session_triple E runtime session_ref container_ref =
     andthen (validate_runtime (Some runtime)) (\<lambda>r.
     andthen (opaque ''session_ref'' 255 (Some session_ref)) (\<lambda>s.
     andthen (scope E container_ref) (\<lambda>c. Inr (r, s, c))))"

definition service_session_work_refs ::
  "service_env \<Rightarrow> pystr \<Rightarrow> pystr \<Rightarrow> pystr \<Rightarrow> time \<Rightarrow> relay_db
     \<Rightarrow> (relay_error, session_view \<times> (work_ref_view \<times> pystr) list) result" where
  "service_session_work_refs E runtime session_ref container_ref current db =
     andthen (session_triple E runtime session_ref container_ref) (\<lambda>(r, s, c).
     andthen (relay_session_work_refs db r s c current) (\<lambda>(view, refs).
       Inr (view, map (\<lambda>w. (w, work_ref_guidance (wv_work_ref w))) refs)))"

definition service_attach_work_ref ::
  "service_env \<Rightarrow> pystr \<Rightarrow> pystr \<Rightarrow> pystr \<Rightarrow> pystr \<Rightarrow> pystr \<Rightarrow> time \<Rightarrow> relay_db
     \<Rightarrow> ((session_view \<times> work_ref_view \<times> work_ref_view list) \<times> pystr) relay_outcome" where
  "service_attach_work_ref E runtime session_ref container_ref scope_ref local_ref current db =
     checked (work_ref_input_of E scope_ref local_ref) db (\<lambda>v.
     checked (session_triple E runtime session_ref container_ref) db (\<lambda>(r, s, c).
       mapped (\<lambda>x. (x, work_ref_guidance (wi_work_ref v)))
         (relay_attach_work_ref r s c v current False db)))"

definition service_detach_work_ref ::
  "service_env \<Rightarrow> pystr \<Rightarrow> pystr \<Rightarrow> pystr \<Rightarrow> pystr \<Rightarrow> pystr \<Rightarrow> time \<Rightarrow> relay_db
     \<Rightarrow> (detach_result \<times> work_ref_input \<times> pystr) relay_outcome" where
  "service_detach_work_ref E runtime session_ref container_ref scope_ref local_ref current db =
     checked (work_ref_input_of E scope_ref local_ref) db (\<lambda>v.
     checked (session_triple E runtime session_ref container_ref) db (\<lambda>(r, s, c).
       mapped (\<lambda>x. (x, v, work_ref_guidance (wi_work_ref v)))
         (relay_detach_work_ref r s c (wi_work_ref v) False current db)))"

datatype admin_result =
    Attached "session_view \<times> work_ref_view \<times> work_ref_view list" pystr
  | Detached detach_result work_ref_input pystr

definition service_administer_work_ref ::
  "service_env \<Rightarrow> pystr \<Rightarrow> pystr \<Rightarrow> pystr \<Rightarrow> pystr \<Rightarrow> time \<Rightarrow> relay_db \<Rightarrow> admin_result relay_outcome" where
  "service_administer_work_ref E endpoint_id action scope_ref local_ref current db =
     checked (canonical_endpoint endpoint_id) db (\<lambda>e.
     checked (require (action \<in> {u ''attach'', u ''detach''}) (u ''action must be attach or detach'')) db (\<lambda>_.
     checked (relay_session_scope_by_endpoint db e) db (\<lambda>(r, s, c).
     checked (work_ref_input_of E scope_ref local_ref) db (\<lambda>v.
       if action = u ''attach''
       then mapped (\<lambda>x. Attached x (work_ref_guidance (wi_work_ref v)))
              (relay_attach_work_ref r s c v current True db)
       else mapped (\<lambda>x. Detached x v (work_ref_guidance (wi_work_ref v)))
              (relay_detach_work_ref r s c (wi_work_ref v) True current db)))))"

fun work_ref_inputs ::
  "service_env \<Rightarrow> (pystr \<times> pystr) list \<Rightarrow> (relay_error, work_ref_input list) result" where
  "work_ref_inputs E [] = Inr []"
| "work_ref_inputs E ((s, l) # items) =
     andthen (work_ref_input_of E s l) (\<lambda>v. andthen (work_ref_inputs E items) (\<lambda>vs. Inr (v # vs)))"

record count_row =
  cr_scope_ref :: pystr
  cr_local_ref :: pystr
  cr_participants :: nat
  cr_recent :: nat
  cr_dormant :: int

definition count_row :: "(pystr \<Rightarrow> (nat \<times> nat) option) \<Rightarrow> work_ref_input \<Rightarrow> count_row" where
  "count_row counts item =
     (case (case counts (wi_work_ref item) of None \<Rightarrow> (0, 0) | Some p \<Rightarrow> p) of
        (n, m) \<Rightarrow>
          \<lparr>cr_scope_ref = wi_scope_ref item, cr_local_ref = wi_local_ref item,
           cr_participants = n, cr_recent = m, cr_dormant = int n - int m\<rparr>)"

definition service_participant_counts ::
  "service_env \<Rightarrow> (pystr \<times> pystr) list \<Rightarrow> time \<Rightarrow> relay_db \<Rightarrow> (relay_error, count_row list) result" where
  "service_participant_counts E references current db =
     andthen (require (1 \<le> length references \<and> length references \<le> 200)
       (u ''references must contain between 1 and 200 work references'')) (\<lambda>_.
     andthen (work_ref_inputs E references) (\<lambda>normalized.
     andthen (require (distinct (map wi_work_ref normalized))
       (u ''references must be unique after canonical normalization'')) (\<lambda>_.
       Inr (map (count_row (relay_work_ref_participant_counts db (map wi_work_ref normalized)
                              current recent_seconds)) normalized))))"

definition participant_query ::
  "service_env \<Rightarrow> pystr option \<Rightarrow> pystr option \<Rightarrow> pystr option
     \<Rightarrow> (relay_error, pystr \<times> (pystr \<times> pystr) option) result" where
  "participant_query E scope_ref local_ref work_ref =
     (let readable_supplied = (scope_ref \<noteq> None \<or> local_ref \<noteq> None)
      in if (work_ref = None) = (\<not> readable_supplied)
         then Inl (ValueError (u (''provide either readable scope_ref/local_ref or one ''
                @ ''advanced work_ref key'')))
         else
           (case work_ref of
              None \<Rightarrow>
                (case (scope_ref, local_ref) of
                   (Some s, Some l) \<Rightarrow>
                     andthen (work_ref_input_of E s l) (\<lambda>v.
                       Inr (wi_work_ref v, Some (wi_scope_ref v, wi_local_ref v)))
                 | _ \<Rightarrow> Inl (ValueError (u ''scope_ref and local_ref are required together'')))
            | Some key \<Rightarrow>
                if readable_supplied
                then Inl (ValueError
                       (u ''advanced work_ref cannot be combined with scope_ref/local_ref''))
                else andthen (validate_work_ref_key key) (\<lambda>k. Inr (k, None))))"

definition service_participants ::
  "service_env \<Rightarrow> pystr option \<Rightarrow> pystr option \<Rightarrow> pystr option \<Rightarrow> pystr option \<Rightarrow> bool
     \<Rightarrow> int \<Rightarrow> int \<Rightarrow> time \<Rightarrow> relay_db
     \<Rightarrow> (relay_error, pystr \<times> (pystr \<times> pystr) option \<times> participant list) result" where
  "service_participants E scope_ref local_ref work_ref container_ref include_closed offset limit
       current db =
     andthen (participant_query E scope_ref local_ref work_ref) (\<lambda>(key, parts).
     andthen (require (0 \<le> offset) (u ''offset must be >= 0'')) (\<lambda>_.
     andthen (require (1 \<le> limit \<and> limit \<le> 200) (u ''limit must be between 1 and 200'')) (\<lambda>_.
     andthen (optional (scope E) container_ref) (\<lambda>container.
       Inr (key, parts, relay_work_ref_participants db key include_closed container
              (nat offset) (nat limit) current recent_seconds)))))"

section \<open>Sessions\<close>

text \<open>Here the container is checked first, then the runtime and the session.\<close>

definition scoped_session ::
  "service_env \<Rightarrow> pystr \<Rightarrow> pystr \<Rightarrow> pystr \<Rightarrow> (relay_error, pystr \<times> pystr \<times> pystr) result" where
  "scoped_session E runtime session_ref container_ref =
     andthen (scope E container_ref) (\<lambda>c.
     andthen (validate_runtime (Some runtime)) (\<lambda>r.
     andthen (opaque ''session_ref'' 255 (Some session_ref)) (\<lambda>s. Inr (r, s, c))))"

definition service_close_session ::
  "service_env \<Rightarrow> pystr \<Rightarrow> pystr \<Rightarrow> pystr \<Rightarrow> time \<Rightarrow> relay_db \<Rightarrow> session_view relay_outcome" where
  "service_close_session E runtime session_ref container_ref current db =
     checked (scoped_session E runtime session_ref container_ref) db
       (\<lambda>(r, s, c). relay_close_session r s c current db)"

definition service_list_sessions ::
  "service_env \<Rightarrow> pystr \<Rightarrow> pystr option \<Rightarrow> pystr option \<Rightarrow> bool \<Rightarrow> time \<Rightarrow> relay_db
     \<Rightarrow> (relay_error, session_view list) result" where
  "service_list_sessions E container_ref runtime session_ref include_inactive current db =
     andthen (scope E container_ref) (\<lambda>c.
     andthen (optional (\<lambda>v. validate_runtime (Some v)) runtime) (\<lambda>r.
     andthen (optional (\<lambda>v. opaque ''session_ref'' 255 (Some v)) session_ref) (\<lambda>s.
     andthen (require (s = None \<or> r \<noteq> None) (u ''runtime is required when session_ref is supplied'')) (\<lambda>_.
       relay_list_sessions db c r s include_inactive recent_seconds current))))"

definition service_name_session ::
  "service_env \<Rightarrow> pystr \<Rightarrow> pystr \<Rightarrow> pystr \<Rightarrow> pystr option \<Rightarrow> bool \<Rightarrow> time \<Rightarrow> relay_db
     \<Rightarrow> session_view relay_outcome" where
  "service_name_session E runtime session_ref container_ref alias replace_existing current db =
     checked (scoped_session E runtime session_ref container_ref) db (\<lambda>(r, s, c).
     checked (optional (\<lambda>v. validate_alias (Some v)) alias) db (\<lambda>a.
       relay_name_session r s c a replace_existing current db))"

definition service_mark_unreachable ::
  "service_env \<Rightarrow> pystr \<Rightarrow> pystr \<Rightarrow> pystr \<Rightarrow> time \<Rightarrow> relay_db \<Rightarrow> bool relay_outcome" where
  "service_mark_unreachable E runtime session_ref container_ref attempt_started_at db =
     checked (scoped_session E runtime session_ref container_ref) db
       (\<lambda>(r, s, c). relay_mark_unreachable r s c attempt_started_at db)"

definition service_mark_active ::
  "service_env \<Rightarrow> pystr \<Rightarrow> pystr \<Rightarrow> pystr \<Rightarrow> time \<Rightarrow> relay_db \<Rightarrow> bool relay_outcome" where
  "service_mark_active E runtime session_ref container_ref current db =
     checked (scoped_session E runtime session_ref container_ref) db
       (\<lambda>(r, s, c). relay_mark_active r s c current db)"

definition service_scope_by_endpoint ::
  "pystr \<Rightarrow> relay_db \<Rightarrow> (relay_error, pystr \<times> pystr \<times> pystr) result" where
  "service_scope_by_endpoint endpoint_id db =
     andthen (canonical_endpoint endpoint_id) (relay_session_scope_by_endpoint db)"

text \<open>The view is given out only when it would pass the checks of a registration unchanged.\<close>

definition service_view_by_endpoint ::
  "service_env \<Rightarrow> pystr \<Rightarrow> time \<Rightarrow> relay_db \<Rightarrow> (relay_error, session_view) result" where
  "service_view_by_endpoint E endpoint_id current db =
     andthen (canonical_endpoint endpoint_id) (\<lambda>e.
     andthen (relay_session_view_by_endpoint db e recent_seconds current) (\<lambda>view.
       let lost = Inl (RelayNotFoundError ''relay endpoint scope not found'')
       in if v_endpoint_id view \<noteq> e then lost
          else andthen (scope E (v_container_ref view)) (\<lambda>c.
            if c \<noteq> v_container_ref view then lost
            else andthen (validate_runtime (Some (v_runtime view))) (\<lambda>r.
              if r \<noteq> v_runtime view then lost
              else andthen (opaque ''session_ref'' 255 (Some (v_session_ref view))) (\<lambda>s.
                if s \<noteq> v_session_ref view then lost else Inr view)))))"

section \<open>Messages\<close>

text \<open>An expiry the caller left out, or gave: a number of seconds, or \<open>None\<close> for a durable
  message. The answer is the expiry to use and whether it was supplied.\<close>

datatype expiry_request = Omitted | Given "int option"

definition check_expiry :: "expiry_request \<Rightarrow> (relay_error, int option \<times> bool) result" where
  "check_expiry q =
     (case q of
        Omitted \<Rightarrow> Inr (Some default_expiry_seconds, False)
      | Given None \<Rightarrow> Inr (None, True)
      | Given (Some n) \<Rightarrow>
          if min_expiry_seconds \<le> n \<and> n \<le> max_expiry_seconds then Inr (Some n, True)
          else Inl (ValueError (u ''expires_in_seconds must be between ''
                 @ dec min_expiry_seconds @ u '' and '' @ dec max_expiry_seconds)))"

record send_call =
  sc_sender_runtime :: pystr
  sc_sender_session_ref :: pystr
  sc_recipient :: pystr
  sc_payload :: pystr
  sc_container_ref :: pystr
  sc_expiry :: expiry_request
  sc_in_reply_to :: "pystr option"
  sc_message_id :: "pystr option"

text \<open>\<open>uuid\<close> is the hexadecimal form of the random identifier the service draws for a message without
  one; an empty identifier counts as none.\<close>

definition check_send :: "service_env \<Rightarrow> send_call \<Rightarrow> pystr \<Rightarrow> (relay_error, send_args) result" where
  "check_send E q uuid =
     andthen (scope E (sc_container_ref q)) (\<lambda>container.
     andthen (check_expiry (sc_expiry q)) (\<lambda>(expires, supplied).
     andthen (parse_selector (sc_recipient q)) (\<lambda>(runtime, kind, target).
     andthen (stored_payload (sv_redact E) (sc_payload q)) (\<lambda>(raw, stored).
     andthen (case sc_message_id q of
                None \<Rightarrow> Inr (u ''relay-msg-'' @ uuid)
              | Some k \<Rightarrow> if k = [] then Inr (u ''relay-msg-'' @ uuid)
                          else opaque ''message_id'' 128 (Some k)) (\<lambda>message_id.
     andthen (validate_runtime (Some (sc_sender_runtime q))) (\<lambda>sender_runtime.
     andthen (opaque ''sender_session_ref'' 255 (Some (sc_sender_session_ref q))) (\<lambda>sender_session.
     andthen (optional (\<lambda>v. opaque ''in_reply_to'' 128 (Some v)) (sc_in_reply_to q)) (\<lambda>in_reply_to.
       Inr \<lparr>sa_message_id = message_id, sa_sender_runtime = sender_runtime,
            sa_sender_session_ref = sender_session, sa_recipient = sc_recipient q,
            sa_recipient_runtime = runtime, sa_recipient_kind = kind, sa_recipient_value = target,
            sa_payload = stored, sa_redacted = (stored \<noteq> raw), sa_container_ref = container,
            sa_expires_in_seconds = expires, sa_expiry_supplied = supplied,
            sa_in_reply_to = in_reply_to\<rparr>))))))))"

definition service_send ::
  "service_env \<Rightarrow> send_call \<Rightarrow> pystr \<Rightarrow> pystr \<Rightarrow> time \<Rightarrow> relay_db \<Rightarrow> message_status relay_outcome" where
  "service_send E q uuid fresh current db =
     checked (check_send E q uuid) db (\<lambda>a. relay_send (sv_hash E) a fresh current db)"

record reply_call =
  rc_delivery_id :: pystr
  rc_receipt :: "pystr option"
  rc_payload :: pystr
  rc_container_ref :: pystr
  rc_expiry :: expiry_request

definition check_reply :: "service_env \<Rightarrow> reply_call \<Rightarrow> (relay_error, reply_args) result" where
  "check_reply E q =
     andthen (scope E (rc_container_ref q)) (\<lambda>container.
     andthen (check_expiry (rc_expiry q)) (\<lambda>(expires, supplied).
     andthen (opaque ''delivery_id'' 128 (Some (rc_delivery_id q))) (\<lambda>delivery.
     andthen (stored_payload (sv_redact E) (rc_payload q)) (\<lambda>(raw, stored).
     andthen (optional (\<lambda>v. opaque ''receipt'' 64 (Some v)) (rc_receipt q)) (\<lambda>receipt.
       Inr \<lparr>ra_delivery_id = delivery, ra_receipt = receipt,
            ra_reply_message_id = u ''relay-reply-'' @ sv_hash E delivery,
            ra_payload = stored, ra_redacted = (stored \<noteq> raw),
            ra_expires_in_seconds = expires, ra_expiry_supplied = supplied\<rparr>)))))"

definition service_reply ::
  "service_env \<Rightarrow> reply_call \<Rightarrow> pystr \<Rightarrow> time \<Rightarrow> relay_db \<Rightarrow> message_status relay_outcome" where
  "service_reply E q fresh current db =
     checked (check_reply E q) db (\<lambda>a. relay_reply_atomic (sv_hash E) a fresh current db)"

definition service_message_status ::
  "service_env \<Rightarrow> pystr \<Rightarrow> pystr \<Rightarrow> int option \<Rightarrow> int option \<Rightarrow> time \<Rightarrow> relay_db
     \<Rightarrow> message_status relay_outcome" where
  "service_message_status E message_id container_ref offset page_size current db =
     checked (scope E container_ref) db (\<lambda>_.
     checked (require (case offset of None \<Rightarrow> True | Some n \<Rightarrow> 0 \<le> n) (u ''offset must be >= 0'')) db (\<lambda>_.
     checked (require (case page_size of None \<Rightarrow> True | Some n \<Rightarrow> 1 \<le> n \<and> n \<le> int message_max_chars)
       (u ''page_size must be between 1 and '' @ dec (int message_max_chars))) db (\<lambda>_.
     checked (opaque ''message_id'' 128 (Some message_id)) db (\<lambda>k.
       (let paged = (offset \<noteq> None \<or> page_size \<noteq> None)
        in relay_message_status (sv_hash E) k
             (if paged then Some (case offset of None \<Rightarrow> 0 | Some n \<Rightarrow> nat n) else None)
             (if paged then Some (case page_size of None \<Rightarrow> 2000 | Some n \<Rightarrow> nat n) else None)
             current db)))))"

definition service_acknowledge ::
  "service_env \<Rightarrow> pystr \<Rightarrow> pystr \<Rightarrow> pystr \<Rightarrow> time \<Rightarrow> relay_db \<Rightarrow> ack_result relay_outcome" where
  "service_acknowledge E delivery_id claim_token container_ref current db =
     checked (scope E container_ref) db (\<lambda>_.
     checked (opaque ''delivery_id'' 128 (Some delivery_id)) db (\<lambda>d.
     checked (opaque ''claim_token'' 128 (Some claim_token)) db (\<lambda>t. relay_ack d t current db)))"

definition service_ack_by_receipt ::
  "service_env \<Rightarrow> pystr \<Rightarrow> pystr \<Rightarrow> pystr \<Rightarrow> time \<Rightarrow> relay_db \<Rightarrow> ack_result relay_outcome" where
  "service_ack_by_receipt E delivery_id receipt container_ref current db =
     checked (scope E container_ref) db (\<lambda>_.
     checked (opaque ''delivery_id'' 128 (Some delivery_id)) db (\<lambda>d.
     checked (opaque ''receipt'' 64 (Some receipt)) db (\<lambda>r.
       relay_ack_by_receipt (sv_hash E) d r current db)))"

section \<open>Candidates and the trace\<close>

definition service_pending_candidate ::
  "service_env \<Rightarrow> pystr \<Rightarrow> pystr \<Rightarrow> pystr \<Rightarrow> pystr option \<Rightarrow> time \<Rightarrow> relay_db
     \<Rightarrow> (relay_error, pending_candidate option) result" where
  "service_pending_candidate E runtime session_ref container_ref delivery_id current db =
     andthen (scoped_session E runtime session_ref container_ref) (\<lambda>(r, s, c).
     andthen (optional (\<lambda>v. opaque ''delivery_id'' 128 (Some v)) delivery_id) (\<lambda>d.
       Inr (relay_pending_candidate db r s c d current)))"

definition service_reservation_state ::
  "pystr \<Rightarrow> time \<Rightarrow> relay_db \<Rightarrow> (relay_error, reservation_state) result" where
  "service_reservation_state delivery_id current db =
     andthen (opaque ''delivery_id'' 128 (Some delivery_id))
       (\<lambda>d. relay_codex_wake_reservation_state db d current)"

definition service_reconcile_reservation ::
  "pystr \<Rightarrow> (reservation_state \<Rightarrow> bool) \<Rightarrow> time \<Rightarrow> relay_db \<Rightarrow> (relay_error, bool) result" where
  "service_reconcile_reservation delivery_id decision current db =
     andthen (service_reservation_state delivery_id current db) (\<lambda>state. Inr (decision state))"

definition service_wake_candidates ::
  "pystr option \<Rightarrow> bool \<Rightarrow> time \<Rightarrow> relay_db \<Rightarrow> (relay_error, wake_candidate list) result" where
  "service_wake_candidates delivery_id include_coalesced current db =
     andthen (optional (\<lambda>v. opaque ''delivery_id'' 128 (Some v)) delivery_id) (\<lambda>d.
       Inr (relay_wake_candidates db d current True include_coalesced))"

definition service_expired_claim_candidates ::
  "pystr option \<Rightarrow> time \<Rightarrow> relay_db \<Rightarrow> (relay_error, wake_candidate list) result" where
  "service_expired_claim_candidates delivery_id current db =
     andthen (optional (\<lambda>v. opaque ''delivery_id'' 128 (Some v)) delivery_id) (\<lambda>d.
       Inr (relay_expired_claim_candidates db d current))"

text \<open>Recording a diagnostic fact never raises.\<close>

definition service_record_trace_event ::
  "service_env \<Rightarrow> trace_args \<Rightarrow> pystr \<Rightarrow> time \<Rightarrow> relay_db \<Rightarrow> bool \<times> relay_db" where
  "service_record_trace_event E event fresh current db =
     (case relay_record_trace_event (sv_redact E) event fresh current db of
        (Inl _, db1) \<Rightarrow> (False, db1) | (Inr b, db1) \<Rightarrow> (b, db1))"

definition service_trace_message ::
  "pystr \<Rightarrow> int \<Rightarrow> int \<Rightarrow> int option \<Rightarrow> time \<Rightarrow> relay_db \<Rightarrow> (relay_error, trace_report) result" where
  "service_trace_message message_id limit after_sequence as_of_sequence current db =
     andthen (require (1 \<le> limit \<and> limit \<le> 100) (u ''limit must be between 1 and 100'')) (\<lambda>_.
     andthen (require (0 \<le> after_sequence \<and> after_sequence \<le> max_sequence)
       (u ''after_sequence is outside the supported range'')) (\<lambda>_.
     andthen (require (case as_of_sequence of None \<Rightarrow> True
                       | Some n \<Rightarrow> 0 \<le> n \<and> n \<le> max_sequence \<and> after_sequence \<le> n)
       (u ''as_of_sequence is outside the supported range'')) (\<lambda>_.
     andthen (opaque ''message_id'' 128 (Some message_id)) (\<lambda>k.
       relay_trace_message db k (nat limit) after_sequence as_of_sequence current))))"

section \<open>The OpenCode bridge\<close>

definition in_range :: "int \<Rightarrow> int \<Rightarrow> bool" where
  "in_range low n \<longleftrightarrow> low \<le> n \<and> n \<le> 2 ^ 63 - 1"

definition check_opencode :: "service_env \<Rightarrow> opencode_request \<Rightarrow> (relay_error, opencode_request) result" where
  "check_opencode E q =
     andthen (scope E (oq_container_ref q)) (\<lambda>container.
     andthen (opaque ''session_ref'' 255 (Some (oq_session_ref q))) (\<lambda>session_ref.
     andthen (opaque ''native_location'' 4096 (Some (oq_native_location q))) (\<lambda>location.
     andthen (require (is_endpoint_id (oq_endpoint_id q)) (u ''invalid OpenCode endpoint'')) (\<lambda>_.
     andthen (require (hex_suffixed (u ''opencode-owner-'') 32 (oq_owner_id q))
       (u ''invalid OpenCode registration owner'')) (\<lambda>_.
     andthen (require (in_range 0 (oq_scope_generation q)) (u ''invalid scope_generation'')) (\<lambda>_.
     andthen (require (case oq_generation q of None \<Rightarrow> True | Some g \<Rightarrow> in_range 1 g)
       (u ''invalid generation'')) (\<lambda>_.
       Inr (q\<lparr>oq_container_ref := container, oq_session_ref := session_ref,
              oq_native_location := location\<rparr>))))))))"

text \<open>An admission the fence confirms is also recorded as a diagnostic fact, whose failure is
  ignored. The request then carries the whole snapshot, as the HTTP boundary demands; without an
  input identifier the code fails on the missing value after the fence has been written, and a fact
  without a delivery is refused by the trace.\<close>

definition admission_event :: "service_env \<Rightarrow> opencode_request \<Rightarrow> pystr \<Rightarrow> pystr \<Rightarrow> trace_args" where
  "admission_event E q native_input_id delivery_id =
     \<lparr>xa_attempt_id = u ''relay-activation-'' @ take 32 (sv_hash E native_input_id),
      xa_delivery_id = delivery_id, xa_stage = u ''completed'', xa_outcome = Some (u ''accepted''),
      xa_reason = Some (u ''opencode_native_input_observed''),
      xa_evidence = Some [u ''submission_attempted'', u ''transport_accepted''],
      xa_native_retry_safe = Some True, xa_destination_health_update = None,
      xa_scope_generation = Some (oq_scope_generation q)\<rparr>"

definition service_opencode_wake ::
  "service_env \<Rightarrow> opencode_op \<Rightarrow> opencode_request \<Rightarrow> pystr option \<Rightarrow> pystr \<Rightarrow> time \<Rightarrow> time \<Rightarrow> time
     \<Rightarrow> relay_db \<Rightarrow> (session_view \<times> opencode_view option) relay_outcome" where
  "service_opencode_wake E op q terminal_message_id fresh current wall later db =
     checked (check_opencode E q) db (\<lambda>request.
       (case relay_opencode_wake (sv_fmt E) op request terminal_message_id current wall db of
          (Inl e, db1) \<Rightarrow> (Inl e, db1)
        | (Inr result, db1) \<Rightarrow>
            if op \<noteq> Admitted then (Inr result, db1)
            else
              (case snd result of
                 None \<Rightarrow> (Inl AttributeError, db1)
               | Some view \<Rightarrow>
                   if \<not> ov_admitted view then (Inr result, db1)
                   else
                     (case (oq_native_input_id request, oq_delivery_id request) of
                        (None, _) \<Rightarrow> (Inl AttributeError, db1)
                      | (Some input, None) \<Rightarrow> (Inr result, db1)
                      | (Some input, Some delivery) \<Rightarrow>
                          (Inr result, snd (service_record_trace_event E
                             (admission_event E request input delivery) fresh later db1))))))"

definition service_opencode_context ::
  "service_env \<Rightarrow> turn_env \<Rightarrow> opencode_request \<Rightarrow> nat \<Rightarrow> time \<Rightarrow> relay_db \<Rightarrow> turn_response relay_outcome" where
  "service_opencode_context E env q max_chars current db =
     checked (check_opencode E q) db (\<lambda>request.
       relay_opencode_context env request max_chars current db)"

end
