(* ===== verification/Relay_Service_Machine.thy ===== *)
theory Relay_Service_Machine
  imports Relay_Service
begin

text \<open>
  The service as a machine over the same database: the calls that may change it, and the fact that
  each of them is a sequence of at most two transactions of the store, so that whatever the store
  guarantees holds for every client of the service.
\<close>

datatype service_call =
    CallTurn turn_env turn_call time time
  | CallSend send_call pystr pystr time
  | CallReply reply_call pystr time
  | CallStatus pystr pystr "int option" "int option" time
  | CallAcknowledge pystr pystr pystr time
  | CallAckByReceipt pystr pystr pystr time
  | CallClose pystr pystr pystr time
  | CallName pystr pystr pystr "pystr option" bool time
  | CallMarkUnreachable pystr pystr pystr time
  | CallMarkActive pystr pystr pystr time
  | CallAttach pystr pystr pystr pystr pystr time
  | CallDetach pystr pystr pystr pystr pystr time
  | CallAdminister pystr pystr pystr pystr time
  | CallEnrollTrial pystr pystr pystr pystr
  | CallBindTrial pystr pystr pystr time
  | CallSpendTrial pystr pystr pystr time
  | CallOpenCode opencode_op opencode_request "pystr option" pystr time time time
  | CallContext turn_env opencode_request nat time
  | CallTrace trace_args pystr time
  | CallWakeInitialize "codex_reservation list"
  | CallWake wake_op time time

fun service_exec :: "service_env \<Rightarrow> service_call \<Rightarrow> relay_db \<Rightarrow> relay_db" where
  "service_exec E (CallTurn env q c l) db = snd (service_turn E env q c l db)"
| "service_exec E (CallSend q uuid fresh c) db = snd (service_send E q uuid fresh c db)"
| "service_exec E (CallReply q fresh c) db = snd (service_reply E q fresh c db)"
| "service_exec E (CallStatus k ct off n c) db = snd (service_message_status E k ct off n c db)"
| "service_exec E (CallAcknowledge k t ct c) db = snd (service_acknowledge E k t ct c db)"
| "service_exec E (CallAckByReceipt k r ct c) db = snd (service_ack_by_receipt E k r ct c db)"
| "service_exec E (CallClose r s ct c) db = snd (service_close_session E r s ct c db)"
| "service_exec E (CallName r s ct al rep c) db = snd (service_name_session E r s ct al rep c db)"
| "service_exec E (CallMarkUnreachable r s ct c) db = snd (service_mark_unreachable E r s ct c db)"
| "service_exec E (CallMarkActive r s ct c) db = snd (service_mark_active E r s ct c db)"
| "service_exec E (CallAttach r s ct a b c) db = snd (service_attach_work_ref E r s ct a b c db)"
| "service_exec E (CallDetach r s ct a b c) db = snd (service_detach_work_ref E r s ct a b c db)"
| "service_exec E (CallAdminister e act a b c) db = snd (service_administer_work_ref E e act a b c db)"
| "service_exec E (CallEnrollTrial e s ct i) db = snd (service_enroll_trial E e s ct i db)"
| "service_exec E (CallBindTrial e i k c) db = snd (service_bind_trial e i k c db)"
| "service_exec E (CallSpendTrial e i k c) db = snd (service_spend_trial e i k c db)"
| "service_exec E (CallOpenCode op q tm fresh c w l) db = snd (service_opencode_wake E op q tm fresh c w l db)"
| "service_exec E (CallContext env q n c) db = snd (service_opencode_context E env q n c db)"
| "service_exec E (CallTrace a fresh c) db = snd (service_record_trace_event E a fresh c db)"
| "service_exec E (CallWakeInitialize rs) db = snd (relay_codex_wake_initialize rs db)"
| "service_exec E (CallWake op now later) db = snd (relay_codex_wake_transition (sv_printable E) op now later db)"

text \<open>The store as this service uses it.\<close>

definition store_world :: "service_env \<Rightarrow> relay_world" where
  "store_world E =
     \<lparr>rw_hash = sv_hash E, rw_redact = sv_redact E, rw_printable = sv_printable E, rw_fmt = sv_fmt E\<rparr>"

lemma store_world_simps [simp]:
  "rw_hash (store_world E) = sv_hash E" "rw_redact (store_world E) = sv_redact E"
  "rw_printable (store_world E) = sv_printable E" "rw_fmt (store_world E) = sv_fmt E"
  by (simp_all add: store_world_def)

text \<open>A step of the service is some run of the store.\<close>

definition runs_store :: "service_env \<Rightarrow> relay_db \<Rightarrow> relay_db \<Rightarrow> bool" where
  "runs_store E db db' \<longleftrightarrow> (\<exists>ops. length ops \<le> 2 \<and> db' = fold (relay_exec (store_world E)) ops db)"

lemma runs_none [simp]: "runs_store E db db"
  unfolding runs_store_def by (rule exI [of _ "[]"]) simp

lemma runs_one: "db' = relay_exec (store_world E) a db \<Longrightarrow> runs_store E db db'"
  unfolding runs_store_def by (rule exI [of _ "[a]"]) simp

lemma runs_two:
  "db1 = relay_exec (store_world E) a db \<Longrightarrow> db2 = relay_exec (store_world E) b db1 \<Longrightarrow> runs_store E db db2"
  unfolding runs_store_def by (rule exI [of _ "[a, b]"]) simp

lemma runs_checked: "(\<And>x. r = Inr x \<Longrightarrow> runs_store E db (snd (k x))) \<Longrightarrow> runs_store E db (snd (checked r db k))"
  by (cases r) simp_all

lemma record_trace_runs:
  "snd (service_record_trace_event E a fresh c db) = relay_exec (store_world E) (OpTrace a fresh c) db"
  by (simp add: service_record_trace_event_def split: prod.split sum.split)

lemma turn_runs: "runs_store E db (snd (service_turn E env q c l db))"
  unfolding service_turn_def
proof (rule runs_checked)
  fix a
  obtain r db1 where t: "relay_turn env a c db = (r, db1)" by (cases "relay_turn env a c db")
  then have one: "db1 = relay_exec (store_world E) (OpTurn env a c) db" by simp
  have two: "runs_store E db (snd (relay_refresh_structural_work_refs x y z refs l db1))" for x y z refs
    by (rule runs_two [OF one, where b = "OpRefreshWorkRefs x y z refs l"]) simp
  have "runs_store E db db1" by (rule runs_one [OF one])
  moreover have "runs_store E db db2"
    if "relay_refresh_structural_work_refs x y z refs l db1 = (v, db2)" for x y z refs v db2
    using two [of x y z refs] that by simp
  ultimately show "runs_store E db (snd (case relay_turn env a c db of
          (Inl e, db1) \<Rightarrow> (Inl e, db1)
        | (Inr response, db1) \<Rightarrow>
            if tc_structural q = NoRefs then (Inr (response, Unchanged), db1)
            else
              (case structural_input E (tc_structural q) of
                 Inl _ \<Rightarrow> (Inr (response, Unavailable), db1)
               | Inr refs \<Rightarrow>
                   (case relay_refresh_structural_work_refs (ta_runtime a) (ta_session_ref a)
                           (ta_container_ref a) refs l db1 of
                      (Inl _, db2) \<Rightarrow> (Inr (response, Unavailable), db2)
                    | (Inr views, db2) \<Rightarrow> (Inr (response, Complete views), db2)))))"
    by (simp add: t split: sum.split prod.split)
qed

lemma opencode_runs: "runs_store E db (snd (service_opencode_wake E op q tm fresh c w l db))"
  unfolding service_opencode_wake_def
proof (rule runs_checked)
  fix request
  obtain r db1 where t: "relay_opencode_wake (sv_fmt E) op request tm c w db = (r, db1)"
    by (cases "relay_opencode_wake (sv_fmt E) op request tm c w db")
  then have one: "db1 = relay_exec (store_world E) (OpOpenCode op request tm c w) db" by simp
  have "runs_store E db db1" by (rule runs_one [OF one])
  moreover have "runs_store E db (snd (service_record_trace_event E e fresh l db1))" for e
    by (rule runs_two [OF one record_trace_runs])
  ultimately show "runs_store E db (snd (case relay_opencode_wake (sv_fmt E) op request tm c w db of
          (Inl e, db1) \<Rightarrow> (Inl e, db1)
        | (Inr result, db1) \<Rightarrow>
            if op \<noteq> Admitted then (Inr result, db1)
            else
              (case snd result of
                 None \<Rightarrow> (Inl AttributeError, db1)
               | Some view \<Rightarrow>
                   if \<not> ov_admitted view then (Inr result, db1)
                   else
                     (case (oq_native_input_id request, oq_delivery_id request) of
                        (None, _) \<Rightarrow> (Inl AttributeError, db1)
                      | (Some input, None) \<Rightarrow> (Inr result, db1)
                      | (Some input, Some delivery) \<Rightarrow>
                          (Inr result, snd (service_record_trace_event E
                             (admission_event E request input delivery) fresh l db1))))))"
    by (simp add: t split: sum.split prod.split option.split)
qed

lemmas service_wrappers = service_send_def service_reply_def service_message_status_def
  service_acknowledge_def service_ack_by_receipt_def service_close_session_def
  service_name_session_def service_mark_unreachable_def service_mark_active_def
  service_attach_work_ref_def service_detach_work_ref_def service_administer_work_ref_def
  service_enroll_trial_def service_bind_trial_def service_spend_trial_def
  service_opencode_context_def

lemma store_runs:
  "runs_store E db (snd (relay_send (sv_hash E) x1 x2 x3 db))"
  "runs_store E db (snd (relay_reply_atomic (sv_hash E) y1 y2 y3 db))"
  "runs_store E db (snd (relay_message_status (sv_hash E) k off n c db))"
  "runs_store E db (snd (relay_ack k tok c db))"
  "runs_store E db (snd (relay_ack_by_receipt (sv_hash E) k tok c db))"
  "runs_store E db (snd (relay_close_session r s ct c db))"
  "runs_store E db (snd (relay_name_session r s ct al rep c db))"
  "runs_store E db (snd (relay_mark_unreachable r s ct c db))"
  "runs_store E db (snd (relay_mark_active r s ct c db))"
  "runs_store E db (snd (relay_attach_work_ref r s ct w c cl db))"
  "runs_store E db (snd (relay_detach_work_ref r s ct key cl c db))"
  "runs_store E db (snd (relay_codex_trial_enroll e s ct i db))"
  "runs_store E db (snd (relay_codex_trial_bind e i k c db))"
  "runs_store E db (snd (relay_codex_trial_spend e i k c db))"
  "runs_store E db (snd (relay_opencode_context env q m c db))"
  "runs_store E db (snd (relay_codex_wake_initialize rs db))"
  "runs_store E db (snd (relay_codex_wake_transition (sv_printable E) op c l db))"
  by (rule runs_one [where a = "OpSend x1 x2 x3"], simp)
     (rule runs_one [where a = "OpReply y1 y2 y3"], simp,
      rule runs_one [where a = "OpStatus k off n c"], simp,
      rule runs_one [where a = "OpAck k tok c"], simp,
      rule runs_one [where a = "OpAckByReceipt k tok c"], simp,
      rule runs_one [where a = "OpClose r s ct c"], simp,
      rule runs_one [where a = "OpName r s ct al rep c"], simp,
      rule runs_one [where a = "OpMarkUnreachable r s ct c"], simp,
      rule runs_one [where a = "OpMarkActive r s ct c"], simp,
      rule runs_one [where a = "OpAttach r s ct w c cl"], simp,
      rule runs_one [where a = "OpDetach r s ct key cl c"], simp,
      rule runs_one [where a = "OpTrialEnroll e s ct i"], simp,
      rule runs_one [where a = "OpTrialBind e i k c"], simp,
      rule runs_one [where a = "OpTrialSpend e i k c"], simp,
      rule runs_one [where a = "OpContext env q m c"], simp,
      rule runs_one [where a = "OpWakeInitialize rs"], simp,
      rule runs_one [where a = "OpWake op c l"], simp)

lemma service_runs: "runs_store E db (service_exec E call db)"
  by (cases call) (auto simp: service_wrappers turn_runs opencode_runs store_runs Let_def
      runs_one [OF record_trace_runs] intro!: runs_checked)

interpretation service: ordered_machine "service_exec E" db_inv evolves for E
proof unfold_locales
  fix db call
  assume inv: "db_inv db"
  obtain ops where "service_exec E call db = fold (relay_exec (store_world E)) ops db"
    using service_runs [of E db call] by (auto simp: runs_store_def)
  with inv show "db_inv (service_exec E call db)" "evolves db (service_exec E call db)"
    using relay.run_inv relay.run_below by simp_all
qed (auto intro: evolves_trans)

end
