(* ===== verification/Python_Json.thy ===== *)
theory Python_Json
  imports Python_Text
begin

text \<open>
  JSON values as Python holds them after parsing: texts, integers, other numbers by their spelling,
  lists, and objects in insertion order without repeated keys. A JSON column of the database is
  modelled by the value in it, so that \<open>json.dumps\<close> and \<open>json.loads\<close> do not appear.
\<close>

datatype json = JNull | JBool bool | JInt int | JReal pystr | JText pystr | JList "json list"
  | JObject "(pystr \<times> json) list"

type_synonym json_object = "(pystr \<times> json) list"

text \<open>\<open>d.get(k)\<close>, \<open>d[k] = v\<close> and \<open>d.update(e)\<close>.\<close>

definition obj_get :: "pystr \<Rightarrow> json_object \<Rightarrow> json option" where
  "obj_get k d = map_of d k"

definition obj_put :: "pystr \<Rightarrow> json \<Rightarrow> json_object \<Rightarrow> json_object" where
  "obj_put k v d =
     (if obj_get k d = None then d @ [(k, v)]
      else map (\<lambda>(a, b). if a = k then (a, v) else (a, b)) d)"

definition obj_update :: "json_object \<Rightarrow> json_object \<Rightarrow> json_object" where
  "obj_update patch d = fold (\<lambda>(k, v). obj_put k v) patch d"

text \<open>\<open>bool(x)\<close>, where the zeros among the other numbers are told by their spelling.\<close>

fun truthy :: "json \<Rightarrow> bool" where
  "truthy JNull = False"
| "truthy (JBool b) = b"
| "truthy (JInt n) = (n \<noteq> 0)"
| "truthy (JReal t) = (t \<noteq> u ''0.0'' \<and> t \<noteq> u ''-0.0'')"
| "truthy (JText t) = (t \<noteq> [])"
| "truthy (JList xs) = (xs \<noteq> [])"
| "truthy (JObject d) = (d \<noteq> [])"

text \<open>\<open>d.get(k) or None\<close>: the value if it is a true one.\<close>

definition obj_true :: "pystr \<Rightarrow> json_object \<Rightarrow> json option" where
  "obj_true k d = (case obj_get k d of None \<Rightarrow> None | Some v \<Rightarrow> if truthy v then Some v else None)"

lemma obj_get_put [simp]: "obj_get k' (obj_put k v d) = (if k' = k then Some v else obj_get k' d)"
proof -
  have "map_of (map (\<lambda>(a, b). if a = k then (a, v) else (a, b)) d) k' =
      (if k' = k then (if map_of d k = None then None else Some v) else map_of d k')"
    by (induction d) auto
  then show ?thesis by (auto simp: obj_put_def obj_get_def map_add_def split: option.split)
qed

lemma obj_get_update:
  "obj_get k (obj_update patch d) =
     (case map_of (rev patch) k of None \<Rightarrow> obj_get k d | Some v \<Rightarrow> Some v)"
  by (induction patch arbitrary: d)
    (auto simp: obj_update_def map_add_def split: option.split)

lemma obj_true_put: "obj_true k' (obj_put k v d) =
    (if k' = k then (if truthy v then Some v else None) else obj_true k' d)"
  by (simp add: obj_true_def)

end
