(* ===== verification/Codex_Registry.thy ===== *)
theory Codex_Registry
  imports Relay_Service_Machine Python_Json
begin

text \<open>
  \<open>CodexWakeRegistry\<close> of \<open>core/codex_wake.py\<close>: the guard in front of native Codex wakes. Without a
  Relay service it is an ephemeral table of reservations; with one it reads the durable authority
  before every decision and asks the store to change it by compare-and-set. One definition per
  method, with both branches; a method takes the registry and the database and returns what it
  answers and both, changed. The lock of the registry makes each method atomic.
\<close>

section \<open>The state\<close>

text \<open>\<open>wg_items\<close> is the dictionary in insertion order, keyed by endpoint; \<open>wg_relay\<close> and \<open>wg_file\<close>
  tell whether a Relay service and the path of a legacy file were given.\<close>

record wake_registry =
  wg_items :: "codex_reservation list"
  wg_generation :: int
  wg_usable :: bool
  wg_initialized :: "bool option"
  wg_relay :: bool
  wg_file :: bool

abbreviation get_item :: "wake_registry \<Rightarrow> pystr \<Rightarrow> codex_reservation option" where
  "get_item g e \<equiv> row_get r_recipient_endpoint_id e (wg_items g)"

text \<open>\<open>{**items, item.recipient_endpoint_id: item}\<close>.\<close>

definition put_item :: "codex_reservation \<Rightarrow> codex_reservation list \<Rightarrow> codex_reservation list" where
  "put_item item items =
     (case row_get r_recipient_endpoint_id (r_recipient_endpoint_id item) items of
        None \<Rightarrow> items @ [item]
      | Some _ \<Rightarrow> row_upd r_recipient_endpoint_id (r_recipient_endpoint_id item) (\<lambda>_. item) items)"

definition by_endpoint :: "codex_reservation list \<Rightarrow> codex_reservation list" where
  "by_endpoint items = fold put_item items []"

text \<open>\<open>_write_locked\<close>: only an ephemeral registry may change its own table.\<close>

definition writable :: "wake_registry \<Rightarrow> bool" where
  "writable g \<longleftrightarrow> \<not> wg_file g \<and> \<not> wg_relay g"

text \<open>The common ending of the ephemeral branches: the new table, or an unusable registry.\<close>

definition written :: "codex_reservation list \<Rightarrow> 'a \<Rightarrow> 'a \<Rightarrow> wake_registry \<Rightarrow> 'a \<times> wake_registry" where
  "written items done failed g =
     (if writable g then (done, g\<lparr>wg_items := items\<rparr>) else (failed, g\<lparr>wg_usable := False\<rparr>))"

section \<open>Reading the authority\<close>

definition validated_snapshot ::
  "(pystr \<Rightarrow> bool) \<Rightarrow> relay_db \<Rightarrow> (bool \<times> codex_reservation list) option" where
  "validated_snapshot printable db =
     (case relay_codex_wake_snapshot printable db of
        Inl _ \<Rightarrow> None
      | Inr (initialized, items) \<Rightarrow>
          if length items > max_reservations \<or> list_ex (\<lambda>i. \<not> valid_item printable i) items then None
          else Some (initialized, items))"

definition observe_authority :: "(pystr \<Rightarrow> bool) \<Rightarrow> relay_db \<Rightarrow> codex_reservation list" where
  "observe_authority printable db =
     (case validated_snapshot printable db of
        Some (True, items) \<Rightarrow> by_endpoint items
      | _ \<Rightarrow> [])"

definition refresh :: "(pystr \<Rightarrow> bool) \<Rightarrow> relay_db \<Rightarrow> wake_registry \<Rightarrow> wake_registry" where
  "refresh printable db g =
     (if \<not> wg_relay g then g
      else
        (case validated_snapshot printable db of
           Some (initialized, items) \<Rightarrow>
             g\<lparr>wg_usable := initialized, wg_initialized := Some initialized,
               wg_items := by_endpoint items\<rparr>
         | None \<Rightarrow> g\<lparr>wg_usable := False, wg_initialized := None, wg_items := []\<rparr>))"

text \<open>The constructor: \<open>state_dir\<close> is the old file-only construction, which stays unusable.\<close>

definition new_registry ::
  "(pystr \<Rightarrow> bool) \<Rightarrow> bool \<Rightarrow> bool \<Rightarrow> bool \<Rightarrow> bool \<Rightarrow> relay_db \<Rightarrow> wake_registry" where
  "new_registry printable state_dir relay legacy_dir enabled db =
     (let g = \<lparr>wg_items = [], wg_generation = 0, wg_usable = (enabled \<and> \<not> state_dir),
               wg_initialized = None, wg_relay = relay,
               wg_file = (if relay then legacy_dir else state_dir)\<rparr>
      in if relay then refresh printable db g
         else if state_dir then g\<lparr>wg_usable := False\<rparr> else g)"

text \<open>\<open>_transition\<close>: any exception of the store is an answer of nothing.\<close>

definition transition ::
  "(pystr \<Rightarrow> bool) \<Rightarrow> wake_op \<Rightarrow> time \<Rightarrow> time \<Rightarrow> relay_db \<Rightarrow> wake_result \<times> relay_db" where
  "transition printable op now later db =
     (case relay_codex_wake_transition printable op now later db of
        (Inl _, db1) \<Rightarrow> (WNone, db1) | (Inr r, db1) \<Rightarrow> (r, db1))"

definition item_of :: "wake_result \<Rightarrow> codex_reservation option" where
  "item_of r = (case r of WItem i \<Rightarrow> Some i | _ \<Rightarrow> None)"

section \<open>The legacy file\<close>

text \<open>What opening and parsing the file gives.\<close>

datatype legacy_file = FileMissing | FileUnreadable | FileJson json

definition legacy_fields :: "int \<Rightarrow> pystr set" where
  "legacy_fields version =
     {u ''recipient_endpoint_id'', u ''delivery_id'', u ''session_ref'', u ''container_ref'',
      u ''generation'', u ''outcome''}
     \<union> (if version = 1 then {} else {u ''correlated_claim_attempts''})"

definition legacy_outcome :: "json \<Rightarrow> wake_outcome option" where
  "legacy_outcome j =
     (if j = JText (u ''reserved'') then Some Reserved
      else if j = JText (u ''accepted'') then Some Accepted
      else if j = JText (u ''uncertain'') then Some Uncertain
      else None)"

definition legacy_attempts :: "json option \<Rightarrow> int option option" where
  "legacy_attempts j =
     (case j of
        None \<Rightarrow> Some None
      | Some JNull \<Rightarrow> Some None
      | Some (JInt n) \<Rightarrow> if 1 \<le> n \<and> n < 2 ^ 63 then Some (Some n) else None
      | _ \<Rightarrow> None)"

text \<open>One entry of the file: exactly the fields of its version, each of its type.\<close>

definition legacy_item :: "(pystr \<Rightarrow> bool) \<Rightarrow> int \<Rightarrow> json \<Rightarrow> codex_reservation option" where
  "legacy_item printable version value =
     (case value of
        JObject obj \<Rightarrow>
          if fst ` set obj \<noteq> legacy_fields version then None
          else
            (case (map_of obj (u ''recipient_endpoint_id''), map_of obj (u ''delivery_id''),
                   map_of obj (u ''session_ref''), map_of obj (u ''container_ref''),
                   map_of obj (u ''generation''), map_of obj (u ''outcome'')) of
               (Some (JText e), Some (JText d), Some (JText s), Some (JText c), Some (JInt g), Some oc) \<Rightarrow>
                 (case (legacy_outcome oc,
                        legacy_attempts (map_of obj (u ''correlated_claim_attempts''))) of
                    (Some outcome, Some attempts) \<Rightarrow>
                      let item = \<lparr>r_recipient_endpoint_id = e, r_delivery_id = d, r_session_ref = s,
                                  r_container_ref = c, r_generation = g, r_outcome = outcome,
                                  r_correlated_claim_attempts = attempts, r_retry_not_before = None\<rparr>
                      in if valid_item printable item then Some item else None
                  | _ \<Rightarrow> None)
             | _ \<Rightarrow> None)
      | _ \<Rightarrow> None)"

text \<open>The loop over the entries: an entry that is not valid or repeats an endpoint or a delivery
  fails the load, but the generations seen so far have raised the counter.\<close>

fun load_items ::
  "(pystr \<Rightarrow> bool) \<Rightarrow> int \<Rightarrow> codex_reservation list \<Rightarrow> int \<Rightarrow> json list
     \<Rightarrow> codex_reservation list option \<times> int" where
  "load_items printable version loaded generation [] = (Some loaded, generation)"
| "load_items printable version loaded generation (value # items) =
     (case legacy_item printable version value of
        None \<Rightarrow> (None, generation)
      | Some item \<Rightarrow>
          if r_recipient_endpoint_id item \<in> r_recipient_endpoint_id ` set loaded
             \<or> r_delivery_id item \<in> r_delivery_id ` set loaded
          then (None, generation)
          else load_items printable version (loaded @ [item]) (max generation (r_generation item)) items)"

definition load_json ::
  "(pystr \<Rightarrow> bool) \<Rightarrow> json \<Rightarrow> int \<Rightarrow> codex_reservation list option \<times> int" where
  "load_json printable raw generation =
     (case raw of
        JObject obj \<Rightarrow>
          (case (map_of obj (u ''version''), map_of obj (u ''reservations'')) of
             (Some (JInt version), Some (JList items)) \<Rightarrow>
               if version \<notin> {1, 2} \<or> length items > max_reservations then (None, generation)
               else load_items printable version [] generation items
           | _ \<Rightarrow> (None, generation))
      | _ \<Rightarrow> (None, generation))"

definition load :: "(pystr \<Rightarrow> bool) \<Rightarrow> legacy_file \<Rightarrow> wake_registry \<Rightarrow> wake_registry" where
  "load printable file g =
     (case file of
        FileMissing \<Rightarrow> g
      | FileUnreadable \<Rightarrow> g\<lparr>wg_usable := False, wg_items := []\<rparr>
      | FileJson raw \<Rightarrow>
          (case load_json printable raw (wg_generation g) of
             (Some items, n) \<Rightarrow> g\<lparr>wg_items := items, wg_generation := n\<rparr>
           | (None, n) \<Rightarrow> g\<lparr>wg_usable := False, wg_items := [], wg_generation := n\<rparr>))"

definition registry_initialize ::
  "(pystr \<Rightarrow> bool) \<Rightarrow> legacy_file \<Rightarrow> bool \<Rightarrow> wake_registry \<Rightarrow> relay_db \<Rightarrow> bool \<times> wake_registry \<times> relay_db" where
  "registry_initialize printable file old_owner_drained g db =
     (let g1 = refresh printable db g
      in if wg_usable g1 then (True, g1, db)
         else if \<not> wg_relay g1 \<or> \<not> old_owner_drained \<or> wg_initialized g1 \<noteq> Some False
         then (False, g1, db)
         else
           let g2 = g1\<lparr>wg_items := [], wg_usable := True\<rparr>;
               g3 = (if wg_file g2 then load printable file g2 else g2)
           in if \<not> wg_usable g3 then (False, g3, db)
              else
                let db1 = snd (relay_codex_wake_initialize (wg_items g3) db);
                    g4 = refresh printable db1 g3
                in (wg_usable g4, g4, db1))"

section \<open>Reserving\<close>

text \<open>\<open>still_pending\<close> is the answer of the optional callback, \<open>Some False\<close> when it raises.\<close>

definition registry_reserve ::
  "(pystr \<Rightarrow> bool) \<Rightarrow> pystr \<Rightarrow> pystr \<Rightarrow> pystr \<Rightarrow> pystr \<Rightarrow> bool option \<Rightarrow> time \<Rightarrow> wake_registry \<Rightarrow> relay_db
     \<Rightarrow> codex_reservation option \<times> wake_registry \<times> relay_db" where
  "registry_reserve printable endpoint_id delivery_id session_ref container_ref still_pending now g db =
     (if \<not> valid_fields printable endpoint_id delivery_id session_ref container_ref then (None, g, db)
      else if wg_relay g then
        (case transition printable (WReserve endpoint_id delivery_id session_ref container_ref) now now db of
           (r, db1) \<Rightarrow> (item_of r, g, db1))
      else if \<not> wg_usable g \<or> get_item g endpoint_id \<noteq> None
         \<or> list_ex (\<lambda>i. r_delivery_id i = delivery_id) (wg_items g)
         \<or> length (wg_items g) \<ge> max_reservations
         \<or> still_pending = Some False
      then (None, g, db)
      else
        let n = wg_generation g + 1;
            item = \<lparr>r_recipient_endpoint_id = endpoint_id, r_delivery_id = delivery_id,
                    r_session_ref = session_ref, r_container_ref = container_ref, r_generation = n,
                    r_outcome = Prepared, r_correlated_claim_attempts = None,
                    r_retry_not_before = None\<rparr>;
            (answer, g1) = written (put_item item (wg_items g)) (Some item) None
                             (g\<lparr>wg_generation := n\<rparr>)
        in (answer, g1, db))"

section \<open>The native attempt\<close>

text \<open>\<open>run_if_current\<close>: whether the native operation runs.\<close>

definition may_run :: "(pystr \<Rightarrow> bool) \<Rightarrow> codex_reservation \<Rightarrow> time \<Rightarrow> wake_registry \<Rightarrow> relay_db \<Rightarrow> bool" where
  "may_run printable reservation now g db \<longleftrightarrow>
     wg_usable g \<and> get_item g (r_recipient_endpoint_id reservation) = Some reservation
     \<and> (\<not> wg_relay g
        \<or> (case service_reservation_state (r_delivery_id reservation) now db of
             Inl _ \<Rightarrow> False
           | Inr state \<Rightarrow>
               rs_delivery_id state = r_delivery_id reservation
               \<and> rs_recipient_endpoint_id state = Some (r_recipient_endpoint_id reservation)
               \<and> rs_state state \<in> {Pending, Claimed} \<and> rs_stored_state state \<in> {Pending, Claimed}
               \<and> \<not> own_claim state reservation))"

definition registry_run_if_current ::
  "(pystr \<Rightarrow> bool) \<Rightarrow> codex_reservation \<Rightarrow> time \<Rightarrow> wake_registry \<Rightarrow> relay_db \<Rightarrow> bool \<times> wake_registry \<times> relay_db" where
  "registry_run_if_current printable reservation now g db =
     (let g1 = refresh printable db g in (may_run printable reservation now g1 db, g1, db))"

definition registry_begin ::
  "(pystr \<Rightarrow> bool) \<Rightarrow> codex_reservation \<Rightarrow> time \<Rightarrow> time \<Rightarrow> wake_registry \<Rightarrow> relay_db
     \<Rightarrow> codex_reservation option \<times> wake_registry \<times> relay_db" where
  "registry_begin printable reservation now later g db =
     (let g1 = refresh printable db g
      in if \<not> wg_usable g1 \<or> r_outcome reservation \<noteq> Prepared
            \<or> r_correlated_claim_attempts reservation \<noteq> None
            \<or> get_item g1 (r_recipient_endpoint_id reservation) \<noteq> Some reservation
         then (None, g1, db)
         else if wg_relay g1 then
           (case transition printable (WBegin reservation) now later db of
              (r, db1) \<Rightarrow> (item_of r, g1, db1))
         else
           let item = reservation\<lparr>r_outcome := Uncertain,
                        r_retry_not_before := Some (later + wake_retry_cooldown)\<rparr>;
               (answer, g2) = written (put_item item (wg_items g1)) (Some item) None g1
           in (answer, g2, db))"

text \<open>The fields that identify the fence, without its outcome.\<close>

definition same_fence :: "codex_reservation \<Rightarrow> codex_reservation \<Rightarrow> bool" where
  "same_fence current reservation \<longleftrightarrow>
     r_delivery_id current = r_delivery_id reservation
     \<and> r_generation current = r_generation reservation
     \<and> r_session_ref current = r_session_ref reservation
     \<and> r_container_ref current = r_container_ref reservation"

definition registry_record_outcome ::
  "(pystr \<Rightarrow> bool) \<Rightarrow> codex_reservation \<Rightarrow> wake_outcome \<Rightarrow> time \<Rightarrow> wake_registry \<Rightarrow> relay_db
     \<Rightarrow> bool \<times> wake_registry \<times> relay_db" where
  "registry_record_outcome printable reservation outcome now g db =
     (if outcome \<notin> {Accepted, Uncertain} then (False, g, db)
      else
        let g1 = refresh printable db g
        in (case get_item g1 (r_recipient_endpoint_id reservation) of
              None \<Rightarrow> (False, g1, db)
            | Some current \<Rightarrow>
                if \<not> same_fence current reservation then (False, g1, db)
                else if outcome = Accepted
                   \<and> (r_outcome current \<noteq> Uncertain \<or> r_outcome reservation \<noteq> Uncertain)
                then (False, g1, db)
                else if outcome \<noteq> Accepted \<and> current \<noteq> reservation then (False, g1, db)
                else if wg_relay g1 then
                  (case transition printable (WOutcome current outcome) now now db of
                     (r, db1) \<Rightarrow> (r \<noteq> WNone, g1, db1))
                else
                  let (answer, g2) = written (put_item (current\<lparr>r_outcome := outcome\<rparr>) (wg_items g1))
                                       True False g1
                  in (answer, g2, db)))"

definition registry_correlate ::
  "(pystr \<Rightarrow> bool) \<Rightarrow> pystr \<Rightarrow> pystr \<Rightarrow> pystr \<Rightarrow> pystr \<Rightarrow> int \<Rightarrow> int \<Rightarrow> time \<Rightarrow> wake_registry \<Rightarrow> relay_db
     \<Rightarrow> bool \<times> wake_registry \<times> relay_db" where
  "registry_correlate printable endpoint_id delivery_id session_ref container_ref attempts
       expected_generation now g db =
     (if \<not> valid_fields printable endpoint_id delivery_id session_ref container_ref
         \<or> attempts < 1 \<or> expected_generation < 1
      then (False, g, db)
      else if wg_relay g then
        (if attempts \<ge> 2 ^ 63 \<or> expected_generation \<ge> 2 ^ 63 then (False, g, db)
         else
           (case transition printable
                  (WCorrelate endpoint_id delivery_id session_ref container_ref expected_generation attempts)
                  now now db of
              (r, db1) \<Rightarrow> (r \<noteq> WNone, g, db1)))
      else
        (case get_item g endpoint_id of
           None \<Rightarrow> (False, g, db)
         | Some current \<Rightarrow>
             if r_delivery_id current \<noteq> delivery_id \<or> r_session_ref current \<noteq> session_ref
                \<or> r_container_ref current \<noteq> container_ref
                \<or> r_generation current \<noteq> expected_generation
                \<or> r_correlated_claim_attempts current \<notin> {None, Some attempts}
             then (False, g, db)
             else
               let (answer, g1) = written
                     (put_item (current\<lparr>r_correlated_claim_attempts := Some attempts\<rparr>) (wg_items g))
                     True False g
               in (answer, g1, db)))"

section \<open>Renewing\<close>

definition registry_replace ::
  "(pystr \<Rightarrow> bool) \<Rightarrow> codex_reservation \<Rightarrow> pystr \<Rightarrow> pystr \<Rightarrow> time \<Rightarrow> wake_registry \<Rightarrow> relay_db
     \<Rightarrow> codex_reservation option \<times> wake_registry \<times> relay_db" where
  "registry_replace printable reservation session_ref container_ref now g db =
     (if \<not> valid_fields printable (r_recipient_endpoint_id reservation) (r_delivery_id reservation)
            session_ref container_ref
      then (None, g, db)
      else
        let g1 = refresh printable db g
        in if get_item g1 (r_recipient_endpoint_id reservation) \<noteq> Some reservation then (None, g1, db)
           else if wg_relay g1 then
             (case transition printable (WReplace reservation session_ref container_ref) now now db of
                (r, db1) \<Rightarrow> (item_of r, g1, db1))
           else
             let n = wg_generation g1 + 1;
                 item = reservation\<lparr>r_session_ref := session_ref, r_container_ref := container_ref,
                          r_generation := n, r_outcome := Prepared,
                          r_correlated_claim_attempts := None, r_retry_not_before := None\<rparr>;
                 (answer, g2) = written (put_item item (wg_items g1)) (Some item) None
                                  (g1\<lparr>wg_generation := n\<rparr>)
             in (answer, g2, db))"

definition registry_rearm ::
  "(pystr \<Rightarrow> bool) \<Rightarrow> codex_reservation \<Rightarrow> pystr \<Rightarrow> pystr \<Rightarrow> time \<Rightarrow> wake_registry \<Rightarrow> relay_db
     \<Rightarrow> codex_reservation option \<times> wake_registry \<times> relay_db" where
  "registry_rearm printable reservation session_ref container_ref now g db =
     (if \<not> valid_fields printable (r_recipient_endpoint_id reservation) (r_delivery_id reservation)
            session_ref container_ref
      then (None, g, db)
      else
        let g1 = refresh printable db g
        in if get_item g1 (r_recipient_endpoint_id reservation) \<noteq> Some reservation \<or> \<not> wg_relay g1
           then (None, g1, db)
           else
             (case transition printable (WRetry reservation (codex_target session_ref container_ref))
                     now now db of
                (r, db1) \<Rightarrow> (item_of r, g1, db1)))"

definition registry_retry_target ::
  "(pystr \<Rightarrow> bool) \<Rightarrow> codex_reservation \<Rightarrow> time \<Rightarrow> wake_registry \<Rightarrow> relay_db
     \<Rightarrow> wake_target option \<times> wake_registry \<times> relay_db" where
  "registry_retry_target printable reservation now g db =
     (let g1 = refresh printable db g
      in if get_item g1 (r_recipient_endpoint_id reservation) \<noteq> Some reservation \<or> \<not> wg_relay g1
         then (None, g1, db)
         else
           (case transition printable (WRetryTarget reservation) now now db of
              (r, db1) \<Rightarrow> (case r of WTarget t \<Rightarrow> Some t | _ \<Rightarrow> None, g1, db1)))"

definition registry_reconcile ::
  "(pystr \<Rightarrow> bool) \<Rightarrow> codex_reservation \<Rightarrow> time \<Rightarrow> wake_registry \<Rightarrow> relay_db
     \<Rightarrow> wake_result \<times> wake_registry \<times> relay_db" where
  "registry_reconcile printable reservation now g db =
     (if \<not> wg_relay g then (WNone, g, db)
      else case transition printable (WReconcile reservation) now now db of
        (r, db1) \<Rightarrow> (r, g, db1))"

section \<open>Releasing\<close>

text \<open>\<open>matches\<close>: the reservations that are still current, once per endpoint.\<close>

definition registry_release ::
  "(pystr \<Rightarrow> bool) \<Rightarrow> codex_reservation list \<Rightarrow> time \<Rightarrow> wake_registry \<Rightarrow> relay_db
     \<Rightarrow> codex_reservation list \<times> wake_registry \<times> relay_db" where
  "registry_release printable reservations now g db =
     (if wg_relay g then
        (case transition printable (WRelease reservations) now now db of
           (r, db1) \<Rightarrow> (case r of WItems rs \<Rightarrow> rs | _ \<Rightarrow> [], g, db1))
      else
        let matches = by_endpoint
              (filter (\<lambda>r. get_item g (r_recipient_endpoint_id r) = Some r) reservations)
        in if matches = [] then ([], g, db)
           else
             let (answer, g1) = written
                   (filter (\<lambda>i. r_recipient_endpoint_id i \<notin> r_recipient_endpoint_id ` set matches)
                      (wg_items g)) matches [] g
             in (answer, g1, db))"

definition registry_release_generation ::
  "(pystr \<Rightarrow> bool) \<Rightarrow> codex_reservation \<Rightarrow> time \<Rightarrow> wake_registry \<Rightarrow> relay_db \<Rightarrow> bool \<times> wake_registry \<times> relay_db" where
  "registry_release_generation printable reservation now g db =
     (case registry_release printable [reservation] now g db of
        (removed, g1, db1) \<Rightarrow> (removed \<noteq> [], g1, db1))"

definition remove_locked :: "pystr \<Rightarrow> wake_registry \<Rightarrow> bool \<times> wake_registry" where
  "remove_locked endpoint_id g =
     written (row_del r_recipient_endpoint_id endpoint_id (wg_items g)) True False g"

definition registry_release_delivery ::
  "(pystr \<Rightarrow> bool) \<Rightarrow> pystr \<Rightarrow> time \<Rightarrow> wake_registry \<Rightarrow> relay_db
     \<Rightarrow> codex_reservation option \<times> wake_registry \<times> relay_db" where
  "registry_release_delivery printable delivery_id now g db =
     (if wg_relay g then
        (case transition printable (WReleaseDelivery delivery_id) now now db of
           (r, db1) \<Rightarrow> (item_of r, g, db1))
      else
        (case find (\<lambda>i. r_delivery_id i = delivery_id) (wg_items g) of
           None \<Rightarrow> (None, g, db)
         | Some match \<Rightarrow>
             (case remove_locked (r_recipient_endpoint_id match) g of
                (True, g1) \<Rightarrow> (Some match, g1, db) | (False, g1) \<Rightarrow> (None, g1, db))))"

section \<open>Reading\<close>

definition registry_usable ::
  "(pystr \<Rightarrow> bool) \<Rightarrow> relay_db \<Rightarrow> wake_registry \<Rightarrow> bool \<times> wake_registry" where
  "registry_usable printable db g = (let g1 = refresh printable db g in (wg_usable g1, g1))"

definition registry_reserved ::
  "(pystr \<Rightarrow> bool) \<Rightarrow> pystr \<Rightarrow> relay_db \<Rightarrow> wake_registry \<Rightarrow> bool \<times> wake_registry" where
  "registry_reserved printable endpoint_id db g =
     (let g1 = refresh printable db g in (get_item g1 endpoint_id \<noteq> None \<or> \<not> wg_usable g1, g1))"

definition registry_snapshot ::
  "(pystr \<Rightarrow> bool) \<Rightarrow> pystr \<Rightarrow> relay_db \<Rightarrow> wake_registry \<Rightarrow> codex_reservation option \<times> wake_registry" where
  "registry_snapshot printable endpoint_id db g =
     (let g1 = refresh printable db g in (get_item g1 endpoint_id, g1))"

definition registry_snapshot_if_usable ::
  "(pystr \<Rightarrow> bool) \<Rightarrow> pystr \<Rightarrow> relay_db \<Rightarrow> wake_registry \<Rightarrow> codex_reservation option" where
  "registry_snapshot_if_usable printable endpoint_id db g =
     (if wg_relay g
      then find (\<lambda>i. r_recipient_endpoint_id i = endpoint_id) (observe_authority printable db)
      else if wg_usable g then get_item g endpoint_id else None)"

definition registry_reservations ::
  "(pystr \<Rightarrow> bool) \<Rightarrow> relay_db \<Rightarrow> wake_registry \<Rightarrow> codex_reservation list \<times> wake_registry" where
  "registry_reservations printable db g = (let g1 = refresh printable db g in (wg_items g1, g1))"

definition registry_reservations_if_usable ::
  "(pystr \<Rightarrow> bool) \<Rightarrow> relay_db \<Rightarrow> wake_registry \<Rightarrow> codex_reservation list" where
  "registry_reservations_if_usable printable db g =
     (if wg_relay g then observe_authority printable db
      else if wg_usable g then wg_items g else [])"

end
