(* ===== verification/Relay_Frames.thy ===== *)
theory Relay_Frames
  imports Relay_Machine
begin

text \<open>
  What the transactions of the store leave alone: only the wake transitions and the initialisation
  touch the reservations, and so the wake fence can be reasoned about apart from the mail.
\<close>

definition same_fences :: "relay_db \<Rightarrow> relay_db \<Rightarrow> bool" where
  "same_fences db db' \<longleftrightarrow>
     db_reservations db' = db_reservations db \<and> db_wake_marker db' = db_wake_marker db"

named_theorems frames \<open>an operation leaves the wake fences alone\<close>

lemma same_fences_refl [simp]: "same_fences db db"
  by (simp add: same_fences_def)

lemma same_fences_trans: "same_fences a b \<Longrightarrow> same_fences b c \<Longrightarrow> same_fences a c"
  by (simp add: same_fences_def)

lemma same_fences_rows [simp]:
  "same_fences db (upd_delivery k f db)" "same_fences db (upd_session k g db)"
  "same_fences db (upd_opencode k h db)" "same_fences db (expire_sweep c db)"
  "same_fences db (upd_trial k i db)" "same_fences db (expire_message_deliveries m db)"
  by (simp_all add: same_fences_def upd_delivery_def upd_session_def upd_opencode_def
      expire_sweep_def upd_trial_def expire_message_deliveries_def)

lemma fences_status [frames]: "same_fences db (snd (relay_status_in_session H m c off n db))"
  by (auto simp: relay_status_in_session_def Let_def split: option.split sum.split)

lemma fences_message_status [frames]: "same_fences db (snd (relay_message_status H k off n c db))"
  by (auto simp: relay_message_status_def fences_status split: option.split)

lemma fences_insert: "insert_message m d db = (r, db1) \<Longrightarrow> same_fences db db1"
  by (auto simp: insert_message_def same_fences_def split: if_splits)

lemma fences_send [frames]: "same_fences db (snd (relay_send H a fresh c db))"
  by (auto simp: relay_send_def Let_def fences_status split: option.split sum.split prod.split
      intro: fences_insert same_fences_trans [OF fences_insert fences_status])

lemma fences_create_reply: "same_fences db (snd (create_reply H a d m s fresh c db))"
  by (auto simp: create_reply_def Let_def split: option.split sum.split prod.split
      intro: fences_insert same_fences_trans [OF fences_insert fences_status]
        same_fences_trans [OF fences_insert same_fences_trans [OF same_fences_rows(1) fences_status]])

lemma fences_reply [frames]: "same_fences db (snd (relay_reply_atomic H a fresh c db))"
  by (auto simp: relay_reply_atomic_def fences_create_reply fences_status
      split: option.split sum.split prod.split)

lemma fences_ack [frames]: "same_fences db (snd (relay_ack k tok c db))"
  by (auto simp: relay_ack_def split: option.split prod.split)

lemma fences_ack_by_receipt [frames]: "same_fences db (snd (relay_ack_by_receipt H k r c db))"
  by (auto simp: relay_ack_by_receipt_def split: option.split prod.split sum.split)

lemma fences_marks [frames]:
  "same_fences db (snd (relay_mark_unreachable r s ct c db))" "same_fences db (snd (relay_mark_active r s ct c db))"
  by (auto simp: relay_mark_unreachable_def relay_mark_active_def split: option.split)

lemma fences_close [frames]: "same_fences db (snd (relay_close_session r s ct c db))"
  by (auto simp: relay_close_session_def Let_def same_fences_def upd_session_def upd_opencode_def
      split: option.split)

lemma fences_name [frames]: "same_fences db (snd (relay_name_session r s ct al rep c db))"
  by (auto simp: relay_name_session_def Let_def same_fences_def upd_session_def
      split: option.split)

lemma fences_work_refs [frames]:
  "same_fences db (snd (relay_refresh_structural_work_refs r s ct ws c db))"
  "same_fences db (snd (relay_attach_work_ref r s ct w c al db))"
  "same_fences db (snd (relay_detach_work_ref r s ct k al c db))"
  by (auto simp: work_ref_opdefs Let_def same_fences_def split: option.split)

lemma fences_opencode [frames]: "same_fences db (snd (relay_opencode_wake fmt op q tm c wl db))"
  by (auto simp: relay_opencode_wake_def Let_def same_fences_def split: sum.split prod.split)

lemma fences_trials [frames]:
  "same_fences db (snd (relay_codex_trial_enroll e s ct i db))"
  "same_fences db (snd (relay_codex_trial_bind e i k c db))"
  "same_fences db (snd (relay_codex_trial_spend e i k c db))"
  by (auto simp: relay_codex_trial_enroll_def relay_codex_trial_bind_def relay_codex_trial_spend_def
      Let_def same_fences_def upd_trial_def upd_session_def split: option.split)

lemma fences_guard: "opencode_guard env a c db = (r, db1) \<Longrightarrow> same_fences db db1"
  by (auto simp: opencode_guard_def Let_def same_fences_def upd_opencode_def upd_session_def upd_delivery_def
      split: option.splits sum.splits prod.splits if_splits)

lemma fences_transition: "scope_transition a db = (r, db1) \<Longrightarrow> same_fences db db1"
  by (auto simp: scope_transition_def Let_def same_fences_def
      split: option.splits if_splits)

lemma fences_register: "register_session env a c s db = (r, db1) \<Longrightarrow> same_fences db db1"
  by (auto simp: register_session_def Let_def same_fences_def split: option.splits if_splits)

lemma fences_claims: "same_fences db (fold (claim_one a c r) sel db)"
  by (induction sel arbitrary: db) (auto simp: claim_one_def intro: same_fences_trans [OF same_fences_rows(1)])

lemma fences_claim_all: "same_fences db (claim_all env a c r w sel db)"
  using fences_claims [of db a c r sel] same_fences_trans [OF fences_claims same_fences_rows(3)]
  by (auto simp: claim_all_def Let_def split: option.split)

lemma fences_turn_deliveries: "same_fences db (snd (turn_deliveries env a c s g w db))"
  using same_fences_trans [OF same_fences_rows(4) fences_claim_all]
  by (auto simp: turn_deliveries_def Let_def)

lemma fences_turn_body: "same_fences db (snd (turn_body env a c db))"
proof -
  have three: "same_fences db db3" if "opencode_guard env a c db = (x, db1)"
      "scope_transition a db1 = (y, db2)" "register_session env a c r db2 = (z, db3)"
    for x y z r db1 db2 db3
    using that by (blast intro: same_fences_trans fences_guard fences_transition fences_register)
  show ?thesis
    by (auto simp: turn_body_def split: prod.split sum.split intro: fences_guard three
        same_fences_trans [OF three fences_turn_deliveries])
qed

lemma fences_turn [frames]: "same_fences db (snd (relay_turn env a c db))"
  using fences_turn_body [of db env a c]
  by (auto simp: relay_turn_def split: prod.split sum.split)

lemma fences_context [frames]: "same_fences db (snd (relay_opencode_context env q n c db))"
  by (simp add: relay_opencode_context_def fences_turn)

lemma fences_trace_record: "same_fences db (snd (relay_trace_record redact a fresh c db))"
  by (auto simp: relay_trace_record_def Let_def same_fences_def upd_delivery_def split: option.split prod.split)

lemma fences_record_trace_event [frames]: "same_fences db (snd (relay_record_trace_event redact a fresh c db))"
  using fences_trace_record [of db redact a fresh c]
  by (auto simp: relay_record_trace_event_def split: prod.split sum.split relay_error.split trace_result.split)

fun wake_operation :: "relay_op \<Rightarrow> bool" where
  "wake_operation (OpWake op now later) = True"
| "wake_operation (OpWakeInitialize rs) = True"
| "wake_operation _ = False"

lemma exec_same_fences: "\<not> wake_operation op \<Longrightarrow> same_fences db (relay_exec W op db)"
  by (cases op) (simp_all add: frames)

end
