(* ===== verification/Codex_Fence.thy ===== *)
theory Codex_Fence
  imports Relay_Frames
begin

text \<open>
  The durable wake fence as a store of one-shot tokens. A token is an endpoint with a generation;
  it is issued once the counter has reached the generation, and armed while the reservation of the
  endpoint has that generation and is still prepared. No transaction arms an issued token again,
  except one that records the outcome \<open>prepared\<close>, which no caller does.
\<close>

definition token_issued :: "relay_db \<Rightarrow> pystr \<times> int \<Rightarrow> bool" where
  "token_issued db t \<longleftrightarrow> (\<exists>g. db_wake_marker db = Some g \<and> snd t \<le> g)"

definition token_armed :: "relay_db \<Rightarrow> pystr \<times> int \<Rightarrow> bool" where
  "token_armed db t \<longleftrightarrow>
     (\<exists>r. get_reservation db (fst t) = Some r \<and> r_generation r = snd t \<and> r_outcome r = Prepared)"

text \<open>The operations a client of the registry can cause.\<close>

fun proper_op :: "relay_op \<Rightarrow> bool" where
  "proper_op (OpWake (WOutcome r oc) now later) \<longleftrightarrow> oc \<in> {Accepted, Uncertain}"
| "proper_op _ \<longleftrightarrow> True"

lemma same_fences_tokens:
  "same_fences db db' \<Longrightarrow> token_issued db' t = token_issued db t \<and> token_armed db' t = token_armed db t"
  by (simp add: same_fences_def token_issued_def token_armed_def)

text \<open>A step keeps the tokens when what it writes for an endpoint is not prepared, or is of the next
  generation.\<close>

definition spares_tokens :: "relay_db \<Rightarrow> relay_db \<Rightarrow> bool" where
  "spares_tokens db db' \<longleftrightarrow>
     (\<forall>t. token_issued db t \<longrightarrow> \<not> token_armed db t \<longrightarrow> \<not> token_armed db' t)"

lemma spares_refl [simp]: "spares_tokens db db"
  by (simp add: spares_tokens_def)

lemma spares_drop: "spares_tokens db (drop_reservation e db)"
  by (auto simp: spares_tokens_def token_armed_def drop_reservation_def row_get_row_del)

lemma spares_fold_drop: "spares_tokens db (fold (\<lambda>r. drop_reservation (f r)) rs db)"
proof -
  have "\<not> token_armed db t \<Longrightarrow> \<not> token_armed (fold (\<lambda>r. drop_reservation (f r)) rs db) t" for t
  proof (induction rs arbitrary: db)
    case (Cons r rs)
    have "\<not> token_armed (drop_reservation (f r) db) t"
      using Cons.prems by (auto simp: token_armed_def drop_reservation_def row_get_row_del)
    then show ?case using Cons.IH by simp
  qed simp
  then show ?thesis by (simp add: spares_tokens_def)
qed

lemma spares_put:
  assumes "get_reservation db (r_recipient_endpoint_id r) = Some old"
    and "r_outcome r = Prepared \<Longrightarrow> r_outcome old = Prepared \<and> r_generation r = r_generation old"
  shows "spares_tokens db (put_reservation r db)"
  using assms by (auto simp: spares_tokens_def token_armed_def put_reservation_def row_get_row_upd)

lemma spares_rewrite:
  assumes "get_reservation db e = Some old"
  shows "spares_tokens db (put_reservation (old\<lparr>r_correlated_claim_attempts := n\<rparr>) db)"
    and "oc \<noteq> Prepared \<Longrightarrow> spares_tokens db (put_reservation (old\<lparr>r_outcome := oc\<rparr>) db)"
  using assms row_get_SomeD(2) [OF assms] by (auto intro!: spares_put [where old = old])

lemma spares_next:
  assumes "db_wake_marker db = Some g" and "r_generation r = g + 1"
  shows "spares_tokens db ((put_reservation r db)\<lparr>db_wake_marker := m\<rparr>)"
  using assms by (auto simp: spares_tokens_def token_armed_def token_issued_def put_reservation_def
      row_get_row_upd)

lemma spares_append:
  assumes "db_wake_marker db = Some g" and "r_generation r = g + 1"
  shows "spares_tokens db (db\<lparr>db_reservations := db_reservations db @ [r], db_wake_marker := m\<rparr>)"
  using assms by (auto simp: spares_tokens_def token_armed_def token_issued_def row_get_append
      split: option.splits if_splits)

lemma spares_steps:
  assumes "db_wake_marker db = Some g"
  shows "spares_tokens db (snd (wake_reserve g e k ref ct now db))"
    and "spares_tokens db (snd (wake_correlate e k ref ct x n db))"
    and "spares_tokens db (snd (wake_release_delivery items k db))"
    and "spares_tokens db (snd (wake_release rs db))"
    and "spares_tokens db (snd (wake_retry_target r now db))"
    and "oc \<noteq> Prepared \<Longrightarrow> spares_tokens db (snd (wake_outcome_op r oc db))"
    and "spares_tokens db (snd (wake_begin_native_attempt r now later db))"
    and "spares_tokens db (snd (wake_retry g r target now db))"
    and "spares_tokens db (snd (wake_replace g r ref ct db))"
    and "spares_tokens db (snd (wake_reconcile g r now db))"
proof -
  show "spares_tokens db (snd (wake_reserve g e k ref ct now db))"
    using assms by (auto simp: wake_reserve_def Let_def intro!: spares_append split: sum.split)
  show "spares_tokens db (snd (wake_correlate e k ref ct x n db))"
    by (auto simp: wake_correlate_def Let_def intro: spares_rewrite(1) split: option.split)
  show "spares_tokens db (snd (wake_release_delivery items k db))"
    by (auto simp: wake_release_delivery_def intro: spares_drop split: option.split)
  show "spares_tokens db (snd (wake_release rs db))"
    by (simp add: wake_release_def Let_def spares_fold_drop)
  show "spares_tokens db (snd (wake_retry_target r now db))"
    by (auto simp: wake_retry_target_def split: sum.split option.split)
  show "spares_tokens db (snd (wake_outcome_op r oc db))" if "oc \<noteq> Prepared"
    using that by (auto simp: wake_outcome_op_def Let_def intro: spares_rewrite(2) split: option.split)
  show "spares_tokens db (snd (wake_begin_native_attempt r now later db))"
    by (auto simp: wake_begin_native_attempt_def Let_def intro!: spares_put split: sum.split)
  show "spares_tokens db (snd (wake_retry g r target now db))"
    using assms by (auto simp: wake_retry_def Let_def intro!: spares_next split: sum.split)
  show "spares_tokens db (snd (wake_replace g r ref ct db))"
    using assms by (auto simp: wake_replace_def Let_def intro!: spares_next)
  show "spares_tokens db (snd (wake_reconcile g r now db))"
    using assms by (auto simp: wake_reconcile_def Let_def intro!: spares_next spares_drop spares_put
        split: sum.split option.split reconciliation.split)
qed

lemma spares_transition:
  assumes "proper_op (OpWake op now later)"
  shows "spares_tokens db (snd (relay_codex_wake_transition pr op now later db))"
proof -
  have "spares_tokens db (snd (wake_dispatch items g op now later db))" if "db_wake_marker db = Some g" for items g
  proof (cases op)
    case (WOutcome r oc)
    with assms show ?thesis using spares_steps(6) [OF that] by (auto simp: wake_dispatch_def)
  qed (simp_all add: wake_dispatch_def spares_steps [OF that])
  then show ?thesis
    by (auto simp: relay_codex_wake_transition_def split: sum.split option.split)
qed

lemma spares_initialize:
  "db_wake_marker db \<noteq> None \<Longrightarrow> snd (relay_codex_wake_initialize rs db) = db"
  by (simp add: relay_codex_wake_initialize_def)

lemma spares_exec:
  assumes "proper_op op" and "token_issued db t" and "\<not> token_armed db t"
  shows "\<not> token_armed (relay_exec W op db) t"
proof (cases op)
  case (OpWake wop now later)
  then have "spares_tokens db (relay_exec W op db)"
    using assms(1) spares_transition [of wop now later db "rw_printable W"] by simp
  with assms(2,3) show ?thesis unfolding spares_tokens_def by blast
next
  case (OpWakeInitialize rs)
  with assms show ?thesis by (auto simp: token_issued_def spares_initialize)
qed (use assms exec_same_fences [of op db W] same_fences_tokens in auto)

lemma issued_exec:
  assumes "db_inv db" and "token_issued db t"
  shows "token_issued (relay_exec W op db) t"
  using assms evolvesD(4) [OF relay.exec_below [OF assms(1)]]
  by (fastforce simp: token_issued_def)

interpretation wake_fence: one_shot "relay_exec W" db_inv proper_op token_issued token_armed for W
  by unfold_locales (use issued_exec spares_exec in auto)

text \<open>A begun attempt has spent its token.\<close>

lemma begin_spends:
  assumes "db_inv db" and "relay_codex_wake_transition pr (WBegin r) now later db = (Inr (WItem r'), db')"
  shows "token_issued db' (r_recipient_endpoint_id r, r_generation r)"
    and "\<not> token_armed db' (r_recipient_endpoint_id r, r_generation r)"
    and "get_reservation db (r_recipient_endpoint_id r) = Some r"
    and "db_reservations db' = row_upd r_recipient_endpoint_id (r_recipient_endpoint_id r) (\<lambda>_. r') (db_reservations db)"
    and "r' = r\<lparr>r_outcome := Uncertain, r_retry_not_before := Some (later + wake_retry_cooldown)\<rparr>"
proof -
  obtain g where g: "db_wake_marker db = Some g"
    and "wake_begin_native_attempt r now later db = (Inr (WItem r'), db')"
    using assms(2) by (auto simp: relay_codex_wake_transition_def wake_dispatch_def
        split: sum.splits option.splits)
  then have cur: "get_reservation db (r_recipient_endpoint_id r) = Some r"
    and r': "r' = r\<lparr>r_outcome := Uncertain, r_retry_not_before := Some (later + wake_retry_cooldown)\<rparr>"
    and db': "db' = put_reservation r' db"
    by (auto simp: wake_begin_native_attempt_def Let_def split: if_splits sum.splits)
  have "r_generation r \<le> g"
    using assms(1) g row_get_SomeD(1) [OF cur] by (auto simp: db_inv_def fences_ok_def)
  then show "token_issued db' (r_recipient_endpoint_id r, r_generation r)"
    using g by (simp add: token_issued_def db' put_reservation_def)
  show "\<not> token_armed db' (r_recipient_endpoint_id r, r_generation r)"
    using cur by (simp add: token_armed_def db' put_reservation_def row_get_row_upd r')
  show "get_reservation db (r_recipient_endpoint_id r) = Some r" by (rule cur)
  show "db_reservations db' = row_upd r_recipient_endpoint_id (r_recipient_endpoint_id r) (\<lambda>_. r') (db_reservations db)"
    by (simp add: db' put_reservation_def r')
  show "r' = r\<lparr>r_outcome := Uncertain, r_retry_not_before := Some (later + wake_retry_cooldown)\<rparr>" by (rule r')
qed

lemma begin_needs_armed:
  assumes "relay_codex_wake_transition pr (WBegin r) now later db = (Inr (WItem r'), db')"
  shows "token_armed db (r_recipient_endpoint_id r, r_generation r)"
  using assms by (auto simp: relay_codex_wake_transition_def wake_dispatch_def token_armed_def
      wake_begin_native_attempt_def Let_def split: sum.splits option.splits if_splits)

end
