(* ===== verification/Codex_Registry_Facts.thy ===== *)
theory Codex_Registry_Facts
  imports Codex_Registry Codex_Fence
begin

text \<open>
  The registry as a machine, alone and over the store. An ephemeral registry keeps the invariant of
  its table and never arms a token again; a registry over the store changes the database only by
  wake transitions, so the tokens of the store protect it; and the store's transitions simulate the
  ephemeral table.
\<close>

section \<open>The calls\<close>

datatype wake_call =
    WakeInitialize legacy_file bool
  | WakeReserve pystr pystr pystr pystr "bool option" time
  | WakeRunIfCurrent codex_reservation time
  | WakeBegin codex_reservation time time
  | WakeOutcome codex_reservation wake_outcome time
  | WakeCorrelate pystr pystr pystr pystr int int time
  | WakeReplace codex_reservation pystr pystr time
  | WakeRearm codex_reservation pystr pystr time
  | WakeRetryTarget codex_reservation time
  | WakeReconcile codex_reservation time
  | WakeRelease "codex_reservation list" time
  | WakeReleaseDelivery pystr time
  | WakeRead
  | OtherRelay relay_op

text \<open>Everything else that happens to the database in between is a transaction of the store that is
  not a wake transition.\<close>

fun proper_call :: "wake_call \<Rightarrow> bool" where
  "proper_call (OtherRelay op) \<longleftrightarrow> \<not> wake_operation op"
| "proper_call _ \<longleftrightarrow> True"

fun wake_exec ::
  "relay_world \<Rightarrow> wake_call \<Rightarrow> wake_registry \<times> relay_db \<Rightarrow> wake_registry \<times> relay_db" where
  "wake_exec W (WakeInitialize f drained) (g, db) = snd (registry_initialize (rw_printable W) f drained g db)"
| "wake_exec W (WakeReserve e d s c still now) (g, db) = snd (registry_reserve (rw_printable W) e d s c still now g db)"
| "wake_exec W (WakeRunIfCurrent r now) (g, db) = snd (registry_run_if_current (rw_printable W) r now g db)"
| "wake_exec W (WakeBegin r now later) (g, db) = snd (registry_begin (rw_printable W) r now later g db)"
| "wake_exec W (WakeOutcome r oc now) (g, db) = snd (registry_record_outcome (rw_printable W) r oc now g db)"
| "wake_exec W (WakeCorrelate e d s c n k now) (g, db) = snd (registry_correlate (rw_printable W) e d s c n k now g db)"
| "wake_exec W (WakeReplace r s c now) (g, db) = snd (registry_replace (rw_printable W) r s c now g db)"
| "wake_exec W (WakeRearm r s c now) (g, db) = snd (registry_rearm (rw_printable W) r s c now g db)"
| "wake_exec W (WakeRetryTarget r now) (g, db) = snd (registry_retry_target (rw_printable W) r now g db)"
| "wake_exec W (WakeReconcile r now) (g, db) = snd (registry_reconcile (rw_printable W) r now g db)"
| "wake_exec W (WakeRelease rs now) (g, db) = snd (registry_release (rw_printable W) rs now g db)"
| "wake_exec W (WakeReleaseDelivery d now) (g, db) = snd (registry_release_delivery (rw_printable W) d now g db)"
| "wake_exec W WakeRead (g, db) = (refresh (rw_printable W) db g, db)"
| "wake_exec W (OtherRelay op) (g, db) = (g, relay_exec W op db)"

lemmas registry_defs = registry_reserve_def registry_run_if_current_def registry_begin_def
  registry_record_outcome_def registry_correlate_def registry_replace_def registry_rearm_def
  registry_retry_target_def registry_reconcile_def registry_release_def registry_release_delivery_def
  remove_locked_def written_def

lemma refresh_simps [simp]:
  "wg_relay (refresh P db g) = wg_relay g" "wg_file (refresh P db g) = wg_file g"
  "\<not> wg_relay g \<Longrightarrow> refresh P db g = g" "wg_generation (refresh P db g) = wg_generation g"
  by (auto simp: refresh_def split: option.split)

section \<open>A registry over the store\<close>

lemma transition_db:
  "snd (transition P op now later db) = snd (relay_codex_wake_transition P op now later db)"
  by (simp add: transition_def split: prod.split sum.split)

lemma transition_pair:
  "transition P op now later db = (r, db1) \<Longrightarrow> db1 = snd (relay_codex_wake_transition P op now later db)"
  using transition_db by (metis snd_conv)

text \<open>Every call is at most one proper transaction of the store.\<close>

definition one_transaction :: "relay_world \<Rightarrow> relay_db \<Rightarrow> relay_db \<Rightarrow> bool" where
  "one_transaction W db db' \<longleftrightarrow> db' = db \<or> (\<exists>op. proper_op op \<and> db' = relay_exec W op db)"

lemma one_transaction_refl [simp]: "one_transaction W db db"
  by (simp add: one_transaction_def)

lemma one_transaction_wake:
  assumes "proper_op (OpWake op now later)"
  shows "one_transaction W db (snd (relay_codex_wake_transition (rw_printable W) op now later db))"
  using assms relay_exec.simps(20) [of W op now later db] unfolding one_transaction_def by metis

lemma one_transaction_initialize: "one_transaction W db (snd (relay_codex_wake_initialize rs db))"
  using relay_exec.simps(19) [of W rs db] proper_op.simps unfolding one_transaction_def by metis

lemma wake_exec_relay: "wg_relay (fst (wake_exec W call (g, db))) = wg_relay g"
  by (cases call) (auto simp: registry_defs registry_initialize_def load_def Let_def
      split: option.split prod.split legacy_file.split bool.split)

lemma wake_exec_transaction:
  assumes "wg_relay g" and "proper_call call"
  shows "one_transaction W db (snd (wake_exec W call (g, db)))"
proof (cases call)
  case (OtherRelay op)
  with assms(2) have "proper_op op" by (cases op) auto
  with OtherRelay show ?thesis by (auto simp: one_transaction_def)
next
  case (WakeInitialize f drained)
  then show ?thesis
    by (auto simp: registry_initialize_def Let_def one_transaction_initialize)
qed (use assms in \<open>auto simp: registry_defs Let_def one_transaction_wake split: option.split prod.split
      dest!: transition_pair\<close>)

text \<open>So a run of calls is a run of proper transactions.\<close>

lemma wake_run_transactions:
  assumes "wg_relay g" and "list_all proper_call calls"
  shows "\<exists>ops. list_all proper_op ops
     \<and> snd (fold (wake_exec W) calls (g, db)) = fold (relay_exec W) ops db
     \<and> wg_relay (fst (fold (wake_exec W) calls (g, db)))"
  using assms
proof (induction calls arbitrary: g db)
  case Nil
  then show ?case by (intro exI [of _ "[]"]) simp
next
  case (Cons call calls)
  obtain g1 db1 where step: "wake_exec W call (g, db) = (g1, db1)" by fastforce
  then have "wg_relay g1" using wake_exec_relay [of W call g db] Cons.prems by simp
  then obtain ops where ops: "list_all proper_op ops"
    "snd (fold (wake_exec W) calls (g1, db1)) = fold (relay_exec W) ops db1"
    "wg_relay (fst (fold (wake_exec W) calls (g1, db1)))"
    using Cons.IH [of g1 db1] Cons.prems by auto
  have "one_transaction W db db1"
    using wake_exec_transaction [of g call W db] Cons.prems step by simp
  then consider "db1 = db" | op where "proper_op op" "db1 = relay_exec W op db"
    by (auto simp: one_transaction_def)
  then show ?case
  proof cases
    case 1
    with ops step show ?thesis by auto
  next
    case (2 op)
    with ops step show ?thesis by (intro exI [of _ "op # ops"]) simp
  qed
qed

lemma begin_over_store:
  assumes "wg_relay g" and "registry_begin P r now later g db = (Some r', g', db')"
  shows "relay_codex_wake_transition P (WBegin r) now later db = (Inr (WItem r'), db')" and "wg_relay g'"
  using assms by (auto simp: registry_begin_def Let_def transition_def item_of_def
      split: if_splits prod.splits sum.splits wake_result.splits)

section \<open>An ephemeral registry\<close>

text \<open>The table of a registry without a store: every endpoint and every delivery has at most one
  reservation, there is room, and generations come from the counter.\<close>

definition registry_ok :: "wake_registry \<Rightarrow> bool" where
  "registry_ok g \<longleftrightarrow> distinct (map r_recipient_endpoint_id (wg_items g))
     \<and> distinct (map r_delivery_id (wg_items g)) \<and> length (wg_items g) \<le> max_reservations
     \<and> (\<forall>i \<in> set (wg_items g). r_generation i \<le> wg_generation g)"

definition item_issued :: "wake_registry \<Rightarrow> pystr \<times> int \<Rightarrow> bool" where
  "item_issued g t \<longleftrightarrow> snd t \<le> wg_generation g"

definition item_armed :: "wake_registry \<Rightarrow> pystr \<times> int \<Rightarrow> bool" where
  "item_armed g t \<longleftrightarrow>
     (\<exists>r. get_item g (fst t) = Some r \<and> r_generation r = snd t \<and> r_outcome r = Prepared)"

text \<open>What a call does to an ephemeral registry: nothing to the tokens that are spent, and the table
  stays in order.\<close>

definition ephemeral_step :: "wake_registry \<Rightarrow> wake_registry \<Rightarrow> bool" where
  "ephemeral_step g g' \<longleftrightarrow> \<not> wg_relay g' \<and> wg_generation g \<le> wg_generation g'
     \<and> (registry_ok g \<longrightarrow> registry_ok g'
          \<and> (\<forall>t. item_issued g t \<longrightarrow> \<not> item_armed g t \<longrightarrow> \<not> item_armed g' t))"

lemma ephemeral_refl [simp]: "\<not> wg_relay g \<Longrightarrow> ephemeral_step g g"
  by (simp add: ephemeral_step_def)

lemma ephemeral_unusable [simp]: "\<not> wg_relay g \<Longrightarrow> ephemeral_step g (g\<lparr>wg_usable := False\<rparr>)"
  by (simp add: ephemeral_step_def registry_ok_def item_armed_def)

lemma put_item_new:
  "row_get r_recipient_endpoint_id (r_recipient_endpoint_id i) items = None \<Longrightarrow> put_item i items = items @ [i]"
  by (simp add: put_item_def)

lemma put_item_old:
  "row_get r_recipient_endpoint_id (r_recipient_endpoint_id i) items = Some old \<Longrightarrow>
     put_item i items = row_upd r_recipient_endpoint_id (r_recipient_endpoint_id i) (\<lambda>_. i) items"
  by (simp add: put_item_def)

lemma get_put_item:
  "row_get r_recipient_endpoint_id e (put_item i items) =
     (if e = r_recipient_endpoint_id i then Some i else row_get r_recipient_endpoint_id e items)"
  by (auto simp: put_item_def row_get_append row_get_row_upd split: option.split)

text \<open>The invariant of the table is the one of the store's reservations.\<close>

lemma registry_ok_fences:
  assumes "0 \<le> wg_generation g" "wg_generation g < 2 ^ 63"
  shows "registry_ok g \<longleftrightarrow>
    fences_ok (wg_items g) (Some (wg_generation g)) \<and> length (wg_items g) \<le> max_reservations"
  using assms by (auto simp: registry_ok_def fences_ok_def)

lemma ephemeral_new_item:
  assumes "get_item g (r_recipient_endpoint_id i) = None" "\<not> list_ex (\<lambda>x. r_delivery_id x = r_delivery_id i) (wg_items g)"
    and "length (wg_items g) < max_reservations" and "r_generation i = wg_generation g + 1" and "\<not> wg_relay g"
  shows "ephemeral_step g (g\<lparr>wg_generation := wg_generation g + 1, wg_items := put_item i (wg_items g)\<rparr>)"
  using assms
  by (force simp: ephemeral_step_def registry_ok_def item_issued_def item_armed_def put_item_new
      row_get_append row_get_None_iff delivery_reserved_iff split: option.splits if_splits)

lemma ephemeral_put_item:
  assumes old: "get_item g (r_recipient_endpoint_id i) = Some old" and "\<not> wg_relay g"
    and d: "r_delivery_id i = r_delivery_id old"
    and n: "wg_generation g \<le> n"
    and new: "r_generation i = r_generation old \<and> (r_outcome i = Prepared \<longrightarrow> r_outcome old = Prepared)
      \<or> r_generation i = wg_generation g + 1 \<and> n = wg_generation g + 1"
  shows "ephemeral_step g (g\<lparr>wg_generation := n, wg_items := put_item i (wg_items g)\<rparr>)"
proof -
  have "registry_ok (g\<lparr>wg_generation := n, wg_items := put_item i (wg_items g)\<rparr>)" if ok: "registry_ok g"
  proof -
    have only: "x = old" if "x \<in> set (wg_items g)" "r_recipient_endpoint_id x = r_recipient_endpoint_id i" for x
      using that ok row_get_SomeD [OF old] by (auto simp: registry_ok_def distinct_map inj_on_def)
    have "map r_recipient_endpoint_id (put_item i (wg_items g)) = map r_recipient_endpoint_id (wg_items g)"
      "map r_delivery_id (put_item i (wg_items g)) = map r_delivery_id (wg_items g)"
      using only d by (auto simp: put_item_old [OF old] row_upd_def)
    moreover have "r_generation old \<le> wg_generation g"
      using ok row_get_SomeD(1) [OF old] by (simp add: registry_ok_def)
    then have "\<forall>x \<in> set (put_item i (wg_items g)). r_generation x \<le> n"
      using ok n new by (fastforce simp: put_item_old [OF old] set_row_upd registry_ok_def)
    ultimately show ?thesis using ok by (simp add: registry_ok_def put_item_old [OF old])
  qed
  moreover have "\<not> item_armed (g\<lparr>wg_generation := n, wg_items := put_item i (wg_items g)\<rparr>) t"
    if "item_issued g t" "\<not> item_armed g t" for t
    using that old new by (auto simp: item_issued_def item_armed_def get_put_item)
  ultimately show ?thesis using n assms(2) by (simp add: ephemeral_step_def)
qed

lemma ephemeral_filter:
  assumes "\<not> wg_relay g"
  shows "ephemeral_step g (g\<lparr>wg_items := filter Q (wg_items g)\<rparr>)"
proof -
  have "get_item g e = Some r" if "registry_ok g" "row_get r_recipient_endpoint_id e (filter Q (wg_items g)) = Some r" for e r
    using that row_get_SomeD [OF that(2)] row_get_distinct [of r_recipient_endpoint_id "wg_items g" r]
    by (auto simp: registry_ok_def)
  then have "\<not> item_armed (g\<lparr>wg_items := filter Q (wg_items g)\<rparr>) t" if "registry_ok g" "\<not> item_armed g t" for t
    using that by (auto simp: item_armed_def)
  moreover have "registry_ok (g\<lparr>wg_items := filter Q (wg_items g)\<rparr>)" if "registry_ok g"
    using that by (auto simp: registry_ok_def distinct_map_filter intro: le_trans [OF length_filter_le])
  ultimately show ?thesis using assms by (simp add: ephemeral_step_def)
qed

lemma ephemeral_written:
  assumes "\<not> wg_relay g" and "writable g \<Longrightarrow> ephemeral_step h (g\<lparr>wg_items := items\<rparr>)"
    and "ephemeral_step h (g\<lparr>wg_usable := False\<rparr>)"
  shows "ephemeral_step h (snd (written items a b g))"
  using assms by (simp add: written_def)

lemma ephemeral_generation [simp]:
  "\<not> wg_relay g \<Longrightarrow> ephemeral_step g (g\<lparr>wg_generation := wg_generation g + 1, wg_usable := False\<rparr>)"
  by (force simp: ephemeral_step_def registry_ok_def item_armed_def)

lemma ephemeral_same_generation:
  "ephemeral_step g (g\<lparr>wg_generation := wg_generation g, wg_items := is\<rparr>) \<Longrightarrow> ephemeral_step g (g\<lparr>wg_items := is\<rparr>)"
  by simp

lemma ephemeral_calls:
  assumes "\<not> wg_relay g"
  shows "ephemeral_step g (fst (wake_exec W call (g, db)))"
proof (cases call)
  case (WakeReserve e d s c still now)
  then show ?thesis
    using assms by (auto simp: registry_reserve_def Let_def written_def not_le split: prod.split
        intro!: ephemeral_new_item)
next
  case (WakeBegin r now later)
  have "ephemeral_step g (g\<lparr>wg_items := put_item (r\<lparr>r_outcome := Uncertain, r_retry_not_before := t\<rparr>) (wg_items g)\<rparr>)"
    if "get_item g (r_recipient_endpoint_id r) = Some r" for t
    using assms that by (intro ephemeral_same_generation ephemeral_put_item [where old = r]) auto
  with WakeBegin assms show ?thesis
    by (auto simp: registry_begin_def Let_def written_def split: prod.split)
next
  case (WakeOutcome r oc now)
  have "ephemeral_step g (g\<lparr>wg_items := put_item (x\<lparr>r_outcome := oc\<rparr>) (wg_items g)\<rparr>)"
    if "get_item g e = Some x" "oc \<noteq> Prepared" for x e
    using assms that row_get_SomeD(2) [OF that(1)]
    by (intro ephemeral_same_generation ephemeral_put_item [where old = x]) auto
  with WakeOutcome assms show ?thesis
    by (auto simp: registry_record_outcome_def Let_def written_def split: prod.split option.split)
next
  case (WakeCorrelate e d s c n k now)
  have "ephemeral_step g (g\<lparr>wg_items := put_item (x\<lparr>r_correlated_claim_attempts := m\<rparr>) (wg_items g)\<rparr>)"
    if "get_item g e = Some x" for x m
    using assms that row_get_SomeD(2) [OF that(1)]
    by (intro ephemeral_same_generation ephemeral_put_item [where old = x]) auto
  with WakeCorrelate assms show ?thesis
    by (auto simp: registry_correlate_def Let_def written_def split: prod.split option.split)
next
  case (WakeReplace r s c now)
  have "ephemeral_step g (g\<lparr>wg_generation := wg_generation g + 1,
      wg_items := put_item (r\<lparr>r_session_ref := s, r_container_ref := c, r_generation := wg_generation g + 1,
        r_outcome := Prepared, r_correlated_claim_attempts := None, r_retry_not_before := None\<rparr>) (wg_items g)\<rparr>)"
    if "get_item g (r_recipient_endpoint_id r) = Some r"
    using assms that by (intro ephemeral_put_item [where old = r]) auto
  with WakeReplace assms show ?thesis
    by (auto simp: registry_replace_def Let_def written_def split: prod.split)
next
  case (WakeRelease rs now)
  with assms show ?thesis
    by (auto simp: registry_release_def Let_def written_def ephemeral_filter split: prod.split)
next
  case (WakeReleaseDelivery d now)
  with assms ephemeral_filter [OF assms] show ?thesis
    by (auto simp: registry_release_delivery_def remove_locked_def written_def row_del_def
        split: prod.split option.split bool.split)
qed (use assms in \<open>auto simp: registry_initialize_def registry_run_if_current_def registry_rearm_def
      registry_retry_target_def registry_reconcile_def Let_def split: prod.split\<close>)

section \<open>Both\<close>

text \<open>The state of the whole is in order when the database is and, without a store, the table is.\<close>

definition wake_system_ok :: "wake_registry \<times> relay_db \<Rightarrow> bool" where
  "wake_system_ok s \<longleftrightarrow> db_inv (snd s) \<and> (\<not> wg_relay (fst s) \<longrightarrow> registry_ok (fst s))"

definition system_issued :: "wake_registry \<times> relay_db \<Rightarrow> pystr \<times> int \<Rightarrow> bool" where
  "system_issued s t \<longleftrightarrow> (if wg_relay (fst s) then token_issued (snd s) t else item_issued (fst s) t)"

definition system_armed :: "wake_registry \<times> relay_db \<Rightarrow> pystr \<times> int \<Rightarrow> bool" where
  "system_armed s t \<longleftrightarrow> (if wg_relay (fst s) then token_armed (snd s) t else item_armed (fst s) t)"

lemma ephemeral_db:
  assumes "\<not> wg_relay g"
  shows "snd (wake_exec W call (g, db)) = (case call of OtherRelay op \<Rightarrow> relay_exec W op db | _ \<Rightarrow> db)"
  using assms by (cases call) (auto simp: registry_defs registry_initialize_def Let_def
      split: option.split prod.split bool.split)

lemma wake_exec_inv:
  assumes "wake_system_ok s"
  shows "wake_system_ok (wake_exec W call s)"
proof -
  obtain g db where s: "s = (g, db)" by fastforce
  have inv: "db_inv db" using assms by (simp add: s wake_system_ok_def)
  have "db_inv (snd (wake_exec W call (g, db)))"
  proof (cases "wg_relay g")
    case True
    show ?thesis
    proof (cases "proper_call call")
      case True
      with wake_exec_transaction [OF \<open>wg_relay g\<close> True, of W db] show ?thesis
        using inv relay.exec_inv by (auto simp: one_transaction_def)
    next
      case False
      then obtain op where "call = OtherRelay op" by (cases call) auto
      then show ?thesis using inv relay.exec_inv by simp
    qed
  next
    case False
    then show ?thesis using inv relay.exec_inv by (simp add: ephemeral_db split: wake_call.split)
  qed
  moreover have "registry_ok (fst (wake_exec W call (g, db)))" if "\<not> wg_relay g"
    using ephemeral_calls [OF that, of W call db] assms that
    by (simp add: ephemeral_step_def s wake_system_ok_def)
  ultimately show ?thesis by (simp add: s wake_system_ok_def wake_exec_relay)
qed

lemma wake_exec_tokens:
  assumes "wake_system_ok s" and "proper_call call" and "system_issued s t"
  shows "system_issued (wake_exec W call s) t"
    and "\<not> system_armed s t \<Longrightarrow> \<not> system_armed (wake_exec W call s) t"
proof -
  obtain g db where s: "s = (g, db)" by fastforce
  have "system_issued (wake_exec W call s) t
      \<and> (\<not> system_armed s t \<longrightarrow> \<not> system_armed (wake_exec W call s) t)"
  proof (cases "wg_relay g")
    case True
    then have "one_transaction W db (snd (wake_exec W call (g, db)))"
      using assms(2) by (rule wake_exec_transaction)
    then consider "snd (wake_exec W call (g, db)) = db"
      | op where "proper_op op" "snd (wake_exec W call (g, db)) = relay_exec W op db"
      by (auto simp: one_transaction_def)
    then show ?thesis
    proof cases
      case 1
      with True assms(3) show ?thesis
        by (simp add: s system_issued_def system_armed_def wake_exec_relay)
    next
      case (2 op)
      with True assms wake_fence.issued_stays [of db op t W] wake_fence.spent_stays [of db op t W]
      show ?thesis
        by (simp add: s system_issued_def system_armed_def wake_exec_relay wake_system_ok_def)
    qed
  next
    case False
    have "ephemeral_step g (fst (wake_exec W call (g, db)))" using False by (rule ephemeral_calls)
    with False assms(1) have "wg_generation g \<le> wg_generation (fst (wake_exec W call (g, db)))"
      "item_issued g t \<Longrightarrow> \<not> item_armed g t \<Longrightarrow> \<not> item_armed (fst (wake_exec W call (g, db))) t"
      by (auto simp: ephemeral_step_def s wake_system_ok_def simp del: split_paired_All)
    with False assms(3) show ?thesis
      by (simp add: s system_issued_def system_armed_def wake_exec_relay item_issued_def)
  qed
  then show "system_issued (wake_exec W call s) t"
    and "\<not> system_armed s t \<Longrightarrow> \<not> system_armed (wake_exec W call s) t" by blast+
qed

interpretation wake_system: one_shot "wake_exec W" wake_system_ok proper_call system_issued system_armed for W
  by unfold_locales (use wake_exec_inv wake_exec_tokens in auto)

text \<open>Beginning an attempt needs an armed token and spends it.\<close>

lemma begin_ephemeral:
  assumes "\<not> wg_relay g" and "registry_begin P r now later g db = (Some r', g', db')"
  shows "g' = g\<lparr>wg_items := put_item r' (wg_items g)\<rparr>"
    and "r' = r\<lparr>r_outcome := Uncertain, r_retry_not_before := Some (later + wake_retry_cooldown)\<rparr>"
    and "get_item g (r_recipient_endpoint_id r) = Some r" and "r_outcome r = Prepared"
  using assms by (auto simp: registry_begin_def Let_def written_def split: if_splits)

lemma registry_begin_armed:
  fixes W :: relay_world
  assumes "registry_begin (rw_printable W) r now later g db = (Some r', g', db')"
  shows "system_armed (g, db) (r_recipient_endpoint_id r, r_generation r)"
proof (cases "wg_relay g")
  case True
  with begin_needs_armed [OF begin_over_store(1) [OF True assms]] show ?thesis
    by (simp add: system_armed_def)
next
  case False
  with begin_ephemeral(3,4) [OF False assms] show ?thesis
    by (simp add: system_armed_def item_armed_def)
qed

lemma registry_begin_spends:
  fixes W :: relay_world
  assumes ok: "wake_system_ok (g, db)"
    and run: "registry_begin (rw_printable W) r now later g db = (Some r', g', db')"
  shows "system_issued (g', db') (r_recipient_endpoint_id r, r_generation r)"
    and "\<not> system_armed (g', db') (r_recipient_endpoint_id r, r_generation r)"
    and "wake_system_ok (g', db')" and "wg_relay g' = wg_relay g"
    and "r_outcome r' = Uncertain" and "r_generation r' = r_generation r"
proof -
  have step: "wake_exec W (WakeBegin r now later) (g, db) = (g', db')" using run by simp
  then show "wake_system_ok (g', db')" "wg_relay g' = wg_relay g"
    using wake_exec_inv [OF ok, of W "WakeBegin r now later"] wake_exec_relay [of W "WakeBegin r now later" g db]
    by simp_all
  note rel = \<open>wg_relay g' = wg_relay g\<close>
  have "system_issued (g', db') (r_recipient_endpoint_id r, r_generation r)
      \<and> \<not> system_armed (g', db') (r_recipient_endpoint_id r, r_generation r)
      \<and> r_outcome r' = Uncertain \<and> r_generation r' = r_generation r"
  proof (cases "wg_relay g")
    case True
    have "db_inv db" using ok by (simp add: wake_system_ok_def)
    with begin_spends [OF this begin_over_store(1) [OF True run]] True rel show ?thesis
      by (simp add: system_issued_def system_armed_def)
  next
    case False
    note g = begin_ephemeral [OF False run]
    have "r_generation r \<le> wg_generation g"
      using ok False row_get_SomeD(1) [OF g(3)] by (auto simp: wake_system_ok_def registry_ok_def)
    with False rel g show ?thesis
      by (simp add: system_issued_def system_armed_def item_issued_def item_armed_def get_put_item)
  qed
  then show "system_issued (g', db') (r_recipient_endpoint_id r, r_generation r)"
    "\<not> system_armed (g', db') (r_recipient_endpoint_id r, r_generation r)"
    "r_outcome r' = Uncertain" "r_generation r' = r_generation r" by blast+
qed

end
