(* ===== verification/Codex_Simulation.thy ===== *)
theory Codex_Simulation
  imports Codex_Registry_Facts
begin

text \<open>
  The store's transitions against the ephemeral registry: seen through its reservations and its
  generation counter, a database takes every step an ephemeral registry would take.
\<close>

definition fence_view :: "relay_db \<Rightarrow> wake_registry" where
  "fence_view db =
     \<lparr>wg_items = db_reservations db,
      wg_generation = (case db_wake_marker db of None \<Rightarrow> 0 | Some g \<Rightarrow> g),
      wg_usable = True, wg_initialized = None, wg_relay = False, wg_file = False\<rparr>"

lemma fence_view_simps [simp]:
  "wg_items (fence_view db) = db_reservations db" "wg_usable (fence_view db)"
  "\<not> wg_relay (fence_view db)" "\<not> wg_file (fence_view db)"
  "db_wake_marker db = Some g \<Longrightarrow> wg_generation (fence_view db) = g"
  by (simp_all add: fence_view_def)

text \<open>What an ephemeral registry does with the request a registry over the store would send: whether
  it succeeds, and the registry after it.\<close>

fun ephemeral_run ::
  "(pystr \<Rightarrow> bool) \<Rightarrow> wake_op \<Rightarrow> time \<Rightarrow> time \<Rightarrow> wake_registry \<Rightarrow> bool \<times> wake_registry" where
  "ephemeral_run P (WReserve e d s c) now later g =
     (case registry_reserve P e d s c None now g empty_db of (a, g1, _) \<Rightarrow> (a \<noteq> None, g1))"
| "ephemeral_run P (WCorrelate e d s c k n) now later g =
     (case registry_correlate P e d s c n k now g empty_db of (a, g1, _) \<Rightarrow> (a, g1))"
| "ephemeral_run P (WReleaseDelivery d) now later g =
     (case registry_release_delivery P d now g empty_db of (a, g1, _) \<Rightarrow> (a \<noteq> None, g1))"
| "ephemeral_run P (WRelease rs) now later g =
     (case registry_release P rs now g empty_db of (a, g1, _) \<Rightarrow> (a \<noteq> [], g1))"
| "ephemeral_run P (WOutcome r oc) now later g =
     (case registry_record_outcome P r oc now g empty_db of (a, g1, _) \<Rightarrow> (a, g1))"
| "ephemeral_run P (WBegin r) now later g =
     (case registry_begin P r now later g empty_db of (a, g1, _) \<Rightarrow> (a \<noteq> None, g1))"
| "ephemeral_run P _ now later g = (False, g)"

text \<open>The requests both kinds of registry serve in the same way, with what the registry has checked
  before it asks the store.\<close>

fun shared_request :: "(pystr \<Rightarrow> bool) \<Rightarrow> wake_op \<Rightarrow> bool" where
  "shared_request P (WReserve e d s c) \<longleftrightarrow> valid_fields P e d s c"
| "shared_request P (WCorrelate e d s c k n) \<longleftrightarrow> valid_fields P e d s c \<and> 1 \<le> k \<and> 1 \<le> n"
| "shared_request P (WOutcome r oc) \<longleftrightarrow> oc \<in> {Accepted, Uncertain}"
| "shared_request P (WReleaseDelivery d) \<longleftrightarrow> True"
| "shared_request P (WRelease rs) \<longleftrightarrow> True"
| "shared_request P (WBegin r) \<longleftrightarrow> True"
| "shared_request P _ \<longleftrightarrow> False"

definition succeeded :: "wake_result \<Rightarrow> bool" where
  "succeeded r \<longleftrightarrow> r \<noteq> WNone \<and> r \<noteq> WItems []"

lemma put_reservation_view:
  assumes "get_reservation db (r_recipient_endpoint_id i) = Some old"
  shows "fence_view (put_reservation i db) = (fence_view db)\<lparr>wg_items := put_item i (db_reservations db)\<rparr>"
  using assms by (simp add: fence_view_def put_reservation_def put_item_old)

lemma drop_reservation_view:
  "fence_view (drop_reservation e db) =
     (fence_view db)\<lparr>wg_items := row_del r_recipient_endpoint_id e (db_reservations db)\<rparr>"
  by (simp add: fence_view_def drop_reservation_def)

lemma fold_drop_view:
  "fence_view (fold (\<lambda>r. drop_reservation (r_recipient_endpoint_id r)) rs db) =
     (fence_view db)\<lparr>wg_items := filter (\<lambda>i. r_recipient_endpoint_id i \<notin> r_recipient_endpoint_id ` set rs)
                                   (db_reservations db)\<rparr>"
proof (induction rs arbitrary: db)
  case (Cons r rs)
  have "filter (\<lambda>i. r_recipient_endpoint_id i \<notin> r_recipient_endpoint_id ` set rs)
      (row_del r_recipient_endpoint_id (r_recipient_endpoint_id r) (db_reservations db))
    = filter (\<lambda>i. r_recipient_endpoint_id i \<notin> r_recipient_endpoint_id ` set (r # rs)) (db_reservations db)"
    by (auto simp: row_del_def intro: filter_cong)
  then show ?case
    using Cons.IH [of "drop_reservation (r_recipient_endpoint_id r) db"]
    by (simp add: fence_view_def drop_reservation_def)
qed (simp add: fence_view_def)

lemma by_endpoint_endpoints: "r_recipient_endpoint_id ` set (by_endpoint xs) = r_recipient_endpoint_id ` set xs"
proof -
  have put: "r_recipient_endpoint_id ` set (put_item x ys)
      = insert (r_recipient_endpoint_id x) (r_recipient_endpoint_id ` set ys)" for x ys
  proof (cases "row_get r_recipient_endpoint_id (r_recipient_endpoint_id x) ys")
    case (Some old)
    have "old \<in> set ys" "r_recipient_endpoint_id old = r_recipient_endpoint_id x"
      using row_get_SomeD [OF Some] by simp_all
    then have "r_recipient_endpoint_id x \<in> r_recipient_endpoint_id ` set ys" by (metis imageI)
    moreover have "map r_recipient_endpoint_id (put_item x ys) = map r_recipient_endpoint_id ys"
      unfolding put_item_old [OF Some] row_upd_def by simp
    then have "r_recipient_endpoint_id ` set (put_item x ys) = r_recipient_endpoint_id ` set ys"
      by (metis set_map)
    ultimately show ?thesis by (simp add: insert_absorb)
  qed (simp add: put_item_new)
  have "r_recipient_endpoint_id ` set (fold put_item xs ys)
      = r_recipient_endpoint_id ` set ys \<union> r_recipient_endpoint_id ` set xs" for ys
    by (induction xs arbitrary: ys) (auto simp: put)
  then show ?thesis by (simp add: by_endpoint_def)
qed

lemma by_endpoint_Nil: "by_endpoint xs = [] \<longleftrightarrow> xs = []"
  using by_endpoint_endpoints [of xs] by (metis image_is_empty set_empty)

lemma transition_cases:
  assumes "relay_codex_wake_transition P op now later db = (Inr res, db')" and "succeeded res"
  obtains items g where "validate_wake_authority P db = Inr items" "db_wake_marker db = Some g"
    "items = db_reservations db" "wake_dispatch items g op now later db = (Inr res, db')"
  using assms
  by (auto simp: relay_codex_wake_transition_def succeeded_def validate_wake_authority_def Let_def
      max_reservations_def min_def split: sum.splits option.splits if_splits)

section \<open>The simulation\<close>


text \<open>One request at a time, each against the definition of its transition.\<close>

lemma simulate_reserve:
  assumes "valid_fields P e d s c" and "db_wake_marker db = Some g"
    and "wake_reserve g e d s c now db = (Inr res, db')" and "succeeded res"
  shows "ephemeral_run P (WReserve e d s c) now later (fence_view db) = (True, fence_view db')"
  using assms
  by (auto simp: wake_reserve_def registry_reserve_def succeeded_def Let_def written_def writable_def
      put_item_new fence_view_def split: if_splits sum.splits)

lemma simulate_correlate:
  assumes "valid_fields P e d s c" "1 \<le> k" "1 \<le> n"
    and "wake_correlate e d s c k n db = (Inr res, db')" and "succeeded res"
  shows "ephemeral_run P (WCorrelate e d s c k n) now later (fence_view db) = (True, fence_view db')"
  using assms row_get_SomeD(2) [of r_recipient_endpoint_id e "db_reservations db"]
  by (auto simp: wake_correlate_def registry_correlate_def succeeded_def Let_def written_def writable_def
      put_reservation_view split: if_splits option.splits)

lemma simulate_release_delivery:
  assumes "wake_release_delivery (db_reservations db) d db = (Inr res, db')" and "succeeded res"
  shows "ephemeral_run P (WReleaseDelivery d) now later (fence_view db) = (True, fence_view db')"
  using assms
  by (auto simp: wake_release_delivery_def registry_release_delivery_def succeeded_def remove_locked_def
      written_def writable_def drop_reservation_view split: if_splits option.splits)

lemma simulate_release:
  assumes "wake_release rs db = (Inr res, db')" and "succeeded res"
  shows "ephemeral_run P (WRelease rs) now later (fence_view db) = (True, fence_view db')"
  using assms
  by (auto simp: wake_release_def registry_release_def succeeded_def Let_def written_def writable_def
      by_endpoint_Nil by_endpoint_endpoints fold_drop_view)

lemma simulate_outcome:
  assumes "oc \<in> {Accepted, Uncertain}" and "wake_outcome_op r oc db = (Inr res, db')" and "succeeded res"
  shows "ephemeral_run P (WOutcome r oc) now later (fence_view db) = (True, fence_view db')"
proof -
  obtain x where x: "get_reservation db (r_recipient_endpoint_id r) = Some x"
    and db': "db' = put_reservation (x\<lparr>r_outcome := oc\<rparr>) db"
    and allowed: "if oc = Accepted then r_outcome r = Uncertain \<and> r_outcome x = Uncertain \<and> same_fence x r
      else x = r"
    using assms by (auto simp: wake_outcome_op_def succeeded_def Let_def same_fence_def
        split: option.splits if_splits)
  have e: "r_recipient_endpoint_id x = r_recipient_endpoint_id r" by (rule row_get_SomeD(2) [OF x])
  have v: "fence_view db' = (fence_view db)\<lparr>wg_items := put_item (x\<lparr>r_outcome := oc\<rparr>) (db_reservations db)\<rparr>"
    using x by (simp add: db' e put_reservation_view)
  have "same_fence x r" using allowed by (simp add: same_fence_def split: if_splits)
  then show ?thesis
    using assms(1) allowed x
    by (cases "oc = Accepted") (simp_all add: registry_record_outcome_def v written_def writable_def)
qed

lemma simulate_begin:
  assumes "wake_begin_native_attempt r now later db = (Inr res, db')" and "succeeded res"
  shows "ephemeral_run P (WBegin r) now later (fence_view db) = (True, fence_view db')"
  using assms
  by (auto simp: wake_begin_native_attempt_def registry_begin_def succeeded_def Let_def written_def
      writable_def put_reservation_view split: if_splits sum.splits)

lemma store_simulates:
  assumes "relay_codex_wake_transition P op now later db = (Inr res, db')" and "succeeded res"
    and "shared_request P op"
  shows "ephemeral_run P op now later (fence_view db) = (True, fence_view db')"
proof -
  obtain items g where "db_wake_marker db = Some g" "items = db_reservations db"
    "wake_dispatch items g op now later db = (Inr res, db')"
    using transition_cases [OF assms(1,2)] by metis
  with assms(2,3) show ?thesis
    by (cases op) (auto simp del: ephemeral_run.simps simp: wake_dispatch_def
        intro: simulate_reserve simulate_correlate simulate_release_delivery simulate_release
          simulate_outcome simulate_begin)
qed

text \<open>Replacing is where the two differ: the store leaves the new reservation reserved, the registry
  prepared.\<close>

lemma store_replaces_reserved:
  assumes "relay_codex_wake_transition P (WReplace r s c) now later db = (Inr (WItem i), db')"
    and "valid_fields P (r_recipient_endpoint_id r) (r_delivery_id r) s c"
  shows "r_outcome i = Reserved"
    and "fst (registry_replace P r s c now (fence_view db) empty_db) = Some (i\<lparr>r_outcome := Prepared\<rparr>)"
proof -
  obtain g where "db_wake_marker db = Some g" "wake_replace g r s c db = (Inr (WItem i), db')"
    using transition_cases [OF assms(1)] by (auto simp: succeeded_def wake_dispatch_def)
  with assms(2) show "r_outcome i = Reserved"
    and "fst (registry_replace P r s c now (fence_view db) empty_db) = Some (i\<lparr>r_outcome := Prepared\<rparr>)"
    by (auto simp: wake_replace_def registry_replace_def Let_def written_def writable_def split: if_splits)
qed

end
