(* ===== verification/Codex_Guarantees.thy ===== *)
theory Codex_Guarantees
  imports Codex_Simulation Relay_Fence_Guarantees
begin

text \<open>
  What the guard in front of native Codex wakes promises, for a registry over the store and for an
  ephemeral one alike, and how far the two agree.
\<close>

text \<open>C38: a native attempt begins at most once for a generation. Once beginning it has succeeded,
  no reservation of that endpoint and generation can be begun again, whatever the registry is asked
  to do and whatever else happens to the Relay database in between.\<close>

theorem attempt_begins_once:
  fixes W :: relay_world
  assumes "db_inv db" and "wg_relay g \<or> registry_ok g"
    and "registry_begin (rw_printable W) r now later g db = (Some r', g1, db1)"
    and "list_all proper_call calls"
    and "fold (wake_exec W) calls (g1, db1) = (g2, db2)"
    and "r_recipient_endpoint_id q = r_recipient_endpoint_id r" "r_generation q = r_generation r"
  shows "fst (registry_begin (rw_printable W) q now' later' g2 db2) = None"
proof (rule ccontr)
  assume "fst (registry_begin (rw_printable W) q now' later' g2 db2) \<noteq> None"
  then obtain q' g3 db3 where "registry_begin (rw_printable W) q now' later' g2 db2 = (Some q', g3, db3)"
    by (metis not_None_eq prod.collapse)
  then have armed: "system_armed (g2, db2) (r_recipient_endpoint_id r, r_generation r)"
    using registry_begin_armed [of W q now' later' g2 db2] assms(6,7) by simp
  have ok: "wake_system_ok (g, db)" using assms(1,2) by (auto simp: wake_system_ok_def)
  note spent = registry_begin_spends [OF ok assms(3)]
  have "\<not> system_armed (fold (wake_exec W) calls (g1, db1)) (r_recipient_endpoint_id r, r_generation r)"
    by (rule wake_system.spent_run [OF spent(3) assms(4) spent(1,2)])
  with armed assms(5) show False by simp
qed

definition ex_registry :: wake_registry where
  "ex_registry = \<lparr>wg_items = [ex_reservation], wg_generation = 1, wg_usable = True, wg_initialized = None,
     wg_relay = False, wg_file = False\<rparr>"

theorem attempt_begins_once_witness:
  "\<exists>r1 g1 db1. registry_begin (\<lambda>_. True) ex_reservation 7 8 ex_registry empty_db = (Some r1, g1, db1)
     \<and> r_outcome r1 = Uncertain
     \<and> fst (registry_begin (\<lambda>_. True) ex_reservation 9 9
          (fst (fold (wake_exec ex_world) [WakeRelease [r1] 9] (g1, db1)))
          (snd (fold (wake_exec ex_world) [WakeRelease [r1] 9] (g1, db1)))) = None"
proof -
  define r1 :: codex_reservation where
    "r1 = ex_reservation\<lparr>r_outcome := Uncertain, r_retry_not_before := Some (8 + wake_retry_cooldown)\<rparr>"
  define g1 where "g1 = ex_registry\<lparr>wg_items := [r1]\<rparr>"
  have begin_runs: "registry_begin (rw_printable ex_world) ex_reservation 7 8 ex_registry empty_db = (Some r1, g1, empty_db)"
    by (simp add: registry_begin_def ex_registry_def ex_reservation_def row_get_def Let_def written_def
        writable_def put_item_def row_upd_def r1_def g1_def)
  have "registry_ok ex_registry"
    by (simp add: registry_ok_def ex_registry_def ex_reservation_def max_reservations_def)
  then have "fst (registry_begin (rw_printable ex_world) ex_reservation 9 9
      (fst (fold (wake_exec ex_world) [WakeRelease [r1] 9] (g1, empty_db)))
      (snd (fold (wake_exec ex_world) [WakeRelease [r1] 9] (g1, empty_db)))) = None"
    by (intro attempt_begins_once [OF db_inv_empty _ begin_runs, where calls = "[WakeRelease [r1] 9]"]) simp_all
  moreover have "rw_printable ex_world = (\<lambda>_. True)" by (simp add: ex_world_def)
  ultimately show ?thesis using begin_runs by (auto simp: r1_def)
qed

text \<open>C39: the durable store simulates the ephemeral registry: a transition of the store that succeeds
  does to the reservations and to the generation counter exactly what the ephemeral registry does
  when it serves the same request.\<close>

theorem store_simulates_registry:
  assumes "relay_codex_wake_transition P op now later db = (Inr res, db')" and "succeeded res"
    and "shared_request P op"
  shows "ephemeral_run P op now later (fence_view db) = (True, fence_view db')"
  by (rule store_simulates [OF assms])

theorem store_simulates_registry_witness:
  "ephemeral_run (\<lambda>_. True) ex_reserve 7 7 (fence_view ex_wake) = (True, fence_view ex_reserved)"
proof (rule store_simulates_registry)
  show "relay_codex_wake_transition (\<lambda>_. True) ex_reserve 7 7 ex_wake = (Inr (WItem ex_reservation), ex_reserved)"
    by (simp add: ex_reserve_transition ex_reserved_def)
  show "shared_request (\<lambda>_. True) ex_reserve"
    by (simp add: ex_reserve_def valid_fields_def ex_endpoint_def hex_suffixed_def is_hex_def is_digit_def
        bounded_printable_def numeral_eq_Suc)
qed (simp add: succeeded_def)

text \<open>Replacing a reservation is where the two differ: the store leaves the replacement reserved,
  so that it must be re-armed before it can begin, while the ephemeral registry leaves it
  prepared.\<close>

theorem replace_outcomes_differ:
  assumes "relay_codex_wake_transition P (WReplace r s c) now later db = (Inr (WItem i), db')"
    and "valid_fields P (r_recipient_endpoint_id r) (r_delivery_id r) s c"
  shows "r_outcome i = Reserved
     \<and> fst (registry_replace P r s c now (fence_view db) empty_db) = Some (i\<lparr>r_outcome := Prepared\<rparr>)
     \<and> fst (registry_begin P i now' later' (fence_view db') empty_db) = None"
  using store_replaces_reserved [OF assms] by (simp add: registry_begin_def Let_def)

end
