(* ===== verification/Service_Sanity.thy ===== *)
theory Service_Sanity
  imports Relay_Service_Machine Relay_Frames
begin

text \<open>
  What the checks of the service buy: in a database that only the service has written, every session
  has a known runtime, an opaque session reference and a well-formed name, and every message a known
  sender runtime and a payload within the limit. The transactions are taken one by one: most write
  no such field, and those that do take it from a checked argument or from a row.
\<close>

definition session_sane :: "relay_session \<Rightarrow> bool" where
  "session_sane s \<longleftrightarrow> s_runtime s \<in> set relay_runtimes \<and> opaque_text 255 (s_session_ref s)
     \<and> (case s_alias s of None \<Rightarrow> True | Some a \<Rightarrow> is_alias a)"

definition message_sane :: "relay_message \<Rightarrow> bool" where
  "message_sane m \<longleftrightarrow> length (m_payload m) \<le> message_max_chars \<and> m_sender_runtime m \<in> set relay_runtimes"

definition store_sane :: "relay_db \<Rightarrow> bool" where
  "store_sane db \<longleftrightarrow> list_all session_sane (db_sessions db) \<and> list_all message_sane (db_messages db)"

text \<open>A step that writes no such field.\<close>

definition sane_step :: "relay_db \<Rightarrow> relay_db \<Rightarrow> bool" where
  "sane_step db db' \<longleftrightarrow> (store_sane db \<longrightarrow> store_sane db')"

named_theorems sane \<open>a transaction keeps the store sane\<close>

lemma sane_refl [simp]: "sane_step db db"
  by (simp add: sane_step_def)

lemma sane_trans: "sane_step a b \<Longrightarrow> sane_step b c \<Longrightarrow> sane_step a c"
  by (simp add: sane_step_def)

lemma sane_same: "db_sessions db' = db_sessions db \<Longrightarrow> db_messages db' = db_messages db \<Longrightarrow> sane_step db db'"
  by (simp add: sane_step_def store_sane_def)

lemma list_all_row_upd:
  "list_all P rows \<Longrightarrow> (\<And>r. r \<in> set rows \<Longrightarrow> P r \<Longrightarrow> P (f r)) \<Longrightarrow> list_all P (row_upd pk k f rows)"
  by (auto simp: list_all_iff row_upd_def)

lemma list_all_rows_where:
  "list_all P rows \<Longrightarrow> (\<And>r. r \<in> set rows \<Longrightarrow> P r \<Longrightarrow> P (f r)) \<Longrightarrow> list_all P (rows_where Q f rows)"
  by (auto simp: list_all_iff rows_where_def)

lemma row_get_sane: "list_all P rows \<Longrightarrow> row_get pk k rows = Some r \<Longrightarrow> P r"
  using row_get_SomeD(1) [of pk k rows r] by (auto simp: list_all_iff)

lemma sane_upd_delivery [simp]: "sane_step db (upd_delivery k f db)"
  by (simp add: sane_same upd_delivery_def)

lemma sane_upd_opencode [simp]: "sane_step db (upd_opencode k f db)"
  by (simp add: sane_same upd_opencode_def)

lemma sane_expire [simp]: "sane_step db (expire_message_deliveries m db)" "sane_step db (expire_sweep c db)"
  by (simp_all add: sane_same expire_message_deliveries_def expire_sweep_def)

text \<open>A session put back with the fields the invariant speaks of unchanged, or without its name.\<close>

definition session_kept :: "relay_session \<Rightarrow> relay_session \<Rightarrow> bool" where
  "session_kept s t \<longleftrightarrow> s_runtime t = s_runtime s \<and> s_session_ref t = s_session_ref s
     \<and> (s_alias t = s_alias s \<or> s_alias t = None)"

lemma session_kept_sane: "session_kept s t \<Longrightarrow> session_sane s \<Longrightarrow> session_sane t"
  by (auto simp: session_kept_def session_sane_def)

lemma find_session_sane: "find_session db c r s = Some x \<Longrightarrow> store_sane db \<Longrightarrow> session_sane x"
  by (auto simp: find_session_def store_sane_def list_all_iff find_Some_iff)

lemma get_session_sane: "get_session db k = Some x \<Longrightarrow> store_sane db \<Longrightarrow> session_sane x"
  by (auto simp: store_sane_def dest: row_get_sane)

lemma sane_put_session:
  assumes "store_sane db \<Longrightarrow> session_sane t"
  shows "sane_step db (db\<lparr>db_sessions := row_upd s_id k (\<lambda>_. t) (db_sessions db)\<rparr>)"
  using assms by (auto simp: sane_step_def store_sane_def intro: list_all_row_upd)

lemma sane_upd_session:
  assumes "\<And>s. session_kept s (f s)"
  shows "sane_step db (upd_session k f db)"
  using assms session_kept_sane
  by (auto simp: sane_step_def store_sane_def upd_session_def intro!: list_all_row_upd)

section \<open>The transactions that write none of it\<close>

lemma sane_status: "sane_step db (snd (relay_status_in_session H m c off n db))"
  by (auto simp: relay_status_in_session_def Let_def split: option.split sum.split)

lemma sane_quiet [sane]:
  "sane_step db (snd (relay_message_status H k off n c db))"
  "sane_step db (snd (relay_ack k tok c db))"
  "sane_step db (snd (relay_ack_by_receipt H k tok c db))"
  by (auto simp: relay_message_status_def relay_ack_def relay_ack_by_receipt_def sane_status
      split: option.split prod.split sum.split)

lemma sane_work_refs [sane]:
  "sane_step db (snd (relay_refresh_structural_work_refs r s ct ws c db))"
  "sane_step db (snd (relay_attach_work_ref r s ct w c al db))"
  "sane_step db (snd (relay_detach_work_ref r s ct k al c db))"
  by (auto simp: work_ref_opdefs Let_def intro!: sane_same split: option.split)

lemma sane_marks [sane]:
  "sane_step db (snd (relay_mark_unreachable r s ct c db))" "sane_step db (snd (relay_mark_active r s ct c db))"
  by (auto simp: relay_mark_unreachable_def relay_mark_active_def session_kept_def intro!: sane_upd_session
      split: option.split)

lemma sane_trials [sane]:
  "sane_step db (snd (relay_codex_trial_enroll e s ct i db))"
  "sane_step db (snd (relay_codex_trial_bind e i k c db))"
  "sane_step db (snd (relay_codex_trial_spend e i k c db))"
proof -
  have "sane_step db ((upd_session e (\<lambda>s. s\<lparr>s_trial_enrolled := 1\<rparr>) db)\<lparr>db_trials := ts\<rparr>)" for ts
    by (rule sane_trans [OF sane_upd_session sane_same]) (auto simp: session_kept_def)
  then show "sane_step db (snd (relay_codex_trial_enroll e s ct i db))"
    by (auto simp: relay_codex_trial_enroll_def Let_def split: option.split)
  show "sane_step db (snd (relay_codex_trial_bind e i k c db))"
    "sane_step db (snd (relay_codex_trial_spend e i k c db))"
    by (auto simp: relay_codex_trial_bind_def relay_codex_trial_spend_def upd_trial_def
        intro!: sane_same split: option.split)
qed

lemma sane_wake [sane]:
  "sane_step db (snd (relay_codex_wake_transition P op c l db))"
  "sane_step db (snd (relay_codex_wake_initialize rs db))"
proof -
  have drops: "db_sessions (fold (\<lambda>r. drop_reservation (f r)) xs d) = db_sessions d
      \<and> db_messages (fold (\<lambda>r. drop_reservation (f r)) xs d) = db_messages d" for f xs d
    by (induction xs arbitrary: d) (auto simp: drop_reservation_def)
  have "db_sessions (snd (wake_dispatch items g op c l db)) = db_sessions db
      \<and> db_messages (snd (wake_dispatch items g op c l db)) = db_messages db" for items g
    using drops by (cases op)
      (auto simp: wake_dispatch_def wake_opdefs Let_def put_reservation_def drop_reservation_def
        split: option.split sum.split reconciliation.split)
  then show "sane_step db (snd (relay_codex_wake_transition P op c l db))"
    by (auto simp: relay_codex_wake_transition_def intro!: sane_same split: sum.split option.split)
  show "sane_step db (snd (relay_codex_wake_initialize rs db))"
    by (auto simp: relay_codex_wake_initialize_def intro!: sane_same)
qed

lemma sane_trace [sane]: "sane_step db (snd (relay_record_trace_event redact a fresh c db))"
proof -
  have "sane_step db (snd (relay_trace_record redact a fresh c db))"
    by (auto simp: relay_trace_record_def Let_def upd_delivery_def intro!: sane_same
        split: option.split prod.split)
  then show ?thesis
    by (auto simp: relay_record_trace_event_def split: prod.split sum.split relay_error.split trace_result.split)
qed

lemma sane_opencode [sane]: "sane_step db (snd (relay_opencode_wake fmt op q tm c wl db))"
proof -
  have "sane_step db (db\<lparr>db_opencode := os, db_sessions := row_upd s_id k (\<lambda>_. t) (db_sessions db)\<rparr>)"
    if "store_sane db \<Longrightarrow> session_sane t" for os k t
    using that by (auto simp: sane_step_def store_sane_def intro: list_all_row_upd)
  moreover have "session_sane s" if "opencode_binding db q c b = Inr (s, w)" "store_sane db" for b s w
    using that get_session_sane by (auto simp: opencode_binding_def Let_def split: option.splits if_splits)
  ultimately show ?thesis
    by (auto simp: relay_opencode_wake_def Let_def session_sane_def split: sum.split prod.split)
qed

section \<open>Sessions\<close>

lemma sane_put_aliases: "sane_step db d \<Longrightarrow> sane_step db (d\<lparr>db_aliases := as\<rparr>)"
  by (simp add: sane_step_def store_sane_def)

lemma sane_more_opencode: "sane_step db d \<Longrightarrow> sane_step db (upd_opencode k f d)"
  by (rule sane_trans [OF _ sane_upd_opencode])

lemma sane_close [sane]: "sane_step db (snd (relay_close_session r s ct c db))"
proof -
  have "sane_step db (upd_session (s_id x) (\<lambda>_. x\<lparr>s_state := Closed, s_closed_at := t, s_alias := None\<rparr>) db)"
    if "find_session db ct r s = Some x" for x t
    using find_session_sane [OF that] by (auto simp: upd_session_def session_sane_def intro!: sane_put_session)
  then show ?thesis
    by (auto simp: relay_close_session_def Let_def split: option.split
        intro!: sane_put_aliases sane_more_opencode)
qed

lemma sane_name:
  assumes "case al of None \<Rightarrow> True | Some a \<Rightarrow> is_alias a"
  shows "sane_step db (snd (relay_name_session r s ct al rep c db))"
proof -
  have put: "sane_step db (db\<lparr>db_sessions := row_upd s_id (s_id x) (\<lambda>_. x\<lparr>s_alias := al\<rparr>) rows, db_aliases := as\<rparr>)"
    if "find_session db ct r s = Some x" and "list_all session_sane (db_sessions db) \<Longrightarrow> list_all session_sane rows"
    for x rows as
    using find_session_sane [OF that(1)] assms that(2)
    by (auto simp: sane_step_def store_sane_def session_sane_def intro!: list_all_row_upd split: option.splits)
  have unnamed: "list_all session_sane (rows_where Q (\<lambda>s. s\<lparr>s_alias := None\<rparr>) (db_sessions db))"
    if "list_all session_sane (db_sessions db)" for Q
    using that by (rule list_all_rows_where) (auto simp: session_sane_def)
  show ?thesis
    using put unnamed by (cases al) (auto simp: relay_name_session_def Let_def split: option.split)
qed

section \<open>Messages\<close>

lemma sane_insert:
  assumes "insert_message m d db = (x, db')" "store_sane db \<Longrightarrow> message_sane m"
  shows "sane_step db db'"
  using assms by (auto simp: insert_message_def sane_step_def store_sane_def split: if_splits)

lemma sane_send:
  assumes "length (sa_payload a) \<le> message_max_chars" "sa_sender_runtime a \<in> set relay_runtimes"
  shows "sane_step db (snd (relay_send H a fresh c db))"
proof -
  have "sane_step db (snd (relay_status_in_session H m c 0 None d))"
    if "insert_message m' x db = (y, d)" "m_payload m' = sa_payload a" "m_sender_runtime m' = sa_sender_runtime a"
    for m m' x y d
    using that assms by (auto intro: sane_trans [OF sane_insert sane_status] simp: message_sane_def)
  moreover have "sane_step db d"
    if "insert_message m' x db = (y, d)" "m_payload m' = sa_payload a" "m_sender_runtime m' = sa_sender_runtime a"
    for m' x y d
    using that assms by (auto intro: sane_insert simp: message_sane_def)
  ultimately show ?thesis
    by (auto simp: relay_send_def Let_def sane_status split: option.split sum.split prod.split)
qed

lemma sane_create_reply:
  assumes "length (ra_payload a) \<le> message_max_chars" "store_sane db \<Longrightarrow> session_sane sender"
  shows "sane_step db (snd (create_reply H a d m sender fresh c db))"
proof -
  have one: "sane_step db e"
    if "insert_message m' x db = (y, e)" "m_payload m' = ra_payload a" "m_sender_runtime m' = s_runtime sender"
    for m' x y e
    using that assms by (auto intro!: sane_insert simp: message_sane_def session_sane_def)
  have "sane_step db (snd (relay_status_in_session H m' c 0 None e))"
    "sane_step db (snd (relay_status_in_session H m' c 0 None (upd_delivery k f e)))"
    if "insert_message m' x db = (y, e)" "m_payload m' = ra_payload a" "m_sender_runtime m' = s_runtime sender"
    for m' x y e k f
    using one [OF that] by (blast intro: sane_trans sane_status sane_upd_delivery)+
  with one show ?thesis
    by (auto simp: create_reply_def Let_def split: sum.split prod.split)
qed

lemma sane_reply:
  assumes "length (ra_payload a) \<le> message_max_chars"
  shows "sane_step db (snd (relay_reply_atomic H a fresh c db))"
proof -
  have "sane_step db (snd (create_reply H a d m sender fresh c db))" if "reply_sender db d = Inr sender" for d m sender
    using that by (intro sane_create_reply [OF assms])
      (auto simp: reply_sender_def session_by_endpoint_def split: option.splits if_splits
        dest: get_session_sane)
  then show ?thesis
    by (auto simp: relay_reply_atomic_def sane_status split: option.split sum.split prod.split)
qed

section \<open>The turn\<close>

lemma sane_guard: "opencode_guard env a c db = (x, db1) \<Longrightarrow> sane_step db db1"
  by (auto simp: opencode_guard_def Let_def split: option.splits sum.splits prod.splits if_splits)

lemma sane_transition:
  assumes "scope_transition a db = (Inr (registered, g), db1)"
  shows "sane_step db db1" and "registered = Some s \<Longrightarrow> store_sane db \<Longrightarrow> session_sane s"
proof -
  have moved: "sane_step db (db\<lparr>db_sessions := row_upd s_id k (\<lambda>_. x\<lparr>s_container_ref := ct\<rparr>) (db_sessions db),
      db_generations := gs\<rparr>)" "store_sane db \<Longrightarrow> session_sane (x\<lparr>s_container_ref := ct\<rparr>)"
    if "find_session db p r ref = Some x" for x k ct gs p r ref
    using find_session_sane [OF that]
    by (auto simp: sane_step_def store_sane_def session_sane_def intro!: list_all_row_upd)
  show "sane_step db db1"
    using assms by (auto simp: scope_transition_def Let_def moved split: option.splits if_splits)
  show "registered = Some s \<Longrightarrow> store_sane db \<Longrightarrow> session_sane s"
    using assms by (auto simp: scope_transition_def Let_def moved split: option.splits if_splits
        dest: find_session_sane)
qed

lemma sane_register:
  assumes "register_session env a c registered db = (x, db1)" "store_sane db"
    and "\<And>s. registered = Some s \<Longrightarrow> session_sane s"
    and "ta_register_session a \<Longrightarrow> ta_runtime a \<in> set relay_runtimes \<and> opaque_text 255 (ta_session_ref a)"
  shows "store_sane db1"
proof -
  have "store_sane (db\<lparr>db_sessions := row_upd s_id k (\<lambda>_. t) (db_sessions db)\<rparr>)"
    if "registered = Some s" "session_kept s t" for s t k
    using sane_put_session [of db t k] assms(2) session_kept_sane [OF that(2) assms(3) [OF that(1)]]
    by (simp add: sane_step_def)
  moreover have "store_sane (db\<lparr>db_sessions := db_sessions db @ [new_session env a c]\<rparr>)" if "ta_register_session a"
    using assms(2) assms(4) [OF that] by (simp add: store_sane_def session_sane_def new_session_def)
  ultimately show ?thesis
    using assms(1,2)
    by (auto simp: register_session_def Let_def session_kept_def split: option.splits if_splits)
qed

lemma sane_deliveries: "sane_step db (snd (turn_deliveries env a c s g w db))"
proof -
  have "db_sessions (fold (claim_one a c s) xs d) = db_sessions d
      \<and> db_messages (fold (claim_one a c s) xs d) = db_messages d" for xs d
    by (induction xs arbitrary: d) (auto simp: claim_one_def upd_delivery_def)
  then have "sane_step d (claim_all env a c s w xs d)" for xs d
    by (auto simp: claim_all_def Let_def upd_opencode_def intro!: sane_same split: option.split)
  then show ?thesis
    by (auto simp: turn_deliveries_def Let_def intro: sane_trans [OF sane_expire(2)])
qed

lemma sane_turn:
  assumes "ta_register_session a \<Longrightarrow> ta_runtime a \<in> set relay_runtimes \<and> opaque_text 255 (ta_session_ref a)"
  shows "sane_step db (snd (relay_turn env a c db))"
proof -
  have body: "store_sane d3"
    if "opencode_guard env a c db = (x, d1)" "scope_transition a d1 = (Inr (registered, g), d2)"
      "register_session env a c registered d2 = (y, d3)" "store_sane db" for x d1 registered g d2 y d3
  proof (rule sane_register [OF that(3)])
    have "store_sane d1" using sane_guard [OF that(1)] that(4) by (simp add: sane_step_def)
    then show "store_sane d2" "\<And>s. registered = Some s \<Longrightarrow> session_sane s"
      using sane_transition [OF that(2)] by (auto simp: sane_step_def)
  qed (use assms in simp)
  then have "sane_step db d3" "sane_step db (snd (turn_deliveries env a c s g' w d3))"
    if "opencode_guard env a c db = (x, d1)" "scope_transition a d1 = (Inr (registered, g), d2)"
      "register_session env a c registered d2 = (y, d3)" for x d1 registered g d2 y d3 s g' w
    using that sane_deliveries [of d3] by (auto simp: sane_step_def)
  then have "sane_step db (snd (turn_body env a c db))"
    by (auto simp: turn_body_def sane_guard split: sum.split prod.split)
  then show ?thesis
    by (auto simp: relay_turn_def split: prod.split sum.split)
qed

lemma sane_context: "sane_step db (snd (relay_opencode_context env q n c db))"
  unfolding relay_opencode_context_def by (rule sane_turn) simp

section \<open>The service\<close>

lemma sane_checked:
  "(\<And>x. r = Inr x \<Longrightarrow> sane_step db (snd (k x))) \<Longrightarrow> sane_step db (snd (checked r db k))"
  by (cases r) simp_all

lemma sane_trace_event: "sane_step db (snd (service_record_trace_event E a fresh c db))"
  by (simp add: record_trace_runs sane)

lemma sane_service_turn: "sane_step db (snd (service_turn E env q c l db))"
  unfolding service_turn_def
proof (rule sane_checked)
  fix a assume "check_turn E q = Inr a"
  then have "sane_step db (snd (relay_turn env a c db))"
    by (intro sane_turn) (auto simp: check_turn_def andthen_Inr_iff)
  then have "sane_step db d" "sane_step db e"
    if "relay_turn env a c db = (x, d)" "relay_refresh_structural_work_refs r s ct ws l d = (y, e)" for x d r s ct ws y e
    using that sane_work_refs(1) [of d r s ct ws l] by (auto intro: sane_trans)
  moreover have "sane_step db d" if "relay_turn env a c db = (x, d)" for x d
    using that \<open>sane_step db (snd (relay_turn env a c db))\<close> by simp
  ultimately show "sane_step db (snd (case relay_turn env a c db of
          (Inl e, db1) \<Rightarrow> (Inl e, db1)
        | (Inr response, db1) \<Rightarrow>
            if tc_structural q = NoRefs then (Inr (response, Unchanged), db1)
            else
              (case structural_input E (tc_structural q) of
                 Inl _ \<Rightarrow> (Inr (response, Unavailable), db1)
               | Inr refs \<Rightarrow>
                   (case relay_refresh_structural_work_refs (ta_runtime a) (ta_session_ref a)
                           (ta_container_ref a) refs l db1 of
                      (Inl _, db2) \<Rightarrow> (Inr (response, Unavailable), db2)
                    | (Inr views, db2) \<Rightarrow> (Inr (response, Complete views), db2)))))"
    by (simp split: sum.split prod.split)
qed

lemma sane_service_opencode: "sane_step db (snd (service_opencode_wake E op q tm fresh c w l db))"
proof -
  have "sane_step db d" "sane_step db (snd (service_record_trace_event E e fresh l d))"
    if "relay_opencode_wake (sv_fmt E) op r tm c w db = (x, d)" for r x d e
    using that sane_opencode [of db "sv_fmt E" op r tm c w] sane_trace_event by (auto intro: sane_trans)
  then show ?thesis
    unfolding service_opencode_wake_def
    by (intro sane_checked) (simp split: sum.split prod.split option.split)
qed

lemma sane_service_send: "sane_step db (snd (service_send E q uuid fresh c db))"
  unfolding service_send_def
  by (intro sane_checked sane_send) (auto simp: check_send_def andthen_Inr_iff dest: stored_payload_Inr)

lemma sane_service_reply: "sane_step db (snd (service_reply E q fresh c db))"
  unfolding service_reply_def
  by (intro sane_checked sane_reply) (auto simp: check_reply_def andthen_Inr_iff dest: stored_payload_Inr)

lemma sane_service_name: "sane_step db (snd (service_name_session E r s ct al rep c db))"
proof -
  have "case a of None \<Rightarrow> True | Some x \<Rightarrow> is_alias x" if "optional (\<lambda>v. validate_alias (Some v)) al = Inr a" for a
    using that by (auto simp: optional_Inr_iff validate_alias_Inr split: option.splits)
  then show ?thesis
    unfolding service_name_session_def by (auto intro!: sane_checked sane_name)
qed

lemma sane_service_exec: "sane_step db (service_exec E call db)"
  by (cases call)
    (auto simp: service_message_status_def service_acknowledge_def service_ack_by_receipt_def
      service_close_session_def service_mark_unreachable_def service_mark_active_def
      service_attach_work_ref_def service_detach_work_ref_def service_administer_work_ref_def
      service_enroll_trial_def service_bind_trial_def service_spend_trial_def
      service_opencode_context_def sane_service_turn sane_service_opencode sane_service_send
      sane_service_reply sane_service_name sane_trace_event sane_context sane Let_def
      intro!: sane_checked)

interpretation service_fields: guarded_machine "service_exec E" store_sane for E
  using sane_service_exec by unfold_locales (simp add: sane_step_def)

end
