(* ===== verification/Relay_Service_Guarantees.thy ===== *)
theory Relay_Service_Guarantees
  imports Service_Sanity Relay_Contracts
begin

text \<open>
  What the checked boundary of Relay promises: every service call is a short run of the store, the
  rows only ever hold checked values, recipients have exactly one spelling, references and work
  identifiers reach a normal form, and one input the boundary lets through makes an acknowledgement
  fail with the wrong error.
\<close>

section \<open>The service and the store\<close>


text \<open>C37: the rows are well-typed: in a database only the service has written, every session has a
  known runtime, an opaque reference of at most 255 characters and a well-formed name, and every
  message a known sender runtime and a payload of at most 16000 characters.\<close>

theorem service_rows_well_typed: "store_sane (fold (service_exec E) calls empty_db)"
  by (rule service_fields.run_inv) (simp add: store_sane_def empty_db_def)

section \<open>Recipients\<close>

text \<open>C40: recipients round-trip: the recipients the parser can produce are exactly the valid ones, and
  each of them is read back from its printed form.\<close>

theorem selector_round_trip:
  "((\<exists>v. parse_selector v = Inr (runtime, kind, target)) \<longleftrightarrow> valid_selector runtime kind target)
   \<and> (parse_selector (print_selector runtime kind target) = Inr (runtime, kind, target)
        \<longleftrightarrow> valid_selector runtime kind target)"
  using parse_selector_valid parse_print_valid by blast

section \<open>Containers\<close>

text \<open>Canonicalising a container reference again changes nothing exactly when the lower-cased
  repository does not end in another \<open>.git\<close>: one pass removes one suffix only.\<close>

theorem canonical_container_settles:
  assumes "lower_law lower"
  shows "canonicalize_container_ref lower (canonicalize_container_ref lower (Some v))
           = canonicalize_container_ref lower (Some v)
     \<longleftrightarrow> (case github_ref v of None \<Rightarrow> True | Some (owner, r) \<Rightarrow> \<not> ends_git (lower r))"
  using canonical_text_again [OF assms] by (simp add: canonicalize_container_ref_def)

section \<open>Work references\<close>

text \<open>The loop over legacy work references computes its specification: the first five distinct
  normal forms, in the order of their first occurrence.\<close>

theorem work_refs_are_first_five:
  "normalize_work_refs cf (PList items) = take max_work_refs (first_occurrences (normal_texts cf items))
   \<and> distinct (normalize_work_refs cf (PList items))
   \<and> list_all normal_ref (normalize_work_refs cf (PList items))"
  using normalize_work_refs_take [of cf items] normalize_work_refs_shape(1) [of cf "PList items"]
    normalize_work_refs_normal [of _ cf "PList items"] normalize_work_ref_normal(1)
  by (auto simp: list_all_iff)

text \<open>Normalised work references are stable: normalising them again gives the same list.\<close>

theorem work_refs_settle:
  assumes "casefold_law cf"
  shows "normalize_work_refs cf (PList (map PText (normalize_work_refs cf refs))) = normalize_work_refs cf refs"
  by (rule normalize_work_refs_again [OF assms])

text \<open>The key of a readable work reference identifies its two parts: two references have the same
  key only if both parts agree, unless SHA-256 collides on the texts around the zero character.\<close>

theorem readable_keys_identify:
  assumes "readable_work_ref H nfc redact s l = Inr r" and "readable_work_ref H nfc redact s' l' = Inr r'"
    and "H (rr_scope_ref r @ 0 # rr_local_ref r) = H (rr_scope_ref r' @ 0 # rr_local_ref r')
           \<Longrightarrow> rr_scope_ref r @ 0 # rr_local_ref r = rr_scope_ref r' @ 0 # rr_local_ref r'"
  shows "rr_key r = rr_key r' \<longleftrightarrow> rr_scope_ref r = rr_scope_ref r' \<and> rr_local_ref r = rr_local_ref r'"
proof -
  have "0 \<notin> set (rr_scope_ref r)" "rr_key r = work_key H (rr_scope_ref r) (rr_local_ref r)"
    "0 \<notin> set (rr_scope_ref r')" "rr_key r' = work_key H (rr_scope_ref r') (rr_local_ref r')"
    using assms(1,2) by (auto simp: readable_work_ref_def split: sum.splits dest: readable_part_no_zero)
  with assms(3) work_key_parts [of "rr_scope_ref r" "rr_local_ref r" "rr_scope_ref r'" "rr_local_ref r'"]
  show ?thesis by (auto simp: work_key_def)
qed

section \<open>A receipt outside ASCII\<close>

text \<open>A receipt with a character outside ASCII passes the checks of the boundary and then makes the
  acknowledgement of a live claim fail with a \<open>TypeError\<close>, not with the conflict a wrong receipt
  gets; the database is not changed.\<close>

theorem receipt_outside_ascii_raises:
  assumes "scope E container_ref = Inr c" and "opaque_text 128 k" and "opaque_text 64 receipt"
    and "delivery_with_message db k = Some (d, m)" and "live_claim d m current"
    and "list_ex (\<lambda>x. 128 \<le> x) receipt"
  shows "service_ack_by_receipt E k receipt container_ref current db = (Inl TypeError, db)"
proof -
  have "compare_digest x receipt = Inl TypeError" for x
    using assms(6) by (force simp: compare_digest_def list_ex_iff list_all_iff)
  then show ?thesis
    using assms(1-5)
    by (auto simp: service_ack_by_receipt_def relay_ack_by_receipt_def live_claim_def split: option.splits)
qed

definition ex_service :: service_env where
  "ex_service = \<lparr>sv_hash = (\<lambda>s. s), sv_redact = (\<lambda>s. s), sv_lower = lower_ascii, sv_nfc = (\<lambda>s. s),
     sv_printable = (\<lambda>_. True), sv_fmt = (\<lambda>_. [116])\<rparr>"

end
