(* ===== verification/Queue_Schema.thy ===== *)
theory Queue_Schema
  imports Python_Json Work_Ref
begin

text \<open>
  The tables behind history and derived memory in \<open>storage/sqlite_schema.py\<close>: source items and
  their work references, memory objects, relations, index entries with their full text rows, the
  processing tasks of the packages, the leases of thread rebuilds and the log of promotions. One
  record per row class, one field per column; a JSON column holds the parsed value.
\<close>

section \<open>Errors\<close>

text \<open>What the operations raise: \<open>KeyError\<close> of a missing row, \<open>ValueError\<close>, an insert that breaks a
  key, and the \<open>TypeError\<close> or \<open>AttributeError\<close> of a value that has not the expected shape.\<close>

datatype queue_error = MissingRow pystr | BadValue pystr | DuplicateKey | BadShape

type_synonym 'a queue_result = "(queue_error, 'a) result"

section \<open>Rows\<close>

datatype work_status = StPending | StProcessing | StCompleted | StFailed | StSkipped

record source_item =
  i_id :: pystr
  i_source_type :: pystr
  i_source_id :: pystr
  i_content_type :: pystr
  i_content :: pystr
  i_metadata :: "json_object option"
  i_occurred_at :: "time option"
  i_actor_ref :: "pystr option"
  i_role :: "pystr option"
  i_container_ref :: "pystr option"
  i_thread_ref :: "pystr option"
  i_source_ref :: "pystr option"
  i_artifact_kind :: "pystr option"
  i_visibility :: "pystr option"
  i_agent_ref :: "pystr option"
  i_use_case :: "pystr option"
  i_status :: work_status
  i_attempts :: int
  i_claimed_by :: "pystr option"
  i_claimed_at :: "time option"
  i_lease_expires_at :: "time option"
  i_completed_at :: "time option"
  i_error :: "pystr option"
  i_next_attempt_at :: "time option"
  i_thread_position :: "int option"
  i_forgotten_at :: "time option"
  i_forgotten_by :: "pystr option"
  i_forgotten_reason :: "pystr option"
  i_source_turn_id :: "pystr option"
  i_relay_name :: "pystr option"
  i_relay_attribution_state :: pystr
  i_created_at :: time

record memory_object =
  mo_id :: pystr
  mo_type :: pystr
  mo_schema_id :: pystr
  mo_schema_version :: pystr
  mo_payload :: json_object
  mo_envelope :: "json_object option"
  mo_lifecycle :: pystr
  mo_visibility :: "pystr option"
  mo_container_ref :: "pystr option"
  mo_actor_ref :: "pystr option"
  mo_freshness_at :: "time option"
  mo_subject :: "pystr option"
  mo_origin :: "pystr option"
  mo_origin_session_id :: "pystr option"
  mo_origin_agent_id :: "pystr option"
  mo_correction_reason :: "pystr option"
  mo_superseded_by_id :: "pystr option"
  mo_is_soft_deleted :: int
  mo_soft_deleted_at :: "time option"
  mo_soft_delete_reason :: "pystr option"
  mo_created_at :: time

record relation =
  rl_id :: pystr
  rl_from_kind :: pystr
  rl_from_id :: pystr
  rl_type :: pystr
  rl_to_kind :: pystr
  rl_to_id :: pystr

record index_entry =
  ix_id :: pystr
  ix_target_kind :: pystr
  ix_target_id :: pystr
  ix_index_type :: pystr
  ix_text_view :: pystr
  ix_text_view_name :: "pystr option"
  ix_provider_name :: "pystr option"
  ix_provider_version :: "pystr option"

record fts_row =
  ft_text_view :: pystr
  ft_index_entry_id :: pystr
  ft_target_kind :: pystr
  ft_target_id :: pystr
  ft_text_view_name :: "pystr option"
  ft_container_ref :: "pystr option"

record thread_lease =
  l_scope_key :: pystr
  l_use_case :: pystr
  l_container_ref :: pystr
  l_thread_ref :: "pystr option"
  l_visibility :: "pystr option"
  l_requested_at :: "time option"
  l_claimed_by :: "pystr option"
  l_claimed_at :: "time option"
  l_lease_expires_at :: "time option"
  l_completed_at :: "time option"
  l_watermark_at :: "time option"
  l_created_at :: time
  l_updated_at :: time

record package_task =
  k_id :: nat
  k_item_id :: pystr
  k_package :: pystr
  k_status :: work_status
  k_attempts :: int
  k_error :: "pystr option"
  k_claimed_by :: "pystr option"
  k_claimed_at :: "time option"
  k_lease_expires_at :: "time option"
  k_completed_at :: "time option"
  k_next_attempt_at :: "time option"
  k_item_created_at :: "time option"
  k_created_at :: time

record promotion_log =
  pl_id :: pystr
  pl_memory_object_id :: pystr
  pl_from_lifecycle :: pystr
  pl_to_lifecycle :: pystr
  pl_reason :: pystr
  pl_distinct_threads_count :: nat
  pl_promoted_at :: time

record queue_db =
  q_items :: "source_item list"
  q_work_refs :: "(pystr \<times> pystr) list"
  q_memories :: "memory_object list"
  q_relations :: "relation list"
  q_index :: "index_entry list"
  q_fts :: "fts_row list"
  q_leases :: "thread_lease list"
  q_tasks :: "package_task list"
  q_promotions :: "promotion_log list"

type_synonym 'a queue_outcome = "(queue_db, queue_error, 'a) outcome"

section \<open>Reading and writing rows\<close>

text \<open>The column default of a visibility: an insert without one stores that the row is private.\<close>

definition stored_visibility :: "pystr option \<Rightarrow> pystr option" where
  "stored_visibility v = Some (case v of None \<Rightarrow> u ''private'' | Some t \<Rightarrow> t)"

abbreviation get_source :: "queue_db \<Rightarrow> pystr \<Rightarrow> source_item option" where
  "get_source db k \<equiv> row_get i_id k (q_items db)"

abbreviation get_memory :: "queue_db \<Rightarrow> pystr \<Rightarrow> memory_object option" where
  "get_memory db k \<equiv> row_get mo_id k (q_memories db)"

abbreviation get_lease :: "queue_db \<Rightarrow> pystr \<Rightarrow> thread_lease option" where
  "get_lease db k \<equiv> row_get l_scope_key k (q_leases db)"

definition upd_source :: "pystr \<Rightarrow> (source_item \<Rightarrow> source_item) \<Rightarrow> queue_db \<Rightarrow> queue_db" where
  "upd_source k f db = db\<lparr>q_items := row_upd i_id k f (q_items db)\<rparr>"

definition upd_memory :: "pystr \<Rightarrow> (memory_object \<Rightarrow> memory_object) \<Rightarrow> queue_db \<Rightarrow> queue_db" where
  "upd_memory k f db = db\<lparr>q_memories := row_upd mo_id k f (q_memories db)\<rparr>"

definition upd_task :: "nat \<Rightarrow> (package_task \<Rightarrow> package_task) \<Rightarrow> queue_db \<Rightarrow> queue_db" where
  "upd_task k f db = db\<lparr>q_tasks := row_upd k_id k f (q_tasks db)\<rparr>"

definition upd_lease :: "pystr \<Rightarrow> (thread_lease \<Rightarrow> thread_lease) \<Rightarrow> queue_db \<Rightarrow> queue_db" where
  "upd_lease k f db = db\<lparr>q_leases := row_upd l_scope_key k f (q_leases db)\<rparr>"

definition source_metadata :: "source_item \<Rightarrow> json_object" where
  "source_metadata i = (case i_metadata i of None \<Rightarrow> [] | Some d \<Rightarrow> d)"

text \<open>\<open>_to_source_item\<close>: the item as readers see it. The other columns are handed on as they are.\<close>

definition item_view :: "source_item \<Rightarrow> source_item" where
  "item_view i =
     i\<lparr>i_metadata := Some (source_metadata i),
       i_visibility := Some (case i_visibility i of None \<Rightarrow> u ''private''
                             | Some v \<Rightarrow> if v = [] then u ''private'' else v),
       i_relay_attribution_state :=
         (if i_relay_attribution_state i = [] then u ''unknown'' else i_relay_attribution_state i)\<rparr>"

section \<open>The work references of an item\<close>

text \<open>JSON values as the normalisation of work references sees them.\<close>

fun py_of_json :: "json \<Rightarrow> pyvalue" where
  "py_of_json (JText t) = PText t"
| "py_of_json (JList xs) = PList (map py_of_json xs)"
| "py_of_json JNull = PNone"
| "py_of_json _ = POther"

text \<open>\<open>_sync_source_item_work_refs_in_session\<close>: the rows of the item are replaced by the references its
  metadata names.\<close>

definition sync_work_refs ::
  "(nat \<Rightarrow> pystr) \<Rightarrow> (pystr \<Rightarrow> pystr) \<Rightarrow> pystr \<Rightarrow> json_object \<Rightarrow> queue_db \<Rightarrow> queue_db" where
  "sync_work_refs cf redact item_id metadata db =
     (let refs = work_refs_from_metadata cf redact
            (Some (\<lambda>k. map_option py_of_json (obj_get k metadata)))
      in db\<lparr>q_work_refs := filter (\<lambda>(i, _). i \<noteq> item_id) (q_work_refs db)
                             @ map (\<lambda>r. (item_id, r)) refs\<rparr>)"

end
