(* ===== verification/Memory_Store.thy ===== *)
theory Memory_Store
  imports Queue_Schema
begin

text \<open>
  Persisting what a semantic package produced (\<open>storage/sqlite_queue.py\<close>): the memory objects, their
  relations and index entries with the rows of the full text index, the freshness of the new objects,
  the patches of source item metadata, and the requests for a rebuild. NFKC normalisation and
  \<open>str.lower\<close>, case folding and the redactor are parameters.
\<close>

section \<open>What a package produces\<close>

record memory_input =
  mi_id :: pystr
  mi_type :: pystr
  mi_schema_id :: pystr
  mi_schema_version :: pystr
  mi_payload :: json_object
  mi_envelope :: "json_object option"
  mi_lifecycle :: pystr
  mi_visibility :: "pystr option"
  mi_container_ref :: "pystr option"
  mi_actor_ref :: "pystr option"
  mi_freshness_at :: "time option"
  mi_created_at :: time

record supersession_hint =
  sh_replacement_id :: pystr
  sh_memory_type :: pystr
  sh_canonical_key :: pystr
  sh_container_ref :: "pystr option"
  sh_thread_ref :: "pystr option"
  sh_visibility :: pystr

record promotion_hint =
  ph_candidate_id :: pystr
  ph_command_family :: pystr
  ph_artifact_role :: pystr
  ph_scope_kind :: pystr
  ph_scope_ref :: pystr
  ph_artifact_normalized :: pystr
  ph_container_ref :: pystr
  ph_visibility :: pystr

record process_result =
  pr_memories :: "memory_input list"
  pr_relations :: "relation list"
  pr_index :: "index_entry list"
  pr_metadata_updates :: "(pystr \<times> json_object) list"
  pr_thread_rebuild_requested :: bool
  pr_supersession_hints :: "supersession_hint list"
  pr_promotion_hints :: "promotion_hint list"

record thread_scope =
  ts_scope_key :: pystr
  ts_use_case :: pystr
  ts_container_ref :: pystr
  ts_thread_ref :: "pystr option"
  ts_visibility :: pystr

text \<open>What the transactions take from outside: the text functions, the spelling of a JSON value that
  is not a text under \<open>str\<close>, the similarity test of \<open>difflib\<close>, and the random identifiers, named by
  the row they are drawn for.\<close>

record memory_env =
  me_nfkc_lower :: "pystr \<Rightarrow> pystr"
  me_casefold :: "nat \<Rightarrow> pystr"
  me_redact :: "pystr \<Rightarrow> pystr"
  me_str :: "json \<Rightarrow> pystr"
  me_similar :: "pystr \<Rightarrow> pystr \<Rightarrow> bool"
  me_supersedes_id :: "pystr \<Rightarrow> pystr"
  me_promotion_id :: "pystr \<Rightarrow> pystr"
  me_promoted_at :: time

section \<open>Memory objects\<close>

definition extract_subject :: "memory_env \<Rightarrow> memory_input \<Rightarrow> pystr option" where
  "extract_subject E m =
     (if mi_type m \<notin> {u ''atomic_fact'', u ''fact_summary''} then None
      else
        (case obj_get (u ''subject'') (mi_payload m) of
           Some (JText raw) \<Rightarrow> if strip raw = [] then None else Some (me_nfkc_lower E (strip raw))
         | _ \<Rightarrow> None))"

definition memory_row :: "memory_env \<Rightarrow> memory_input \<Rightarrow> memory_object" where
  "memory_row E m =
     \<lparr>mo_id = mi_id m, mo_type = mi_type m, mo_schema_id = mi_schema_id m,
      mo_schema_version = mi_schema_version m, mo_payload = mi_payload m,
      mo_envelope = mi_envelope m, mo_lifecycle = mi_lifecycle m,
      mo_visibility = stored_visibility (mi_visibility m), mo_container_ref = mi_container_ref m,
      mo_actor_ref = mi_actor_ref m,
      mo_freshness_at =
        Some (case mi_freshness_at m of None \<Rightarrow> mi_created_at m | Some t \<Rightarrow> t),
      mo_subject = extract_subject E m, mo_origin = Some (u ''agent_inferred''),
      mo_origin_session_id = None, mo_origin_agent_id = None, mo_correction_reason = None,
      mo_superseded_by_id = None, mo_is_soft_deleted = 0, mo_soft_deleted_at = None,
      mo_soft_delete_reason = None, mo_created_at = mi_created_at m\<rparr>"

text \<open>Inserting rows under a primary key: one key twice breaks the whole transaction.\<close>

fun insert_rows :: "('r \<Rightarrow> 'k) \<Rightarrow> 'r list \<Rightarrow> 'r list \<Rightarrow> 'r list queue_result" where
  "insert_rows pk [] rows = Inr rows"
| "insert_rows pk (r # rs) rows =
     (if pk r \<in> pk ` set rows then Inl DuplicateKey else insert_rows pk rs (rows @ [r]))"

lemma insert_rows_Inr_iff:
  "insert_rows pk rs rows = Inr out \<longleftrightarrow>
     out = rows @ rs \<and> distinct (map pk rs) \<and> pk ` set rs \<inter> pk ` set rows = {}"
  by (induction pk rs rows rule: insert_rows.induct) auto

section \<open>Index entries\<close>

text \<open>\<open>_resolve_container_ref_in_session\<close>.\<close>

definition resolve_container :: "queue_db \<Rightarrow> pystr \<Rightarrow> pystr \<Rightarrow> pystr option queue_result" where
  "resolve_container db kind target =
     (if kind = u ''source_item'' then
        Inr (case get_source db target of None \<Rightarrow> None | Some i \<Rightarrow> i_container_ref i)
      else if kind = u ''memory_object'' then
        (case get_memory db target of
           None \<Rightarrow> Inr None
         | Some m \<Rightarrow>
             (case mo_container_ref m of
                Some c \<Rightarrow> Inr (Some c)
              | None \<Rightarrow>
                  (case mo_envelope m of
                     None \<Rightarrow> Inr None
                   | Some envelope \<Rightarrow>
                       (case obj_get (u ''scope'') envelope of
                          None \<Rightarrow> Inr None
                        | Some (JObject scope) \<Rightarrow>
                            (case obj_get (u ''container_ref'') scope of
                               Some (JText c) \<Rightarrow> Inr (Some c)
                             | _ \<Rightarrow> Inr None)
                        | Some _ \<Rightarrow> Inl BadShape))))
      else Inr None)"

definition fts_of :: "index_entry \<Rightarrow> pystr option \<Rightarrow> fts_row" where
  "fts_of e container =
     \<lparr>ft_text_view = ix_text_view e, ft_index_entry_id = ix_id e,
      ft_target_kind = ix_target_kind e, ft_target_id = ix_target_id e,
      ft_text_view_name = ix_text_view_name e, ft_container_ref = container\<rparr>"

fun insert_index :: "index_entry list \<Rightarrow> queue_db \<Rightarrow> queue_db queue_result" where
  "insert_index [] db = Inr db"
| "insert_index (e # es) db =
     (if ix_id e \<in> ix_id ` set (q_index db) then Inl DuplicateKey
      else
        let db1 = db\<lparr>q_index := q_index db @ [e]\<rparr>
        in if ix_index_type e = u ''lexical'' then
             (case resolve_container db1 (ix_target_kind e) (ix_target_id e) of
                Inl err \<Rightarrow> Inl err
              | Inr c \<Rightarrow> insert_index es (db1\<lparr>q_fts := q_fts db1 @ [fts_of e c]\<rparr>))
           else insert_index es db1)"

definition persist_rows :: "memory_env \<Rightarrow> process_result \<Rightarrow> queue_db \<Rightarrow> queue_db queue_result" where
  "persist_rows E result db =
     (case insert_rows mo_id (map (memory_row E) (pr_memories result)) (q_memories db) of
        Inl e \<Rightarrow> Inl e
      | Inr memories \<Rightarrow>
          (case insert_rows rl_id (pr_relations result) (q_relations db) of
             Inl e \<Rightarrow> Inl e
           | Inr relations \<Rightarrow>
               insert_index (pr_index result)
                 (db\<lparr>q_memories := memories, q_relations := relations\<rparr>)))"

text \<open>\<open>_delete_index_entries_for_target_in_session\<close>: the entries and their full text rows.\<close>

definition delete_index_entries :: "pystr \<Rightarrow> pystr \<Rightarrow> queue_db \<Rightarrow> queue_db" where
  "delete_index_entries kind target db =
     (let gone = filter (\<lambda>e. ix_target_kind e = kind \<and> ix_target_id e = target) (q_index db);
          lexical = ix_id ` set (filter (\<lambda>e. ix_index_type e = u ''lexical'') gone)
      in db\<lparr>q_index := filter (\<lambda>e. \<not> (ix_target_kind e = kind \<and> ix_target_id e = target)) (q_index db),
            q_fts := filter (\<lambda>f. ft_index_entry_id f \<notin> lexical) (q_fts db)\<rparr>)"

section \<open>Freshness\<close>

definition effective_time :: "source_item \<Rightarrow> time" where
  "effective_time i = (case i_occurred_at i of None \<Rightarrow> i_created_at i | Some t \<Rightarrow> t)"

definition supports :: "pystr \<Rightarrow> relation \<Rightarrow> bool" where
  "supports memory_id r \<longleftrightarrow> rl_from_kind r = u ''memory_object'' \<and> rl_from_id r = memory_id
     \<and> rl_type r = u ''supported_by''"

definition support_times :: "queue_db \<Rightarrow> pystr \<Rightarrow> time list" where
  "support_times db memory_id =
     List.map_filter (\<lambda>r. map_option effective_time (get_source db (rl_to_id r)))
       (filter (\<lambda>r. supports memory_id r \<and> rl_to_kind r = u ''source_item'') (q_relations db))"

definition derive_freshness :: "queue_db \<Rightarrow> memory_object \<Rightarrow> time" where
  "derive_freshness db m =
     fold max ((case mo_freshness_at m of None \<Rightarrow> [] | Some t \<Rightarrow> [t]) @ support_times db (mo_id m))
       (mo_created_at m)"

definition refresh_freshness :: "pystr \<Rightarrow> queue_db \<Rightarrow> queue_db" where
  "refresh_freshness memory_id db =
     (case get_memory db memory_id of
        None \<Rightarrow> db
      | Some m \<Rightarrow> upd_memory memory_id (\<lambda>r. r\<lparr>mo_freshness_at := Some (derive_freshness db m)\<rparr>) db)"

section \<open>Metadata of source items\<close>

text \<open>One patch: objects are merged one level deep, other values replaced.\<close>

definition patch_metadata :: "json_object \<Rightarrow> json_object \<Rightarrow> json_object" where
  "patch_metadata patch existing =
     fold (\<lambda>(k, v) d.
        (case (v, obj_get k d) of
           (JObject new, Some (JObject old)) \<Rightarrow> obj_put k (JObject (obj_update new old)) d
         | _ \<Rightarrow> obj_put k v d)) patch existing"

definition patch_source :: "memory_env \<Rightarrow> pystr \<Rightarrow> json_object \<Rightarrow> queue_db \<Rightarrow> queue_db queue_result" where
  "patch_source E item_id patch db =
     (case get_source db item_id of
        None \<Rightarrow> Inl (MissingRow item_id)
      | Some i \<Rightarrow>
          let metadata = patch_metadata patch (source_metadata i)
          in Inr (sync_work_refs (me_casefold E) (me_redact E) item_id metadata
                    (upd_source item_id (\<lambda>r. r\<lparr>i_metadata := Some metadata\<rparr>) db)))"

fun apply_metadata_updates ::
  "memory_env \<Rightarrow> (pystr \<times> json_object) list \<Rightarrow> queue_db \<Rightarrow> queue_db queue_result" where
  "apply_metadata_updates E [] db = Inr db"
| "apply_metadata_updates E ((k, patch) # rest) db =
     (case patch_source E k patch db of
        Inl e \<Rightarrow> Inl e | Inr db1 \<Rightarrow> apply_metadata_updates E rest db1)"

definition update_source_metadata ::
  "memory_env \<Rightarrow> pystr \<Rightarrow> json_object \<Rightarrow> queue_db \<Rightarrow> unit queue_outcome" where
  "update_source_metadata E item_id patch db =
     (case apply_metadata_updates E [(item_id, patch)] db of
        Inl e \<Rightarrow> (Inl e, db) | Inr db1 \<Rightarrow> (Inr (), db1))"

section \<open>Requests for a rebuild\<close>

definition request_scope :: "thread_scope \<Rightarrow> time \<Rightarrow> queue_db \<Rightarrow> queue_db" where
  "request_scope scope requested_at db =
     (case get_lease db (ts_scope_key scope) of
        None \<Rightarrow>
          db\<lparr>q_leases := q_leases db @
            [\<lparr>l_scope_key = ts_scope_key scope, l_use_case = ts_use_case scope,
              l_container_ref = ts_container_ref scope, l_thread_ref = ts_thread_ref scope,
              l_visibility = Some (ts_visibility scope), l_requested_at = Some requested_at,
              l_claimed_by = None, l_claimed_at = None, l_lease_expires_at = None,
              l_completed_at = None, l_watermark_at = None, l_created_at = requested_at,
              l_updated_at = requested_at\<rparr>]\<rparr>
      | Some _ \<Rightarrow>
          upd_lease (ts_scope_key scope)
            (\<lambda>r. r\<lparr>l_requested_at :=
                     (case l_requested_at r of
                        None \<Rightarrow> Some requested_at
                      | Some t \<Rightarrow> if requested_at > t then Some requested_at else Some t),
                   l_updated_at := requested_at\<rparr>) db)"

definition request_optional :: "thread_scope option \<Rightarrow> time \<Rightarrow> queue_db \<Rightarrow> queue_db" where
  "request_optional scope requested_at db =
     (case scope of None \<Rightarrow> db | Some s \<Rightarrow> request_scope s requested_at db)"

end
