(* ===== verification/Memory_Supersession.thy ===== *)
theory Memory_Supersession
  imports Memory_Store
begin

text \<open>
  How new memory objects replace older ones (\<open>storage/sqlite_queue.py\<close>): finding the pairs of an old
  and a new object that say the same, merging the history of the old one into the new one, moving its
  evidence over, promoting facts that recur, and the transaction stage that puts all of this after
  persisting a result.
\<close>

section \<open>Merging payloads\<close>

definition merge_history_keep_last :: nat where
  "merge_history_keep_last = 16"

definition merge_types :: "pystr set" where
  "merge_types = {u ''decision'', u ''investigation_outcome''}"

text \<open>\<open>list(d.get(k) or [])\<close>: the items of a list, the characters of a text, the keys of an object.\<close>

definition items_of :: "pystr \<Rightarrow> json_object \<Rightarrow> json list queue_result" where
  "items_of k d =
     (case obj_true k d of
        None \<Rightarrow> Inr []
      | Some (JList xs) \<Rightarrow> Inr xs
      | Some (JText t) \<Rightarrow> Inr (map (\<lambda>c. JText [c]) t)
      | Some (JObject o1) \<Rightarrow> Inr (map (\<lambda>p. JText (fst p)) o1)
      | Some _ \<Rightarrow> Inl BadShape)"

text \<open>The entries are texts, on which Python's equality is equality.\<close>

definition append_unique :: "json \<Rightarrow> json list \<Rightarrow> json list" where
  "append_unique v target =
     (if v = JNull \<or> v = JText [] \<or> v \<in> set target then target else target @ [v])"

definition keep_last :: "'a list \<Rightarrow> 'a list" where
  "keep_last xs = drop (length xs - merge_history_keep_last) xs"

text \<open>One of the three histories: the winner's, then the loser's, then the loser's own entry.\<close>

definition merge_history ::
  "pystr \<Rightarrow> json option \<Rightarrow> json_object \<Rightarrow> json_object \<Rightarrow> json list queue_result" where
  "merge_history k own winner loser =
     (case items_of k winner of
        Inl e \<Rightarrow> Inl e
      | Inr mine \<Rightarrow>
          (case items_of k loser of
             Inl e \<Rightarrow> Inl e
           | Inr theirs \<Rightarrow>
               Inr (fold append_unique (theirs @ (case own of None \<Rightarrow> [] | Some v \<Rightarrow> [v])) mine)))"

definition put_history :: "pystr \<Rightarrow> json list \<Rightarrow> json_object \<Rightarrow> json_object" where
  "put_history k xs d = (if xs = [] then d else obj_put k (JList (keep_last xs)) d)"

definition loser_evidence :: "json_object \<Rightarrow> json option" where
  "loser_evidence loser =
     (case obj_true (u ''decision_evidence_text'') loser of
        Some v \<Rightarrow> Some v | None \<Rightarrow> obj_get (u ''investigation_evidence_text'') loser)"

definition merge_payload :: "json_object \<Rightarrow> json_object \<Rightarrow> pystr \<Rightarrow> json_object queue_result" where
  "merge_payload winner loser loser_id =
     (case merge_history (u ''merged_from'') (Some (JText loser_id)) winner loser of
        Inl e \<Rightarrow> Inl e
      | Inr merged_from \<Rightarrow>
          let w1 = obj_put (u ''merged_from'') (JList (keep_last merged_from)) winner
          in (case merge_history (u ''previous_evidence_text'') (loser_evidence loser) w1 loser of
                Inl e \<Rightarrow> Inl e
              | Inr evidence \<Rightarrow>
                  let w2 = put_history (u ''previous_evidence_text'') evidence w1
                  in (case merge_history (u ''previous_rationale'') (obj_get (u ''rationale'') loser) w2 loser of
                        Inl e \<Rightarrow> Inl e
                      | Inr rationale \<Rightarrow> Inr (put_history (u ''previous_rationale'') rationale w2))))"

section \<open>Moving the evidence\<close>

text \<open>The loop over the relations of the loser: one whose target the winner already has is deleted,
  the others change hands.\<close>

fun move_relations :: "pystr \<Rightarrow> relation list \<Rightarrow> pystr list \<Rightarrow> relation list \<Rightarrow> relation list" where
  "move_relations winner [] targets rows = rows"
| "move_relations winner (r # rs) targets rows =
     (if rl_to_id r \<in> set targets
      then move_relations winner rs targets (row_del rl_id (rl_id r) rows)
      else move_relations winner rs (rl_to_id r # targets)
             (row_upd rl_id (rl_id r) (\<lambda>x. x\<lparr>rl_from_id := winner\<rparr>) rows))"

definition reparent_relations :: "pystr \<Rightarrow> pystr \<Rightarrow> relation list \<Rightarrow> relation list" where
  "reparent_relations loser winner rows =
     move_relations winner (filter (supports loser) rows)
       (map rl_to_id (filter (supports winner) rows)) rows"

section \<open>Applying pairs\<close>

definition supersedes_row :: "memory_env \<Rightarrow> pystr \<Rightarrow> pystr \<Rightarrow> relation" where
  "supersedes_row E superseded replacement =
     \<lparr>rl_id = me_supersedes_id E superseded, rl_from_kind = u ''memory_object'',
      rl_from_id = replacement, rl_type = u ''supersedes'', rl_to_kind = u ''memory_object'',
      rl_to_id = superseded\<rparr>"

definition merge_rows :: "memory_object \<Rightarrow> memory_object \<Rightarrow> queue_db \<Rightarrow> queue_db queue_result" where
  "merge_rows superseded replacement db =
     (if mo_type replacement \<notin> merge_types then Inr db
      else
        (case merge_payload (mo_payload replacement) (mo_payload superseded) (mo_id superseded) of
           Inl e \<Rightarrow> Inl e
         | Inr payload \<Rightarrow>
             Inr ((upd_memory (mo_id replacement) (\<lambda>m. m\<lparr>mo_payload := payload\<rparr>) db)
                  \<lparr>q_relations := reparent_relations (mo_id superseded) (mo_id replacement)
                                    (q_relations db)\<rparr>)))"

definition apply_pair :: "memory_env \<Rightarrow> pystr \<times> pystr \<Rightarrow> queue_db \<Rightarrow> queue_db queue_result" where
  "apply_pair E pair db =
     (case (get_memory db (fst pair), get_memory db (snd pair)) of
        (None, _) \<Rightarrow> Inl (MissingRow (fst pair))
      | (_, None) \<Rightarrow> Inl (MissingRow (snd pair))
      | (Some superseded, Some replacement) \<Rightarrow>
          if mo_type superseded \<noteq> mo_type replacement
          then Inl (BadValue (u ''Supersession requires matching memory object types''))
          else if mo_lifecycle superseded = u ''superseded'' then Inr db
          else
            (case merge_rows superseded replacement db of
               Inl e \<Rightarrow> Inl e
             | Inr db1 \<Rightarrow>
                 let db2 = upd_memory (fst pair) (\<lambda>m. m\<lparr>mo_lifecycle := u ''superseded''\<rparr>) db1;
                     row = supersedes_row E (fst pair) (snd pair)
                 in if rl_id row \<in> rl_id ` set (q_relations db2) then Inl DuplicateKey
                    else Inr (delete_index_entries (u ''memory_object'') (fst pair)
                                (db2\<lparr>q_relations := q_relations db2 @ [row]\<rparr>))))"

fun apply_pairs :: "memory_env \<Rightarrow> (pystr \<times> pystr) list \<Rightarrow> queue_db \<Rightarrow> queue_db queue_result" where
  "apply_pairs E [] db = Inr db"
| "apply_pairs E (p # ps) db =
     (case apply_pair E p db of Inl e \<Rightarrow> Inl e | Inr db1 \<Rightarrow> apply_pairs E ps db1)"

section \<open>Finding pairs\<close>

definition container_scoped_types :: "pystr set" where
  "container_scoped_types = {u ''constraint_memory'', u ''decision'', u ''investigation_outcome''}"

definition jaccard_types :: "pystr set" where
  "jaccard_types = {u ''constraint_memory''}"

definition similarity_types :: "pystr set" where
  "similarity_types = {u ''decision'', u ''investigation_outcome''}"

text \<open>\<open>s.split()\<close>, with the word read so far.\<close>

fun words :: "pystr \<Rightarrow> pystr \<Rightarrow> pystr list" where
  "words w [] = (if w = [] then [] else [w])"
| "words w (c # s) =
     (if py_isspace c then (if w = [] then words [] s else w # words [] s) else words (w @ [c]) s)"

text \<open>\<open>len(a & b) / len(a | b) >= 0.5\<close>: one half is exact in floating point.\<close>

definition jaccard_half :: "pystr list \<Rightarrow> pystr list \<Rightarrow> bool" where
  "jaccard_half a b \<longleftrightarrow> a \<noteq> [] \<and> b \<noteq> []
     \<and> length (remdups (a @ b)) \<le> 2 * length (filter (\<lambda>t. t \<in> set b) (remdups a))"

text \<open>\<open>str(payload.get(k) or "")\<close>.\<close>

definition payload_text :: "memory_env \<Rightarrow> pystr \<Rightarrow> json_object \<Rightarrow> pystr" where
  "payload_text E k d =
     (case obj_true k d of None \<Rightarrow> [] | Some (JText t) \<Rightarrow> t | Some j \<Rightarrow> me_str E j)"

definition canonical_key_of :: "memory_env \<Rightarrow> memory_object \<Rightarrow> pystr" where
  "canonical_key_of E m = strip (payload_text E (u ''canonical_key'') (mo_payload m))"

definition same_finding :: "memory_env \<Rightarrow> supersession_hint \<Rightarrow> memory_object \<Rightarrow> bool" where
  "same_finding E h m =
     (let key = canonical_key_of E m
      in mo_visibility m = Some (sh_visibility h) \<and> key \<noteq> []
         \<and> (if key = sh_canonical_key h then True
            else if sh_memory_type h \<in> jaccard_types
                 \<and> jaccard_half (words [] (sh_canonical_key h)) (words [] key) then True
            else sh_memory_type h \<in> similarity_types \<and> me_similar E key (sh_canonical_key h)))"

definition container_matches ::
  "memory_env \<Rightarrow> pystr list \<Rightarrow> supersession_hint \<Rightarrow> queue_db \<Rightarrow> pystr list" where
  "container_matches E replacements h db =
     map mo_id (filter (\<lambda>m. mo_container_ref m = sh_container_ref h \<and> mo_type m = sh_memory_type h
                        \<and> mo_lifecycle m = u ''active'' \<and> mo_id m \<notin> set replacements
                        \<and> same_finding E h m) (q_memories db))"

definition supported_by_item :: "queue_db \<Rightarrow> pystr \<Rightarrow> pystr list" where
  "supported_by_item db item_id =
     map rl_from_id (filter (\<lambda>r. rl_type r = u ''supported_by'' \<and> rl_to_kind r = u ''source_item''
                             \<and> rl_to_id r = item_id \<and> rl_from_kind r = u ''memory_object'')
                       (q_relations db))"

definition thread_candidate ::
  "memory_env \<Rightarrow> pystr list \<Rightarrow> supersession_hint \<Rightarrow> memory_object \<Rightarrow> bool" where
  "thread_candidate E replacements h m \<longleftrightarrow>
     mo_id m \<notin> set replacements
     \<and> (if mo_lifecycle m = [] then u ''active'' else mo_lifecycle m) = u ''active''
     \<and> mo_type m = sh_memory_type h
     \<and> (case mo_visibility m of None \<Rightarrow> u ''private'' | Some v \<Rightarrow> if v = [] then u ''private'' else v)
         = sh_visibility h
     \<and> canonical_key_of E m = sh_canonical_key h"

definition thread_matches ::
  "memory_env \<Rightarrow> pystr list \<Rightarrow> supersession_hint \<Rightarrow> queue_db \<Rightarrow> pystr list" where
  "thread_matches E replacements h db =
     concat (map (\<lambda>i. map mo_id (filter (\<lambda>m. mo_id m \<in> set (supported_by_item db (i_id i))
                                           \<and> thread_candidate E replacements h m) (q_memories db)))
       (filter (\<lambda>i. i_container_ref i = sh_container_ref h \<and> i_thread_ref i = sh_thread_ref h
                    \<and> i_visibility i = Some (sh_visibility h)) (q_items db)))"

definition hint_matches ::
  "memory_env \<Rightarrow> pystr list \<Rightarrow> supersession_hint \<Rightarrow> queue_db \<Rightarrow> pystr list" where
  "hint_matches E replacements h db =
     (if sh_replacement_id h \<notin> set replacements then []
      else if sh_container_ref h = None \<or> sh_container_ref h = Some [] \<or> sh_canonical_key h = [] then []
      else if sh_thread_ref h = None \<and> sh_memory_type h \<in> container_scoped_types
      then container_matches E replacements h db
      else if sh_thread_ref h = None \<or> sh_thread_ref h = Some [] then []
      else thread_matches E replacements h db)"

definition add_pair :: "pystr \<times> pystr \<Rightarrow> (pystr \<times> pystr) list \<Rightarrow> (pystr \<times> pystr) list" where
  "add_pair p pairs = (if p \<in> set pairs then pairs else pairs @ [p])"

definition resolve_pairs :: "memory_env \<Rightarrow> process_result \<Rightarrow> queue_db \<Rightarrow> (pystr \<times> pystr) list" where
  "resolve_pairs E result db =
     (let replacements = map mi_id (pr_memories result)
      in fold (\<lambda>h pairs. fold (\<lambda>old. add_pair (old, sh_replacement_id h))
                            (hint_matches E replacements h db) pairs)
           (pr_supersession_hints result) [])"

section \<open>Promoting recurring facts\<close>

definition promotion_thread_threshold :: nat where
  "promotion_thread_threshold = 2"

definition slot_fields :: "promotion_hint \<Rightarrow> (pystr \<times> pystr) list" where
  "slot_fields h =
     [(u ''command_family'', ph_command_family h), (u ''artifact_role'', ph_artifact_role h),
      (u ''scope_kind'', ph_scope_kind h), (u ''scope_ref'', ph_scope_ref h),
      (u ''artifact_normalized'', ph_artifact_normalized h)]"

definition slot_key :: "promotion_hint \<Rightarrow> pystr list" where
  "slot_key h = ph_container_ref h # map snd (slot_fields h)"

definition in_slot_scope :: "promotion_hint \<Rightarrow> memory_object \<Rightarrow> bool" where
  "in_slot_scope h m \<longleftrightarrow> mo_type m = u ''operational_fact''
     \<and> mo_container_ref m = Some (ph_container_ref h) \<and> mo_visibility m = Some (ph_visibility h)
     \<and> mo_is_soft_deleted m = 0"

text \<open>The count of the SQL query: \<open>json_extract\<close> gives a text for a text.\<close>

definition slot_witness :: "promotion_hint \<Rightarrow> memory_object \<Rightarrow> bool" where
  "slot_witness h m \<longleftrightarrow> in_slot_scope h m \<and> mo_lifecycle m \<in> {u ''candidate'', u ''active''}
     \<and> list_all (\<lambda>(k, v). obj_get k (mo_payload m) = Some (JText v)) (slot_fields h)"

definition slot_threads :: "promotion_hint \<Rightarrow> queue_db \<Rightarrow> pystr list" where
  "slot_threads h db =
     remdups (List.map_filter i_thread_ref
       (filter (\<lambda>i. list_ex (\<lambda>m. slot_witness h m
                 \<and> list_ex (\<lambda>r. supports (mo_id m) r \<and> rl_to_kind r = u ''source_item''
                      \<and> rl_to_id r = i_id i) (q_relations db)) (q_memories db)) (q_items db)))"

definition promotable :: "memory_env \<Rightarrow> promotion_hint \<Rightarrow> memory_object \<Rightarrow> bool" where
  "promotable E h m \<longleftrightarrow> in_slot_scope h m \<and> mo_lifecycle m = u ''candidate''
     \<and> list_all (\<lambda>(k, v). payload_text E k (mo_payload m) = v) (slot_fields h)"

definition promotion_row :: "memory_env \<Rightarrow> nat \<Rightarrow> memory_object \<Rightarrow> promotion_log" where
  "promotion_row E threads m =
     \<lparr>pl_id = me_promotion_id E (mo_id m), pl_memory_object_id = mo_id m,
      pl_from_lifecycle = u ''candidate'', pl_to_lifecycle = u ''active'',
      pl_reason = u ''recurrence_threshold_met'', pl_distinct_threads_count = threads,
      pl_promoted_at = me_promoted_at E\<rparr>"

definition promote_slot :: "memory_env \<Rightarrow> promotion_hint \<Rightarrow> queue_db \<Rightarrow> queue_db queue_result" where
  "promote_slot E h db =
     (let threads = length (slot_threads h db)
      in if threads < promotion_thread_threshold then Inr db
         else
           (case insert_rows pl_id (map (promotion_row E threads) (filter (promotable E h) (q_memories db)))
                   (q_promotions db) of
              Inl e \<Rightarrow> Inl e
            | Inr promotions \<Rightarrow>
                Inr (db\<lparr>q_memories := rows_where (promotable E h)
                            (\<lambda>m. m\<lparr>mo_lifecycle := u ''active''\<rparr>) (q_memories db),
                        q_promotions := promotions\<rparr>)))"

fun promote_slots ::
  "memory_env \<Rightarrow> pystr list list \<Rightarrow> promotion_hint list \<Rightarrow> queue_db \<Rightarrow> queue_db queue_result" where
  "promote_slots E seen [] db = Inr db"
| "promote_slots E seen (h # hs) db =
     (if slot_key h \<in> set seen then promote_slots E seen hs db
      else
        (case promote_slot E h db of
           Inl e \<Rightarrow> Inl e | Inr db1 \<Rightarrow> promote_slots E (slot_key h # seen) hs db1))"

section \<open>The stage of a commit\<close>

definition persist_result :: "memory_env \<Rightarrow> process_result \<Rightarrow> queue_db \<Rightarrow> queue_db queue_result" where
  "persist_result E result db =
     (case persist_rows E result db of
        Inl e \<Rightarrow> Inl e | Inr db1 \<Rightarrow> promote_slots E [] (pr_promotion_hints result) db1)"

definition commit_stage ::
  "memory_env \<Rightarrow> process_result \<Rightarrow> (pystr \<times> pystr) list \<Rightarrow> queue_db
     \<Rightarrow> ((pystr \<times> pystr) list \<times> queue_db) queue_result" where
  "commit_stage E result extra db =
     (case persist_result E result db of
        Inl e \<Rightarrow> Inl e
      | Inr db1 \<Rightarrow>
          let pairs = resolve_pairs E result db1 @ extra
          in (case apply_pairs E pairs db1 of
                Inl e \<Rightarrow> Inl e
              | Inr db2 \<Rightarrow>
                  (case apply_metadata_updates E (pr_metadata_updates result) db2 of
                     Inl e \<Rightarrow> Inl e
                   | Inr db3 \<Rightarrow>
                       Inr (pairs, fold (\<lambda>m. refresh_freshness (mi_id m)) (pr_memories result) db3))))"

definition commit_process_result ::
  "memory_env \<Rightarrow> process_result \<Rightarrow> (pystr \<times> pystr) list option \<Rightarrow> queue_db
     \<Rightarrow> (pystr \<times> pystr) list queue_outcome" where
  "commit_process_result E result extra db =
     (case commit_stage E result (case extra of None \<Rightarrow> [] | Some ps \<Rightarrow> ps) db of
        Inl e \<Rightarrow> (Inl e, db) | Inr (pairs, db1) \<Rightarrow> (Inr pairs, db1))"

end
