(* ===== verification/Lease_Table.thy ===== *)
theory Lease_Table
  imports Prelude
begin

text \<open>
  Claiming a row of a table under a lease: the shape of every queue of \<open>storage/sqlite_queue.py\<close>. One
  statement takes the first of the claimable rows in some order, marks it and returns it. The locale
  states what the tables have in common, that a claimed row is not claimable again before its lease
  ends, and draws the consequences once.
\<close>

definition first_by :: "('r \<Rightarrow> 'o::linorder) \<Rightarrow> ('r \<Rightarrow> bool) \<Rightarrow> 'r list \<Rightarrow> 'r option" where
  "first_by rank P rows = (case sort_key rank (filter P rows) of [] \<Rightarrow> None | r # _ \<Rightarrow> Some r)"

text \<open>\<open>UPDATE ... WHERE key = (SELECT key ... ORDER BY rank LIMIT 1) RETURNING ...\<close>.\<close>

definition claim_first ::
  "('r \<Rightarrow> 'k) \<Rightarrow> ('r \<Rightarrow> 'o::linorder) \<Rightarrow> ('r \<Rightarrow> bool) \<Rightarrow> ('r \<Rightarrow> 'r) \<Rightarrow> 'r list \<Rightarrow> 'r option \<times> 'r list" where
  "claim_first key rank P grab rows =
     (case first_by rank P rows of
        None \<Rightarrow> (None, rows)
      | Some r \<Rightarrow> (Some (grab r), row_upd key (key r) grab rows))"

lemma first_by_None_iff: "first_by rank P rows = None \<longleftrightarrow> (\<forall>r\<in>set rows. \<not> P r)"
proof -
  have "sort_key rank (filter P rows) = [] \<longleftrightarrow> filter P rows = []"
    by (metis length_0_conv length_sort)
  then show ?thesis by (auto simp: first_by_def filter_empty_conv split: list.split)
qed

lemma first_by_SomeD:
  assumes "first_by rank P rows = Some r"
  shows "r \<in> set rows" "P r" "\<And>x. x \<in> set rows \<Longrightarrow> P x \<Longrightarrow> rank r \<le> rank x"
proof -
  obtain rest where s: "sort_key rank (filter P rows) = r # rest"
    using assms by (auto simp: first_by_def split: list.splits)
  then have "set (r # rest) = set (filter P rows)" by (metis set_sort)
  then show "r \<in> set rows" "P r" by auto
  fix x assume "x \<in> set rows" "P x"
  then have "x \<in> set (r # rest)" using \<open>set (r # rest) = set (filter P rows)\<close> by simp
  moreover have "sorted (map rank (r # rest))" using s by (metis sorted_sort_key)
  ultimately show "rank r \<le> rank x" by auto
qed

text \<open>Claiming again and again under the same conditions.\<close>

fun claim_run ::
  "('r \<Rightarrow> 'k) \<Rightarrow> ('r \<Rightarrow> 'o::linorder) \<Rightarrow> ('e \<Rightarrow> 'r \<Rightarrow> bool) \<Rightarrow> ('e \<Rightarrow> 'r \<Rightarrow> 'r) \<Rightarrow> 'e list \<Rightarrow> 'r list
     \<Rightarrow> 'r option list \<times> 'r list" where
  "claim_run key rank may grab [] rows = ([], rows)"
| "claim_run key rank may grab (e # es) rows =
     (case claim_first key rank (may e) (grab e) rows of
        (r, rows1) \<Rightarrow>
          (case claim_run key rank may grab es rows1 of (rs, rows2) \<Rightarrow> (r # rs, rows2)))"

lemma claim_run_Cons:
  "fst (claim_run key rank may grab (e # es) rows) = fst (claim_first key rank (may e) (grab e) rows)
     # fst (claim_run key rank may grab es (snd (claim_first key rank (may e) (grab e) rows)))"
  "snd (claim_run key rank may grab (e # es) rows) =
     snd (claim_run key rank may grab es (snd (claim_first key rank (may e) (grab e) rows)))"
  by (simp_all add: split_beta)

declare claim_run.simps(2) [simp del]
declare claim_run_Cons [simp]

locale lease_table =
  fixes key :: "'r \<Rightarrow> 'k"
    and rank :: "'r \<Rightarrow> 'o::linorder"
    and may :: "'e \<Rightarrow> 'r \<Rightarrow> bool"
    and grab :: "'e \<Rightarrow> 'r \<Rightarrow> 'r"
    and starts :: "'e \<Rightarrow> time"
    and ends :: "'e \<Rightarrow> time"
  assumes grab_key [simp]: "key (grab e r) = key r"
    and grab_held: "starts e' < ends e \<Longrightarrow> \<not> may e' (grab e r)"
    and lease_positive: "starts e < ends e"
begin

abbreviation claim :: "'e \<Rightarrow> 'r list \<Rightarrow> 'r option \<times> 'r list" where
  "claim e \<equiv> claim_first key rank (may e) (grab e)"

lemma claim_Some_iff:
  "claim e rows = (Some r', rows') \<longleftrightarrow>
     (\<exists>r. first_by rank (may e) rows = Some r \<and> r' = grab e r \<and> rows' = row_upd key (key r) (grab e) rows)"
  by (auto simp: claim_first_def split: option.split)

lemma claim_oldest:
  assumes "claim e rows = (Some r', rows')"
  shows "\<exists>r\<in>set rows. may e r \<and> r' = grab e r \<and> (\<forall>x\<in>set rows. may e x \<longrightarrow> rank r \<le> rank x)"
  using assms first_by_SomeD by (fastforce simp: claim_Some_iff)

lemma claim_None_iff: "fst (claim e rows) = None \<longleftrightarrow> (\<forall>r\<in>set rows. \<not> may e r)"
  using first_by_None_iff [of rank "may e" rows]
  by (cases "first_by rank (may e) rows") (auto simp: claim_first_def)

lemma claim_keys [simp]: "map key (snd (claim e rows)) = map key rows"
  by (auto simp: claim_first_def split: option.split)

lemma claim_run_keys [simp]: "map key (snd (claim_run key rank may grab es rows)) = map key rows"
proof (induction es arbitrary: rows)
  case (Cons e es)
  show ?case using Cons.IH [of "snd (claim e rows)"] by simp
qed simp

text \<open>A row under a lease: it stays as the claim left it while only claims happen before its end.\<close>

lemma held_row_stays:
  assumes "distinct (map key rows)" and "grab e r \<in> set rows" and "starts e' < ends e"
  shows "grab e r \<in> set (snd (claim e' rows))"
    and "map_option key (fst (claim e' rows)) \<noteq> Some (key r)"
proof -
  have other: "key x \<noteq> key r" if "first_by rank (may e') rows = Some x" for x
  proof
    assume "key x = key r"
    then have "x = grab e r"
      using assms(1,2) first_by_SomeD(1) [OF that] by (auto simp: distinct_map inj_on_def)
    then show False using first_by_SomeD(2) [OF that] grab_held [OF assms(3)] by simp
  qed
  then show "grab e r \<in> set (snd (claim e' rows))"
    using assms(2) by (force simp: claim_first_def set_row_upd split: option.split)
  show "map_option key (fst (claim e' rows)) \<noteq> Some (key r)"
    using other by (auto simp: claim_first_def split: option.split)
qed

lemma held_through_run:
  assumes "distinct (map key rows)" "grab e r \<in> set rows" "list_all (\<lambda>e'. starts e' < ends e) es"
  shows "Some (key r) \<notin> set (map (map_option key) (fst (claim_run key rank may grab es rows)))"
  using assms
proof (induction es arbitrary: rows)
  case (Cons e' es)
  have "distinct (map key (snd (claim e' rows)))" using Cons.prems(1) by simp
  moreover have "grab e r \<in> set (snd (claim e' rows))" "map_option key (fst (claim e' rows)) \<noteq> Some (key r)"
    using held_row_stays [of rows e r e'] Cons.prems by simp_all
  ultimately show ?case
    using Cons.IH [of "snd (claim e' rows)"] Cons.prems(3) by (simp add: eq_commute)
qed simp

text \<open>A claim excludes every other one until its lease ends, whatever is claimed in between.\<close>

lemma claim_exclusive:
  assumes "distinct (map key rows)" "claim e rows = (Some r', rows')" "list_all (\<lambda>e'. starts e' < ends e) es"
  shows "Some (key r') \<notin> set (map (map_option key) (fst (claim_run key rank may grab es rows')))"
proof -
  obtain r where r: "first_by rank (may e) rows = Some r" "r' = grab e r" "rows' = row_upd key (key r) (grab e) rows"
    using assms(2) by (auto simp: claim_Some_iff)
  then have "grab e r \<in> set rows'" using first_by_SomeD(1) [OF r(1)] by (auto simp: set_row_upd)
  moreover have "distinct (map key rows')" using assms(1) r(3) by simp
  ultimately show ?thesis using held_through_run [of rows' e r es] assms(3) r(2) by simp
qed

text \<open>Claiming repeatedly at one instant hands out the claimable rows in their order, each once.\<close>

lemma filter_after_claim:
  assumes "distinct (map key rows)" "first_by rank (may e) rows = Some r"
  shows "filter (may e) (row_upd key (key r) (grab e) rows) = filter (\<lambda>x. x \<noteq> r) (filter (may e) rows)"
proof -
  have "\<not> may e (grab e r)" by (rule grab_held [OF lease_positive])
  moreover have "x = r" if "x \<in> set rows" "key x = key r" for x
    using assms first_by_SomeD(1) [OF assms(2)] that by (auto simp: distinct_map inj_on_def)
  ultimately have "filter (may e) (map (\<lambda>x. if key x = key r then grab e x else x) xs)
      = filter (\<lambda>x. x \<noteq> r) (filter (may e) xs)" if "set xs \<subseteq> set rows" for xs
    using that by (induction xs) auto
  then show ?thesis by (simp add: row_upd_def)
qed

lemma claim_run_drains:
  assumes "distinct (map key rows)"
  shows "fst (claim_run key rank may grab (replicate n e) rows) =
    map (\<lambda>r. Some (grab e r)) (take n (sort_key rank (filter (may e) rows)))
      @ replicate (n - length (filter (may e) rows)) None"
  using assms
proof (induction n arbitrary: rows)
  case (Suc n)
  show ?case
  proof (cases "first_by rank (may e) rows")
    case None
    then have "filter (may e) rows = []" by (auto simp: first_by_None_iff filter_empty_conv)
    with Suc.IH [OF Suc.prems] None show ?thesis
      by (simp add: claim_first_def)
  next
    case (Some r)
    let ?rows = "row_upd key (key r) (grab e) rows"
    obtain rest where s: "sort_key rank (filter (may e) rows) = r # rest"
      using Some by (auto simp: first_by_def split: list.splits)
    have "distinct (filter (may e) rows)" using Suc.prems by (simp add: distinct_map)
    then have d: "r \<notin> set rest" using s by (metis distinct.simps(2) distinct_sort)
    have f: "filter (may e) ?rows = filter (\<lambda>x. x \<noteq> r) (filter (may e) rows)"
      by (rule filter_after_claim [OF Suc.prems Some])
    then have "sort_key rank (filter (may e) ?rows) = filter (\<lambda>x. x \<noteq> r) (r # rest)"
      using s by (metis filter_sort)
    then have sorted: "sort_key rank (filter (may e) ?rows) = rest" using d by (auto intro: filter_True)
    have l: "length (filter (may e) rows) = Suc (length (filter (may e) ?rows))"
      using s sorted by (metis length_Cons length_sort)
    have "distinct (map key ?rows)" using Suc.prems by simp
    from Suc.IH [OF this] Some s sorted l show ?thesis
      by (simp add: claim_first_def)
  qed
qed simp

end

end
