(* ===== verification/Queue_Scopes.thy ===== *)
theory Queue_Scopes
  imports Memory_Supersession Lease_Table
begin

text \<open>
  The leases of thread and container rebuilds (\<open>storage/sqlite_queue.py\<close>): a scope is requested,
  claimed by a worker under a lease, and completed under that claim; a request that came in after the
  claim stays pending.
\<close>

definition lease_end :: "time \<Rightarrow> int \<Rightarrow> time" where
  "lease_end claimed_at lease_seconds = claimed_at + seconds (max 1 lease_seconds)"

lemma lease_end_later [simp]: "claimed_at < lease_end claimed_at n"
  by (simp add: lease_end_def seconds_def)

section \<open>Claiming a scope\<close>

record scope_claim =
  sc_worker_id :: pystr
  sc_lease_seconds :: int
  sc_claimed_at :: time

definition scope_ready :: "scope_claim \<Rightarrow> thread_lease \<Rightarrow> bool" where
  "scope_ready q l \<longleftrightarrow> l_requested_at l \<noteq> None
     \<and> (case l_lease_expires_at l of None \<Rightarrow> True | Some t \<Rightarrow> t \<le> sc_claimed_at q)"

definition grab_scope :: "scope_claim \<Rightarrow> thread_lease \<Rightarrow> thread_lease" where
  "grab_scope q l =
     l\<lparr>l_claimed_by := Some (sc_worker_id q), l_claimed_at := Some (sc_claimed_at q),
       l_lease_expires_at := Some (lease_end (sc_claimed_at q) (sc_lease_seconds q)),
       l_updated_at := sc_claimed_at q\<rparr>"

text \<open>\<open>ORDER BY requested_at, created_at, scope_key\<close>.\<close>

definition scope_rank :: "thread_lease \<Rightarrow> time \<times> time \<times> pystr" where
  "scope_rank l = (case l_requested_at l of None \<Rightarrow> 0 | Some t \<Rightarrow> t, l_created_at l, l_scope_key l)"

record lease_view =
  lv_scope_key :: pystr
  lv_use_case :: pystr
  lv_container_ref :: pystr
  lv_thread_ref :: "pystr option"
  lv_visibility :: pystr
  lv_requested_at :: "time option"
  lv_claimed_by :: "pystr option"
  lv_claimed_at :: "time option"
  lv_lease_expires_at :: "time option"
  lv_watermark_at :: "time option"

definition lease_view :: "thread_lease \<Rightarrow> lease_view" where
  "lease_view l =
     \<lparr>lv_scope_key = l_scope_key l, lv_use_case = l_use_case l, lv_container_ref = l_container_ref l,
      lv_thread_ref = l_thread_ref l,
      lv_visibility = (case l_visibility l of None \<Rightarrow> u ''private''
                       | Some v \<Rightarrow> if v = [] then u ''private'' else v),
      lv_requested_at = l_requested_at l, lv_claimed_by = l_claimed_by l,
      lv_claimed_at = l_claimed_at l, lv_lease_expires_at = l_lease_expires_at l,
      lv_watermark_at = l_watermark_at l\<rparr>"

definition claim_next_scope :: "scope_claim \<Rightarrow> queue_db \<Rightarrow> lease_view option queue_outcome" where
  "claim_next_scope q db =
     (case claim_first l_scope_key scope_rank (scope_ready q) (grab_scope q) (q_leases db) of
        (None, _) \<Rightarrow> (Inr None, db)
      | (Some l, leases) \<Rightarrow> (Inr (Some (lease_view l)), db\<lparr>q_leases := leases\<rparr>))"

definition claim_scope :: "pystr \<Rightarrow> scope_claim \<Rightarrow> queue_db \<Rightarrow> lease_view option queue_outcome" where
  "claim_scope scope_key q db =
     (case get_lease db scope_key of
        None \<Rightarrow> (Inr None, db)
      | Some l \<Rightarrow>
          if scope_ready q l
          then (Inr (Some (lease_view (grab_scope q l))), upd_lease scope_key (grab_scope q) db)
          else (Inr None, db))"

definition get_scope_lease :: "queue_db \<Rightarrow> pystr \<Rightarrow> lease_view option" where
  "get_scope_lease db scope_key = map_option lease_view (get_lease db scope_key)"

section \<open>Completing a claim\<close>

definition holds_scope :: "pystr \<Rightarrow> time \<Rightarrow> thread_lease \<Rightarrow> bool" where
  "holds_scope worker_id claimed_at l \<longleftrightarrow>
     l_claimed_by l = Some worker_id \<and> l_claimed_at l = Some claimed_at"

definition pending_after :: "time \<Rightarrow> thread_lease \<Rightarrow> bool" where
  "pending_after claimed_at l \<longleftrightarrow>
     (case l_requested_at l of None \<Rightarrow> False | Some t \<Rightarrow> t > claimed_at)"

definition release_scope :: "time \<Rightarrow> time \<Rightarrow> time option \<Rightarrow> thread_lease \<Rightarrow> thread_lease" where
  "release_scope claimed_at finished_at watermark l =
     l\<lparr>l_requested_at := (if pending_after claimed_at l then l_requested_at l else None),
       l_completed_at := Some finished_at, l_claimed_by := None, l_claimed_at := None,
       l_lease_expires_at := None,
       l_watermark_at := (case watermark of None \<Rightarrow> l_watermark_at l | Some t \<Rightarrow> Some t),
       l_updated_at := finished_at\<rparr>"

text \<open>\<open>Inr None\<close> is the refusal of a claim that is no longer current.\<close>

definition complete_scope ::
  "pystr \<Rightarrow> pystr \<Rightarrow> time \<Rightarrow> time \<Rightarrow> queue_db \<Rightarrow> bool option queue_outcome" where
  "complete_scope scope_key worker_id claimed_at finished_at db =
     (case get_lease db scope_key of
        None \<Rightarrow> (Inl (MissingRow scope_key), db)
      | Some l \<Rightarrow>
          if \<not> holds_scope worker_id claimed_at l then (Inr None, db)
          else (Inr (Some (pending_after claimed_at l)),
                upd_lease scope_key (release_scope claimed_at finished_at None) db))"

text \<open>The record is read once, before the result is persisted, so that what decides is the row as it
  was then; nothing in between writes the leases.\<close>

definition commit_and_complete_scope ::
  "memory_env \<Rightarrow> process_result \<Rightarrow> (pystr \<times> pystr) list option \<Rightarrow> pystr \<Rightarrow> pystr \<Rightarrow> time \<Rightarrow> time
     \<Rightarrow> time option \<Rightarrow> queue_db \<Rightarrow> bool option queue_outcome" where
  "commit_and_complete_scope E result extra scope_key worker_id claimed_at finished_at watermark db =
     (case get_lease db scope_key of
        None \<Rightarrow> (Inl (MissingRow scope_key), db)
      | Some l \<Rightarrow>
          if \<not> holds_scope worker_id claimed_at l then (Inr None, db)
          else
            (case commit_stage E result (case extra of None \<Rightarrow> [] | Some ps \<Rightarrow> ps) db of
               Inl e \<Rightarrow> (Inl e, db)
             | Inr (_, db1) \<Rightarrow>
                 (Inr (Some (pending_after claimed_at l)),
                  upd_lease scope_key (release_scope claimed_at finished_at watermark) db1)))"

section \<open>The lease table\<close>

interpretation scopes: lease_table l_scope_key scope_rank scope_ready grab_scope sc_claimed_at
  "\<lambda>q. lease_end (sc_claimed_at q) (sc_lease_seconds q)"
  by unfold_locales (auto simp: scope_ready_def grab_scope_def)

end
