(* ===== verification/Queue_Packages.thy ===== *)
theory Queue_Packages
  imports Queue_Scopes
begin

text \<open>
  The processing of source items (\<open>storage/sqlite_queue.py\<close>): the tasks of the packages, one row per
  item and package, and the older queue of the items themselves. A task is claimed under a lease with
  an attempt number; the pair of worker and attempt is the token under which its result is committed
  or its failure recorded.
\<close>

section \<open>Claiming\<close>

record work_claim =
  wc_worker_id :: pystr
  wc_lease_seconds :: int
  wc_max_attempts :: int
  wc_claimed_at :: time

definition due :: "time \<Rightarrow> time option \<Rightarrow> bool" where
  "due now t = (case t of None \<Rightarrow> False | Some x \<Rightarrow> x \<le> now)"

text \<open>The condition both queues share: what waits, what failed and has a next attempt, and what a
  worker let expire, below the attempt limit.\<close>

definition claimable ::
  "work_claim \<Rightarrow> work_status \<Rightarrow> int \<Rightarrow> time option \<Rightarrow> time option \<Rightarrow> bool" where
  "claimable q status attempts next_attempt_at lease_expires_at \<longleftrightarrow>
     attempts < wc_max_attempts q
     \<and> ((status = StPending \<and> (next_attempt_at = None \<or> due (wc_claimed_at q) next_attempt_at))
        \<or> (status = StFailed \<and> due (wc_claimed_at q) next_attempt_at)
        \<or> (status = StProcessing \<and> due (wc_claimed_at q) lease_expires_at))"

definition claim_end :: "work_claim \<Rightarrow> time" where
  "claim_end q = lease_end (wc_claimed_at q) (wc_lease_seconds q)"

definition task_ready :: "work_claim \<Rightarrow> package_task \<Rightarrow> bool" where
  "task_ready q k = claimable q (k_status k) (k_attempts k) (k_next_attempt_at k) (k_lease_expires_at k)"

definition grab_task :: "work_claim \<Rightarrow> package_task \<Rightarrow> package_task" where
  "grab_task q k =
     k\<lparr>k_status := StProcessing, k_attempts := k_attempts k + 1,
       k_claimed_by := Some (wc_worker_id q), k_claimed_at := Some (wc_claimed_at q),
       k_lease_expires_at := Some (claim_end q), k_next_attempt_at := None\<rparr>"

definition task_rank :: "package_task \<Rightarrow> time \<times> pystr \<times> pystr" where
  "task_rank k = (case k_item_created_at k of None \<Rightarrow> k_created_at k | Some t \<Rightarrow> t, k_item_id k, k_package k)"

section \<open>The state of an item from its tasks\<close>

definition terminal :: "work_status \<Rightarrow> bool" where
  "terminal st \<longleftrightarrow> st \<in> {StCompleted, StSkipped, StFailed}"

definition tasks_of :: "queue_db \<Rightarrow> pystr \<Rightarrow> package_task list" where
  "tasks_of db item_id = filter (\<lambda>k. k_item_id k = item_id) (q_tasks db)"

definition finish_item :: "package_task list \<Rightarrow> time \<Rightarrow> source_item \<Rightarrow> source_item" where
  "finish_item tasks finished_at i =
     (let failed = find (\<lambda>k. k_status k = StFailed) tasks
      in i\<lparr>i_status := (if failed = None then StCompleted else StFailed),
           i_completed_at := Some finished_at,
           i_error := (case failed of None \<Rightarrow> None | Some k \<Rightarrow> k_error k),
           i_claimed_by := None, i_claimed_at := None, i_lease_expires_at := None,
           i_next_attempt_at := None, i_attempts := sum_list (map k_attempts tasks)\<rparr>)"

definition sync_item :: "time \<Rightarrow> pystr \<Rightarrow> queue_db \<Rightarrow> queue_db" where
  "sync_item finished_at item_id db =
     (let tasks = tasks_of db item_id
      in if tasks = [] \<or> \<not> list_all (\<lambda>k. terminal (k_status k)) tasks then db
         else upd_source item_id (finish_item tasks finished_at) db)"

section \<open>Creating tasks\<close>

definition new_task :: "nat \<Rightarrow> pystr \<Rightarrow> pystr \<Rightarrow> bool \<Rightarrow> time option \<Rightarrow> time \<Rightarrow> package_task" where
  "new_task k item_id package skipped item_created_at now =
     \<lparr>k_id = k, k_item_id = item_id, k_package = package,
      k_status = (if skipped then StSkipped else StPending), k_attempts = 0, k_error = None,
      k_claimed_by = None, k_claimed_at = None, k_lease_expires_at = None, k_completed_at = None,
      k_next_attempt_at = None, k_item_created_at = item_created_at, k_created_at = now\<rparr>"

definition next_task_id :: "package_task list \<Rightarrow> nat" where
  "next_task_id tasks = Suc (fold max (map k_id tasks) 0)"

fun add_tasks ::
  "pystr \<Rightarrow> pystr list \<Rightarrow> time option \<Rightarrow> time \<Rightarrow> pystr list \<Rightarrow> package_task list
     \<Rightarrow> package_task list queue_result" where
  "add_tasks item_id skip created now [] tasks = Inr tasks"
| "add_tasks item_id skip created now (p # ps) tasks =
     (if (item_id, p) \<in> (\<lambda>k. (k_item_id k, k_package k)) ` set tasks then Inl DuplicateKey
      else add_tasks item_id skip created now ps
             (tasks @ [new_task (next_task_id tasks) item_id p (p \<in> set skip) created now]))"

definition create_package_tasks ::
  "pystr \<Rightarrow> pystr list \<Rightarrow> pystr list \<Rightarrow> time \<Rightarrow> queue_db \<Rightarrow> unit queue_outcome" where
  "create_package_tasks item_id packages skip now db =
     (case add_tasks item_id skip (map_option i_created_at (get_source db item_id)) now packages
             (q_tasks db) of
        Inl e \<Rightarrow> (Inl e, db) | Inr tasks \<Rightarrow> (Inr (), db\<lparr>q_tasks := tasks\<rparr>))"

section \<open>Leases that ran out at the attempt limit\<close>

definition exhausted :: "time \<Rightarrow> int \<Rightarrow> package_task \<Rightarrow> bool" where
  "exhausted now max_attempts k \<longleftrightarrow>
     k_status k = StProcessing \<and> max_attempts \<le> k_attempts k \<and> due now (k_lease_expires_at k)"

definition close_task :: "work_status \<Rightarrow> pystr option \<Rightarrow> time option \<Rightarrow> time option \<Rightarrow> package_task \<Rightarrow> package_task"
where
  "close_task status error completed_at next_attempt_at k =
     k\<lparr>k_status := status, k_error := error, k_claimed_by := None, k_claimed_at := None,
       k_lease_expires_at := None, k_completed_at := completed_at,
       k_next_attempt_at := next_attempt_at\<rparr>"

definition expire_task :: "time \<Rightarrow> package_task \<Rightarrow> package_task" where
  "expire_task now k =
     close_task StFailed
       (if k_error k = None \<or> k_error k = Some []
        then Some (u ''processing lease expired after maximum attempts'') else k_error k)
       (Some now) None k"

definition finalize_exhausted :: "time \<Rightarrow> int \<Rightarrow> queue_db \<Rightarrow> queue_db" where
  "finalize_exhausted now max_attempts db =
     (let items = remdups (map k_item_id (filter (exhausted now max_attempts) (q_tasks db)))
      in fold (sync_item now) items
           (db\<lparr>q_tasks := rows_where (exhausted now max_attempts) (expire_task now) (q_tasks db)\<rparr>))"

section \<open>Claiming a task\<close>

text \<open>The claim is written even when the row of the item is gone.\<close>

definition claim_next_task ::
  "work_claim \<Rightarrow> queue_db \<Rightarrow> (source_item \<times> pystr \<times> int) option queue_outcome" where
  "claim_next_task q db =
     (let db1 = finalize_exhausted (wc_claimed_at q) (wc_max_attempts q) db
      in case claim_first k_id task_rank (task_ready q) (grab_task q) (q_tasks db1) of
           (None, _) \<Rightarrow> (Inr None, db1)
         | (Some k, tasks) \<Rightarrow>
             let db2 = db1\<lparr>q_tasks := tasks\<rparr>
             in (Inr (map_option (\<lambda>i. (item_view i, k_package k, k_attempts k)) (get_source db2 (k_item_id k))),
                 db2))"

definition claim_next_task_for_item ::
  "pystr \<Rightarrow> work_claim \<Rightarrow> queue_db \<Rightarrow> (pystr \<times> int) option queue_outcome" where
  "claim_next_task_for_item item_id q db =
     (let db1 = finalize_exhausted (wc_claimed_at q) (wc_max_attempts q) db
      in case claim_first k_id k_package (\<lambda>k. k_item_id k = item_id \<and> task_ready q k) (grab_task q)
                (q_tasks db1) of
           (None, _) \<Rightarrow> (Inr None, db1)
         | (Some k, tasks) \<Rightarrow> (Inr (Some (k_package k, k_attempts k)), db1\<lparr>q_tasks := tasks\<rparr>))"

section \<open>Ending a task\<close>

definition find_task :: "queue_db \<Rightarrow> pystr \<Rightarrow> pystr \<Rightarrow> package_task option" where
  "find_task db item_id package = find (\<lambda>k. k_item_id k = item_id \<and> k_package k = package) (q_tasks db)"

definition holds_task :: "pystr \<Rightarrow> int \<Rightarrow> package_task \<Rightarrow> bool" where
  "holds_task worker_id attempts k \<longleftrightarrow>
     k_status k = StProcessing \<and> k_claimed_by k = Some worker_id \<and> k_attempts k = attempts"

definition task_claim_is_current :: "queue_db \<Rightarrow> pystr \<Rightarrow> pystr \<Rightarrow> pystr \<Rightarrow> int \<Rightarrow> bool" where
  "task_claim_is_current db item_id package worker_id attempts =
     (case find_task db item_id package of None \<Rightarrow> False | Some k \<Rightarrow> holds_task worker_id attempts k)"

definition finish_task :: "time \<Rightarrow> package_task \<Rightarrow> queue_db \<Rightarrow> queue_db" where
  "finish_task finished_at k db =
     sync_item finished_at (k_item_id k)
       (upd_task (k_id k) (close_task StCompleted None (Some finished_at) None) db)"

definition complete_package_task ::
  "pystr \<Rightarrow> pystr \<Rightarrow> time \<Rightarrow> queue_db \<Rightarrow> unit queue_outcome" where
  "complete_package_task item_id package finished_at db =
     (case find_task db item_id package of
        None \<Rightarrow> (Inl (MissingRow (item_id @ package)), db)
      | Some k \<Rightarrow> (Inr (), finish_task finished_at k db))"

text \<open>The claim is the worker and the attempt; without a worker nothing is checked.\<close>

definition fail_package_task ::
  "pystr \<Rightarrow> pystr \<Rightarrow> pystr \<Rightarrow> time option \<Rightarrow> bool \<Rightarrow> (pystr \<times> int option) option \<Rightarrow> time \<Rightarrow> queue_db
     \<Rightarrow> bool queue_outcome" where
  "fail_package_task item_id package error next_attempt_at final claim finished_at db =
     (case find_task db item_id package of
        None \<Rightarrow> (Inl (MissingRow (item_id @ package)), db)
      | Some k \<Rightarrow>
          if (case claim of None \<Rightarrow> False
              | Some (w, None) \<Rightarrow> True
              | Some (w, Some n) \<Rightarrow> \<not> holds_task w n k)
          then (Inr False, db)
          else
            let db1 = upd_task (k_id k)
                        (close_task (if final then StFailed else StPending) (Some error)
                           (if final then Some finished_at else None) next_attempt_at) db
            in (Inr True, if final then sync_item finished_at item_id db1 else db1))"

text \<open>Persisting a result under the claim of its task. Without a worker the result is persisted and no
  task ended.\<close>

definition commit_package_result ::
  "memory_env \<Rightarrow> pystr \<Rightarrow> process_result \<Rightarrow> pystr option \<Rightarrow> thread_scope option \<Rightarrow> thread_scope option
     \<Rightarrow> time \<Rightarrow> (pystr \<times> int option) option \<Rightarrow> queue_db \<Rightarrow> (pystr \<times> pystr) list option queue_outcome" where
  "commit_package_result E item_id result package thread_scope container_scope finished_at claim db =
     (case claim of
        None \<Rightarrow>
          (case commit_stage E result [] db of
             Inl e \<Rightarrow> (Inl e, db)
           | Inr (pairs, db1) \<Rightarrow>
               (Inr (Some pairs),
                request_optional container_scope finished_at
                  (request_optional thread_scope finished_at db1)))
      | Some (worker_id, attempts) \<Rightarrow>
          (case (package, attempts) of
             (Some p, Some n) \<Rightarrow>
               (case find_task db item_id p of
                  None \<Rightarrow> (Inr None, db)
                | Some k \<Rightarrow>
                    if \<not> holds_task worker_id n k then (Inr None, db)
                    else
                      (case commit_stage E result [] db of
                         Inl e \<Rightarrow> (Inl e, db)
                       | Inr (pairs, db1) \<Rightarrow>
                           (Inr (Some pairs),
                            finish_task finished_at k
                              (request_optional container_scope finished_at
                                (request_optional thread_scope finished_at db1)))))
           | _ \<Rightarrow> (Inl (BadValue
                     (u ''package_name and attempts are required with worker_id'')), db)))"

section \<open>Packages that were switched off\<close>

definition skip_item :: "time \<Rightarrow> source_item \<Rightarrow> source_item" where
  "skip_item finished_at i =
     i\<lparr>i_status := StSkipped, i_error := Some (u ''package_disabled''), i_claimed_by := None,
       i_claimed_at := None, i_lease_expires_at := None, i_completed_at := Some finished_at,
       i_next_attempt_at := None\<rparr>"

definition drop_scope :: "time \<Rightarrow> thread_lease \<Rightarrow> thread_lease" where
  "drop_scope finished_at l =
     l\<lparr>l_requested_at := None, l_claimed_by := None, l_claimed_at := None,
       l_lease_expires_at := None, l_completed_at := Some finished_at, l_updated_at := finished_at\<rparr>"

definition unfinished :: "work_status \<Rightarrow> bool" where
  "unfinished st \<longleftrightarrow> st \<in> {StPending, StFailed, StProcessing}"

definition cancel_disabled ::
  "pystr list \<Rightarrow> time \<Rightarrow> queue_db \<Rightarrow> (nat \<times> nat \<times> nat) queue_outcome" where
  "cancel_disabled packages finished_at db =
     (if packages = [] then (Inr (0, 0, 0), db)
      else
        let off = (\<lambda>k. k_package k \<in> set packages \<and> unfinished (k_status k));
            items = remdups (map k_item_id (filter off (q_tasks db)));
            db1 = fold (sync_item finished_at) items
                    (db\<lparr>q_tasks := rows_where off
                         (close_task StSkipped (Some (u ''package_disabled'')) (Some finished_at) None)
                         (q_tasks db)\<rparr>);
            legacy = (\<lambda>i. (case i_use_case i of None \<Rightarrow> False | Some c \<Rightarrow> c \<in> set packages)
                        \<and> unfinished (i_status i) \<and> tasks_of db1 (i_id i) = []);
            idle = (\<lambda>l. l_use_case l \<in> set packages \<and> (l_requested_at l \<noteq> None \<or> l_claimed_by l \<noteq> None))
        in (Inr (length (filter off (q_tasks db)), length (filter legacy (q_items db1)),
                 length (filter idle (q_leases db1))),
            db1\<lparr>q_items := rows_where legacy (skip_item finished_at) (q_items db1),
                q_leases := rows_where idle (drop_scope finished_at) (q_leases db1)\<rparr>))"

section \<open>The older queue of source items\<close>

definition item_blocked :: "queue_db \<Rightarrow> source_item \<Rightarrow> bool" where
  "item_blocked db i \<longleftrightarrow> list_ex (\<lambda>k. k_item_id k = i_id i \<and> k_status k \<in> {StPending, StProcessing}) (q_tasks db)"

definition item_ready :: "queue_db \<Rightarrow> work_claim \<Rightarrow> source_item \<Rightarrow> bool" where
  "item_ready db q i \<longleftrightarrow> i_use_case i \<noteq> None
     \<and> claimable q (i_status i) (i_attempts i) (i_next_attempt_at i) (i_lease_expires_at i)
     \<and> \<not> item_blocked db i"

definition grab_item :: "work_claim \<Rightarrow> source_item \<Rightarrow> source_item" where
  "grab_item q i =
     i\<lparr>i_status := StProcessing, i_attempts := i_attempts i + 1,
       i_claimed_by := Some (wc_worker_id q), i_claimed_at := Some (wc_claimed_at q),
       i_lease_expires_at := Some (claim_end q), i_next_attempt_at := None\<rparr>"

definition item_rank :: "source_item \<Rightarrow> time \<times> pystr" where
  "item_rank i = (i_created_at i, i_id i)"

definition claim_next_item :: "work_claim \<Rightarrow> queue_db \<Rightarrow> source_item option queue_outcome" where
  "claim_next_item q db =
     (case claim_first i_id item_rank (item_ready db q) (grab_item q) (q_items db) of
        (None, _) \<Rightarrow> (Inr None, db)
      | (Some i, items) \<Rightarrow> (Inr (Some (item_view i)), db\<lparr>q_items := items\<rparr>))"

definition complete_item :: "pystr \<Rightarrow> time \<Rightarrow> queue_db \<Rightarrow> unit queue_outcome" where
  "complete_item item_id finished_at db =
     (case get_source db item_id of
        None \<Rightarrow> (Inl (MissingRow item_id), db)
      | Some _ \<Rightarrow>
          (Inr (), upd_source item_id (\<lambda>i. i\<lparr>i_status := StCompleted, i_completed_at := Some finished_at,
             i_error := None, i_lease_expires_at := None, i_next_attempt_at := None\<rparr>) db))"

definition holds_item :: "pystr \<Rightarrow> int \<Rightarrow> source_item \<Rightarrow> bool" where
  "holds_item worker_id attempts i \<longleftrightarrow>
     i_status i = StProcessing \<and> i_claimed_by i = Some worker_id \<and> i_attempts i = attempts"

text \<open>The common check of the item's claim: \<open>Inr False\<close> is a claim that is not current.\<close>

definition check_item_claim :: "(pystr \<times> int option) option \<Rightarrow> source_item \<Rightarrow> bool queue_result" where
  "check_item_claim claim i =
     (case claim of
        None \<Rightarrow> Inr True
      | Some (w, None) \<Rightarrow> Inl (BadValue (u ''attempts is required with worker_id''))
      | Some (w, Some n) \<Rightarrow> Inr (holds_item w n i))"

definition fail_item ::
  "memory_env \<Rightarrow> pystr \<Rightarrow> pystr \<Rightarrow> time option \<Rightarrow> bool \<Rightarrow> json_object option \<Rightarrow> (pystr \<times> int option) option
     \<Rightarrow> time \<Rightarrow> queue_db \<Rightarrow> bool queue_outcome" where
  "fail_item E item_id error next_attempt_at final updates claim finished_at db =
     (case get_source db item_id of
        None \<Rightarrow> (Inl (MissingRow item_id), db)
      | Some i \<Rightarrow>
          (case check_item_claim claim i of
             Inl e \<Rightarrow> (Inl e, db)
           | Inr False \<Rightarrow> (Inr False, db)
           | Inr True \<Rightarrow>
               let db1 = (case updates of
                            None \<Rightarrow> db
                          | Some d \<Rightarrow>
                              if d = [] then db
                              else let metadata = obj_update d (source_metadata i)
                                   in sync_work_refs (me_casefold E) (me_redact E) item_id metadata
                                        (upd_source item_id (\<lambda>r. r\<lparr>i_metadata := Some metadata\<rparr>) db))
               in (Inr True,
                   upd_source item_id (\<lambda>r. r\<lparr>i_status := (if final then StFailed else StPending),
                     i_error := Some error, i_claimed_by := None, i_claimed_at := None,
                     i_lease_expires_at := None,
                     i_completed_at := (if final then Some finished_at else None),
                     i_next_attempt_at := next_attempt_at\<rparr>) db1)))"

definition commit_item ::
  "memory_env \<Rightarrow> pystr \<Rightarrow> process_result \<Rightarrow> thread_scope option \<Rightarrow> thread_scope option \<Rightarrow> time
     \<Rightarrow> (pystr \<times> int option) option \<Rightarrow> queue_db \<Rightarrow> (pystr \<times> pystr) list option queue_outcome" where
  "commit_item E item_id result thread_scope container_scope finished_at claim db =
     (case get_source db item_id of
        None \<Rightarrow> (Inl (MissingRow item_id), db)
      | Some i \<Rightarrow>
          (case check_item_claim claim i of
             Inl e \<Rightarrow> (Inl e, db)
           | Inr False \<Rightarrow> (Inr None, db)
           | Inr True \<Rightarrow>
               (case commit_stage E result [] db of
                  Inl e \<Rightarrow> (Inl e, db)
                | Inr (pairs, db1) \<Rightarrow>
                    (Inr (Some pairs),
                     upd_source item_id (\<lambda>r. r\<lparr>i_status := StCompleted,
                         i_completed_at := Some finished_at, i_error := None, i_claimed_by := None,
                         i_claimed_at := None, i_lease_expires_at := None, i_next_attempt_at := None\<rparr>)
                       (request_optional container_scope finished_at
                         (request_optional thread_scope finished_at db1))))))"

section \<open>Why an item waits\<close>

text \<open>\<open>_classify_unclaimable_pending_reason\<close>, for the health report of the queue.\<close>

definition classify_pending ::
  "source_item \<Rightarrow> time \<Rightarrow> int \<Rightarrow> pystr set \<Rightarrow> pystr set \<Rightarrow> pystr option" where
  "classify_pending i now max_attempts known scoped =
     (if i_status i \<noteq> StPending then None
      else
        (case i_use_case i of
           None \<Rightarrow> Some (u ''missing_use_case'')
         | Some c \<Rightarrow>
             if c = [] then Some (u ''missing_use_case'')
             else if max_attempts \<le> i_attempts i then Some (u ''legacy_max_attempts_exhausted_pending'')
             else if (case i_next_attempt_at i of None \<Rightarrow> False | Some t \<Rightarrow> t > now)
             then Some (u ''retry_backoff_active'')
             else if c \<notin> known then Some (u ''unknown_use_case'')
             else if c \<in> scoped \<and> (i_visibility i = None \<or> i_visibility i = Some [])
             then Some (u ''missing_visibility_for_scoped_use_case'')
             else None))"

section \<open>Retrying failed items\<close>

definition observability :: "source_item \<Rightarrow> json_object" where
  "observability i =
     (case obj_get (u ''observability_debug'') (source_metadata i) of Some (JObject d) \<Rightarrow> d | _ \<Rightarrow> [])"

definition retry_task :: "package_task \<Rightarrow> package_task" where
  "retry_task k = (close_task StPending None None None k)\<lparr>k_attempts := 0\<rparr>"

definition retry_item :: "package_task list \<Rightarrow> source_item \<Rightarrow> source_item" where
  "retry_item tasks i =
     i\<lparr>i_metadata := Some (obj_put (u ''observability_debug'')
         (JObject (obj_put (u ''failure_category'') JNull (observability i))) (source_metadata i)),
       i_status := StPending, i_attempts := sum_list (map k_attempts tasks), i_error := None,
       i_claimed_by := None, i_claimed_at := None, i_lease_expires_at := None,
       i_completed_at := None, i_next_attempt_at := None\<rparr>"

text \<open>The loop over the selected items, with the numbers of items and tasks retried so far. An item all
  of whose tasks succeeded is passed over.\<close>

fun retry_items :: "nat \<Rightarrow> source_item list \<Rightarrow> nat \<Rightarrow> nat \<Rightarrow> queue_db \<Rightarrow> (nat \<times> nat) \<times> queue_db" where
  "retry_items limit [] sources packages db = ((sources, packages), db)"
| "retry_items limit (i # is) sources packages db =
     (let tasks = tasks_of db (i_id i);
          failed = filter (\<lambda>k. k_status k = StFailed) tasks
      in if tasks \<noteq> [] \<and> failed = [] then retry_items limit is sources packages db
         else
           let db1 = db\<lparr>q_tasks := rows_where (\<lambda>k. k_item_id k = i_id i \<and> k_status k = StFailed)
                                    retry_task (q_tasks db)\<rparr>;
               db2 = upd_source (i_id i) (retry_item (tasks_of db1 (i_id i))) db1
           in if limit \<le> Suc sources then ((Suc sources, packages + length failed), db2)
              else retry_items limit is (Suc sources) (packages + length failed) db2)"

definition retry_selected :: "pystr \<Rightarrow> nat \<Rightarrow> queue_db \<Rightarrow> source_item list" where
  "retry_selected category limit db =
     take limit (sort_key (\<lambda>i. (case i_completed_at i of None \<Rightarrow> (0::nat, 0) | Some t \<Rightarrow> (1, t), i_id i))
       (filter (\<lambda>i. i_status i = StFailed
                  \<and> obj_get (u ''failure_category'') (observability i) = Some (JText category))
         (q_items db)))"

definition retry_failed_items :: "pystr \<Rightarrow> nat \<Rightarrow> queue_db \<Rightarrow> (nat \<times> nat) queue_outcome" where
  "retry_failed_items category limit db =
     (case retry_items limit (retry_selected category limit db) 0 0 db of
        (counts, db1) \<Rightarrow> (Inr counts, db1))"

end
