(* ===== verification/Queue_Intake.thy ===== *)
theory Queue_Intake
  imports Queue_Packages
begin

text \<open>
  Where source items enter and how a thread of them is read (\<open>storage/sqlite.py\<close>): creating an item
  with or without its package tasks, and the queries over the items of a thread or container in the
  order of their creation.
\<close>

section \<open>Creating items\<close>

definition thread_position_for :: "queue_db \<Rightarrow> source_item \<Rightarrow> int" where
  "thread_position_for db i =
     (if i_thread_ref i \<noteq> None \<and> i_container_ref i \<noteq> None
      then int (length (filter (\<lambda>j. i_container_ref j = i_container_ref i \<and> i_thread_ref j = i_thread_ref i)
                          (q_items db))) + 1
      else 1)"

text \<open>The row of a new item: all columns of the given item, its position, and not forgotten; an item without a
  visibility is private.\<close>

definition intake_row :: "queue_db \<Rightarrow> source_item \<Rightarrow> source_item" where
  "intake_row db i =
     i\<lparr>i_visibility := stored_visibility (i_visibility i),
       i_thread_position := Some (thread_position_for db i), i_forgotten_at := None,
       i_forgotten_by := None, i_forgotten_reason := None\<rparr>"

text \<open>The primary key and the two unique indexes of the table; the second is partial, and a row with
  no container or thread never collides in it.\<close>

definition turn_key :: "source_item \<Rightarrow> (pystr \<times> pystr \<times> pystr \<times> pystr) option" where
  "turn_key i =
     (case (i_container_ref i, i_thread_ref i, i_source_turn_id i) of
        (Some c, Some t, Some s) \<Rightarrow>
          if i_role i = Some (u ''user'') then Some (i_source_type i, c, t, s) else None
      | _ \<Rightarrow> None)"

definition item_collides :: "queue_db \<Rightarrow> source_item \<Rightarrow> bool" where
  "item_collides db i \<longleftrightarrow> list_ex (\<lambda>j. i_id j = i_id i
        \<or> (i_source_type j, i_source_id j) = (i_source_type i, i_source_id i)
        \<or> (turn_key i \<noteq> None \<and> turn_key j = turn_key i)) (q_items db)"

definition insert_item :: "memory_env \<Rightarrow> source_item \<Rightarrow> queue_db \<Rightarrow> queue_db queue_result" where
  "insert_item E i db =
     (if item_collides db i then Inl DuplicateKey
      else Inr (sync_work_refs (me_casefold E) (me_redact E) (i_id i) (source_metadata i)
                  (db\<lparr>q_items := q_items db @ [intake_row db i]\<rparr>)))"

definition create_source_item :: "memory_env \<Rightarrow> source_item \<Rightarrow> queue_db \<Rightarrow> unit queue_outcome" where
  "create_source_item E i db =
     (case insert_item E i db of Inl e \<Rightarrow> (Inl e, db) | Inr db1 \<Rightarrow> (Inr (), db1))"

definition create_source_item_with_packages ::
  "memory_env \<Rightarrow> source_item \<Rightarrow> pystr list \<Rightarrow> pystr list \<Rightarrow> time \<Rightarrow> queue_db \<Rightarrow> unit queue_outcome" where
  "create_source_item_with_packages E i packages skip now db =
     (case insert_item E i db of
        Inl e \<Rightarrow> (Inl e, db)
      | Inr db1 \<Rightarrow>
          (case add_tasks (i_id i) skip (Some (i_created_at i)) now packages (q_tasks db1) of
             Inl e \<Rightarrow> (Inl e, db) | Inr tasks \<Rightarrow> (Inr (), db1\<lparr>q_tasks := tasks\<rparr>)))"

definition read_source_item :: "queue_db \<Rightarrow> pystr \<Rightarrow> source_item queue_result" where
  "read_source_item db k =
     (case get_source db k of None \<Rightarrow> Inl (MissingRow k) | Some i \<Rightarrow> Inr (item_view i))"

section \<open>Reading a thread\<close>

definition by_creation :: "source_item list \<Rightarrow> source_item list" where
  "by_creation = sort_key item_rank"

text \<open>\<open>_source_item_enabled_for_package\<close>: the item has a task of the package that was not switched
  off, or it has none and went through the older queue for that package.\<close>

definition switched_off :: "pystr option \<Rightarrow> bool" where
  "switched_off error \<longleftrightarrow> error = Some (u ''package_disabled'')"

definition enabled_for_package :: "queue_db \<Rightarrow> pystr \<Rightarrow> source_item \<Rightarrow> bool" where
  "enabled_for_package db package i \<longleftrightarrow>
     list_ex (\<lambda>k. k_item_id k = i_id i \<and> k_package k = package
                \<and> (k_status k \<noteq> StSkipped \<or> \<not> switched_off (k_error k))) (q_tasks db)
     \<or> (i_use_case i = Some package \<and> i_status i = StCompleted \<and> \<not> switched_off (i_error i)
        \<and> \<not> list_ex (\<lambda>k. k_item_id k = i_id i \<and> k_package k = package) (q_tasks db))"

definition package_filter :: "queue_db \<Rightarrow> pystr option \<Rightarrow> source_item \<Rightarrow> bool" where
  "package_filter db package i = (case package of None \<Rightarrow> True | Some p \<Rightarrow> enabled_for_package db p i)"

definition in_thread :: "pystr \<Rightarrow> pystr \<Rightarrow> source_item \<Rightarrow> bool" where
  "in_thread container_ref thread_ref i \<longleftrightarrow>
     i_container_ref i = Some container_ref \<and> i_thread_ref i = Some thread_ref"

definition list_thread_items ::
  "queue_db \<Rightarrow> pystr \<Rightarrow> pystr \<Rightarrow> pystr option \<Rightarrow> source_item list" where
  "list_thread_items db container_ref thread_ref package =
     map item_view (by_creation
       (filter (\<lambda>i. in_thread container_ref thread_ref i \<and> package_filter db package i) (q_items db)))"

text \<open>The first messages of the threads of a container; with a limit, the latest ones, still in
  ascending order. A negative limit is none.\<close>

definition list_top_level ::
  "queue_db \<Rightarrow> pystr \<Rightarrow> time option \<Rightarrow> int option \<Rightarrow> pystr option \<Rightarrow> source_item list" where
  "list_top_level db container_ref after max_items package =
     (let rows = by_creation (filter (\<lambda>i. i_container_ref i = Some container_ref
                   \<and> i_thread_position i = Some 1 \<and> package_filter db package i
                   \<and> (case after of None \<Rightarrow> True | Some t \<Rightarrow> i_created_at i > t)) (q_items db))
      in map item_view
           (case max_items of
              None \<Rightarrow> rows
            | Some n \<Rightarrow> if n < 0 then rows else by_creation (take (nat n) (rev rows))))"

definition thread_neighbors ::
  "queue_db \<Rightarrow> pystr \<Rightarrow> pystr \<Rightarrow> time \<Rightarrow> pystr \<Rightarrow> int \<Rightarrow> int \<Rightarrow> source_item list \<times> source_item list" where
  "thread_neighbors db container_ref thread_ref anchor_created_at anchor_id before after =
     (let rows = filter (in_thread container_ref thread_ref) (q_items db);
          earlier = filter (\<lambda>i. i_created_at i < anchor_created_at
                       \<or> (i_created_at i = anchor_created_at \<and> i_id i < anchor_id)) rows;
          later = filter (\<lambda>i. i_created_at i > anchor_created_at
                     \<or> (i_created_at i = anchor_created_at \<and> i_id i > anchor_id)) rows
      in (if before > 0 then map item_view (rev (take (nat before) (rev (by_creation earlier)))) else [],
          if after > 0 then map item_view (take (nat after) (by_creation later)) else []))"

definition count_items_after :: "queue_db \<Rightarrow> pystr \<Rightarrow> pystr \<Rightarrow> time \<Rightarrow> nat" where
  "count_items_after db container_ref thread_ref after_created_at =
     length (filter (\<lambda>i. in_thread container_ref thread_ref i \<and> i_created_at i > after_created_at) (q_items db))"

definition thread_stats :: "queue_db \<Rightarrow> pystr \<Rightarrow> pystr option \<Rightarrow> nat \<times> time option" where
  "thread_stats db thread_ref exclude =
     (let rows = filter (\<lambda>i. i_thread_ref i = Some thread_ref
                    \<and> (case exclude of None \<Rightarrow> True | Some k \<Rightarrow> i_id i \<noteq> k)) (q_items db)
      in (length rows, case map i_created_at rows of [] \<Rightarrow> None | t # ts \<Rightarrow> Some (fold max ts t)))"

end
