(* ===== verification/Queue_Machine.thy ===== *)
theory Queue_Machine
  imports Queue_Intake "HOL-Library.Multiset"
begin

text \<open>
  The queue as a machine: its invariant, the order in which its tables grow, and the fact that every
  transaction keeps the one and moves along the other. Rows are never renamed and items, memory
  objects, leases, tasks and promotions are never removed; a superseded memory object stays
  superseded, and the full text index mirrors the lexical entries.
\<close>

named_theorems qsteps \<open>a transaction keeps the invariant and moves forward\<close>

section \<open>The invariant\<close>

text \<open>What no transaction of the queue changes in a row: its identity, and the marks of those who forget,
  delete or replace by hand.\<close>

abbreviation task_name :: "package_task \<Rightarrow> nat \<times> pystr \<times> pystr \<times> time" where
  "task_name k \<equiv> (k_id k, k_item_id k, k_package k, k_created_at k)"

abbreviation item_name :: "source_item \<Rightarrow> pystr \<times> (pystr \<times> pystr \<times> pystr \<times> time)
    \<times> time option \<times> pystr option \<times> pystr option" where
  "item_name i \<equiv> (i_id i, (i_source_type i, i_source_id i, i_content i, i_created_at i),
     i_forgotten_at i, i_forgotten_by i, i_forgotten_reason i)"

abbreviation memory_name :: "memory_object \<Rightarrow> pystr \<times> (pystr \<times> pystr option \<times> pystr option \<times> time)
    \<times> pystr option \<times> int \<times> time option \<times> pystr option" where
  "memory_name m \<equiv> (mo_id m, (mo_type m, mo_container_ref m, mo_visibility m, mo_created_at m),
     mo_superseded_by_id m, mo_is_soft_deleted m, mo_soft_deleted_at m, mo_soft_delete_reason m)"

abbreviation lease_name :: "thread_lease \<Rightarrow> pystr \<times> pystr \<times> pystr \<times> pystr option" where
  "lease_name l \<equiv> (l_scope_key l, l_use_case l, l_container_ref l, l_thread_ref l)"

text \<open>A task is claimed exactly while it is processing, under a lease that ends after the claim.\<close>

definition task_wf :: "package_task \<Rightarrow> bool" where
  "task_wf k \<longleftrightarrow> 0 \<le> k_attempts k
     \<and> (if k_status k = StProcessing
        then k_claimed_by k \<noteq> None \<and> 1 \<le> k_attempts k
          \<and> (case (k_claimed_at k, k_lease_expires_at k) of (Some s, Some e) \<Rightarrow> s < e | _ \<Rightarrow> False)
        else k_claimed_by k = None \<and> k_claimed_at k = None \<and> k_lease_expires_at k = None)"

definition lease_wf :: "thread_lease \<Rightarrow> bool" where
  "lease_wf l \<longleftrightarrow>
     (case (l_claimed_by l, l_claimed_at l, l_lease_expires_at l) of
        (None, None, None) \<Rightarrow> True
      | (Some _, Some s, Some e) \<Rightarrow> s < e
      | _ \<Rightarrow> False)"

text \<open>What a full text row copies from the index entry it belongs to.\<close>

definition entry_copy :: "index_entry \<Rightarrow> pystr \<times> pystr \<times> pystr \<times> pystr" where
  "entry_copy e = (ix_id e, ix_target_kind e, ix_target_id e, ix_text_view e)"

definition fts_copy :: "fts_row \<Rightarrow> pystr \<times> pystr \<times> pystr \<times> pystr" where
  "fts_copy f = (ft_index_entry_id f, ft_target_kind f, ft_target_id f, ft_text_view f)"

definition lexical_entries :: "queue_db \<Rightarrow> index_entry list" where
  "lexical_entries db = filter (\<lambda>e. ix_index_type e = u ''lexical'') (q_index db)"

definition queue_inv :: "queue_db \<Rightarrow> bool" where
  "queue_inv db \<longleftrightarrow>
     distinct (map i_id (q_items db)) \<and> distinct (map mo_id (q_memories db))
     \<and> distinct (map rl_id (q_relations db)) \<and> distinct (map ix_id (q_index db))
     \<and> image_mset fts_copy (mset (q_fts db)) = image_mset entry_copy (mset (lexical_entries db))
     \<and> distinct (map l_scope_key (q_leases db)) \<and> list_all lease_wf (q_leases db)
     \<and> distinct (map k_id (q_tasks db)) \<and> distinct (map (\<lambda>k. (k_item_id k, k_package k)) (q_tasks db))
     \<and> list_all task_wf (q_tasks db) \<and> distinct (map pl_id (q_promotions db))"

text \<open>Deleting the full text rows of some lexical entries leaves the rows of the others.\<close>

lemma fts_rows_deleted:
  assumes "distinct (map ix_id (q_index db))"
    and "image_mset fts_copy (mset (q_fts db)) = image_mset entry_copy (mset (filter P (lexical_entries db)))"
    and "gone = ix_id ` set (filter (\<lambda>e. ix_index_type e = u ''lexical'' \<and> R e) (q_index db))"
  shows "image_mset fts_copy (mset (filter (\<lambda>f. ft_index_entry_id f \<notin> gone) (q_fts db))) =
    image_mset entry_copy (mset (filter (\<lambda>e. P e \<and> \<not> R e) (lexical_entries db)))"
proof -
  have "inj_on ix_id (set (q_index db))" using assms(1) by (simp add: distinct_map)
  then have gone: "ix_id e \<in> gone \<longleftrightarrow> R e" if "e \<in> set (lexical_entries db)" for e
    using that unfolding assms(3) lexical_entries_def by (auto simp: inj_on_def)
  have "image_mset fts_copy (mset (filter (\<lambda>f. ft_index_entry_id f \<notin> gone) (q_fts db))) =
      filter_mset (\<lambda>c. fst c \<notin> gone) (image_mset fts_copy (mset (q_fts db)))"
    by (simp add: filter_mset_image_mset comp_def fts_copy_def)
  also have "\<dots> = image_mset entry_copy (mset (filter (\<lambda>e. ix_id e \<notin> gone) (filter P (lexical_entries db))))"
    unfolding assms(2) by (simp only: filter_mset_image_mset mset_filter comp_def entry_copy_def fst_conv)
  also have "filter (\<lambda>e. ix_id e \<notin> gone) (filter P (lexical_entries db)) = filter (\<lambda>e. P e \<and> \<not> R e) (lexical_entries db)"
    unfolding filter_filter by (rule filter_cong) (auto simp: gone)
  finally show ?thesis .
qed

section \<open>The order\<close>

definition extends :: "('r \<Rightarrow> 'n) \<Rightarrow> 'r list \<Rightarrow> 'r list \<Rightarrow> bool" where
  "extends name rows rows' \<longleftrightarrow> take (length rows) (map name rows') = map name rows"

definition superseded_ids :: "queue_db \<Rightarrow> pystr set" where
  "superseded_ids db = mo_id ` {m \<in> set (q_memories db). mo_lifecycle m = u ''superseded''}"

definition queue_grows :: "queue_db \<Rightarrow> queue_db \<Rightarrow> bool" where
  "queue_grows db db' \<longleftrightarrow>
     extends item_name (q_items db) (q_items db') \<and> extends memory_name (q_memories db) (q_memories db')
     \<and> extends lease_name (q_leases db) (q_leases db') \<and> extends task_name (q_tasks db) (q_tasks db')
     \<and> extends id (q_promotions db) (q_promotions db') \<and> superseded_ids db \<subseteq> superseded_ids db'"

lemma extends_iff: "extends name rows rows' \<longleftrightarrow> (\<exists>tail. map name rows' = map name rows @ tail)"
proof
  assume "extends name rows rows'"
  then show "\<exists>tail. map name rows' = map name rows @ tail"
    unfolding extends_def by (metis append_take_drop_id)
next
  assume "\<exists>tail. map name rows' = map name rows @ tail"
  then show "extends name rows rows'" by (auto simp: extends_def)
qed

lemma extends_refl [simp]: "extends name rows rows"
  by (simp add: extends_def)

lemma extends_trans: "extends name a b \<Longrightarrow> extends name b c \<Longrightarrow> extends name a c"
  by (auto simp: extends_iff)

lemma extends_append [simp]: "extends name rows (rows @ tail)"
  by (simp add: extends_iff)

lemma extends_same_names: "map name rows' = map name rows \<Longrightarrow> extends name rows rows'"
  by (simp add: extends_iff)

lemma map_row_upd_same: "(\<And>r. name (f r) = name r) \<Longrightarrow> map name (row_upd pk k f rows) = map name rows"
  by (simp add: row_upd_def)

lemma map_rows_where_same: "(\<And>r. name (f r) = name r) \<Longrightarrow> map name (rows_where P f rows) = map name rows"
  by (simp add: rows_where_def)

lemma queue_grows_refl [simp]: "queue_grows db db"
  by (simp add: queue_grows_def)

lemma queue_grows_trans: "queue_grows a b \<Longrightarrow> queue_grows b c \<Longrightarrow> queue_grows a c"
  unfolding queue_grows_def by (blast intro: extends_trans)

definition qstep :: "queue_db \<Rightarrow> queue_db \<Rightarrow> bool" where
  "qstep db db' \<longleftrightarrow> (queue_inv db \<longrightarrow> queue_inv db' \<and> queue_grows db db')"

lemma qstep_refl [simp]: "qstep db db"
  by (simp add: qstep_def)

lemma qstep_trans: "qstep a b \<Longrightarrow> qstep b c \<Longrightarrow> qstep a c"
  unfolding qstep_def using queue_grows_trans by blast

lemma qstep_fold: "(\<And>x d. qstep d (f x d)) \<Longrightarrow> qstep db (fold f xs db)"
  by (induction xs arbitrary: db) (auto intro: qstep_trans)

section \<open>Steps on one table\<close>

lemma list_all_upd: "list_all P rows \<Longrightarrow> (\<And>r. P r \<Longrightarrow> P (f r)) \<Longrightarrow> list_all P (row_upd pk k f rows)"
  by (auto simp: list_all_iff row_upd_def)

lemma list_all_where: "list_all P rows \<Longrightarrow> (\<And>r. P r \<Longrightarrow> Q r \<Longrightarrow> P (f r)) \<Longrightarrow> list_all P (rows_where Q f rows)"
  by (auto simp: list_all_iff rows_where_def)

lemma qstep_items:
  assumes "map item_name items = map item_name (q_items db)"
  shows "qstep db (db\<lparr>q_items := items\<rparr>)"
proof -
  have "map i_id items = map i_id (q_items db)" using arg_cong [OF assms, of "map fst"] by (simp add: comp_def)
  then show ?thesis
    using assms by (simp add: qstep_def queue_inv_def queue_grows_def superseded_ids_def lexical_entries_def extends_same_names)
qed

lemma qstep_upd_source [simp]: "(\<And>i. item_name (f i) = item_name i) \<Longrightarrow> qstep db (upd_source k f db)"
  unfolding upd_source_def by (rule qstep_items) (rule map_row_upd_same)

lemma qstep_work_refs: "qstep db (db\<lparr>q_work_refs := rs\<rparr>)"
  by (simp add: qstep_def queue_inv_def queue_grows_def superseded_ids_def lexical_entries_def)

lemma qstep_sync_refs [simp]: "qstep db (sync_work_refs cf redact k d db)"
  by (simp add: sync_work_refs_def Let_def qstep_work_refs)

lemma qstep_tasks:
  assumes "map task_name tasks = map task_name (q_tasks db)"
    and "list_all task_wf (q_tasks db) \<Longrightarrow> list_all task_wf tasks"
  shows "qstep db (db\<lparr>q_tasks := tasks\<rparr>)"
proof -
  have "map k_id tasks = map k_id (q_tasks db)"
    "map (\<lambda>k. (k_item_id k, k_package k)) tasks = map (\<lambda>k. (k_item_id k, k_package k)) (q_tasks db)"
    using arg_cong [OF assms(1), of "map fst"] arg_cong [OF assms(1), of "map (\<lambda>(a, b, c, d). (b, c))"]
    by (simp_all add: comp_def)
  then show ?thesis
    using assms by (simp add: qstep_def queue_inv_def queue_grows_def superseded_ids_def lexical_entries_def extends_same_names)
qed

lemma qstep_upd_task:
  assumes "\<And>t. task_name (f t) = task_name t" "\<And>t. task_wf t \<Longrightarrow> task_wf (f t)"
  shows "qstep db (upd_task k f db)"
  unfolding upd_task_def using assms by (intro qstep_tasks map_row_upd_same list_all_upd) auto

lemma qstep_leases:
  assumes "map lease_name leases = map lease_name (q_leases db)"
    and "list_all lease_wf (q_leases db) \<Longrightarrow> list_all lease_wf leases"
  shows "qstep db (db\<lparr>q_leases := leases\<rparr>)"
proof -
  have "map l_scope_key leases = map l_scope_key (q_leases db)"
    using arg_cong [OF assms(1), of "map fst"] by (simp add: comp_def)
  then show ?thesis
    using assms by (simp add: qstep_def queue_inv_def queue_grows_def superseded_ids_def lexical_entries_def extends_same_names)
qed

lemma qstep_upd_lease:
  assumes "\<And>t. lease_name (f t) = lease_name t" "\<And>t. lease_wf t \<Longrightarrow> lease_wf (f t)"
  shows "qstep db (upd_lease k f db)"
  unfolding upd_lease_def using assms by (intro qstep_leases map_row_upd_same list_all_upd) auto

text \<open>Memory objects keep their names, and what is superseded stays so.\<close>

lemma qstep_memory_table:
  assumes "map memory_name memories = map memory_name (q_memories db)"
    and "superseded_ids db \<subseteq> superseded_ids (db\<lparr>q_memories := memories\<rparr>)"
  shows "qstep db (db\<lparr>q_memories := memories\<rparr>)"
proof -
  have "map mo_id memories = map mo_id (q_memories db)"
    using arg_cong [OF assms(1), of "map fst"] by (simp add: comp_def)
  then show ?thesis
    using assms by (simp add: qstep_def queue_inv_def queue_grows_def lexical_entries_def extends_same_names)
qed

lemma qstep_memories:
  assumes "\<And>m. memory_name (f m) = memory_name m"
    and "\<And>m. mo_lifecycle m = u ''superseded'' \<Longrightarrow> mo_lifecycle (f m) = u ''superseded''"
  shows "qstep db (db\<lparr>q_memories := map f (q_memories db)\<rparr>)"
proof (rule qstep_memory_table)
  show "map memory_name (map f (q_memories db)) = map memory_name (q_memories db)"
    using assms(1) by simp
  show "superseded_ids db \<subseteq> superseded_ids (db\<lparr>q_memories := map f (q_memories db)\<rparr>)"
  proof
    fix k assume "k \<in> superseded_ids db"
    then obtain m where "m \<in> set (q_memories db)" "mo_lifecycle m = u ''superseded''" "k = mo_id m"
      by (auto simp: superseded_ids_def)
    then show "k \<in> superseded_ids (db\<lparr>q_memories := map f (q_memories db)\<rparr>)"
      using assms by (auto simp: superseded_ids_def image_iff intro!: exI [of _ "f m"])
  qed
qed

lemma qstep_upd_memory:
  assumes "\<And>m. memory_name (f m) = memory_name m"
    and "\<And>m. mo_lifecycle m = u ''superseded'' \<Longrightarrow> mo_lifecycle (f m) = u ''superseded''"
  shows "qstep db (upd_memory k f db)"
  unfolding upd_memory_def row_upd_def by (rule qstep_memories) (use assms in auto)

lemma qstep_rows_memory:
  assumes "\<And>m. memory_name (f m) = memory_name m"
    and "\<And>m. P m \<Longrightarrow> mo_lifecycle m \<noteq> u ''superseded''"
  shows "qstep db (db\<lparr>q_memories := rows_where P f (q_memories db)\<rparr>)"
  unfolding rows_where_def by (rule qstep_memories) (use assms in auto)

lemma qstep_relations: "distinct (map rl_id rs) \<Longrightarrow> qstep db (db\<lparr>q_relations := rs\<rparr>)"
  by (simp add: qstep_def queue_inv_def queue_grows_def superseded_ids_def lexical_entries_def)

lemma qstep_promotions:
  "distinct (map pl_id ps) \<Longrightarrow> extends id (q_promotions db) ps \<Longrightarrow> qstep db (db\<lparr>q_promotions := ps\<rparr>)"
  by (simp add: qstep_def queue_inv_def queue_grows_def superseded_ids_def lexical_entries_def)

section \<open>Tasks\<close>

lemma task_wf_close [simp]: "task_wf k \<Longrightarrow> st \<noteq> StProcessing \<Longrightarrow> task_wf (close_task st e c n k)"
  by (simp add: task_wf_def close_task_def split: if_splits)

lemma task_wf_grab [simp]: "task_wf k \<Longrightarrow> task_wf (grab_task q k)"
  by (auto simp: task_wf_def grab_task_def claim_end_def split: if_splits)

lemma task_name_grab [simp]: "task_name (grab_task q k) = task_name k"
  by (simp add: grab_task_def)

lemma task_name_close [simp]: "task_name (close_task st e c n k) = task_name k"
  by (simp add: close_task_def)

lemma qstep_sync_item [simp]: "qstep db (sync_item t k db)"
  by (auto simp: sync_item_def Let_def finish_item_def)

lemma qstep_sync_items: "qstep db d \<Longrightarrow> qstep db (fold (sync_item t) ks d)"
  by (rule qstep_trans [OF _ qstep_fold]) simp_all

lemma qstep_close_where:
  assumes "st \<noteq> StProcessing"
  shows "qstep db (db\<lparr>q_tasks := rows_where P (\<lambda>k. close_task st (e k) (c k) (n k) k) (q_tasks db)\<rparr>)"
  using assms by (intro qstep_tasks map_rows_where_same list_all_where task_wf_close task_name_close)

lemma qstep_finalize [simp]: "qstep db (finalize_exhausted now m db)"
  unfolding finalize_exhausted_def Let_def expire_task_def
  by (intro qstep_sync_items qstep_close_where) simp

lemma qstep_finish_task [simp]: "qstep db (finish_task t k db)"
  unfolding finish_task_def by (rule qstep_trans [OF qstep_upd_task qstep_sync_item]) auto

lemma claim_first_names:
  assumes "claim_first key rank P grab rows = (r, rows')" "\<And>x. name (grab x) = name x"
  shows "map name rows' = map name rows"
  using assms by (auto simp: claim_first_def map_row_upd_same split: option.splits)

lemma claim_first_all:
  assumes "claim_first key rank P grab rows = (r, rows')" "\<And>x. Q x \<Longrightarrow> Q (grab x)" "list_all Q rows"
  shows "list_all Q rows'"
  using assms by (auto simp: claim_first_def list_all_upd split: option.splits)

lemma qstep_claim_tasks:
  assumes "claim_first k_id rank P (grab_task q) (q_tasks db) = (r, tasks)"
  shows "qstep db (db\<lparr>q_tasks := tasks\<rparr>)"
  by (rule qstep_tasks [OF claim_first_names [OF assms] claim_first_all [OF assms]]) simp_all

lemma qstep_claim_next_task [qsteps]: "qstep db (snd (claim_next_task q db))"
  by (auto simp: claim_next_task_def Let_def split: prod.split option.split
      intro: qstep_trans [OF qstep_finalize qstep_claim_tasks])

lemma qstep_claim_task_for_item [qsteps]: "qstep db (snd (claim_next_task_for_item k q db))"
  by (auto simp: claim_next_task_for_item_def Let_def split: prod.split option.split
      intro: qstep_trans [OF qstep_finalize qstep_claim_tasks])

lemma fold_max_le: "x \<in> set xs \<Longrightarrow> x \<le> fold max xs (a :: nat)" "a \<le> fold max xs a"
proof -
  have "fold max xs a = Max (set (a # xs))" by (rule Max.set_eq_fold [symmetric])
  then show "x \<in> set xs \<Longrightarrow> x \<le> fold max xs a" "a \<le> fold max xs a" by simp_all
qed

lemma task_wf_new [simp]: "task_wf (new_task k i p s c now)"
  by (simp add: task_wf_def new_task_def)

lemma next_task_id_fresh: "next_task_id tasks \<notin> k_id ` set tasks"
  using fold_max_le(1) [of _ "map k_id tasks" 0] by (fastforce simp: next_task_id_def)

lemma new_task_keys [simp]: "k_id (new_task k i p s c now) = k" "k_item_id (new_task k i p s c now) = i"
  "k_package (new_task k i p s c now) = p"
  by (simp_all add: new_task_def)

lemma add_tasks_wf:
  assumes "add_tasks item skip created now ps tasks = Inr tasks'"
    and "distinct (map k_id tasks)" "distinct (map (\<lambda>k. (k_item_id k, k_package k)) tasks)" "list_all task_wf tasks"
  shows "distinct (map k_id tasks') \<and> distinct (map (\<lambda>k. (k_item_id k, k_package k)) tasks')
    \<and> list_all task_wf tasks' \<and> extends task_name tasks tasks'"
  using assms
proof (induction item skip created now ps tasks rule: add_tasks.induct)
  case (2 item skip created now p ps tasks)
  let ?t = "new_task (next_task_id tasks) item p (p \<in> set skip) created now"
  have "distinct (map k_id (tasks @ [?t]))" "list_all task_wf (tasks @ [?t])"
    "distinct (map (\<lambda>k. (k_item_id k, k_package k)) (tasks @ [?t]))"
    using "2.prems" next_task_id_fresh [of tasks]
    by (auto split: if_splits)
  moreover have "add_tasks item skip created now ps (tasks @ [?t]) = Inr tasks'"
    "(item, p) \<notin> (\<lambda>k. (k_item_id k, k_package k)) ` set tasks"
    using "2.prems"(1) by (auto split: if_splits)
  ultimately have "distinct (map k_id tasks') \<and> distinct (map (\<lambda>k. (k_item_id k, k_package k)) tasks')
      \<and> list_all task_wf tasks' \<and> extends task_name (tasks @ [?t]) tasks'"
    using "2.IH" by blast
  then show ?case using extends_trans [OF extends_append] by blast
qed simp

lemma qstep_add_tasks:
  assumes "add_tasks item skip created now ps (q_tasks db) = Inr tasks"
  shows "qstep db (db\<lparr>q_tasks := tasks\<rparr>)"
  using add_tasks_wf [OF assms]
  by (auto simp: qstep_def queue_inv_def queue_grows_def superseded_ids_def lexical_entries_def)

lemma qstep_create_tasks [qsteps]: "qstep db (snd (create_package_tasks k ps skip now db))"
  by (auto simp: create_package_tasks_def qstep_add_tasks split: sum.split)

lemma qstep_complete_task [qsteps]: "qstep db (snd (complete_package_task k p t db))"
  by (simp add: complete_package_task_def split: option.split)

lemma qstep_fail_task [qsteps]: "qstep db (snd (fail_package_task k p e n f c t db))"
proof -
  have one: "qstep db (upd_task i (close_task (if f then StFailed else StPending) e' c' n) db)" for i e' c'
    by (rule qstep_upd_task) auto
  have "qstep db (sync_item t k (upd_task i (close_task StFailed e' c' n) db))" for i e' c'
    by (rule qstep_trans [OF qstep_upd_task qstep_sync_item]) auto
  with one show ?thesis
    by (cases f) (auto simp: fail_package_task_def Let_def split: option.split prod.split)
qed

section \<open>Leases\<close>

lemma lease_wf_grab [simp]: "lease_wf (grab_scope q l)"
  by (simp add: lease_wf_def grab_scope_def)

lemma lease_wf_release [simp]: "lease_wf (release_scope a b c l)"
  by (simp add: lease_wf_def release_scope_def)

lemma qstep_grab_scope [simp]: "qstep db (upd_lease k (grab_scope q) db)"
  by (rule qstep_upd_lease) (auto simp: grab_scope_def lease_wf_def)

lemma qstep_release_scope [simp]: "qstep db (upd_lease k (release_scope a b c) db)"
  by (rule qstep_upd_lease) (auto simp: release_scope_def lease_wf_def)

lemma qstep_claim_next_scope [qsteps]: "qstep db (snd (claim_next_scope q db))"
proof -
  have "qstep db (db\<lparr>q_leases := ls\<rparr>)"
    if "claim_first l_scope_key scope_rank (scope_ready q) (grab_scope q) (q_leases db) = (r, ls)" for r ls
    by (rule qstep_leases [OF claim_first_names [OF that] claim_first_all [OF that]])
      (simp_all add: grab_scope_def lease_wf_def)
  then show ?thesis by (auto simp: claim_next_scope_def split: prod.split option.split)
qed

lemma qstep_claim_scope [qsteps]: "qstep db (snd (claim_scope k q db))"
  by (simp add: claim_scope_def split: option.split)

lemma qstep_complete_scope [qsteps]: "qstep db (snd (complete_scope k w c t db))"
  by (simp add: complete_scope_def split: option.split)

lemma qstep_request [simp]: "qstep db (request_scope s t db)"
proof (cases "get_lease db (ts_scope_key s)")
  case None
  then have "ts_scope_key s \<notin> l_scope_key ` set (q_leases db)" by (simp add: row_get_None_iff)
  with None show ?thesis
    by (auto simp: request_scope_def qstep_def queue_inv_def queue_grows_def superseded_ids_def lexical_entries_def
        lease_wf_def)
next
  case (Some l)
  then show ?thesis
    by (simp add: request_scope_def) (rule qstep_upd_lease, auto simp: lease_wf_def)
qed

lemma qstep_request_optional [simp]: "qstep db (request_optional s t db)"
  by (simp add: request_optional_def split: option.split)

end
