(* ===== verification/Queue_Steps.thy ===== *)
theory Queue_Steps
  imports Queue_Machine
begin

text \<open>
  The transactions that persist a result, the older queue of items and the intake, as steps of the
  queue; and the machine itself, with its locale interpretation.
\<close>

section \<open>Persisting\<close>

lemma qstep_insert_memories:
  assumes "insert_rows mo_id rs (q_memories db) = Inr memories"
  shows "qstep db (db\<lparr>q_memories := memories\<rparr>)"
  using assms
  by (auto simp: insert_rows_Inr_iff qstep_def queue_inv_def queue_grows_def superseded_ids_def lexical_entries_def)

lemma qstep_insert_relations:
  assumes "insert_rows rl_id rs (q_relations db) = Inr relations"
  shows "qstep db (db\<lparr>q_relations := relations\<rparr>)"
  using assms
  by (auto simp: insert_rows_Inr_iff qstep_def queue_inv_def queue_grows_def superseded_ids_def lexical_entries_def)

lemma qstep_insert_index: "insert_index es db = Inr db' \<Longrightarrow> qstep db db'"
proof (induction es db rule: insert_index.induct)
  case (2 e es db)
  have plain: "qstep db (db\<lparr>q_index := q_index db @ [e]\<rparr>)"
    if "ix_id e \<notin> ix_id ` set (q_index db)" "ix_index_type e \<noteq> u ''lexical''"
    using that by (auto simp: qstep_def queue_inv_def queue_grows_def superseded_ids_def lexical_entries_def)
  have lexical: "qstep db (db\<lparr>q_index := q_index db @ [e], q_fts := q_fts db @ [fts_of e c]\<rparr>)"
    if "ix_id e \<notin> ix_id ` set (q_index db)" "ix_index_type e = u ''lexical''" for c
    using that by (auto simp: qstep_def queue_inv_def queue_grows_def superseded_ids_def lexical_entries_def fts_of_def fts_copy_def entry_copy_def)
  show ?case
    using "2.prems" "2.IH" plain lexical by (auto simp: Let_def split: if_splits sum.splits intro: qstep_trans)
qed simp

lemma qstep_persist_rows:
  assumes "persist_rows E result db = Inr db'"
  shows "qstep db db'"
proof -
  obtain memories relations where
    "insert_rows mo_id (map (memory_row E) (pr_memories result)) (q_memories db) = Inr memories"
    "insert_rows rl_id (pr_relations result) (q_relations db) = Inr relations"
    and last: "insert_index (pr_index result) (db\<lparr>q_memories := memories, q_relations := relations\<rparr>) = Inr db'"
    using assms by (auto simp: persist_rows_def split: sum.splits)
  then have "qstep db (db\<lparr>q_memories := memories\<rparr>)"
    "qstep (db\<lparr>q_memories := memories\<rparr>) (db\<lparr>q_memories := memories, q_relations := relations\<rparr>)"
    using qstep_insert_memories qstep_insert_relations [of _ "db\<lparr>q_memories := memories\<rparr>"] by auto
  with qstep_insert_index [OF last] show ?thesis by (blast intro: qstep_trans)
qed

lemma qstep_delete_index [simp]: "qstep db (delete_index_entries kind target db)"
  using fts_rows_deleted [of db "\<lambda>_. True" _ "\<lambda>e. ix_target_kind e = kind \<and> ix_target_id e = target", OF _ _ refl]
  by (auto simp: delete_index_entries_def Let_def qstep_def queue_inv_def queue_grows_def superseded_ids_def
      lexical_entries_def distinct_map_filter conj_ac)

section \<open>Supersession and promotion\<close>

lemma distinct_move_relations:
  "distinct (map rl_id rows) \<Longrightarrow> distinct (map rl_id (move_relations w rs ts rows))"
  by (induction w rs ts rows rule: move_relations.induct) (auto simp: distinct_keys_row_del)

lemma qstep_merge_rows:
  assumes "merge_rows s r db = Inr db'"
  shows "qstep db db'"
proof -
  have moved: "qstep d (d\<lparr>q_relations := reparent_relations l w (q_relations d)\<rparr>)" for d l w
    unfolding reparent_relations_def
    by (auto simp: qstep_def queue_inv_def queue_grows_def superseded_ids_def lexical_entries_def distinct_move_relations)
  have "qstep db (upd_memory k (\<lambda>m. m\<lparr>mo_payload := p\<rparr>) db)" for k p
    by (rule qstep_upd_memory) simp_all
  from qstep_trans [OF this moved]
  have "qstep db ((upd_memory k (\<lambda>m. m\<lparr>mo_payload := p\<rparr>) db)\<lparr>q_relations := reparent_relations l w (q_relations db)\<rparr>)"
    for k p l w by (simp add: upd_memory_def)
  then show ?thesis using assms by (auto simp: merge_rows_def split: if_splits sum.splits)
qed

lemma qstep_apply_pair:
  assumes "apply_pair E p db = Inr db'"
  shows "qstep db db'"
proof -
  have "qstep d (delete_index_entries k t ((upd_memory i (\<lambda>m. m\<lparr>mo_lifecycle := u ''superseded''\<rparr>) d)
      \<lparr>q_relations := q_relations d @ [row]\<rparr>))"
    if "rl_id row \<notin> rl_id ` set (q_relations d)" for d k t i row
  proof -
    have "qstep d (upd_memory i (\<lambda>m. m\<lparr>mo_lifecycle := u ''superseded''\<rparr>) d)" by (rule qstep_upd_memory) simp_all
    moreover have "qstep (upd_memory i (\<lambda>m. m\<lparr>mo_lifecycle := u ''superseded''\<rparr>) d)
        ((upd_memory i (\<lambda>m. m\<lparr>mo_lifecycle := u ''superseded''\<rparr>) d)\<lparr>q_relations := q_relations d @ [row]\<rparr>)"
      using that by (auto simp: upd_memory_def qstep_def queue_inv_def queue_grows_def superseded_ids_def lexical_entries_def)
    ultimately show ?thesis by (blast intro: qstep_trans qstep_delete_index)
  qed
  moreover have "q_relations (upd_memory i f d) = q_relations d" for i f d by (simp add: upd_memory_def)
  ultimately show ?thesis
    using assms by (auto simp: apply_pair_def Let_def split: option.splits if_splits sum.splits
        intro: qstep_trans [OF qstep_merge_rows])
qed

lemma qstep_apply_pairs: "apply_pairs E ps db = Inr db' \<Longrightarrow> qstep db db'"
  by (induction ps arbitrary: db) (auto split: sum.splits intro: qstep_trans qstep_apply_pair)

lemma qstep_promote_slot:
  assumes "promote_slot E h db = Inr db'"
  shows "qstep db db'"
proof -
  have "qstep d (d\<lparr>q_memories := rows_where (promotable E h) (\<lambda>m. m\<lparr>mo_lifecycle := u ''active''\<rparr>) (q_memories d)\<rparr>)" for d
    by (rule qstep_rows_memory) (auto simp: promotable_def)
  moreover have "qstep d (d\<lparr>q_promotions := ps\<rparr>)"
    if "insert_rows pl_id rs (q_promotions d) = Inr ps" for d rs ps
    using that by (auto simp: insert_rows_Inr_iff qstep_def queue_inv_def queue_grows_def superseded_ids_def lexical_entries_def)
  ultimately have "qstep db (db\<lparr>q_memories := rows_where (promotable E h) (\<lambda>m. m\<lparr>mo_lifecycle := u ''active''\<rparr>) (q_memories db),
      q_promotions := ps\<rparr>)" if "insert_rows pl_id rs (q_promotions db) = Inr ps" for rs ps
    using that qstep_trans [of db "db\<lparr>q_memories := rows_where (promotable E h) (\<lambda>m. m\<lparr>mo_lifecycle := u ''active''\<rparr>) (q_memories db)\<rparr>"]
    by simp
  then show ?thesis using assms by (auto simp: promote_slot_def Let_def split: if_splits sum.splits)
qed

lemma qstep_promote_slots: "promote_slots E seen hs db = Inr db' \<Longrightarrow> qstep db db'"
  by (induction E seen hs db rule: promote_slots.induct)
    (auto split: if_splits sum.splits intro: qstep_trans qstep_promote_slot)

section \<open>The stage of a commit\<close>

lemma qstep_metadata: "apply_metadata_updates E us db = Inr db' \<Longrightarrow> qstep db db'"
proof (induction E us db rule: apply_metadata_updates.induct)
  case (2 E k patch rest db)
  have "qstep db d" if "patch_source E k patch db = Inr d" for d
    using that by (auto simp: patch_source_def Let_def split: option.splits
        intro!: qstep_trans [OF qstep_upd_source qstep_sync_refs])
  with 2 show ?case by (auto split: sum.splits intro: qstep_trans)
qed simp

lemma qstep_freshness [simp]: "qstep db (refresh_freshness k db)"
  by (auto simp: refresh_freshness_def split: option.split intro!: qstep_upd_memory)

lemma qstep_commit_stage:
  assumes "commit_stage E result extra db = Inr (pairs, db')"
  shows "qstep db db'"
proof -
  obtain d1 d2 d3 d4 where d1: "persist_rows E result db = Inr d1"
    and d2: "promote_slots E [] (pr_promotion_hints result) d1 = Inr d2"
    and d3: "apply_pairs E pairs d2 = Inr d3"
    and d4: "apply_metadata_updates E (pr_metadata_updates result) d3 = Inr d4"
    and db': "db' = fold (\<lambda>m. refresh_freshness (mi_id m)) (pr_memories result) d4"
    using assms by (auto simp: commit_stage_def persist_result_def Let_def split: sum.splits)
  have "qstep d4 db'" unfolding db' by (rule qstep_fold) simp
  then show ?thesis
    by (rule qstep_trans [OF qstep_trans [OF qstep_persist_rows [OF d1] qstep_promote_slots [OF d2]]
          qstep_trans [OF qstep_trans [OF qstep_apply_pairs [OF d3] qstep_metadata [OF d4]]]])
qed

lemma qstep_commit_process [qsteps]: "qstep db (snd (commit_process_result E result extra db))"
  by (auto simp: commit_process_result_def split: sum.split prod.split intro: qstep_commit_stage)

lemma qstep_update_metadata [qsteps]: "qstep db (snd (update_source_metadata E k patch db))"
  unfolding update_source_metadata_def by (auto simp del: apply_metadata_updates.simps split: sum.split intro: qstep_metadata)

lemma qstep_requests: "qstep db d \<Longrightarrow> qstep db (request_optional a t (request_optional b t d))"
  by (blast intro: qstep_trans qstep_request_optional)

lemma qstep_commit_scope [qsteps]: "qstep db (snd (commit_and_complete_scope E result extra k w c t wm db))"
  by (auto simp: commit_and_complete_scope_def split: option.split sum.split prod.split
      intro: qstep_trans [OF qstep_commit_stage qstep_release_scope])

lemma qstep_commit_package [qsteps]: "qstep db (snd (commit_package_result E k result p a b t c db))"
  by (auto simp: commit_package_result_def split: option.split sum.split prod.split
      intro: qstep_requests [OF qstep_commit_stage] qstep_trans [OF qstep_requests [OF qstep_commit_stage] qstep_finish_task])

section \<open>Items\<close>

lemma qstep_claim_item [qsteps]: "qstep db (snd (claim_next_item q db))"
proof -
  have "qstep db (db\<lparr>q_items := is\<rparr>)"
    if "claim_first i_id item_rank (item_ready db q) (grab_item q) (q_items db) = (r, is)" for r "is"
    by (rule qstep_items, rule claim_first_names [OF that]) (simp add: grab_item_def)
  then show ?thesis by (auto simp: claim_next_item_def split: prod.split option.split)
qed

lemma qstep_complete_item [qsteps]: "qstep db (snd (complete_item k t db))"
  by (simp add: complete_item_def split: option.split)

lemma qstep_fail_item [qsteps]: "qstep db (snd (fail_item E k e n f us c t db))"
proof -
  have "qstep d (upd_source k (\<lambda>r. r\<lparr>i_status := st, i_error := er, i_claimed_by := None, i_claimed_at := None,
      i_lease_expires_at := None, i_completed_at := ca, i_next_attempt_at := n\<rparr>) d)" for d st er ca
    by simp
  moreover have "qstep db (sync_work_refs cf rd k md (upd_source k (\<lambda>r. r\<lparr>i_metadata := x\<rparr>) db))" for cf rd md x
    by (rule qstep_trans [OF qstep_upd_source qstep_sync_refs]) simp
  ultimately have "qstep db (upd_source k (\<lambda>r. r\<lparr>i_status := st, i_error := er, i_claimed_by := None,
      i_claimed_at := None, i_lease_expires_at := None, i_completed_at := ca, i_next_attempt_at := n\<rparr>)
      (sync_work_refs cf rd k md (upd_source k (\<lambda>r. r\<lparr>i_metadata := x\<rparr>) db)))" for cf rd md x st er ca
    by (blast intro: qstep_trans)
  then show ?thesis
    by (auto simp: fail_item_def Let_def split: option.split sum.split bool.split)
qed

lemma qstep_commit_item [qsteps]: "qstep db (snd (commit_item E k result a b t c db))"
  by (auto simp: commit_item_def split: option.split sum.split prod.split bool.split
      intro!: qstep_trans [OF qstep_requests [OF qstep_commit_stage] qstep_upd_source])

lemma qstep_cancel [qsteps]: "qstep db (snd (cancel_disabled ps t db))"
proof -
  have items: "qstep d (d\<lparr>q_items := rows_where P (skip_item t) (q_items d)\<rparr>)" for d P
    by (rule qstep_items, rule map_rows_where_same) (simp add: skip_item_def)
  have leases: "qstep d (d\<lparr>q_leases := rows_where P (drop_scope t) (q_leases d)\<rparr>)" for d P
    by (rule qstep_leases, rule map_rows_where_same)
      (auto simp: drop_scope_def lease_wf_def intro: list_all_where)
  have both: "qstep d (d\<lparr>q_items := rows_where P (skip_item t) (q_items d), q_leases := rows_where Q (drop_scope t) (q_leases d)\<rparr>)" for d P Q
    using qstep_trans [OF items [of d P] leases [of "d\<lparr>q_items := rows_where P (skip_item t) (q_items d)\<rparr>" Q]] by simp
  have "qstep db (fold (sync_item t) ks (db\<lparr>q_tasks := rows_where P (close_task StSkipped e c n) (q_tasks db)\<rparr>))" for ks P e c n
    by (rule qstep_sync_items, rule qstep_close_where [where e = "\<lambda>_. e" and c = "\<lambda>_. c" and n = "\<lambda>_. n"]) simp
  from qstep_trans [OF this both] show ?thesis
    unfolding cancel_disabled_def Let_def by (cases "ps = []") simp_all
qed

lemma qstep_retry_items [simp]: "qstep db (snd (retry_items limit is a b db))"
proof (induction "is" arbitrary: a b db)
  case (Cons i "is")
  let ?db1 = "db\<lparr>q_tasks := rows_where (\<lambda>k. k_item_id k = i_id i \<and> k_status k = StFailed) retry_task (q_tasks db)\<rparr>"
  have "task_wf (retry_task k)" if "task_wf k" for k
    using task_wf_close [OF that, of StPending None None None] by (simp add: retry_task_def task_wf_def close_task_def)
  then have "qstep db ?db1"
    by (intro qstep_tasks map_rows_where_same list_all_where) (auto simp: retry_task_def close_task_def)
  then have one: "qstep db (upd_source (i_id i) (retry_item ts) ?db1)" for ts
    by (rule qstep_trans) (simp add: retry_item_def)
  moreover have "qstep db (snd (retry_items limit is n m (upd_source (i_id i) (retry_item ts) ?db1)))" for n m ts
    by (rule qstep_trans [OF one Cons.IH])
  ultimately show ?case using Cons.IH by (simp add: Let_def)
qed simp

lemma qstep_retry [qsteps]: "qstep db (snd (retry_failed_items c l db))"
  by (simp add: retry_failed_items_def split_beta)

lemma qstep_insert_item:
  assumes "insert_item E i db = Inr db'"
  shows "qstep db db'"
proof -
  have "qstep db (db\<lparr>q_items := q_items db @ [intake_row db i]\<rparr>)" if "\<not> item_collides db i"
    using that by (auto simp: item_collides_def list_ex_iff intake_row_def qstep_def queue_inv_def queue_grows_def
        superseded_ids_def lexical_entries_def)
  then show ?thesis
    using assms by (auto simp: insert_item_def split: if_splits intro: qstep_trans)
qed

lemma qstep_create_item [qsteps]: "qstep db (snd (create_source_item E i db))"
  by (auto simp: create_source_item_def qstep_insert_item split: sum.split)

lemma qstep_create_with_packages [qsteps]: "qstep db (snd (create_source_item_with_packages E i ps skip now db))"
  by (auto simp: create_source_item_with_packages_def split: sum.split
      intro: qstep_trans [OF qstep_insert_item qstep_add_tasks])

section \<open>The machine\<close>

datatype queue_op =
    QCreateItem source_item
  | QCreateItemWithPackages source_item "pystr list" "pystr list" time
  | QCreateTasks pystr "pystr list" "pystr list" time
  | QClaimTask work_claim
  | QClaimTaskForItem pystr work_claim
  | QCompleteTask pystr pystr time
  | QFailTask pystr pystr pystr "time option" bool "(pystr \<times> int option) option" time
  | QCommitPackage pystr process_result "pystr option" "thread_scope option" "thread_scope option" time
      "(pystr \<times> int option) option"
  | QCancelDisabled "pystr list" time
  | QClaimItem work_claim
  | QCompleteItem pystr time
  | QFailItem pystr pystr "time option" bool "json_object option" "(pystr \<times> int option) option" time
  | QCommitItem pystr process_result "thread_scope option" "thread_scope option" time
      "(pystr \<times> int option) option"
  | QRetryFailed pystr nat
  | QCommitResult process_result "(pystr \<times> pystr) list option"
  | QUpdateMetadata pystr json_object
  | QClaimNextScope scope_claim
  | QClaimScope pystr scope_claim
  | QCompleteScope pystr pystr time time
  | QCommitScope process_result "(pystr \<times> pystr) list option" pystr pystr time time "time option"

fun queue_exec :: "memory_env \<Rightarrow> queue_op \<Rightarrow> queue_db \<Rightarrow> queue_db" where
  "queue_exec E (QCreateItem i) db = snd (create_source_item E i db)"
| "queue_exec E (QCreateItemWithPackages i ps skip t) db = snd (create_source_item_with_packages E i ps skip t db)"
| "queue_exec E (QCreateTasks k ps skip t) db = snd (create_package_tasks k ps skip t db)"
| "queue_exec E (QClaimTask q) db = snd (claim_next_task q db)"
| "queue_exec E (QClaimTaskForItem k q) db = snd (claim_next_task_for_item k q db)"
| "queue_exec E (QCompleteTask k p t) db = snd (complete_package_task k p t db)"
| "queue_exec E (QFailTask k p e n f c t) db = snd (fail_package_task k p e n f c t db)"
| "queue_exec E (QCommitPackage k r p a b t c) db = snd (commit_package_result E k r p a b t c db)"
| "queue_exec E (QCancelDisabled ps t) db = snd (cancel_disabled ps t db)"
| "queue_exec E (QClaimItem q) db = snd (claim_next_item q db)"
| "queue_exec E (QCompleteItem k t) db = snd (complete_item k t db)"
| "queue_exec E (QFailItem k e n f us c t) db = snd (fail_item E k e n f us c t db)"
| "queue_exec E (QCommitItem k r a b t c) db = snd (commit_item E k r a b t c db)"
| "queue_exec E (QRetryFailed c l) db = snd (retry_failed_items c l db)"
| "queue_exec E (QCommitResult r ps) db = snd (commit_process_result E r ps db)"
| "queue_exec E (QUpdateMetadata k d) db = snd (update_source_metadata E k d db)"
| "queue_exec E (QClaimNextScope q) db = snd (claim_next_scope q db)"
| "queue_exec E (QClaimScope k q) db = snd (claim_scope k q db)"
| "queue_exec E (QCompleteScope k w c t) db = snd (complete_scope k w c t db)"
| "queue_exec E (QCommitScope r ps k w c t wm) db = snd (commit_and_complete_scope E r ps k w c t wm db)"

lemma qstep_exec: "qstep db (queue_exec E op db)"
  by (cases op) (simp_all add: qsteps)

interpretation queue: ordered_machine "queue_exec E" queue_inv queue_grows for E
  using qstep_exec by unfold_locales (auto simp: qstep_def intro: queue_grows_trans)

definition empty_queue :: queue_db where
  "empty_queue = \<lparr>q_items = [], q_work_refs = [], q_memories = [], q_relations = [], q_index = [], q_fts = [],
     q_leases = [], q_tasks = [], q_promotions = []\<rparr>"

lemma empty_queue_inv [simp]: "queue_inv empty_queue"
  by (simp add: queue_inv_def empty_queue_def lexical_entries_def)

lemma reachable_queue_inv: "queue_inv (fold (queue_exec E) ops empty_queue)"
  by (rule queue.run_inv) simp

end
