(* ===== verification/Queue_Tokens.thy ===== *)
theory Queue_Tokens
  imports Queue_Steps
begin

text \<open>
  The claims of package tasks as tokens: which transactions leave the tasks alone, how the others move
  them, and what follows for a worker that holds a task. A claim is the worker with the attempt; while
  its lease lasts no other claim takes the task, and once lost it is never current again unless the
  task is retried by hand, which starts the attempts over.
\<close>

section \<open>The lease tables\<close>

interpretation tasks: lease_table k_id task_rank task_ready grab_task wc_claimed_at claim_end
  by unfold_locales
    (auto simp: task_ready_def grab_task_def claimable_def due_def claim_end_def)

interpretation item_tasks: lease_table k_id k_package "\<lambda>q k. k_item_id k = item_id \<and> task_ready q k"
    grab_task wc_claimed_at claim_end for item_id
  by unfold_locales
    (auto simp: task_ready_def grab_task_def claimable_def due_def claim_end_def)

interpretation items: lease_table i_id item_rank "item_ready db" grab_item wc_claimed_at claim_end for db
  by unfold_locales
    (auto simp: item_ready_def grab_item_def claimable_def due_def claim_end_def)

section \<open>What leaves the tasks alone\<close>

named_theorems task_frames \<open>the tasks after a transaction that does not write them\<close>

lemma tasks_upd [task_frames, simp]:
  "q_tasks (upd_source k f db) = q_tasks db" "q_tasks (upd_memory k g db) = q_tasks db"
  "q_tasks (upd_lease k h db) = q_tasks db" "q_tasks (sync_work_refs cf rd k d db) = q_tasks db"
  "q_tasks (delete_index_entries a b db) = q_tasks db" "q_tasks (sync_item t k db) = q_tasks db"
  "q_tasks (request_scope s t db) = q_tasks db" "q_tasks (request_optional so t db) = q_tasks db"
  by (simp_all add: upd_source_def upd_memory_def upd_lease_def sync_work_refs_def delete_index_entries_def
      sync_item_def request_scope_def request_optional_def Let_def split: option.split)

lemma tasks_sync_items [simp]: "q_tasks (fold (sync_item t) ks db) = q_tasks db"
  by (induction ks arbitrary: db) simp_all

lemma tasks_insert_index: "insert_index es db = Inr db' \<Longrightarrow> q_tasks db' = q_tasks db"
  by (induction es db rule: insert_index.induct) (auto simp: Let_def split: if_splits sum.splits)

lemma tasks_persist_rows: "persist_rows E result db = Inr db' \<Longrightarrow> q_tasks db' = q_tasks db"
  by (auto simp: persist_rows_def dest: tasks_insert_index split: sum.splits)

lemma tasks_promote: "promote_slots E seen hs db = Inr db' \<Longrightarrow> q_tasks db' = q_tasks db"
  by (induction E seen hs db rule: promote_slots.induct)
    (auto simp: promote_slot_def Let_def split: if_splits sum.splits)

lemma tasks_apply_pair: "apply_pair E p db = Inr db' \<Longrightarrow> q_tasks db' = q_tasks db"
  by (auto simp: apply_pair_def merge_rows_def Let_def split: option.splits if_splits sum.splits)

lemma tasks_apply_pairs: "apply_pairs E ps db = Inr db' \<Longrightarrow> q_tasks db' = q_tasks db"
  by (induction ps arbitrary: db) (auto dest: tasks_apply_pair split: sum.splits)

lemma tasks_metadata: "apply_metadata_updates E us db = Inr db' \<Longrightarrow> q_tasks db' = q_tasks db"
  by (induction E us db rule: apply_metadata_updates.induct)
    (auto simp: patch_source_def Let_def split: option.splits sum.splits)

lemma tasks_freshness [simp]: "q_tasks (fold (\<lambda>m. refresh_freshness (mi_id m)) ms db) = q_tasks db"
  by (induction ms arbitrary: db) (simp_all add: refresh_freshness_def split: option.split)

lemma tasks_commit_stage: "commit_stage E result extra db = Inr (pairs, db') \<Longrightarrow> q_tasks db' = q_tasks db"
  by (auto simp: commit_stage_def persist_result_def Let_def split: sum.splits
      dest!: tasks_persist_rows tasks_promote tasks_apply_pairs tasks_metadata)

lemma tasks_insert_item: "insert_item E i db = Inr db' \<Longrightarrow> q_tasks db' = q_tasks db"
  by (auto simp: insert_item_def split: if_splits)

section \<open>How tasks move\<close>

definition task_step :: "package_task \<Rightarrow> package_task \<Rightarrow> bool" where
  "task_step k k' \<longleftrightarrow> task_name k' = task_name k \<and> k_attempts k \<le> k_attempts k'
     \<and> (k_status k' = StProcessing \<longrightarrow> k' = k \<or> k_attempts k < k_attempts k')"

definition tasks_step :: "package_task list \<Rightarrow> package_task list \<Rightarrow> bool" where
  "tasks_step ks ks' \<longleftrightarrow> (\<exists>f tail. ks' = map f ks @ tail \<and> (\<forall>k\<in>set ks. task_step k (f k)))"

lemma task_step_refl [simp]: "task_step k k"
  by (simp add: task_step_def)

lemma task_step_trans: "task_step a b \<Longrightarrow> task_step b c \<Longrightarrow> task_step a c"
  by (auto simp: task_step_def)

lemma task_step_grab [simp]: "task_step k (grab_task q k)"
  by (simp add: task_step_def grab_task_def)

lemma task_step_close [simp]: "st \<noteq> StProcessing \<Longrightarrow> task_step k (close_task st e c n k)"
  by (simp add: task_step_def close_task_def)

lemma tasks_step_map: "(\<And>k. k \<in> set ks \<Longrightarrow> task_step k (f k)) \<Longrightarrow> tasks_step ks (map f ks)"
  unfolding tasks_step_def by (intro exI [of _ f] exI [of _ "[]"]) simp

lemma tasks_step_refl [simp]: "tasks_step ks ks"
  using tasks_step_map [of ks id] by simp

lemma tasks_step_append [simp]: "tasks_step ks (ks @ tail)"
  unfolding tasks_step_def by (intro exI [of _ id] exI [of _ tail]) simp

lemma tasks_step_trans:
  assumes "tasks_step a b" "tasks_step b c"
  shows "tasks_step a c"
proof -
  obtain f t where f: "b = map f a @ t" "\<forall>k\<in>set a. task_step k (f k)" using assms(1) by (auto simp: tasks_step_def)
  obtain g v where g: "c = map g b @ v" "\<forall>k\<in>set b. task_step k (g k)" using assms(2) by (auto simp: tasks_step_def)
  have "c = map (\<lambda>k. g (f k)) a @ (map g t @ v)" using f(1) g(1) by simp
  moreover have "task_step k (g (f k))" if "k \<in> set a" for k
    using that f g(2) by (auto intro: task_step_trans [of k "f k"])
  ultimately show ?thesis unfolding tasks_step_def by blast
qed

lemma tasks_step_where: "(\<And>k. task_step k (f k)) \<Longrightarrow> tasks_step ks (rows_where P f ks)"
  unfolding rows_where_def by (rule tasks_step_map) simp

lemma tasks_step_upd [simp]: "(\<And>k. task_step k (f k)) \<Longrightarrow> tasks_step (q_tasks db) (q_tasks (upd_task i f db))"
  unfolding upd_task_def row_upd_def by (simp, rule tasks_step_map) simp

lemma tasks_step_claim:
  assumes "claim_first key rank P (grab_task q) ks = (r, ks')"
  shows "tasks_step ks ks'"
  using assms by (auto simp: claim_first_def row_upd_def intro!: tasks_step_map split: option.splits)

lemma tasks_step_finalize [simp]: "tasks_step (q_tasks db) (q_tasks (finalize_exhausted now m db))"
  unfolding finalize_exhausted_def Let_def by (simp add: expire_task_def tasks_step_where)

lemma tasks_step_finish [simp]: "tasks_step (q_tasks db) (q_tasks (finish_task t k db))"
  by (simp add: finish_task_def)

lemma tasks_step_add: "add_tasks i skip c now ps ks = Inr ks' \<Longrightarrow> tasks_step ks ks'"
proof (induction i skip c now ps ks rule: add_tasks.induct)
  case (2 item skip created now p ps ks)
  then show ?case by (auto split: if_splits intro: tasks_step_trans [OF tasks_step_append])
qed simp

named_theorems task_moves \<open>the tasks after a transaction other than a retry\<close>

lemma claim_tasks_move [task_moves]:
  "tasks_step (q_tasks db) (q_tasks (snd (claim_next_task q db)))"
  "tasks_step (q_tasks db) (q_tasks (snd (claim_next_task_for_item i q db)))"
  by (auto simp: claim_next_task_def claim_next_task_for_item_def Let_def split: prod.split option.split
      intro: tasks_step_trans [OF tasks_step_finalize tasks_step_claim])

lemma end_tasks_move [task_moves]:
  "tasks_step (q_tasks db) (q_tasks (snd (complete_package_task i p t db)))"
  "tasks_step (q_tasks db) (q_tasks (snd (fail_package_task i p e n fin c t db)))"
  by (auto simp: complete_package_task_def fail_package_task_def Let_def split: prod.split option.split)

lemma commit_package_moves [task_moves]:
  "tasks_step (q_tasks db) (q_tasks (snd (commit_package_result E i r p a b t c db)))"
proof -
  have stage: "tasks_step (q_tasks db) (q_tasks d)" if "commit_stage E r [] db = Inr (ps, d)" for ps d
    using tasks_commit_stage [OF that] by simp
  have fin: "tasks_step (q_tasks db) (q_tasks (finish_task t k (request_optional b t (request_optional a t d))))"
    if "commit_stage E r [] db = Inr (ps, d)" for ps d k
    using tasks_step_finish [of "request_optional b t (request_optional a t d)" t k] tasks_commit_stage [OF that] by simp
  show ?thesis
    by (auto simp: commit_package_result_def stage fin split: option.split sum.split prod.split)
qed

lemma create_tasks_move [task_moves]:
  "tasks_step (q_tasks db) (q_tasks (snd (create_package_tasks i ps skip t db)))"
  "tasks_step (q_tasks db) (q_tasks (snd (create_source_item E x db)))"
  "tasks_step (q_tasks db) (q_tasks (snd (create_source_item_with_packages E x ps skip t db)))"
  by (auto simp: create_package_tasks_def create_source_item_def create_source_item_with_packages_def
      tasks_insert_item dest!: tasks_insert_item [symmetric] split: sum.split dest: tasks_step_add)

lemma cancel_moves [task_moves]: "tasks_step (q_tasks db) (q_tasks (snd (cancel_disabled ps t db)))"
  by (cases "ps = []") (auto simp: cancel_disabled_def Let_def intro: tasks_step_where)

lemma other_ops_keep_tasks [task_frames]:
  "q_tasks (snd (claim_next_item q db)) = q_tasks db"
  "q_tasks (snd (complete_item i t db)) = q_tasks db"
  "q_tasks (snd (fail_item E i e n fin us c t db)) = q_tasks db"
  "q_tasks (snd (commit_item E i r a b t c db)) = q_tasks db"
  "q_tasks (snd (commit_process_result E r ps db)) = q_tasks db"
  "q_tasks (snd (claim_next_scope sq db)) = q_tasks db"
  "q_tasks (snd (claim_scope k sq db)) = q_tasks db"
  "q_tasks (snd (complete_scope k w c1 t db)) = q_tasks db"
  "q_tasks (snd (commit_and_complete_scope E r ps k w c1 t wm db)) = q_tasks db"
  by (auto simp: claim_next_item_def complete_item_def fail_item_def commit_item_def commit_process_result_def
      claim_next_scope_def claim_scope_def complete_scope_def commit_and_complete_scope_def Let_def
      dest: tasks_commit_stage split: option.split sum.split prod.split bool.split)

lemma update_metadata_keeps_tasks [task_frames]: "q_tasks (snd (update_source_metadata E i d db)) = q_tasks db"
  unfolding update_source_metadata_def
  by (auto simp del: apply_metadata_updates.simps dest: tasks_metadata split: sum.split)

fun is_retry :: "queue_op \<Rightarrow> bool" where
  "is_retry (QRetryFailed c n) = True"
| "is_retry _ = False"

lemma exec_moves_tasks: "\<not> is_retry op \<Longrightarrow> tasks_step (q_tasks db) (q_tasks (queue_exec E op db))"
  by (cases op) (simp_all add: task_moves task_frames)

section \<open>Tokens\<close>

type_synonym task_token = "pystr \<times> pystr \<times> pystr \<times> int"

text \<open>A token names item, package, worker and attempt.\<close>

fun task_token_issued :: "queue_db \<Rightarrow> task_token \<Rightarrow> bool" where
  "task_token_issued db (i, p, w, n) = (case find_task db i p of None \<Rightarrow> False | Some k \<Rightarrow> n \<le> k_attempts k)"

fun task_token_current :: "queue_db \<Rightarrow> task_token \<Rightarrow> bool" where
  "task_token_current db (i, p, w, n) = task_claim_is_current db i p w n"

lemma find_task_Some_iff:
  assumes "queue_inv db"
  shows "find_task db i p = Some k \<longleftrightarrow> k \<in> set (q_tasks db) \<and> k_item_id k = i \<and> k_package k = p"
proof -
  have d: "distinct (map (\<lambda>k. (k_item_id k, k_package k)) (q_tasks db))" using assms by (simp add: queue_inv_def)
  have "find_task db i p = row_get (\<lambda>k. (k_item_id k, k_package k)) (i, p) (q_tasks db)"
    by (simp add: find_task_def row_get_def)
  then show ?thesis using row_get_distinct [OF d, of k] by (auto dest: row_get_SomeD)
qed

lemma find_task_after:
  assumes "queue_inv db'" "tasks_step (q_tasks db) (q_tasks db')" "find_task db i p = Some k"
  shows "\<exists>k'. find_task db' i p = Some k' \<and> task_step k k'"
proof -
  obtain f tail where f: "q_tasks db' = map f (q_tasks db) @ tail" "\<forall>k\<in>set (q_tasks db). task_step k (f k)"
    using assms(2) by (auto simp: tasks_step_def)
  have k: "k \<in> set (q_tasks db)" "k_item_id k = i" "k_package k = p"
    using assms(3) by (auto simp: find_task_def find_Some_iff)
  then have step: "task_step k (f k)" using f(2) by simp
  then have "find_task db' i p = Some (f k)"
    using k f(1) by (auto simp: find_task_Some_iff [OF assms(1)] task_step_def)
  with step show ?thesis by blast
qed

lemma find_task_advances:
  assumes "queue_inv db" "\<not> is_retry op" "find_task db i p = Some k"
  shows "\<exists>k'. find_task (queue_exec E op db) i p = Some k' \<and> task_step k k'"
  by (rule find_task_after [OF queue.exec_inv [OF assms(1)] exec_moves_tasks [OF assms(2)] assms(3)])

lemma issued_and_spent:
  assumes inv: "queue_inv db" and op: "\<not> is_retry op" and issued: "task_token_issued db t"
  shows "task_token_issued (queue_exec E op db) t"
    and "\<not> task_token_current db t \<Longrightarrow> \<not> task_token_current (queue_exec E op db) t"
proof -
  obtain i p w n where t: "t = (i, p, w, n)" by (cases t) auto
  with issued obtain k where k: "find_task db i p = Some k" "n \<le> k_attempts k" by (auto split: option.splits)
  obtain k' where k': "find_task (queue_exec E op db) i p = Some k'" "task_step k k'"
    using find_task_advances [OF inv op k(1)] by blast
  show "task_token_issued (queue_exec E op db) t" using t k(2) k' by (simp add: task_step_def)
  assume "\<not> task_token_current db t"
  then show "\<not> task_token_current (queue_exec E op db) t"
    using t k k' by (auto simp: task_claim_is_current_def holds_task_def task_step_def)
qed

interpretation task_tokens: one_shot "queue_exec E" queue_inv "\<lambda>op. \<not> is_retry op" task_token_issued task_token_current
  for E
  by unfold_locales (auto intro: issued_and_spent(1) dest: issued_and_spent(2))

text \<open>The result of a task is refused under a token that is not current, and so is its failure.\<close>

lemma stale_commit_refused:
  "\<not> task_claim_is_current db i p w n \<Longrightarrow>
     commit_package_result E i r (Some p) a b t (Some (w, Some n)) db = (Inr None, db)"
  by (auto simp: commit_package_result_def task_claim_is_current_def split: option.splits)

lemma stale_failure_refused:
  "\<not> task_claim_is_current db i p w n \<Longrightarrow> find_task db i p \<noteq> None \<Longrightarrow>
     fail_package_task i p e next fin (Some (w, Some n)) t db = (Inr False, db)"
  by (auto simp: fail_package_task_def task_claim_is_current_def split: option.splits)

section \<open>A task under a lease\<close>

text \<open>The requests that do not concern a task under the token until the instant: claims before it,
  endings of other tasks or under other claims, and switching off other packages.\<close>

definition other_claim :: "pystr \<Rightarrow> int \<Rightarrow> (pystr \<times> int option) option \<Rightarrow> bool" where
  "other_claim w n claim = (case claim of Some (w', Some n') \<Rightarrow> (w', n') \<noteq> (w, n) | _ \<Rightarrow> False)"

fun spares :: "task_token \<Rightarrow> time \<Rightarrow> queue_op \<Rightarrow> bool" where
  "spares (i, p, w, n) end_at (QClaimTask q) \<longleftrightarrow> wc_claimed_at q < end_at"
| "spares (i, p, w, n) end_at (QClaimTaskForItem i' q) \<longleftrightarrow> wc_claimed_at q < end_at"
| "spares (i, p, w, n) end_at (QCompleteTask i' p' t) \<longleftrightarrow> (i', p') \<noteq> (i, p)"
| "spares (i, p, w, n) end_at (QFailTask i' p' e nx fin c t) \<longleftrightarrow> (i', p') \<noteq> (i, p) \<or> other_claim w n c"
| "spares (i, p, w, n) end_at (QCommitPackage i' r p' a b t c) \<longleftrightarrow> (i', p') \<noteq> (i, Some p) \<or> other_claim w n c"
| "spares (i, p, w, n) end_at (QCancelDisabled ps t) \<longleftrightarrow> p \<notin> set ps"
| "spares tok end_at op \<longleftrightarrow> True"

definition task_held :: "task_token \<Rightarrow> time \<Rightarrow> package_task \<Rightarrow> bool" where
  "task_held tok end_at k = (case tok of (i, p, w, n) \<Rightarrow>
     k_item_id k = i \<and> k_package k = p \<and> holds_task w n k \<and> k_lease_expires_at k = Some end_at)"

lemma in_upd_task: "k \<in> set (q_tasks db) \<Longrightarrow> k_id k \<noteq> j \<Longrightarrow> k \<in> set (q_tasks (upd_task j f db))"
  by (force simp: upd_task_def set_row_upd)

lemma in_rows_where: "k \<in> set ks \<Longrightarrow> \<not> P k \<Longrightarrow> k \<in> set (rows_where P f ks)"
  by (force simp: set_rows_where)

lemma held_after_finalize:
  assumes "k \<in> set (q_tasks db)" "task_held tok end_at k" "now < end_at"
  shows "k \<in> set (q_tasks (finalize_exhausted now m db))"
  using assms by (auto simp: finalize_exhausted_def Let_def task_held_def exhausted_def due_def intro!: in_rows_where)

lemma held_not_claimed:
  assumes "k \<in> set ks" "distinct (map k_id ks)" "claim_first k_id rank P (grab_task q) ks = (r, ks')" "\<not> P k"
  shows "k \<in> set ks'"
proof -
  have "k_id x \<noteq> k_id k" if "first_by rank P ks = Some x" for x
    using first_by_SomeD(1,2) [OF that] assms(1,2,4) by (auto simp: distinct_map inj_on_def)
  then show ?thesis using assms(1,3) by (force simp: claim_first_def set_row_upd split: option.splits)
qed

lemma held_not_ready: "task_held tok end_at k \<Longrightarrow> wc_claimed_at q < end_at \<Longrightarrow> \<not> task_ready q k"
  by (auto simp: task_held_def holds_task_def task_ready_def claimable_def due_def)

lemma held_through_claims:
  assumes "k \<in> set (q_tasks db)" "queue_inv db" "task_held tok end_at k" "wc_claimed_at q < end_at"
  shows "k \<in> set (q_tasks (snd (claim_next_task q db)))"
    and "k \<in> set (q_tasks (snd (claim_next_task_for_item i q db)))"
proof -
  let ?d = "finalize_exhausted (wc_claimed_at q) (wc_max_attempts q) db"
  have k: "k \<in> set (q_tasks ?d)" by (rule held_after_finalize [OF assms(1,3,4)])
  have "queue_inv ?d" using qstep_finalize assms(2) unfolding qstep_def by blast
  then have d: "distinct (map k_id (q_tasks ?d))" by (simp add: queue_inv_def)
  note stays = held_not_claimed [OF k d]
  show "k \<in> set (q_tasks (snd (claim_next_task q db)))"
    using k stays held_not_ready [OF assms(3,4)]
    by (auto simp: claim_next_task_def Let_def split: prod.split option.split)
  have "k \<in> set ks'" if "item_tasks.claim i q (q_tasks ?d) = (r, ks')" for r ks'
    by (rule stays [OF that]) (simp add: held_not_ready [OF assms(3,4)])
  then show "k \<in> set (q_tasks (snd (claim_next_task_for_item i q db)))"
    using k
    by (auto simp: claim_next_task_for_item_def Let_def split: prod.split option.split)
qed

lemma other_task_id:
  assumes "queue_inv db" "k \<in> set (q_tasks db)" "find_task db i p = Some j" "k \<noteq> j"
  shows "k_id k \<noteq> k_id j"
  using assms by (auto simp: find_task_Some_iff queue_inv_def distinct_map inj_on_def)

lemma held_other_end:
  assumes "queue_inv db" "k \<in> set (q_tasks db)" "task_held (i, p, w, n) end_at k"
    and "find_task db i' p' = Some j" "(i', p') \<noteq> (i, p) \<or> \<not> holds_task w n j"
  shows "k_id k \<noteq> k_id j"
proof -
  have "k \<noteq> j" using assms(3,4,5) by (auto simp: task_held_def find_task_def find_Some_iff)
  then show ?thesis by (rule other_task_id [OF assms(1,2,4)])
qed

lemma held_finish_task:
  "k \<in> set (q_tasks db) \<Longrightarrow> k_id k \<noteq> k_id j \<Longrightarrow> k \<in> set (q_tasks (finish_task t j db))"
  by (simp add: finish_task_def in_upd_task)

lemma held_through_endings:
  assumes "queue_inv db" "k \<in> set (q_tasks db)" "task_held (i, p, w, n) end_at k"
  shows "(i', p') \<noteq> (i, p) \<Longrightarrow> k \<in> set (q_tasks (snd (complete_package_task i' p' t db)))"
    and "(i', p') \<noteq> (i, p) \<or> other_claim w n c \<Longrightarrow>
           k \<in> set (q_tasks (snd (fail_package_task i' p' e nx fin c t db)))"
    and "(i', pp) \<noteq> (i, Some p) \<or> other_claim w n c \<Longrightarrow>
           k \<in> set (q_tasks (snd (commit_package_result E i' r pp a b t c db)))"
proof -
  note other = held_other_end [OF assms]
  show "k \<in> set (q_tasks (snd (complete_package_task i' p' t db)))" if "(i', p') \<noteq> (i, p)"
    using that assms(2) other [of i' p']
    by (auto simp: complete_package_task_def intro!: held_finish_task split: option.split)
  show "k \<in> set (q_tasks (snd (fail_package_task i' p' e nx fin c t db)))"
    if "(i', p') \<noteq> (i, p) \<or> other_claim w n c"
    using that assms(2) other [of i' p']
    by (auto simp: holds_task_def fail_package_task_def other_claim_def Let_def intro!: in_upd_task split: option.splits prod.splits)
  have stage: "k \<in> set (q_tasks d)" if "commit_stage E r [] db = Inr (ps, d)" for ps d
    using assms(2) tasks_commit_stage [OF that] by simp
  have "\<forall>j. find_task db i' (the pp) = Some j \<longrightarrow> (i', the pp) \<noteq> (i, p) \<or> \<not> holds_task w n j \<longrightarrow> k_id k \<noteq> k_id j"
    using other by blast
  then show "k \<in> set (q_tasks (snd (commit_package_result E i' r pp a b t c db)))"
    if "(i', pp) \<noteq> (i, Some p) \<or> other_claim w n c"
    using that assms(2)
    by (auto simp: holds_task_def commit_package_result_def other_claim_def stage intro!: held_finish_task
        split: option.splits prod.splits sum.splits)
qed

lemma held_through_cancel:
  assumes "k \<in> set (q_tasks db)" "task_held (i, p, w, n) end_at k" "p \<notin> set ps"
  shows "k \<in> set (q_tasks (snd (cancel_disabled ps t db)))"
  using assms by (cases "ps = []") (auto simp: cancel_disabled_def Let_def task_held_def intro!: in_rows_where)

lemma held_through_retry:
  "k \<in> set (q_tasks db) \<Longrightarrow> k_status k = StProcessing \<Longrightarrow> k \<in> set (q_tasks (snd (retry_items limit is a b db)))"
proof (induction "is" arbitrary: a b db)
  case (Cons i "is")
  let ?db1 = "db\<lparr>q_tasks := rows_where (\<lambda>k. k_item_id k = i_id i \<and> k_status k = StFailed) retry_task (q_tasks db)\<rparr>"
  have k: "k \<in> set (q_tasks (upd_source (i_id i) (retry_item ts) ?db1))" for ts
    using Cons.prems by (auto intro!: in_rows_where)
  have "k \<in> set (q_tasks (snd (retry_items limit is n m (upd_source (i_id i) (retry_item ts) ?db1))))" for n m ts
    by (rule Cons.IH [OF k Cons.prems(2)])
  then show ?case using Cons k by (simp add: Let_def)
qed simp

lemma add_tasks_keep: "add_tasks i skip c now ps ks = Inr ks' \<Longrightarrow> set ks \<subseteq> set ks'"
  by (induction i skip c now ps ks rule: add_tasks.induct) (auto split: if_splits)

lemma held_through_creation:
  assumes "k \<in> set (q_tasks db)"
  shows "k \<in> set (q_tasks (snd (create_package_tasks i ps skip t db)))"
    and "k \<in> set (q_tasks (snd (create_source_item E x db)))"
    and "k \<in> set (q_tasks (snd (create_source_item_with_packages E x ps skip t db)))"
  using assms
  by (auto simp: create_package_tasks_def create_source_item_def create_source_item_with_packages_def
      tasks_insert_item split: sum.split dest: add_tasks_keep tasks_insert_item)

lemma held_stays:
  assumes "queue_inv db" "k \<in> set (q_tasks db)" "task_held (i, p, w, n) end_at k" "spares (i, p, w, n) end_at op"
  shows "k \<in> set (q_tasks (queue_exec E op db))"
proof -
  have "k_status k = StProcessing" using assms(3) by (simp add: task_held_def holds_task_def)
  then show ?thesis
    using assms held_through_claims [OF assms(2,1,3)] held_through_endings [OF assms(1,2,3)]
      held_through_cancel [OF assms(2,3)] held_through_retry [OF assms(2)] held_through_creation [OF assms(2)]
    by (cases op) (auto simp: task_frames retry_failed_items_def split_beta)
qed

lemma held_run:
  assumes "queue_inv db" "k \<in> set (q_tasks db)" "task_held tok end_at k" "list_all (spares tok end_at) ops"
  shows "k \<in> set (q_tasks (fold (queue_exec E) ops db))"
  using assms
proof (induction ops arbitrary: db)
  case (Cons op ops)
  obtain i p w n where tok: "tok = (i, p, w, n)" by (cases tok) auto
  have "k \<in> set (q_tasks (queue_exec E op db))"
    using held_stays [of db k i p w n end_at op E] Cons.prems tok by simp
  moreover have "queue_inv (queue_exec E op db)" by (rule queue.exec_inv [OF Cons.prems(1)])
  ultimately show ?case using Cons.IH Cons.prems by simp
qed simp

section \<open>What a claim hands out\<close>

text \<open>Finalising touches no task that is ready.\<close>

lemma ready_not_exhausted: "task_ready q k \<Longrightarrow> \<not> exhausted now (wc_max_attempts q) k"
  by (auto simp: task_ready_def claimable_def exhausted_def)

lemma expired_not_ready: "\<not> task_ready q (expire_task now k)"
  by (simp add: task_ready_def claimable_def expire_task_def close_task_def due_def)

lemma ready_after_finalize:
  "filter (task_ready q) (q_tasks (finalize_exhausted now (wc_max_attempts q) db)) = filter (task_ready q) (q_tasks db)"
proof -
  have "filter (task_ready q) (rows_where (exhausted now (wc_max_attempts q)) (expire_task now) ks)
      = filter (task_ready q) ks" for ks
    by (induction ks) (auto simp: rows_where_def expired_not_ready dest: ready_not_exhausted)
  then show ?thesis by (simp add: finalize_exhausted_def Let_def)
qed

end
