(* ===== verification/Queue_Facts.thy ===== *)
theory Queue_Facts
  imports Queue_Tokens
begin

text \<open>
  Facts about the queue that its properties rest on: the order in which claims hand out the tasks, the
  state of an item after its last task, what a rebuild request survives, an item of the older queue at
  its attempt limit, and a thread read around one of its items.
\<close>

section \<open>The order of claims\<close>

definition ready_tasks :: "work_claim \<Rightarrow> queue_db \<Rightarrow> package_task list" where
  "ready_tasks q db = sort_key task_rank (filter (task_ready q) (q_tasks db))"

text \<open>The same claim made again and again: what the calls return.\<close>

fun claim_results :: "work_claim \<Rightarrow> nat \<Rightarrow> queue_db \<Rightarrow> (source_item \<times> pystr \<times> int) option queue_result list" where
  "claim_results q 0 db = []"
| "claim_results q (Suc n) db = fst (claim_next_task q db) # claim_results q n (snd (claim_next_task q db))"

text \<open>The item of a task, its package and the attempt, as a claim shows them.\<close>

definition shown :: "(source_item \<times> pystr \<times> int) option queue_result \<Rightarrow> (pystr \<times> pystr \<times> int) option" where
  "shown r = (case r of Inr (Some (i, p, n)) \<Rightarrow> Some (i_id i, p, n) | _ \<Rightarrow> None)"

definition next_attempt :: "package_task \<Rightarrow> pystr \<times> pystr \<times> int" where
  "next_attempt k = (k_item_id k, k_package k, k_attempts k + 1)"

definition no_orphans :: "queue_db \<Rightarrow> bool" where
  "no_orphans db \<longleftrightarrow> k_item_id ` set (q_tasks db) \<subseteq> i_id ` set (q_items db)"

lemma first_ready:
  "first_by task_rank (task_ready q) (q_tasks (finalize_exhausted (wc_claimed_at q) (wc_max_attempts q) db)) =
     (case ready_tasks q db of [] \<Rightarrow> None | k # _ \<Rightarrow> Some k)"
  by (simp add: first_by_def ready_after_finalize ready_tasks_def)

lemma claim_next_task_result:
  "fst (claim_next_task q db) = Inr (case ready_tasks q db of
     [] \<Rightarrow> None
   | k # _ \<Rightarrow> map_option (\<lambda>i. (item_view i, k_package k, k_attempts k + 1))
                (get_source (finalize_exhausted (wc_claimed_at q) (wc_max_attempts q) db) (k_item_id k)))"
  unfolding claim_next_task_def Let_def claim_first_def first_ready
  by (auto simp: grab_task_def split: list.split)

lemma claim_next_task_tasks:
  "snd (claim_next_task q db) =
     (let db1 = finalize_exhausted (wc_claimed_at q) (wc_max_attempts q) db
      in case ready_tasks q db of
           [] \<Rightarrow> db1 | k # _ \<Rightarrow> db1\<lparr>q_tasks := row_upd k_id (k_id k) (grab_task q) (q_tasks db1)\<rparr>)"
  unfolding claim_next_task_def Let_def claim_first_def first_ready by (auto split: list.split)

lemma queue_inv_finalize: "queue_inv db \<Longrightarrow> queue_inv (finalize_exhausted now m db)"
  using qstep_finalize unfolding qstep_def by blast

lemma ready_tasks_after_claim:
  assumes "queue_inv db"
  shows "ready_tasks q (snd (claim_next_task q db)) = tl (ready_tasks q db)"
proof (cases "ready_tasks q db")
  case Nil
  then show ?thesis by (simp add: claim_next_task_tasks ready_tasks_def ready_after_finalize Let_def)
next
  case (Cons k ks)
  let ?d = "finalize_exhausted (wc_claimed_at q) (wc_max_attempts q) db"
  have inv: "distinct (map k_id (q_tasks ?d))" using queue_inv_finalize [OF assms] by (simp add: queue_inv_def)
  have first: "first_by task_rank (task_ready q) (q_tasks ?d) = Some k" by (simp add: first_ready Cons)
  have "filter (task_ready q) (q_tasks (snd (claim_next_task q db))) = filter (\<lambda>x. x \<noteq> k) (filter (task_ready q) (q_tasks db))"
    using tasks.filter_after_claim [OF inv first] Cons by (simp add: claim_next_task_tasks ready_after_finalize Let_def)
  then have "ready_tasks q (snd (claim_next_task q db)) = filter (\<lambda>x. x \<noteq> k) (ready_tasks q db)"
    by (simp add: ready_tasks_def filter_sort)
  moreover have "distinct (ready_tasks q db)"
    using assms by (simp add: ready_tasks_def queue_inv_def distinct_map)
  ultimately show ?thesis using Cons by (auto intro: filter_True)
qed

lemma item_ids_advance: "queue_grows db db' \<Longrightarrow> i_id ` set (q_items db) \<subseteq> i_id ` set (q_items db')"
proof -
  assume "queue_grows db db'"
  then obtain tail where "map item_name (q_items db') = map item_name (q_items db) @ tail"
    by (auto simp: queue_grows_def extends_iff)
  then have "map fst (map item_name (q_items db')) = map fst (map item_name (q_items db)) @ map fst tail" by simp
  then have "map i_id (q_items db') = map i_id (q_items db) @ map fst tail" by (simp add: comp_def)
  then have "set (map i_id (q_items db)) \<subseteq> set (map i_id (q_items db'))" by simp
  then show ?thesis by simp
qed

lemma no_orphans_after_claim:
  assumes "queue_inv db" "no_orphans db"
  shows "no_orphans (snd (claim_next_task q db))"
proof -
  have "set (map k_item_id (q_tasks (snd (claim_next_task q db)))) \<subseteq> set (map k_item_id (q_tasks db))"
    by (auto simp: claim_next_task_tasks finalize_exhausted_def Let_def set_row_upd set_rows_where grab_task_def
        expire_task_def close_task_def split: list.split)
  moreover have "queue_grows db (snd (claim_next_task q db))"
    using qstep_claim_next_task assms(1) unfolding qstep_def by blast
  ultimately show ?thesis using assms(2) item_ids_advance unfolding no_orphans_def by fastforce
qed

lemma shown_claim:
  assumes "no_orphans db" "queue_inv db"
  shows "shown (fst (claim_next_task q db)) = (case ready_tasks q db of [] \<Rightarrow> None | k # _ \<Rightarrow> Some (next_attempt k))"
proof (cases "ready_tasks q db")
  case (Cons k ks)
  let ?d = "finalize_exhausted (wc_claimed_at q) (wc_max_attempts q) db"
  have "k \<in> set (ready_tasks q db)" using Cons by simp
  then have "k_item_id k \<in> i_id ` set (q_items db)" using assms(1) by (auto simp: ready_tasks_def no_orphans_def)
  moreover have "queue_grows db ?d" using qstep_finalize assms(2) unfolding qstep_def by blast
  ultimately have "k_item_id k \<in> i_id ` set (q_items ?d)" using item_ids_advance by blast
  then obtain i where i: "get_source ?d (k_item_id k) = Some i"
    by (cases "get_source ?d (k_item_id k)") (simp_all add: row_get_None_iff)
  then have "i_id i = k_item_id k" by (rule row_get_SomeD(2))
  then show ?thesis using Cons i by (simp add: claim_next_task_result shown_def next_attempt_def item_view_def)
qed (simp add: claim_next_task_result shown_def)

lemma claims_in_order:
  assumes "queue_inv db" "no_orphans db"
  shows "map shown (claim_results q n db) =
    map (Some \<circ> next_attempt) (take n (ready_tasks q db)) @ replicate (n - length (ready_tasks q db)) None"
  using assms
proof (induction n arbitrary: db)
  case (Suc n)
  let ?d = "snd (claim_next_task q db)"
  have "queue_inv ?d" using qstep_claim_next_task Suc.prems(1) unfolding qstep_def by blast
  then have "map shown (claim_results q n ?d) =
      map (Some \<circ> next_attempt) (take n (tl (ready_tasks q db))) @ replicate (n - (length (ready_tasks q db) - 1)) None"
    using Suc.IH [of ?d] no_orphans_after_claim [OF Suc.prems] ready_tasks_after_claim [OF Suc.prems(1)] by simp
  then show ?case using shown_claim [OF Suc.prems(2,1)] by (cases "ready_tasks q db") simp_all
qed simp

section \<open>Requests for a rebuild\<close>

abbreviation request_all :: "thread_scope \<Rightarrow> time list \<Rightarrow> queue_db \<Rightarrow> queue_db" where
  "request_all s \<equiv> fold (request_scope s)"

lemma get_lease_upd:
  assumes "\<And>l. l_scope_key (f l) = l_scope_key l"
  shows "get_lease (upd_lease k f db) k' = (if k' = k then map_option f (get_lease db k) else get_lease db k')"
  using assms by (simp add: upd_lease_def row_get_row_upd)

text \<open>A lease with a claim, asked for a rebuild at some more instants.\<close>

lemma request_all_held:
  assumes "get_lease db (ts_scope_key s) = Some l" "l_requested_at l = Some r"
  shows "\<exists>l'. get_lease (request_all s ts db) (ts_scope_key s) = Some l'
     \<and> l_requested_at l' = Some (fold max ts r) \<and> l_claimed_by l' = l_claimed_by l
     \<and> l_claimed_at l' = l_claimed_at l \<and> l_lease_expires_at l' = l_lease_expires_at l"
  using assms
proof (induction ts arbitrary: db l r)
  case (Cons t ts)
  let ?l = "l\<lparr>l_requested_at := Some (max t r), l_updated_at := t\<rparr>"
  have "get_lease (request_scope s t db) (ts_scope_key s) = Some ?l"
    using Cons.prems by (simp add: request_scope_def get_lease_upd max_def)
  from Cons.IH [OF this, of "max t r"] show ?case by simp
qed simp

lemma fold_max_greater: "t < fold max ts (r :: int) \<longleftrightarrow> (\<exists>x\<in>set (r # ts). t < x)"
proof -
  have "fold max ts r = Max (set (r # ts))" by (rule Max.set_eq_fold [symmetric])
  then show ?thesis by (simp add: Max_gr_iff del: Max_insert)
qed

lemma claim_scopeD:
  assumes "claim_scope k q db = (Inr (Some v), db')"
  shows "\<exists>l. get_lease db k = Some l \<and> scope_ready q l \<and> v = lease_view (grab_scope q l)
    \<and> get_lease db' k = Some (grab_scope q l)"
  using assms by (auto simp: claim_scope_def get_lease_upd grab_scope_def split: option.splits if_splits)

lemma completion_keeps_later_requests:
  assumes "claim_scope (ts_scope_key s) q db = (Inr (Some v), db1)"
  shows "\<exists>r. lv_requested_at v = Some r \<and>
    fst (complete_scope (ts_scope_key s) (sc_worker_id q) (sc_claimed_at q) t (request_all s ts db1)) =
      Inr (Some (\<exists>x\<in>set (r # ts). sc_claimed_at q < x))
    \<and> (fst (claim_scope (ts_scope_key s) q' (snd (complete_scope (ts_scope_key s) (sc_worker_id q) (sc_claimed_at q) t
          (request_all s ts db1)))) \<noteq> Inr None \<longleftrightarrow> (\<exists>x\<in>set (r # ts). sc_claimed_at q < x))"
proof -
  obtain l where l: "scope_ready q l" "v = lease_view (grab_scope q l)" "get_lease db1 (ts_scope_key s) = Some (grab_scope q l)"
    using claim_scopeD [OF assms] by blast
  obtain r where r: "l_requested_at l = Some r" using l(1) by (auto simp: scope_ready_def)
  obtain l' where l': "get_lease (request_all s ts db1) (ts_scope_key s) = Some l'" "l_requested_at l' = Some (fold max ts r)"
    "l_claimed_by l' = Some (sc_worker_id q)" "l_claimed_at l' = Some (sc_claimed_at q)"
    using request_all_held [OF l(3), of r ts] r by (auto simp: grab_scope_def)
  have pending: "pending_after (sc_claimed_at q) l' \<longleftrightarrow> (\<exists>x\<in>set (r # ts). sc_claimed_at q < x)"
    using l'(2) fold_max_greater [of "sc_claimed_at q" ts r] by (simp add: pending_after_def)
  have "complete_scope (ts_scope_key s) (sc_worker_id q) (sc_claimed_at q) t (request_all s ts db1) =
      (Inr (Some (pending_after (sc_claimed_at q) l')),
       upd_lease (ts_scope_key s) (release_scope (sc_claimed_at q) t None) (request_all s ts db1))"
    using l' by (simp add: complete_scope_def holds_scope_def)
  moreover have "lv_requested_at v = Some r" using l(2) r by (simp add: lease_view_def grab_scope_def)
  ultimately show ?thesis
    using l'(1,2) pending
    by (simp add: claim_scope_def get_lease_upd release_scope_def scope_ready_def)
qed

section \<open>The older queue at its limit\<close>

definition worker_claim :: "queue_op \<Rightarrow> bool" where
  "worker_claim op \<longleftrightarrow> (case op of QClaimTask q \<Rightarrow> True | QClaimTaskForItem i q \<Rightarrow> True
     | QClaimItem q \<Rightarrow> True | QClaimNextScope q \<Rightarrow> True | QClaimScope k q \<Rightarrow> True | _ \<Rightarrow> False)"

definition claim_limit :: "queue_op \<Rightarrow> int" where
  "claim_limit op = (case op of QClaimItem q \<Rightarrow> wc_max_attempts q | _ \<Rightarrow> 0)"

text \<open>An item without package tasks whose claim ran out at the attempt limit.\<close>

definition stranded :: "queue_db \<Rightarrow> int \<Rightarrow> source_item \<Rightarrow> bool" where
  "stranded db limit i \<longleftrightarrow> get_source db (i_id i) = Some i \<and> i_status i = StProcessing \<and> limit \<le> i_attempts i
     \<and> tasks_of db (i_id i) = []"

lemma get_source_upd_other: "k \<noteq> j \<Longrightarrow> (\<And>i. i_id (f i) = i_id i) \<Longrightarrow> get_source (upd_source j f db) k = get_source db k"
  by (simp add: upd_source_def row_get_row_upd)

lemma get_source_sync: "tasks_of db k = [] \<Longrightarrow> get_source (sync_item t j db) k = get_source db k"
  by (cases "j = k") (simp_all add: sync_item_def Let_def get_source_upd_other finish_item_def)

lemma tasks_of_sync [simp]: "tasks_of (sync_item t j db) k = tasks_of db k"
  by (simp add: tasks_of_def)

lemma get_source_syncs: "tasks_of db k = [] \<Longrightarrow> get_source (fold (sync_item t) js db) k = get_source db k"
  by (induction js arbitrary: db) (simp_all add: get_source_sync)

lemma tasks_of_empty: "tasks_of db k = [] \<longleftrightarrow> k \<notin> set (map k_item_id (q_tasks db))"
  by (auto simp: tasks_of_def filter_empty_conv)

lemma tasks_of_same_items:
  "map k_item_id ks = map k_item_id (q_tasks db) \<Longrightarrow> tasks_of (db\<lparr>q_tasks := ks\<rparr>) k = [] \<longleftrightarrow> tasks_of db k = []"
  unfolding tasks_of_empty by (simp del: set_map)

lemma finalize_spares_untasked:
  assumes "tasks_of db k = []"
  shows "get_source (finalize_exhausted now m db) k = get_source db k" "tasks_of (finalize_exhausted now m db) k = []"
proof -
  have e: "tasks_of (db\<lparr>q_tasks := rows_where (exhausted now m) (expire_task now) (q_tasks db)\<rparr>) k = []"
    using assms by (subst tasks_of_same_items) (simp_all add: map_rows_where_same expire_task_def close_task_def)
  then show "get_source (finalize_exhausted now m db) k = get_source db k"
    by (simp add: finalize_exhausted_def Let_def get_source_syncs)
  have "tasks_of (fold (sync_item t) js d) k = tasks_of d k" for t js d by (simp add: tasks_of_def)
  then show "tasks_of (finalize_exhausted now m db) k = []" using e by (simp add: finalize_exhausted_def Let_def)
qed

lemma claim_spares_untasked:
  assumes "tasks_of db k = []" "claim_first key rank P (grab_task q) (q_tasks db) = (r, ks)"
  shows "tasks_of (db\<lparr>q_tasks := ks\<rparr>) k = []"
proof -
  have "map k_item_id ks = map k_item_id (q_tasks db)"
    by (rule claim_first_names [OF assms(2)]) (simp add: grab_task_def)
  then show ?thesis using assms(1) by (simp only: tasks_of_same_items)
qed

lemma stranded_stays:
  assumes "queue_inv db" "stranded db limit i" "worker_claim op" "claim_limit op \<le> limit"
  shows "stranded (queue_exec E op db) limit i"
proof -
  have t: "tasks_of db (i_id i) = []" and g: "get_source db (i_id i) = Some i"
    and s: "i_status i = StProcessing" "limit \<le> i_attempts i" using assms(2) by (auto simp: stranded_def)
  note fin = finalize_spares_untasked [OF t]
  have "get_source (queue_exec E op db) (i_id i) = Some i \<and> tasks_of (queue_exec E op db) (i_id i) = []"
  proof (cases op)
    case (QClaimTask q)
    then show ?thesis
      using g fin by (auto simp: claim_next_task_def Let_def intro: claim_spares_untasked split: prod.split option.split)
  next
    case (QClaimTaskForItem j q)
    then show ?thesis
      using g fin by (auto simp: claim_next_task_for_item_def Let_def intro: claim_spares_untasked split: prod.split option.split)
  next
    case (QClaimItem q)
    have "\<not> item_ready db q i" using s assms(4) QClaimItem by (auto simp: item_ready_def claimable_def claim_limit_def)
    moreover have "i \<in> set (q_items db)" using g by (rule row_get_SomeD(1))
    ultimately have "i_id x \<noteq> i_id i" if "first_by item_rank (item_ready db q) (q_items db) = Some x" for x
      using first_by_SomeD(1,2) [OF that] assms(1) by (auto simp: queue_inv_def distinct_map inj_on_def)
    then show ?thesis
      using g t QClaimItem
      by (auto simp: claim_next_item_def claim_first_def row_get_row_upd grab_item_def tasks_of_def split: option.split)
  qed (use assms(3) g t in \<open>auto simp: worker_claim_def claim_next_scope_def claim_scope_def upd_lease_def tasks_of_def split: prod.split option.split\<close>)
  then show ?thesis using s by (simp add: stranded_def)
qed

lemma stranded_run:
  assumes "queue_inv db" "stranded db limit i" "list_all (\<lambda>op. worker_claim op \<and> claim_limit op \<le> limit) ops"
  shows "stranded (fold (queue_exec E) ops db) limit i"
  using assms
proof (induction ops arbitrary: db)
  case (Cons op ops)
  have "queue_inv (queue_exec E op db)" by (rule queue.exec_inv [OF Cons.prems(1)])
  then show ?case using Cons.IH [of "queue_exec E op db"] Cons.prems by (simp add: stranded_stays)
qed simp

section \<open>The item after its tasks\<close>

definition settled_status :: "package_task list \<Rightarrow> work_status" where
  "settled_status ks = (if list_ex (\<lambda>k. k_status k = StFailed) ks then StFailed else StCompleted)"

lemma find_failed: "find P ks = None \<longleftrightarrow> \<not> list_ex P ks"
  by (induction ks) auto

lemma get_source_upd:
  "(\<And>i. i_id (f i) = i_id i) \<Longrightarrow> get_source (upd_source k f db) k = map_option f (get_source db k)"
  by (simp add: upd_source_def row_get_row_upd)

lemma sync_item_effect:
  assumes "get_source db k = Some i" "tasks_of db k \<noteq> []"
  shows "get_source (sync_item t k db) k =
    Some (if list_all (\<lambda>k. terminal (k_status k)) (tasks_of db k) then finish_item (tasks_of db k) t i else i)"
  using assms by (simp add: sync_item_def Let_def get_source_upd finish_item_def)

lemma finish_item_fields:
  "i_status (finish_item ks t i) = settled_status ks" "i_attempts (finish_item ks t i) = sum_list (map k_attempts ks)"
  "i_claimed_by (finish_item ks t i) = None" "i_completed_at (finish_item ks t i) = Some t"
  by (simp_all add: finish_item_def settled_status_def Let_def find_failed)

section \<open>Reading around an item\<close>

lemma sorted_split:
  assumes "sorted (map rank xs)" "distinct (map rank xs)" "xs = pre @ a # post"
  shows "filter (\<lambda>x. rank x < rank a) xs = pre" "filter (\<lambda>x. rank a < rank x) xs = post"
proof -
  have "sorted_wrt (<) (map rank xs)" using assms(1,2) by (simp add: strict_sorted_iff)
  then have "\<forall>x\<in>set pre. rank x < rank a" "\<forall>x\<in>set post. rank a < rank x"
    unfolding assms(3) by (simp_all add: sorted_wrt_append)
  then have "filter (\<lambda>x. rank x < rank a) pre = pre" "filter (\<lambda>x. rank x < rank a) post = []"
    "filter (\<lambda>x. rank a < rank x) pre = []" "filter (\<lambda>x. rank a < rank x) post = post"
    by (auto simp: filter_empty_conv filter_id_conv dest: less_asym)
  then show "filter (\<lambda>x. rank x < rank a) xs = pre" "filter (\<lambda>x. rank a < rank x) xs = post"
    using assms(3) by simp_all
qed

lemma neighbors_are_slices:
  assumes "queue_inv db" "by_creation (filter (in_thread c t) (q_items db)) = pre @ a # post"
  shows "thread_neighbors db c t (i_created_at a) (i_id a) before after =
    (map item_view (drop (length pre - nat before) pre), map item_view (take (nat after) post))"
proof -
  let ?rows = "filter (in_thread c t) (q_items db)"
  have less: "item_rank i < item_rank j \<longleftrightarrow>
      i_created_at i < i_created_at j \<or> (i_created_at i = i_created_at j \<and> i_id i < i_id j)" for i j
    by (auto simp: item_rank_def less_prod_def less_le)
  have "distinct (map item_rank (q_items db))"
    using assms(1) by (auto simp: queue_inv_def distinct_map item_rank_def inj_on_def)
  then have "distinct (map item_rank ?rows)" by (rule distinct_map_filter)
  then have d: "distinct (map item_rank (by_creation ?rows))"
    by (simp add: by_creation_def distinct_map)
  have s: "sorted (map item_rank (by_creation ?rows))" by (simp add: by_creation_def)
  have "by_creation (filter (\<lambda>i. item_rank i < item_rank a) ?rows) = pre"
    "by_creation (filter (\<lambda>i. item_rank a < item_rank i) ?rows) = post"
    using sorted_split [OF s d assms(2)] by (simp_all only: by_creation_def filter_sort)
  moreover have "filter (\<lambda>i. i_created_at i < i_created_at a \<or> (i_created_at i = i_created_at a \<and> i_id i < i_id a)) ?rows
      = filter (\<lambda>i. item_rank i < item_rank a) ?rows"
    "filter (\<lambda>i. i_created_at i > i_created_at a \<or> (i_created_at i = i_created_at a \<and> i_id i > i_id a)) ?rows
      = filter (\<lambda>i. item_rank a < item_rank i) ?rows"
    by (intro filter_cong; auto simp: less)+
  ultimately show ?thesis
    unfolding thread_neighbors_def Let_def by (simp add: rev_take)
qed

end
