(* ===== verification/Memory_Facts.thy ===== *)
theory Memory_Facts
  imports Queue_Tokens
begin

text \<open>
  What the supersession of memory objects does: the pairs it finds, the state of a superseded object
  and its way through the rest of the commit, where the evidence goes, the length of the merged
  histories, and when a recurring fact is promoted.
\<close>

section \<open>The pairs\<close>

lemma set_fold_add_pair: "set (fold (\<lambda>old. add_pair (old, n)) olds pairs) = set pairs \<union> (\<lambda>old. (old, n)) ` set olds"
  by (induction olds arbitrary: pairs) (auto simp: add_pair_def)

lemma distinct_fold_add_pair: "distinct pairs \<Longrightarrow> distinct (fold (\<lambda>old. add_pair (old, n)) olds pairs)"
  by (induction olds arbitrary: pairs) (auto simp: add_pair_def)

lemma set_resolve_pairs:
  "set (resolve_pairs E result db) = (\<Union>h\<in>set (pr_supersession_hints result).
     (\<lambda>old. (old, sh_replacement_id h)) ` set (hint_matches E (map mi_id (pr_memories result)) h db))"
proof -
  have "set (fold (\<lambda>h pairs. fold (\<lambda>old. add_pair (old, sh_replacement_id h)) (hint_matches E rs h db) pairs) hs ps)
      = set ps \<union> (\<Union>h\<in>set hs. (\<lambda>old. (old, sh_replacement_id h)) ` set (hint_matches E rs h db))" for rs hs ps
    by (induction hs arbitrary: ps) (auto simp: set_fold_add_pair)
  then show ?thesis by (simp add: resolve_pairs_def Let_def)
qed

lemma distinct_resolve_pairs: "distinct (resolve_pairs E result db)"
proof -
  have "distinct ps \<Longrightarrow> distinct (fold (\<lambda>h pairs. fold (\<lambda>old. add_pair (old, sh_replacement_id h)) (hint_matches E rs h db) pairs) hs ps)"
    for rs hs ps
    by (induction hs arbitrary: ps) (auto simp: distinct_fold_add_pair)
  then show ?thesis by (simp add: resolve_pairs_def Let_def)
qed

text \<open>Visibility as the thread path reads it: nothing is private.\<close>

definition visibility_of :: "memory_object \<Rightarrow> pystr" where
  "visibility_of m = (case mo_visibility m of None \<Rightarrow> u ''private'' | Some v \<Rightarrow> if v = [] then u ''private'' else v)"

lemma hint_matchD:
  assumes "old \<in> set (hint_matches E rs h db)"
  shows "sh_replacement_id h \<in> set rs \<and> old \<notin> set rs
    \<and> (\<exists>m\<in>set (q_memories db). mo_id m = old \<and> mo_type m = sh_memory_type h
          \<and> mo_lifecycle m \<in> {[], u ''active''}
          \<and> (mo_visibility m = Some (sh_visibility h) \<or> visibility_of m = sh_visibility h))"
proof -
  have "sh_replacement_id h \<in> set rs" using assms by (auto simp: hint_matches_def split: if_splits)
  moreover have "old \<notin> set rs
    \<and> (\<exists>m\<in>set (q_memories db). mo_id m = old \<and> mo_type m = sh_memory_type h \<and> mo_lifecycle m \<in> {[], u ''active''}
          \<and> (mo_visibility m = Some (sh_visibility h) \<or> visibility_of m = sh_visibility h))"
    using assms
    by (auto simp: hint_matches_def container_matches_def thread_matches_def thread_candidate_def same_finding_def
        visibility_of_def Let_def split: if_splits option.splits)
  ultimately show ?thesis by blast
qed

section \<open>A superseded object\<close>

definition retired :: "queue_db \<Rightarrow> pystr set \<Rightarrow> pystr \<Rightarrow> bool" where
  "retired db ns k \<longleftrightarrow>
     (\<exists>m. get_memory db k = Some m \<and> mo_lifecycle m = u ''superseded'')
     \<and> (\<forall>e\<in>set (q_index db). \<not> (ix_target_kind e = u ''memory_object'' \<and> ix_target_id e = k))
     \<and> (\<exists>r\<in>set (q_relations db). rl_type r = u ''supersedes'' \<and> rl_from_id r \<in> ns \<and> rl_to_id r = k)"

text \<open>An index entry that is gone is gone from the full text index.\<close>

lemma unindexed_not_found:
  assumes "queue_inv db"
    and "\<forall>e\<in>set (q_index db). \<not> (ix_target_kind e = kind \<and> ix_target_id e = k)"
  shows "\<forall>f\<in>set (q_fts db). \<not> (ft_target_kind f = kind \<and> ft_target_id f = k)"
proof
  fix f assume "f \<in> set (q_fts db)"
  then have "fts_copy f \<in># image_mset fts_copy (mset (q_fts db))" by simp
  also have "image_mset fts_copy (mset (q_fts db)) = image_mset entry_copy (mset (lexical_entries db))"
    using assms(1) by (simp add: queue_inv_def)
  finally obtain e where "e \<in> set (q_index db)" "fts_copy f = entry_copy e" by (auto simp: lexical_entries_def)
  then show "\<not> (ft_target_kind f = kind \<and> ft_target_id f = k)"
    using assms(2) by (auto simp: fts_copy_def entry_copy_def)
qed

definition superseded :: "queue_db \<Rightarrow> pystr \<Rightarrow> bool" where
  "superseded db k \<longleftrightarrow> (\<exists>m. get_memory db k = Some m \<and> mo_lifecycle m = u ''superseded'')"

lemma get_memory_upd:
  assumes "\<And>m. mo_id (f m) = mo_id m"
  shows "get_memory (upd_memory k f db) k' = (if k' = k then map_option f (get_memory db k) else get_memory db k')"
  using assms by (simp add: upd_memory_def row_get_row_upd)

lemma fields_upd_memory [simp]:
  "q_index (upd_memory k f db) = q_index db" "q_fts (upd_memory k f db) = q_fts db"
  "q_relations (upd_memory k f db) = q_relations db" "q_items (upd_memory k f db) = q_items db"
  by (simp_all add: upd_memory_def)

lemma delete_index_simps [simp]:
  "q_memories (delete_index_entries kind k db) = q_memories db"
  "q_relations (delete_index_entries kind k db) = q_relations db"
  "set (q_index (delete_index_entries kind k db)) =
     {e \<in> set (q_index db). \<not> (ix_target_kind e = kind \<and> ix_target_id e = k)}"
  by (auto simp: delete_index_entries_def Let_def)

lemma moved_relation:
  "r \<in> set rows \<Longrightarrow> \<not> supports l r \<Longrightarrow> distinct (map rl_id rows) \<Longrightarrow>
     r \<in> set (reparent_relations l w rows)"
proof -
  have "r \<in> set rows \<Longrightarrow> rl_id r \<notin> rl_id ` set rs \<Longrightarrow> r \<in> set (move_relations w rs ts rows)" for rs ts rows
    by (induction w rs ts rows rule: move_relations.induct) (auto simp: set_row_del set_row_upd image_iff)
  moreover have "rl_id r \<notin> rl_id ` set (filter (supports l) rows)"
    if "r \<in> set rows" "\<not> supports l r" "distinct (map rl_id rows)"
    using that by (auto simp: distinct_map inj_on_def)
  ultimately show "r \<in> set rows \<Longrightarrow> \<not> supports l r \<Longrightarrow> distinct (map rl_id rows) \<Longrightarrow> ?thesis"
    unfolding reparent_relations_def by blast
qed

text \<open>The effect of one pair that is applied.\<close>

lemma apply_pairE:
  assumes "apply_pair E (old, new) db = Inr db'"
  obtains (kept) "superseded db old" "db' = db"
    | (applied) m n d where "get_memory db old = Some m" "get_memory db new = Some n"
        "mo_type m = mo_type n" "\<not> superseded db old" "merge_rows m n db = Inr d"
        "rl_id (supersedes_row E old new) \<notin> rl_id ` set (q_relations d)"
        "db' = delete_index_entries (u ''memory_object'') old
          ((upd_memory old (\<lambda>m. m\<lparr>mo_lifecycle := u ''superseded''\<rparr>) d)
             \<lparr>q_relations := q_relations d @ [supersedes_row E old new]\<rparr>)"
  using assms
  by (auto simp: apply_pair_def superseded_def Let_def split: option.splits if_splits sum.splits)

lemma merge_rows_fields:
  assumes "merge_rows m n db = Inr d"
  shows "q_index d = q_index db" "q_fts d = q_fts db"
    "map_option mo_lifecycle (get_memory d k) = map_option mo_lifecycle (get_memory db k)"
    "q_relations d = q_relations db \<or> q_relations d = reparent_relations (mo_id m) (mo_id n) (q_relations db)"
  using assms
  by (auto simp: merge_rows_def row_get_row_upd upd_memory_def option.map_comp comp_def split: if_splits sum.splits)

lemma merge_keeps_supersedes:
  assumes "merge_rows m n db = Inr d" "queue_inv db" "r \<in> set (q_relations db)" "rl_type r = u ''supersedes''"
  shows "r \<in> set (q_relations d)"
  using merge_rows_fields(4) [OF assms(1)] moved_relation [OF assms(3)] assms(2,3,4)
  by (auto simp: supports_def queue_inv_def)

lemma superseded_iff: "superseded db k \<longleftrightarrow> map_option mo_lifecycle (get_memory db k) = Some (u ''superseded'')"
  by (auto simp: superseded_def)

lemma get_memory_parts [simp]:
  "get_memory (delete_index_entries kind j db) k = get_memory db k"
  "get_memory (db\<lparr>q_relations := rs\<rparr>) k = get_memory db k"
  by simp_all

lemma retired_superseded: "retired db ns k \<Longrightarrow> superseded db k"
  by (auto simp: retired_def superseded_def)

lemma apply_pair_retires:
  assumes "apply_pair E (old, new) db = Inr db'" "queue_inv db" "\<not> superseded db old" "new \<in> ns"
  shows "retired db' ns old"
  using assms(1)
proof (cases rule: apply_pairE)
  case kept
  then show ?thesis using assms(3) by simp
next
  case (applied m n d)
  have "map_option mo_lifecycle (get_memory d old) \<noteq> None"
    using merge_rows_fields(3) [OF applied(5), of old] applied(1) by auto
  then show ?thesis
    using applied(7) assms(4) by (auto simp: retired_def get_memory_upd supersedes_row_def)
qed

lemma apply_pair_keeps_retired:
  assumes "apply_pair E p db = Inr db'" "queue_inv db" "retired db ns k"
  shows "retired db' ns k"
proof -
  obtain old new where p: "p = (old, new)" by fastforce
  from assms(1) [unfolded p] show ?thesis
  proof (cases rule: apply_pairE)
    case kept
    then show ?thesis using assms(3) by simp
  next
    case (applied m n d)
    have "superseded d k"
      using retired_superseded [OF assms(3)] merge_rows_fields(3) [OF applied(5), of k] by (simp add: superseded_iff)
    then have "\<exists>x. get_memory db' k = Some x \<and> mo_lifecycle x = u ''superseded''"
      using applied(7) by (auto simp: get_memory_upd superseded_def)
    moreover have "\<exists>r\<in>set (q_relations db'). rl_type r = u ''supersedes'' \<and> rl_from_id r \<in> ns \<and> rl_to_id r = k"
      using assms(3) merge_keeps_supersedes [OF applied(5) assms(2)] applied(7) by (fastforce simp: retired_def)
    ultimately show ?thesis
      using assms(3) applied(7) merge_rows_fields(1) [OF applied(5)] by (auto simp: retired_def)
  qed
qed

lemma apply_pair_spares_lifecycle:
  assumes "apply_pair E (old, new) db = Inr db'" "k \<noteq> old"
  shows "superseded db' k \<longleftrightarrow> superseded db k"
  using assms(1)
proof (cases rule: apply_pairE)
  case (applied m n d)
  then show ?thesis
    using assms(2) merge_rows_fields(3) [OF applied(5), of k] by (simp add: superseded_iff get_memory_upd)
qed simp

lemma apply_pairs_retire:
  assumes "apply_pairs E ps db = Inr db'" "queue_inv db" "snd ` set ps \<subseteq> ns"
    and "\<And>k. k \<in> fst ` set ps \<Longrightarrow> superseded db k \<Longrightarrow> retired db ns k"
  shows "(\<forall>k. retired db ns k \<longrightarrow> retired db' ns k) \<and> (\<forall>k\<in>fst ` set ps. retired db' ns k)"
  using assms
proof (induction ps arbitrary: db)
  case (Cons p ps)
  obtain old new where p: "p = (old, new)" by fastforce
  obtain d where d: "apply_pair E (old, new) db = Inr d" and rest: "apply_pairs E ps d = Inr db'"
    using Cons.prems(1) p by (auto split: sum.splits)
  have inv: "queue_inv d" using qstep_apply_pair [OF d] Cons.prems(2) by (auto simp: qstep_def)
  have old: "retired d ns old"
    using apply_pair_retires [OF d Cons.prems(2), of ns] apply_pair_keeps_retired [OF d Cons.prems(2), of ns old]
      Cons.prems(3,4) p by fastforce
  have "retired d ns k" if "k \<in> fst ` set ps" "superseded d k" for k
  proof (cases "k = old")
    case False
    then have "superseded db k" using that(2) apply_pair_spares_lifecycle [OF d] by simp
    then have "retired db ns k" using Cons.prems(4) [of k] that(1) by simp
    then show ?thesis by (rule apply_pair_keeps_retired [OF d Cons.prems(2)])
  qed (use old in simp)
  then have "(\<forall>k. retired d ns k \<longrightarrow> retired db' ns k) \<and> (\<forall>k\<in>fst ` set ps. retired db' ns k)"
    using Cons.IH [OF rest inv] Cons.prems(3) by simp
  then show ?case using old p apply_pair_keeps_retired [OF d Cons.prems(2)] by simp
qed simp

section \<open>The rest of the commit\<close>

lemma retired_cong:
  assumes "q_index db' = q_index db" "q_relations db' = q_relations db"
    and "\<And>k. map_option mo_lifecycle (get_memory db' k) = map_option mo_lifecycle (get_memory db k)"
  shows "retired db' ns k \<longleftrightarrow> retired db ns k"
proof -
  have "superseded db' k \<longleftrightarrow> superseded db k" using assms(3) [of k] by (simp add: superseded_iff)
  then show ?thesis using assms(1,2) by (simp add: retired_def superseded_def [symmetric])
qed

lemma metadata_fields:
  "apply_metadata_updates E us db = Inr db' \<Longrightarrow>
     q_index db' = q_index db \<and> q_relations db' = q_relations db \<and> q_memories db' = q_memories db \<and> q_fts db' = q_fts db"
  by (induction E us db rule: apply_metadata_updates.induct)
    (auto simp: patch_source_def upd_source_def sync_work_refs_def Let_def split: option.splits sum.splits)

lemma retired_freshness [simp]: "retired (refresh_freshness j db) ns k \<longleftrightarrow> retired db ns k"
  by (rule retired_cong)
    (auto simp: refresh_freshness_def get_memory_upd option.map_comp comp_def split: option.split)

lemma retired_fold_freshness [simp]:
  "retired (fold (\<lambda>m. refresh_freshness (mi_id m)) ms db) ns k \<longleftrightarrow> retired db ns k"
  by (induction ms arbitrary: db) simp_all

lemma commit_stageE:
  assumes "commit_stage E result extra db = Inr (pairs, db')"
  obtains d1 d2 d3 where "persist_result E result db = Inr d1" "pairs = resolve_pairs E result d1 @ extra"
    "apply_pairs E pairs d1 = Inr d2" "apply_metadata_updates E (pr_metadata_updates result) d2 = Inr d3"
    "db' = fold (\<lambda>m. refresh_freshness (mi_id m)) (pr_memories result) d3"
  using assms by (auto simp: commit_stage_def Let_def split: sum.splits)

lemma qstep_persist_result: "persist_result E result db = Inr d \<Longrightarrow> qstep db d"
  by (auto simp: persist_result_def split: sum.splits intro: qstep_trans [OF qstep_persist_rows qstep_promote_slots])

lemma commit_retires:
  assumes "commit_stage E result [] db = Inr (pairs, db')" "queue_inv db" "(old, new) \<in> set pairs"
  shows "retired db' (set (map mi_id (pr_memories result))) old \<and> old \<notin> set (map mi_id (pr_memories result))
    \<and> new \<in> set (map mi_id (pr_memories result))"
  using assms(1)
proof (cases rule: commit_stageE)
  case (1 d1 d2 d3)
  let ?ns = "set (map mi_id (pr_memories result))"
  have inv: "queue_inv d1" using qstep_persist_result [OF 1(1)] assms(2) by (auto simp: qstep_def)
  have match: "snd p \<in> ?ns \<and> fst p \<notin> ?ns \<and> (\<exists>m\<in>set (q_memories d1). mo_id m = fst p \<and> mo_lifecycle m \<in> {[], u ''active''})"
    if "p \<in> set pairs" for p
    using that 1(2) by (auto simp: set_resolve_pairs dest!: hint_matchD)
  have "\<not> superseded d1 k" if "k \<in> fst ` set pairs" for k
  proof -
    obtain m where m: "m \<in> set (q_memories d1)" "mo_id m = k" "mo_lifecycle m \<in> {[], u ''active''}"
      using \<open>k \<in> fst ` set pairs\<close> match by fastforce
    then have "get_memory d1 k = Some m"
      using row_get_distinct [of mo_id "q_memories d1" m] inv by (auto simp: queue_inv_def)
    then show ?thesis using m(3) by (auto simp: superseded_def)
  qed
  then have "retired d2 ?ns old"
    using apply_pairs_retire [OF 1(3) inv, of ?ns] match assms(3) by force
  moreover have "retired d3 ?ns old \<longleftrightarrow> retired d2 ?ns old"
    using metadata_fields [OF 1(4)] by (intro retired_cong) auto
  ultimately show ?thesis using 1(5) match [OF assms(3)] by simp
qed
end
