(* ===== verification/Memory_Evidence.thy ===== *)
theory Memory_Evidence
  imports Memory_Facts
begin

text \<open>
  Where the evidence of a superseded object goes, how long the histories grow that its replacement
  takes over, and what makes a recurring fact active.
\<close>

section \<open>Evidence\<close>

definition evidence_in :: "relation list \<Rightarrow> pystr \<Rightarrow> pystr set" where
  "evidence_in rows m = rl_to_id ` {r \<in> set rows. supports m r}"

lemma evidence_in_code: "evidence_in rows m = set (map rl_to_id (filter (supports m) rows))"
  by (simp add: evidence_in_def)

definition other_rows :: "pystr \<Rightarrow> pystr \<Rightarrow> relation list \<Rightarrow> relation list" where
  "other_rows l w rows = filter (\<lambda>r. \<not> supports l r \<and> \<not> supports w r) rows"

lemma supports_unique: "supports m r \<Longrightarrow> supports m' r \<Longrightarrow> m' = m"
  by (simp add: supports_def)

lemma move_relations_spec:
  assumes "distinct (map rl_id rows)" "set rs \<subseteq> set rows" "distinct rs" "\<And>r. r \<in> set rs \<Longrightarrow> supports l r" "l \<noteq> w"
    and "set ts = evidence_in rows w"
  shows "evidence_in (move_relations w rs ts rows) w = evidence_in rows w \<union> rl_to_id ` set rs
    \<and> {r \<in> set (move_relations w rs ts rows). supports l r} = {r \<in> set rows. supports l r} - set rs
    \<and> other_rows l w (move_relations w rs ts rows) = other_rows l w rows"
  using assms
proof (induction rs arbitrary: ts rows)
  case (Cons r rs)
  have r: "r \<in> set rows" "supports l r" "\<not> supports w r"
    using Cons.prems supports_unique [of l r w] by auto
  have same: "x = r" if "x \<in> set rows" "rl_id x = rl_id r" for x
    using that r(1) Cons.prems(1) by (auto simp: distinct_map inj_on_def)
  show ?case
  proof (cases "rl_to_id r \<in> set ts")
    case True
    let ?rows = "row_del rl_id (rl_id r) rows"
    have set: "set ?rows = set rows - {r}"
      unfolding set_row_del using same by blast
    have "evidence_in ?rows w = evidence_in rows w" using set r(3) by (auto simp: evidence_in_def)
    moreover have "other_rows l w ?rows = other_rows l w rows"
      unfolding other_rows_def row_del_def filter_filter using same r(2) by (intro filter_cong) auto
    moreover have "set rs \<subseteq> set ?rows" using Cons.prems(2,3) set by auto
    moreover have "distinct (map rl_id ?rows)" using Cons.prems(1) by (rule distinct_keys_row_del)
    ultimately show ?thesis
      using Cons.IH [of ?rows ts] Cons.prems True set by (auto simp: evidence_in_def)
  next
    case False
    let ?r = "r\<lparr>rl_from_id := w\<rparr>"
    let ?rows = "row_upd rl_id (rl_id r) (\<lambda>x. x\<lparr>rl_from_id := w\<rparr>) rows"
    have set: "set ?rows = insert ?r (set rows - {r})"
    proof -
      have "set ?rows = (\<lambda>x. if x = r then ?r else x) ` set rows"
        unfolding set_row_upd using same by (intro image_cong refl) auto
      then show ?thesis using r(1) by auto
    qed
    have w: "supports w ?r" using r(2) by (simp add: supports_def)
    have "{x \<in> set ?rows. supports w x} = insert ?r {x \<in> set rows. supports w x}"
      unfolding set using w r(3) by auto
    then have ev: "evidence_in ?rows w = insert (rl_to_id r) (evidence_in rows w)" by (simp add: evidence_in_def)
    have others: "other_rows l w ?rows = other_rows l w rows"
    proof -
      have "other_rows l w (map (\<lambda>x. if rl_id x = rl_id r then x\<lparr>rl_from_id := w\<rparr> else x) xs) = other_rows l w xs"
        if "set xs \<subseteq> set rows" for xs
        using that same r(2) w by (induction xs) (auto simp: other_rows_def)
      then show ?thesis by (simp add: row_upd_def)
    qed
    have "\<not> supports l ?r" using w supports_unique [OF w] Cons.prems(5) by blast
    then have left: "{x \<in> set ?rows. supports l x} = {x \<in> set rows. supports l x} - {r}" unfolding set by auto
    have "set rs \<subseteq> set ?rows" unfolding set using Cons.prems(2,3) by auto
    moreover have "distinct (map rl_id ?rows)" using Cons.prems(1) by simp
    moreover have "distinct rs" "\<And>x. x \<in> set rs \<Longrightarrow> supports l x" using Cons.prems(3,4) by simp_all
    moreover have "set (rl_to_id r # ts) = evidence_in ?rows w" using ev Cons.prems(6) by simp
    ultimately have "evidence_in (move_relations w rs (rl_to_id r # ts) ?rows) w = evidence_in ?rows w \<union> rl_to_id ` set rs
      \<and> {x \<in> set (move_relations w rs (rl_to_id r # ts) ?rows). supports l x} = {x \<in> set ?rows. supports l x} - set rs
      \<and> other_rows l w (move_relations w rs (rl_to_id r # ts) ?rows) = other_rows l w ?rows"
      using Cons.IH [of ?rows "rl_to_id r # ts"] Cons.prems(5) by blast
    moreover have "move_relations w (r # rs) ts rows = move_relations w rs (rl_to_id r # ts) ?rows" using False by simp
    ultimately show ?thesis unfolding ev left others by auto
  qed
qed simp

lemma reparent_spec:
  assumes "distinct (map rl_id rows)" "l \<noteq> w"
  shows "evidence_in (reparent_relations l w rows) w = evidence_in rows w \<union> evidence_in rows l"
    and "evidence_in (reparent_relations l w rows) l = {}"
    and "m \<noteq> l \<Longrightarrow> m \<noteq> w \<Longrightarrow> evidence_in (reparent_relations l w rows) m = evidence_in rows m"
    and "other_rows l w (reparent_relations l w rows) = other_rows l w rows"
proof -
  have d: "distinct rows" using assms(1) by (simp add: distinct_map)
  have spec: "evidence_in (reparent_relations l w rows) w = evidence_in rows w \<union> rl_to_id ` set (filter (supports l) rows)
    \<and> {r \<in> set (reparent_relations l w rows). supports l r} = {r \<in> set rows. supports l r} - set (filter (supports l) rows)
    \<and> other_rows l w (reparent_relations l w rows) = other_rows l w rows"
    unfolding reparent_relations_def
    by (rule move_relations_spec [OF assms(1) _ _ _ assms(2)]) (use d in \<open>auto simp: evidence_in_def\<close>)
  then show "evidence_in (reparent_relations l w rows) w = evidence_in rows w \<union> evidence_in rows l"
    "evidence_in (reparent_relations l w rows) l = {}"
    "other_rows l w (reparent_relations l w rows) = other_rows l w rows"
    by (auto simp: evidence_in_def)
  have other: "evidence_in xs m = evidence_in (other_rows l w xs) m" if "m \<noteq> l" "m \<noteq> w" for xs
    using that by (auto simp: evidence_in_def other_rows_def dest: supports_unique)
  show "m \<noteq> l \<Longrightarrow> m \<noteq> w \<Longrightarrow> evidence_in (reparent_relations l w rows) m = evidence_in rows m"
    using other [of "reparent_relations l w rows"] other [of rows] spec by simp
qed

text \<open>The evidence of an object through one pair that is applied.\<close>

abbreviation evidence_of :: "queue_db \<Rightarrow> pystr \<Rightarrow> pystr set" where
  "evidence_of db m \<equiv> evidence_in (q_relations db) m"

lemma evidence_in_supersedes [simp]: "evidence_in (rs @ [supersedes_row E a b]) m = evidence_in rs m"
  by (auto simp: evidence_in_def supports_def supersedes_row_def)

lemma evidence_through_pair:
  assumes "apply_pair E (old, new) db = Inr db'" "queue_inv db" "old \<noteq> new"
    and "get_memory db old = Some m" "mo_lifecycle m \<noteq> u ''superseded''" "mo_type m \<in> merge_types"
  shows "evidence_of db' new = evidence_of db new \<union> evidence_of db old" "evidence_of db' old = {}"
    and "k \<noteq> old \<Longrightarrow> k \<noteq> new \<Longrightarrow> evidence_of db' k = evidence_of db k"
proof -
  have d: "distinct (map rl_id (q_relations db))" using assms(2) by (simp add: queue_inv_def)
  from assms(1) show "evidence_of db' new = evidence_of db new \<union> evidence_of db old" "evidence_of db' old = {}"
    "k \<noteq> old \<Longrightarrow> k \<noteq> new \<Longrightarrow> evidence_of db' k = evidence_of db k"
  proof (atomize (full), cases rule: apply_pairE)
    case kept
    then show "evidence_of db' new = evidence_of db new \<union> evidence_of db old \<and> evidence_of db' old = {}
      \<and> (k \<noteq> old \<longrightarrow> k \<noteq> new \<longrightarrow> evidence_of db' k = evidence_of db k)"
      using assms(4,5) by (simp add: superseded_def)
  next
    case (applied m' n d1)
    have ids: "m' = m" "mo_id m = old" "mo_id n = new"
      using applied(1,2) assms(4) row_get_SomeD(2) by fastforce+
    then have "q_relations d1 = reparent_relations old new (q_relations db)"
      using applied(3,5) assms(6) by (auto simp: merge_rows_def upd_memory_def split: sum.splits)
    then have "evidence_of db' x = evidence_in (reparent_relations old new (q_relations db)) x" for x
      using applied(7) by simp
    then show "evidence_of db' new = evidence_of db new \<union> evidence_of db old \<and> evidence_of db' old = {}
      \<and> (k \<noteq> old \<longrightarrow> k \<noteq> new \<longrightarrow> evidence_of db' k = evidence_of db k)"
      using reparent_spec [OF d assms(3)] by simp
  qed
qed

section \<open>The merged histories\<close>

lemma length_keep_last: "length (keep_last xs) \<le> merge_history_keep_last"
  by (simp add: keep_last_def)

lemma keep_last_snoc: "keep_last (xs @ [x]) = drop (Suc (length xs) - merge_history_keep_last) xs @ [x]"
  by (simp add: keep_last_def merge_history_keep_last_def)

definition bounded_history :: "pystr \<Rightarrow> json_object \<Rightarrow> bool" where
  "bounded_history k d = (case obj_true k d of
     None \<Rightarrow> True | Some (JList xs) \<Rightarrow> length xs \<le> merge_history_keep_last | Some _ \<Rightarrow> False)"

lemma bounded_put: "bounded_history k (obj_put k (JList (keep_last xs)) d)"
  by (simp add: bounded_history_def obj_true_put length_keep_last)

lemma bounded_put_other: "j \<noteq> k \<Longrightarrow> bounded_history k (obj_put j v d) \<longleftrightarrow> bounded_history k d"
  by (simp add: bounded_history_def obj_true_put)

lemma append_unique_keeps: "set xs \<subseteq> set (fold append_unique vs xs)"
  by (induction vs arbitrary: xs) (force simp: append_unique_def split: if_splits)+

lemma history_empty:
  assumes "merge_history k own w l = Inr []"
  shows "obj_true k w = None"
proof -
  obtain mine vs where "items_of k w = Inr mine" "fold append_unique vs mine = []"
    using assms by (auto simp del: fold_append simp: merge_history_def split: sum.splits)
  moreover from this have "mine = []" using append_unique_keeps [of mine vs] by simp
  ultimately have "items_of k w = Inr []" by simp
  then show ?thesis
    by (auto simp: items_of_def obj_true_def split: option.splits json.splits if_splits)
qed

lemma put_history_bounded:
  assumes "merge_history k own w l = Inr xs"
  shows "bounded_history k (put_history k xs w)"
proof (cases "xs = []")
  case True
  with history_empty assms have "obj_true k w = None" by blast
  then show ?thesis using True by (simp add: put_history_def bounded_history_def)
qed (simp add: put_history_def bounded_put)

lemma put_history_other: "j \<noteq> k \<Longrightarrow> bounded_history k (put_history j xs d) \<longleftrightarrow> bounded_history k d"
  by (simp add: put_history_def bounded_put_other)

lemma merge_payload_bounded:
  assumes "merge_payload w l i = Inr p"
  shows "bounded_history (u ''merged_from'') p" "bounded_history (u ''previous_evidence_text'') p"
    "bounded_history (u ''previous_rationale'') p"
proof -
  obtain a b c where a: "merge_history (u ''merged_from'') (Some (JText i)) w l = Inr a"
    and b: "merge_history (u ''previous_evidence_text'') (loser_evidence l) (obj_put (u ''merged_from'') (JList (keep_last a)) w) l = Inr b"
    and c: "merge_history (u ''previous_rationale'') (obj_get (u ''rationale'') l)
        (put_history (u ''previous_evidence_text'') b (obj_put (u ''merged_from'') (JList (keep_last a)) w)) l = Inr c"
    and p: "p = put_history (u ''previous_rationale'') c
        (put_history (u ''previous_evidence_text'') b (obj_put (u ''merged_from'') (JList (keep_last a)) w))"
    using assms by (auto simp: merge_payload_def Let_def split: sum.splits)
  show "bounded_history (u ''merged_from'') p" unfolding p by (simp add: put_history_other bounded_put)
  show "bounded_history (u ''previous_evidence_text'') p"
    unfolding p using put_history_bounded [OF b] by (simp add: put_history_other)
  show "bounded_history (u ''previous_rationale'') p" unfolding p by (rule put_history_bounded [OF c])
qed

text \<open>The loser's own identifier ends the list of what was merged in, unless it is there already.\<close>

lemma fold_append_unique_last:
  assumes "v \<noteq> JNull" "v \<noteq> JText []" "v \<notin> set (vs @ xs)"
  shows "fold append_unique (vs @ [v]) xs = fold append_unique vs xs @ [v]"
proof -
  have "set (fold append_unique vs xs) \<subseteq> set (vs @ xs)"
    by (induction vs arbitrary: xs) (force simp: append_unique_def split: if_splits)+
  then show ?thesis using assms by (auto simp: append_unique_def)
qed

lemma merged_from_last:
  assumes "merge_payload w l i = Inr p" "i \<noteq> []" "items_of (u ''merged_from'') w = Inr mine"
    "items_of (u ''merged_from'') l = Inr theirs" "JText i \<notin> set (theirs @ mine)"
  shows "\<exists>xs. obj_get (u ''merged_from'') p = Some (JList (xs @ [JText i]))"
proof -
  obtain b c where "p = put_history (u ''previous_rationale'') c (put_history (u ''previous_evidence_text'') b
      (obj_put (u ''merged_from'') (JList (keep_last (fold append_unique (theirs @ [JText i]) mine))) w))"
    using assms(1,3,4) by (auto simp: merge_payload_def merge_history_def Let_def split: sum.splits)
  then show ?thesis
    using fold_append_unique_last [OF _ _ assms(5)] assms(2) by (auto simp: put_history_def keep_last_snoc)
qed

section \<open>Promotion\<close>

definition activate :: "memory_object \<Rightarrow> memory_object" where
  "activate m = m\<lparr>mo_lifecycle := u ''active''\<rparr>"

definition promotion_logged :: "promotion_log list \<Rightarrow> memory_object \<Rightarrow> nat \<Rightarrow> bool" where
  "promotion_logged log m n \<longleftrightarrow> list_ex (\<lambda>p. pl_memory_object_id p = mo_id m \<and> pl_distinct_threads_count p = n) log"

text \<open>An object after the hints: as it was, or promoted out of a slot with enough threads, with the log
  saying so.\<close>

definition promoted_by ::
  "memory_env \<Rightarrow> promotion_hint list \<Rightarrow> queue_db \<Rightarrow> promotion_log list \<Rightarrow> memory_object \<Rightarrow> memory_object \<Rightarrow> bool"
where
  "promoted_by E hs db log m m' \<longleftrightarrow> m' = m \<or>
     (m' = activate m \<and> mo_lifecycle m = u ''candidate''
      \<and> (\<exists>h\<in>set hs. promotable E h m \<and> promotion_thread_threshold \<le> length (slot_threads h db)
            \<and> promotion_logged log m (length (slot_threads h db))))"

lemma slot_threads_cong:
  assumes "q_items db' = q_items db" "q_relations db' = q_relations db"
    and "list_all2 (\<lambda>m m'. mo_id m' = mo_id m \<and> (slot_witness h m' \<longleftrightarrow> slot_witness h m)) (q_memories db) (q_memories db')"
  shows "slot_threads h db' = slot_threads h db"
proof -
  have "list_ex (\<lambda>m. slot_witness h m \<and> Q (mo_id m)) ms' = list_ex (\<lambda>m. slot_witness h m \<and> Q (mo_id m)) ms"
    if "list_all2 (\<lambda>m m'. mo_id m' = mo_id m \<and> (slot_witness h m' \<longleftrightarrow> slot_witness h m)) ms ms'" for Q ms ms'
    using that by (induction rule: list_all2_induct) auto
  note eq = this [OF assms(3)]
  note eq2 = eq [of "\<lambda>k. list_ex (\<lambda>r. supports k r \<and> rl_to_kind r = u ''source_item'' \<and> rl_to_id r = i_id i) (q_relations db)" for i]
  show ?thesis unfolding slot_threads_def assms(1,2) by (simp only: eq2)
qed

lemma activated_witness: "mo_lifecycle m = u ''candidate'' \<Longrightarrow> slot_witness h (activate m) \<longleftrightarrow> slot_witness h m"
  by (simp add: slot_witness_def in_slot_scope_def activate_def)

lemma promoted_witness: "promoted_by E hs db log m m' \<Longrightarrow> mo_id m' = mo_id m \<and> (slot_witness h m' \<longleftrightarrow> slot_witness h m)"
  by (auto simp: promoted_by_def activated_witness) (simp_all add: activate_def)

lemma promote_slot_effect:
  assumes "promote_slot E h db = Inr db'"
  shows "q_items db' = q_items db" "q_relations db' = q_relations db"
    "\<exists>tail. q_promotions db' = q_promotions db @ tail"
    "list_all2 (promoted_by E [h] db (q_promotions db')) (q_memories db) (q_memories db')"
proof -
  show "q_items db' = q_items db" "q_relations db' = q_relations db" "\<exists>tail. q_promotions db' = q_promotions db @ tail"
    using assms by (auto simp: promote_slot_def insert_rows_Inr_iff Let_def split: if_splits sum.splits)
  show "list_all2 (promoted_by E [h] db (q_promotions db')) (q_memories db) (q_memories db')"
  proof (cases "length (slot_threads h db) < promotion_thread_threshold")
    case True
    then have "db' = db" using assms by (simp add: promote_slot_def)
    then show ?thesis by (simp add: list_all2_same promoted_by_def)
  next
    case False
    then have p: "q_memories db' = rows_where (promotable E h) activate (q_memories db)"
      "q_promotions db' = q_promotions db @ map (promotion_row E (length (slot_threads h db))) (filter (promotable E h) (q_memories db))"
      using assms
      by (auto simp: promote_slot_def insert_rows_Inr_iff Let_def activate_def [abs_def] split: sum.splits)
    have "promoted_by E [h] db (q_promotions db') m (if promotable E h m then activate m else m)"
      if "m \<in> set (q_memories db)" for m
    proof (cases "promotable E h m")
      case True
      let ?n = "length (slot_threads h db)"
      have "promotion_row E ?n m \<in> set (q_promotions db')" using that True p(2) by simp
      then have "promotion_logged (q_promotions db') m ?n"
        unfolding promotion_logged_def list_ex_iff by (rule rev_bexI) (simp add: promotion_row_def)
      then show ?thesis using True False by (auto simp: promoted_by_def promotable_def)
    qed (simp add: promoted_by_def)
    then show ?thesis unfolding p(1) rows_where_def by (simp add: list_all2_map2 list_all2_same)
  qed
qed

lemma promoted_by_trans:
  assumes "promoted_by E [h] db log m m'" "promoted_by E hs db' (log @ tail) m' m''"
    and "\<And>h. slot_threads h db' = slot_threads h db"
  shows "promoted_by E (h # hs) db (log @ tail) m m''"
proof (cases "m' = m")
  case True
  then show ?thesis using assms(2,3) by (auto simp: promoted_by_def)
next
  case False
  then have m': "m' = activate m" using assms(1) by (auto simp: promoted_by_def)
  then have "m'' = m'" using assms(2) by (auto simp: promoted_by_def activate_def)
  then show ?thesis using assms(1) m' False by (auto simp: promoted_by_def promotion_logged_def)
qed

lemma promoted_by_more: "promoted_by E hs db log m m' \<Longrightarrow> promoted_by E (h # hs) db log m m'"
  by (auto simp: promoted_by_def)

lemma promote_slots_effect:
  assumes "promote_slots E seen hs db = Inr db'"
  shows "(\<exists>tail. q_promotions db' = q_promotions db @ tail)
    \<and> list_all2 (promoted_by E hs db (q_promotions db')) (q_memories db) (q_memories db')"
  using assms
proof (induction hs arbitrary: seen db)
  case Nil
  then show ?case by (simp add: list_all2_same promoted_by_def)
next
  case (Cons h hs)
  show ?case
  proof (cases "slot_key h \<in> set seen")
    case True
    then show ?thesis using Cons.IH [of seen db] Cons.prems
      by (auto elim!: list_all2_mono intro: promoted_by_more)
  next
    case False
    then obtain d where d: "promote_slot E h db = Inr d" and rest: "promote_slots E (slot_key h # seen) hs d = Inr db'"
      using Cons.prems by (auto split: sum.splits)
    note one = promote_slot_effect [OF d]
    have threads: "slot_threads x d = slot_threads x db" for x
      by (rule slot_threads_cong [OF one(1,2)]) (rule list_all2_mono [OF one(4)], rule promoted_witness)
    obtain tail where tail: "q_promotions db' = q_promotions d @ tail"
      and two: "list_all2 (promoted_by E hs d (q_promotions db')) (q_memories d) (q_memories db')"
      using Cons.IH [OF rest] by blast
    have "list_all2 (promoted_by E (h # hs) db (q_promotions db')) (q_memories db) (q_memories db')"
      by (rule list_all2_trans [OF _ one(4) two]) (unfold tail, rule promoted_by_trans [OF _ _ threads])
    then show ?thesis using one(3) tail by auto
  qed
qed
end
