(* ===== verification/Queue_Example.thy ===== *)
theory Queue_Example
  imports Queue_Facts Memory_Evidence
begin

text \<open>
  A small history of the queue, run by the model: two items enter with a package task each, a worker
  claims the first. The witnesses of the queue's guarantees are evaluated on it.
\<close>

definition ex_memory_env :: memory_env where
  "ex_memory_env = \<lparr>me_nfkc_lower = (\<lambda>s. s), me_casefold = (\<lambda>c. [c]), me_redact = (\<lambda>s. s), me_str = (\<lambda>_. []),
     me_similar = (\<lambda>_ _. False), me_supersedes_id = (\<lambda>k. 1 # k), me_promotion_id = (\<lambda>k. 2 # k), me_promoted_at = 0\<rparr>"

definition ex_item :: "nat \<Rightarrow> source_item" where
  "ex_item n = \<lparr>i_id = [n], i_source_type = [115], i_source_id = [n], i_content_type = [], i_content = [n],
     i_metadata = None, i_occurred_at = None, i_actor_ref = None, i_role = None, i_container_ref = Some [99],
     i_thread_ref = Some [116], i_source_ref = None, i_artifact_kind = None, i_visibility = Some (u ''private''), i_agent_ref = None,
     i_use_case = Some [97], i_status = StPending, i_attempts = 0, i_claimed_by = None, i_claimed_at = None,
     i_lease_expires_at = None, i_completed_at = None, i_error = None, i_next_attempt_at = None,
     i_thread_position = None, i_forgotten_at = None, i_forgotten_by = None, i_forgotten_reason = None,
     i_source_turn_id = None, i_relay_name = None, i_relay_attribution_state = [], i_created_at = int n\<rparr>"

definition ex_claim_by :: "nat \<Rightarrow> time \<Rightarrow> work_claim" where
  "ex_claim_by w t = \<lparr>wc_worker_id = [w], wc_lease_seconds = 60, wc_max_attempts = 3, wc_claimed_at = t\<rparr>"

definition ex_intake :: queue_db where
  "ex_intake = fold (queue_exec ex_memory_env)
     [QCreateItemWithPackages (ex_item 1) [[97]] [] 10, QCreateItemWithPackages (ex_item 2) [[97]] [] 11] empty_queue"

definition ex_working :: queue_db where
  "ex_working = queue_exec ex_memory_env (QClaimTask (ex_claim_by 7 20)) ex_intake"

definition ex_reclaimed :: queue_db where
  "ex_reclaimed = queue_exec ex_memory_env (QClaimTask (ex_claim_by 8 90000000)) ex_working"

definition ex_legacy :: queue_db where
  "ex_legacy = fold (queue_exec ex_memory_env)
     [QCreateItem (ex_item 1), QClaimItem (ex_claim_by 7 20), QClaimItem (ex_claim_by 7 70000000),
      QClaimItem (ex_claim_by 7 140000000)] empty_queue"

definition ex_scope :: thread_scope where
  "ex_scope = \<lparr>ts_scope_key = [115], ts_use_case = [97], ts_container_ref = [99], ts_thread_ref = Some [116],
     ts_visibility = u ''private''\<rparr>"

definition ex_scope_claim :: scope_claim where
  "ex_scope_claim = \<lparr>sc_worker_id = [7], sc_lease_seconds = 60, sc_claimed_at = 20\<rparr>"

lemma ex_queue_inv: "queue_inv ex_intake" "queue_inv ex_working"
proof -
  show i: "queue_inv ex_intake" unfolding ex_intake_def by (rule reachable_queue_inv)
  show "queue_inv ex_working" unfolding ex_working_def by (rule queue.exec_inv [OF i])
qed

definition ex_task :: "nat \<Rightarrow> nat \<Rightarrow> package_task" where
  "ex_task k n = new_task k [n] [97] False (Some (int n)) (int n + 9)"

definition ex_row :: "nat \<Rightarrow> int \<Rightarrow> source_item" where
  "ex_row n p = (ex_item n)\<lparr>i_thread_position := Some p\<rparr>"

lemma ex_intake_rows:
  "ex_intake = empty_queue\<lparr>q_items := [ex_row 1 1, ex_row 2 2], q_tasks := [ex_task 1 1, ex_task 2 2]\<rparr>"
  by code_simp

lemma ex_claimed: "fst (claim_next_task (ex_claim_by 7 20) ex_intake) = Inr (Some (item_view (ex_row 1 1), [97], 1))"
  by code_simp

lemma ex_working_rows:
  "q_tasks ex_working = [grab_task (ex_claim_by 7 20) (ex_task 1 1), ex_task 2 2]"
  by code_simp

section \<open>Memory objects\<close>

text \<open>A decision supported by the first item, indexed for search, and a later one with the same key.\<close>

definition ex_decision :: "nat \<Rightarrow> memory_input" where
  "ex_decision n = \<lparr>mi_id = [n], mi_type = u ''decision'', mi_schema_id = [], mi_schema_version = [],
     mi_payload = [(u ''canonical_key'', JText [107]), (u ''rationale'', JText [n])], mi_envelope = None,
     mi_lifecycle = u ''active'', mi_visibility = Some (u ''private''), mi_container_ref = Some [99],
     mi_actor_ref = None, mi_freshness_at = None, mi_created_at = int n\<rparr>"

definition ex_support :: "nat \<Rightarrow> nat \<Rightarrow> relation" where
  "ex_support m i = \<lparr>rl_id = [5, m, i], rl_from_kind = u ''memory_object'', rl_from_id = [m],
     rl_type = u ''supported_by'', rl_to_kind = u ''source_item'', rl_to_id = [i]\<rparr>"

definition ex_entry :: "nat \<Rightarrow> index_entry" where
  "ex_entry m = \<lparr>ix_id = [6, m], ix_target_kind = u ''memory_object'', ix_target_id = [m], ix_index_type = u ''lexical'',
     ix_text_view = [m], ix_text_view_name = None, ix_provider_name = None, ix_provider_version = None\<rparr>"

definition ex_hint :: "nat \<Rightarrow> supersession_hint" where
  "ex_hint n = \<lparr>sh_replacement_id = [n], sh_memory_type = u ''decision'', sh_canonical_key = [107],
     sh_container_ref = Some [99], sh_thread_ref = None, sh_visibility = u ''private''\<rparr>"

definition ex_result :: "nat \<Rightarrow> nat \<Rightarrow> process_result" where
  "ex_result m i = \<lparr>pr_memories = [ex_decision m], pr_relations = [ex_support m i], pr_index = [ex_entry m],
     pr_metadata_updates = [], pr_thread_rebuild_requested = False, pr_supersession_hints = [ex_hint m],
     pr_promotion_hints = []\<rparr>"

definition ex_decided :: queue_db where
  "ex_decided = queue_exec ex_memory_env (QCommitResult (ex_result 10 1) None) ex_intake"

definition ex_both :: queue_db where
  "ex_both = queue_exec ex_memory_env
     (QCommitResult ((ex_result 11 2)\<lparr>pr_supersession_hints := []\<rparr>) None) ex_decided"

text \<open>Facts about one command, first seen in one thread, then in another.\<close>

definition ex_recurring :: "nat \<Rightarrow> memory_input" where
  "ex_recurring n = (ex_decision n)\<lparr>mi_type := u ''operational_fact'', mi_lifecycle := u ''candidate'',
     mi_payload := [(u ''command_family'', JText [1]), (u ''artifact_role'', JText [2]), (u ''scope_kind'', JText [3]),
       (u ''scope_ref'', JText [4]), (u ''artifact_normalized'', JText [5])]\<rparr>"

definition ex_slot :: promotion_hint where
  "ex_slot = \<lparr>ph_candidate_id = [20], ph_command_family = [1], ph_artifact_role = [2], ph_scope_kind = [3],
     ph_scope_ref = [4], ph_artifact_normalized = [5], ph_container_ref = [99], ph_visibility = u ''private''\<rparr>"

definition ex_facts :: "queue_db" where
  "ex_facts = empty_queue\<lparr>q_items := [ex_row 1 1, (ex_row 2 2)\<lparr>i_thread_ref := Some [117]\<rparr>],
     q_memories := [memory_row ex_memory_env (ex_recurring 20), memory_row ex_memory_env (ex_recurring 21)],
     q_relations := [ex_support 20 1, ex_support 21 2]\<rparr>"

end
