(* ===== verification/Queue_Guarantees.thy ===== *)
theory Queue_Guarantees
  imports Queue_Example
begin

text \<open>
  What the processing queue promises: its tables stay consistent and only grow, tasks are handed out
  oldest first and to one worker at a time, a lost claim is lost for good, an item follows its tasks,
  and a rebuild request made during a rebuild is not forgotten. One behaviour falls short of this: an
  item of the older queue whose last attempt ran out stays in processing.
\<close>

section \<open>The tables\<close>

text \<open>C11: whatever sequence of queue transactions runs on an empty database, its tables keep their keys,
  every claim its shape and the full text rows mirror the lexical index entries; and whatever runs
  after that only moves forward: items, memory objects, leases, tasks and promotions keep their names
  and order and are never removed, and a superseded memory object stays superseded.\<close>

theorem queue_store_evolves:
  "queue_inv (fold (queue_exec E) ops empty_queue)
   \<and> queue_grows (fold (queue_exec E) ops empty_queue) (fold (queue_exec E) (ops @ later) empty_queue)"
  using reachable_queue_inv queue.run_below by simp

section \<open>Claims\<close>



lemma claimed_row:
  assumes "claim_next_task q db = (Inr (Some (i, p, n)), db')" "queue_inv db"
  shows "\<exists>k\<in>set (q_tasks db'). task_held (i_id i, p, wc_worker_id q, n) (claim_end q) k"
proof -
  let ?d = "finalize_exhausted (wc_claimed_at q) (wc_max_attempts q) db"
  obtain k ks where k: "ready_tasks q db = k # ks"
    using claim_next_task_result [of q db] assms(1) by (cases "ready_tasks q db") simp_all
  then have "map_option (\<lambda>i. (item_view i, k_package k, k_attempts k + 1)) (get_source ?d (k_item_id k)) = Some (i, p, n)"
    using claim_next_task_result [of q db] assms(1) by simp
  then obtain x where x: "get_source ?d (k_item_id k) = Some x" "i = item_view x" "p = k_package k" "n = k_attempts k + 1"
    by auto
  have "first_by task_rank (task_ready q) (q_tasks ?d) = Some k" using k by (simp add: first_ready)
  then have "grab_task q k \<in> set (q_tasks db')"
    using claim_next_task_tasks [of q db] assms(1) k first_by_SomeD(1) by (fastforce simp: Let_def set_row_upd)
  moreover have "i_id i = k_item_id k" using x(1,2) row_get_SomeD(2) by (fastforce simp: item_view_def)
  ultimately show ?thesis
    using x(3,4) by (intro bexI [of _ "grab_task q k"]) (auto simp: task_held_def holds_task_def grab_task_def)
qed

lemma held_current:
  assumes "queue_inv db" "k \<in> set (q_tasks db)" "task_held (i, p, w, n) end_at k"
  shows "task_claim_is_current db i p w n"
  using assms(2,3) find_task_Some_iff [OF assms(1), of i p k]
  by (simp add: task_claim_is_current_def task_held_def)

text \<open>C12: a claim excludes every other: until its lease ends the claim of a task stays current, whatever
  is claimed, committed, failed, created or switched off in between, as long as that is not the task's
  own ending under the same claim.\<close>

theorem task_claim_excludes_others:
  assumes "queue_inv db" and "claim_next_task q db = (Inr (Some (i, p, n)), db')"
    and "list_all (spares (i_id i, p, wc_worker_id q, n) (claim_end q)) ops"
  shows "task_claim_is_current (fold (queue_exec E) ops db') (i_id i) p (wc_worker_id q) n"
proof -
  have inv: "queue_inv db'" using qstep_claim_next_task [of db q] assms(1,2) by (simp add: qstep_def)
  obtain k where "k \<in> set (q_tasks db')" "task_held (i_id i, p, wc_worker_id q, n) (claim_end q) k"
    using claimed_row [OF assms(2,1)] by blast
  with held_run [OF inv _ _ assms(3), of k] show ?thesis
    by (intro held_current [OF queue.run_inv [OF inv]]) blast+
qed

theorem task_claim_excludes_others_witness:
  "task_claim_is_current (fold (queue_exec ex_memory_env) [QClaimTask (ex_claim_by 8 30), QClaimTask (ex_claim_by 9 40)] ex_working)
     [1] [97] [7] 1"
proof -
  have "claim_next_task (ex_claim_by 7 20) ex_intake = (Inr (Some (item_view (ex_row 1 1), [97], 1)), ex_working)"
    using ex_claimed by (simp add: ex_working_def prod_eq_iff)
  from task_claim_excludes_others [OF ex_queue_inv(1) this,
      of "[QClaimTask (ex_claim_by 8 30), QClaimTask (ex_claim_by 9 40)]" ex_memory_env]
  show ?thesis
    by (simp add: item_view_def ex_row_def ex_item_def ex_claim_by_def claim_end_def lease_end_def seconds_def)
qed

text \<open>C14: a lost claim stays lost: once a worker's claim of an attempt that was given out is not current,
  no result is ever committed under it, whatever runs later, unless failed items are retried by hand,
  which starts the attempts over.\<close>

theorem lost_claim_stays_lost:
  assumes "queue_inv db" and "task_token_issued db (i, p, w, n)" and "\<not> task_claim_is_current db i p w n"
    and "list_all (\<lambda>op. \<not> is_retry op) ops"
  shows "commit_package_result E i r (Some p) a b t (Some (w, Some n)) (fold (queue_exec E) ops db)
    = (Inr None, fold (queue_exec E) ops db)"
proof -
  have "\<not> task_token_current (fold (queue_exec E) ops db) (i, p, w, n)"
    by (rule task_tokens.spent_run [OF assms(1,4,2)]) (simp add: assms(3))
  then show ?thesis by (simp add: stale_commit_refused)
qed

theorem lost_claim_stays_lost_witness:
  "commit_package_result ex_memory_env [1] \<lparr>pr_memories = [], pr_relations = [], pr_index = [], pr_metadata_updates = [],
     pr_thread_rebuild_requested = False, pr_supersession_hints = [], pr_promotion_hints = []\<rparr>
     (Some [97]) None None 0 (Some ([7], Some 1)) (fold (queue_exec ex_memory_env) [QCompleteTask [2] [97] 5] ex_reclaimed)
   = (Inr None, fold (queue_exec ex_memory_env) [QCompleteTask [2] [97] 5] ex_reclaimed)"
proof -
  have "queue_inv ex_reclaimed" unfolding ex_reclaimed_def by (rule queue.exec_inv [OF ex_queue_inv(2)])
  moreover have "task_token_issued ex_reclaimed ([1], [97], [7], 1)" by code_simp
  moreover have "\<not> task_claim_is_current ex_reclaimed [1] [97] [7] 1" by code_simp
  ultimately show ?thesis by (rule lost_claim_stays_lost) simp
qed

section \<open>Items\<close>

lemma tasks_of_upd:
  assumes "\<And>k. k_item_id (f k) = k_item_id k"
  shows "tasks_of (upd_task j f db) i = map (\<lambda>k. if k_id k = j then f k else k) (tasks_of db i)"
proof -
  have "filter (\<lambda>k. k_item_id k = i) (map (\<lambda>k. if k_id k = j then f k else k) ks)
      = map (\<lambda>k. if k_id k = j then f k else k) (filter (\<lambda>k. k_item_id k = i) ks)" for ks
    using assms by (induction ks) auto
  then show ?thesis by (simp add: tasks_of_def upd_task_def row_upd_def)
qed

text \<open>An item follows its tasks: completing a task touches the item only if every other task of it
  is over, and then the item has failed if one of them has and is completed otherwise, with the
  attempts of all of them and no claim.\<close>

theorem item_settles_with_last_task:
  assumes "queue_inv db" and "find_task db i p = Some k" and "get_source db i = Some r"
  shows "\<exists>db' r'. complete_package_task i p t db = (Inr (), db') \<and> get_source db' i = Some r'
    \<and> (if list_all (\<lambda>x. k_package x = p \<or> terminal (k_status x)) (tasks_of db i)
       then i_status r' = (if list_ex (\<lambda>x. k_package x \<noteq> p \<and> k_status x = StFailed) (tasks_of db i) then StFailed else StCompleted)
         \<and> i_attempts r' = sum_list (map k_attempts (tasks_of db i)) \<and> i_claimed_by r' = None
       else r' = r)"
proof -
  let ?close = "close_task StCompleted None (Some t) None"
  let ?db1 = "upd_task (k_id k) ?close db"
  have k: "k \<in> set (q_tasks db)" "k_item_id k = i" "k_package k = p"
    using assms(2) find_task_Some_iff [OF assms(1)] by blast+
  have id: "k_id x = k_id k \<longleftrightarrow> k_package x = p" if "x \<in> set (tasks_of db i)" for x
    using that k assms(1) by (auto simp: tasks_of_def queue_inv_def distinct_map inj_on_def)
  have ks: "tasks_of ?db1 i = map (\<lambda>x. if k_id x = k_id k then ?close x else x) (tasks_of db i)"
    by (rule tasks_of_upd) (simp add: close_task_def)
  have "k \<in> set (tasks_of db i)" using k by (simp add: tasks_of_def)
  then have ne: "tasks_of ?db1 i \<noteq> []" using ks by auto
  have all: "list_all (\<lambda>x. terminal (k_status x)) (tasks_of ?db1 i)
      \<longleftrightarrow> list_all (\<lambda>x. k_package x = p \<or> terminal (k_status x)) (tasks_of db i)"
    using id by (auto simp: ks list_all_iff close_task_def terminal_def)
  have failed: "list_ex (\<lambda>x. k_status x = StFailed) (tasks_of ?db1 i)
      \<longleftrightarrow> list_ex (\<lambda>x. k_package x \<noteq> p \<and> k_status x = StFailed) (tasks_of db i)"
    using id by (auto simp: ks list_ex_iff close_task_def)
  have sum: "map k_attempts (tasks_of ?db1 i) = map k_attempts (tasks_of db i)" by (simp add: ks close_task_def)
  have "get_source ?db1 i = Some r" using assms(3) by (simp add: upd_task_def)
  from sync_item_effect [OF this ne, of t] show ?thesis
    using assms(2) k(2) all failed sum
    by (auto simp: complete_package_task_def finish_task_def finish_item_fields settled_status_def)
qed

text \<open>The older queue of items has no end for a claim that ran out at the attempt limit: such an item
  stays in processing whatever the workers claim later under that limit, since the claim asks for an
  attempt less and only the tasks of packages are failed when their last lease expires.\<close>

theorem exhausted_item_is_stranded:
  assumes "queue_inv db" and "get_source db k = Some i" and "i_status i = StProcessing" and "limit \<le> i_attempts i"
    and "tasks_of db k = []" and "list_all (\<lambda>op. worker_claim op \<and> claim_limit op \<le> limit) ops"
  shows "get_source (fold (queue_exec E) ops db) k = Some i"
proof -
  have "i_id i = k" using assms(2) by (rule row_get_SomeD(2))
  then have "stranded db limit i" using assms(2,3,4,5) by (simp add: stranded_def)
  from stranded_run [OF assms(1) this assms(6)] show ?thesis using \<open>i_id i = k\<close> by (simp add: stranded_def)
qed

section \<open>Rebuilds\<close>

text \<open>Completing the claim of a rebuild keeps what was asked for after it: with the scope requested
  at some more instants during the claim, completing says that work is left, and the scope can be
  claimed at once, exactly if one of the requests is stamped later than the claim. A request stamped
  no later than the claim is dropped, even when it reaches the table only after it.\<close>

theorem rebuild_request_survives:
  assumes "claim_scope (ts_scope_key s) q db = (Inr (Some v), db1)"
  shows "\<exists>r. lv_requested_at v = Some r \<and>
    fst (complete_scope (ts_scope_key s) (sc_worker_id q) (sc_claimed_at q) t (request_all s ts db1)) =
      Inr (Some (\<exists>x\<in>set (r # ts). sc_claimed_at q < x))
    \<and> (fst (claim_scope (ts_scope_key s) q' (snd (complete_scope (ts_scope_key s) (sc_worker_id q) (sc_claimed_at q) t
          (request_all s ts db1)))) \<noteq> Inr None \<longleftrightarrow> (\<exists>x\<in>set (r # ts). sc_claimed_at q < x))"
  by (rule completion_keeps_later_requests [OF assms])

section \<open>Reading\<close>

text \<open>The neighbours of an item are slices of its thread: with the items of the thread in the order
  of their creation, they are the last ones before it and the first ones after it.\<close>

theorem thread_neighbors_are_slices:
  assumes "queue_inv db" and "by_creation (filter (in_thread c t) (q_items db)) = pre @ a # post"
  shows "thread_neighbors db c t (i_created_at a) (i_id a) before after =
    (map item_view (drop (length pre - nat before) pre), map item_view (take (nat after) post))"
  by (rule neighbors_are_slices [OF assms])

end
