(* ===== verification/Memory_Envelope.thy ===== *)
theory Memory_Envelope
  imports Queue_Schema
begin

text \<open>
  The envelope of a memory object (\<open>core/models.py\<close>) and its way through the JSON column
  (\<open>storage/sqlite_codec.py\<close>): \<open>_dump_memory_envelope\<close>, \<open>_load_memory_envelope\<close> with its checks, and
  which envelopes come back as they were. As everywhere a JSON column holds the parsed value.
\<close>

section \<open>Envelopes\<close>

record subject_anchor =
  sa_kind :: pystr
  sa_value :: pystr

record envelope_scope =
  es_container_ref :: "pystr option"
  es_thread_ref :: "pystr option"
  es_work_refs :: "pystr list"
  es_workstream_id :: "pystr option"

record envelope_derivation =
  ed_producer_kind :: pystr
  ed_producer_schema_id :: pystr
  ed_producer_schema_version :: pystr
  ed_prompt_variant :: "pystr option"
  ed_model_role :: "pystr option"
  ed_kind_basis :: "pystr option"

record envelope =
  en_schema_id :: pystr
  en_schema_version :: pystr
  en_kind :: pystr
  en_scope :: envelope_scope
  en_derivation :: envelope_derivation
  en_subjects :: "subject_anchor list"
  en_confidence :: pystr
  en_source_content_length :: int

definition envelope_schema_id :: pystr where
  "envelope_schema_id = u ''core.memory_envelope''"

definition envelope_schema_version :: pystr where
  "envelope_schema_version = u ''v1''"

definition envelope_kinds :: "pystr set" where
  "envelope_kinds = {u ''constraint'', u ''finding'', u ''episode'', u ''next_step'', u ''summary'', u ''unknown''}"

definition envelope_confidences :: "pystr set" where
  "envelope_confidences = {u ''high'', u ''medium'', u ''low'', u ''unknown''}"

definition producer_kinds :: "pystr set" where
  "producer_kinds = {u ''item_extraction'', u ''thread_aggregation'', u ''consolidation''}"

definition anchor_kinds :: "pystr set" where
  "anchor_kinds = {u ''workstream'', u ''component'', u ''surface''}"

section \<open>Writing\<close>

definition json_optional :: "pystr option \<Rightarrow> json" where
  "json_optional v = (case v of None \<Rightarrow> JNull | Some t \<Rightarrow> JText t)"

definition dump_subject :: "subject_anchor \<Rightarrow> json" where
  "dump_subject s = JObject [(u ''kind'', JText (sa_kind s)), (u ''value'', JText (sa_value s))]"

definition dump_scope :: "envelope_scope \<Rightarrow> json" where
  "dump_scope s = JObject
     [(u ''container_ref'', json_optional (es_container_ref s)),
      (u ''thread_ref'', json_optional (es_thread_ref s)),
      (u ''work_refs'', JList (map JText (es_work_refs s))),
      (u ''workstream_id'', json_optional (es_workstream_id s))]"

definition dump_derivation :: "envelope_derivation \<Rightarrow> json" where
  "dump_derivation d = JObject
     [(u ''producer_kind'', JText (ed_producer_kind d)),
      (u ''producer_schema_id'', JText (ed_producer_schema_id d)),
      (u ''producer_schema_version'', JText (ed_producer_schema_version d)),
      (u ''prompt_variant'', json_optional (ed_prompt_variant d)),
      (u ''model_role'', json_optional (ed_model_role d)),
      (u ''kind_basis'', json_optional (ed_kind_basis d))]"

text \<open>\<open>asdict\<close> keeps the order of the fields; a tuple becomes a list.\<close>

definition dump_envelope :: "envelope \<Rightarrow> json_object" where
  "dump_envelope e =
     [(u ''schema_id'', JText (en_schema_id e)), (u ''schema_version'', JText (en_schema_version e)),
      (u ''kind'', JText (en_kind e)), (u ''scope'', dump_scope (en_scope e)),
      (u ''derivation'', dump_derivation (en_derivation e)),
      (u ''subjects'', JList (map dump_subject (en_subjects e))),
      (u ''confidence'', JText (en_confidence e)),
      (u ''source_content_length'', JInt (en_source_content_length e))]"

section \<open>Reading\<close>

definition load_enum :: "pystr set \<Rightarrow> json option \<Rightarrow> pystr option" where
  "load_enum allowed v =
     (case v of
        Some (JText t) \<Rightarrow> if strip t = [] \<or> strip t \<notin> allowed then None else Some (strip t)
      | _ \<Rightarrow> None)"

definition load_required :: "json option \<Rightarrow> pystr option" where
  "load_required v =
     (case v of Some (JText t) \<Rightarrow> if strip t = [] then None else Some (strip t) | _ \<Rightarrow> None)"

text \<open>The value and whether it is valid.\<close>

definition load_optional :: "json_object \<Rightarrow> pystr \<Rightarrow> pystr option \<times> bool" where
  "load_optional payload k =
     (case obj_get k payload of
        None \<Rightarrow> (None, True)
      | Some JNull \<Rightarrow> (None, True)
      | Some (JText t) \<Rightarrow> (if strip t = [] then None else Some (strip t), True)
      | Some _ \<Rightarrow> (None, False))"

definition load_work_refs :: "json option \<Rightarrow> pystr list" where
  "load_work_refs v =
     (case v of
        Some (JList xs) \<Rightarrow>
          List.map_filter (\<lambda>x. case x of JText t \<Rightarrow> if strip t = [] then None else Some t | _ \<Rightarrow> None) xs
      | _ \<Rightarrow> [])"

definition load_workstream :: "json option \<Rightarrow> pystr option" where
  "load_workstream v = (case v of Some (JText t) \<Rightarrow> if strip t = [] then None else Some t | _ \<Rightarrow> None)"

definition load_subject :: "json \<Rightarrow> subject_anchor option" where
  "load_subject v =
     (case v of
        JObject d \<Rightarrow>
          (case (load_enum anchor_kinds (obj_get (u ''kind'') d), load_required (obj_get (u ''value'') d)) of
             (Some k, Some x) \<Rightarrow> Some \<lparr>sa_kind = k, sa_value = x\<rparr>
           | _ \<Rightarrow> None)
      | _ \<Rightarrow> None)"

fun load_subjects :: "json list \<Rightarrow> subject_anchor list option" where
  "load_subjects [] = Some []"
| "load_subjects (x # xs) =
     (case load_subject x of
        None \<Rightarrow> None
      | Some s \<Rightarrow> map_option (\<lambda>ss. s # ss) (load_subjects xs))"

definition load_length :: "json option \<Rightarrow> int" where
  "load_length v = (case v of Some (JInt n) \<Rightarrow> if n < 0 then 0 else n | _ \<Rightarrow> 0)"

definition load_parts ::
  "json_object \<Rightarrow> json_object \<Rightarrow> json_object \<Rightarrow> json list \<Rightarrow> envelope option" where
  "load_parts payload scope derivation subjects =
     (case (load_enum envelope_kinds (obj_get (u ''kind'') payload),
            load_enum envelope_confidences (obj_get (u ''confidence'') payload),
            load_enum producer_kinds (obj_get (u ''producer_kind'') derivation)) of
        (Some kind, Some confidence, Some producer) \<Rightarrow>
          (case (load_required (obj_get (u ''producer_schema_id'') derivation),
                 load_required (obj_get (u ''producer_schema_version'') derivation),
                 load_subjects subjects) of
             (Some schema, Some version, Some anchors) \<Rightarrow>
               let (container, container_ok) = load_optional scope (u ''container_ref'');
                   (thread, thread_ok) = load_optional scope (u ''thread_ref'');
                   (variant, variant_ok) = load_optional derivation (u ''prompt_variant'');
                   (role, role_ok) = load_optional derivation (u ''model_role'');
                   (basis, basis_ok) = load_optional derivation (u ''kind_basis'')
               in if \<not> (container_ok \<and> thread_ok \<and> variant_ok \<and> role_ok \<and> basis_ok) then None
                  else Some
                    \<lparr>en_schema_id = envelope_schema_id, en_schema_version = envelope_schema_version,
                     en_kind = kind,
                     en_scope = \<lparr>es_container_ref = container, es_thread_ref = thread,
                       es_work_refs = load_work_refs (obj_get (u ''work_refs'') scope),
                       es_workstream_id = load_workstream (obj_get (u ''workstream_id'') scope)\<rparr>,
                     en_derivation = \<lparr>ed_producer_kind = producer, ed_producer_schema_id = schema,
                       ed_producer_schema_version = version, ed_prompt_variant = variant,
                       ed_model_role = role, ed_kind_basis = basis\<rparr>,
                     en_subjects = anchors, en_confidence = confidence,
                     en_source_content_length = load_length (obj_get (u ''source_content_length'') payload)\<rparr>
           | _ \<Rightarrow> None)
      | _ \<Rightarrow> None)"

definition load_envelope :: "json option \<Rightarrow> envelope option" where
  "load_envelope v =
     (case v of
        Some (JObject payload) \<Rightarrow>
          if obj_get (u ''schema_id'') payload \<noteq> Some (JText envelope_schema_id)
             \<or> obj_get (u ''schema_version'') payload \<noteq> Some (JText envelope_schema_version) then None
          else
            (case (obj_get (u ''scope'') payload, obj_get (u ''derivation'') payload,
                   obj_get (u ''subjects'') payload) of
               (Some (JObject scope), Some (JObject derivation), Some (JList subjects)) \<Rightarrow>
                 load_parts payload scope derivation subjects
             | _ \<Rightarrow> None)
      | _ \<Rightarrow> None)"

section \<open>Which envelopes come back\<close>

definition full_text :: "pystr \<Rightarrow> bool" where
  "full_text t \<longleftrightarrow> t \<noteq> [] \<and> strip t = t"

definition full_optional :: "pystr option \<Rightarrow> bool" where
  "full_optional v = (case v of None \<Rightarrow> True | Some t \<Rightarrow> full_text t)"

definition scope_ok :: "envelope_scope \<Rightarrow> bool" where
  "scope_ok s \<longleftrightarrow> full_optional (es_container_ref s) \<and> full_optional (es_thread_ref s)
     \<and> list_all (\<lambda>t. strip t \<noteq> []) (es_work_refs s)
     \<and> (case es_workstream_id s of None \<Rightarrow> True | Some t \<Rightarrow> strip t \<noteq> [])"

definition derivation_ok :: "envelope_derivation \<Rightarrow> bool" where
  "derivation_ok d \<longleftrightarrow> ed_producer_kind d \<in> producer_kinds \<and> full_text (ed_producer_schema_id d)
     \<and> full_text (ed_producer_schema_version d) \<and> full_optional (ed_prompt_variant d)
     \<and> full_optional (ed_model_role d) \<and> full_optional (ed_kind_basis d)"

definition anchor_ok :: "subject_anchor \<Rightarrow> bool" where
  "anchor_ok s \<longleftrightarrow> sa_kind s \<in> anchor_kinds \<and> full_text (sa_value s)"

definition envelope_ok :: "envelope \<Rightarrow> bool" where
  "envelope_ok e \<longleftrightarrow> en_schema_id e = envelope_schema_id \<and> en_schema_version e = envelope_schema_version
     \<and> en_kind e \<in> envelope_kinds \<and> scope_ok (en_scope e) \<and> derivation_ok (en_derivation e)
     \<and> list_all anchor_ok (en_subjects e) \<and> en_confidence e \<in> envelope_confidences
     \<and> 0 \<le> en_source_content_length e"

text \<open>Stripping twice is stripping once.\<close>

lemma strip_strip [simp]: "strip (strip s) = strip s"
proof (cases "strip s = []")
  case True
  have "strip [] = []" by (simp add: strip_def)
  then show ?thesis unfolding True .
next
  case False
  let ?l = "dropWhile py_isspace s"
  let ?r = "dropWhile py_isspace (rev ?l)"
  have strip: "strip s = rev ?r" by (simp add: strip_def)
  with False have r: "?r \<noteq> []" by auto
  then have end_r: "\<not> py_isspace (hd ?r)" by (rule hd_dropWhile)
  obtain p where p: "rev ?l = p @ ?r" by (metis takeWhile_dropWhile_id)
  then have "?l = rev ?r @ rev p" by (metis rev_append rev_rev_ident)
  moreover have "?l \<noteq> []" using r by (metis dropWhile.simps(1) rev.simps(1))
  ultimately have "\<not> py_isspace (hd (rev ?r))"
    using r hd_dropWhile [of py_isspace s] by (metis hd_append2 rev_is_Nil_conv)
  then have "dropWhile py_isspace (rev ?r) = rev ?r" using r by (cases "rev ?r") auto
  moreover have "dropWhile py_isspace (rev (rev ?r)) = rev (rev ?r)" using end_r r by (cases ?r) auto
  ultimately show ?thesis unfolding strip by (simp add: strip_def [of "rev ?r"])
qed

lemma strip_u_words [simp]:
  "t \<in> envelope_kinds \<Longrightarrow> strip t = t \<and> t \<noteq> []" "t \<in> envelope_confidences \<Longrightarrow> strip t = t \<and> t \<noteq> []"
  "t \<in> producer_kinds \<Longrightarrow> strip t = t \<and> t \<noteq> []" "t \<in> anchor_kinds \<Longrightarrow> strip t = t \<and> t \<noteq> []"
  by (auto simp: envelope_kinds_def envelope_confidences_def producer_kinds_def anchor_kinds_def
      u_def strip_def py_isspace_def)

lemma load_enum_SomeD: "load_enum allowed v = Some t \<Longrightarrow> t \<in> allowed"
  by (auto simp: load_enum_def split: option.splits json.splits if_splits)

lemma load_required_SomeD: "load_required v = Some t \<Longrightarrow> full_text t"
  by (auto simp: load_required_def full_text_def split: option.splits json.splits if_splits)

lemma load_optional_full: "load_optional d k = (t, ok) \<Longrightarrow> full_optional t"
  by (auto simp: load_optional_def full_optional_def full_text_def split: option.splits json.splits if_splits)

lemma load_subjects_ok: "load_subjects xs = Some ss \<Longrightarrow> list_all anchor_ok ss"
proof (induction xs arbitrary: ss)
  case (Cons x xs)
  then obtain s ts where "load_subject x = Some s" "load_subjects xs = Some ts" "ss = s # ts"
    by (auto split: option.splits)
  moreover from this(1) have "anchor_ok s"
    by (auto simp: load_subject_def anchor_ok_def split: json.splits option.splits
        dest: load_enum_SomeD load_required_SomeD)
  ultimately show ?case using Cons.IH by simp
qed simp

lemma load_work_refs_full [simp]: "list_all (\<lambda>t. strip t \<noteq> []) (load_work_refs v)"
  by (auto simp: load_work_refs_def list_all_iff List.map_filter_def split: option.splits json.splits if_splits)

lemma load_workstream_SomeD: "load_workstream v = Some t \<Longrightarrow> strip t \<noteq> []"
  by (auto simp: load_workstream_def split: option.splits json.splits if_splits)

lemma load_length_nonneg [simp]: "0 \<le> load_length v"
  by (auto simp: load_length_def split: option.splits json.splits)

lemma load_parts_ok: "load_parts payload scope derivation subjects = Some e \<Longrightarrow> envelope_ok e"
  by (auto simp: load_parts_def envelope_ok_def scope_ok_def derivation_ok_def Let_def
      split: option.splits prod.splits if_splits
      dest!: load_enum_SomeD load_required_SomeD load_optional_full load_subjects_ok load_workstream_SomeD)

lemma load_envelope_ok: "load_envelope v = Some e \<Longrightarrow> envelope_ok e"
  by (auto simp: load_envelope_def split: option.splits json.splits if_splits dest: load_parts_ok)

text \<open>Reading what was written.\<close>

lemma obj_get_Cons: "obj_get k ((a, v) # d) = (if a = k then Some v else obj_get k d)"
  by (simp add: obj_get_def)

lemma load_enum_text: "t \<in> allowed \<Longrightarrow> strip t = t \<Longrightarrow> t \<noteq> [] \<Longrightarrow> load_enum allowed (Some (JText t)) = Some t"
  by (simp add: load_enum_def)

lemma load_required_text: "full_text t \<Longrightarrow> load_required (Some (JText t)) = Some t"
  by (simp add: load_required_def full_text_def)

lemma load_optional_text:
  "obj_get k d = Some (json_optional t) \<Longrightarrow> full_optional t \<Longrightarrow> load_optional d k = (t, True)"
  by (auto simp: load_optional_def json_optional_def full_optional_def full_text_def split: option.splits)

lemma load_work_refs_texts:
  "list_all (\<lambda>t. strip t \<noteq> []) ts \<Longrightarrow> load_work_refs (Some (JList (map JText ts))) = ts"
  by (induction ts) (auto simp: load_work_refs_def List.map_filter_def)

lemma load_workstream_text:
  "(case t of None \<Rightarrow> True | Some x \<Rightarrow> strip x \<noteq> []) \<Longrightarrow> load_workstream (Some (json_optional t)) = t"
  by (auto simp: load_workstream_def json_optional_def split: option.splits)

lemma load_subject_dump: "anchor_ok s \<Longrightarrow> load_subject (dump_subject s) = Some s"
  by (simp add: load_subject_def dump_subject_def obj_get_Cons anchor_ok_def load_enum_text load_required_text)

lemma load_subjects_dump: "list_all anchor_ok ss \<Longrightarrow> load_subjects (map dump_subject ss) = Some ss"
  by (induction ss) (simp_all add: load_subject_dump)

lemma load_dump: "envelope_ok e \<Longrightarrow> load_envelope (Some (JObject (dump_envelope e))) = Some e"
  by (simp add: load_envelope_def dump_envelope_def dump_scope_def dump_derivation_def load_parts_def obj_get_Cons
      envelope_ok_def scope_ok_def derivation_ok_def load_enum_text load_required_text load_subjects_dump
      load_optional_text load_work_refs_texts load_workstream_text Let_def load_length_def)

end
