(* ===== verification/Memory_Visibility.thy ===== *)
theory Memory_Visibility
  imports Memory_Envelope Queue_Intake
begin

text \<open>
  Who may read what: the views of rows that readers get (\<open>storage/sqlite_codec.py\<close>), the rule of
  visibility (\<open>core/visibility.py\<close>), and the filters of a query (\<open>core/filters.py\<close>).
\<close>

section \<open>Views\<close>

definition text_or :: "pystr \<Rightarrow> pystr option \<Rightarrow> pystr" where
  "text_or d v = (case v of None \<Rightarrow> d | Some t \<Rightarrow> if t = [] then d else t)"

record memory_view =
  mv_id :: pystr
  mv_type :: pystr
  mv_schema_id :: pystr
  mv_schema_version :: pystr
  mv_payload :: json_object
  mv_lifecycle :: pystr
  mv_envelope :: "envelope option"
  mv_visibility :: pystr
  mv_container_ref :: "pystr option"
  mv_actor_ref :: "pystr option"
  mv_freshness_at :: "time option"
  mv_created_at :: time
  mv_is_soft_deleted :: bool
  mv_origin :: "pystr option"

definition view_memory :: "memory_object \<Rightarrow> memory_view" where
  "view_memory m =
     \<lparr>mv_id = mo_id m, mv_type = mo_type m, mv_schema_id = mo_schema_id m,
      mv_schema_version = mo_schema_version m, mv_payload = mo_payload m,
      mv_lifecycle = (if mo_lifecycle m = [] then u ''active'' else mo_lifecycle m),
      mv_envelope = load_envelope (map_option JObject (mo_envelope m)),
      mv_visibility = text_or (u ''private'') (mo_visibility m),
      mv_container_ref = mo_container_ref m, mv_actor_ref = mo_actor_ref m,
      mv_freshness_at = mo_freshness_at m, mv_created_at = mo_created_at m,
      mv_is_soft_deleted = (mo_is_soft_deleted m \<noteq> 0), mv_origin = mo_origin m\<rparr>"

definition get_memory_object :: "queue_db \<Rightarrow> pystr \<Rightarrow> memory_view queue_result" where
  "get_memory_object db k =
     (case get_memory db k of None \<Rightarrow> Inl (MissingRow k) | Some m \<Rightarrow> Inr (view_memory m))"

record evidence_ref =
  ev_source_item_id :: pystr
  ev_source_type :: pystr
  ev_source_id :: pystr
  ev_occurred_at :: "time option"
  ev_actor_ref :: "pystr option"
  ev_agent_ref :: "pystr option"
  ev_role :: "pystr option"
  ev_container_ref :: "pystr option"
  ev_thread_ref :: "pystr option"
  ev_source_ref :: "pystr option"
  ev_artifact_kind :: "pystr option"
  ev_visibility :: pystr

definition to_evidence :: "source_item \<Rightarrow> evidence_ref" where
  "to_evidence i =
     \<lparr>ev_source_item_id = i_id i, ev_source_type = i_source_type i, ev_source_id = i_source_id i,
      ev_occurred_at = i_occurred_at i, ev_actor_ref = i_actor_ref i, ev_agent_ref = i_agent_ref i,
      ev_role = i_role i, ev_container_ref = i_container_ref i, ev_thread_ref = i_thread_ref i,
      ev_source_ref = i_source_ref i, ev_artifact_kind = i_artifact_kind i,
      ev_visibility = text_or (u ''private'') (i_visibility i)\<rparr>"

definition evidence_for :: "queue_db \<Rightarrow> pystr \<Rightarrow> evidence_ref list" where
  "evidence_for db k =
     (let ids = map rl_to_id (filter (\<lambda>r. supports k r \<and> rl_to_kind r = u ''source_item'') (q_relations db))
      in map to_evidence (filter (\<lambda>i. i_id i \<in> set ids) (q_items db)))"

section \<open>Visibility\<close>

text \<open>\<open>is_visible\<close>, in the order of its tests. The candidate comes first: its visibility, container and
  actor; then the query's container, visibility and actor.\<close>

definition is_visible ::
  "pystr option \<Rightarrow> pystr option \<Rightarrow> pystr option \<Rightarrow> pystr option \<Rightarrow> pystr option \<Rightarrow> pystr option \<Rightarrow> bool" where
  "is_visible visibility container actor q_container q_visibility q_actor =
     (if visibility = Some (u ''global'') then actor \<noteq> None \<and> q_actor \<noteq> None \<and> actor = q_actor
      else if q_container = None then True
      else if q_visibility = Some (u ''public'') then visibility = Some (u ''public'') \<and> actor = None
      else if q_visibility = Some (u ''container'') then
        (visibility = Some (u ''public'') \<and> actor = None)
        \<or> (container = q_container \<and> visibility \<noteq> Some (u ''private''))
      else if container \<noteq> None \<and> container = q_container then True
      else visibility = Some (u ''public'') \<and> actor = None)"

section \<open>Filters\<close>

record query_filters =
  qf_source_type :: "pystr option"
  qf_role :: "pystr option"
  qf_artifact_kind :: "pystr option"
  qf_container_ref :: "pystr option"
  qf_thread_ref :: "pystr option"
  qf_actor_ref :: "pystr option"
  qf_work_refs :: "pystr list"
  qf_relay_name :: "pystr option"

text \<open>\<open>wanted is not None and field != wanted\<close>, negated.\<close>

definition wants :: "pystr option \<Rightarrow> pystr option \<Rightarrow> bool" where
  "wants wanted field \<longleftrightarrow> wanted = None \<or> field = wanted"

definition within_container :: "pystr option \<Rightarrow> pystr \<Rightarrow> pystr option \<Rightarrow> bool" where
  "within_container wanted visibility container \<longleftrightarrow>
     wanted = None \<or> visibility \<in> {u ''public'', u ''global''} \<or> container = wanted"

definition item_work_refs :: "(nat \<Rightarrow> pystr) \<Rightarrow> (pystr \<Rightarrow> pystr) \<Rightarrow> source_item \<Rightarrow> pystr list" where
  "item_work_refs cf redact i =
     work_refs_from_metadata cf redact (Some (\<lambda>k. map_option py_of_json (obj_get k (source_metadata i))))"

definition item_matches_filters ::
  "(nat \<Rightarrow> pystr) \<Rightarrow> (pystr \<Rightarrow> pystr) \<Rightarrow> source_item \<Rightarrow> query_filters \<Rightarrow> bool" where
  "item_matches_filters cf redact i f \<longleftrightarrow>
     (qf_work_refs f = [] \<or> set (qf_work_refs f) \<inter> set (item_work_refs cf redact i) \<noteq> {})
     \<and> wants (qf_source_type f) (Some (i_source_type i)) \<and> wants (qf_role f) (i_role i)
     \<and> wants (qf_artifact_kind f) (i_artifact_kind i)
     \<and> within_container (qf_container_ref f) (text_or (u ''private'') (i_visibility i)) (i_container_ref i)
     \<and> wants (qf_thread_ref f) (i_thread_ref i) \<and> wants (qf_actor_ref f) (i_actor_ref i)
     \<and> wants (qf_relay_name f) (i_relay_name i)"

definition evidence_matches_filters :: "evidence_ref \<Rightarrow> query_filters \<Rightarrow> bool" where
  "evidence_matches_filters e f \<longleftrightarrow>
     wants (qf_source_type f) (Some (ev_source_type e)) \<and> wants (qf_role f) (ev_role e)
     \<and> wants (qf_artifact_kind f) (ev_artifact_kind e)
     \<and> within_container (qf_container_ref f) (ev_visibility e) (ev_container_ref e)
     \<and> wants (qf_thread_ref f) (ev_thread_ref e)
     \<and> (ev_actor_ref e = None \<or> wants (qf_actor_ref f) (ev_actor_ref e))"

definition memory_matches_filters :: "queue_db \<Rightarrow> memory_view \<Rightarrow> query_filters \<Rightarrow> bool" where
  "memory_matches_filters db m filters =
     (let f = filters\<lparr>qf_thread_ref := None,
                qf_actor_ref := (if mv_actor_ref m = None then None else qf_actor_ref filters)\<rparr>;
          evidence = evidence_for db (mv_id m)
      in if evidence = [] \<and> mv_origin m = Some (u ''agent_explicit'')
         then qf_source_type f = None \<and> qf_role f = None \<and> qf_artifact_kind f = None
              \<and> qf_work_refs f = []
              \<and> within_container (qf_container_ref f) (mv_visibility m) (mv_container_ref m)
         else list_ex (\<lambda>e. evidence_matches_filters e f) evidence)"

definition actor_excluded :: "query_filters option \<Rightarrow> memory_view \<Rightarrow> bool" where
  "actor_excluded filters m \<longleftrightarrow>
     (case filters of
        None \<Rightarrow> False
      | Some f \<Rightarrow> qf_actor_ref f \<noteq> None \<and> mv_actor_ref m \<noteq> None \<and> mv_actor_ref m \<noteq> qf_actor_ref f)"

definition matches_filters ::
  "(nat \<Rightarrow> pystr) \<Rightarrow> (pystr \<Rightarrow> pystr) \<Rightarrow> queue_db \<Rightarrow> pystr \<Rightarrow> pystr \<Rightarrow> query_filters option
    \<Rightarrow> bool queue_result" where
  "matches_filters cf redact db kind target filters =
     (if kind = u ''memory_object'' then
        (case get_memory_object db target of
           Inl e \<Rightarrow> Inl e
         | Inr m \<Rightarrow>
             Inr (mv_lifecycle m = u ''active'' \<and> \<not> mv_is_soft_deleted m \<and> \<not> actor_excluded filters m
               \<and> (case filters of None \<Rightarrow> True | Some f \<Rightarrow> memory_matches_filters db m f)))
      else if kind = u ''source_item'' then
        (case read_source_item db target of
           Inl e \<Rightarrow> Inl e
         | Inr i \<Rightarrow>
             Inr (i_forgotten_at i = None
               \<and> (case filters of None \<Rightarrow> True | Some f \<Rightarrow> item_matches_filters cf redact i f)))
      else Inr True)"

text \<open>The visibility, container and actor of a target; a memory object without a container takes the one
  of its envelope.\<close>

definition memory_container :: "memory_view \<Rightarrow> pystr option" where
  "memory_container m =
     (case mv_container_ref m of
        Some c \<Rightarrow> Some c
      | None \<Rightarrow> (case mv_envelope m of None \<Rightarrow> None | Some e \<Rightarrow> es_container_ref (en_scope e)))"

definition target_visibility ::
  "queue_db \<Rightarrow> pystr \<Rightarrow> pystr \<Rightarrow> (pystr option \<times> pystr option \<times> pystr option) queue_result" where
  "target_visibility db kind target =
     (if kind = u ''source_item'' then
        (case read_source_item db target of
           Inl e \<Rightarrow> Inl e
         | Inr i \<Rightarrow> Inr (i_visibility i, i_container_ref i, i_actor_ref i))
      else if kind = u ''memory_object'' then
        (case get_memory_object db target of
           Inl e \<Rightarrow> Inl e
         | Inr m \<Rightarrow> Inr (Some (mv_visibility m), memory_container m, mv_actor_ref m))
      else Inr (None, None, None))"

section \<open>What a query may see\<close>

text \<open>Without the order of the tests: what is global belongs to its actor, what is public and owned by
  nobody is everybody's, and the rest stays in its container, the private part of it away from
  queries that speak for the container.\<close>

definition may_read ::
  "pystr option \<Rightarrow> pystr option \<Rightarrow> pystr option \<Rightarrow> pystr \<Rightarrow> pystr option \<Rightarrow> pystr option \<Rightarrow> bool" where
  "may_read visibility container actor q_container q_visibility q_actor \<longleftrightarrow>
     (visibility = Some (u ''global'') \<and> actor \<noteq> None \<and> actor = q_actor)
     \<or> (visibility = Some (u ''public'') \<and> actor = None)
     \<or> (visibility \<noteq> Some (u ''global'') \<and> container = Some q_container
        \<and> q_visibility \<noteq> Some (u ''public'')
        \<and> (q_visibility = Some (u ''container'') \<longrightarrow> visibility \<noteq> Some (u ''private'')))"

lemma is_visible_iff:
  "is_visible visibility container actor (Some c) q_visibility q_actor \<longleftrightarrow>
     may_read visibility container actor c q_visibility q_actor"
  by (auto simp: is_visible_def may_read_def)

lemma is_visible_unscoped:
  "is_visible visibility container actor None q_visibility q_actor \<longleftrightarrow>
     (visibility = Some (u ''global'') \<longrightarrow> actor \<noteq> None \<and> actor = q_actor)"
  by (auto simp: is_visible_def)

lemma text_or_view: "i_visibility (item_view i) = Some (text_or (u ''private'') (i_visibility i))"
  by (simp add: item_view_def text_or_def split: option.split)

end
