(* ===== verification/Text_Tokens.thy ===== *)
theory Text_Tokens
  imports Python_Text
begin

text \<open>
  How text becomes tokens (\<open>core/text.py\<close>): combining marks are stripped, the rest is lowered, and
  the token pattern cuts it into single characters of the CJK ranges and runs of other word
  characters. The Unicode tables (NFKD, combining classes, \<open>str.lower\<close>, \<open>\w\<close> without the
  underscore) are parameters.
\<close>

record text_env =
  tx_nfkd :: "pystr \<Rightarrow> pystr"
  tx_combining :: "nat \<Rightarrow> bool"
  tx_lower :: "pystr \<Rightarrow> pystr"
  tx_alnum :: "nat \<Rightarrow> bool"

definition cjk_char :: "nat \<Rightarrow> bool" where
  "cjk_char c \<longleftrightarrow> (12352 \<le> c \<and> c \<le> 12447) \<or> (12448 \<le> c \<and> c \<le> 12543) \<or> (13312 \<le> c \<and> c \<le> 19903)
     \<or> (19968 \<le> c \<and> c \<le> 40959) \<or> (63744 \<le> c \<and> c \<le> 64255)"

text \<open>\<open>[^\W_...]\<close>: a word character that is neither the underscore nor in the ranges.\<close>

definition word_char :: "text_env \<Rightarrow> nat \<Rightarrow> bool" where
  "word_char T c \<longleftrightarrow> tx_alnum T c \<and> c \<noteq> 95 \<and> \<not> cjk_char c"

text \<open>\<open>TOKEN_PATTERN.findall\<close>: the scan from the left, with the longest run at each place.\<close>

function find_tokens :: "text_env \<Rightarrow> pystr \<Rightarrow> pystr list" where
  "find_tokens T [] = []"
| "find_tokens T (c # s) =
     (if cjk_char c then [c] # find_tokens T s
      else if word_char T c
      then (c # takeWhile (word_char T) s) # find_tokens T (dropWhile (word_char T) s)
      else find_tokens T s)"
  by pat_completeness auto
termination
  by (relation "measure (\<lambda>(T, s). length s)") (auto simp: le_imp_less_Suc length_dropWhile_le)

definition strip_combining_marks :: "text_env \<Rightarrow> pystr \<Rightarrow> pystr" where
  "strip_combining_marks T s = filter (\<lambda>c. \<not> tx_combining T c) (tx_nfkd T s)"

definition tokenize_text :: "text_env \<Rightarrow> pystr \<Rightarrow> pystr list" where
  "tokenize_text T s = find_tokens T (tx_lower T (strip_combining_marks T s))"

definition normalize_for_index :: "text_env \<Rightarrow> pystr \<Rightarrow> pystr" where
  "normalize_for_index T s = join_texts (u '' '') (find_tokens T (tx_lower T (strip_combining_marks T s)))"

section \<open>The normal form carries the tokens\<close>

definition token :: "text_env \<Rightarrow> pystr \<Rightarrow> bool" where
  "token T t \<longleftrightarrow> (\<exists>c. t = [c] \<and> cjk_char c) \<or> (t \<noteq> [] \<and> list_all (word_char T) t)"

lemma find_tokens_token: "t \<in> set (find_tokens T s) \<Longrightarrow> token T t"
  by (induction T s rule: find_tokens.induct)
    (auto simp: token_def list_all_iff dest: set_takeWhileD split: if_splits)

lemma find_tokens_word:
  assumes "list_all (word_char T) w" "w \<noteq> []" "s = [] \<or> \<not> word_char T (hd s)"
  shows "find_tokens T (w @ s) = w # find_tokens T s"
proof -
  obtain c v where w: "w = c # v" using assms(2) by (cases w) auto
  then have v: "\<forall>x\<in>set v. word_char T x" and c: "word_char T c" using assms(1) by (auto simp: list_all_iff)
  have "takeWhile (word_char T) (v @ s) = v" "dropWhile (word_char T) (v @ s) = s"
    using v assms(3) by (auto simp: takeWhile_append dropWhile_append) (cases s; simp)+
  then show ?thesis using c w by (simp add: word_char_def)
qed

lemma find_tokens_first:
  assumes "token T t" "s = [] \<or> \<not> word_char T (hd s)"
  shows "find_tokens T (t @ s) = t # find_tokens T s"
  using assms find_tokens_word [of T t s] by (auto simp: token_def)

lemma find_tokens_join:
  assumes "\<not> tx_alnum T 32" "list_all (token T) ts"
  shows "find_tokens T (join_texts (u '' '') ts) = ts"
  using assms(2)
proof (induction ts rule: induct_list012)
  case (2 t)
  then show ?case using find_tokens_first [of T t "[]"] by simp
next
  case (3 t v ts)
  let ?rest = "join_texts (u '' '') (v # ts)"
  have sp: "\<not> word_char T 32" "\<not> cjk_char 32" using assms(1) by (auto simp: word_char_def cjk_char_def)
  have "find_tokens T (t @ 32 # ?rest) = t # find_tokens T (32 # ?rest)"
    by (rule find_tokens_first) (use 3 sp in auto)
  then show ?case using 3 sp by (simp add: u_def)
qed simp

text \<open>Scanning the normal form again gives the tokens it was made of.\<close>

lemma normal_form_tokens:
  "\<not> tx_alnum T 32 \<Longrightarrow> find_tokens T (normalize_for_index T s) = tokenize_text T s"
  unfolding normalize_for_index_def tokenize_text_def
  by (rule find_tokens_join) (auto simp: list_all_iff intro: find_tokens_token)

end
