(* ===== verification/Memory_Search.thy ===== *)
theory Memory_Search
  imports Complex_Main Memory_Visibility Text_Tokens
begin

text \<open>
  Lexical search (\<open>storage/sqlite_search.py\<close>): the query of the full text table, the pages its rows
  come in, the tests every row passes before it becomes a hit, and the lookups of source items and of
  missing attribution in \<open>storage/sqlite.py\<close>. FTS5's matching and its bm25 score are a parameter; the
  score is a rational number, smaller for the better match. The rows of a search and the lookups it
  makes see one state of the database.
\<close>

section \<open>Queries and hits\<close>

record search_env =
  se_text :: text_env
  se_casefold :: "nat \<Rightarrow> pystr"
  se_redact :: "pystr \<Rightarrow> pystr"
  se_fts :: "pystr \<Rightarrow> fts_row list \<Rightarrow> (fts_row \<times> rat) list"

record search_query =
  sq_tokens :: "pystr list"
  sq_limit :: int
  sq_filters :: "query_filters option"
  sq_container :: "pystr option"
  sq_visibility :: "pystr option"
  sq_actor :: "pystr option"
  sq_trace :: bool
  sq_target_kind :: "pystr option"

text \<open>A row of the result set: \<open>rw_bm25\<close> is the column \<open>score\<close>.\<close>

record search_row =
  rw_entry :: pystr
  rw_kind :: pystr
  rw_target :: pystr
  rw_view_name :: "pystr option"
  rw_text :: pystr
  rw_bm25 :: rat

record search_hit =
  hit_kind :: pystr
  hit_target :: pystr
  hit_entry :: pystr
  hit_index_type :: pystr
  hit_view_name :: pystr
  hit_score :: rat
  hit_tokens :: "pystr list"

record search_result =
  res_hits :: "search_hit list"
  res_exclusions :: "(pystr \<times> nat) list"
  res_before :: nat
  res_after :: nat

section \<open>The result set\<close>

definition filter_work_refs :: "search_query \<Rightarrow> pystr list" where
  "filter_work_refs q = (case sq_filters q of None \<Rightarrow> [] | Some f \<Rightarrow> qf_work_refs f)"

definition filter_relay_name :: "search_query \<Rightarrow> pystr" where
  "filter_relay_name q = (case sq_filters q of None \<Rightarrow> [] | Some f \<Rightarrow> text_or [] (qf_relay_name f))"

definition for_items :: "search_query \<Rightarrow> bool" where
  "for_items q \<longleftrightarrow> sq_target_kind q = Some (u ''source_item'')"

definition exact_work :: "search_query \<Rightarrow> bool" where
  "exact_work q \<longleftrightarrow> for_items q \<and> filter_work_refs q \<noteq> []"

definition exact_filter :: "search_query \<Rightarrow> bool" where
  "exact_filter q \<longleftrightarrow> for_items q \<and> (filter_work_refs q \<noteq> [] \<or> filter_relay_name q \<noteq> [])"

definition structural_query :: "search_query \<Rightarrow> bool" where
  "structural_query q \<longleftrightarrow> exact_work q \<and> sq_tokens q = []"

definition quote_token :: "pystr \<Rightarrow> pystr" where
  "quote_token t = 34 # concat (map (\<lambda>c. if c = 34 then [34, 34] else [c]) t) @ [34]"

definition match_expr :: "pystr list \<Rightarrow> pystr" where
  "match_expr tokens = join_texts (u '' OR '') (map quote_token tokens)"

definition has_work_ref :: "queue_db \<Rightarrow> pystr list \<Rightarrow> pystr \<Rightarrow> bool" where
  "has_work_ref db refs target \<longleftrightarrow> list_ex (\<lambda>(i, r). i = target \<and> r \<in> set refs) (q_work_refs db)"

text \<open>The conditions the statement adds for exact queries.\<close>

definition exact_clause :: "search_query \<Rightarrow> queue_db \<Rightarrow> fts_row \<Rightarrow> bool" where
  "exact_clause q db r \<longleftrightarrow>
     (exact_work q \<longrightarrow> ft_target_kind r = u ''source_item'' \<and> has_work_ref db (filter_work_refs q) (ft_target_id r))
     \<and> (for_items q \<and> filter_relay_name q \<noteq> [] \<longrightarrow>
          list_ex (\<lambda>i. i_id i = ft_target_id r \<and> i_relay_name i = Some (filter_relay_name q)) (q_items db))"

definition fts_search_row :: "fts_row \<times> rat \<Rightarrow> search_row" where
  "fts_search_row = (\<lambda>(r, score).
     \<lparr>rw_entry = ft_index_entry_id r, rw_kind = ft_target_kind r, rw_target = ft_target_id r,
      rw_view_name = ft_text_view_name r, rw_text = ft_text_view r, rw_bm25 = score\<rparr>)"

definition fts_rows :: "search_env \<Rightarrow> search_query \<Rightarrow> queue_db \<Rightarrow> search_row list" where
  "fts_rows E q db =
     (let found = filter (\<lambda>(r, _). (exact_filter q \<longrightarrow> exact_clause q db r)
                    \<and> (case sq_target_kind q of None \<Rightarrow> True | Some k \<Rightarrow> ft_target_kind r = k))
                    (se_fts E (match_expr (sq_tokens q)) (q_fts db));
          rows = map fts_search_row found
      in if exact_work q then sort_key (\<lambda>r. (rw_bm25 r, rw_entry r)) rows else sort_key rw_bm25 rows)"

definition work_history_row :: "source_item \<Rightarrow> search_row" where
  "work_history_row i =
     \<lparr>rw_entry = i_id i, rw_kind = u ''source_item'', rw_target = i_id i,
      rw_view_name = Some (u ''structural_work_ref''), rw_text = [], rw_bm25 = 0\<rparr>"

definition work_history_rows :: "search_query \<Rightarrow> queue_db \<Rightarrow> search_row list" where
  "work_history_rows q db =
     map work_history_row (rev (sort_key (\<lambda>i. (effective_time i, i_id i))
       (filter (\<lambda>i. has_work_ref db (filter_work_refs q) (i_id i)) (q_items db))))"

definition page_size :: "search_query \<Rightarrow> nat" where
  "page_size q = nat (max (sq_limit q) 1)"

text \<open>Exact queries go on through all rows, the others get one page.\<close>

definition candidate_rows :: "search_env \<Rightarrow> search_query \<Rightarrow> queue_db \<Rightarrow> search_row list" where
  "candidate_rows E q db =
     (if structural_query q then work_history_rows q db
      else if exact_filter q then fts_rows E q db
      else take (page_size q) (fts_rows E q db))"

section \<open>One row\<close>

datatype verdict = Passed_over | Hidden pystr | is_found: Found search_hit

definition make_hit :: "search_env \<Rightarrow> search_query \<Rightarrow> search_row \<Rightarrow> search_hit" where
  "make_hit E q r =
     \<lparr>hit_kind = rw_kind r, hit_target = rw_target r, hit_entry = rw_entry r,
      hit_index_type = u ''lexical'', hit_view_name = text_or (u ''default'') (rw_view_name r),
      hit_score = - rw_bm25 r,
      hit_tokens = sort (filter (\<lambda>t. t \<in> set (tokenize_text (se_text E) (rw_text r))) (remdups (sq_tokens q)))\<rparr>"

definition judge_row ::
  "search_env \<Rightarrow> search_query \<Rightarrow> queue_db \<Rightarrow> search_row \<Rightarrow> verdict queue_result" where
  "judge_row E q db r =
     (if \<not> structural_query q \<and> - rw_bm25 r < 0 then Inr Passed_over
      else
        (case matches_filters (se_casefold E) (se_redact E) db (rw_kind r) (rw_target r) (sq_filters q) of
           Inl e \<Rightarrow> Inl e
         | Inr False \<Rightarrow> Inr Passed_over
         | Inr True \<Rightarrow>
             (case target_visibility db (rw_kind r) (rw_target r) of
                Inl e \<Rightarrow> Inl e
              | Inr (visibility, container, actor) \<Rightarrow>
                  Inr (if is_visible visibility container actor (sq_container q) (sq_visibility q) (sq_actor q)
                       then Found (make_hit E q r)
                       else Hidden (if visibility = None then u ''candidate_visibility_missing''
                                    else u ''query_visibility_excludes_candidate'')))))"

section \<open>The loop\<close>

record search_state =
  ss_hits :: "search_hit list"
  ss_seen :: "(pystr \<times> pystr) list"
  ss_exclusions :: "(pystr \<times> nat) list"
  ss_before :: nat
  ss_after :: nat

text \<open>\<open>counts[k] = counts.get(k, 0) + 1\<close>.\<close>

fun count_reason :: "pystr \<Rightarrow> (pystr \<times> nat) list \<Rightarrow> (pystr \<times> nat) list" where
  "count_reason k [] = [(k, 1)]"
| "count_reason k ((a, n) # rest) = (if a = k then (a, n + 1) # rest else (a, n) # count_reason k rest)"

definition note_verdict :: "search_query \<Rightarrow> verdict \<Rightarrow> search_state \<Rightarrow> search_state" where
  "note_verdict q v st =
     (case v of
        Passed_over \<Rightarrow> st
      | Hidden reason \<Rightarrow>
          st\<lparr>ss_before := ss_before st + 1,
             ss_exclusions := (if sq_trace q then count_reason reason (ss_exclusions st) else ss_exclusions st)\<rparr>
      | Found h \<Rightarrow>
          st\<lparr>ss_before := ss_before st + 1, ss_after := ss_after st + 1, ss_hits := ss_hits st @ [h]\<rparr>)"

definition full :: "search_query \<Rightarrow> search_state \<Rightarrow> bool" where
  "full q st \<longleftrightarrow> sq_limit q \<le> int (length (ss_hits st))"

fun scan_page ::
  "search_env \<Rightarrow> search_query \<Rightarrow> queue_db \<Rightarrow> search_row list \<Rightarrow> search_state \<Rightarrow> search_state queue_result" where
  "scan_page E q db [] st = Inr st"
| "scan_page E q db (r # rows) st =
     (if exact_filter q \<and> (rw_kind r, rw_target r) \<in> set (ss_seen st) then scan_page E q db rows st
      else
        let st1 = (if exact_filter q then st\<lparr>ss_seen := (rw_kind r, rw_target r) # ss_seen st\<rparr> else st)
        in case judge_row E q db r of
             Inl e \<Rightarrow> Inl e
           | Inr v \<Rightarrow>
               let st2 = note_verdict q v st1
               in if is_found v \<and> full q st2 then Inr st2 else scan_page E q db rows st2)"

lemma page_size_pos [simp]: "0 < page_size q" "page_size q \<noteq> 0"
  by (simp_all add: page_size_def)

function search_pages ::
  "search_env \<Rightarrow> search_query \<Rightarrow> queue_db \<Rightarrow> search_row list \<Rightarrow> search_state \<Rightarrow> search_state queue_result" where
  "search_pages E q db rows st =
     (if full q st \<or> rows = [] then Inr st
      else
        let page = take (page_size q) rows
        in case scan_page E q db page st of
             Inl e \<Rightarrow> Inl e
           | Inr st1 \<Rightarrow>
               if \<not> exact_filter q \<or> length page < page_size q then Inr st1
               else search_pages E q db (drop (page_size q) rows) st1)"
  by pat_completeness auto
termination
  by (relation "measure (\<lambda>(E, q, db, rows, st). length rows)") auto

declare search_pages.simps [simp del]

definition no_search :: search_state where
  "no_search = \<lparr>ss_hits = [], ss_seen = [], ss_exclusions = [], ss_before = 0, ss_after = 0\<rparr>"

text \<open>The best score first, a memory object before a source item; equal ones keep their order.\<close>

definition hit_rank :: "search_hit \<Rightarrow> rat \<times> int" where
  "hit_rank h = (- hit_score h, if hit_kind h = u ''memory_object'' then - 1 else 0)"

definition search_index_entries ::
  "search_env \<Rightarrow> search_query \<Rightarrow> queue_db \<Rightarrow> search_result queue_result" where
  "search_index_entries E q db =
     (if sq_tokens q = [] \<and> \<not> structural_query q
      then Inr \<lparr>res_hits = [], res_exclusions = [], res_before = 0, res_after = 0\<rparr>
      else
        (case search_pages E q db (candidate_rows E q db) no_search of
           Inl e \<Rightarrow> Inl e
         | Inr st \<Rightarrow>
             Inr \<lparr>res_hits = sort_key hit_rank (ss_hits st), res_exclusions = sort (ss_exclusions st),
                  res_before = ss_before st, res_after = ss_after st\<rparr>))"

section \<open>Lookups\<close>

definition find_source_item :: "queue_db \<Rightarrow> pystr \<Rightarrow> pystr \<Rightarrow> source_item option" where
  "find_source_item db source_type source_id =
     map_option item_view (find (\<lambda>i. i_source_type i = source_type \<and> i_source_id i = source_id) (q_items db))"

definition find_source_turn_snapshot ::
  "queue_db \<Rightarrow> pystr \<Rightarrow> pystr \<Rightarrow> pystr \<Rightarrow> pystr \<Rightarrow> source_item option queue_result" where
  "find_source_turn_snapshot db source_type container thread turn =
     (case filter (\<lambda>i. i_source_type i = source_type \<and> i_container_ref i = Some container
              \<and> i_thread_ref i = Some thread \<and> i_source_turn_id i = Some turn
              \<and> i_role i = Some (u ''user'')) (q_items db) of
        [] \<Rightarrow> Inr None
      | [i] \<Rightarrow> Inr (Some (item_view i))
      | _ \<Rightarrow> Inl (BadValue (u ''conflicting source turn snapshots'')))"

text \<open>The clause that mirrors \<open>is_visible\<close> in SQL, where a comparison with NULL is not true.\<close>

definition attribution_visible ::
  "pystr \<Rightarrow> pystr option \<Rightarrow> pystr option \<Rightarrow> source_item \<Rightarrow> bool" where
  "attribution_visible container q_visibility q_actor i \<longleftrightarrow>
     (q_actor \<noteq> None \<and> i_visibility i = Some (u ''global'') \<and> i_actor_ref i = q_actor)
     \<or> (i_visibility i = Some (u ''public'') \<and> i_actor_ref i = None)
     \<or> (q_visibility \<noteq> Some (u ''public'') \<and> i_container_ref i = Some container
        \<and> (case i_visibility i of
             None \<Rightarrow> False
           | Some v \<Rightarrow> if q_visibility = Some (u ''container'') then v \<notin> {u ''private'', u ''global''}
                       else v \<noteq> u ''global''))"

record attribution_query =
  aq_container :: pystr
  aq_visibility :: "pystr option"
  aq_actor :: "pystr option"
  aq_filters :: query_filters

definition attribution_matches :: "queue_db \<Rightarrow> query_filters \<Rightarrow> source_item \<Rightarrow> bool" where
  "attribution_matches db f i \<longleftrightarrow>
     i_relay_attribution_state i \<in> {u ''unknown'', u ''unavailable''} \<and> i_forgotten_at i = None
     \<and> wants (qf_source_type f) (Some (i_source_type i)) \<and> wants (qf_role f) (i_role i)
     \<and> wants (qf_artifact_kind f) (i_artifact_kind i) \<and> wants (qf_thread_ref f) (i_thread_ref i)
     \<and> wants (qf_actor_ref f) (i_actor_ref i)
     \<and> (qf_work_refs f = [] \<or> has_work_ref db (qf_work_refs f) (i_id i))"

definition has_incomplete_source_attribution :: "queue_db \<Rightarrow> attribution_query \<Rightarrow> bool" where
  "has_incomplete_source_attribution db q \<longleftrightarrow>
     list_ex (\<lambda>i. attribution_matches db (aq_filters q) i
       \<and> attribution_visible (aq_container q) (aq_visibility q) (aq_actor q) i) (q_items db)"

lemma attribution_visible_iff:
  "attribution_visible c v a i \<longleftrightarrow>
     i_visibility i \<noteq> None \<and> is_visible (i_visibility i) (i_container_ref i) (i_actor_ref i) (Some c) v a"
  by (auto simp: attribution_visible_def is_visible_def split: option.splits)

end
