(* ===== verification/Retention_Store.thy ===== *)
theory Retention_Store
  imports Queue_Intake Relay_Trace
begin

text \<open>
  Retention (\<open>storage/sqlite_retention.py\<close>, \<open>core/retention.py\<close>): what may be deleted and when, the
  cascades that take the dependent rows along, and the transactions a pass consists of. A transaction
  here is one call of \<open>_with_retry\<close>; \<open>Retention_Pass\<close> puts them together.
\<close>

section \<open>Rows\<close>

record memory_flag =
  fl_id :: pystr
  fl_memory_object_id :: pystr
  fl_reason :: pystr
  fl_source_ref :: pystr
  fl_flagged_at :: time

record retention_stats =
  st_source_items :: nat
  st_memory_objects :: nat
  st_relations :: nat
  st_index_entries :: nat
  st_stripped :: nat
  st_skipped_protected :: nat
  st_trace_events :: nat

record maintenance =
  mt_key :: pystr
  mt_claimed_by :: "pystr option"
  mt_claimed_at :: "time option"
  mt_lease_expires_at :: "time option"
  mt_started_at :: "time option"
  mt_completed_at :: "time option"
  mt_stats :: "retention_stats option"
  mt_cursor_at :: "time option"
  mt_cursor_id :: "pystr option"
  mt_created_at :: time
  mt_updated_at :: time

text \<open>One database file: the tables of history and memory, those of Relay, and the two that only
  retention writes.\<close>

record retention_db =
  rt_queue :: queue_db
  rt_flags :: "memory_flag list"
  rt_maintenance :: "maintenance list"
  rt_relay :: relay_db

datatype retention_error = LeaseLost pystr | NoMaintenance | BadRequest pystr | CursorUnstable

type_synonym 'a retention_outcome = "(retention_db, retention_error, 'a) outcome"

definition retention_key :: pystr where
  "retention_key = u ''retention_compaction''"

definition no_stats :: retention_stats where
  "no_stats = \<lparr>st_source_items = 0, st_memory_objects = 0, st_relations = 0, st_index_entries = 0,
     st_stripped = 0, st_skipped_protected = 0, st_trace_events = 0\<rparr>"

definition add_stats :: "retention_stats \<Rightarrow> retention_stats \<Rightarrow> retention_stats" where
  "add_stats a b =
     \<lparr>st_source_items = st_source_items a + st_source_items b,
      st_memory_objects = st_memory_objects a + st_memory_objects b,
      st_relations = st_relations a + st_relations b,
      st_index_entries = st_index_entries a + st_index_entries b,
      st_stripped = st_stripped a + st_stripped b,
      st_skipped_protected = st_skipped_protected a + st_skipped_protected b,
      st_trace_events = st_trace_events a + st_trace_events b\<rparr>"

abbreviation upd_queue :: "(queue_db \<Rightarrow> queue_db) \<Rightarrow> retention_db \<Rightarrow> retention_db" where
  "upd_queue f db \<equiv> db\<lparr>rt_queue := f (rt_queue db)\<rparr>"

section \<open>Times to live\<close>

definition days :: "int \<Rightarrow> time" where
  "days n = seconds (86400 * n)"

definition superseded_ttl :: time where "superseded_ttl = days 7"
definition working_ttl :: time where "working_ttl = days 30"
definition low_value_ttl :: time where "low_value_ttl = days 3"
definition ordinary_ttl :: time where "ordinary_ttl = days 30"
definition artifact_ttl :: time where "artifact_ttl = days 45"
definition debug_ttl :: time where "debug_ttl = days 3"

text \<open>\<open>isinstance(d.get(k), dict)\<close>.\<close>

definition obj_object :: "pystr \<Rightarrow> json_object \<Rightarrow> json_object option" where
  "obj_object k d = (case obj_get k d of Some (JObject x) \<Rightarrow> Some x | _ \<Rightarrow> None)"

definition says_low_value :: "json_object option \<Rightarrow> bool" where
  "says_low_value d = (case d of None \<Rightarrow> False | Some x \<Rightarrow> obj_get (u ''is_low_value_meta'') x = Some (JBool True))"

definition is_low_value_meta :: "json_object \<Rightarrow> bool" where
  "is_low_value_meta metadata \<longleftrightarrow>
     says_low_value (obj_object (u ''pallium_semantic_signals'') metadata)
     \<or> (case obj_object (u ''observability_debug'') metadata of
          None \<Rightarrow> False | Some d \<Rightarrow> says_low_value (obj_object (u ''semantic_signals'') d))"

definition retention_ttl :: "(pystr \<Rightarrow> pystr) \<Rightarrow> pystr option \<Rightarrow> json_object \<Rightarrow> time" where
  "retention_ttl lower artifact_kind metadata =
     (let kind = lower (strip (case artifact_kind of None \<Rightarrow> [] | Some k \<Rightarrow> k))
      in if kind \<in> {u ''tool_use_summary'', u ''todo_snapshot''} then artifact_ttl
         else if kind \<in> {u ''message'', u ''assistant_output''} \<and> is_low_value_meta metadata then low_value_ttl
         else ordinary_ttl)"

definition raw_expired :: "(pystr \<Rightarrow> pystr) \<Rightarrow> time \<Rightarrow> source_item \<Rightarrow> bool" where
  "raw_expired lower now i \<longleftrightarrow>
     effective_time i \<le> now - retention_ttl lower (i_artifact_kind i) (source_metadata i)"

definition leased_now :: "time \<Rightarrow> source_item \<Rightarrow> bool" where
  "leased_now now i \<longleftrightarrow> i_claimed_by i \<noteq> None \<and> i_claimed_by i \<noteq> Some []
     \<and> (case i_lease_expires_at i of None \<Rightarrow> False | Some t \<Rightarrow> t > now)"

section \<open>Protection\<close>

record retention_policy =
  po_durable :: "pystr set"
  po_working :: "pystr set"
  po_orphan :: "pystr set"

definition freshness_of :: "queue_db \<Rightarrow> memory_object \<Rightarrow> time" where
  "freshness_of db m = (case mo_freshness_at m of Some t \<Rightarrow> t | None \<Rightarrow> derive_freshness db m)"

definition protects :: "retention_policy \<Rightarrow> time \<Rightarrow> queue_db \<Rightarrow> memory_object \<Rightarrow> bool" where
  "protects policy now db m \<longleftrightarrow> mo_lifecycle m = u ''active''
     \<and> (mo_type m \<in> po_durable policy
        \<or> (mo_type m \<in> po_working policy \<and> freshness_of db m > now - working_ttl))"

definition supports_item :: "pystr \<Rightarrow> relation \<Rightarrow> bool" where
  "supports_item item_id r \<longleftrightarrow> rl_to_kind r = u ''source_item'' \<and> rl_to_id r = item_id
     \<and> rl_type r = u ''supported_by'' \<and> rl_from_kind r = u ''memory_object''"

definition is_protected :: "retention_policy \<Rightarrow> time \<Rightarrow> queue_db \<Rightarrow> pystr \<Rightarrow> bool" where
  "is_protected policy now db item_id \<longleftrightarrow>
     list_ex (\<lambda>r. supports_item item_id r
       \<and> (case get_memory db (rl_from_id r) of None \<Rightarrow> False | Some m \<Rightarrow> protects policy now db m))
     (q_relations db)"

section \<open>Cascades\<close>

definition touches :: "pystr \<Rightarrow> pystr \<Rightarrow> relation \<Rightarrow> bool" where
  "touches kind k r \<longleftrightarrow>
     (rl_from_kind r = kind \<and> rl_from_id r = k) \<or> (rl_to_kind r = kind \<and> rl_to_id r = k)"

definition entries_of :: "pystr \<Rightarrow> pystr \<Rightarrow> queue_db \<Rightarrow> index_entry list" where
  "entries_of kind k db = filter (\<lambda>e. ix_target_kind e = kind \<and> ix_target_id e = k) (q_index db)"

definition delete_memory :: "pystr \<Rightarrow> retention_db \<Rightarrow> retention_stats \<times> retention_db" where
  "delete_memory k db =
     (case get_memory (rt_queue db) k of
        None \<Rightarrow> (no_stats, db)
      | Some _ \<Rightarrow>
          let q = rt_queue db;
              q1 = delete_index_entries (u ''memory_object'') k
                     (q\<lparr>q_relations := filter (\<lambda>r. \<not> touches (u ''memory_object'') k r) (q_relations q),
                        q_memories := row_del mo_id k (q_memories q)\<rparr>)
          in (no_stats\<lparr>st_memory_objects := 1,
                st_relations := length (filter (touches (u ''memory_object'') k) (q_relations q)),
                st_index_entries := length (entries_of (u ''memory_object'') k q)\<rparr>,
              db\<lparr>rt_queue := q1, rt_flags := filter (\<lambda>f. fl_memory_object_id f \<noteq> k) (rt_flags db)\<rparr>))"

definition delete_orphan :: "retention_policy \<Rightarrow> pystr \<Rightarrow> retention_db \<Rightarrow> retention_stats \<times> retention_db" where
  "delete_orphan policy k db =
     (case get_memory (rt_queue db) k of
        None \<Rightarrow> (no_stats, db)
      | Some m \<Rightarrow>
          if mo_type m \<in> po_durable policy \<or> mo_type m \<in> po_working policy then (no_stats, db)
          else if list_ex (\<lambda>r. supports k r \<and> rl_to_kind r = u ''source_item'') (q_relations (rt_queue db))
          then (no_stats, db)
          else if mo_type m \<notin> po_orphan policy \<and> mo_lifecycle m = u ''active'' then (no_stats, db)
          else delete_memory k db)"

text \<open>A loop over identifiers that adds up what each step deleted.\<close>

fun delete_each ::
  "(pystr \<Rightarrow> retention_db \<Rightarrow> retention_stats \<times> retention_db) \<Rightarrow> pystr list \<Rightarrow> retention_stats
     \<Rightarrow> retention_db \<Rightarrow> retention_stats \<times> retention_db" where
  "delete_each step [] stats db = (stats, db)"
| "delete_each step (k # ks) stats db =
     (case step k db of (s, db1) \<Rightarrow> delete_each step ks (add_stats stats s) db1)"

text \<open>The full text rows of the entries of some items, deleted ahead of the entries.\<close>

definition delete_item_fts :: "pystr list \<Rightarrow> queue_db \<Rightarrow> queue_db" where
  "delete_item_fts ids q =
     (let gone = ix_id ` set (filter (\<lambda>e. ix_target_kind e = u ''source_item'' \<and> ix_index_type e = u ''lexical''
                                       \<and> ix_target_id e \<in> set ids) (q_index q))
      in q\<lparr>q_fts := filter (\<lambda>f. ft_index_entry_id f \<notin> gone) (q_fts q)\<rparr>)"

definition delete_source ::
  "retention_policy \<Rightarrow> pystr \<Rightarrow> retention_db \<Rightarrow> retention_stats \<times> retention_db" where
  "delete_source policy k db =
     (let q = rt_queue db;
          rels = filter (touches (u ''source_item'') k) (q_relations q);
          affected = remdups (map rl_from_id (filter (\<lambda>r. rl_from_kind r = u ''memory_object'') rels));
          entries = entries_of (u ''source_item'') k q
      in case get_source q k of
           None \<Rightarrow> (no_stats, db)
         | Some _ \<Rightarrow>
             delete_each (delete_orphan policy) affected
               (no_stats\<lparr>st_source_items := 1, st_relations := length rels,
                  st_index_entries := length entries\<rparr>)
               (db\<lparr>rt_queue := q\<lparr>
                  q_relations := filter (\<lambda>r. \<not> touches (u ''source_item'') k r) (q_relations q),
                  q_index := filter (\<lambda>e. \<not> (ix_target_kind e = u ''source_item'' \<and> ix_target_id e = k)) (q_index q),
                  q_work_refs := filter (\<lambda>(i, _). i \<noteq> k) (q_work_refs q),
                  q_items := row_del i_id k (q_items q)\<rparr>\<rparr>))"
end
