(* ===== verification/Retention_Pass.thy ===== *)
theory Retention_Pass
  imports Retention_Store
begin

text \<open>
  The transactions of retention and the pass they make up (\<open>storage/sqlite_retention.py\<close>), with the
  service call around it (\<open>core/service.py\<close>). Between two transactions of a pass other connections
  may commit: \<open>pw_meanwhile n\<close> is what they do before the transaction of number \<open>n\<close>, and
  \<open>pw_time n\<close> what the clock then shows where the pass was not given a time.
\<close>

section \<open>The lease of a pass\<close>

record retention_lease =
  ls_key :: pystr
  ls_claimed_by :: pystr
  ls_claimed_at :: time
  ls_expires_at :: time

abbreviation get_maintenance :: "retention_db \<Rightarrow> maintenance option" where
  "get_maintenance db \<equiv> row_get mt_key retention_key (rt_maintenance db)"

definition new_maintenance :: "time \<Rightarrow> maintenance" where
  "new_maintenance now =
     \<lparr>mt_key = retention_key, mt_claimed_by = None, mt_claimed_at = None, mt_lease_expires_at = None,
      mt_started_at = None, mt_completed_at = None, mt_stats = None, mt_cursor_at = None,
      mt_cursor_id = None, mt_created_at = now, mt_updated_at = now\<rparr>"

definition ensure_maintenance :: "time \<Rightarrow> retention_db \<Rightarrow> retention_db" where
  "ensure_maintenance now db =
     (case get_maintenance db of
        Some _ \<Rightarrow> db | None \<Rightarrow> db\<lparr>rt_maintenance := rt_maintenance db @ [new_maintenance now]\<rparr>)"

definition upd_maintenance :: "(maintenance \<Rightarrow> maintenance) \<Rightarrow> retention_db \<Rightarrow> retention_db" where
  "upd_maintenance f db = db\<lparr>rt_maintenance := row_upd mt_key retention_key f (rt_maintenance db)\<rparr>"

definition retention_end :: "time \<Rightarrow> int \<Rightarrow> time" where
  "retention_end now lease_seconds = now + seconds (max 1 lease_seconds)"

definition claim_retention_lease ::
  "pystr \<Rightarrow> int \<Rightarrow> time \<Rightarrow> retention_db \<Rightarrow> retention_lease option retention_outcome" where
  "claim_retention_lease worker_id lease_seconds now db =
     (let db1 = ensure_maintenance now db;
          busy = (case get_maintenance db1 of
                    None \<Rightarrow> False
                  | Some m \<Rightarrow> (case mt_lease_expires_at m of None \<Rightarrow> False | Some t \<Rightarrow> t > now))
      in if busy then (Inr None, db1)
         else (Inr (Some \<lparr>ls_key = retention_key, ls_claimed_by = worker_id, ls_claimed_at = now,
                           ls_expires_at = retention_end now lease_seconds\<rparr>),
               upd_maintenance (\<lambda>m. m\<lparr>mt_claimed_by := Some worker_id, mt_claimed_at := Some now,
                 mt_lease_expires_at := Some (retention_end now lease_seconds),
                 mt_started_at := Some now, mt_updated_at := now\<rparr>) db1))"

text \<open>All callers ask with \<open>allow_expired=False\<close>.\<close>

definition owns_retention :: "pystr \<Rightarrow> time \<Rightarrow> time \<Rightarrow> maintenance \<Rightarrow> bool" where
  "owns_retention worker_id claimed_at now m \<longleftrightarrow>
     mt_claimed_by m = Some worker_id \<and> mt_claimed_at m = Some claimed_at
     \<and> (case mt_lease_expires_at m of None \<Rightarrow> False | Some t \<Rightarrow> t > now)"

definition lease_owned :: "retention_db \<Rightarrow> pystr \<Rightarrow> time \<Rightarrow> time \<Rightarrow> bool" where
  "lease_owned db worker_id claimed_at now =
     (case get_maintenance db of None \<Rightarrow> False | Some m \<Rightarrow> owns_retention worker_id claimed_at now m)"

definition renew_retention_lease ::
  "pystr \<Rightarrow> time \<Rightarrow> int \<Rightarrow> time \<Rightarrow> retention_db \<Rightarrow> retention_lease option retention_outcome" where
  "renew_retention_lease worker_id claimed_at lease_seconds now db =
     (if get_maintenance db = None then (Inl NoMaintenance, db)
      else if \<not> lease_owned db worker_id claimed_at now then (Inr None, db)
      else (Inr (Some \<lparr>ls_key = retention_key, ls_claimed_by = worker_id, ls_claimed_at = claimed_at,
                        ls_expires_at = retention_end now lease_seconds\<rparr>),
            upd_maintenance (\<lambda>m. m\<lparr>mt_lease_expires_at := Some (retention_end now lease_seconds),
              mt_updated_at := now\<rparr>) db))"

definition release_maintenance :: "time \<Rightarrow> maintenance \<Rightarrow> maintenance" where
  "release_maintenance at m =
     m\<lparr>mt_claimed_by := None, mt_claimed_at := None, mt_lease_expires_at := None, mt_updated_at := at\<rparr>"

definition complete_retention_pass ::
  "pystr \<Rightarrow> time \<Rightarrow> time \<Rightarrow> retention_stats \<Rightarrow> retention_db \<Rightarrow> bool retention_outcome" where
  "complete_retention_pass worker_id claimed_at finished_at stats db =
     (if get_maintenance db = None then (Inl NoMaintenance, db)
      else if \<not> lease_owned db worker_id claimed_at finished_at then (Inr False, db)
      else (Inr True,
            upd_maintenance (\<lambda>m. (release_maintenance finished_at m)
              \<lparr>mt_completed_at := Some finished_at, mt_stats := Some stats\<rparr>) db))"

definition fail_retention_pass :: "pystr \<Rightarrow> time \<Rightarrow> time \<Rightarrow> retention_db \<Rightarrow> bool retention_outcome" where
  "fail_retention_pass worker_id claimed_at failed_at db =
     (if get_maintenance db = None then (Inl NoMaintenance, db)
      else if \<not> lease_owned db worker_id claimed_at failed_at then (Inr False, db)
      else (Inr True, upd_maintenance (release_maintenance failed_at) db))"

section \<open>Memory objects\<close>

text \<open>SQLite sorts a missing value first.\<close>

definition null_first :: "time option \<Rightarrow> nat \<times> time" where
  "null_first t = (case t of None \<Rightarrow> (0, 0) | Some x \<Rightarrow> (1, x))"

definition overdue :: "time \<Rightarrow> memory_object \<Rightarrow> bool" where
  "overdue now m \<longleftrightarrow> mo_lifecycle m \<in> {u ''superseded'', u ''suppressed''}
     \<and> (case mo_freshness_at m of None \<Rightarrow> True | Some t \<Rightarrow> t \<le> now - superseded_ttl)"

definition superseded_chunk :: "time \<Rightarrow> nat \<Rightarrow> retention_db \<Rightarrow> retention_stats \<times> retention_db" where
  "superseded_chunk now limit db =
     delete_each delete_memory
       (map mo_id (take limit (sort_key (\<lambda>m. (null_first (mo_freshness_at m), mo_created_at m, mo_id m))
          (filter (overdue now) (q_memories (rt_queue db))))))
       no_stats db"

text \<open>The freshness of a scanned object is stored when it was missing.\<close>

definition resolve_freshness :: "pystr \<Rightarrow> retention_db \<Rightarrow> time option \<times> retention_db" where
  "resolve_freshness k db =
     (case get_memory (rt_queue db) k of
        None \<Rightarrow> (None, db)
      | Some m \<Rightarrow>
          (case mo_freshness_at m of
             Some t \<Rightarrow> (Some t, db)
           | None \<Rightarrow>
               let t = derive_freshness (rt_queue db) m
               in (Some t, upd_queue (upd_memory k (\<lambda>r. r\<lparr>mo_freshness_at := Some t\<rparr>)) db)))"

fun stale_loop ::
  "time \<Rightarrow> nat \<Rightarrow> pystr list \<Rightarrow> nat \<Rightarrow> retention_stats \<Rightarrow> retention_db \<Rightarrow> retention_stats \<times> retention_db" where
  "stale_loop cutoff limit [] deleted stats db = (stats, db)"
| "stale_loop cutoff limit (k # ks) deleted stats db =
     (if limit \<le> deleted then (stats, db)
      else
        (case resolve_freshness k db of
           (fresh, db1) \<Rightarrow>
             if (case fresh of None \<Rightarrow> True | Some t \<Rightarrow> t > cutoff)
             then stale_loop cutoff limit ks deleted stats db1
             else (case delete_memory k db1 of
                     (s, db2) \<Rightarrow> stale_loop cutoff limit ks (Suc deleted) (add_stats stats s) db2)))"

definition stale_chunk ::
  "retention_policy \<Rightarrow> time \<Rightarrow> nat \<Rightarrow> retention_db \<Rightarrow> retention_stats \<times> retention_db" where
  "stale_chunk policy now limit db =
     (if limit = 0 then (no_stats, db)
      else stale_loop (now - working_ttl) limit
        (map mo_id (take (4 * limit)
           (sort_key (\<lambda>m. (case mo_freshness_at m of None \<Rightarrow> mo_created_at m | Some t \<Rightarrow> t, mo_created_at m, mo_id m))
              (filter (\<lambda>m. mo_lifecycle m = u ''active'' \<and> mo_type m \<in> po_working policy)
                 (q_memories (rt_queue db))))))
        0 no_stats db)"

section \<open>Source items\<close>

definition settled :: "source_item \<Rightarrow> bool" where
  "settled i \<longleftrightarrow> i_status i \<in> {StCompleted, StFailed, StSkipped}"

type_synonym cursor = "time option \<times> pystr option"

definition cursor_of :: "maintenance option \<Rightarrow> cursor" where
  "cursor_of m = (case m of None \<Rightarrow> (None, None) | Some x \<Rightarrow> (mt_cursor_at x, mt_cursor_id x))"

text \<open>A cursor counts only with an instant and an identifier that is not empty.\<close>

definition cursor_position :: "cursor \<Rightarrow> (time \<times> pystr) option" where
  "cursor_position c = (case c of (Some t, Some k) \<Rightarrow> if k = [] then None else Some (t, k) | _ \<Rightarrow> None)"

definition retention_candidates :: "cursor \<Rightarrow> nat \<Rightarrow> queue_db \<Rightarrow> source_item list" where
  "retention_candidates c limit q =
     take limit (by_creation (filter (\<lambda>i. settled i
        \<and> (case cursor_position c of None \<Rightarrow> True | Some p \<Rightarrow> p < item_rank i)) (q_items q)))"

record retention_scan =
  rs_skipped :: nat
  rs_scanned :: nat
  rs_last :: "(time \<times> pystr) option"
  rs_ids :: "pystr list"

fun scan_candidates ::
  "(source_item \<Rightarrow> bool) \<Rightarrow> (source_item \<Rightarrow> bool) \<Rightarrow> nat \<Rightarrow> source_item list \<Rightarrow> retention_scan
     \<Rightarrow> retention_scan" where
  "scan_candidates due_now protected limit [] s = s"
| "scan_candidates due_now protected limit (i # is) s =
     (let s1 = s\<lparr>rs_scanned := Suc (rs_scanned s), rs_last := Some (item_rank i)\<rparr>
      in if \<not> due_now i then scan_candidates due_now protected limit is s1
         else if protected i
         then scan_candidates due_now protected limit is (s1\<lparr>rs_skipped := Suc (rs_skipped s1)\<rparr>)
         else
           let s2 = s1\<lparr>rs_ids := rs_ids s1 @ [i_id i]\<rparr>
           in if limit \<le> length (rs_ids s2) then s2
              else scan_candidates due_now protected limit is s2)"

record pass_world =
  pw_lower :: "pystr \<Rightarrow> pystr"
  pw_time :: "nat \<Rightarrow> time"
  pw_meanwhile :: "nat \<Rightarrow> retention_db \<Rightarrow> retention_db"

definition item_due :: "pass_world \<Rightarrow> time \<Rightarrow> source_item \<Rightarrow> bool" where
  "item_due W now i \<longleftrightarrow> raw_expired (pw_lower W) now i \<and> \<not> leased_now now i"

definition prepare_sources ::
  "pass_world \<Rightarrow> retention_policy \<Rightarrow> time \<Rightarrow> nat \<Rightarrow> nat \<Rightarrow> retention_db
     \<Rightarrow> bool \<times> cursor \<times> retention_scan" where
  "prepare_sources W policy now delete_limit scan_limit db =
     (let marker = get_maintenance db; c = cursor_of marker
      in (marker \<noteq> None, c,
          scan_candidates (item_due W now) (\<lambda>i. is_protected policy now (rt_queue db) (i_id i)) delete_limit
            (retention_candidates c scan_limit (rt_queue db))
            \<lparr>rs_skipped = 0, rs_scanned = 0, rs_last = None, rs_ids = []\<rparr>))"

text \<open>The second look at a prepared item: still there, settled, expired and not leased.\<close>

definition still_due :: "pass_world \<Rightarrow> time \<Rightarrow> queue_db \<Rightarrow> pystr \<Rightarrow> bool" where
  "still_due W now q k =
     (case get_source q k of None \<Rightarrow> False | Some i \<Rightarrow> settled i \<and> item_due W now i)"

definition set_cursor :: "retention_scan \<Rightarrow> cursor \<Rightarrow> retention_db \<Rightarrow> retention_db" where
  "set_cursor scan c db =
     (case rs_last scan of
        Some (t, k) \<Rightarrow> upd_maintenance (\<lambda>m. m\<lparr>mt_cursor_at := Some t, mt_cursor_id := Some k\<rparr>) db
      | None \<Rightarrow>
          if cursor_position c \<noteq> None
          then upd_maintenance (\<lambda>m. m\<lparr>mt_cursor_at := None, mt_cursor_id := None\<rparr>) db
          else db)"

text \<open>The deleting transaction; \<open>Inr None\<close> when another pass has moved the cursor.\<close>

definition commit_sources ::
  "pass_world \<Rightarrow> retention_policy \<Rightarrow> time \<Rightarrow> retention_lease option \<Rightarrow> time \<Rightarrow> bool \<Rightarrow> cursor \<Rightarrow> retention_scan
     \<Rightarrow> retention_db \<Rightarrow> retention_stats option retention_outcome" where
  "commit_sources W policy now lease lease_now marker_present c scan db =
     (let marker = get_maintenance db;
          same = (marker \<noteq> None \<and> cursor_of marker = c)
      in if same \<noteq> marker_present then (Inr None, db)
         else if \<not> marker_present \<and> marker \<noteq> None then (Inr None, db)
         else if (case lease of None \<Rightarrow> False
                  | Some l \<Rightarrow> \<not> lease_owned db (ls_claimed_by l) (ls_claimed_at l) lease_now)
         then (Inl (LeaseLost (u ''retention lease lost before source deletion'')), db)
         else
           let db1 = ensure_maintenance now db;
               q = rt_queue db1;
               present = filter (still_due W now q) (rs_ids scan);
               eligible = filter (\<lambda>k. \<not> is_protected policy now q k) present;
               skipped = rs_skipped scan + (length present - length eligible)
           in (case delete_each (delete_source policy) eligible (no_stats\<lparr>st_skipped_protected := skipped\<rparr>)
                      (upd_queue (delete_item_fts eligible) db1) of
                 (stats, db2) \<Rightarrow> (Inr (Some stats), set_cursor scan c db2)))"

text \<open>A pass is at a transaction number and a database.\<close>

type_synonym pass_state = "nat \<times> retention_db"

definition next_db :: "pass_world \<Rightarrow> pass_state \<Rightarrow> retention_db" where
  "next_db W s = pw_meanwhile W (fst s) (snd s)"

fun source_tries ::
  "nat \<Rightarrow> pass_world \<Rightarrow> retention_policy \<Rightarrow> time \<Rightarrow> retention_lease option \<Rightarrow> nat \<Rightarrow> nat \<Rightarrow> pass_state
     \<Rightarrow> (retention_error + retention_stats \<times> nat) \<times> pass_state" where
  "source_tries 0 W policy now lease delete_limit scan_limit s = (Inl CursorUnstable, s)"
| "source_tries (Suc tries) W policy now lease delete_limit scan_limit s =
     (let db1 = next_db W s
      in case prepare_sources W policy now delete_limit scan_limit db1 of
           (marker_present, c, scan) \<Rightarrow>
             let n = Suc (fst s); db2 = next_db W (n, db1)
             in (case commit_sources W policy now lease (pw_time W n) marker_present c scan db2 of
                   (Inl e, db3) \<Rightarrow> (Inl e, (Suc n, db3))
                 | (Inr None, db3) \<Rightarrow>
                     source_tries tries W policy now lease delete_limit scan_limit (Suc n, db3)
                 | (Inr (Some stats), db3) \<Rightarrow> (Inr (stats, rs_scanned scan), (Suc n, db3))))"

definition locked_max_retries :: nat where
  "locked_max_retries = 3"

definition source_chunk ::
  "pass_world \<Rightarrow> retention_policy \<Rightarrow> time \<Rightarrow> retention_lease option \<Rightarrow> nat \<Rightarrow> nat \<Rightarrow> pass_state
     \<Rightarrow> (retention_error + retention_stats \<times> nat) \<times> pass_state" where
  "source_chunk W policy now lease delete_limit scan_limit s =
     (if delete_limit = 0 \<or> scan_limit = 0 then (Inr (no_stats, 0), s)
      else source_tries locked_max_retries W policy now lease delete_limit scan_limit s)"

section \<open>Debug metadata\<close>

definition obj_del :: "pystr \<Rightarrow> json_object \<Rightarrow> json_object" where
  "obj_del k d = filter (\<lambda>p. fst p \<noteq> k) d"

definition has_debug :: "source_item \<Rightarrow> bool" where
  "has_debug i \<longleftrightarrow> obj_get (u ''observability_debug'') (source_metadata i) \<noteq> None"

definition strip_debug :: "source_item \<Rightarrow> source_item" where
  "strip_debug i = i\<lparr>i_metadata := Some (obj_del (u ''observability_debug'') (source_metadata i))\<rparr>"

definition debug_candidates :: "time \<Rightarrow> nat \<Rightarrow> queue_db \<Rightarrow> source_item list" where
  "debug_candidates now limit q =
     take limit (by_creation (filter (\<lambda>i. i_created_at i \<le> now - debug_ttl) (q_items q)))"

definition debug_chunk :: "time \<Rightarrow> nat \<Rightarrow> retention_db \<Rightarrow> retention_stats \<times> retention_db" where
  "debug_chunk now limit db =
     (let rows = filter has_debug (debug_candidates now limit (rt_queue db))
      in (no_stats\<lparr>st_stripped := length rows\<rparr>,
          upd_queue (fold (\<lambda>i. upd_source (i_id i) strip_debug) rows) db))"

section \<open>The activation trace\<close>

definition over_state :: "delivery_state \<Rightarrow> bool" where
  "over_state st \<longleftrightarrow> st \<in> {Delivered, Expired, Suppressed}"

text \<open>A trace row whose delivery is gone, moved, open or still reserved.\<close>

definition unsafe_row :: "relay_db \<Rightarrow> relay_trace \<Rightarrow> bool" where
  "unsafe_row db t =
     (case get_delivery db (tr_delivery_id t) of
        None \<Rightarrow> True
      | Some d \<Rightarrow> get_message db (d_message_id d) = None \<or> tr_message_id t \<noteq> d_message_id d
          \<or> \<not> over_state (d_state d)
          \<or> list_ex (\<lambda>r. r_delivery_id r = tr_delivery_id t) (db_reservations db))"

definition unsafe_attempt :: "relay_db \<Rightarrow> pystr \<Rightarrow> bool" where
  "unsafe_attempt db attempt_id = list_ex (\<lambda>t. tr_attempt_id t = attempt_id \<and> unsafe_row db t) (db_traces db)"

definition trace_victims :: "time \<Rightarrow> nat \<Rightarrow> relay_db \<Rightarrow> relay_trace list" where
  "trace_victims now limit db =
     take limit (sort_key (\<lambda>t. (tr_recorded_at t, tr_sequence t))
       (filter (\<lambda>t. (tr_recorded_at t < now - days 30 \<or> trace_max_rows \<le> length (db_traces db))
                   \<and> \<not> unsafe_attempt db (tr_attempt_id t)) (db_traces db)))"

definition cleanup_trace :: "time \<Rightarrow> nat \<Rightarrow> relay_db \<Rightarrow> nat \<times> relay_db" where
  "cleanup_trace now limit db =
     (let rows = trace_victims now limit db;
          deliveries = tr_delivery_id ` set (filter (\<lambda>t. tr_attempt_id t \<in> tr_attempt_id ` set rows) (db_traces db))
      in (length rows,
          db\<lparr>db_traces := filter (\<lambda>t. tr_id t \<notin> tr_id ` set rows) (db_traces db),
             db_deliveries := rows_where (\<lambda>d. d_id d \<in> deliveries) (\<lambda>d. d\<lparr>d_trace_pruned := 1\<rparr>) (db_deliveries db)\<rparr>))"

definition relay_cleanup_trace :: "time \<Rightarrow> int \<Rightarrow> retention_db \<Rightarrow> nat retention_outcome" where
  "relay_cleanup_trace now limit db =
     (if limit < 1 \<or> 64 < limit
      then (Inl (BadRequest (u ''trace cleanup limit must be between 1 and 64'')), db)
      else (case cleanup_trace now (nat limit) (rt_relay db) of (n, r) \<Rightarrow> (Inr n, db\<lparr>rt_relay := r\<rparr>)))"

section \<open>The pass\<close>

definition renewal_batch :: nat where
  "renewal_batch = 50"

text \<open>\<open>_renew_retention_lease_or_raise\<close>: nothing without a lease.\<close>

definition renew_or_raise ::
  "pass_world \<Rightarrow> (retention_lease \<times> int) option \<Rightarrow> pass_state \<Rightarrow> retention_error option \<times> pass_state" where
  "renew_or_raise W lease s =
     (case lease of
        None \<Rightarrow> (None, s)
      | Some (l, lease_seconds) \<Rightarrow>
          (case renew_retention_lease (ls_claimed_by l) (ls_claimed_at l) lease_seconds (pw_time W (fst s))
                  (next_db W s) of
             (Inl e, db) \<Rightarrow> (Some e, (Suc (fst s), db))
           | (Inr None, db) \<Rightarrow> (Some (LeaseLost (u ''retention lease lost during pass'')), (Suc (fst s), db))
           | (Inr (Some _), db) \<Rightarrow> (None, (Suc (fst s), db))))"

definition memory_tx ::
  "pass_world \<Rightarrow> (retention_db \<Rightarrow> retention_stats \<times> retention_db) \<Rightarrow> pass_state \<Rightarrow> retention_stats \<times> pass_state" where
  "memory_tx W f s = (case f (next_db W s) of (st, db) \<Rightarrow> (st, (Suc (fst s), db)))"

text \<open>The two loops over memory objects, with what remains of the batch.\<close>

function memory_loop ::
  "pass_world \<Rightarrow> (retention_lease \<times> int) option \<Rightarrow> (nat \<Rightarrow> retention_db \<Rightarrow> retention_stats \<times> retention_db)
     \<Rightarrow> nat \<Rightarrow> retention_stats \<Rightarrow> pass_state \<Rightarrow> (retention_error + retention_stats \<times> nat) \<times> pass_state" where
  "memory_loop W lease chunk remaining stats s =
     (if remaining = 0 then (Inr (stats, 0), s)
      else
        (case renew_or_raise W lease s of
           (Some e, s1) \<Rightarrow> (Inl e, s1)
         | (None, s1) \<Rightarrow>
             (case memory_tx W (chunk (min remaining renewal_batch)) s1 of
                (st, s2) \<Rightarrow>
                  if st_memory_objects st = 0 then (Inr (add_stats stats st, remaining), s2)
                  else memory_loop W lease chunk (remaining - st_memory_objects st) (add_stats stats st) s2)))"
  by pat_completeness auto
termination by (relation "measure (\<lambda>(W, lease, chunk, remaining, stats, s). remaining)") auto

function source_loop ::
  "pass_world \<Rightarrow> retention_policy \<Rightarrow> time \<Rightarrow> (retention_lease \<times> int) option \<Rightarrow> nat \<Rightarrow> nat \<Rightarrow> retention_stats
     \<Rightarrow> pass_state \<Rightarrow> (retention_error + retention_stats \<times> nat) \<times> pass_state" where
  "source_loop W policy now lease remaining budget stats s =
     (if remaining = 0 \<or> budget = 0 then (Inr (stats, remaining), s)
      else
        (case renew_or_raise W lease s of
           (Some e, s1) \<Rightarrow> (Inl e, s1)
         | (None, s1) \<Rightarrow>
             let limit = min remaining renewal_batch
             in (case source_chunk W policy now (map_option fst lease) limit (min (4 * limit) budget) s1 of
                   (Inl e, s2) \<Rightarrow> (Inl e, s2)
                 | (Inr (st, scanned), s2) \<Rightarrow>
                     if scanned = 0 then (Inr (add_stats stats st, remaining - st_source_items st), s2)
                     else source_loop W policy now lease (remaining - st_source_items st) (budget - scanned)
                            (add_stats stats st) s2)))"
  by pat_completeness auto
termination by (relation "measure (\<lambda>(W, policy, now, lease, remaining, budget, stats, s). budget)") auto

declare memory_loop.simps [simp del] source_loop.simps [simp del]

text \<open>\<open>run_retention_pass\<close>. A pass that raises keeps what its earlier transactions committed.\<close>

definition debug_stage ::
  "pass_world \<Rightarrow> time \<Rightarrow> (retention_lease \<times> int) option \<Rightarrow> nat \<Rightarrow> retention_stats \<Rightarrow> pass_state
     \<Rightarrow> (retention_error + retention_stats) \<times> pass_state" where
  "debug_stage W now lease remaining stats s =
     (if remaining = 0 then (Inr stats, s)
      else
        (case renew_or_raise W lease s of
           (Some e, s1) \<Rightarrow> (Inl e, s1)
         | (None, s1) \<Rightarrow>
             (case memory_tx W (debug_chunk now (min remaining renewal_batch)) s1 of
                (st, s2) \<Rightarrow> (Inr (add_stats stats st), s2))))"

definition run_retention_pass ::
  "pass_world \<Rightarrow> retention_policy \<Rightarrow> time \<Rightarrow> int \<Rightarrow> retention_lease option \<Rightarrow> int option \<Rightarrow> pass_state
     \<Rightarrow> (retention_error + retention_stats) \<times> pass_state" where
  "run_retention_pass W policy now batch_size lease lease_seconds s =
     (case cleanup_trace now 64 (rt_relay (next_db W s)) of
        (n, r) \<Rightarrow>
          let s1 = (Suc (fst s), (next_db W s)\<lparr>rt_relay := r\<rparr>);
              stats = no_stats\<lparr>st_trace_events := n\<rparr>;
              held = (case (lease, lease_seconds) of (Some l, Some k) \<Rightarrow> Some (l, k) | _ \<Rightarrow> None)
          in if nat batch_size = 0 then (Inr stats, s1)
             else if lease \<noteq> None \<and> lease_seconds = None
             then (Inl (BadRequest (u ''lease_seconds is required when lease context is provided'')), s1)
             else
               (case memory_loop W held (superseded_chunk now) (nat batch_size) stats s1 of
                  (Inl e, s2) \<Rightarrow> (Inl e, s2)
                | (Inr (stats2, rest2), s2) \<Rightarrow>
                    (case memory_loop W held (stale_chunk policy now) rest2 stats2 s2 of
                       (Inl e, s3) \<Rightarrow> (Inl e, s3)
                     | (Inr (stats3, rest3), s3) \<Rightarrow>
                         (case source_loop W policy now held rest3 (4 * rest3) stats3 s3 of
                            (Inl e, s4) \<Rightarrow> (Inl e, s4)
                          | (Inr (stats4, rest4), s4) \<Rightarrow> debug_stage W now held rest4 stats4 s4))))"

section \<open>Purging what was suppressed\<close>

lemma memories_delete_memory [simp]:
  "q_memories (rt_queue (snd (delete_memory k db))) = row_del mo_id k (q_memories (rt_queue db))"
proof (cases "get_memory (rt_queue db) k")
  case None
  then have "\<forall>m\<in>set (q_memories (rt_queue db)). mo_id m \<noteq> k" by (auto simp: row_get_None_iff)
  then show ?thesis using None by (simp add: delete_memory_def row_del_def)
qed (simp add: delete_memory_def delete_index_entries_def Let_def)

lemma delete_each_Cons:
  "snd (delete_each step (k # ks) stats db) = snd (delete_each step ks (add_stats stats (fst (step k db))) (snd (step k db)))"
  by (simp add: split_beta)

lemma memories_delete_each:
  "q_memories (rt_queue (snd (delete_each delete_memory ks stats db))) =
     filter (\<lambda>m. mo_id m \<notin> set ks) (q_memories (rt_queue db))"
  by (induction ks arbitrary: stats db) (simp_all add: delete_each_Cons row_del_def conj_commute del: delete_each.simps(2))

definition suppressed_memory :: "memory_object \<Rightarrow> bool" where
  "suppressed_memory m \<longleftrightarrow> mo_lifecycle m = u ''suppressed''"

definition purge_batch :: "retention_db \<Rightarrow> pystr list" where
  "purge_batch db = map mo_id (take 50 (sort_key (\<lambda>m. (mo_created_at m, mo_id m))
     (filter suppressed_memory (q_memories (rt_queue db)))))"

lemma purge_batch_decreases:
  assumes "purge_batch db \<noteq> []"
  shows "length (filter suppressed_memory (q_memories (rt_queue (snd (delete_each delete_memory (purge_batch db) st db)))))
    < length (filter suppressed_memory (q_memories (rt_queue db)))"
proof -
  let ?ms = "q_memories (rt_queue db)"
  obtain k where k: "k \<in> set (purge_batch db)" using assms by (cases "purge_batch db") auto
  then obtain m where "m \<in> set (filter suppressed_memory ?ms)" "mo_id m = k"
    by (auto simp: purge_batch_def dest!: in_set_takeD)
  then have "length (filter (\<lambda>x. mo_id x \<notin> set (purge_batch db)) (filter suppressed_memory ?ms)) < length (filter suppressed_memory ?ms)"
    using k by (intro length_filter_less [of m]) auto
  then show ?thesis by (simp add: memories_delete_each conj_commute)
qed

function purge_suppressed :: "retention_stats \<Rightarrow> retention_db \<Rightarrow> retention_stats \<times> retention_db" where
  "purge_suppressed stats db =
     (if purge_batch db = [] then (stats, db)
      else (case delete_each delete_memory (purge_batch db) no_stats db of
              (st, db1) \<Rightarrow> purge_suppressed (add_stats stats st) db1))"
  by pat_completeness auto
termination
proof (relation "measure (\<lambda>(stats, db). length (filter suppressed_memory (q_memories (rt_queue db))))", goal_cases)
  case (2 stats db st db1)
  then show ?case using purge_batch_decreases [of db no_stats] by (simp add: 2(2) [symmetric])
qed simp

declare purge_suppressed.simps [simp del]

section \<open>Older databases and the health report\<close>

text \<open>\<open>_backfill_legacy_memory_freshness\<close>, run when a database is opened.\<close>

definition backfill_freshness :: "retention_db \<Rightarrow> retention_db" where
  "backfill_freshness db =
     upd_queue (fold (\<lambda>m. refresh_freshness (mo_id m))
       (filter (\<lambda>m. mo_freshness_at m = None) (q_memories (rt_queue db)))) db"

record retention_health =
  he_enabled :: bool
  he_started_at :: "time option"
  he_completed_at :: "time option"
  he_source_items :: nat
  he_memory_objects :: nat
  he_relations :: nat
  he_index_entries :: nat
  he_stripped :: nat
  he_skipped_protected :: nat

definition retention_health_snapshot :: "maintenance option \<Rightarrow> bool \<Rightarrow> retention_health" where
  "retention_health_snapshot record_row enabled =
     (let stats = (case record_row of
                     None \<Rightarrow> no_stats | Some m \<Rightarrow> (case mt_stats m of None \<Rightarrow> no_stats | Some st \<Rightarrow> st))
      in \<lparr>he_enabled = enabled,
          he_started_at = (case record_row of None \<Rightarrow> None | Some m \<Rightarrow> mt_started_at m),
          he_completed_at = (case record_row of None \<Rightarrow> None | Some m \<Rightarrow> mt_completed_at m),
          he_source_items = st_source_items stats, he_memory_objects = st_memory_objects stats,
          he_relations = st_relations stats, he_index_entries = st_index_entries stats,
          he_stripped = st_stripped stats, he_skipped_protected = st_skipped_protected stats\<rparr>)"

section \<open>The service call\<close>

text \<open>\<open>run_retention_pass\<close> of \<open>core/service.py\<close>: claim the lease, run the pass, complete it, and release
  the lease when anything raised. A given \<open>now\<close> is the time of the whole pass. The settings are those
  of the service; a zero of the caller means the setting.\<close>

record retention_settings =
  se_enabled :: bool
  se_lease_seconds :: int
  se_batch_size :: int
  se_policy :: retention_policy

definition given_or :: "int option \<Rightarrow> int \<Rightarrow> int" where
  "given_or x setting = (case x of None \<Rightarrow> setting | Some n \<Rightarrow> if n = 0 then setting else n)"

definition fail_and_raise ::
  "pass_world \<Rightarrow> retention_lease \<Rightarrow> retention_error \<Rightarrow> pass_state
     \<Rightarrow> (retention_error + retention_stats option) \<times> pass_state" where
  "fail_and_raise W l e s =
     (case fail_retention_pass (ls_claimed_by l) (ls_claimed_at l) (pw_time W (fst s)) (next_db W s) of
        (Inl e', db) \<Rightarrow> (Inl e', (Suc (fst s), db)) | (Inr _, db) \<Rightarrow> (Inl e, (Suc (fst s), db)))"

definition finish_pass ::
  "pass_world \<Rightarrow> retention_lease \<Rightarrow> time \<Rightarrow> retention_stats \<Rightarrow> pass_state
     \<Rightarrow> (retention_error + retention_stats option) \<times> pass_state" where
  "finish_pass W l finished_at stats s =
     (case complete_retention_pass (ls_claimed_by l) (ls_claimed_at l) finished_at stats (next_db W s) of
        (Inr True, db) \<Rightarrow> (Inr (Some stats), (Suc (fst s), db))
      | (Inr False, db) \<Rightarrow>
          fail_and_raise W l (LeaseLost (u ''retention lease lost before completion'')) (Suc (fst s), db)
      | (Inl e, db) \<Rightarrow> fail_and_raise W l e (Suc (fst s), db))"

definition service_retention_pass ::
  "pass_world \<Rightarrow> retention_settings \<Rightarrow> pystr \<Rightarrow> time option \<Rightarrow> int option \<Rightarrow> int option \<Rightarrow> pass_state
     \<Rightarrow> (retention_error + retention_stats option) \<times> pass_state" where
  "service_retention_pass W settings worker_id now lease_seconds batch_size s =
     (let at = (case now of None \<Rightarrow> pw_time W (fst s) | Some t \<Rightarrow> t);
          ls = given_or lease_seconds (se_lease_seconds settings);
          Wp = (if now = None then W else W\<lparr>pw_time := (\<lambda>_. at)\<rparr>)
      in if \<not> se_enabled settings then
           (case cleanup_trace at 64 (rt_relay (next_db W s)) of
              (n, r) \<Rightarrow> (Inr (Some (no_stats\<lparr>st_trace_events := n\<rparr>)), (Suc (fst s), (next_db W s)\<lparr>rt_relay := r\<rparr>)))
         else
           (case claim_retention_lease worker_id ls at (next_db W s) of
              (Inl e, db) \<Rightarrow> (Inl e, (Suc (fst s), db))
            | (Inr None, db) \<Rightarrow> (Inr None, (Suc (fst s), db))
            | (Inr (Some l), db) \<Rightarrow>
                (case run_retention_pass Wp (se_policy settings) at
                        (given_or batch_size (se_batch_size settings)) (Some l) (Some ls) (Suc (fst s), db) of
                   (Inl e, s1) \<Rightarrow> fail_and_raise W l e s1
                 | (Inr stats, s1) \<Rightarrow> finish_pass W l (pw_time Wp (fst s1)) stats s1)))"

end
