(* ===== verification/Retention_Frame.thy ===== *)
theory Retention_Frame
  imports Retention_Pass
begin

text \<open>
  What holds through a pass: the locale \<open>retention_kept\<close> takes a property of the database that other
  connections keep and that each kind of write of retention keeps under the condition the code checks
  for it, and shows that a whole pass keeps it, however it ends.
\<close>

section \<open>Deleting\<close>

lemma delete_each_step:
  "delete_each step (k # ks) stats db = delete_each step ks (add_stats stats (fst (step k db))) (snd (step k db))"
  by (simp add: split_beta)

lemma get_memory_delete:
  "get_memory (rt_queue (snd (delete_memory k db))) j = (if j = k then None else get_memory (rt_queue db) j)"
  by (simp add: row_get_row_del)

lemma delete_memory_missing: "get_memory (rt_queue db) k = None \<Longrightarrow> delete_memory k db = (no_stats, db)"
  by (simp add: delete_memory_def)

lemma get_memory_fresh:
  "get_memory (rt_queue (snd (resolve_freshness k db))) j =
     (if j = k then map_option (\<lambda>m. m\<lparr>mo_freshness_at := fst (resolve_freshness k db)\<rparr>) (get_memory (rt_queue db) k)
      else get_memory (rt_queue db) j)"
  by (auto simp: resolve_freshness_def upd_memory_def row_get_row_upd Let_def split: option.split)

lemma resolve_freshness_missing: "get_memory (rt_queue db) k = None \<Longrightarrow> resolve_freshness k db = (None, db)"
  by (simp add: resolve_freshness_def)

lemma distinct_get_memory:
  "distinct (map mo_id (q_memories q)) \<Longrightarrow> m \<in> set (q_memories q) \<Longrightarrow> get_memory q (mo_id m) = Some m"
  by (rule row_get_distinct)

section \<open>The stages of a pass\<close>

lemma run_pass_stages:
  assumes "held = (case (lease, ls) of (Some l, Some k) \<Rightarrow> Some (l, k) | _ \<Rightarrow> None)"
    and "cleanup_trace now 64 (rt_relay (next_db W s)) = (n, rel)"
  shows "run_retention_pass W policy now b lease ls s =
      (let st = no_stats\<lparr>st_trace_events := n\<rparr>; s1 = (Suc (fst s), (next_db W s)\<lparr>rt_relay := rel\<rparr>)
       in if nat b = 0 then (Inr st, s1)
          else if lease \<noteq> None \<and> ls = None
          then (Inl (BadRequest (u ''lease_seconds is required when lease context is provided'')), s1)
          else (case memory_loop W held (superseded_chunk now) (nat b) st s1 of
                  (Inl e, s2) \<Rightarrow> (Inl e, s2)
                | (Inr (st2, rest2), s2) \<Rightarrow>
                    (case memory_loop W held (stale_chunk policy now) rest2 st2 s2 of
                       (Inl e, s3) \<Rightarrow> (Inl e, s3)
                     | (Inr (st3, rest3), s3) \<Rightarrow>
                         (case source_loop W policy now held rest3 (4 * rest3) st3 s3 of
                            (Inl e, s4) \<Rightarrow> (Inl e, s4)
                          | (Inr (st4, rest4), s4) \<Rightarrow> debug_stage W now held rest4 st4 s4))))"
  unfolding run_retention_pass_def assms(1) assms(2) by (simp only: prod.case Let_def)

section \<open>The locale\<close>

locale retention_kept =
  fixes W :: pass_world and policy :: retention_policy and now :: time and I :: "retention_db \<Rightarrow> bool"
  assumes other_work: "I db \<Longrightarrow> I (pw_meanwhile W n db)"
    and memory_keys: "I db \<Longrightarrow> distinct (map mo_id (q_memories (rt_queue db)))"
    and maintenance_row: "I db \<Longrightarrow> I (db\<lparr>rt_maintenance := ms\<rparr>)"
    and trace_rows: "I db \<Longrightarrow> I (db\<lparr>rt_relay := snd (cleanup_trace now 64 (rt_relay db))\<rparr>)"
    and overdue_memory: "I db \<Longrightarrow> get_memory (rt_queue db) k = Some m \<Longrightarrow> overdue now m \<Longrightarrow> I (snd (delete_memory k db))"
    and fresh_memory: "I db \<Longrightarrow> get_memory (rt_queue db) k = Some m \<Longrightarrow> mo_lifecycle m = u ''active'' \<Longrightarrow>
          mo_type m \<in> po_working policy \<Longrightarrow> I (snd (resolve_freshness k db))"
    and stale_memory: "I db \<Longrightarrow> get_memory (rt_queue db) k = Some m \<Longrightarrow> mo_lifecycle m = u ''active'' \<Longrightarrow>
          mo_type m \<in> po_working policy \<Longrightarrow> mo_freshness_at m = Some t \<Longrightarrow> t \<le> now - working_ttl \<Longrightarrow>
          I (snd (delete_memory k db))"
    and sources: "I db \<Longrightarrow> list_all (\<lambda>k. still_due W now (rt_queue db) k \<and> \<not> is_protected policy now (rt_queue db) k) ks \<Longrightarrow>
          I (snd (delete_each (delete_source policy) ks st (upd_queue (delete_item_fts ks) db)))"
    and debug_metadata: "I db \<Longrightarrow> I (upd_queue (upd_source k strip_debug) db)"
begin

lemma selected_row:
  assumes "I db" "k \<in> set (map mo_id (take n (sort_key f (filter P (q_memories (rt_queue db))))))"
    "get_memory (rt_queue db) k = Some m"
  shows "P m"
proof -
  obtain x where x: "x \<in> set (take n (sort_key f (filter P (q_memories (rt_queue db)))))" "k = mo_id x"
    using assms(2) by auto
  then have "x \<in> set (q_memories (rt_queue db))" "P x" by (auto dest!: in_set_takeD)
  then show ?thesis using x(2) assms(3) distinct_get_memory [OF memory_keys [OF assms(1)]] by simp
qed

lemma kept_maintenance: "I db \<Longrightarrow> I (upd_maintenance f db)" "I db \<Longrightarrow> I (ensure_maintenance t db)"
  by (simp_all add: upd_maintenance_def ensure_maintenance_def maintenance_row split: option.split)

lemma kept_delete_each:
  assumes "I db" "\<forall>k\<in>set ks. \<forall>m. get_memory (rt_queue db) k = Some m \<longrightarrow> overdue now m"
  shows "I (snd (delete_each delete_memory ks st db))"
  using assms
proof (induction ks arbitrary: st db)
  case (Cons k ks)
  have "I (snd (delete_memory k db))"
  proof (cases "get_memory (rt_queue db) k")
    case (Some m)
    then show ?thesis using Cons.prems by (intro overdue_memory [of db k m]) auto
  qed (simp add: delete_memory_missing Cons.prems)
  moreover have "\<forall>j\<in>set ks. \<forall>m. get_memory (rt_queue (snd (delete_memory k db))) j = Some m \<longrightarrow> overdue now m"
    using Cons.prems(2) by (auto simp: get_memory_delete simp del: memories_delete_memory)
  ultimately show ?case unfolding delete_each_step by (rule Cons.IH)
qed simp

lemma kept_superseded: "I db \<Longrightarrow> I (snd (superseded_chunk now n db))"
proof -
  assume "I db"
  then show ?thesis
    unfolding superseded_chunk_def by (intro kept_delete_each ballI allI impI) (assumption, erule (2) selected_row)
qed

lemma kept_stale_loop:
  assumes "I db" "\<forall>k\<in>set ks. \<forall>m. get_memory (rt_queue db) k = Some m \<longrightarrow>
      mo_lifecycle m = u ''active'' \<and> mo_type m \<in> po_working policy"
  shows "I (snd (stale_loop (now - working_ttl) n ks d st db))"
  using assms
proof (induction ks arbitrary: d st db)
  case (Cons k ks)
  obtain t db1 where r: "resolve_freshness k db = (t, db1)" using prod.exhaust by blast
  have rows: "get_memory (rt_queue db1) j =
      (if j = k then map_option (\<lambda>m. m\<lparr>mo_freshness_at := t\<rparr>) (get_memory (rt_queue db) k) else get_memory (rt_queue db) j)" for j
    using get_memory_fresh [of j k db] r by simp
  have I1: "I db1"
  proof (cases "get_memory (rt_queue db) k")
    case None
    then show ?thesis using r Cons.prems(1) by (simp add: resolve_freshness_missing)
  next
    case (Some m)
    then show ?thesis using fresh_memory [of db k m] r Cons.prems by simp
  qed
  have I2: "I (snd (delete_memory k db1))" if "t = Some s" "s \<le> now - working_ttl" for s
  proof (cases "get_memory (rt_queue db) k")
    case None
    then show ?thesis using r that(1) by (simp add: resolve_freshness_missing)
  next
    case (Some m)
    then show ?thesis using stale_memory [of db1 k "m\<lparr>mo_freshness_at := t\<rparr>" s] rows [of k] that Cons.prems I1 by simp
  qed
  have C1: "\<forall>j\<in>set ks. \<forall>m. get_memory (rt_queue db1) j = Some m \<longrightarrow> mo_lifecycle m = u ''active'' \<and> mo_type m \<in> po_working policy"
    using Cons.prems(2) by (auto simp: rows)
  have C2: "\<forall>j\<in>set ks. \<forall>m. get_memory (rt_queue (snd (delete_memory k db1))) j = Some m \<longrightarrow>
      mo_lifecycle m = u ''active'' \<and> mo_type m \<in> po_working policy"
    using C1 by (auto simp: get_memory_delete simp del: memories_delete_memory)
  show ?case
    using Cons.prems(1) I2 Cons.IH [OF I1 C1] Cons.IH [OF _ C2]
    by (auto simp: r split_beta not_less split: option.splits)
qed simp

lemma kept_stale: "I db \<Longrightarrow> I (snd (stale_chunk policy now n db))"
  unfolding stale_chunk_def by (auto intro!: kept_stale_loop dest: selected_row simp del: set_map)

lemma kept_cursor: "I db \<Longrightarrow> I (set_cursor scan c db)"
  by (auto simp: set_cursor_def kept_maintenance split: option.split)

lemma kept_commit: "I db \<Longrightarrow> I (snd (commit_sources W policy now lease t present c scan db))"
proof -
  assume "I db"
  then have "I (ensure_maintenance now db)" by (rule kept_maintenance(2))
  then have "I (snd (delete_each (delete_source policy) ks st (upd_queue (delete_item_fts ks) (ensure_maintenance now db))))"
    if "ks = filter (\<lambda>k. \<not> is_protected policy now (rt_queue (ensure_maintenance now db)) k)
      (filter (still_due W now (rt_queue (ensure_maintenance now db))) ids)" for ks ids st
    by (rule sources) (simp add: that list_all_iff)
  then show ?thesis
    using \<open>I db\<close> by (simp add: commit_sources_def Let_def split_beta kept_cursor split: option.split)
qed

lemma kept_debug_rows: "I db \<Longrightarrow> I (upd_queue (fold (\<lambda>i. upd_source (i_id i) strip_debug) rows) db)"
proof (induction rows arbitrary: db)
  case (Cons i rows)
  then show ?case using Cons.IH [OF debug_metadata [OF Cons.prems]] by simp
qed simp

lemma kept_debug: "I db \<Longrightarrow> I (snd (debug_chunk now n db))"
  by (simp add: debug_chunk_def Let_def kept_debug_rows)

section \<open>The loops\<close>

lemma kept_next: "I (snd s) \<Longrightarrow> I (next_db W s)"
  by (simp add: next_db_def other_work)

lemma kept_renewal: "I db \<Longrightarrow> renew_retention_lease w c ls t db = (r, db') \<Longrightarrow> I db'"
  by (auto simp: renew_retention_lease_def kept_maintenance split: if_splits)

lemma kept_renew: "I (snd s) \<Longrightarrow> renew_or_raise W lease s = (e, s') \<Longrightarrow> I (snd s')"
  by (auto simp: renew_or_raise_def split: option.splits prod.splits sum.splits dest: kept_renewal [OF kept_next])

lemma kept_memory_tx:
  assumes "I (snd s)" "\<And>db. I db \<Longrightarrow> I (snd (f db))" "memory_tx W f s = (r, s')"
  shows "I (snd s')"
  using assms(3) assms(2) [OF kept_next [OF assms(1)]] by (auto simp: memory_tx_def split: prod.splits)

lemma kept_memory_loop:
  assumes "I (snd s)" "\<And>n db. I db \<Longrightarrow> I (snd (chunk n db))" "memory_loop W lease chunk remaining stats s = (r, s')"
  shows "I (snd s')"
  using assms(1, 3)
proof (induction remaining arbitrary: stats s rule: less_induct)
  case (less remaining)
  show ?case
  proof (cases "remaining = 0")
    case False
    obtain e s1 where r1: "renew_or_raise W lease s = (e, s1)" using prod.exhaust by blast
    obtain st s2 where r2: "memory_tx W (chunk (min remaining renewal_batch)) s1 = (st, s2)" using prod.exhaust by blast
    have I1: "I (snd s1)" by (rule kept_renew [OF less.prems(1) r1])
    have I2: "I (snd s2)" by (rule kept_memory_tx [OF I1 assms(2) r2])
    show ?thesis
      using less.prems(2) less.IH [OF _ I2, of "remaining - st_memory_objects st" "add_stats stats st"] I1 I2 False
      by (subst (asm) memory_loop.simps) (auto simp: r1 r2 split: option.splits if_splits)
  qed (use less.prems in \<open>simp add: memory_loop.simps\<close>)
qed

lemma kept_source_tries:
  "I (snd s) \<Longrightarrow> source_tries n W policy now lease dl sl s = (r, s') \<Longrightarrow> I (snd s')"
proof (induction n arbitrary: s)
  case (Suc n)
  obtain p c scan where prep: "prepare_sources W policy now dl sl (next_db W s) = (p, c, scan)"
    by (cases "prepare_sources W policy now dl sl (next_db W s)") auto
  let ?t = "pw_time W (Suc (fst s))" and ?db = "next_db W (Suc (fst s), next_db W s)"
  obtain e db3 where com: "commit_sources W policy now lease ?t p c scan ?db = (e, db3)" using prod.exhaust by blast
  have "I ?db" using kept_next [of "(Suc (fst s), next_db W s)"] kept_next [OF Suc.prems(1)] by simp
  then have "I db3" using kept_commit [of ?db lease ?t p c scan] com by simp
  then show ?case
    using Suc.prems(2) Suc.IH [of "(Suc (Suc (fst s)), db3)"]
    by (auto simp: prep com Let_def split: sum.splits option.splits)
qed simp

lemma kept_source_chunk:
  "I (snd s) \<Longrightarrow> source_chunk W policy now lease dl sl s = (r, s') \<Longrightarrow> I (snd s')"
  by (auto simp: source_chunk_def split: if_splits dest: kept_source_tries)

lemma kept_source_loop:
  assumes "I (snd s)" "source_loop W policy now lease remaining budget stats s = (r, s')"
  shows "I (snd s')"
  using assms
proof (induction budget arbitrary: remaining stats s rule: less_induct)
  case (less budget)
  show ?case
  proof (cases "remaining = 0 \<or> budget = 0")
    case False
    let ?l = "min remaining renewal_batch"
    obtain e s1 where r1: "renew_or_raise W lease s = (e, s1)" using prod.exhaust by blast
    obtain q s2 where r2: "source_chunk W policy now (map_option fst lease) ?l (min (4 * ?l) budget) s1 = (q, s2)" using prod.exhaust by blast
    have I1: "I (snd s1)" by (rule kept_renew [OF less.prems(1) r1])
    have I2: "I (snd s2)" by (rule kept_source_chunk [OF I1 r2])
    show ?thesis
    proof (cases "e = None \<and> (\<exists>st n. q = Inr (st, n) \<and> n \<noteq> 0)")
      case True
      then obtain st n where q: "e = None" "q = Inr (st, n)" "n \<noteq> 0" by blast
      have "source_loop W policy now lease remaining budget stats s =
          source_loop W policy now lease (remaining - st_source_items st) (budget - n) (add_stats stats st) s2"
        using False by (subst source_loop.simps) (simp add: r1 r2 q Let_def)
      then have "source_loop W policy now lease (remaining - st_source_items st) (budget - n) (add_stats stats st) s2 = (r, s')"
        using less.prems(2) by simp
      then show ?thesis by (rule less.IH [OF _ I2, rotated]) (use False q(3) in simp)
    next
      case other: False
      have "s' = s1 \<or> s' = s2"
        using less.prems(2) False other
        by (subst (asm) source_loop.simps) (auto simp: r1 r2 Let_def split: option.splits sum.splits if_splits)
      then show ?thesis using I1 I2 by blast
    qed
  qed (use less.prems in \<open>auto simp: source_loop.simps\<close>)
qed

lemma kept_debug_stage:
  assumes "I (snd s)" "debug_stage W now lease n stats s = (r, s')"
  shows "I (snd s')"
proof -
  obtain e s1 where r1: "renew_or_raise W lease s = (e, s1)" using prod.exhaust by blast
  obtain st s2 where r2: "memory_tx W (debug_chunk now (min n renewal_batch)) s1 = (st, s2)" using prod.exhaust by blast
  have I1: "I (snd s1)" by (rule kept_renew [OF assms(1) r1])
  have I2: "I (snd s2)" by (rule kept_memory_tx [OF I1 kept_debug r2])
  have "s' = s \<or> s' = s1 \<or> s' = s2"
    using assms(2) by (auto simp: debug_stage_def r1 r2 split: if_splits option.splits)
  then show ?thesis using assms(1) I1 I2 by blast
qed

section \<open>The pass\<close>

lemma kept_pass:
  assumes "I (snd s)" "run_retention_pass W policy now b lease ls s = (r, s')"
  shows "I (snd s')"
proof -
  let ?db = "next_db W s"
  obtain n rel where c: "cleanup_trace now 64 (rt_relay ?db) = (n, rel)" using prod.exhaust by blast
  let ?s1 = "(Suc (fst s), ?db\<lparr>rt_relay := rel\<rparr>)" and ?st = "no_stats\<lparr>st_trace_events := n\<rparr>"
  define held where "held = (case (lease, ls) of (Some l, Some k) \<Rightarrow> Some (l, k) | _ \<Rightarrow> None)"
  note pass = run_pass_stages [OF held_def c]
  have I1: "I (snd ?s1)" using trace_rows [OF kept_next [OF assms(1)]] c by simp
  obtain r2 s2 where l1: "memory_loop W held (superseded_chunk now) (nat b) ?st ?s1 = (r2, s2)" using prod.exhaust by blast
  have I2: "I (snd s2)" by (rule kept_memory_loop [OF I1 kept_superseded l1])
  show ?thesis
  proof (cases r2)
    case (Inr q2)
    obtain st2 rest2 where q2: "q2 = (st2, rest2)" by (cases q2)
    obtain r3 s3 where l2: "memory_loop W held (stale_chunk policy now) rest2 st2 s2 = (r3, s3)" using prod.exhaust by blast
    have I3: "I (snd s3)" by (rule kept_memory_loop [OF I2 kept_stale l2])
    show ?thesis
    proof (cases r3)
      case r3: (Inr q3)
      obtain st3 rest3 where q3: "q3 = (st3, rest3)" by (cases q3)
      obtain r4 s4 where l3: "source_loop W policy now held rest3 (4 * rest3) st3 s3 = (r4, s4)" using prod.exhaust by blast
      have I4: "I (snd s4)" by (rule kept_source_loop [OF I3 l3])
      have "s' = ?s1 \<or> s' = s4 \<or> (\<exists>n st. debug_stage W now held n st s4 = (r, s'))"
        using assms(2) unfolding pass Let_def by (auto simp: l1 Inr q2 l2 r3 q3 l3 split: if_splits sum.splits)
      then show ?thesis using I1 I4 kept_debug_stage [OF I4] by blast
    next
      case (Inl e)
      then have "s' = ?s1 \<or> s' = s3"
        using assms(2) unfolding pass Let_def by (auto simp: l1 \<open>r2 = Inr q2\<close> q2 l2 split: if_splits)
      then show ?thesis using I1 I3 by blast
    qed
  next
    case (Inl e)
    then have "s' = ?s1 \<or> s' = s2" using assms(2) unfolding pass Let_def by (auto simp: l1 split: if_splits)
    then show ?thesis using I1 I2 by blast
  qed
qed

section \<open>The service call\<close>

lemma any_clock: "retention_kept (W\<lparr>pw_time := tm\<rparr>) policy now I"
proof -
  have due: "still_due (W\<lparr>pw_time := tm\<rparr>) now = still_due W now"
    by (intro ext) (simp add: still_due_def item_due_def split: option.split)
  show ?thesis
    by unfold_locales
      (simp_all add: other_work memory_keys maintenance_row trace_rows overdue_memory fresh_memory stale_memory sources
        debug_metadata due)
qed

lemma kept_claim: "I db \<Longrightarrow> claim_retention_lease w ls t db = (r, db') \<Longrightarrow> I db'"
  by (auto simp: claim_retention_lease_def Let_def kept_maintenance split: if_splits)

lemma kept_fail: "I (snd s) \<Longrightarrow> fail_and_raise W l e s = (r, s') \<Longrightarrow> I (snd s')"
  using kept_next [of s]
  by (auto simp: fail_and_raise_def fail_retention_pass_def kept_maintenance split: if_splits)

lemma kept_finish:
  assumes "I (snd s)" "finish_pass W l t st s = (r, s')"
  shows "I (snd s')"
proof -
  obtain q db where c: "complete_retention_pass (ls_claimed_by l) (ls_claimed_at l) t st (next_db W s) = (q, db)"
    using prod.exhaust by blast
  then have "I db"
    using kept_next [OF assms(1)] by (auto simp: complete_retention_pass_def kept_maintenance split: if_splits)
  moreover have "s' = (Suc (fst s), db) \<or> (\<exists>e. fail_and_raise W l e (Suc (fst s), db) = (r, s'))"
    using assms(2) by (auto simp: finish_pass_def c split: sum.splits bool.splits)
  ultimately show ?thesis using kept_fail [of "(Suc (fst s), db)"] by (elim disjE exE) simp_all
qed

lemma kept_service:
  assumes "I (snd s)" "service_retention_pass W settings worker_id given ls b s = (r, s')"
    and "se_policy settings = policy" "now = (case given of None \<Rightarrow> pw_time W (fst s) | Some t \<Rightarrow> t)"
  shows "I (snd s')"
proof -
  define Wp where "Wp = (if given = None then W else W\<lparr>pw_time := (\<lambda>_. now)\<rparr>)"
  have "Wp = W\<lparr>pw_time := pw_time Wp\<rparr>" by (simp add: Wp_def)
  then have pass: "I (snd s1)" if "I (snd s0)" "run_retention_pass Wp policy now n l k s0 = (q, s1)" for n l k s0 q s1
    using retention_kept.kept_pass [OF any_clock [of "pw_time Wp"] that(1)] that(2) by metis
  let ?k = "given_or ls (se_lease_seconds settings)" and ?b = "given_or b (se_batch_size settings)"
  obtain q db where c: "claim_retention_lease worker_id ?k now (next_db W s) = (q, db)" using prod.exhaust by blast
  have Ic: "I db" by (rule kept_claim [OF kept_next [OF assms(1)] c])
  have serve: "service_retention_pass W settings worker_id given ls b s =
      (if \<not> se_enabled settings then
         (case cleanup_trace now 64 (rt_relay (next_db W s)) of
            (n, r) \<Rightarrow> (Inr (Some (no_stats\<lparr>st_trace_events := n\<rparr>)), (Suc (fst s), (next_db W s)\<lparr>rt_relay := r\<rparr>)))
       else (case q of
            Inl e \<Rightarrow> (Inl e, (Suc (fst s), db))
          | Inr None \<Rightarrow> (Inr None, (Suc (fst s), db))
          | Inr (Some l) \<Rightarrow>
              (case run_retention_pass Wp policy now ?b (Some l) (Some ?k) (Suc (fst s), db) of
                 (Inl e, s1) \<Rightarrow> fail_and_raise W l e s1
               | (Inr stats, s1) \<Rightarrow> finish_pass W l (pw_time Wp (fst s1)) stats s1)))"
    unfolding service_retention_pass_def Let_def Wp_def assms(3) assms(4) [symmetric] c
    by (cases q) (simp_all split: option.split)
  show ?thesis
  proof (cases "se_enabled settings")
    case False
    then show ?thesis
      using assms(2) trace_rows [OF kept_next [OF assms(1)]] unfolding serve by (auto simp: split_beta)
  next
    case True
    show ?thesis
    proof (cases "\<exists>l. q = Inr (Some l)")
      case False
      then show ?thesis using assms(2) True Ic unfolding serve by (auto split: sum.splits option.splits)
    next
      case claimed: True
      then obtain l where l: "q = Inr (Some l)" by blast
      obtain r1 s1 where p: "run_retention_pass Wp policy now ?b (Some l) (Some ?k) (Suc (fst s), db) = (r1, s1)"
        using prod.exhaust by blast
      have "I (snd s1)" by (rule pass [OF _ p]) (simp add: Ic)
      then show ?thesis
        using assms(2) True unfolding serve by (auto simp: l p split: sum.splits dest: kept_fail kept_finish)
    qed
  qed
qed

end

end
