(* ===== verification/Retention_Facts.thy ===== *)
theory Retention_Facts
  imports Retention_Frame Queue_Steps Relay_Machine
begin

text \<open>
  What retention preserves: the invariants of the queue and of Relay, references without a missing end,
  and what protection anchors. Each is an interpretation of \<open>retention_kept\<close>; the other connections
  run transactions of the queue and of Relay, or anything that keeps the property.
\<close>

section \<open>The full text index\<close>

definition fts_mirror :: "(index_entry \<Rightarrow> bool) \<Rightarrow> queue_db \<Rightarrow> bool" where
  "fts_mirror P q \<longleftrightarrow> distinct (map ix_id (q_index q))
     \<and> image_mset fts_copy (mset (q_fts q)) = image_mset entry_copy (mset (filter P (lexical_entries q)))"

lemma fts_mirror_delete:
  assumes "fts_mirror P q"
    and "gone = ix_id ` set (filter (\<lambda>e. ix_index_type e = u ''lexical'' \<and> R e) (q_index q))"
  shows "image_mset fts_copy (mset (filter (\<lambda>f. ft_index_entry_id f \<notin> gone) (q_fts q))) =
    image_mset entry_copy (mset (filter (\<lambda>e. P e \<and> \<not> R e) (lexical_entries q)))"
  using assms(1) by (intro fts_rows_deleted assms(2)) (auto simp: fts_mirror_def)

abbreviation without_index :: "queue_db \<Rightarrow> queue_db" where
  "without_index q \<equiv> q\<lparr>q_index := [], q_fts := []\<rparr>"

lemma queue_inv_split: "queue_inv q \<longleftrightarrow> fts_mirror (\<lambda>_. True) q \<and> queue_inv (without_index q)"
  by (auto simp: queue_inv_def fts_mirror_def lexical_entries_def)

text \<open>The invariant while the full text rows of the items \<open>ids\<close> are gone and their entries are not yet.\<close>

definition pending_inv :: "pystr list \<Rightarrow> queue_db \<Rightarrow> bool" where
  "pending_inv ids q \<longleftrightarrow>
     fts_mirror (\<lambda>e. \<not> (ix_target_kind e = u ''source_item'' \<and> ix_target_id e \<in> set ids)) q
     \<and> queue_inv (without_index q)"

lemma pending_inv_start: "queue_inv q \<Longrightarrow> pending_inv ids (delete_item_fts ids q)"
proof -
  assume "queue_inv q"
  then have "fts_mirror (\<lambda>_. True) q" "queue_inv (without_index q)" by (simp_all add: queue_inv_split [of q])
  then show ?thesis
    using fts_mirror_delete [OF _ refl, of "\<lambda>_. True" q "\<lambda>e. ix_target_kind e = u ''source_item'' \<and> ix_target_id e \<in> set ids"]
    by (auto simp: pending_inv_def delete_item_fts_def Let_def fts_mirror_def lexical_entries_def conj_ac)
qed

lemma pending_inv_end:
  assumes "pending_inv ids q" "\<forall>e\<in>set (q_index q). ix_target_kind e = u ''source_item'' \<longrightarrow> ix_target_id e \<notin> set ids"
  shows "queue_inv q"
proof -
  have "filter (\<lambda>e. \<not> (ix_target_kind e = u ''source_item'' \<and> ix_target_id e \<in> set ids)) (lexical_entries q) =
      filter (\<lambda>_. True) (lexical_entries q)"
    using assms(2) by (intro filter_cong) (auto simp: lexical_entries_def)
  then show ?thesis
    using assms(1) unfolding pending_inv_def queue_inv_split [of q] fts_mirror_def by simp
qed

lemma pending_inv_memory:
  assumes "pending_inv ids (rt_queue db)"
  shows "pending_inv ids (rt_queue (snd (delete_memory k db)))"
proof (cases "get_memory (rt_queue db) k")
  case (Some m)
  let ?q = "rt_queue db" and ?R = "\<lambda>e. ix_target_kind e = u ''memory_object'' \<and> ix_target_id e = k"
    and ?P = "\<lambda>e. \<not> (ix_target_kind e = u ''source_item'' \<and> ix_target_id e \<in> set ids)"
  have "fts_mirror ?P ?q" using assms by (simp add: pending_inv_def)
  moreover from this have "image_mset fts_copy (mset (filter (\<lambda>f. ft_index_entry_id f \<notin>
        ix_id ` set (filter (\<lambda>e. ix_index_type e = u ''lexical'' \<and> ?R e) (q_index ?q))) (q_fts ?q))) =
      image_mset entry_copy (mset (filter (\<lambda>e. ?P e \<and> \<not> ?R e) (lexical_entries ?q)))"
    by (rule fts_mirror_delete) (rule refl)
  moreover have "queue_inv (without_index (?q\<lparr>q_relations := filter Q (q_relations ?q), q_memories := row_del mo_id k (q_memories ?q)\<rparr>))" for Q
    using assms by (simp add: pending_inv_def queue_inv_def row_del_def distinct_map_filter lexical_entries_def)
  ultimately show ?thesis
    using Some
    by (simp add: pending_inv_def delete_memory_def delete_index_entries_def Let_def fts_mirror_def lexical_entries_def
        distinct_map_filter conj_ac)
qed (use assms in \<open>simp add: delete_memory_missing\<close>)

lemma pending_inv_orphan:
  "pending_inv ids (rt_queue db) \<Longrightarrow> pending_inv ids (rt_queue (snd (delete_orphan policy k db)))"
  by (simp add: delete_orphan_def pending_inv_memory split: option.split)

lemma delete_each_keeps:
  "J db \<Longrightarrow> (\<And>k db. k \<in> set ks \<Longrightarrow> J db \<Longrightarrow> J (snd (step k db))) \<Longrightarrow> J (snd (delete_each step ks st db))"
proof (induction ks arbitrary: st db)
  case (Cons k ks)
  show ?case unfolding delete_each_step by (rule Cons.IH) (simp_all add: Cons.prems)
qed simp

text \<open>What the rows of an item give way to: the item with its relations, entries and references.\<close>

definition drop_source :: "pystr \<Rightarrow> queue_db \<Rightarrow> queue_db" where
  "drop_source k q = q\<lparr>q_relations := filter (\<lambda>r. \<not> touches (u ''source_item'') k r) (q_relations q),
     q_index := filter (\<lambda>e. \<not> (ix_target_kind e = u ''source_item'' \<and> ix_target_id e = k)) (q_index q),
     q_work_refs := filter (\<lambda>(i, _). i \<noteq> k) (q_work_refs q), q_items := row_del i_id k (q_items q)\<rparr>"

lemma delete_source_keeps:
  assumes "J db" "get_source (rt_queue db) k \<noteq> None \<Longrightarrow> J (upd_queue (drop_source k) db)"
    "\<And>m db. J db \<Longrightarrow> J (snd (delete_orphan policy m db))"
  shows "J (snd (delete_source policy k db))"
proof (cases "get_source (rt_queue db) k")
  case None
  then show ?thesis using assms(1) by (simp add: delete_source_def)
next
  case (Some i)
  then obtain ms st where "delete_source policy k db = delete_each (delete_orphan policy) ms st (upd_queue (drop_source k) db)"
    by (simp add: delete_source_def drop_source_def Let_def)
  moreover have "J (upd_queue (drop_source k) db)" using assms(2) Some by simp
  ultimately show ?thesis using assms(3) by (simp add: delete_each_keeps)
qed

lemma pending_inv_source:
  assumes "pending_inv ids (rt_queue db)" "k \<in> set ids"
  shows "pending_inv ids (rt_queue (snd (delete_source policy k db)))"
proof (rule delete_source_keeps [where J = "\<lambda>db. pending_inv ids (rt_queue db)"])
  let ?q = "rt_queue db" and ?P = "\<lambda>e. \<not> (ix_target_kind e = u ''source_item'' \<and> ix_target_id e \<in> set ids)"
  have "filter ?P (lexical_entries (drop_source k ?q)) = filter ?P (lexical_entries ?q)"
    unfolding lexical_entries_def drop_source_def using assms(2)
    by (simp add: comp_def) (rule filter_cong, auto)
  then show "pending_inv ids (rt_queue (upd_queue (drop_source k) db))"
    using assms(1) by (simp add: pending_inv_def fts_mirror_def drop_source_def queue_inv_def row_del_def
        distinct_map_filter lexical_entries_def)
qed (use assms pending_inv_orphan in auto)

section \<open>What a cascade leaves alone\<close>

lemma delete_memory_frame [simp]:
  "rt_relay (snd (delete_memory k db)) = rt_relay db" "q_items (rt_queue (snd (delete_memory k db))) = q_items (rt_queue db)"
  "q_tasks (rt_queue (snd (delete_memory k db))) = q_tasks (rt_queue db)"
  "q_work_refs (rt_queue (snd (delete_memory k db))) = q_work_refs (rt_queue db)"
  by (simp_all add: delete_memory_def delete_index_entries_def Let_def split: option.split)

lemma delete_orphan_cases: "snd (delete_orphan policy k db) = db \<or> snd (delete_orphan policy k db) = snd (delete_memory k db)"
  by (simp add: delete_orphan_def split: option.split)

lemma delete_orphan_frame [simp]:
  "rt_relay (snd (delete_orphan policy k db)) = rt_relay db"
  "q_items (rt_queue (snd (delete_orphan policy k db))) = q_items (rt_queue db)"
  "q_tasks (rt_queue (snd (delete_orphan policy k db))) = q_tasks (rt_queue db)"
  using delete_orphan_cases [of policy k db] by auto

lemma delete_source_relay [simp]: "rt_relay (snd (delete_source policy k db)) = rt_relay db"
  by (rule delete_source_keeps [where J = "\<lambda>d. rt_relay d = rt_relay db"]) simp_all

lemma delete_sources_relay [simp]: "rt_relay (snd (delete_each (delete_source policy) ks st db)) = rt_relay db"
  by (rule delete_each_keeps [where J = "\<lambda>d. rt_relay d = rt_relay db"]) simp_all

lemma delete_orphans_items:
  "q_items (rt_queue (snd (delete_each (delete_orphan policy) ms st db))) = q_items (rt_queue db)"
  by (rule delete_each_keeps [where J = "\<lambda>d. q_items (rt_queue d) = q_items (rt_queue db)"]) simp_all

lemma items_delete_source: "q_items (rt_queue (snd (delete_source policy k db))) = row_del i_id k (q_items (rt_queue db))"
proof (cases "get_source (rt_queue db) k")
  case None
  then have "\<forall>i\<in>set (q_items (rt_queue db)). i_id i \<noteq> k" by (auto simp: row_get_None_iff)
  then show ?thesis using None by (simp add: delete_source_def row_del_def)
qed (simp add: delete_source_def Let_def delete_orphans_items)

lemma get_source_delete:
  "get_source (rt_queue (snd (delete_source policy k db))) j = (if j = k then None else get_source (rt_queue db) j)"
  by (simp add: items_delete_source row_get_row_del)

lemma items_delete_sources:
  "q_items (rt_queue (snd (delete_each (delete_source policy) ks st db))) = filter (\<lambda>i. i_id i \<notin> set ks) (q_items (rt_queue db))"
  by (induction ks arbitrary: st db)
    (simp_all add: delete_each_Cons items_delete_source row_del_def conj_commute del: delete_each.simps(2))

section \<open>The tables of the queue and of Relay\<close>

definition no_entries :: "pystr \<Rightarrow> queue_db \<Rightarrow> bool" where
  "no_entries k q \<longleftrightarrow> (\<forall>e\<in>set (q_index q). ix_target_kind e = u ''source_item'' \<longrightarrow> ix_target_id e \<noteq> k)"

lemma no_entries_memory: "no_entries k (rt_queue db) \<Longrightarrow> no_entries k (rt_queue (snd (delete_memory j db)))"
  by (auto simp: no_entries_def delete_memory_def delete_index_entries_def Let_def split: option.split)

lemma no_entries_orphan: "no_entries k (rt_queue db) \<Longrightarrow> no_entries k (rt_queue (snd (delete_orphan policy j db)))"
  using delete_orphan_cases [of policy j db] by (auto simp: no_entries_memory)

lemma no_entries_drop: "no_entries j (drop_source k q) \<longleftrightarrow> j = k \<or> no_entries j q"
  by (auto simp: no_entries_def drop_source_def)

lemma no_entries_source:
  assumes "no_entries j (rt_queue db) \<or> (j = k \<and> get_source (rt_queue db) k \<noteq> None)"
  shows "no_entries j (rt_queue (snd (delete_source policy k db)))"
proof (cases "no_entries j (rt_queue db)")
  case True
  show ?thesis
    by (rule delete_source_keeps [where J = "\<lambda>d. no_entries j (rt_queue d)"])
      (simp_all add: True no_entries_orphan no_entries_drop)
next
  case False
  then obtain i where "j = k" "get_source (rt_queue db) k = Some i" using assms by auto
  moreover have "no_entries k (rt_queue (upd_queue (drop_source k) db))" by (simp add: no_entries_drop)
  ultimately show ?thesis
    by (auto simp: delete_source_def drop_source_def Let_def no_entries_orphan
        intro: delete_each_keeps [where J = "\<lambda>d. no_entries k (rt_queue d)"])
qed

lemma no_entries_sources:
  "(\<forall>k\<in>set ks. no_entries k (rt_queue db) \<or> get_source (rt_queue db) k \<noteq> None) \<Longrightarrow> j \<in> set ks \<or> no_entries j (rt_queue db)
    \<Longrightarrow> no_entries j (rt_queue (snd (delete_each (delete_source policy) ks st db)))"
proof (induction ks arbitrary: st db)
  case (Cons k ks)
  show ?case
    unfolding delete_each_step
  proof (rule Cons.IH)
    show "\<forall>i\<in>set ks. no_entries i (rt_queue (snd (delete_source policy k db)))
        \<or> get_source (rt_queue (snd (delete_source policy k db))) i \<noteq> None"
      using Cons.prems(1) no_entries_source [of _ db k policy] by (auto simp: get_source_delete)
    show "j \<in> set ks \<or> no_entries j (rt_queue (snd (delete_source policy k db)))"
      using Cons.prems no_entries_source [of j db k policy] by auto
  qed
qed simp

lemma queue_inv_sources:
  assumes "queue_inv (rt_queue db)" "\<forall>k\<in>set ks. get_source (rt_queue db) k \<noteq> None"
  shows "queue_inv (rt_queue (snd (delete_each (delete_source policy) ks st (upd_queue (delete_item_fts ks) db))))"
    (is "queue_inv (rt_queue ?d)")
proof (rule pending_inv_end)
  show "pending_inv ks (rt_queue ?d)"
    by (rule delete_each_keeps [where J = "\<lambda>db. pending_inv ks (rt_queue db)"])
      (simp_all add: pending_inv_start assms(1) pending_inv_source)
  have "no_entries k (rt_queue ?d)" if "k \<in> set ks" for k
    by (rule no_entries_sources) (use assms(2) that in \<open>auto simp: delete_item_fts_def Let_def\<close>)
  then show "\<forall>e\<in>set (q_index (rt_queue ?d)). ix_target_kind e = u ''source_item'' \<longrightarrow> ix_target_id e \<notin> set ks"
    by (auto simp: no_entries_def)
qed

lemma queue_inv_delete_memory: "queue_inv (rt_queue db) \<Longrightarrow> queue_inv (rt_queue (snd (delete_memory k db)))"
  using pending_inv_memory [of "[]" db k]
  by (simp add: pending_inv_def queue_inv_split [of "rt_queue db"] queue_inv_split [of "rt_queue (snd (delete_memory k db))"])

lemma mark_pruned_good: "good_change d (d\<lparr>d_trace_pruned := 1\<rparr>)"
  by (cases "d_state d") (simp_all add: good_change_def delivery_wf_def advances_def same_address_def)

lemma traces_ok_filter:
  assumes "traces_ok ts n"
  shows "traces_ok (filter P ts) n"
proof -
  have "length (filter Q (filter P ts)) \<le> length (filter Q ts)" for Q
    by (metis (no_types, lifting) filter_filter filter_cong length_filter_le conj_commute)
  then have "length (filter Q (filter P ts)) \<le> m" if "length (filter Q ts) \<le> m" for Q m
    using that le_trans by blast
  moreover have "length (filter P ts) \<le> trace_max_rows"
    by (rule le_trans [OF length_filter_le]) (use assms in \<open>simp add: traces_ok_def\<close>)
  ultimately show ?thesis
    using assms by (auto simp: traces_ok_def distinct_map_filter sorted_wrt_map sorted_wrt_filter)
qed

lemma db_inv_cleanup: "db_inv db \<Longrightarrow> db_inv (snd (cleanup_trace now limit db))"
proof -
  assume inv: "db_inv db"
  have "deliveries_ok (rows_where P (\<lambda>d. d\<lparr>d_trace_pruned := 1\<rparr>) (db_deliveries db)) (db_messages db)" for P
    using inv unfolding rows_where_def db_inv_def by (intro deliveries_ok_map) (auto simp: mark_pruned_good)
  then show ?thesis
    using inv by (simp add: cleanup_trace_def Let_def db_inv_def traces_ok_filter)
qed

text \<open>The transactions other connections run meanwhile: those of the queue and those of Relay.\<close>

datatype store_op = SQueue queue_op | SRelay relay_op

fun store_exec :: "memory_env \<Rightarrow> relay_world \<Rightarrow> store_op \<Rightarrow> retention_db \<Rightarrow> retention_db" where
  "store_exec E R (SQueue op) db = upd_queue (queue_exec E op) db"
| "store_exec E R (SRelay op) db = db\<lparr>rt_relay := relay_exec R op (rt_relay db)\<rparr>"

definition tables_ok :: "retention_db \<Rightarrow> bool" where
  "tables_ok db \<longleftrightarrow> queue_inv (rt_queue db) \<and> db_inv (rt_relay db)"

interpretation store: guarded_machine "store_exec E R" tables_ok for E R
proof
  fix db op assume "tables_ok db"
  then show "tables_ok (store_exec E R op db)"
    by (cases op) (simp_all add: tables_ok_def queue.exec_inv relay.exec_inv)
qed

definition busy_world ::
  "memory_env \<Rightarrow> relay_world \<Rightarrow> (pystr \<Rightarrow> pystr) \<Rightarrow> (nat \<Rightarrow> time) \<Rightarrow> (nat \<Rightarrow> store_op list) \<Rightarrow> pass_world" where
  "busy_world E R lower clock others =
     \<lparr>pw_lower = lower, pw_time = clock, pw_meanwhile = (\<lambda>n. fold (store_exec E R) (others n))\<rparr>"

lemma still_due_present: "still_due W now q k \<Longrightarrow> get_source q k \<noteq> None"
  by (auto simp: still_due_def split: option.splits)

lemma queue_inv_fresh: "queue_inv (rt_queue db) \<Longrightarrow> queue_inv (rt_queue (snd (resolve_freshness k db)))"
  using qstep_upd_memory [of "\<lambda>r. r\<lparr>mo_freshness_at := t\<rparr>" "rt_queue db" k for t]
  by (auto simp: resolve_freshness_def Let_def qstep_def split: option.split)

lemma queue_inv_debug: "queue_inv q \<Longrightarrow> queue_inv (upd_source k strip_debug q)"
  using qstep_upd_source [of strip_debug q k] by (simp add: qstep_def strip_debug_def)

lemma fresh_relay [simp]: "rt_relay (snd (resolve_freshness k db)) = rt_relay db"
  by (simp add: resolve_freshness_def Let_def split: option.split)

interpretation tables: retention_kept "busy_world E R lower clock others" policy now tables_ok
  for E R lower clock others policy now
proof (unfold_locales, goal_cases)
  case (1 db n)
  then show ?case by (simp add: busy_world_def store.run_inv)
next
  case (7 db k m t)
  then show ?case by (simp add: tables_ok_def queue_inv_delete_memory)
next
  case (8 db ks st)
  then have "\<forall>k\<in>set ks. get_source (rt_queue db) k \<noteq> None" by (auto simp: list_all_iff dest: still_due_present)
  then show ?case using 8 by (simp add: tables_ok_def queue_inv_sources)
qed (simp_all add: tables_ok_def db_inv_cleanup queue_inv_delete_memory queue_inv_fresh queue_inv_debug,
    simp add: queue_inv_def)

end
