(* ===== verification/Retention_References.thy ===== *)
theory Retention_References
  imports Retention_Facts
begin

text \<open>
  References and protection through a pass: no row is left that names a deleted one, and an active
  memory object of a durable type stays with the item that supports it.
\<close>

section \<open>References\<close>

definition known :: "pystr \<Rightarrow> pystr \<Rightarrow> queue_db \<Rightarrow> bool" where
  "known kind k q \<longleftrightarrow>
     (kind = u ''memory_object'' \<longrightarrow> get_memory q k \<noteq> None) \<and> (kind = u ''source_item'' \<longrightarrow> get_source q k \<noteq> None)"

definition refs_ok :: "retention_db \<Rightarrow> bool" where
  "refs_ok db \<longleftrightarrow> (let q = rt_queue db in
     distinct (map mo_id (q_memories q))
     \<and> (\<forall>r\<in>set (q_relations q). known (rl_from_kind r) (rl_from_id r) q \<and> known (rl_to_kind r) (rl_to_id r) q)
     \<and> (\<forall>e\<in>set (q_index q). known (ix_target_kind e) (ix_target_id e) q)
     \<and> (\<forall>w\<in>set (q_work_refs q). get_source q (fst w) \<noteq> None)
     \<and> (\<forall>f\<in>set (rt_flags db). get_memory q (fl_memory_object_id f) \<noteq> None))"

lemma known_delete_memory:
  "known kind j (rt_queue (snd (delete_memory k db))) \<longleftrightarrow>
     known kind j (rt_queue db) \<and> \<not> (kind = u ''memory_object'' \<and> j = k)"
  by (auto simp: known_def get_memory_delete simp del: memories_delete_memory)

lemma known_drop_source:
  "known kind j (drop_source k q) \<longleftrightarrow> known kind j q \<and> \<not> (kind = u ''source_item'' \<and> j = k)"
  by (auto simp: known_def drop_source_def row_get_row_del)

lemma delete_memory_rows:
  assumes "get_memory (rt_queue db) k = Some m"
  shows "set (q_relations (rt_queue (snd (delete_memory k db)))) = {r \<in> set (q_relations (rt_queue db)). \<not> touches (u ''memory_object'') k r}"
    "set (q_index (rt_queue (snd (delete_memory k db)))) =
      {e \<in> set (q_index (rt_queue db)). \<not> (ix_target_kind e = u ''memory_object'' \<and> ix_target_id e = k)}"
    "set (rt_flags (snd (delete_memory k db))) = {f \<in> set (rt_flags db). fl_memory_object_id f \<noteq> k}"
  using assms by (auto simp: delete_memory_def delete_index_entries_def Let_def)

lemma refs_ok_delete_memory:
  assumes "refs_ok db"
  shows "refs_ok (snd (delete_memory k db))"
proof (cases "get_memory (rt_queue db) k")
  case (Some m)
  show ?thesis
    using assms unfolding refs_ok_def Let_def delete_memory_rows [OF Some] known_delete_memory get_memory_delete
    by (auto simp: touches_def row_del_def distinct_map_filter)
qed (use assms in \<open>simp add: delete_memory_missing\<close>)

lemma refs_ok_orphan: "refs_ok db \<Longrightarrow> refs_ok (snd (delete_orphan policy k db))"
  using delete_orphan_cases [of policy k db] by (auto simp: refs_ok_delete_memory)

lemma refs_ok_drop_source:
  assumes "refs_ok db"
  shows "refs_ok (upd_queue (drop_source k) db)"
proof -
  have "get_memory (drop_source k q) j = get_memory q j"
    "get_source (drop_source k q) j = (if j = k then None else get_source q j)" for q j
    by (simp_all add: drop_source_def row_get_row_del)
  then show ?thesis
    using assms unfolding refs_ok_def Let_def
    by (auto simp: known_drop_source) (auto simp: drop_source_def touches_def)
qed

lemma refs_ok_sources:
  assumes "refs_ok db"
  shows "refs_ok (snd (delete_each (delete_source policy) ks st (upd_queue (delete_item_fts ks) db)))"
proof (rule delete_each_keeps)
  show "refs_ok (upd_queue (delete_item_fts ks) db)"
    using assms by (simp add: refs_ok_def delete_item_fts_def known_def Let_def)
  show "refs_ok (snd (delete_source policy k d))" if "refs_ok d" for k d
    using that by (rule delete_source_keeps) (simp_all add: that refs_ok_orphan refs_ok_drop_source)
qed

lemma known_fresh: "known kind j (rt_queue (snd (resolve_freshness k db))) \<longleftrightarrow> known kind j (rt_queue db)"
proof -
  have "q_items (rt_queue (snd (resolve_freshness k db))) = q_items (rt_queue db)"
    by (simp add: resolve_freshness_def Let_def upd_memory_def split: option.split)
  then show ?thesis by (auto simp: known_def get_memory_fresh)
qed

lemma refs_ok_fresh: "refs_ok db \<Longrightarrow> refs_ok (snd (resolve_freshness k db))"
proof -
  have "map mo_id (q_memories (rt_queue (snd (resolve_freshness k db)))) = map mo_id (q_memories (rt_queue db))"
    "q_relations (rt_queue (snd (resolve_freshness k db))) = q_relations (rt_queue db)"
    "q_index (rt_queue (snd (resolve_freshness k db))) = q_index (rt_queue db)"
    "q_work_refs (rt_queue (snd (resolve_freshness k db))) = q_work_refs (rt_queue db)"
    "q_items (rt_queue (snd (resolve_freshness k db))) = q_items (rt_queue db)"
    "rt_flags (snd (resolve_freshness k db)) = rt_flags db"
    by (simp_all add: resolve_freshness_def Let_def upd_memory_def row_upd_def split: option.split)
  moreover have "get_memory (rt_queue (snd (resolve_freshness k db))) j \<noteq> None \<longleftrightarrow> get_memory (rt_queue db) j \<noteq> None" for j
    by (auto simp: get_memory_fresh)
  ultimately show "refs_ok db \<Longrightarrow> ?thesis" by (simp add: refs_ok_def known_fresh Let_def)
qed

lemma refs_ok_debug: "refs_ok db \<Longrightarrow> refs_ok (upd_queue (upd_source k strip_debug) db)"
proof -
  have "get_source (upd_source k strip_debug (rt_queue db)) j \<noteq> None \<longleftrightarrow> get_source (rt_queue db) j \<noteq> None" for j
    by (auto simp: upd_source_def row_get_row_upd strip_debug_def)
  moreover have "q_memories (upd_source k strip_debug (rt_queue db)) = q_memories (rt_queue db)"
    "q_relations (upd_source k strip_debug (rt_queue db)) = q_relations (rt_queue db)"
    "q_index (upd_source k strip_debug (rt_queue db)) = q_index (rt_queue db)"
    "q_work_refs (upd_source k strip_debug (rt_queue db)) = q_work_refs (rt_queue db)"
    by (simp_all add: upd_source_def)
  ultimately show "refs_ok db \<Longrightarrow> ?thesis" by (simp add: refs_ok_def known_def Let_def)
qed

lemma refs_kept:
  assumes "\<forall>n db. refs_ok db \<longrightarrow> refs_ok (pw_meanwhile W n db)"
  shows "retention_kept W policy now refs_ok"
  using assms
  by unfold_locales
    (simp_all add: refs_ok_delete_memory refs_ok_fresh refs_ok_sources refs_ok_debug, simp_all add: refs_ok_def Let_def)

section \<open>Protection\<close>

text \<open>An active memory object of a durable type, and the item it is supported by.\<close>

definition anchored :: "retention_policy \<Rightarrow> pystr \<Rightarrow> pystr \<Rightarrow> retention_db \<Rightarrow> bool" where
  "anchored policy mk ik db \<longleftrightarrow> (let q = rt_queue db in
     distinct (map mo_id (q_memories q))
     \<and> (\<exists>m. get_memory q mk = Some m \<and> mo_lifecycle m = u ''active'' \<and> mo_type m \<in> po_durable policy
            \<and> mo_type m \<notin> po_working policy)
     \<and> get_source q ik \<noteq> None
     \<and> (\<exists>r\<in>set (q_relations q). supports_item ik r \<and> rl_from_id r = mk))"

lemma anchored_protects: "anchored policy mk ik db \<Longrightarrow> is_protected policy now (rt_queue db) ik"
  by (force simp: anchored_def is_protected_def list_ex_iff protects_def Let_def)

lemma anchored_delete_memory:
  assumes "anchored policy mk ik db" "k \<noteq> mk"
  shows "anchored policy mk ik (snd (delete_memory k db))"
proof (cases "get_memory (rt_queue db) k")
  case (Some m)
  show ?thesis
    using assms unfolding anchored_def Let_def delete_memory_rows [OF Some] get_memory_delete
    by (auto simp: touches_def supports_item_def row_del_def distinct_map_filter)
qed (use assms in \<open>simp add: delete_memory_missing\<close>)

lemma anchored_orphan:
  assumes "anchored policy mk ik db"
  shows "anchored policy mk ik (snd (delete_orphan policy k db))"
proof (cases "k = mk")
  case True
  then show ?thesis using assms by (auto simp: delete_orphan_def anchored_def Let_def)
next
  case False
  then show ?thesis using assms delete_orphan_cases [of policy k db] by (auto simp: anchored_delete_memory)
qed

lemma anchored_drop:
  assumes "anchored policy mk ik db" "k \<noteq> ik"
  shows "anchored policy mk ik (upd_queue (drop_source k) db)"
proof -
  have "get_memory (drop_source k q) j = get_memory q j" "q_memories (drop_source k q) = q_memories q"
    "get_source (drop_source k q) j = (if j = k then None else get_source q j)" for q j
    by (simp_all add: drop_source_def row_get_row_del)
  moreover have "supports_item ik r \<Longrightarrow> \<not> touches (u ''source_item'') k r" for r
    using assms(2) by (auto simp: supports_item_def touches_def)
  ultimately show ?thesis
    using assms unfolding anchored_def Let_def by (auto simp: drop_source_def)
qed

lemma anchored_sources:
  assumes "anchored policy mk ik db" "ik \<notin> set ks"
  shows "anchored policy mk ik (snd (delete_each (delete_source policy) ks st (upd_queue (delete_item_fts ks) db)))"
proof (rule delete_each_keeps)
  show "anchored policy mk ik (upd_queue (delete_item_fts ks) db)"
    using assms by (simp add: anchored_def delete_item_fts_def Let_def)
  show "anchored policy mk ik (snd (delete_source policy k d))" if "k \<in> set ks" "anchored policy mk ik d" for k d
    by (rule delete_source_keeps) (use that assms(2) in \<open>auto simp: anchored_orphan intro: anchored_drop\<close>)
qed

lemma anchored_kept:
  assumes "\<forall>n db. anchored policy mk ik db \<longrightarrow> anchored policy mk ik (pw_meanwhile W n db)"
  shows "retention_kept W policy now (anchored policy mk ik)"
proof (unfold_locales, goal_cases)
  case (1 db n)
  then show ?case using assms by simp
next
  case (5 db k m)
  then have "k \<noteq> mk" by (auto simp: anchored_def overdue_def Let_def)
  then show ?case using 5 by (simp add: anchored_delete_memory)
next
  case (6 db k m)
  then have "k \<noteq> mk" by (auto simp: anchored_def Let_def)
  moreover have "map mo_id (q_memories (rt_queue (snd (resolve_freshness k db)))) = map mo_id (q_memories (rt_queue db))"
    "q_relations (rt_queue (snd (resolve_freshness k db))) = q_relations (rt_queue db)"
    "q_items (rt_queue (snd (resolve_freshness k db))) = q_items (rt_queue db)"
    by (simp_all add: resolve_freshness_def Let_def upd_memory_def row_upd_def split: option.split)
  ultimately show ?case using 6(1) by (simp add: anchored_def Let_def get_memory_fresh)
next
  case (7 db k m t)
  then have "k \<noteq> mk" by (auto simp: anchored_def Let_def)
  then show ?case using 7 by (simp add: anchored_delete_memory)
next
  case (8 db ks st)
  then have "ik \<notin> set ks" using anchored_protects [OF 8(1), of now] by (auto simp: list_all_iff)
  then show ?case using 8 by (simp add: anchored_sources)
next
  case (9 db k)
  moreover have "get_source (upd_source k strip_debug (rt_queue db)) ik \<noteq> None \<longleftrightarrow> get_source (rt_queue db) ik \<noteq> None"
    by (auto simp: upd_source_def row_get_row_upd strip_debug_def)
  ultimately show ?case by (simp add: anchored_def Let_def) (simp add: upd_source_def)
qed (simp_all add: anchored_def Let_def)

text \<open>With only Relay at work meanwhile both hold without a further condition.\<close>

definition relay_world_only :: "(pystr \<Rightarrow> pystr) \<Rightarrow> (nat \<Rightarrow> time) \<Rightarrow> (nat \<Rightarrow> relay_db \<Rightarrow> relay_db) \<Rightarrow> pass_world" where
  "relay_world_only lower clock work =
     \<lparr>pw_lower = lower, pw_time = clock, pw_meanwhile = (\<lambda>n db. db\<lparr>rt_relay := work n (rt_relay db)\<rparr>)\<rparr>"

interpretation references: retention_kept "relay_world_only lower clock work" policy now refs_ok
  for lower clock work policy now
  by (rule refs_kept) (simp add: relay_world_only_def refs_ok_def Let_def)

interpretation anchor: retention_kept "relay_world_only lower clock work" policy now "anchored policy mk ik"
  for lower clock work policy now mk ik
  by (rule anchored_kept) (simp add: relay_world_only_def anchored_def Let_def)

end
