(* ===== verification/Search_Facts.thy ===== *)
theory Search_Facts
  imports Memory_Search Retention_References
begin

text \<open>
  What a search returns: the loop over pages as one scan, the scan as the first readable rows, what a
  hit has passed, and that a search over intact tables never raises.
\<close>

section \<open>Pages do not matter\<close>

lemma scan_page_full:
  assumes "\<not> full q st" "scan_page E q db rows st = Inr st'" "full q st'"
  shows "scan_page E q db (rows @ rest) st = Inr st'"
  using assms
proof (induction rows arbitrary: st)
  case (Cons r rows)
  have "\<not> full q (st\<lparr>ss_seen := s\<rparr>)" for s using Cons.prems(1) by (simp add: full_def)
  moreover have "full q (note_verdict q v s) \<Longrightarrow> \<not> full q s \<Longrightarrow> is_found v" for v s
    by (cases v) (simp_all add: note_verdict_def full_def)
  ultimately show ?case
    using Cons by (auto simp: Let_def split: if_splits sum.splits)
qed simp

lemma scan_page_append:
  assumes "\<not> full q st" "scan_page E q db rows st = Inr st'" "\<not> full q st'"
  shows "scan_page E q db (rows @ rest) st = scan_page E q db rest st'"
  using assms
proof (induction rows arbitrary: st)
  case (Cons r rows)
  have "\<not> full q (st\<lparr>ss_seen := s\<rparr>)" for s using Cons.prems(1) by (simp add: full_def)
  moreover have "full q (note_verdict q v s) \<Longrightarrow> \<not> full q s \<Longrightarrow> is_found v" for v s
    by (cases v) (simp_all add: note_verdict_def full_def)
  ultimately show ?case
    using Cons by (auto simp: Let_def split: if_splits sum.splits)
qed simp

lemma scan_page_raises:
  "scan_page E q db rows st = Inl e \<Longrightarrow> scan_page E q db (rows @ rest) st = Inl e"
  by (induction rows arbitrary: st) (auto simp: Let_def split: if_splits sum.splits)

lemma search_pages_exact:
  assumes "exact_filter q" "\<not> full q st"
  shows "search_pages E q db rows st = scan_page E q db rows st"
  using assms(2)
proof (induction "length rows" arbitrary: rows st rule: less_induct)
  case less
  show ?case
  proof (cases "rows = []")
    case True
    then show ?thesis by (simp add: search_pages.simps)
  next
    case False
    let ?page = "take (page_size q) rows" and ?rest = "drop (page_size q) rows"
    have split: "?page @ ?rest = rows" by simp
    have step: "search_pages E q db rows st = (case scan_page E q db ?page st of
          Inl e \<Rightarrow> Inl e
        | Inr st1 \<Rightarrow> if length ?page < page_size q then Inr st1 else search_pages E q db ?rest st1)"
      using False less.prems assms(1) by (subst search_pages.simps) (simp add: Let_def del: length_take cong: sum.case_cong)
    show ?thesis
    proof (cases "scan_page E q db ?page st")
      case (Inl e)
      then show ?thesis using step scan_page_raises [OF Inl, of ?rest] split by simp
    next
      case (Inr st1)
      show ?thesis
      proof (cases "full q st1")
        case True
        have "search_pages E q db ?rest st1 = Inr st1" using True by (simp add: search_pages.simps)
        then show ?thesis using step Inr scan_page_full [OF less.prems Inr True, of ?rest] split by simp
      next
        case False
        have "search_pages E q db ?rest st1 = scan_page E q db ?rest st1"
        proof (rule less.hyps [OF _ False])
          show "length ?rest < length rows" using \<open>rows \<noteq> []\<close> by simp
        qed
        moreover have "?rest = []" if "length ?page < page_size q" using that by simp
        ultimately show ?thesis
          using step Inr scan_page_append [OF less.prems Inr False, of ?rest] split by auto
      qed
    qed
  qed
qed

text \<open>Other queries have one page.\<close>

lemma search_pages_single:
  assumes "\<not> exact_filter q" "\<not> full q st" "length rows \<le> page_size q"
  shows "search_pages E q db rows st = scan_page E q db rows st"
  using assms by (subst search_pages.simps) (auto simp: Let_def split: sum.split)

lemma search_pages_scan:
  "\<not> full q st \<Longrightarrow> search_pages E q db (candidate_rows E q db) st = scan_page E q db (candidate_rows E q db) st"
proof (cases "exact_filter q")
  case False
  assume "\<not> full q st"
  moreover have "\<not> structural_query q" using False by (auto simp: structural_query_def exact_work_def exact_filter_def)
  then have "length (candidate_rows E q db) \<le> page_size q" using False by (simp add: candidate_rows_def)
  ultimately show ?thesis using False by (simp add: search_pages_single)
qed (simp add: search_pages_exact)

section \<open>The first readable rows\<close>

text \<open>Of the rows that name the same target the first counts.\<close>

fun first_targets :: "(pystr \<times> pystr) list \<Rightarrow> search_row list \<Rightarrow> search_row list" where
  "first_targets seen [] = []"
| "first_targets seen (r # rows) =
     (if (rw_kind r, rw_target r) \<in> set seen then first_targets seen rows
      else r # first_targets ((rw_kind r, rw_target r) # seen) rows)"

definition readable_row :: "search_env \<Rightarrow> search_query \<Rightarrow> queue_db \<Rightarrow> search_row \<Rightarrow> bool" where
  "readable_row E q db r \<longleftrightarrow> (\<exists>h. judge_row E q db r = Inr (Found h))"

definition considered :: "search_query \<Rightarrow> search_row list \<Rightarrow> search_row list" where
  "considered q rows = (if exact_filter q then first_targets [] rows else rows)"

lemma judge_row_hit: "judge_row E q db r = Inr (Found h) \<Longrightarrow> h = make_hit E q r"
  by (auto simp: judge_row_def split: if_splits sum.splits bool.splits prod.splits)

lemma readable_row_iff: "readable_row E q db r \<longleftrightarrow> judge_row E q db r = Inr (Found (make_hit E q r))"
  using judge_row_hit by (auto simp: readable_row_def)

lemma set_first_targets: "set (first_targets seen rows) \<subseteq> set rows"
  by (induction rows arbitrary: seen) auto

lemma note_hits: "ss_hits (note_verdict q v st) = ss_hits st @ (case v of Found h \<Rightarrow> [h] | _ \<Rightarrow> [])"
  by (simp add: note_verdict_def split: verdict.split)

lemma note_seen [simp]: "ss_seen (note_verdict q v st) = ss_seen st"
  by (simp add: note_verdict_def split: verdict.split)

text \<open>The rows a scan looks at, from a state on.\<close>

definition looked_at :: "search_query \<Rightarrow> search_state \<Rightarrow> search_row list \<Rightarrow> search_row list" where
  "looked_at q st rows = (if exact_filter q then first_targets (ss_seen st) rows else rows)"

lemma looked_at_Cons:
  "looked_at q st (r # rows) =
     (if exact_filter q \<and> (rw_kind r, rw_target r) \<in> set (ss_seen st) then looked_at q st rows
      else r # looked_at q (if exact_filter q then st\<lparr>ss_seen := (rw_kind r, rw_target r) # ss_seen st\<rparr> else st) rows)"
  by (simp add: looked_at_def)

lemma looked_at_note [simp]: "looked_at q (note_verdict q v st) rows = looked_at q st rows"
  by (simp add: looked_at_def)

lemma scan_page_hits:
  assumes "\<not> full q st" "scan_page E q db rows st = Inr st'"
  shows "ss_hits st' = ss_hits st @
    take (nat (sq_limit q) - length (ss_hits st)) (map (make_hit E q) (filter (readable_row E q db) (looked_at q st rows)))"
  using assms
proof (induction rows arbitrary: st)
  case Nil
  then show ?case by (simp add: looked_at_def)
next
  case (Cons r rows)
  show ?case
  proof (cases "exact_filter q \<and> (rw_kind r, rw_target r) \<in> set (ss_seen st)")
    case True
    then show ?thesis using Cons by (simp add: looked_at_Cons)
  next
    case False
    let ?st1 = "if exact_filter q then st\<lparr>ss_seen := (rw_kind r, rw_target r) # ss_seen st\<rparr> else st"
    obtain v where v: "judge_row E q db r = Inr v"
      using Cons.prems False by (auto simp: Let_def split: sum.splits)
    let ?st2 = "note_verdict q v ?st1"
    have nf1: "\<not> full q ?st1" and h1: "ss_hits ?st1 = ss_hits st"
      using Cons.prems(1) by (simp_all add: full_def)
    have look: "looked_at q st (r # rows) = r # looked_at q ?st1 rows" unfolding looked_at_Cons using False by (simp only: if_False)
    show ?thesis
    proof (cases v)
      case (Found h)
      then have rd: "readable_row E q db r" "h = make_hit E q r" using v judge_row_hit by (auto simp: readable_row_def)
      have h2: "ss_hits ?st2 = ss_hits st @ [h]" using Found h1 by (simp add: note_hits)
      have room: "length (ss_hits st) < nat (sq_limit q)" using Cons.prems(1) by (auto simp: full_def)
      show ?thesis
      proof (cases "full q ?st2")
        case True
        then have "st' = ?st2" using Cons.prems(2) False v Found by (auto simp: Let_def)
        moreover have "nat (sq_limit q) - length (ss_hits st) = 1" using True room h2 by (simp add: full_def)
        ultimately show ?thesis using look rd h2 by (simp add: take_Suc)
      next
        case more: False
        have "scan_page E q db rows ?st2 = Inr st'" using Cons.prems(2) False v more by (auto simp: Let_def)
        from Cons.IH [OF more this] have
          "ss_hits st' = (ss_hits st @ [h]) @ take (nat (sq_limit q) - Suc (length (ss_hits st)))
             (map (make_hit E q) (filter (readable_row E q db) (looked_at q ?st1 rows)))"
          unfolding h2 looked_at_note by simp
        moreover have "nat (sq_limit q) - length (ss_hits st) = Suc (nat (sq_limit q) - Suc (length (ss_hits st)))"
          using room by simp
        ultimately show ?thesis unfolding look using rd by (simp del: take_map)
      qed
    next
      case Passed_over
      then have "\<not> readable_row E q db r" using v by (simp add: readable_row_def)
      moreover have "scan_page E q db rows ?st2 = Inr st'" using Cons.prems(2) False v Passed_over by (auto simp: Let_def)
      moreover have "ss_hits ?st2 = ss_hits st" "\<not> full q ?st2" using Passed_over h1 nf1 by (simp_all add: note_hits full_def)
      ultimately show ?thesis using Cons.IH [of ?st2] look by simp
    next
      case (Hidden reason)
      then have "\<not> readable_row E q db r" using v by (simp add: readable_row_def)
      moreover have "scan_page E q db rows ?st2 = Inr st'" using Cons.prems(2) False v Hidden by (auto simp: Let_def)
      moreover have "ss_hits ?st2 = ss_hits st" "\<not> full q ?st2" using Hidden h1 nf1 by (simp_all add: note_hits full_def)
      ultimately show ?thesis using Cons.IH [of ?st2] look by simp
    qed
  qed
qed


lemma full_start: "full q no_search \<longleftrightarrow> sq_limit q \<le> 0"
  by (simp add: full_def no_search_def)

definition best_rows :: "search_env \<Rightarrow> search_query \<Rightarrow> queue_db \<Rightarrow> search_row list" where
  "best_rows E q db =
     take (nat (sq_limit q)) (filter (readable_row E q db) (considered q (candidate_rows E q db)))"

lemma search_hits:
  assumes "search_index_entries E q db = Inr res" "sq_tokens q \<noteq> [] \<or> structural_query q"
  shows "res_hits res = sort_key hit_rank (map (make_hit E q) (best_rows E q db))"
proof (cases "full q no_search")
  case True
  then have "search_pages E q db rows no_search = Inr no_search" for rows by (simp add: search_pages.simps)
  then have "res_hits res = []" using assms(1) by (auto simp: search_index_entries_def no_search_def split: if_splits)
  moreover have "nat (sq_limit q) = 0" using True by (simp add: full_start)
  ultimately show ?thesis by (simp add: best_rows_def)
next
  case False
  obtain st where st: "search_pages E q db (candidate_rows E q db) no_search = Inr st"
    "res_hits res = sort_key hit_rank (ss_hits st)"
    using assms by (auto simp: search_index_entries_def split: sum.splits)
  have "scan_page E q db (candidate_rows E q db) no_search = Inr st"
    using st(1) search_pages_scan [OF False] by simp
  from scan_page_hits [OF False this] show ?thesis
    using st(2) by (simp add: best_rows_def considered_def looked_at_def no_search_def take_map)
qed

lemma search_without_words:
  "search_index_entries E q db = Inr res \<Longrightarrow> sq_tokens q = [] \<Longrightarrow> \<not> structural_query q \<Longrightarrow> res_hits res = []"
  by (auto simp: search_index_entries_def)

lemma search_hit_row:
  assumes "search_index_entries E q db = Inr res" "h \<in> set (res_hits res)"
  obtains r where "r \<in> set (candidate_rows E q db)" "readable_row E q db r" "h = make_hit E q r"
proof (cases "sq_tokens q \<noteq> [] \<or> structural_query q")
  case True
  then have "h \<in> make_hit E q ` set (best_rows E q db)" using assms search_hits [OF assms(1)] by simp
  then obtain r where "r \<in> set (best_rows E q db)" "h = make_hit E q r" by blast
  moreover have "set (best_rows E q db) \<subseteq> set (filter (readable_row E q db) (considered q (candidate_rows E q db)))"
    unfolding best_rows_def by (rule set_take_subset)
  moreover have "set (considered q rows) \<subseteq> set rows" for rows
    by (simp add: considered_def set_first_targets)
  ultimately show ?thesis using that by force
next
  case False
  then show ?thesis using assms search_without_words by force
qed

section \<open>What a hit has passed\<close>

definition live_item :: "queue_db \<Rightarrow> pystr \<Rightarrow> source_item \<Rightarrow> bool" where
  "live_item db k i \<longleftrightarrow> get_source db k = Some i \<and> i_forgotten_at i = None"

definition live_memory :: "queue_db \<Rightarrow> pystr \<Rightarrow> memory_object \<Rightarrow> bool" where
  "live_memory db k m \<longleftrightarrow> get_memory db k = Some m \<and> mo_lifecycle m \<in> {[], u ''active''} \<and> mo_is_soft_deleted m = 0"

definition sees_item :: "search_query \<Rightarrow> source_item \<Rightarrow> bool" where
  "sees_item q i \<longleftrightarrow>
     is_visible (Some (text_or (u ''private'') (i_visibility i))) (i_container_ref i) (i_actor_ref i)
       (sq_container q) (sq_visibility q) (sq_actor q)"

definition sees_memory :: "search_query \<Rightarrow> memory_object \<Rightarrow> bool" where
  "sees_memory q m \<longleftrightarrow>
     is_visible (Some (text_or (u ''private'') (mo_visibility m))) (memory_container (view_memory m)) (mo_actor_ref m)
       (sq_container q) (sq_visibility q) (sq_actor q)"

definition item_filtered :: "search_env \<Rightarrow> search_query \<Rightarrow> source_item \<Rightarrow> bool" where
  "item_filtered E q i \<longleftrightarrow>
     (case sq_filters q of None \<Rightarrow> True | Some f \<Rightarrow> item_matches_filters (se_casefold E) (se_redact E) i f)"

definition memory_filtered :: "search_query \<Rightarrow> queue_db \<Rightarrow> memory_object \<Rightarrow> bool" where
  "memory_filtered q db m \<longleftrightarrow> \<not> actor_excluded (sq_filters q) (view_memory m)
     \<and> (case sq_filters q of None \<Rightarrow> True | Some f \<Rightarrow> memory_matches_filters db (view_memory m) f)"

lemma item_view_simps [simp]:
  "i_id (item_view i) = i_id i" "i_forgotten_at (item_view i) = i_forgotten_at i"
  "i_container_ref (item_view i) = i_container_ref i" "i_actor_ref (item_view i) = i_actor_ref i"
  by (simp_all add: item_view_def)

lemma text_or_again [simp]: "d \<noteq> [] \<Longrightarrow> text_or d (Some (text_or d v)) = text_or d v"
  by (simp add: text_or_def split: option.split)

lemma filters_of_view [simp]:
  "item_matches_filters cf redact (item_view i) f \<longleftrightarrow> item_matches_filters cf redact i f"
proof -
  have "item_work_refs cf redact (item_view i) = item_work_refs cf redact i"
    by (simp add: item_work_refs_def item_view_def source_metadata_def)
  then show ?thesis
    by (simp add: item_matches_filters_def text_or_view) (simp add: item_view_def)
qed

lemma view_memory_simps [simp]:
  "mv_actor_ref (view_memory m) = mo_actor_ref m" "mv_visibility (view_memory m) = text_or (u ''private'') (mo_visibility m)"
  "mv_lifecycle (view_memory m) = u ''active'' \<longleftrightarrow> mo_lifecycle m \<in> {[], u ''active''}"
  "mv_is_soft_deleted (view_memory m) \<longleftrightarrow> mo_is_soft_deleted m \<noteq> 0" "mv_id (view_memory m) = mo_id m"
  by (auto simp: view_memory_def)

text \<open>A row passes exactly if it scores and its target is live, wanted and seen.\<close>

lemma readable_item:
  assumes "rw_kind r = u ''source_item''"
  shows "readable_row E q db r \<longleftrightarrow> (structural_query q \<or> rw_bm25 r \<le> 0)
    \<and> (\<exists>i. live_item db (rw_target r) i \<and> item_filtered E q i \<and> sees_item q i)"
  unfolding readable_row_def judge_row_def matches_filters_def target_visibility_def read_source_item_def assms
    live_item_def item_filtered_def sees_item_def
  by (auto simp: text_or_view split: option.splits sum.splits bool.splits if_splits)

lemma readable_memory:
  assumes "rw_kind r = u ''memory_object''"
  shows "readable_row E q db r \<longleftrightarrow> (structural_query q \<or> rw_bm25 r \<le> 0)
    \<and> (\<exists>m. live_memory db (rw_target r) m \<and> memory_filtered q db m \<and> sees_memory q m)"
  unfolding readable_row_def judge_row_def matches_filters_def target_visibility_def get_memory_object_def assms
    live_memory_def memory_filtered_def sees_memory_def
  by (auto split: option.splits sum.splits bool.splits if_splits)

lemma readable_other:
  assumes "rw_kind r \<noteq> u ''source_item''" "rw_kind r \<noteq> u ''memory_object''"
  shows "readable_row E q db r \<longleftrightarrow> (structural_query q \<or> rw_bm25 r \<le> 0) \<and> sq_container q = None"
  using assms unfolding readable_row_def judge_row_def matches_filters_def target_visibility_def
  by (auto simp: is_visible_def)

section \<open>Searches that raise\<close>

definition fts_law :: "search_env \<Rightarrow> bool" where
  "fts_law E \<longleftrightarrow> (\<forall>expr rows. fst ` set (se_fts E expr rows) \<subseteq> set rows)"

lemma judge_row_known:
  assumes "known (rw_kind r) (rw_target r) db"
  shows "\<exists>v. judge_row E q db r = Inr v"
  using assms
  by (auto simp: known_def judge_row_def matches_filters_def target_visibility_def read_source_item_def
      get_memory_object_def split: option.splits sum.splits bool.splits)

lemma scan_page_succeeds:
  "list_all (\<lambda>r. known (rw_kind r) (rw_target r) db) rows \<Longrightarrow> \<exists>st'. scan_page E q db rows st = Inr st'"
proof (induction rows arbitrary: st)
  case (Cons r rows)
  then obtain v where "judge_row E q db r = Inr v" using judge_row_known [of r db E q] by auto
  then show ?case using Cons by (auto simp: Let_def)
qed simp

lemma fts_row_known:
  assumes "queue_inv db" "\<forall>e\<in>set (q_index db). known (ix_target_kind e) (ix_target_id e) db" "f \<in> set (q_fts db)"
  shows "known (ft_target_kind f) (ft_target_id f) db"
proof -
  have "fts_copy f \<in># image_mset fts_copy (mset (q_fts db))" using assms(3) by simp
  also have "image_mset fts_copy (mset (q_fts db)) = image_mset entry_copy (mset (lexical_entries db))"
    using assms(1) by (simp add: queue_inv_def)
  finally obtain e where "e \<in> set (q_index db)" "fts_copy f = entry_copy e" by (auto simp: lexical_entries_def)
  then show ?thesis using assms(2) by (auto simp: fts_copy_def entry_copy_def)
qed

lemma candidate_known:
  assumes "queue_inv db" "\<forall>e\<in>set (q_index db). known (ix_target_kind e) (ix_target_id e) db" "fts_law E"
  shows "list_all (\<lambda>r. known (rw_kind r) (rw_target r) db) (candidate_rows E q db)"
proof -
  have fts: "known (rw_kind r) (rw_target r) db" if "r \<in> set (fts_rows E q db)" for r
  proof -
    from that obtain f score where r: "r = fts_search_row (f, score)"
      and "(f, score) \<in> set (se_fts E (match_expr (sq_tokens q)) (q_fts db))"
      by (auto simp: fts_rows_def Let_def split: if_splits)
    then have "f \<in> set (q_fts db)" using assms(3) by (force simp: fts_law_def)
    then show ?thesis using fts_row_known [OF assms(1,2)] r by (simp add: fts_search_row_def)
  qed
  have "known (rw_kind r) (rw_target r) db" if "r \<in> set (work_history_rows q db)" for r
    using that by (auto simp: work_history_rows_def work_history_row_def known_def row_get_None_iff)
  then show ?thesis
    using fts by (auto simp: list_all_iff candidate_rows_def dest: in_set_takeD)
qed

lemma search_succeeds:
  assumes "queue_inv db" "\<forall>e\<in>set (q_index db). known (ix_target_kind e) (ix_target_id e) db" "fts_law E"
  shows "\<exists>res. search_index_entries E q db = Inr res"
proof (cases "full q no_search")
  case True
  then show ?thesis by (simp add: search_index_entries_def search_pages.simps)
next
  case False
  obtain st where "scan_page E q db (candidate_rows E q db) no_search = Inr st"
    using scan_page_succeeds [OF candidate_known [OF assms]] by blast
  then show ?thesis using search_pages_scan [OF False] by (simp add: search_index_entries_def)
qed

end
