(* ===== verification/Search_Guarantees.thy ===== *)
theory Search_Guarantees
  imports Search_Facts Queue_Example
begin

text \<open>
  What holds of lexical search, of the report of missing attribution, and of the envelopes of memory
  objects, with their witnesses on a small library of items and objects.
\<close>

section \<open>A small library\<close>

definition ex_text :: text_env where
  "ex_text = \<lparr>tx_nfkd = (\<lambda>s. s), tx_combining = (\<lambda>_. False), tx_lower = (\<lambda>s. s), tx_alnum = (\<lambda>c. 97 \<le> c \<and> c \<le> 122)\<rparr>"

definition ex_search_env :: search_env where
  "ex_search_env = \<lparr>se_text = ex_text, se_casefold = (\<lambda>c. [c]), se_redact = (\<lambda>s. s),
     se_fts = (\<lambda>expr rows. map (\<lambda>r. (r, - 1)) rows)\<rparr>"

definition ex_filters :: query_filters where
  "ex_filters = \<lparr>qf_source_type = None, qf_role = None, qf_artifact_kind = None, qf_container_ref = None,
     qf_thread_ref = None, qf_actor_ref = None, qf_work_refs = [], qf_relay_name = None\<rparr>"

definition ex_query :: search_query where
  "ex_query = \<lparr>sq_tokens = [u ''plan''], sq_limit = 2, sq_filters = None, sq_container = Some [99],
     sq_visibility = None, sq_actor = None, sq_trace = True, sq_target_kind = None\<rparr>"

definition ex_work_query :: search_query where
  "ex_work_query = ex_query\<lparr>sq_tokens := [], sq_filters := Some (ex_filters\<lparr>qf_work_refs := [u ''w'']\<rparr>),
     sq_target_kind := Some (u ''source_item'')\<rparr>"

definition ex_tagged :: "nat \<Rightarrow> source_item" where
  "ex_tagged n = (ex_item n)\<lparr>i_metadata := Some [(u ''pallium_work_refs'', JList [JText (u ''w'')])],
     i_visibility := Some (u ''private''), i_relay_attribution_state := u ''unknown''\<rparr>"

definition ex_line :: "nat \<Rightarrow> index_entry" where
  "ex_line n = \<lparr>ix_id = [n, 0], ix_target_kind = u ''source_item'', ix_target_id = [n], ix_index_type = u ''lexical'',
     ix_text_view = u ''plan'', ix_text_view_name = None, ix_provider_name = None, ix_provider_version = None\<rparr>"

definition ex_library :: queue_db where
  "ex_library = empty_queue\<lparr>q_items := [ex_tagged 1, (ex_tagged 2)\<lparr>i_forgotten_at := Some 5\<rparr>, ex_tagged 3],
     q_work_refs := [([1], u ''w''), ([2], u ''w''), ([3], u ''w'')],
     q_index := [ex_line 1, ex_line 2, ex_line 3],
     q_fts := map (\<lambda>n. fts_of (ex_line n) (Some [99])) [1, 2, 3]\<rparr>"


lemma ex_library_intact:
  "queue_inv ex_library" "\<forall>e\<in>set (q_index ex_library). known (ix_target_kind e) (ix_target_id e) ex_library"
  "fts_law ex_search_env"
proof -
  show "queue_inv ex_library" by code_simp
  show "\<forall>e\<in>set (q_index ex_library). known (ix_target_kind e) (ix_target_id e) ex_library"
    by (simp add: ex_library_def ex_line_def ex_tagged_def ex_item_def known_def row_get_Cons)
  show "fts_law ex_search_env" by (auto simp: fts_law_def ex_search_env_def)
qed

section \<open>Search\<close>

text \<open>C17: a search in a container returns no more hits than asked for, and each is a live row its asker may
  read: a source item that was not forgotten, or a memory object that is active and not deleted, which
  is the asker's own global row, or public and owned by nobody, or of the same container and not kept
  from a query that speaks for the public or, when private, for the container.\<close>

theorem search_shows_only_readable:
  assumes "search_index_entries E q db = Inr res" "sq_container q = Some c"
  shows "length (res_hits res) \<le> nat (sq_limit q)
    \<and> (\<forall>h\<in>set (res_hits res).
         (hit_kind h = u ''source_item''
          \<and> (\<exists>i. get_source db (hit_target h) = Some i \<and> i_forgotten_at i = None
                \<and> may_read (Some (text_or (u ''private'') (i_visibility i))) (i_container_ref i) (i_actor_ref i)
                    c (sq_visibility q) (sq_actor q)))
       \<or> (hit_kind h = u ''memory_object''
          \<and> (\<exists>m. get_memory db (hit_target h) = Some m \<and> mo_lifecycle m \<in> {[], u ''active''} \<and> mo_is_soft_deleted m = 0
                \<and> may_read (Some (text_or (u ''private'') (mo_visibility m))) (memory_container (view_memory m))
                    (mo_actor_ref m) c (sq_visibility q) (sq_actor q))))"
proof (intro conjI ballI)
  show "length (res_hits res) \<le> nat (sq_limit q)"
    using search_hits [OF assms(1)] search_without_words [OF assms(1)]
    by (cases "sq_tokens q \<noteq> [] \<or> structural_query q") (auto simp: best_rows_def)
next
  fix h assume "h \<in> set (res_hits res)"
  then obtain r where r: "readable_row E q db r" "h = make_hit E q r"
    using search_hit_row [OF assms(1)] by blast
  consider "rw_kind r = u ''source_item''" | "rw_kind r = u ''memory_object''"
    using r(1) readable_other assms(2) by fastforce
  then show "(hit_kind h = u ''source_item''
          \<and> (\<exists>i. get_source db (hit_target h) = Some i \<and> i_forgotten_at i = None
                \<and> may_read (Some (text_or (u ''private'') (i_visibility i))) (i_container_ref i) (i_actor_ref i)
                    c (sq_visibility q) (sq_actor q)))
       \<or> (hit_kind h = u ''memory_object''
          \<and> (\<exists>m. get_memory db (hit_target h) = Some m \<and> mo_lifecycle m \<in> {[], u ''active''} \<and> mo_is_soft_deleted m = 0
                \<and> may_read (Some (text_or (u ''private'') (mo_visibility m))) (memory_container (view_memory m))
                    (mo_actor_ref m) c (sq_visibility q) (sq_actor q)))"
  proof cases
    case 1
    then show ?thesis using r readable_item [OF 1, of E q db] assms(2)
      by (auto simp: make_hit_def live_item_def sees_item_def is_visible_iff)
  next
    case 2
    then show ?thesis using r readable_memory [OF 2, of E q db] assms(2)
      by (auto simp: make_hit_def live_memory_def sees_memory_def is_visible_iff)
  qed
qed

theorem search_shows_only_readable_witness:
  "\<exists>res. search_index_entries ex_search_env ex_query ex_library = Inr res \<and> length (res_hits res) \<le> 2"
proof -
  obtain res where "search_index_entries ex_search_env ex_query ex_library = Inr res"
    using search_succeeds [OF ex_library_intact] by blast
  from this search_shows_only_readable [OF this, of "[99]"] show ?thesis by (auto simp: ex_query_def)
qed

text \<open>C18: the loop over pages is the plain search: of the candidate rows, best score first and for exact
  queries every target once, the hits are the first readable ones up to the limit, however the rows
  fall into pages. Exact queries look at every row of the index, others only at one page of it.\<close>

theorem search_takes_first_readable:
  assumes "search_index_entries E q db = Inr res" "sq_tokens q \<noteq> [] \<or> structural_query q"
  shows "res_hits res = sort_key hit_rank (map (make_hit E q) (take (nat (sq_limit q))
    (filter (\<lambda>r. (structural_query q \<or> rw_bm25 r \<le> 0)
        \<and> (if rw_kind r = u ''source_item'' then \<exists>i. live_item db (rw_target r) i \<and> item_filtered E q i \<and> sees_item q i
           else if rw_kind r = u ''memory_object''
           then \<exists>m. live_memory db (rw_target r) m \<and> memory_filtered q db m \<and> sees_memory q m
           else sq_container q = None))
      (if exact_filter q then first_targets [] (candidate_rows E q db) else candidate_rows E q db))))"
proof -
  have "readable_row E q db = (\<lambda>r. (structural_query q \<or> rw_bm25 r \<le> 0)
      \<and> (if rw_kind r = u ''source_item'' then \<exists>i. live_item db (rw_target r) i \<and> item_filtered E q i \<and> sees_item q i
         else if rw_kind r = u ''memory_object''
         then \<exists>m. live_memory db (rw_target r) m \<and> memory_filtered q db m \<and> sees_memory q m
         else sq_container q = None))" (is "_ = ?P")
  proof
    show "readable_row E q db r = ?P r" for r
      using readable_item [of r E q db] readable_memory [of r E q db] readable_other [of r E q db] by simp
  qed
  then show ?thesis
    using search_hits [OF assms] unfolding best_rows_def considered_def by (simp only:)
qed

theorem search_takes_first_readable_witness:
  "\<exists>res. search_index_entries ex_search_env ex_query ex_library = Inr res
     \<and> sorted (map hit_rank (res_hits res))"
proof -
  obtain res where res: "search_index_entries ex_search_env ex_query ex_library = Inr res"
    using search_succeeds [OF ex_library_intact] by blast
  have "sq_tokens ex_query \<noteq> [] \<or> structural_query ex_query" by (simp add: ex_query_def)
  from search_takes_first_readable [OF res this] have "sorted (map hit_rank (res_hits res))"
    by (simp only: sorted_sort_key)
  then show ?thesis using res by blast
qed

text \<open>C19: the history of a work reference is complete: a search for work references without words
  returns the source items that carry one of them, newest first, leaving out only those that were
  forgotten, filtered out or not for the asker, up to the limit.\<close>

theorem work_history_newest_first:
  assumes "search_index_entries E q db = Inr res" "structural_query q" "distinct (map i_id (q_items db))"
  shows "map hit_target (res_hits res) =
    take (nat (sq_limit q)) (map i_id (filter (\<lambda>i. i_forgotten_at i = None \<and> item_filtered E q i \<and> sees_item q i)
      (rev (sort_key (\<lambda>i. (effective_time i, i_id i)) (filter (\<lambda>i. has_work_ref db (filter_work_refs q) (i_id i)) (q_items db))))))"
proof -
  let ?L = "rev (sort_key (\<lambda>i. (effective_time i, i_id i)) (filter (\<lambda>i. has_work_ref db (filter_work_refs q) (i_id i)) (q_items db)))"
  have ids: "distinct (map i_id ?L)" "set ?L \<subseteq> set (q_items db)"
    using assms(3) by (auto simp: distinct_map inj_on_def)
  have first: "first_targets seen (map work_history_row is) = map work_history_row is"
    if "distinct (map i_id is)" "snd ` set seen \<inter> i_id ` set is = {}" for seen "is"
    using that by (induction "is" arbitrary: seen) (force simp: work_history_row_def)+
  have "readable_row E q db (work_history_row i) \<longleftrightarrow> i_forgotten_at i = None \<and> item_filtered E q i \<and> sees_item q i"
    if "i \<in> set ?L" for i
    using that ids(2) row_get_distinct [OF assms(3), of i] assms(2)
    by (auto simp: readable_item work_history_row_def live_item_def)
  then have "filter (\<lambda>i. readable_row E q db (work_history_row i)) ?L =
      filter (\<lambda>i. i_forgotten_at i = None \<and> item_filtered E q i \<and> sees_item q i) ?L"
    by (rule filter_cong [OF refl])
  moreover have "exact_filter q" "candidate_rows E q db = map work_history_row ?L"
    using assms(2) by (simp_all add: structural_query_def exact_work_def exact_filter_def candidate_rows_def work_history_rows_def)
  ultimately have best: "best_rows E q db = map work_history_row
      (take (nat (sq_limit q)) (filter (\<lambda>i. i_forgotten_at i = None \<and> item_filtered E q i \<and> sees_item q i) ?L))"
    using first [OF ids(1), of "[]"]
    by (simp add: best_rows_def considered_def filter_map comp_def take_map)
  have "sorted (map hit_rank (map (make_hit E q) (map work_history_row is)))" for "is"
    by (induction "is") (auto simp: hit_rank_def make_hit_def work_history_row_def)
  then have "res_hits res = map (make_hit E q) (best_rows E q db)"
    using search_hits [OF assms(1)] assms(2) unfolding best by (simp only: sort_key_id_if_sorted simp_thms)
  then show ?thesis unfolding best by (simp add: make_hit_def work_history_row_def comp_def take_map)
qed

lemma ex_library_history:
  "rev (sort_key (\<lambda>i. (effective_time i, i_id i))
     (filter (\<lambda>i. has_work_ref ex_library (filter_work_refs ex_work_query) (i_id i)) (q_items ex_library)))
   = [ex_tagged 3, (ex_tagged 2)\<lparr>i_forgotten_at := Some 5\<rparr>, ex_tagged 1]"
  by (simp add: ex_library_def ex_work_query_def ex_filters_def filter_work_refs_def has_work_ref_def ex_tagged_def
      ex_item_def effective_time_def ex_query_def)

lemma ex_tagged_passes: "item_filtered ex_search_env ex_work_query (ex_tagged n)" "sees_item ex_work_query (ex_tagged n)"
proof -
  have "item_work_refs (\<lambda>c. [c]) (\<lambda>s. s) (ex_tagged n) = item_work_refs (\<lambda>c. [c]) (\<lambda>s. s) (ex_tagged 1)"
    by (simp add: item_work_refs_def ex_tagged_def source_metadata_def)
  also have "\<dots> = [u ''w'']" by code_simp
  finally show "item_filtered ex_search_env ex_work_query (ex_tagged n)"
    by (simp add: item_filtered_def item_matches_filters_def ex_search_env_def ex_work_query_def ex_filters_def
        wants_def within_container_def)
  show "sees_item ex_work_query (ex_tagged n)"
    by (simp add: sees_item_def ex_work_query_def ex_query_def ex_tagged_def ex_item_def is_visible_def text_or_def)
qed

theorem work_history_newest_first_witness:
  "\<exists>res. search_index_entries ex_search_env ex_work_query ex_library = Inr res \<and> map hit_target (res_hits res) = [[3], [1]]"
proof -
  obtain res where res: "search_index_entries ex_search_env ex_work_query ex_library = Inr res"
    using search_succeeds [OF ex_library_intact] by blast
  have "structural_query ex_work_query" "distinct (map i_id (q_items ex_library))" by code_simp+
  note found = work_history_newest_first [OF res this, unfolded ex_library_history]
  let ?P = "\<lambda>i. i_forgotten_at i = None \<and> item_filtered ex_search_env ex_work_query i \<and> sees_item ex_work_query i"
  have here: "?P (ex_tagged n)" "i_id (ex_tagged n) = [n]" for n
    using ex_tagged_passes by (simp_all add: ex_tagged_def ex_item_def)
  have "\<not> ?P ((ex_tagged 2)\<lparr>i_forgotten_at := Some 5\<rparr>)" by simp
  then have "filter ?P [ex_tagged 3, (ex_tagged 2)\<lparr>i_forgotten_at := Some 5\<rparr>, ex_tagged 1] = [ex_tagged 3, ex_tagged 1]"
    by (simp only: filter.simps here if_True if_False simp_thms)
  note history = this
  have two: "nat (sq_limit ex_work_query) = Suc (Suc 0)" by (simp add: ex_work_query_def ex_query_def)
  have "map hit_target (res_hits res) = [[3], [1]]"
    unfolding found history two by (simp only: list.map here take_Suc_Cons take_Nil)
  with res show ?thesis by (intro exI conjI)
qed



section \<open>Missing attribution\<close>

text \<open>The report of missing attribution counts a row exactly if it has a visibility and \<open>is_visible\<close>
  shows it; a row without one, which the column allows, is left out even where a reader, to whom it is
  private, sees it.\<close>

theorem attribution_mirrors_visibility:
  "has_incomplete_source_attribution db q \<longleftrightarrow>
     (\<exists>i\<in>set (q_items db). attribution_matches db (aq_filters q) i \<and> i_visibility i \<noteq> None
        \<and> is_visible (i_visibility i) (i_container_ref i) (i_actor_ref i)
            (Some (aq_container q)) (aq_visibility q) (aq_actor q))"
  by (auto simp: has_incomplete_source_attribution_def list_ex_iff attribution_visible_iff)

section \<open>Envelopes\<close>

text \<open>C29: writing an envelope to its column and reading it back gives the same envelope exactly if it is
  well formed, and the well-formed envelopes are just those that can be read at all.\<close>

theorem envelope_round_trip:
  "(load_envelope (Some (JObject (dump_envelope e))) = Some e) = envelope_ok e
    \<and> (\<exists>v. load_envelope v = Some e) = envelope_ok e"
  using load_dump load_envelope_ok by blast

end
