(* ===== verification/Retrieval_Text.thy ===== *)
theory Retrieval_Text
  imports Text_Tokens Python_Text "HOL-Library.Sublist" "HOL-Library.List_Lexorder"
begin

text \<open>
  The text of queries and of what they return (\<open>retrieval/lexical.py\<close>, \<open>retrieval/common.py\<close>): the
  tokens of a query with their plural variants, the excerpt of a source item around a match, and the
  fingerprint that tells equal contents. Case folding works character by character; NFKC and SHA-256
  are parameters.
\<close>

section \<open>Tokens of a query\<close>

definition ends_in :: "string list \<Rightarrow> pystr \<Rightarrow> bool" where
  "ends_in es t \<longleftrightarrow> list_ex (\<lambda>e. suffix (u e) t) es"

definition drop_last :: "nat \<Rightarrow> pystr \<Rightarrow> pystr" where
  "drop_last n t = take (length t - n) t"

definition token_variants :: "pystr \<Rightarrow> pystr list" where
  "token_variants t =
     (if \<not> list_all (\<lambda>c. c < 128) t then [t]
      else remdups (t #
        (if 4 < length t \<and> ends_in [''ies''] t then [drop_last 3 t @ u ''y'']
         else if 5 < length t \<and> ends_in [''es''] t \<and> \<not> ends_in [''ses'', ''xes'', ''zes''] t then [drop_last 2 t]
         else if 4 < length t \<and> ends_in [''s''] t \<and> \<not> ends_in [''ss'', ''us'', ''is'', ''ses'', ''xes'', ''zes''] t
         then [drop_last 1 t]
         else [])))"

definition expand_tokens :: "text_env \<Rightarrow> pystr \<Rightarrow> pystr list" where
  "expand_tokens T t = remdups (concat (map token_variants (tokenize_text T t)))"

definition tokenize_query :: "text_env \<Rightarrow> pystr \<Rightarrow> pystr list" where
  "tokenize_query T t = sort (remdups (expand_tokens T t))"

section \<open>Words\<close>

text \<open>\<open>str.split()\<close>.\<close>

function split_words :: "pystr \<Rightarrow> pystr list" where
  "split_words s =
     (case dropWhile py_isspace s of
        [] \<Rightarrow> []
      | c # r \<Rightarrow> (c # takeWhile (\<lambda>c. \<not> py_isspace c) r) # split_words (dropWhile (\<lambda>c. \<not> py_isspace c) r))"
  by pat_completeness auto
termination
proof (relation "measure length")
  fix s c r assume "dropWhile py_isspace s = c # r"
  then have "length (c # r) \<le> length s" by (metis length_dropWhile_le)
  then show "(dropWhile (\<lambda>c. \<not> py_isspace c) r, s) \<in> measure length"
    using length_dropWhile_le [of "\<lambda>c. \<not> py_isspace c" r] by simp
qed simp

declare split_words.simps [simp del]

definition single_spaced :: "pystr \<Rightarrow> pystr" where
  "single_spaced s = join_texts (u '' '') (split_words s)"

definition fold_case :: "(nat \<Rightarrow> pystr) \<Rightarrow> pystr \<Rightarrow> pystr" where
  "fold_case cf s = concat (map cf s)"

section \<open>Fingerprints\<close>

text \<open>A comma or full stop at the end of a word becomes a space.\<close>

fun soften :: "pystr \<Rightarrow> pystr" where
  "soften [] = []"
| "soften (c # s) =
     (if c \<in> {44, 46} \<and> (s = [] \<or> py_isspace (hd s)) then 32 else c) # soften s"

definition build_source_content_fingerprint ::
  "(nat \<Rightarrow> pystr) \<Rightarrow> (pystr \<Rightarrow> pystr) \<Rightarrow> (pystr \<Rightarrow> pystr) \<Rightarrow> pystr \<Rightarrow> pystr option" where
  "build_source_content_fingerprint cf nfkc digest content =
     (let normalized = single_spaced (soften (fold_case cf (nfkc content)))
      in if length normalized < 24 \<or> length (split_words normalized) < 4 then None else Some (digest normalized))"

section \<open>Excerpts\<close>

text \<open>\<open>str.find\<close>, with None for -1.\<close>

fun find_text :: "pystr \<Rightarrow> pystr \<Rightarrow> nat option" where
  "find_text needle [] = (if needle = [] then Some 0 else None)"
| "find_text needle (c # s) =
     (if prefix needle (c # s) then Some 0 else map_option Suc (find_text needle s))"

text \<open>\<open>s[:n]\<close>: a negative bound counts from the end.\<close>

definition first_chars :: "int \<Rightarrow> pystr \<Rightarrow> pystr" where
  "first_chars n s = take (nat (if n < 0 then int (length s) + n else n)) s"

definition rstrip :: "pystr \<Rightarrow> pystr" where
  "rstrip s = rev (dropWhile py_isspace (rev s))"

text \<open>The index in the text of what stands at an offset of its folded form.\<close>

fun unfold_offset :: "(nat \<Rightarrow> pystr) \<Rightarrow> nat \<Rightarrow> nat \<Rightarrow> nat \<Rightarrow> pystr \<Rightarrow> nat" where
  "unfold_offset cf target offset index [] = index"
| "unfold_offset cf target offset index (c # s) =
     (if target \<le> offset then index else unfold_offset cf target (offset + length (cf c)) (Suc index) s)"

definition match_positions :: "(nat \<Rightarrow> pystr) \<Rightarrow> pystr \<Rightarrow> pystr \<Rightarrow> nat list" where
  "match_positions cf normalized query =
     List.map_filter (\<lambda>t. find_text (fold_case cf t) (fold_case cf normalized)) (split_words (single_spaced query))"

definition excerpt_at :: "int \<Rightarrow> nat \<Rightarrow> pystr \<Rightarrow> pystr" where
  "excerpt_at max_length pos normalized =
     (let left = max 0 (min (int pos - max_length div 3) (int (length normalized) - max_length));
          right = min (int (length normalized)) (left + max_length);
          before = (if left \<noteq> 0 then u ''...'' else []);
          after = (if right < int (length normalized) then u ''...'' else []);
          body = drop (nat left) (take (nat right) normalized);
          room = max_length - int (length before) - int (length after)
      in before @ first_chars room body @ after)"

definition max_excerpt_length :: int where
  "max_excerpt_length = 160"

definition build_excerpt :: "(nat \<Rightarrow> pystr) \<Rightarrow> int \<Rightarrow> pystr option \<Rightarrow> pystr \<Rightarrow> pystr" where
  "build_excerpt cf max_length query content =
     (let normalized = single_spaced content; plain = rstrip (first_chars (max_length - 3) normalized) @ u ''...''
      in if int (length normalized) \<le> max_length then normalized
         else
           (case query of
              None \<Rightarrow> plain
            | Some t \<Rightarrow>
                (case match_positions cf normalized t of
                   [] \<Rightarrow> plain
                 | p # ps \<Rightarrow>
                     excerpt_at max_length (unfold_offset cf (Min (set (p # ps))) 0 0 normalized) normalized)))"

section \<open>Facts\<close>

lemma length_first_chars: "0 \<le> n \<Longrightarrow> int (length (first_chars n s)) \<le> n"
  by (simp add: first_chars_def)

lemma length_rstrip: "length (rstrip s) \<le> length s"
  using length_dropWhile_le [of py_isspace "rev s"] by (simp add: rstrip_def)

lemma length_excerpt_at: "6 \<le> max_length \<Longrightarrow> int (length (excerpt_at max_length pos s)) \<le> max_length"
  using length_first_chars [of "max_length - 6"] length_first_chars [of "max_length - 3"] length_first_chars [of max_length]
  by (simp add: excerpt_at_def Let_def) (smt (verit) length_first_chars)

lemma length_build_excerpt:
  assumes "6 \<le> max_length"
  shows "int (length (build_excerpt cf max_length query content)) \<le> max_length"
proof -
  have "3 + int (length (rstrip (first_chars (max_length - 3) s))) \<le> max_length" for s
    using assms length_rstrip [of "first_chars (max_length - 3) s"] length_first_chars [of "max_length - 3" s] by linarith
  then show ?thesis
    using assms length_excerpt_at by (auto simp: build_excerpt_def Let_def split: option.split list.split)
qed

lemma excerpt_near_end:
  assumes "6 \<le> m" "m < int (length s)" "int (length s) - m \<le> int pos - m div 3"
  shows "excerpt_at m pos s = u ''...'' @ take (nat (m - 3)) (drop (length s - nat m) s)"
proof -
  have "max 0 (min (int pos - m div 3) (int (length s) - m)) = int (length s) - m" using assms by simp
  moreover have "nat (int (length s) - m) = length s - nat m" using assms by linarith
  ultimately show ?thesis using assms by (simp add: excerpt_at_def first_chars_def Let_def)
qed

text \<open>A query finds at least what its own tokens would find, and every token it adds is a singular.\<close>

lemma token_variants_self: "t \<in> set (token_variants t)"
  by (simp add: token_variants_def)

lemma set_tokenize_query: "set (tokenize_query T t) = (\<Union>x\<in>set (tokenize_text T t). set (token_variants x))"
  by (auto simp: tokenize_query_def expand_tokens_def)

end
