(* ===== verification/Curation_Store.thy ===== *)
theory Curation_Store
  imports Memory_Visibility Retention_Pass
begin

text \<open>
  Memory that is written and judged by hand (\<open>storage/sqlite.py\<close>): creating memory objects, replacing
  and correcting them, soft deletion, forgetting source items, flags, relations and index entries, and
  the lists readers get. A definition is one transaction: it raises and leaves the store alone, or it
  commits. A column of the database that the operations leave out keeps its value.
\<close>

section \<open>Outcomes\<close>

datatype curation_error = StoreError queue_error | SupersessionConflict pystr

type_synonym 'a curation_outcome = "(retention_db, curation_error, 'a) outcome"

text \<open>A transaction on history and memory: commit its result, or roll back.\<close>

definition commit_queue :: "(queue_db \<Rightarrow> queue_db queue_result) \<Rightarrow> retention_db \<Rightarrow> unit curation_outcome" where
  "commit_queue f db =
     (case f (rt_queue db) of
        Inl e \<Rightarrow> (Inl (StoreError e), db)
      | Inr q \<Rightarrow> (Inr (), db\<lparr>rt_queue := q\<rparr>))"

text \<open>\<open>session.get\<close> and a \<open>KeyError\<close> without a row, before the row is changed.\<close>

definition change_memory :: "pystr \<Rightarrow> (memory_object \<Rightarrow> memory_object) \<Rightarrow> queue_db \<Rightarrow> queue_db queue_result" where
  "change_memory k f q =
     (case get_memory q k of None \<Rightarrow> Inl (MissingRow k) | Some _ \<Rightarrow> Inr (upd_memory k f q))"

section \<open>Memory objects\<close>

text \<open>\<open>_memory_object_record\<close>; without an origin the server default counts.\<close>

definition memory_object_record :: "memory_env \<Rightarrow> memory_input \<Rightarrow> pystr option \<Rightarrow> memory_object" where
  "memory_object_record E m origin =
     (memory_row E m)\<lparr>mo_origin := Some (case origin of None \<Rightarrow> u ''agent_inferred'' | Some t \<Rightarrow> t)\<rparr>"

definition add_memory :: "memory_object \<Rightarrow> queue_db \<Rightarrow> queue_db queue_result" where
  "add_memory m q =
     (case insert_rows mo_id [m] (q_memories q) of
        Inl e \<Rightarrow> Inl e | Inr memories \<Rightarrow> Inr (q\<lparr>q_memories := memories\<rparr>))"

definition create_memory_object ::
  "memory_env \<Rightarrow> memory_input \<Rightarrow> pystr option \<Rightarrow> retention_db \<Rightarrow> unit curation_outcome" where
  "create_memory_object E m origin = commit_queue (add_memory (memory_object_record E m origin))"

text \<open>A lexical entry that cannot be stored breaks the transaction; another one is left out.\<close>

fun add_explicit_entries :: "index_entry list \<Rightarrow> queue_db \<Rightarrow> queue_db queue_result" where
  "add_explicit_entries [] q = Inr q"
| "add_explicit_entries (e # es) q =
     (case insert_index [e] q of
        Inr q1 \<Rightarrow> add_explicit_entries es q1
      | Inl err \<Rightarrow> if ix_index_type e = u ''lexical'' then Inl err else add_explicit_entries es q)"

definition is_head :: "memory_object \<Rightarrow> bool" where
  "is_head m \<longleftrightarrow> mo_lifecycle m = u ''active'' \<and> mo_superseded_by_id m = None"

definition replaced_by :: "pystr \<Rightarrow> pystr option \<Rightarrow> memory_object \<Rightarrow> memory_object" where
  "replaced_by new reason m =
     m\<lparr>mo_lifecycle := u ''superseded'', mo_superseded_by_id := Some new,
       mo_correction_reason := (case reason of None \<Rightarrow> mo_correction_reason m | Some t \<Rightarrow> Some t)\<rparr>"

text \<open>The guarded UPDATE comes first: a caller who comes too late inserts nothing.\<close>

definition create_explicit_supersession ::
  "memory_env \<Rightarrow> pystr \<Rightarrow> memory_input \<Rightarrow> index_entry list \<Rightarrow> pystr \<Rightarrow> pystr \<Rightarrow> pystr option
    \<Rightarrow> retention_db \<Rightarrow> unit curation_outcome" where
  "create_explicit_supersession E old m entries session agent reason db =
     (case get_memory (rt_queue db) old of
        None \<Rightarrow> (Inl (StoreError (MissingRow old)), db)
      | Some r \<Rightarrow>
          if \<not> is_head r then (Inl (SupersessionConflict old), db)
          else commit_queue (\<lambda>q.
            case add_memory ((memory_object_record E m (Some (u ''agent_explicit'')))
                    \<lparr>mo_origin_session_id := Some session, mo_origin_agent_id := Some agent\<rparr>)
                   (upd_memory old (replaced_by (mi_id m) reason) q) of
              Inl e \<Rightarrow> Inl e
            | Inr q1 \<Rightarrow> add_explicit_entries entries q1) db)"

definition list_supersession_successor_ids :: "queue_db \<Rightarrow> pystr \<Rightarrow> pystr list queue_result" where
  "list_supersession_successor_ids q k =
     (case get_memory q k of
        None \<Rightarrow> Inl (MissingRow k)
      | Some m \<Rightarrow>
          Inr (sort (remdups
            ((case mo_superseded_by_id m of None \<Rightarrow> [] | Some s \<Rightarrow> if s = [] then [] else [s])
             @ map rl_from_id (filter (\<lambda>r. rl_from_kind r = u ''memory_object'' \<and> rl_to_id r = k
                 \<and> rl_type r = u ''supersedes'' \<and> rl_to_kind r = u ''memory_object'') (q_relations q))))))"

definition update_memory_object_lifecycle :: "pystr \<Rightarrow> pystr \<Rightarrow> retention_db \<Rightarrow> unit curation_outcome" where
  "update_memory_object_lifecycle k lifecycle =
     commit_queue (change_memory k (\<lambda>m. m\<lparr>mo_lifecycle := lifecycle\<rparr>))"

definition known_origins :: "pystr set" where
  "known_origins = {u ''agent_explicit'', u ''agent_inferred'', u ''user_requested''}"

definition mark_memory_origin ::
  "pystr \<Rightarrow> pystr \<Rightarrow> pystr option \<Rightarrow> pystr option \<Rightarrow> retention_db \<Rightarrow> unit curation_outcome" where
  "mark_memory_origin k origin session agent db =
     (if origin \<notin> known_origins then (Inl (StoreError (BadValue origin)), db)
      else commit_queue (change_memory k (\<lambda>m. m\<lparr>mo_origin := Some origin,
             mo_origin_session_id := (case session of None \<Rightarrow> mo_origin_session_id m | Some s \<Rightarrow> Some s),
             mo_origin_agent_id := (case agent of None \<Rightarrow> mo_origin_agent_id m | Some a \<Rightarrow> Some a)\<rparr>)) db)"

definition link_supersession ::
  "pystr \<Rightarrow> pystr \<Rightarrow> pystr option \<Rightarrow> retention_db \<Rightarrow> unit curation_outcome" where
  "link_supersession old new reason db =
     (case get_memory (rt_queue db) old of
        None \<Rightarrow> (Inl (StoreError (MissingRow old)), db)
      | Some m \<Rightarrow>
          if get_memory (rt_queue db) new = None then (Inl (StoreError (MissingRow new)), db)
          else if \<not> is_head m then (Inl (SupersessionConflict old), db)
          else (Inr (), upd_queue (upd_memory old (replaced_by new reason)) db))"

definition correct_memory_payload ::
  "pystr \<Rightarrow> json_object \<Rightarrow> pystr \<Rightarrow> index_entry list option \<Rightarrow> retention_db \<Rightarrow> unit curation_outcome" where
  "correct_memory_payload k payload reason entries db =
     (case get_memory (rt_queue db) k of
        None \<Rightarrow> (Inl (StoreError (MissingRow k)), db)
      | Some m \<Rightarrow>
          if \<not> is_head m then (Inl (SupersessionConflict k), db)
          else commit_queue (\<lambda>q.
            let q1 = upd_memory k (\<lambda>r. r\<lparr>mo_payload := payload, mo_correction_reason := Some reason\<rparr>) q
            in case entries of
                 None \<Rightarrow> Inr q1
               | Some es \<Rightarrow> add_explicit_entries es (delete_index_entries (u ''memory_object'') k q1)) db)"

section \<open>Forgetting\<close>

definition given_time :: "time option \<Rightarrow> time \<Rightarrow> time" where
  "given_time given now = (case given of None \<Rightarrow> now | Some t \<Rightarrow> t)"

definition soft_delete_memory ::
  "pystr \<Rightarrow> pystr \<Rightarrow> time option \<Rightarrow> time \<Rightarrow> retention_db \<Rightarrow> bool curation_outcome" where
  "soft_delete_memory k reason deleted_at now db =
     (case get_memory (rt_queue db) k of
        None \<Rightarrow> (Inl (StoreError (MissingRow k)), db)
      | Some m \<Rightarrow>
          if mo_is_soft_deleted m = 1 then (Inr False, db)
          else (Inr True, upd_queue (upd_memory k (\<lambda>r. r\<lparr>mo_is_soft_deleted := 1,
                  mo_soft_deleted_at := Some (given_time deleted_at now),
                  mo_soft_delete_reason := Some reason\<rparr>)) db))"

definition forget_mark :: "time \<Rightarrow> pystr option \<Rightarrow> pystr \<Rightarrow> source_item \<Rightarrow> source_item" where
  "forget_mark t actor reason i =
     i\<lparr>i_forgotten_at := Some t, i_forgotten_by := actor, i_forgotten_reason := Some reason\<rparr>"

definition forget_source_item ::
  "pystr \<Rightarrow> pystr \<Rightarrow> pystr option \<Rightarrow> time option \<Rightarrow> time \<Rightarrow> retention_db \<Rightarrow> bool curation_outcome" where
  "forget_source_item k reason actor forgotten_at now db =
     (case get_source (rt_queue db) k of
        None \<Rightarrow> (Inl (StoreError (MissingRow k)), db)
      | Some i \<Rightarrow>
          if i_forgotten_at i \<noteq> None then (Inr False, db)
          else (Inr True, upd_queue (upd_source k (forget_mark (given_time forgotten_at now) actor reason)) db))"

record target_scope =
  tg_container_ref :: pystr
  tg_actor_ref :: pystr
  tg_visibility :: pystr

definition in_forget_scope :: "pystr \<Rightarrow> pystr option \<Rightarrow> target_scope option \<Rightarrow> source_item \<Rightarrow> bool" where
  "in_forget_scope container thread scope i \<longleftrightarrow>
     i_container_ref i = Some container \<and> i_forgotten_at i = None
     \<and> (thread = None \<or> i_thread_ref i = thread)
     \<and> (case scope of
          None \<Rightarrow> True
        | Some s \<Rightarrow> i_container_ref i = Some (tg_container_ref s) \<and> i_actor_ref i = Some (tg_actor_ref s)
            \<and> i_visibility i = Some (tg_visibility s))"

definition forget_source_scope ::
  "pystr \<Rightarrow> pystr option \<Rightarrow> pystr \<Rightarrow> pystr option \<Rightarrow> time option \<Rightarrow> target_scope option \<Rightarrow> time
    \<Rightarrow> retention_db \<Rightarrow> nat curation_outcome" where
  "forget_source_scope container thread reason actor forgotten_at scope now db =
     (let hit = in_forget_scope container thread scope
      in (Inr (length (filter hit (q_items (rt_queue db)))),
          upd_queue (\<lambda>q. q\<lparr>q_items := rows_where hit (forget_mark (given_time forgotten_at now) actor reason)
                                        (q_items q)\<rparr>) db))"

section \<open>Flags\<close>

definition store_memory_flag :: "memory_flag \<Rightarrow> retention_db \<Rightarrow> unit curation_outcome" where
  "store_memory_flag f db =
     (if get_memory (rt_queue db) (fl_memory_object_id f) = None
      then (Inl (StoreError (MissingRow (fl_memory_object_id f))), db)
      else
        (case insert_rows fl_id [f] (rt_flags db) of
           Inl e \<Rightarrow> (Inl (StoreError e), db)
         | Inr flags \<Rightarrow> (Inr (), db\<lparr>rt_flags := flags\<rparr>)))"

definition recent_flag_sources :: "pystr \<Rightarrow> time \<Rightarrow> retention_db \<Rightarrow> pystr list" where
  "recent_flag_sources k cutoff db =
     remdups (map fl_source_ref (filter (\<lambda>f. fl_memory_object_id f = k \<and> cutoff \<le> fl_flagged_at f) (rt_flags db)))"

definition count_unique_flag_sources :: "pystr \<Rightarrow> int \<Rightarrow> time \<Rightarrow> retention_db \<Rightarrow> nat" where
  "count_unique_flag_sources k window_days now db = length (recent_flag_sources k (now - days window_days) db)"

definition flags_of :: "pystr \<Rightarrow> retention_db \<Rightarrow> memory_flag list" where
  "flags_of k db = filter (\<lambda>f. fl_memory_object_id f = k) (rt_flags db)"

definition count_total_flags :: "pystr \<Rightarrow> retention_db \<Rightarrow> nat" where
  "count_total_flags k db = length (flags_of k db)"

definition list_memory_flags :: "pystr \<Rightarrow> retention_db \<Rightarrow> memory_flag list" where
  "list_memory_flags k db = sort_key fl_flagged_at (flags_of k db)"

section \<open>Lists of memory objects\<close>

definition default_lifecycles :: "pystr set" where
  "default_lifecycles = {u ''active'', u ''superseded'', u ''suppressed''}"

definition listed :: "bool \<Rightarrow> bool \<Rightarrow> memory_object \<Rightarrow> bool" where
  "listed include_soft_deleted include_candidates m \<longleftrightarrow>
     (include_soft_deleted \<or> mo_is_soft_deleted m = 0)
     \<and> (include_candidates \<or> mo_lifecycle m \<in> default_lifecycles)"

record memory_listing =
  ml_types :: "pystr list"
  ml_lifecycle :: "pystr option"
  ml_container :: "pystr option"
  ml_subjects :: "pystr list option"
  ml_include_soft_deleted :: bool
  ml_include_candidates :: bool

text \<open>An exact lifecycle takes the place of the default one.\<close>

definition in_listing :: "memory_listing \<Rightarrow> memory_object \<Rightarrow> bool" where
  "in_listing l m \<longleftrightarrow>
     (ml_types l = [] \<or> mo_type m \<in> set (ml_types l))
     \<and> (case ml_lifecycle l of
          Some c \<Rightarrow> mo_lifecycle m = c \<and> listed (ml_include_soft_deleted l) True m
        | None \<Rightarrow> listed (ml_include_soft_deleted l) (ml_include_candidates l) m)
     \<and> (ml_container l = None \<or> mo_container_ref m = ml_container l)
     \<and> (case ml_subjects l of None \<Rightarrow> True | Some ss \<Rightarrow> \<exists>s\<in>set ss. mo_subject m = Some s)"

definition list_memory_objects :: "queue_db \<Rightarrow> memory_listing \<Rightarrow> memory_view list" where
  "list_memory_objects q l = map view_memory (filter (in_listing l) (q_memories q))"

definition supporting_ids :: "queue_db \<Rightarrow> pystr \<Rightarrow> pystr list" where
  "supporting_ids q item_id = map rl_from_id (filter (supports_item item_id) (q_relations q))"

definition list_memory_objects_for_source_item :: "queue_db \<Rightarrow> pystr \<Rightarrow> bool \<Rightarrow> bool \<Rightarrow> memory_view list" where
  "list_memory_objects_for_source_item q item_id soft candidates =
     map view_memory (filter (\<lambda>m. mo_id m \<in> set (supporting_ids q item_id) \<and> listed soft candidates m) (q_memories q))"

definition list_memory_objects_for_source_items ::
  "queue_db \<Rightarrow> pystr list \<Rightarrow> bool \<Rightarrow> bool \<Rightarrow> (pystr \<times> memory_view list) list" where
  "list_memory_objects_for_source_items q item_ids soft candidates =
     map (\<lambda>i. (i, List.map_filter
       (\<lambda>k. case get_memory q k of
              None \<Rightarrow> None
            | Some m \<Rightarrow> if listed soft candidates m then Some (view_memory m) else None)
       (supporting_ids q i))) (first_occurrences item_ids)"

text \<open>The newest active checkpoint some item of the thread supports.\<close>

definition checkpoint_of :: "queue_db \<Rightarrow> pystr \<Rightarrow> pystr \<Rightarrow> memory_object \<Rightarrow> bool" where
  "checkpoint_of q container thread m \<longleftrightarrow>
     mo_type m = u ''task_checkpoint'' \<and> mo_container_ref m = Some container \<and> mo_lifecycle m = u ''active''
     \<and> list_ex (\<lambda>r. supports (mo_id m) r \<and> rl_to_kind r = u ''source_item''
          \<and> list_ex (\<lambda>i. i_id i = rl_to_id r \<and> i_thread_ref i = Some thread) (q_items q)) (q_relations q)"

definition newest_first :: "memory_object \<Rightarrow> nat \<times> time" where
  "newest_first m = (case mo_freshness_at m of None \<Rightarrow> (1, 0) | Some t \<Rightarrow> (0, - t))"

definition find_latest_checkpoint_for_thread :: "queue_db \<Rightarrow> pystr \<Rightarrow> pystr \<Rightarrow> memory_view option" where
  "find_latest_checkpoint_for_thread q container thread =
     (case sort_key newest_first (filter (checkpoint_of q container thread) (q_memories q)) of
        [] \<Rightarrow> None | m # _ \<Rightarrow> Some (view_memory m))"

end
