(* ===== verification/Curation_Index.thy ===== *)
theory Curation_Index
  imports Curation_Store
begin

text \<open>
  Relations and index entries one at a time (\<open>storage/sqlite.py\<close>): creating them, redacting the text
  of an entry, moving the entries of a target to another, and the lookups. FTS5 rows cannot be
  updated: where the text or the target of a lexical entry changes its row is deleted and inserted
  again.
\<close>

section \<open>Relations\<close>

definition add_relation :: "relation \<Rightarrow> queue_db \<Rightarrow> queue_db queue_result" where
  "add_relation r q =
     (case insert_rows rl_id [r] (q_relations q) of
        Inl e \<Rightarrow> Inl e
      | Inr relations \<Rightarrow>
          let q1 = q\<lparr>q_relations := relations\<rparr>
          in Inr (if rl_from_kind r = u ''memory_object'' then refresh_freshness (rl_from_id r) q1 else q1))"

definition create_relation :: "relation \<Rightarrow> retention_db \<Rightarrow> unit curation_outcome" where
  "create_relation r = commit_queue (add_relation r)"

definition list_relations_for_source_item :: "queue_db \<Rightarrow> pystr \<Rightarrow> relation list" where
  "list_relations_for_source_item q k =
     filter (\<lambda>r. rl_to_kind r = u ''source_item'' \<and> rl_to_id r = k) (q_relations q)"

definition refresh_memory_object_freshness :: "pystr \<Rightarrow> retention_db \<Rightarrow> time option \<times> retention_db" where
  "refresh_memory_object_freshness k db =
     (map_option (derive_freshness (rt_queue db)) (get_memory (rt_queue db) k),
      upd_queue (refresh_freshness k) db)"

section \<open>Index entries\<close>

definition create_index_entry :: "index_entry \<Rightarrow> retention_db \<Rightarrow> unit curation_outcome" where
  "create_index_entry e = commit_queue (insert_index [e])"

abbreviation get_entry :: "queue_db \<Rightarrow> pystr \<Rightarrow> index_entry option" where
  "get_entry q k \<equiv> row_get ix_id k (q_index q)"

definition upd_entry :: "pystr \<Rightarrow> (index_entry \<Rightarrow> index_entry) \<Rightarrow> queue_db \<Rightarrow> queue_db" where
  "upd_entry k f q = q\<lparr>q_index := row_upd ix_id k f (q_index q)\<rparr>"

definition change_entry :: "pystr \<Rightarrow> (index_entry \<Rightarrow> index_entry) \<Rightarrow> queue_db \<Rightarrow> queue_db queue_result" where
  "change_entry k f q = (case get_entry q k of None \<Rightarrow> Inl (MissingRow k) | Some _ \<Rightarrow> Inr (upd_entry k f q))"

definition update_index_entry_provider :: "pystr \<Rightarrow> pystr \<Rightarrow> pystr \<Rightarrow> retention_db \<Rightarrow> unit curation_outcome" where
  "update_index_entry_provider k name version =
     commit_queue (change_entry k (\<lambda>e. e\<lparr>ix_provider_name := Some name, ix_provider_version := Some version\<rparr>))"

text \<open>Only the entry changes: for a lexical one the full text row keeps the old text.\<close>

definition update_index_entry_text_view :: "pystr \<Rightarrow> pystr \<Rightarrow> retention_db \<Rightarrow> unit curation_outcome" where
  "update_index_entry_text_view k text_view = commit_queue (change_entry k (\<lambda>e. e\<lparr>ix_text_view := text_view\<rparr>))"

text \<open>Rewriting lexical entries: their full text rows are replaced by new ones at the end of the table.\<close>

definition rewrite_entries ::
  "(index_entry \<Rightarrow> bool) \<Rightarrow> (index_entry \<Rightarrow> index_entry) \<Rightarrow> pystr option \<Rightarrow> queue_db \<Rightarrow> queue_db" where
  "rewrite_entries P f container q =
     (let lexical = filter (\<lambda>e. ix_index_type e = u ''lexical'' \<and> P e) (q_index q)
      in q\<lparr>q_index := rows_where P f (q_index q),
           q_fts := filter (\<lambda>r. ft_index_entry_id r \<notin> ix_id ` set lexical) (q_fts q)
             @ map (\<lambda>e. fts_of (f e) container) lexical\<rparr>)"

definition redact_text :: "pystr \<Rightarrow> pystr \<Rightarrow> queue_db \<Rightarrow> queue_db queue_result" where
  "redact_text k text_view q =
     (case get_entry q k of
        None \<Rightarrow> Inl (MissingRow k)
      | Some e \<Rightarrow>
          if ix_index_type e \<noteq> u ''lexical'' then Inr (upd_entry k (\<lambda>e. e\<lparr>ix_text_view := text_view\<rparr>) q)
          else
            (case resolve_container q (ix_target_kind e) (ix_target_id e) of
               Inl err \<Rightarrow> Inl err
             | Inr c \<Rightarrow> Inr (rewrite_entries (\<lambda>e. ix_id e = k) (\<lambda>e. e\<lparr>ix_text_view := text_view\<rparr>) c q)))"

definition redact_index_entry_text_view :: "pystr \<Rightarrow> pystr \<Rightarrow> retention_db \<Rightarrow> unit curation_outcome" where
  "redact_index_entry_text_view k text_view = commit_queue (redact_text k text_view)"

definition entries_for :: "queue_db \<Rightarrow> pystr \<Rightarrow> pystr \<Rightarrow> index_entry list" where
  "entries_for q kind target = filter (\<lambda>e. ix_target_kind e = kind \<and> ix_target_id e = target) (q_index q)"

definition retarget_index_entries_for_target ::
  "pystr \<Rightarrow> pystr \<Rightarrow> pystr \<Rightarrow> retention_db \<Rightarrow> nat curation_outcome" where
  "retarget_index_entries_for_target kind old new db =
     (let q = rt_queue db
      in if entries_for q kind old = [] then (Inr 0, db)
         else
           (case resolve_container q kind new of
              Inl e \<Rightarrow> (Inl (StoreError e), db)
            | Inr c \<Rightarrow>
                (Inr (length (entries_for q kind old)),
                 upd_queue (rewrite_entries (\<lambda>e. ix_target_kind e = kind \<and> ix_target_id e = old)
                   (\<lambda>e. e\<lparr>ix_target_id := new\<rparr>) c) db)))"

section \<open>Lookups\<close>

text \<open>\<open>_to_index_entry\<close>.\<close>

definition entry_view :: "index_entry \<Rightarrow> index_entry" where
  "entry_view e = e\<lparr>ix_text_view_name := Some (text_or (u ''default'') (ix_text_view_name e))\<rparr>"

definition list_index_entries_for_target :: "queue_db \<Rightarrow> pystr \<Rightarrow> pystr \<Rightarrow> index_entry list" where
  "list_index_entries_for_target q kind target = map entry_view (entries_for q kind target)"

definition get_index_entry :: "queue_db \<Rightarrow> pystr \<Rightarrow> index_entry queue_result" where
  "get_index_entry q k =
     (case get_entry q k of None \<Rightarrow> Inl (MissingRow k) | Some e \<Rightarrow> Inr (entry_view e))"

definition get_index_entries :: "queue_db \<Rightarrow> pystr list \<Rightarrow> (pystr \<times> index_entry) list" where
  "get_index_entries q ks = map (\<lambda>e. (ix_id e, entry_view e)) (filter (\<lambda>e. ix_id e \<in> set ks) (q_index q))"

definition find_index_entry :: "queue_db \<Rightarrow> pystr \<Rightarrow> pystr \<Rightarrow> pystr \<Rightarrow> pystr \<Rightarrow> index_entry option" where
  "find_index_entry q kind target index_type view_name =
     map_option entry_view (find (\<lambda>e. ix_target_kind e = kind \<and> ix_target_id e = target
       \<and> ix_index_type e = index_type \<and> ix_text_view_name e = Some view_name) (q_index q))"

definition list_index_entries_by_type :: "queue_db \<Rightarrow> pystr \<Rightarrow> index_entry list" where
  "list_index_entries_by_type q t = map entry_view (filter (\<lambda>e. ix_index_type e = t) (q_index q))"

definition list_index_entries_by_type_page ::
  "queue_db \<Rightarrow> pystr \<Rightarrow> pystr option \<Rightarrow> nat option \<Rightarrow> index_entry list" where
  "list_index_entries_by_type_page q t after limit =
     (let rows = sort_key ix_id (filter (\<lambda>e. ix_index_type e = t
                   \<and> (case after of None \<Rightarrow> True | Some k \<Rightarrow> k < ix_id e)) (q_index q))
      in map entry_view (case limit of None \<Rightarrow> rows | Some n \<Rightarrow> take n rows))"

definition count_index_entries_by_type :: "queue_db \<Rightarrow> pystr \<Rightarrow> nat" where
  "count_index_entries_by_type q t = length (filter (\<lambda>e. ix_index_type e = t) (q_index q))"

section \<open>Vectors of source items that are missing\<close>

text \<open>\<open>_raw_source_vector_backfill_statement\<close>: the lexical entries of raw messages that have no vector
  entry yet. The length of a text counts its code points up to a NUL in SQL.\<close>

definition lacks_vector :: "queue_db \<Rightarrow> pystr \<Rightarrow> index_entry \<Rightarrow> bool" where
  "lacks_vector q vector_view e \<longleftrightarrow>
     \<not> list_ex (\<lambda>v. ix_target_kind v = u ''source_item'' \<and> ix_target_id v = ix_target_id e
          \<and> ix_index_type v = u ''vector'' \<and> ix_text_view_name v = Some vector_view) (q_index q)"

definition raw_kind :: "source_item \<Rightarrow> bool" where
  "raw_kind i \<longleftrightarrow> i_artifact_kind i \<in> {Some (u ''message''), Some (u ''assistant_output'')}"

definition backfill_candidate ::
  "queue_db \<Rightarrow> pystr \<Rightarrow> pystr \<Rightarrow> (source_item \<Rightarrow> bool) \<Rightarrow> index_entry \<Rightarrow> bool" where
  "backfill_candidate q lexical_view vector_view long_enough e \<longleftrightarrow>
     ix_index_type e = u ''lexical'' \<and> ix_target_kind e = u ''source_item''
     \<and> ix_text_view_name e = Some lexical_view \<and> lacks_vector q vector_view e
     \<and> list_ex (\<lambda>i. i_id i = ix_target_id e \<and> raw_kind i \<and> long_enough i) (q_items q)"

definition raw_source_vector_backfill_needed :: "queue_db \<Rightarrow> pystr \<Rightarrow> pystr \<Rightarrow> bool" where
  "raw_source_vector_backfill_needed q lexical_view vector_view \<longleftrightarrow>
     list_ex (backfill_candidate q lexical_view vector_view (\<lambda>i. 40 \<le> length (takeWhile (\<lambda>c. c \<noteq> 0) (i_content i)))) (q_index q)
     \<or> list_ex (backfill_candidate q lexical_view vector_view (\<lambda>i. 0 \<in> set (i_content i) \<and> 40 \<le> length (i_content i))) (q_index q)"

definition list_raw_source_vector_backfill_page ::
  "queue_db \<Rightarrow> pystr \<Rightarrow> pystr \<Rightarrow> pystr option \<Rightarrow> nat \<Rightarrow> index_entry list" where
  "list_raw_source_vector_backfill_page q lexical_view vector_view after limit =
     map entry_view (take limit (sort_key ix_id (filter (\<lambda>e.
       backfill_candidate q lexical_view vector_view (\<lambda>_. True) e
       \<and> (case after of None \<Rightarrow> True | Some k \<Rightarrow> k < ix_id e)) (q_index q))))"

end
