(* ===== verification/Curation_Service.thy ===== *)
theory Curation_Service
  imports Curation_Index Text_Tokens Container_Ref
begin

text \<open>
  The service calls behind the tools that write and judge memory by hand (\<open>core/service.py\<close>). A call is
  several transactions: as for a retention pass, \<open>pw_meanwhile\<close> is what other connections commit before
  each and \<open>pw_time\<close> what the clock then shows. The identifiers a call draws are \<open>cw_id 0\<close>, \<open>cw_id 1\<close>,
  and so on. The vector index beside the database and the counters of flags are left out.
\<close>

section \<open>Calls\<close>

record curation_world =
  cw_pass :: pass_world
  cw_env :: memory_env
  cw_text :: text_env
  cw_id :: "nat \<Rightarrow> pystr"

type_synonym 'a curation = "pass_state \<Rightarrow> (curation_error + 'a) \<times> pass_state"

definition give :: "'a \<Rightarrow> 'a curation" where
  "give a s = (Inr a, s)"

definition fail :: "curation_error \<Rightarrow> 'a curation" where
  "fail e s = (Inl e, s)"

definition and_then :: "'a curation \<Rightarrow> ('a \<Rightarrow> 'b curation) \<Rightarrow> 'b curation" where
  "and_then m f s = (case m s of (Inl e, s') \<Rightarrow> (Inl e, s') | (Inr a, s') \<Rightarrow> f a s')"

definition clock :: "curation_world \<Rightarrow> pass_state \<Rightarrow> time" where
  "clock W s = pw_time (cw_pass W) (fst s)"

text \<open>\<open>utc_now()\<close> outside a transaction.\<close>

definition at_time :: "curation_world \<Rightarrow> (time \<Rightarrow> 'a curation) \<Rightarrow> 'a curation" where
  "at_time W f s = f (clock W s) s"

text \<open>One transaction at the time the clock shows, and one that only reads.\<close>

definition tx :: "curation_world \<Rightarrow> (time \<Rightarrow> retention_db \<Rightarrow> 'a curation_outcome) \<Rightarrow> 'a curation" where
  "tx W f s = (case f (clock W s) (next_db (cw_pass W) s) of (r, db) \<Rightarrow> (r, (Suc (fst s), db)))"

definition look :: "curation_world \<Rightarrow> (time \<Rightarrow> retention_db \<Rightarrow> curation_error + 'a) \<Rightarrow> 'a curation" where
  "look W f = tx W (\<lambda>now db. (f now db, db))"

definition store_result :: "'a queue_result \<Rightarrow> curation_error + 'a" where
  "store_result r = (case r of Inl e \<Rightarrow> Inl (StoreError e) | Inr a \<Rightarrow> Inr a)"

definition value_error :: "string \<Rightarrow> curation_error" where
  "value_error message = StoreError (BadValue (u message))"

section \<open>The guard of a target\<close>

text \<open>\<open>MemoryTargetScope\<close> checks its fields when it is made.\<close>

definition boundary_error :: "relay_error \<Rightarrow> curation_error" where
  "boundary_error e = StoreError (case e of ValueError t \<Rightarrow> BadValue t | _ \<Rightarrow> BadShape)"

definition make_target_scope ::
  "(pystr \<Rightarrow> pystr) \<Rightarrow> pystr option \<Rightarrow> pystr \<Rightarrow> pystr \<Rightarrow> curation_error + target_scope" where
  "make_target_scope lower container actor visibility =
     (case validate_explicit_container_ref lower container of
        Inl e \<Rightarrow> Inl (boundary_error e)
      | Inr c \<Rightarrow>
          if strip actor = [] \<or> actor \<noteq> strip actor
          then Inl (value_error ''actor_ref must be non-blank without surrounding whitespace'')
          else if visibility \<notin> {u ''public'', u ''container'', u ''private'', u ''global''}
          then Inl (value_error ''invalid target visibility'')
          else Inr \<lparr>tg_container_ref = c, tg_actor_ref = actor, tg_visibility = visibility\<rparr>)"

definition in_target_scope ::
  "(pystr \<Rightarrow> pystr) \<Rightarrow> target_scope option \<Rightarrow> pystr option \<Rightarrow> pystr option \<Rightarrow> pystr option \<Rightarrow> bool" where
  "in_target_scope lower scope container actor visibility \<longleftrightarrow>
     (case scope of
        None \<Rightarrow> True
      | Some s \<Rightarrow> canonicalize_container_ref lower container = Some (tg_container_ref s)
          \<and> actor = Some (tg_actor_ref s) \<and> visibility = Some (tg_visibility s))"

abbreviation cw_lower :: "curation_world \<Rightarrow> pystr \<Rightarrow> pystr" where
  "cw_lower W \<equiv> pw_lower (cw_pass W)"

definition memory_target :: "curation_world \<Rightarrow> pystr \<Rightarrow> target_scope option \<Rightarrow> memory_view curation" where
  "memory_target W k scope =
     and_then (look W (\<lambda>_ db. store_result (get_memory_object (rt_queue db) k)))
       (\<lambda>m. if in_target_scope (cw_lower W) scope (mv_container_ref m) (mv_actor_ref m) (Some (mv_visibility m))
            then give m else fail (StoreError (MissingRow (mv_id m))))"

definition source_target :: "curation_world \<Rightarrow> pystr \<Rightarrow> target_scope option \<Rightarrow> unit curation" where
  "source_target W k scope =
     and_then (look W (\<lambda>_ db. store_result (read_source_item (rt_queue db) k)))
       (\<lambda>i. if in_target_scope (cw_lower W) scope (i_container_ref i) (i_actor_ref i) (i_visibility i)
            then give () else fail (StoreError (MissingRow (i_id i))))"

section \<open>Supersession by the consolidation\<close>

definition supersede_memory_object :: "curation_world \<Rightarrow> pystr \<Rightarrow> pystr \<Rightarrow> unit curation" where
  "supersede_memory_object W old new =
     and_then (look W (\<lambda>_ db. store_result (get_memory_object (rt_queue db) old))) (\<lambda>m.
     and_then (look W (\<lambda>_ db. store_result (get_memory_object (rt_queue db) new))) (\<lambda>n.
     if mv_type m \<noteq> mv_type n then fail (value_error ''Supersession requires matching memory object types'')
     else if mv_lifecycle m = u ''superseded'' then give ()
     else
       and_then (tx W (\<lambda>_. update_memory_object_lifecycle old (u ''superseded''))) (\<lambda>_.
       tx W (\<lambda>_. create_relation \<lparr>rl_id = cw_id W 0, rl_from_kind = u ''memory_object'', rl_from_id = new,
         rl_type = u ''supersedes'', rl_to_kind = u ''memory_object'', rl_to_id = old\<rparr>))))"

section \<open>Flags\<close>

record flag_result =
  fr_memory_object_id :: pystr
  fr_flag_count :: nat
  fr_unique_sources :: nat
  fr_suppressed :: bool

definition flag_suppression_threshold :: nat where
  "flag_suppression_threshold = 2"

definition flag_window_days :: int where
  "flag_window_days = 30"

definition unique_sources :: "curation_world \<Rightarrow> pystr \<Rightarrow> nat curation" where
  "unique_sources W k = look W (\<lambda>now db. Inr (count_unique_flag_sources k flag_window_days now db))"

definition suppress :: "curation_world \<Rightarrow> pystr \<Rightarrow> bool curation" where
  "suppress W k =
     and_then (tx W (\<lambda>_. update_memory_object_lifecycle k (u ''suppressed''))) (\<lambda>_. give True)"

definition suppress_flagged :: "curation_world \<Rightarrow> memory_view \<Rightarrow> pystr \<Rightarrow> bool \<Rightarrow> bool curation" where
  "suppress_flagged W m k immediate =
     (if mv_lifecycle m = u ''suppressed'' then give True
      else if mv_lifecycle m = u ''active'' then
        (if immediate then suppress W k
         else and_then (unique_sources W k)
                (\<lambda>n. if flag_suppression_threshold \<le> n then suppress W k else give False))
      else give False)"

definition flag_memory_object ::
  "curation_world \<Rightarrow> pystr \<Rightarrow> pystr \<Rightarrow> pystr \<Rightarrow> bool \<Rightarrow> target_scope option \<Rightarrow> flag_result curation" where
  "flag_memory_object W k reason source_ref immediate scope =
     and_then (memory_target W k scope) (\<lambda>m.
     and_then (tx W (\<lambda>now. store_memory_flag \<lparr>fl_id = cw_id W 0, fl_memory_object_id = k, fl_reason = reason,
                 fl_source_ref = source_ref, fl_flagged_at = now\<rparr>)) (\<lambda>_.
     and_then (suppress_flagged W m k immediate) (\<lambda>suppressed.
     and_then (look W (\<lambda>_ db. Inr (count_total_flags k db))) (\<lambda>count.
     and_then (unique_sources W k) (\<lambda>sources.
     give \<lparr>fr_memory_object_id = k, fr_flag_count = count, fr_unique_sources = sources,
           fr_suppressed = suppressed\<rparr>)))))"

section \<open>Provenance\<close>

record provenance =
  pv_container_ref :: "pystr option"
  pv_actor_ref :: "pystr option"
  pv_thread_ref :: "pystr option"
  pv_agent_ref :: "pystr option"
  pv_visibility :: "pystr option"
  pv_origin_session_id :: "pystr option"
  pv_origin_agent_id :: "pystr option"

record checked_provenance =
  cp_container_ref :: pystr
  cp_actor_ref :: pystr
  cp_thread_ref :: pystr
  cp_agent_ref :: pystr
  cp_visibility :: pystr

definition blank :: "pystr option \<Rightarrow> bool" where
  "blank v = (case v of None \<Rightarrow> True | Some t \<Rightarrow> strip t = [])"

definition validate_explicit_provenance ::
  "(pystr \<Rightarrow> pystr) \<Rightarrow> provenance \<Rightarrow> curation_error + checked_provenance" where
  "validate_explicit_provenance lower p =
     (let thread = (case pv_thread_ref p of None \<Rightarrow> pv_origin_session_id p | Some t \<Rightarrow> Some t);
          agent = (case pv_agent_ref p of None \<Rightarrow> pv_origin_agent_id p | Some t \<Rightarrow> Some t)
      in if pv_origin_session_id p \<noteq> None \<and> thread \<noteq> pv_origin_session_id p
         then Inl (value_error ''thread_ref and origin_session_id must match'')
         else if pv_origin_agent_id p \<noteq> None \<and> agent \<noteq> pv_origin_agent_id p
         then Inl (value_error ''agent_ref and origin_agent_id must match'')
         else
           (case validate_explicit_container_ref lower (pv_container_ref p) of
              Inl e \<Rightarrow> Inl (boundary_error e)
            | Inr container \<Rightarrow>
                let missing = map fst (filter (\<lambda>(_, v). blank v)
                      [(u ''actor_ref'', pv_actor_ref p), (u ''thread_ref'', thread), (u ''agent_ref'', agent)])
                in if missing \<noteq> []
                   then Inl (StoreError (BadValue
                          (u ''explicit memory provenance requires: '' @ join_texts (u '', '') missing)))
                   else if pv_visibility p \<notin> {Some (u ''private''), Some (u ''container''), Some (u ''global'')}
                   then Inl (value_error ''visibility must be one of [container, global, private]'')
                   else Inr \<lparr>cp_container_ref = container, cp_actor_ref = the (pv_actor_ref p),
                          cp_thread_ref = the thread, cp_agent_ref = the agent,
                          cp_visibility = the (pv_visibility p)\<rparr>))"

definition check :: "curation_error + 'a \<Rightarrow> ('a \<Rightarrow> 'b curation) \<Rightarrow> 'b curation" where
  "check r f = (case r of Inl e \<Rightarrow> fail e | Inr a \<Rightarrow> f a)"

section \<open>Writing by hand\<close>

definition allowed_memory_types :: "pystr set" where
  "allowed_memory_types = {u ''decision'', u ''investigation_outcome'', u ''constraint_memory'',
     u ''operational_fact'', u ''note''}"

definition memory_text_view_name :: "pystr \<Rightarrow> pystr" where
  "memory_text_view_name t =
     (if t = u ''decision'' then u ''memory_object.decision_context''
      else if t = u ''investigation_outcome'' then u ''memory_object.investigation_context''
      else u ''memory_object.summary'')"

text \<open>The lexical entry and the vector entry, which take the identifiers after \<open>n\<close>.\<close>

definition explicit_write_index_entries ::
  "curation_world \<Rightarrow> nat \<Rightarrow> pystr \<Rightarrow> pystr \<Rightarrow> pystr \<Rightarrow> index_entry list" where
  "explicit_write_index_entries W n k memory_type t =
     [\<lparr>ix_id = cw_id W (n + 1), ix_target_kind = u ''memory_object'', ix_target_id = k, ix_index_type = u ''lexical'',
       ix_text_view = normalize_for_index (cw_text W) t, ix_text_view_name = Some (memory_text_view_name memory_type),
       ix_provider_name = Some (u ''builtin''), ix_provider_version = Some (u ''v1'')\<rparr>,
      \<lparr>ix_id = cw_id W (n + 2), ix_target_kind = u ''memory_object'', ix_target_id = k, ix_index_type = u ''vector'',
       ix_text_view = t, ix_text_view_name = Some (memory_text_view_name memory_type @ u ''.embedding''),
       ix_provider_name = Some (u ''embedding''), ix_provider_version = Some (u ''pending'')\<rparr>]"

fun index_explicit_write :: "curation_world \<Rightarrow> index_entry list \<Rightarrow> unit curation" where
  "index_explicit_write W [] s = (Inr (), s)"
| "index_explicit_write W (e # es) s =
     (case tx W (\<lambda>_. create_index_entry e) s of
        (Inr _, s') \<Rightarrow> index_explicit_write W es s'
      | (Inl err, s') \<Rightarrow>
          if ix_index_type e = u ''lexical'' then (Inl err, s') else index_explicit_write W es s')"

definition explicit_memory ::
  "pystr \<Rightarrow> pystr \<Rightarrow> pystr \<Rightarrow> json_object \<Rightarrow> checked_provenance \<Rightarrow> time \<Rightarrow> memory_input" where
  "explicit_memory k memory_type schema payload p now =
     \<lparr>mi_id = k, mi_type = memory_type, mi_schema_id = schema, mi_schema_version = u ''1'', mi_payload = payload,
      mi_envelope = None, mi_lifecycle = u ''active'', mi_visibility = Some (cp_visibility p),
      mi_container_ref = Some (cp_container_ref p), mi_actor_ref = Some (cp_actor_ref p),
      mi_freshness_at = None, mi_created_at = now\<rparr>"

definition optional_field :: "string \<Rightarrow> json option \<Rightarrow> json_object" where
  "optional_field k v = (case v of None \<Rightarrow> [] | Some x \<Rightarrow> [(u k, x)])"

definition texts_field :: "string \<Rightarrow> pystr list \<Rightarrow> json_object" where
  "texts_field k ts = (if ts = [] then [] else [(u k, JList (map JText ts))])"

text \<open>Creating the object and noting who wrote it are two transactions, and every index entry is one.\<close>

definition store_explicit :: "curation_world \<Rightarrow> memory_input \<Rightarrow> pystr option \<Rightarrow> checked_provenance \<Rightarrow> unit curation" where
  "store_explicit W m origin p =
     and_then (tx W (\<lambda>_. create_memory_object (cw_env W) m origin)) (\<lambda>_.
     tx W (\<lambda>_. mark_memory_origin (mi_id m) (u ''agent_explicit'') (Some (cp_thread_ref p)) (Some (cp_agent_ref p))))"

definition remember_memory ::
  "curation_world \<Rightarrow> pystr \<Rightarrow> pystr \<Rightarrow> json option \<Rightarrow> pystr list \<Rightarrow> provenance \<Rightarrow> memory_input curation" where
  "remember_memory W t memory_type confidence evidence p =
     (if memory_type \<notin> allowed_memory_types then fail (StoreError (BadValue memory_type))
      else check (validate_explicit_provenance (cw_lower W) p) (\<lambda>c. at_time W (\<lambda>now.
        let m = explicit_memory (cw_id W 0) memory_type (memory_type @ u ''.agent_explicit.v1'')
              ((u ''statement'', JText t) # optional_field ''confidence'' confidence @ texts_field ''evidence'' evidence
               @ [(u ''source'', JText (u ''agent_explicit_write''))]) c now
        in and_then (store_explicit W m (Some (u ''agent_explicit'')) c) (\<lambda>_.
           and_then (index_explicit_write W (explicit_write_index_entries W 0 (mi_id m) memory_type t)) (\<lambda>_.
           give m)))))"

definition vector_entry_ids :: "queue_db \<Rightarrow> pystr \<Rightarrow> pystr list" where
  "vector_entry_ids q k =
     map ix_id (filter (\<lambda>e. ix_index_type e = u ''vector'')
       (list_index_entries_for_target q (u ''memory_object'') k))"

definition correct_memory ::
  "curation_world \<Rightarrow> pystr \<Rightarrow> pystr \<Rightarrow> pystr \<Rightarrow> target_scope option \<Rightarrow> bool curation" where
  "correct_memory W k t reason scope =
     and_then (memory_target W k scope) (\<lambda>m.
     and_then (look W (\<lambda>_ db. Inr (vector_entry_ids (rt_queue db) k))) (\<lambda>_.
     and_then (tx W (\<lambda>_. correct_memory_payload k
         (obj_put (u ''source'') (JText (u ''agent_explicit_correction''))
           (obj_put (u ''statement'') (JText t) (mv_payload m)))
         reason (Some (explicit_write_index_entries W 0 k (mv_type m) t)))) (\<lambda>_.
     give True)))"

definition supersede_memory ::
  "curation_world \<Rightarrow> pystr \<Rightarrow> pystr \<Rightarrow> pystr option \<Rightarrow> pystr option \<Rightarrow> provenance \<Rightarrow> target_scope option
    \<Rightarrow> (pystr \<times> pystr) curation" where
  "supersede_memory W t old reason memory_type p scope =
     and_then (memory_target W old scope) (\<lambda>m.
     check (validate_explicit_provenance (cw_lower W) p) (\<lambda>c.
       let resolved = text_or (mv_type m) memory_type
       in if resolved \<notin> allowed_memory_types then fail (StoreError (BadValue resolved))
          else
            and_then (tx W (\<lambda>now. create_explicit_supersession (cw_env W) old
                (explicit_memory (cw_id W 0) resolved (resolved @ u ''.agent_explicit.v1'')
                  [(u ''statement'', JText t), (u ''source'', JText (u ''agent_explicit_supersede'')),
                   (u ''supersedes_id'', JText old)] c now)
                (explicit_write_index_entries W 0 (cw_id W 0) resolved t)
                (cp_thread_ref c) (cp_agent_ref c) reason)) (\<lambda>_.
            give (old, cw_id W 0))))"

section \<open>Forgetting\<close>

definition forget_memory :: "curation_world \<Rightarrow> pystr \<Rightarrow> pystr \<Rightarrow> target_scope option \<Rightarrow> bool curation" where
  "forget_memory W k reason scope =
     and_then (if scope = None then give () else and_then (memory_target W k scope) (\<lambda>_. give ())) (\<lambda>_.
     tx W (\<lambda>now. soft_delete_memory k reason None now))"

datatype forgotten = ForgotItem pystr bool nat | ForgotScope pystr "pystr option" nat

definition forget_source ::
  "curation_world \<Rightarrow> pystr option \<Rightarrow> pystr option \<Rightarrow> pystr option \<Rightarrow> pystr \<Rightarrow> pystr option \<Rightarrow> target_scope option
    \<Rightarrow> forgotten curation" where
  "forget_source W item container thread reason actor scope =
     (if item \<noteq> None \<and> (container \<noteq> None \<or> thread \<noteq> None)
      then fail (value_error ''forget_source accepts source_item_id OR container_ref/thread_ref, not both'')
      else
        (case (item, canonicalize_container_ref (cw_lower W) container) of
           (Some k, _) \<Rightarrow>
             and_then (if scope = None then give () else source_target W k scope) (\<lambda>_.
             and_then (tx W (\<lambda>now. forget_source_item k reason actor None now)) (\<lambda>fresh.
             give (ForgotItem k fresh (if fresh then 1 else 0))))
         | (None, Some c) \<Rightarrow>
             if scope \<noteq> None \<and> c \<noteq> tg_container_ref (the scope)
             then fail (value_error ''container_ref must match target_scope.container_ref'')
             else and_then (tx W (\<lambda>now. forget_source_scope c thread reason actor None scope now)) (\<lambda>n.
                  give (ForgotScope c thread n))
         | (None, None) \<Rightarrow> fail (value_error ''forget_source requires source_item_id or container_ref'')))"

section \<open>Outcomes of procedures\<close>

definition known_outcomes :: "pystr set" where
  "known_outcomes = {u ''success'', u ''failure'', u ''inconclusive''}"

definition record_procedure_outcome ::
  "curation_world \<Rightarrow> pystr \<Rightarrow> pystr \<Rightarrow> pystr list \<Rightarrow> pystr option \<Rightarrow> provenance \<Rightarrow> target_scope option \<Rightarrow> bool curation" where
  "record_procedure_outcome W procedure_id result evidence note_text p scope =
     (if result \<notin> known_outcomes then fail (StoreError (BadValue result))
      else check (validate_explicit_provenance (cw_lower W) p) (\<lambda>c.
        and_then (memory_target W procedure_id scope) (\<lambda>_. at_time W (\<lambda>now.
        and_then (store_explicit W (explicit_memory (cw_id W 0) (u ''note'') (u ''note.agent_explicit.outcome.v1'')
            ([(u ''statement'', JText (u ''Procedure outcome: '' @ result)), (u ''procedure_id'', JText procedure_id),
              (u ''outcome'', JText result), (u ''source'', JText (u ''agent_explicit_outcome''))]
             @ texts_field ''evidence'' evidence
             @ (case note_text of None \<Rightarrow> [] | Some t \<Rightarrow> if t = [] then [] else [(u ''note'', JText t)]))
            c now) None c) (\<lambda>_. give True)))))"

end
