(* ===== verification/Retrieval_Query.thy ===== *)
theory Retrieval_Query
  imports Retrieval_Text Search_Facts Curation_Service
begin

text \<open>
  A query answered from the lexical index (\<open>retrieval/lexical.py\<close>). It is a sequence of reads, between
  which other connections may commit: the search, the batch of source items, one or two reads per hit,
  and at the end the items once more. As for a retention pass, \<open>pw_meanwhile\<close> is what others commit
  before each.
\<close>

section \<open>Arguments and results\<close>

record retrieval_world =
  rv_pass :: pass_world
  rv_env :: search_env
  rv_nfkc :: "pystr \<Rightarrow> pystr"
  rv_digest :: "pystr \<Rightarrow> pystr"

record retrieval_args =
  ra_text :: pystr
  ra_limit :: int
  ra_filters :: "query_filters option"
  ra_visibility :: "pystr option"
  ra_container :: "pystr option"
  ra_trace :: bool
  ra_require_visibility :: bool
  ra_actor :: "pystr option"
  ra_target_kind :: "pystr option"

text \<open>\<open>QueryResultItem\<close>; the fields that retrieval leaves at their defaults are left out.\<close>

record query_item =
  qi_kind :: pystr
  qi_score :: rat
  qi_evidence :: "evidence_ref list"
  qi_result_id :: "pystr option"
  qi_memory_object_id :: "pystr option"
  qi_type :: "pystr option"
  qi_payload :: "json_object option"
  qi_freshness_at :: "time option"
  qi_envelope :: "envelope option"
  qi_source_item_id :: "pystr option"
  qi_source_type :: "pystr option"
  qi_source_id :: "pystr option"
  qi_excerpt :: "pystr option"
  qi_occurred_at :: "time option"
  qi_actor_ref :: "pystr option"
  qi_agent_ref :: "pystr option"
  qi_role :: "pystr option"
  qi_container_ref :: "pystr option"
  qi_thread_ref :: "pystr option"
  qi_source_ref :: "pystr option"
  qi_artifact_kind :: "pystr option"
  qi_visibility :: pystr
  qi_retrieval_source :: "pystr option"
  qi_relay_name :: "pystr option"
  qi_relay_attribution_state :: pystr
  qi_fingerprint :: "pystr option"
  qi_lexical_score :: "rat option"
  qi_vector_score :: "rat option"
  qi_work_refs :: "pystr list"

record stage_trace =
  sg_name :: pystr
  sg_considered :: nat
  sg_candidates :: "search_hit list"
  sg_selected :: "search_hit list"
  sg_before :: nat
  sg_after :: nat

record visibility_trace =
  vt_visibility :: "pystr option"
  vt_container_ref :: "pystr option"
  vt_exclusions :: "(pystr \<times> nat) list"
  vt_fail_closed_reason :: "pystr option"

record fusion_hit =
  fh_result_id :: pystr
  fh_rrf_score :: rat
  fh_rrf_rank :: nat
  fh_fused_score :: int
  fh_lexical_rank :: "nat option"
  fh_vector_rank :: "nat option"
  fh_source :: pystr

record fusion_trace =
  fu_stage_name :: pystr
  fu_k :: nat
  fu_score_scale :: rat
  fu_lexical_weight :: rat
  fu_vector_weight :: rat
  fu_lexical_count :: nat
  fu_vector_count :: nat
  fu_fused_count :: nat
  fu_both_count :: nat
  fu_selected_count :: nat
  fu_hits :: "fusion_hit list"

record query_trace =
  qt_text :: pystr
  qt_tokens :: "pystr list"
  qt_limit :: int
  qt_filters :: "query_filters option"
  qt_stages :: "stage_trace list"
  qt_visibility :: "visibility_trace option"
  qt_fusion :: "fusion_trace option"

record retrieval_result =
  rr_results :: "query_item list"
  rr_trace :: "query_trace option"

definition source_hit :: pystr where
  "source_hit = u ''source_hit''"

definition memory_hit :: pystr where
  "memory_hit = u ''memory_hit''"

definition build_result_id :: "pystr \<Rightarrow> pystr option \<Rightarrow> pystr option \<Rightarrow> pystr option" where
  "build_result_id kind memory_id source_id =
     (if kind = memory_hit \<and> text_or [] memory_id \<noteq> [] then Some (u ''memory_object:'' @ text_or [] memory_id)
      else if kind = source_hit \<and> text_or [] source_id \<noteq> [] then Some (u ''source_item:'' @ text_or [] source_id)
      else None)"

definition memory_result :: "memory_view \<Rightarrow> evidence_ref list \<Rightarrow> rat \<Rightarrow> query_item" where
  "memory_result m evidence score =
     \<lparr>qi_kind = memory_hit, qi_score = score, qi_evidence = evidence,
      qi_result_id = build_result_id memory_hit (Some (mv_id m)) None, qi_memory_object_id = Some (mv_id m),
      qi_type = Some (mv_type m), qi_payload = Some (mv_payload m), qi_freshness_at = mv_freshness_at m,
      qi_envelope = mv_envelope m, qi_source_item_id = None, qi_source_type = None, qi_source_id = None,
      qi_excerpt = None, qi_occurred_at = None, qi_actor_ref = None, qi_agent_ref = None, qi_role = None,
      qi_container_ref = None, qi_thread_ref = None, qi_source_ref = None, qi_artifact_kind = None,
      qi_visibility = mv_visibility m, qi_retrieval_source = None, qi_relay_name = None,
      qi_relay_attribution_state = u ''unknown'', qi_fingerprint = None, qi_lexical_score = None,
      qi_vector_score = None, qi_work_refs = []\<rparr>"

definition source_result :: "retrieval_world \<Rightarrow> pystr \<Rightarrow> source_item \<Rightarrow> rat \<Rightarrow> query_item" where
  "source_result W query i score =
     \<lparr>qi_kind = source_hit, qi_score = score, qi_evidence = [to_evidence i],
      qi_result_id = build_result_id source_hit None (Some (i_id i)), qi_memory_object_id = None, qi_type = None,
      qi_payload = None, qi_freshness_at = None, qi_envelope = None, qi_source_item_id = Some (i_id i),
      qi_source_type = Some (i_source_type i), qi_source_id = Some (i_source_id i),
      qi_excerpt = Some (build_excerpt (se_casefold (rv_env W)) max_excerpt_length (Some query) (i_content i)),
      qi_occurred_at = i_occurred_at i, qi_actor_ref = i_actor_ref i, qi_agent_ref = i_agent_ref i,
      qi_role = i_role i, qi_container_ref = i_container_ref i, qi_thread_ref = i_thread_ref i,
      qi_source_ref = i_source_ref i, qi_artifact_kind = i_artifact_kind i,
      qi_visibility = text_or (u ''private'') (i_visibility i), qi_retrieval_source = None,
      qi_relay_name = i_relay_name i, qi_relay_attribution_state = i_relay_attribution_state i,
      qi_fingerprint = build_source_content_fingerprint (se_casefold (rv_env W)) (rv_nfkc W) (rv_digest W) (i_content i),
      qi_lexical_score = None, qi_vector_score = None,
      qi_work_refs = item_work_refs (se_casefold (rv_env W)) (se_redact (rv_env W)) i\<rparr>"

section \<open>Reads\<close>

text \<open>One read, of what the others have left.\<close>

definition peek :: "retrieval_world \<Rightarrow> (queue_db \<Rightarrow> 'a) \<Rightarrow> pass_state \<Rightarrow> 'a \<times> pass_state" where
  "peek W f s = (f (rt_queue (next_db (rv_pass W) s)), Suc (fst s), next_db (rv_pass W) s)"

text \<open>\<open>get_source_items\<close>; without identifiers nothing is read.\<close>

definition read_items ::
  "retrieval_world \<Rightarrow> pystr list \<Rightarrow> pass_state \<Rightarrow> (pystr \<Rightarrow> source_item option) \<times> pass_state" where
  "read_items W ks s =
     (if ks = [] then (\<lambda>_. None, s)
      else peek W (\<lambda>q k. if k \<in> set ks then map_option item_view (get_source q k) else None) s)"

section \<open>Hydration\<close>

definition read_memory_hit :: "retrieval_world \<Rightarrow> search_hit \<Rightarrow> pass_state \<Rightarrow> query_item option \<times> pass_state" where
  "read_memory_hit W h s =
     (case peek W (\<lambda>q. get_memory_object q (hit_target h)) s of
        (Inl _, s1) \<Rightarrow> (None, s1)
      | (Inr m, s1) \<Rightarrow>
          (case peek W (\<lambda>q. evidence_for q (hit_target h)) s1 of
             (evidence, s2) \<Rightarrow> (Some (memory_result m evidence (hit_score h)), s2)))"

definition read_source_hit ::
  "retrieval_world \<Rightarrow> pystr \<Rightarrow> (pystr \<Rightarrow> source_item option) \<Rightarrow> search_hit \<Rightarrow> pass_state
    \<Rightarrow> query_item option \<times> pass_state" where
  "read_source_hit W query prefetched h s =
     (case prefetched (hit_target h) of
        Some i \<Rightarrow> (Some (source_result W query i (hit_score h)), s)
      | None \<Rightarrow>
          (case peek W (\<lambda>q. read_source_item q (hit_target h)) s of
             (Inl _, s1) \<Rightarrow> (None, s1)
           | (Inr i, s1) \<Rightarrow> (Some (source_result W query i (hit_score h)), s1)))"

definition read_hit ::
  "retrieval_world \<Rightarrow> pystr \<Rightarrow> (pystr \<Rightarrow> source_item option) \<Rightarrow> search_hit \<Rightarrow> pass_state
    \<Rightarrow> query_item option \<times> pass_state" where
  "read_hit W query prefetched h s =
     (if hit_kind h = u ''memory_object'' then read_memory_hit W h s
      else if hit_kind h = u ''source_item'' then read_source_hit W query prefetched h s
      else (None, s))"

text \<open>The loop over the hits: \<open>seen\<close> are the targets met, \<open>got\<close> the results with their hits so far.\<close>

fun hydrate ::
  "retrieval_world \<Rightarrow> pystr \<Rightarrow> int \<Rightarrow> (pystr \<Rightarrow> source_item option) \<Rightarrow> search_hit list
    \<Rightarrow> (pystr \<times> pystr) list \<Rightarrow> (query_item \<times> search_hit) list \<Rightarrow> pass_state
    \<Rightarrow> (query_item \<times> search_hit) list \<times> pass_state" where
  "hydrate W query limit prefetched [] seen got s = (got, s)"
| "hydrate W query limit prefetched (h # hs) seen got s =
     (if (hit_kind h, hit_target h) \<in> set seen then hydrate W query limit prefetched hs seen got s
      else
        (case read_hit W query prefetched h s of
           (None, s1) \<Rightarrow> hydrate W query limit prefetched hs ((hit_kind h, hit_target h) # seen) got s1
         | (Some x, s1) \<Rightarrow>
             let got1 = got @ [(x, h)]
             in if limit \<le> int (length got1) then (got1, s1)
                else hydrate W query limit prefetched hs ((hit_kind h, hit_target h) # seen) got1 s1))"

section \<open>The last look\<close>

definition emitted :: "query_item list \<Rightarrow> pystr list" where
  "emitted xs = List.map_filter (\<lambda>x. if qi_kind x = source_hit then qi_source_item_id x else None) xs"

definition dropped :: "(pystr \<Rightarrow> source_item option) \<Rightarrow> pystr list \<Rightarrow> pystr list" where
  "dropped found ks =
     filter (\<lambda>k. case found k of None \<Rightarrow> True | Some i \<Rightarrow> i_forgotten_at i \<noteq> None) ks"

definition keep_item :: "pystr list \<Rightarrow> query_item \<Rightarrow> bool" where
  "keep_item gone x \<longleftrightarrow> qi_kind x \<noteq> source_hit \<or> qi_source_item_id x \<notin> Some ` set gone"

definition keep_hit :: "pystr list \<Rightarrow> search_hit \<Rightarrow> bool" where
  "keep_hit gone h \<longleftrightarrow> \<not> (hit_kind h = u ''source_item'' \<and> hit_target h \<in> set gone)"

definition revalidate ::
  "retrieval_world \<Rightarrow> (query_item \<times> search_hit) list \<Rightarrow> pass_state
    \<Rightarrow> (query_item list \<times> search_hit list) \<times> pass_state" where
  "revalidate W got s =
     (case read_items W (emitted (map fst got)) s of
        (found, s1) \<Rightarrow>
          let gone = dropped found (emitted (map fst got))
          in ((filter (keep_item gone) (map fst got), filter (keep_hit gone) (map snd got)), s1))"

section \<open>The query\<close>

definition exact_source_work :: "retrieval_args \<Rightarrow> bool" where
  "exact_source_work a \<longleftrightarrow>
     (case ra_filters a of None \<Rightarrow> False | Some f \<Rightarrow> qf_work_refs f \<noteq> [])
     \<and> ra_target_kind a = Some (u ''source_item'')"

definition exact_source_filter :: "retrieval_args \<Rightarrow> bool" where
  "exact_source_filter a \<longleftrightarrow>
     (case ra_filters a of None \<Rightarrow> False | Some f \<Rightarrow> qf_work_refs f \<noteq> [] \<or> text_or [] (qf_relay_name f) \<noteq> [])
     \<and> ra_target_kind a = Some (u ''source_item'')"

definition args_query :: "retrieval_args \<Rightarrow> pystr list \<Rightarrow> search_query" where
  "args_query a tokens =
     \<lparr>sq_tokens = tokens, sq_limit = (if exact_source_filter a then ra_limit a else ra_limit a * 4),
      sq_filters = ra_filters a, sq_container = ra_container a, sq_visibility = ra_visibility a,
      sq_actor = ra_actor a, sq_trace = ra_trace a, sq_target_kind = ra_target_kind a\<rparr>"

definition make_trace ::
  "retrieval_args \<Rightarrow> pystr list \<Rightarrow> stage_trace list \<Rightarrow> visibility_trace option \<Rightarrow> query_trace option" where
  "make_trace a tokens stages visibility =
     (if ra_trace a
      then Some \<lparr>qt_text = ra_text a, qt_tokens = tokens, qt_limit = ra_limit a, qt_filters = ra_filters a,
                 qt_stages = stages, qt_visibility = visibility, qt_fusion = None\<rparr>
      else None)"

definition visibility_of :: "retrieval_args \<Rightarrow> (pystr \<times> nat) list \<Rightarrow> pystr option \<Rightarrow> visibility_trace" where
  "visibility_of a exclusions reason =
     \<lparr>vt_visibility = ra_visibility a, vt_container_ref = ra_container a, vt_exclusions = exclusions,
      vt_fail_closed_reason = reason\<rparr>"

definition no_results :: "query_trace option \<Rightarrow> retrieval_result" where
  "no_results trace = \<lparr>rr_results = [], rr_trace = trace\<rparr>"

definition lexical_stage :: "search_result \<Rightarrow> search_hit list \<Rightarrow> stage_trace" where
  "lexical_stage r selected =
     \<lparr>sg_name = u ''lexical'', sg_considered = length (res_hits r), sg_candidates = res_hits r,
      sg_selected = selected, sg_before = res_before r, sg_after = res_after r\<rparr>"

definition hit_items :: "search_hit list \<Rightarrow> pystr list" where
  "hit_items hs = map hit_target (filter (\<lambda>h. hit_kind h = u ''source_item'') hs)"

definition lexical_query ::
  "retrieval_world \<Rightarrow> retrieval_args \<Rightarrow> pass_state \<Rightarrow> (queue_error + retrieval_result) \<times> pass_state" where
  "lexical_query W a s =
     (let tokens = tokenize_query (se_text (rv_env W)) (ra_text a);
          scoped = ra_visibility a \<noteq> None \<or> ra_container a \<noteq> None
      in if ra_require_visibility a \<and> ra_container a = None
         then (Inr (no_results (make_trace a tokens []
                 (Some (visibility_of a [] (Some (u ''retrieval_visibility_context_required'')))))), s)
         else if tokens = [] \<and> (strip (ra_text a) \<noteq> [] \<or> \<not> exact_source_work a)
         then (Inr (no_results (make_trace a [] [] (if scoped then Some (visibility_of a [] None) else None))), s)
         else
           (case peek W (search_index_entries (rv_env W) (args_query a tokens)) s of
              (Inl e, s1) \<Rightarrow> (Inl e, s1)
            | (Inr r, s1) \<Rightarrow>
                (case read_items W (hit_items (res_hits r)) s1 of
                   (prefetched, s2) \<Rightarrow>
                     (case hydrate W (ra_text a) (ra_limit a) prefetched (res_hits r) [] [] s2 of
                        (got, s3) \<Rightarrow>
                          (case revalidate W got s3 of
                             ((results, selected), s4) \<Rightarrow>
                               (Inr \<lparr>rr_results = results,
                                  rr_trace = make_trace a tokens [lexical_stage r selected]
                                    (if scoped \<or> res_exclusions r \<noteq> []
                                     then Some (visibility_of a (res_exclusions r) None) else None)\<rparr>, s4))))))"

end
