(* ===== verification/Retrieval_Fusion.thy ===== *)
theory Retrieval_Fusion
  imports Retrieval_Query
begin

text \<open>
  The fusion of lexical and vector results by reciprocal rank (\<open>retrieval/composite.py\<close>). The vector
  provider is a parameter. Arithmetic in floating point is exact arithmetic rounded after every step:
  \<open>fl\<close> is the rounding to a double.
\<close>

section \<open>Ranks and scores\<close>

definition rrf_k :: nat where
  "rrf_k = 60"

definition rrf_score_scale :: rat where
  "rrf_score_scale = 600"

definition rrf_lexical_weight :: rat where
  "rrf_lexical_weight = 3 / 2"

definition rrf_vector_weight :: rat where
  "rrf_vector_weight = 1"

text \<open>Dictionaries under the result identifiers, in which a later item replaces an earlier one.\<close>

definition rank_map :: "query_item list \<Rightarrow> pystr \<rightharpoonup> nat" where
  "rank_map xs = map_of (List.map_filter (\<lambda>(n, x). map_option (\<lambda>k. (k, n)) (qi_result_id x))
     (rev (zip [1..<Suc (length xs)] xs)))"

definition item_map :: "query_item list \<Rightarrow> pystr \<rightharpoonup> query_item" where
  "item_map xs = map_of (List.map_filter (\<lambda>x. map_option (\<lambda>k. (k, x)) (qi_result_id x)) (rev xs))"

definition result_ids :: "query_item list \<Rightarrow> pystr list" where
  "result_ids xs = List.map_filter qi_result_id xs"

fun first_ids :: "pystr list \<Rightarrow> pystr list \<Rightarrow> pystr list" where
  "first_ids seen [] = []"
| "first_ids seen (k # ks) = (if k \<in> set seen then first_ids seen ks else k # first_ids (k # seen) ks)"

definition add_rank :: "(rat \<Rightarrow> rat) \<Rightarrow> rat \<Rightarrow> nat option \<Rightarrow> rat \<Rightarrow> rat" where
  "add_rank fl weight rank score =
     (case rank of None \<Rightarrow> score | Some n \<Rightarrow> fl (score + fl (weight / of_nat (rrf_k + n))))"

definition rrf_score :: "(rat \<Rightarrow> rat) \<Rightarrow> nat option \<Rightarrow> nat option \<Rightarrow> rat" where
  "rrf_score fl lexical vector =
     add_rank fl rrf_vector_weight vector (add_rank fl rrf_lexical_weight lexical 0)"

text \<open>\<open>int\<close> of a number.\<close>

definition truncate :: "rat \<Rightarrow> int" where
  "truncate r = (if 0 \<le> r then \<lfloor>r\<rfloor> else \<lceil>r\<rceil>)"

section \<open>Merging\<close>

definition scored_ids ::
  "(rat \<Rightarrow> rat) \<Rightarrow> query_item list \<Rightarrow> query_item list \<Rightarrow> (rat \<times> pystr) list" where
  "scored_ids fl lexical vector =
     sort_key (\<lambda>p. - fst p)
       (map (\<lambda>k. (rrf_score fl (rank_map lexical k) (rank_map vector k), k))
         (first_ids [] (result_ids lexical @ result_ids vector)))"

definition fuse_item ::
  "(rat \<Rightarrow> rat) \<Rightarrow> (pystr \<rightharpoonup> query_item) \<Rightarrow> (pystr \<rightharpoonup> query_item) \<Rightarrow> rat \<times> pystr \<Rightarrow> query_item" where
  "fuse_item fl lexical vector p =
     (let k = snd p;
          source = (if lexical k \<noteq> None \<and> vector k \<noteq> None then u ''both''
                    else if lexical k \<noteq> None then u ''lexical'' else u ''vector'');
          x = (case lexical k of Some y \<Rightarrow> y | None \<Rightarrow> the (vector k))
      in x\<lparr>qi_retrieval_source := Some source, qi_score := of_int (truncate (fl (fst p * rrf_score_scale))),
           qi_lexical_score := map_option qi_score (lexical k),
           qi_vector_score := map_option qi_score (vector k)\<rparr>)"

text \<open>The loop ends after the item that fills the limit, so it takes one even for a limit of zero.\<close>

definition selection :: "int \<Rightarrow> 'a list \<Rightarrow> 'a list" where
  "selection limit ps = take (nat (max 1 limit)) ps"

definition fuse_hits ::
  "(rat \<Rightarrow> rat) \<Rightarrow> query_item list \<Rightarrow> query_item list \<Rightarrow> (rat \<times> pystr) list \<Rightarrow> fusion_hit list" where
  "fuse_hits fl lexical vector ps =
     map (\<lambda>(n, p). \<lparr>fh_result_id = snd p, fh_rrf_score = fst p, fh_rrf_rank = n,
           fh_fused_score = truncate (fl (fst p * rrf_score_scale)),
           fh_lexical_rank = rank_map lexical (snd p), fh_vector_rank = rank_map vector (snd p),
           fh_source = the (qi_retrieval_source (fuse_item fl (item_map lexical) (item_map vector) p))\<rparr>)
       (zip [1..<Suc (length ps)] ps)"

definition trace_stages :: "query_trace option \<Rightarrow> stage_trace list" where
  "trace_stages t = (case t of None \<Rightarrow> [] | Some q \<Rightarrow> qt_stages q)"

definition rrf_merge ::
  "(rat \<Rightarrow> rat) \<Rightarrow> int \<Rightarrow> bool \<Rightarrow> retrieval_result \<Rightarrow> retrieval_result \<Rightarrow> retrieval_result" where
  "rrf_merge fl limit include_trace lexical vector =
     (let lx = rr_results lexical; vx = rr_results vector;
          scored = scored_ids fl lx vx; chosen = selection limit scored;
          fused = map (fuse_item fl (item_map lx) (item_map vx)) chosen;
          stages = trace_stages (rr_trace lexical) @ trace_stages (rr_trace vector);
          fusion = (if include_trace
            then Some \<lparr>fu_stage_name = u ''rrf_fusion'', fu_k = rrf_k, fu_score_scale = rrf_score_scale,
                       fu_lexical_weight = rrf_lexical_weight, fu_vector_weight = rrf_vector_weight,
                       fu_lexical_count = length lx, fu_vector_count = length vx, fu_fused_count = length scored,
                       fu_both_count = length (filter (\<lambda>x. qi_retrieval_source x = Some (u ''both'')) fused),
                       fu_selected_count = length fused, fu_hits = fuse_hits fl lx vx chosen\<rparr>
            else None)
      in \<lparr>rr_results = fused,
          rr_trace =
            (case (rr_trace lexical, rr_trace vector) of
               (Some t, _) \<Rightarrow> Some (t\<lparr>qt_stages := stages, qt_fusion := fusion\<rparr>)
             | (None, Some t) \<Rightarrow> Some (t\<lparr>qt_stages := stages, qt_fusion := fusion\<rparr>)
             | (None, None) \<Rightarrow>
                 if include_trace
                 then Some \<lparr>qt_text = [], qt_tokens = [], qt_limit = limit, qt_filters = None, qt_stages = stages,
                            qt_visibility = None, qt_fusion = fusion\<rparr>
                 else None)\<rparr>)"

type_synonym provider = "retrieval_args \<Rightarrow> pass_state \<Rightarrow> (queue_error + retrieval_result) \<times> pass_state"

definition composite_query :: "(rat \<Rightarrow> rat) \<Rightarrow> provider \<Rightarrow> provider option \<Rightarrow> provider" where
  "composite_query fl lexical vector a s =
     (case lexical a s of
        (Inl e, s1) \<Rightarrow> (Inl e, s1)
      | (Inr l, s1) \<Rightarrow>
          (case vector of
             None \<Rightarrow> (Inr l, s1)
           | Some v \<Rightarrow>
               (case v a s1 of
                  (Inl e, s2) \<Rightarrow> (Inl e, s2)
                | (Inr r, s2) \<Rightarrow> (Inr (rrf_merge fl (ra_limit a) (ra_trace a) l r), s2))))"

section \<open>Order\<close>

text \<open>\<open>a\<close> stands before \<open>b\<close>.\<close>

definition precedes :: "'a \<Rightarrow> 'a \<Rightarrow> 'a list \<Rightarrow> bool" where
  "precedes a b xs \<longleftrightarrow> (\<exists>ys zs. xs = ys @ zs \<and> a \<in> set ys \<and> b \<in> set zs)"

lemma precedes_simps [simp]:
  "precedes a b [] \<longleftrightarrow> False" "precedes a b (x # xs) \<longleftrightarrow> (x = a \<and> b \<in> set xs) \<or> precedes a b xs"
proof -
  show "precedes a b [] \<longleftrightarrow> False" by (simp add: precedes_def)
  show "precedes a b (x # xs) \<longleftrightarrow> (x = a \<and> b \<in> set xs) \<or> precedes a b xs"
  proof
    assume "precedes a b (x # xs)"
    then obtain ys zs where s: "x # xs = ys @ zs" "a \<in> set ys" "b \<in> set zs" by (auto simp: precedes_def)
    then obtain ys' where ys: "ys = x # ys'" "xs = ys' @ zs" by (cases ys) auto
    then show "(x = a \<and> b \<in> set xs) \<or> precedes a b xs"
      using s by (cases "a \<in> set ys'") (auto simp: precedes_def)
  next
    assume "(x = a \<and> b \<in> set xs) \<or> precedes a b xs"
    then show "precedes a b (x # xs)"
    proof
      assume "x = a \<and> b \<in> set xs"
      then show ?thesis unfolding precedes_def by (intro exI [of _ "[x]"] exI [of _ xs]) simp
    next
      assume "precedes a b xs"
      then obtain ys zs where "xs = ys @ zs" "a \<in> set ys" "b \<in> set zs" by (auto simp: precedes_def)
      then show ?thesis unfolding precedes_def by (intro exI [of _ "x # ys"] exI [of _ zs]) simp
    qed
  qed
qed

lemma precedes_in: "precedes a b xs \<Longrightarrow> a \<in> set xs \<and> b \<in> set xs"
  by (induction xs) auto

lemma precedes_append: "precedes a b (xs @ ys) \<longleftrightarrow> precedes a b xs \<or> precedes a b ys \<or> (a \<in> set xs \<and> b \<in> set ys)"
  by (induction xs) auto

lemma precedes_filter: "precedes a b (filter P xs) \<longleftrightarrow> precedes a b xs \<and> P a \<and> P b"
  by (induction xs) (auto dest: precedes_in)

lemma precedes_map: "precedes a b xs \<Longrightarrow> precedes (f a) (f b) (map f xs)"
  by (induction xs) auto

lemma precedes_total: "a \<in> set xs \<Longrightarrow> b \<in> set xs \<Longrightarrow> a \<noteq> b \<Longrightarrow> precedes a b xs \<or> precedes b a xs"
  by (induction xs) auto

lemma precedes_take: "precedes a b xs \<Longrightarrow> distinct xs \<Longrightarrow> b \<in> set (take n xs) \<Longrightarrow> precedes a b (take n xs)"
proof (induction xs arbitrary: n)
  case (Cons x xs)
  then show ?case by (cases n) (auto dest: precedes_in in_set_takeD)
qed simp

text \<open>Sorting keeps the order of what is not worse.\<close>

lemma precedes_sort_key:
  fixes f :: "'a \<Rightarrow> 'b :: linorder"
  assumes "precedes a b xs" "f a \<le> f b" "a \<noteq> b"
  shows "precedes a b (sort_key f xs)"
proof (cases "f a = f b")
  case True
  then have "precedes a b (filter (\<lambda>y. f y = f a) xs)" using assms(1) by (simp add: precedes_filter)
  then have "precedes a b (filter (\<lambda>y. f y = f a) (sort_key f xs))" by (simp add: sort_key_stable)
  then show ?thesis by (simp add: precedes_filter)
next
  case False
  have "\<not> precedes b a ys" if "sorted (map f ys)" for ys
    using that assms(2) False by (induction ys) force+
  then show ?thesis
    using precedes_total [of a "sort_key f xs" b] precedes_in [OF assms(1)] assms(3) by auto
qed

end
