(* ===== verification/Retrieval_Guarantees.thy ===== *)
theory Retrieval_Guarantees
  imports Retrieval_Fusion Search_Guarantees
begin

text \<open>
  What holds of a query, of the fusion of two rankings, and of the excerpts shown, with witnesses; before
  that, what a query has read of what it returns, and how fusion orders what both rankings agree on.
\<close>

section \<open>Hydration\<close>

text \<open>A result and the hit it was made from.\<close>

definition of_hit :: "query_item \<Rightarrow> search_hit \<Rightarrow> bool" where
  "of_hit x h \<longleftrightarrow>
     (hit_kind h = u ''memory_object'' \<and> qi_kind x = memory_hit
        \<and> qi_memory_object_id x = Some (hit_target h) \<and> qi_source_item_id x = None)
     \<or> (hit_kind h = u ''source_item'' \<and> qi_kind x = source_hit
        \<and> qi_source_item_id x = Some (hit_target h) \<and> qi_memory_object_id x = None)"

definition target_of :: "query_item \<Rightarrow> pystr \<times> pystr option \<times> pystr option" where
  "target_of x = (qi_kind x, qi_memory_object_id x, qi_source_item_id x)"

lemma hit_kinds [simp]: "source_hit \<noteq> memory_hit" "memory_hit \<noteq> source_hit"
  by (simp_all add: source_hit_def memory_hit_def)

definition under_key :: "(pystr \<Rightarrow> source_item option) \<Rightarrow> bool" where
  "under_key found \<longleftrightarrow> (\<forall>k i. found k = Some i \<longrightarrow> i_id i = k)"

lemma source_key: "get_source q k = Some i \<Longrightarrow> i_id i = k"
  by (rule row_get_SomeD(2))

lemma read_items_under_key: "read_items W ks s = (found, s') \<Longrightarrow> under_key found"
  by (auto simp: read_items_def peek_def under_key_def source_key split: if_splits)

lemma read_memory_hit_of:
  assumes "read_memory_hit W h s = (Some x, s')" "hit_kind h = u ''memory_object''"
  shows "of_hit x h"
proof -
  obtain m ev where m: "x = memory_result m ev (hit_score h)" "\<exists>q. get_memory_object q (hit_target h) = Inr m"
    using assms(1) by (auto simp: read_memory_hit_def peek_def split: sum.splits)
  then obtain q y where "get_memory q (hit_target h) = Some y" "m = view_memory y"
    by (auto simp: get_memory_object_def split: option.splits)
  then have "mv_id m = hit_target h" using row_get_SomeD(2) by fastforce
  then show ?thesis using m(1) assms(2) by (simp add: of_hit_def memory_result_def)
qed

lemma read_source_hit_of:
  assumes "read_source_hit W query found h s = (Some x, s')" "hit_kind h = u ''source_item''" "under_key found"
  shows "of_hit x h"
proof -
  have "\<exists>i. x = source_result W query i (hit_score h) \<and> i_id i = hit_target h"
  proof (cases "found (hit_target h)")
    case (Some i)
    then show ?thesis using assms(1,3) by (auto simp: read_source_hit_def under_key_def)
  next
    case None
    then obtain q i where "x = source_result W query i (hit_score h)" "read_source_item q (hit_target h) = Inr i"
      using assms(1) by (auto simp: read_source_hit_def peek_def split: sum.splits)
    then show ?thesis by (auto simp: read_source_item_def source_key split: option.splits)
  qed
  then show ?thesis using assms(2) by (auto simp: of_hit_def source_result_def)
qed

lemma read_hit_of:
  assumes "read_hit W query found h s = (Some x, s')" "under_key found"
  shows "of_hit x h"
  using assms read_memory_hit_of read_source_hit_of by (simp add: read_hit_def split: if_splits)

lemma hydrate_sound:
  assumes "hydrate W query limit found hs seen got s = (got', s')" "under_key found"
    "\<forall>(x, h)\<in>set got. of_hit x h \<and> h \<in> H" "set hs \<subseteq> H" "distinct (map (\<lambda>(x, h). (hit_kind h, hit_target h)) got)"
    "(\<lambda>(x, h). (hit_kind h, hit_target h)) ` set got \<subseteq> set seen" "int (length got) < limit \<or> got = []"
  shows "(\<forall>(x, h)\<in>set got'. of_hit x h \<and> h \<in> H) \<and> distinct (map (\<lambda>(x, h). (hit_kind h, hit_target h)) got')
    \<and> int (length got') \<le> max 1 limit"
  using assms
proof (induction hs arbitrary: seen got s)
  case Nil
  then show ?case by auto
next
  case (Cons h hs)
  let ?key = "(hit_kind h, hit_target h)"
  show ?case
  proof (cases "?key \<in> set seen")
    case True
    then show ?thesis using Cons.prems by (intro Cons.IH [of seen got s]) auto
  next
    case False
    obtain r s1 where r: "read_hit W query found h s = (r, s1)" using prod.exhaust by blast
    show ?thesis
    proof (cases r)
      case None
      then show ?thesis using Cons.prems False r by (intro Cons.IH [of "?key # seen" got s1]) auto
    next
      case (Some x)
      have new: "of_hit x h" "h \<in> H" "distinct (map (\<lambda>(x, h). (hit_kind h, hit_target h)) (got @ [(x, h)]))"
        using read_hit_of [OF r [unfolded Some] Cons.prems(2)] Cons.prems False by auto
      show ?thesis
      proof (cases "limit \<le> int (length (got @ [(x, h)]))")
        case True
        then have "got' = got @ [(x, h)]" using Cons.prems(1) False r Some by simp
        then show ?thesis using new Cons.prems by auto
      next
        case more: False
        then have "hydrate W query limit found hs (?key # seen) (got @ [(x, h)]) s1 = (got', s')"
          using Cons.prems(1) False r Some by (simp add: Let_def)
        then show ?thesis using new more Cons.prems by (intro Cons.IH [of "?key # seen" "got @ [(x, h)]" s1]) auto
      qed
    qed
  qed
qed

lemma target_of_hit: "of_hit x h \<Longrightarrow> of_hit y g \<Longrightarrow>
    (target_of x = target_of y) = ((hit_kind h, hit_target h) = (hit_kind g, hit_target g))"
  by (auto simp: of_hit_def target_of_def)

lemma distinct_targets:
  assumes "distinct (map (\<lambda>(x, h). (hit_kind h, hit_target h)) got)" "\<forall>(x, h)\<in>set got. of_hit x h"
  shows "distinct (map target_of (map fst got))"
  using assms
proof (induction got)
  case (Cons p got)
  obtain x h where p: "p = (x, h)" using prod.exhaust by blast
  have "target_of x \<noteq> target_of y" if "(y, g) \<in> set got" for y g
    using that Cons.prems target_of_hit [of x h y g] unfolding p by force
  then have "target_of x \<notin> set (map target_of (map fst got))" by force
  then show ?case using Cons p by auto
qed simp

lemma set_map_filter: "set (List.map_filter f xs) = {y. \<exists>x\<in>set xs. f x = Some y}"
  by (force simp: List.map_filter_def)

text \<open>After the last look every source item returned is there and not forgotten.\<close>

lemma revalidate_sound:
  assumes "revalidate W got s = ((results, selected), s')" "\<forall>(x, h)\<in>set got. of_hit x h"
    "x \<in> set results" "qi_kind x = source_hit"
  shows "\<exists>k i. qi_source_item_id x = Some k \<and> get_source (rt_queue (snd s')) k = Some i \<and> i_forgotten_at i = None"
proof -
  let ?ks = "emitted (map fst got)"
  obtain found s1 where found: "read_items W ?ks s = (found, s1)" using prod.exhaust by blast
  then have res: "results = filter (keep_item (dropped found ?ks)) (map fst got)" "s' = s1"
    using assms(1) by (auto simp: revalidate_def Let_def)
  then obtain h where h: "(x, h) \<in> set got" "of_hit x h" using assms(2,3) by auto
  then have k: "qi_source_item_id x = Some (hit_target h)" using assms(4) by (auto simp: of_hit_def)
  moreover have inks: "hit_target h \<in> set ?ks"
    using h(1) k assms(4) by (force simp: emitted_def set_map_filter)
  moreover have "hit_target h \<notin> set (dropped found ?ks)"
    using assms(3,4) k by (auto simp: res keep_item_def)
  ultimately obtain i where i: "found (hit_target h) = Some i" "i_forgotten_at i = None"
    by (auto simp: dropped_def split: option.splits)
  have "?ks \<noteq> []" using inks by auto
  then have "snd s1 = next_db (rv_pass W) s" "found = (\<lambda>k. if k \<in> set ?ks then map_option item_view (get_source (rt_queue (next_db (rv_pass W) s)) k) else None)"
    using found by (auto simp: read_items_def peek_def)
  then show ?thesis using i k inks res(2) by (auto split: if_splits)
qed

section \<open>Fusion\<close>

definition ranked :: "nat \<Rightarrow> query_item list \<Rightarrow> (pystr \<times> nat) list" where
  "ranked i xs = List.map_filter (\<lambda>(n, x). map_option (\<lambda>k. (k, n)) (qi_result_id x)) (zip [i..<i + length xs] xs)"

lemma ranked_simps [simp]:
  "ranked i [] = []"
  "ranked i (x # xs) = (case qi_result_id x of None \<Rightarrow> [] | Some k \<Rightarrow> [(k, i)]) @ ranked (Suc i) xs"
  by (simp_all add: ranked_def upt_conv_Cons List.map_filter_simps del: upt_Suc split: option.split)

lemma keys_ranked: "map fst (ranked i xs) = result_ids xs"
  by (induction xs arbitrary: i) (auto simp: result_ids_def List.map_filter_simps split: option.split)

lemma ranked_above: "map_of (ranked i xs) k = Some n \<Longrightarrow> i \<le> n"
  by (induction xs arbitrary: i) (force split: option.splits if_splits)+

lemma map_filter_rev: "List.map_filter f (rev xs) = rev (List.map_filter f xs)"
  by (simp add: List.map_filter_def rev_map rev_filter)

lemma map_of_reversed: "distinct (map fst ps) \<Longrightarrow> map_of (rev ps) = map_of ps"
proof (induction ps)
  case (Cons p ps)
  then have "map_of ps (fst p) = None" by (simp add: map_of_eq_None_iff)
  then show ?case using Cons by (cases p) (auto simp: map_of_append map_add_def fun_eq_iff split: option.split)
qed simp

lemma rank_map_ranked:
  assumes "distinct (result_ids xs)"
  shows "rank_map xs = map_of (ranked 1 xs)"
proof -
  have "rank_map xs = map_of (rev (ranked 1 xs))"
    by (simp add: rank_map_def ranked_def map_filter_rev)
  moreover have "distinct (map fst (ranked 1 xs))" using assms by (simp add: keys_ranked)
  ultimately show ?thesis by (simp add: map_of_reversed)
qed

lemma rank_map_None: "rank_map xs k = None \<longleftrightarrow> k \<notin> set (result_ids xs)"
proof -
  have "rank_map xs = map_of (rev (ranked 1 xs))" by (simp add: rank_map_def ranked_def map_filter_rev)
  then show ?thesis
    using keys_ranked [of 1 xs] by (simp add: map_of_eq_None_iff flip: set_map)
qed

lemma ranked_order:
  assumes "precedes a b (result_ids xs)" "distinct (result_ids xs)"
  shows "\<exists>m n. map_of (ranked i xs) a = Some m \<and> map_of (ranked i xs) b = Some n \<and> m < n"
  using assms
proof (induction xs arbitrary: i)
  case (Cons x xs)
  show ?case
  proof (cases "qi_result_id x")
    case None
    then show ?thesis using Cons by (simp add: result_ids_def List.map_filter_simps)
  next
    case (Some k)
    then have ids: "result_ids (x # xs) = k # result_ids xs" by (simp add: result_ids_def List.map_filter_simps)
    then have nk: "k \<notin> set (result_ids xs)" "distinct (result_ids xs)" using Cons.prems(2) by simp_all
    have "b \<in> set (result_ids xs)" using Cons.prems(1) unfolding ids by (auto dest: precedes_in)
    moreover have "map_of (ranked (Suc i) xs) b = None \<longleftrightarrow> b \<notin> fst ` set (ranked (Suc i) xs)"
      by (rule map_of_eq_None_iff)
    moreover have "fst ` set (ranked (Suc i) xs) = set (result_ids xs)"
      by (simp flip: keys_ranked [of "Suc i" xs])
    ultimately obtain n where n: "map_of (ranked (Suc i) xs) b = Some n" "b \<noteq> k" using nk by auto
    show ?thesis
    proof (cases "a = k")
      case True
      then show ?thesis using Some n ranked_above [OF n(1)] by auto
    next
      case False
      then have "precedes a b (result_ids xs)" using Cons.prems(1) unfolding ids by simp
      from Cons.IH [OF this nk(2), of "Suc i"] show ?thesis using Some False n(2) by auto
    qed
  qed
qed (simp add: result_ids_def List.map_filter_simps)

lemma rank_order:
  assumes "distinct (result_ids xs)" "b \<in> set (result_ids xs) \<Longrightarrow> precedes a b (result_ids xs)" "rank_map xs b = Some n"
  shows "\<exists>m<n. rank_map xs a = Some m"
proof -
  have "b \<in> set (result_ids xs)" using assms(3) rank_map_None [of xs b] by force
  from ranked_order [OF assms(2) [OF this] assms(1), of 1] show ?thesis
    using assms(3) by (auto simp: rank_map_ranked [OF assms(1)])
qed

text \<open>A better rank gives no smaller score, with any rounding that keeps the order.\<close>

definition rounding :: "(rat \<Rightarrow> rat) \<Rightarrow> bool" where
  "rounding fl \<longleftrightarrow> mono fl \<and> fl 0 = 0 \<and> (\<forall>x. fl (fl x) = fl x)"

lemma rounding_mono: "rounding fl \<Longrightarrow> x \<le> y \<Longrightarrow> fl x \<le> fl y"
  by (simp add: rounding_def monoD)

lemma rounding_nonneg: "rounding fl \<Longrightarrow> 0 \<le> x \<Longrightarrow> 0 \<le> fl x"
  using rounding_mono [of fl 0 x] by (simp add: rounding_def)

lemma add_rank_le:
  assumes "rounding fl" "0 \<le> w" "0 \<le> s" "s \<le> s'" "fl s = s" "\<And>n. r = Some n \<Longrightarrow> \<exists>m<n. r' = Some m"
  shows "add_rank fl w r s \<le> add_rank fl w r' s'"
proof (cases r)
  case None
  show ?thesis
  proof (cases r')
    case (Some m)
    have "0 \<le> fl (w / of_nat (rrf_k + m))" using assms(2) by (intro rounding_nonneg [OF assms(1)]) simp
    then have "s \<le> s' + fl (w / of_nat (rrf_k + m))" using assms(4) by simp
    then have "fl s \<le> fl (s' + fl (w / of_nat (rrf_k + m)))" by (rule rounding_mono [OF assms(1)])
    then show ?thesis using None Some assms(5) by (simp add: add_rank_def)
  qed (use None assms(4) in \<open>simp add: add_rank_def\<close>)
next
  case (Some n)
  then obtain m where m: "m < n" "r' = Some m" using assms(6) by blast
  have "w / of_nat (rrf_k + n) \<le> w / of_nat (rrf_k + m)"
    using assms(2) m(1) by (intro divide_left_mono) (auto simp: rrf_k_def)
  then have "fl (w / of_nat (rrf_k + n)) \<le> fl (w / of_nat (rrf_k + m))"
    by (rule rounding_mono [OF assms(1)])
  then have "s + fl (w / of_nat (rrf_k + n)) \<le> s' + fl (w / of_nat (rrf_k + m))" using assms(4) by simp
  then have "fl (s + fl (w / of_nat (rrf_k + n))) \<le> fl (s' + fl (w / of_nat (rrf_k + m)))"
    by (rule rounding_mono [OF assms(1)])
  then show ?thesis using Some m(2) by (simp add: add_rank_def)
qed

lemma add_rank_range: "rounding fl \<Longrightarrow> fl s = s \<Longrightarrow> fl (add_rank fl w r s) = add_rank fl w r s"
  by (simp add: add_rank_def rounding_def split: option.split)

lemma add_rank_nonneg:
  assumes "rounding fl" "0 \<le> w" "0 \<le> s"
  shows "0 \<le> add_rank fl w r s"
proof (cases r)
  case (Some n)
  have "0 \<le> fl (w / of_nat (rrf_k + n))" using assms(2) by (intro rounding_nonneg [OF assms(1)]) simp
  then have "0 \<le> fl (s + fl (w / of_nat (rrf_k + n)))" using assms(3) by (intro rounding_nonneg [OF assms(1)]) simp
  then show ?thesis using Some by (simp add: add_rank_def)
qed (use assms(3) in \<open>simp add: add_rank_def\<close>)

lemma rrf_score_le:
  assumes "rounding fl" "\<And>n. lb = Some n \<Longrightarrow> \<exists>m<n. la = Some m" "\<And>n. vb = Some n \<Longrightarrow> \<exists>m<n. va = Some m"
  shows "rrf_score fl lb vb \<le> rrf_score fl la va"
proof -
  have zero: "fl 0 = 0" using assms(1) by (simp add: rounding_def)
  have "add_rank fl rrf_lexical_weight lb 0 \<le> add_rank fl rrf_lexical_weight la 0"
    by (rule add_rank_le [OF assms(1) _ _ _ zero]) (use assms(2) in \<open>simp_all add: rrf_lexical_weight_def\<close>)
  moreover have "0 \<le> rrf_lexical_weight" "0 \<le> rrf_vector_weight"
    by (simp_all add: rrf_vector_weight_def rrf_lexical_weight_def)
  ultimately show ?thesis
    unfolding rrf_score_def
    using add_rank_nonneg [OF assms(1), of rrf_lexical_weight 0 lb] add_rank_range [OF assms(1) zero]
    by (intro add_rank_le [OF assms(1) _ _ _ _ assms(3)]) simp_all
qed

lemma first_ids_distinct: "distinct ks \<Longrightarrow> first_ids seen ks = filter (\<lambda>k. k \<notin> set seen) ks"
proof (induction ks arbitrary: seen)
  case (Cons k ks)
  then have "filter (\<lambda>j. j \<notin> set (k # seen)) ks = filter (\<lambda>j. j \<notin> set seen) ks" by (intro filter_cong) auto
  then show ?case using Cons by simp
qed simp

lemma first_ids_append:
  "distinct xs \<Longrightarrow> set xs \<inter> set seen = {} \<Longrightarrow> first_ids seen (xs @ ys) = xs @ first_ids (rev xs @ seen) ys"
  by (induction xs arbitrary: seen) auto

lemma all_ids:
  assumes "distinct xs" "distinct ys"
  shows "first_ids [] (xs @ ys) = xs @ filter (\<lambda>k. k \<notin> set xs) ys"
  using first_ids_append [OF assms(1), of "[]" ys] first_ids_distinct [OF assms(2), of "rev xs"] by simp

lemma item_map_id: "item_map xs k = Some x \<Longrightarrow> qi_result_id x = Some k"
  by (auto simp: item_map_def set_map_filter dest!: map_of_SomeD)

lemma item_map_None: "item_map xs k = None \<longleftrightarrow> k \<notin> set (result_ids xs)"
  by (force simp: item_map_def map_of_eq_None_iff set_map_filter result_ids_def image_iff)

lemma fuse_item_id:
  assumes "k \<in> set (result_ids lx) \<union> set (result_ids vx)"
  shows "qi_result_id (fuse_item fl (item_map lx) (item_map vx) (r, k)) = Some k"
proof (cases "item_map lx k")
  case (Some x)
  then show ?thesis using item_map_id [OF Some] by (simp add: fuse_item_def Let_def)
next
  case None
  then obtain x where "item_map vx k = Some x" using assms item_map_None [of lx k] item_map_None [of vx k] by auto
  then show ?thesis using None item_map_id [of vx k x] by (simp add: fuse_item_def Let_def)
qed

lemma set_first_ids: "set (first_ids seen ks) = set ks - set seen"
  by (induction ks arbitrary: seen) auto

lemma merged_ids:
  "map qi_result_id (rr_results (rrf_merge fl limit trace l v)) =
     map (\<lambda>p. Some (snd p)) (selection limit (scored_ids fl (rr_results l) (rr_results v)))"
proof -
  have "qi_result_id (fuse_item fl (item_map (rr_results l)) (item_map (rr_results v)) p) = Some (snd p)"
    if "p \<in> set (selection limit (scored_ids fl (rr_results l) (rr_results v)))" for p
    using that fuse_item_id [of "snd p" "rr_results l" "rr_results v" fl "fst p"]
    by (auto simp: selection_def scored_ids_def set_first_ids dest!: in_set_takeD)
  then show ?thesis by (simp add: rrf_merge_def Let_def comp_def)
qed

section \<open>Queries\<close>

lemma search_bounded:
  assumes "search_index_entries E q db = Inr res"
  shows "length (res_hits res) \<le> nat (sq_limit q)"
  using search_hits [OF assms] search_without_words [OF assms]
  by (cases "sq_tokens q \<noteq> [] \<or> structural_query q") (auto simp: best_rows_def)

lemma item_hit_readable:
  assumes "search_index_entries E q db = Inr res" "h \<in> set (res_hits res)" "hit_kind h = u ''source_item''"
    "sq_container q = Some c"
  shows "\<exists>i. get_source db (hit_target h) = Some i
    \<and> may_read (Some (text_or (u ''private'') (i_visibility i))) (i_container_ref i) (i_actor_ref i)
        c (sq_visibility q) (sq_actor q)"
proof -
  obtain r where r: "readable_row E q db r" "h = make_hit E q r"
    using search_hit_row [OF assms(1,2)] by blast
  then show ?thesis
    using readable_item [of r E q db] assms(3,4)
    by (auto simp: make_hit_def live_item_def sees_item_def is_visible_iff)
qed

lemma lexical_query_run:
  assumes "lexical_query W a s = (Inr r, s')"
  shows "rr_results r = [] \<or>
    (\<exists>res got s1 s2 found selected.
       search_index_entries (rv_env W) (args_query a (tokenize_query (se_text (rv_env W)) (ra_text a)))
         (rt_queue (next_db (rv_pass W) s)) = Inr res
       \<and> under_key found \<and> hydrate W (ra_text a) (ra_limit a) found (res_hits res) [] [] s1 = (got, s2)
       \<and> revalidate W got s2 = ((rr_results r, selected), s'))"
  using assms read_items_under_key
  by (fastforce simp: lexical_query_def peek_def no_results_def Let_def split: if_splits sum.splits prod.splits)

text \<open>C21: what was forgotten while a query ran is not returned: every source item of the answer is there
  and not forgotten in the state the query read last, and its asker may read it in the state the query
  read first, whatever other connections did in between. The answer keeps to its limit and names no
  target twice.\<close>

theorem query_emits_nothing_forgotten:
  assumes "lexical_query W a s = (Inr r, n, db)" "ra_container a = Some c"
  shows "int (length (rr_results r)) \<le> max 0 (ra_limit a) \<and> distinct (map target_of (rr_results r))
    \<and> (\<forall>x\<in>set (rr_results r). qi_kind x = source_hit \<longrightarrow>
        (\<exists>k i j. qi_source_item_id x = Some k
           \<and> get_source (rt_queue db) k = Some i \<and> i_forgotten_at i = None
           \<and> get_source (rt_queue (next_db (rv_pass W) s)) k = Some j
           \<and> may_read (Some (text_or (u ''private'') (i_visibility j))) (i_container_ref j) (i_actor_ref j)
               c (ra_visibility a) (ra_actor a)))"
proof (cases "rr_results r = []")
  case False
  let ?q = "args_query a (tokenize_query (se_text (rv_env W)) (ra_text a))"
  from lexical_query_run [OF assms(1)] False obtain res got s1 s2 found selected where
    search: "search_index_entries (rv_env W) ?q (rt_queue (next_db (rv_pass W) s)) = Inr res" and
    found: "under_key found" and
    hyd: "hydrate W (ra_text a) (ra_limit a) found (res_hits res) [] [] s1 = (got, s2)" and
    reval: "revalidate W got s2 = ((rr_results r, selected), (n, db))"
    by auto
  have got: "\<forall>(x, h)\<in>set got. of_hit x h \<and> h \<in> set (res_hits res)"
    "distinct (map (\<lambda>(x, h). (hit_kind h, hit_target h)) got)" "int (length got) \<le> max 1 (ra_limit a)"
    using hydrate_sound [OF hyd found, of "set (res_hits res)"] by auto
  have "\<exists>gone. filter (keep_item gone) (map fst got) = rr_results r"
    using reval by (auto simp: revalidate_def Let_def split: prod.splits)
  then have results: "\<exists>gone. rr_results r = filter (keep_item gone) (map fst got)" by metis
  have "ra_limit a \<le> 0 \<Longrightarrow> res_hits res = []"
    using search_bounded [OF search] by (auto simp: args_query_def split: if_splits)
  then have "int (length got) \<le> max 0 (ra_limit a)"
    using got(3) hyd by (cases "ra_limit a \<le> 0") auto
  moreover have "length (rr_results r) \<le> length got"
    using results length_filter_le by (metis length_map)
  ultimately have bound: "int (length (rr_results r)) \<le> max 0 (ra_limit a)" by linarith
  have "distinct (map target_of (map fst got))"
    using distinct_targets [OF got(2)] got(1) by blast
  then have once: "distinct (map target_of (rr_results r))" using results by (auto simp: distinct_map_filter)
  have "\<exists>k i j. qi_source_item_id x = Some k
           \<and> get_source (rt_queue db) k = Some i \<and> i_forgotten_at i = None
           \<and> get_source (rt_queue (next_db (rv_pass W) s)) k = Some j
           \<and> may_read (Some (text_or (u ''private'') (i_visibility j))) (i_container_ref j) (i_actor_ref j)
               c (ra_visibility a) (ra_actor a)"
    if x: "x \<in> set (rr_results r)" "qi_kind x = source_hit" for x
  proof -
    obtain k i where live: "qi_source_item_id x = Some k" "get_source (rt_queue db) k = Some i" "i_forgotten_at i = None"
      using revalidate_sound [OF reval _ x] got(1) by force
    obtain h where h: "of_hit x h" "h \<in> set (res_hits res)" using x(1) results got(1) by fastforce
    then have "hit_kind h = u ''source_item''" "hit_target h = k" using x(2) live(1) by (auto simp: of_hit_def)
    then show ?thesis
      using item_hit_readable [OF search h(2), of c] assms(2) live by (auto simp: args_query_def)
  qed
  then show ?thesis using bound once by blast
qed simp

definition ex_retrieval :: retrieval_world where
  "ex_retrieval = \<lparr>rv_pass = \<lparr>pw_lower = (\<lambda>s. s), pw_time = int, pw_meanwhile = (\<lambda>_ db. db)\<rparr>,
     rv_env = ex_search_env, rv_nfkc = (\<lambda>s. s), rv_digest = (\<lambda>s. s)\<rparr>"

definition ex_asked :: retrieval_args where
  "ex_asked = \<lparr>ra_text = u ''plan'', ra_limit = 2, ra_filters = None, ra_visibility = None, ra_container = Some [99],
     ra_trace = True, ra_require_visibility = True, ra_actor = None, ra_target_kind = None\<rparr>"

definition ex_history :: retention_db where
  "ex_history = \<lparr>rt_queue = ex_library, rt_flags = [], rt_maintenance = [], rt_relay = empty_db\<rparr>"

theorem query_emits_nothing_forgotten_witness:
  "\<exists>r n db. lexical_query ex_retrieval ex_asked (0, ex_history) = (Inr r, n, db) \<and> length (rr_results r) \<le> 2
     \<and> distinct (map target_of (rr_results r))"
proof -
  obtain res where "search_index_entries ex_search_env
      (args_query ex_asked (tokenize_query (se_text ex_search_env) (ra_text ex_asked))) ex_library = Inr res"
    using search_succeeds [OF ex_library_intact] by blast
  then have "\<exists>r. fst (lexical_query ex_retrieval ex_asked (0, ex_history)) = Inr r"
    by (simp add: lexical_query_def ex_retrieval_def ex_history_def peek_def next_db_def Let_def split: prod.split)
  then obtain r n db where run: "lexical_query ex_retrieval ex_asked (0, ex_history) = (Inr r, n, db)"
    by (cases "lexical_query ex_retrieval ex_asked (0, ex_history)") auto
  have "ra_container ex_asked = Some [99]" "ra_limit ex_asked = 2" by (simp_all add: ex_asked_def)
  with query_emits_nothing_forgotten [OF run, of "[99]"] run show ?thesis by auto
qed

section \<open>Fusion\<close>

text \<open>C22: fusion respects what both rankings agree on: if every ranking that has \<open>b\<close> puts \<open>a\<close> before it,
  then \<open>b\<close> is only returned behind \<open>a\<close>, however the scores round, equal ones included.\<close>

theorem fusion_respects_agreement:
  assumes "rounding fl" "distinct (result_ids (rr_results l))" "distinct (result_ids (rr_results v))"
    "a \<in> set (result_ids (rr_results l)) \<union> set (result_ids (rr_results v))" "a \<noteq> b"
    "b \<in> set (result_ids (rr_results l)) \<Longrightarrow> precedes a b (result_ids (rr_results l))"
    "b \<in> set (result_ids (rr_results v)) \<Longrightarrow> precedes a b (result_ids (rr_results v))"
    "Some b \<in> qi_result_id ` set (rr_results (rrf_merge fl limit trace l v))"
  shows "precedes (Some a) (Some b) (map qi_result_id (rr_results (rrf_merge fl limit trace l v)))"
proof -
  let ?lx = "result_ids (rr_results l)" and ?vx = "result_ids (rr_results v)"
  let ?score = "\<lambda>k. rrf_score fl (rank_map (rr_results l) k) (rank_map (rr_results v) k)"
  let ?ids = "first_ids [] (?lx @ ?vx)" and ?chosen = "selection limit (scored_ids fl (rr_results l) (rr_results v))"
  have ids: "?ids = ?lx @ filter (\<lambda>k. k \<notin> set ?lx) ?vx" by (rule all_ids [OF assms(2,3)])
  note names = merged_ids [of fl limit trace l v]
  have "Some b \<in> set (map qi_result_id (rr_results (rrf_merge fl limit trace l v)))" using assms(8) by simp
  then have b: "b \<in> snd ` set ?chosen" unfolding names by auto
  then have "b \<in> set ?ids" by (auto simp: selection_def scored_ids_def dest!: in_set_takeD)
  then have "precedes a b ?ids"
    using assms(4,6,7) by (auto simp: ids precedes_append precedes_filter dest: precedes_in)
  then have "precedes (?score a, a) (?score b, b) (map (\<lambda>k. (?score k, k)) ?ids)" by (rule precedes_map)
  moreover have "?score b \<le> ?score a"
    using rank_order [OF assms(2,6)] rank_order [OF assms(3,7)] by (intro rrf_score_le [OF assms(1)])
  ultimately have sorted: "precedes (?score a, a) (?score b, b) (scored_ids fl (rr_results l) (rr_results v))"
    using assms(5) by (simp add: scored_ids_def precedes_sort_key)
  have "distinct ?ids" using assms(2,3) by (auto simp: ids)
  then have once: "distinct (scored_ids fl (rr_results l) (rr_results v))"
    by (simp add: scored_ids_def distinct_map inj_on_def)
  obtain y where y: "(y, b) \<in> set ?chosen" using b by auto
  then have "(y, b) \<in> set (scored_ids fl (rr_results l) (rr_results v))" by (auto simp: selection_def dest: in_set_takeD)
  then have "(?score b, b) \<in> set ?chosen" using y by (auto simp: scored_ids_def)
  then have "precedes (?score a, a) (?score b, b) ?chosen"
    unfolding selection_def by (rule precedes_take [OF sorted once])
  from precedes_map [OF this, of "\<lambda>p. Some (snd p)"] show ?thesis unfolding names by simp
qed

definition ex_found :: "nat \<Rightarrow> query_item" where
  "ex_found n = memory_result (view_memory (memory_row ex_memory_env (ex_decision n))) [] 1"

definition ex_ranking :: "nat list \<Rightarrow> retrieval_result" where
  "ex_ranking ns = \<lparr>rr_results = map ex_found ns, rr_trace = None\<rparr>"

theorem fusion_respects_agreement_witness:
  "precedes (Some (u ''memory_object:'' @ [1])) (Some (u ''memory_object:'' @ [2]))
     (map qi_result_id (rr_results (rrf_merge (\<lambda>x. x) 5 False (ex_ranking [3, 1, 2]) (ex_ranking [1]))))"
proof -
  have ids: "result_ids (rr_results (ex_ranking ns)) = map (\<lambda>n. u ''memory_object:'' @ [n]) ns" for ns
    by (induction ns) (simp_all add: ex_ranking_def result_ids_def ex_found_def memory_result_def build_result_id_def
        view_memory_def memory_row_def ex_decision_def text_or_def List.map_filter_simps)
  have "rounding (\<lambda>x. x)" by (simp add: rounding_def mono_def)
  note agreed = fusion_respects_agreement [OF this, of "ex_ranking [3, 1, 2]" "ex_ranking [1]"
      "u ''memory_object:'' @ [1]" "u ''memory_object:'' @ [2]" 5 False]
  let ?scored = "scored_ids (\<lambda>x. x) (rr_results (ex_ranking [3, 1, 2])) (rr_results (ex_ranking [1]))"
  have "length ?scored = 3" "u ''memory_object:'' @ [2] \<in> snd ` set ?scored"
    unfolding scored_ids_def ids by (simp_all add: image_image)
  then have "Some (u ''memory_object:'' @ [2]) \<in> set (map (\<lambda>p. Some (snd p)) (selection 5 ?scored))"
    by (auto simp: selection_def)
  then have "Some (u ''memory_object:'' @ [2]) \<in>
      set (map qi_result_id (rr_results (rrf_merge (\<lambda>x. x) 5 False (ex_ranking [3, 1, 2]) (ex_ranking [1]))))"
    unfolding merged_ids .
  then have "Some (u ''memory_object:'' @ [2]) \<in>
      qi_result_id ` set (rr_results (rrf_merge (\<lambda>x. x) 5 False (ex_ranking [3, 1, 2]) (ex_ranking [1])))"
    by (simp only: set_map)
  then show ?thesis using agreed unfolding ids by simp
qed

section \<open>Excerpts\<close>

text \<open>An excerpt has at most 160 characters, and is the whole content, with its white space made single
  blanks, exactly if that has no more.\<close>

theorem excerpt_fits:
  "int (length (build_excerpt cf max_excerpt_length query content)) \<le> max_excerpt_length
    \<and> (build_excerpt cf max_excerpt_length query content = single_spaced content)
        = (int (length (single_spaced content)) \<le> max_excerpt_length)"
proof -
  have fits: "int (length (build_excerpt cf max_excerpt_length query content)) \<le> max_excerpt_length"
    by (rule length_build_excerpt) (simp add: max_excerpt_length_def)
  moreover have "build_excerpt cf max_excerpt_length query content = single_spaced content"
    if "int (length (single_spaced content)) \<le> max_excerpt_length"
    using that by (simp add: build_excerpt_def Let_def)
  ultimately show ?thesis by metis
qed

text \<open>C30: a match near the end is cut off: when a long text has its first match so near its end that the
  window is moved back to fit, the excerpt leaves out the last three characters of the text, a match
  among them included, and shows no sign of it.\<close>

theorem excerpt_loses_the_end:
  assumes "n = single_spaced content" "160 < length n" "match_positions cf n t = p # ps"
    "length n \<le> unfold_offset cf (Min (set (p # ps))) 0 0 n + 107"
  shows "build_excerpt cf max_excerpt_length (Some t) content = u ''...'' @ drop (length n - 160) (take (length n - 3) n)"
proof -
  let ?at = "unfold_offset cf (Min (set (p # ps))) 0 0 n"
  have "build_excerpt cf max_excerpt_length (Some t) content = excerpt_at 160 ?at n"
    using assms(2,3) unfolding assms(1) by (simp add: build_excerpt_def Let_def max_excerpt_length_def)
  also have "\<dots> = u ''...'' @ take 157 (drop (length n - 160) n)"
    using excerpt_near_end [of 160 n ?at] assms(2,4) by simp
  also have "take 157 (drop (length n - 160) n) = drop (length n - 160) (take (length n - 3) n)"
    using assms(2) by (simp add: take_drop)
  finally show ?thesis .
qed

definition ex_content :: pystr where
  "ex_content = replicate 170 97 @ [32, 122]"

lemma plain_case [simp]: "fold_case (\<lambda>c. [c]) s = s"
  by (simp add: fold_case_def)

lemma plain_offset: "offset \<le> target \<Longrightarrow> unfold_offset (\<lambda>c. [c]) target offset index s = index + min (target - offset) (length s)"
  by (induction s arbitrary: offset index) auto

lemma split_first_word:
  "w \<noteq> [] \<Longrightarrow> \<forall>c\<in>set w. \<not> py_isspace c \<Longrightarrow> split_words (w @ s) =
     (if s = [] \<or> py_isspace (hd s) then w # split_words s else split_words (w @ s))"
proof (cases w)
  case (Cons c r)
  assume "\<forall>c\<in>set w. \<not> py_isspace c"
  moreover have "takeWhile (\<lambda>c. \<not> py_isspace c) (r @ s) = r" "dropWhile (\<lambda>c. \<not> py_isspace c) (r @ s) = s"
    if "s = [] \<or> py_isspace (hd s)" "\<forall>c\<in>set r. \<not> py_isspace c"
    using that by (cases s; auto simp: takeWhile_append dropWhile_append)+
  ultimately show ?thesis using Cons by (simp add: split_words.simps [of "c # r @ s"])
qed simp

lemma split_blank: "split_words (32 # s) = split_words s"
  by (simp add: split_words.simps [of "32 # s"] split_words.simps [of s] py_isspace_def)

lemma find_after: "c \<noteq> d \<Longrightarrow> find_text [c] (replicate n d @ s) = map_option ((+) n) (find_text [c] s)"
  by (induction n) (cases "find_text [c] s"; simp add: prefix_Cons)+

theorem excerpt_loses_the_end_witness:
  "122 \<notin> set (build_excerpt (\<lambda>c. [c]) max_excerpt_length (Some [122]) ex_content) \<and> last ex_content = 122"
proof -
  have words: "split_words ex_content = [replicate 170 97, [122]]" "split_words [122] = [[122]]"
    using split_first_word [of "replicate 170 97" "[32, 122]"] split_first_word [of "[122]" "[]"]
    by (simp_all add: ex_content_def split_blank py_isspace_def split_words.simps [of "[]"] del: replicate.simps)
  have find: "find_text [122] ex_content = Some 171"
    unfolding ex_content_def using find_after [of 122 97 170 "[32, 122]"] by simp
  have facts: "single_spaced ex_content = ex_content" "match_positions (\<lambda>c. [c]) ex_content [122] = [171]"
    "unfold_offset (\<lambda>c. [c]) (Min (set [171])) 0 0 ex_content = 171"
    "122 \<notin> set (u ''...'' @ drop (length ex_content - 160) (take (length ex_content - 3) ex_content))"
    using words find plain_offset [of 0 171 0 ex_content]
    by (auto simp: single_spaced_def match_positions_def List.map_filter_simps ex_content_def u_def
        dest!: in_set_dropD in_set_takeD)
  have "160 < length ex_content" "length ex_content \<le> 171 + 107" by (simp_all add: ex_content_def)
  then have "build_excerpt (\<lambda>c. [c]) max_excerpt_length (Some [122]) ex_content =
      u ''...'' @ drop (length ex_content - 160) (take (length ex_content - 3) ex_content)"
    by (intro excerpt_loses_the_end [OF facts(1) [symmetric] _ facts(2)]) (simp_all only: facts(3))
  then show ?thesis using facts(4) by (simp add: ex_content_def)
qed

end
