(* ===== verification/Curation_Machine.thy ===== *)
theory Curation_Machine
  imports Curation_Index Retention_Facts
begin

text \<open>
  What is done by hand as steps of the store: every transaction keeps the invariant of the queue's
  tables, and no transaction, by hand or of the queue, takes back a mark once set: that a source item
  was forgotten, that a memory object was deleted, or which object replaced it.
\<close>

section \<open>Marks\<close>

definition item_marks :: "source_item \<Rightarrow> source_item \<Rightarrow> bool" where
  "item_marks i i' \<longleftrightarrow> (i_forgotten_at i \<noteq> None \<longrightarrow>
     i_forgotten_at i' = i_forgotten_at i \<and> i_forgotten_by i' = i_forgotten_by i
     \<and> i_forgotten_reason i' = i_forgotten_reason i)"

definition memory_marks :: "memory_object \<Rightarrow> memory_object \<Rightarrow> bool" where
  "memory_marks m m' \<longleftrightarrow>
     (mo_superseded_by_id m \<noteq> None \<longrightarrow> mo_superseded_by_id m' = mo_superseded_by_id m)
     \<and> (mo_is_soft_deleted m = 1 \<longrightarrow> mo_is_soft_deleted m' = 1 \<and> mo_soft_deleted_at m' = mo_soft_deleted_at m
          \<and> mo_soft_delete_reason m' = mo_soft_delete_reason m)"

definition marks_kept :: "queue_db \<Rightarrow> queue_db \<Rightarrow> bool" where
  "marks_kept q q' \<longleftrightarrow>
     (\<forall>k i. get_source q k = Some i \<longrightarrow> (\<exists>i'. get_source q' k = Some i' \<and> item_marks i i'))
     \<and> (\<forall>k m. get_memory q k = Some m \<longrightarrow> (\<exists>m'. get_memory q' k = Some m' \<and> memory_marks m m'))"

lemma marks_refl [simp]: "item_marks i i" "memory_marks m m" "marks_kept q q"
  by (simp_all add: item_marks_def memory_marks_def marks_kept_def)

lemma item_marks_trans: "item_marks a b \<Longrightarrow> item_marks b c \<Longrightarrow> item_marks a c"
  by (auto simp: item_marks_def)

lemma memory_marks_trans: "memory_marks a b \<Longrightarrow> memory_marks b c \<Longrightarrow> memory_marks a c"
  by (auto simp: memory_marks_def)

lemma marks_kept_trans: "marks_kept a b \<Longrightarrow> marks_kept b c \<Longrightarrow> marks_kept a c"
  unfolding marks_kept_def by (meson item_marks_trans memory_marks_trans)

text \<open>A row whose name is kept is found again under its key.\<close>

lemma extends_row_get:
  assumes "extends (\<lambda>r. (pk r, name r)) rows rows'" "row_get pk k rows = Some r"
  shows "\<exists>r'. row_get pk k rows' = Some r' \<and> name r' = name r"
proof -
  have "row_get pk k (xs @ ys) = Some r' \<and> name r' = name r"
    if "map (\<lambda>r. (pk r, name r)) xs = map (\<lambda>r. (pk r, name r)) rows" "row_get pk k xs = Some r'"
      "row_get pk k rows = Some r" for xs ys r' rows
    using that
  proof (induction xs arbitrary: rows)
    case (Cons x xs)
    then show ?case by (cases rows) (auto simp: row_get_Cons split: if_splits)
  qed simp
  note found = this
  obtain tail where "map (\<lambda>r. (pk r, name r)) rows' = map (\<lambda>r. (pk r, name r)) rows @ tail"
    using assms(1) by (auto simp: extends_iff)
  then obtain xs ys where split: "rows' = xs @ ys" "map (\<lambda>r. (pk r, name r)) xs = map (\<lambda>r. (pk r, name r)) rows"
    by (auto simp: map_eq_append_conv)
  have "pk ` set xs = pk ` set rows"
    using arg_cong [OF split(2), of "\<lambda>l. fst ` set l"] by (simp add: image_image)
  then obtain r' where "row_get pk k xs = Some r'" using assms(2) by (metis option.exhaust row_get_None_iff option.distinct(1))
  then show ?thesis using found [OF split(2) _ assms(2)] split(1) by blast
qed

lemma queue_grows_marks: "queue_grows q q' \<Longrightarrow> marks_kept q q'"
  unfolding queue_grows_def marks_kept_def
  by (auto simp: item_marks_def memory_marks_def dest: extends_row_get)

section \<open>Steps\<close>

definition cstep :: "queue_db \<Rightarrow> queue_db \<Rightarrow> bool" where
  "cstep q q' \<longleftrightarrow> (queue_inv q \<longrightarrow> queue_inv q' \<and> marks_kept q q')"

lemma cstep_refl [simp]: "cstep q q"
  by (simp add: cstep_def)

lemma cstep_trans: "cstep a b \<Longrightarrow> cstep b c \<Longrightarrow> cstep a c"
  unfolding cstep_def using marks_kept_trans by blast

lemma cstep_qstep: "qstep q q' \<Longrightarrow> cstep q q'"
  by (auto simp: cstep_def qstep_def queue_grows_marks)

lemma cstep_upd_memory:
  assumes "\<And>m. mo_id (f m) = mo_id m" "\<And>m. get_memory q k = Some m \<Longrightarrow> memory_marks m (f m)"
  shows "cstep q (upd_memory k f q)"
proof -
  have "get_memory (upd_memory k f q) j = (if j = k then map_option f (get_memory q k) else get_memory q j)" for j
    using assms(1) by (simp add: upd_memory_def row_get_row_upd)
  then have "marks_kept q (upd_memory k f q)"
    using assms(2) by (auto simp: marks_kept_def upd_memory_def)
  moreover have "queue_inv q \<Longrightarrow> queue_inv (upd_memory k f q)"
    using assms(1) by (simp add: queue_inv_def upd_memory_def lexical_entries_def)
  ultimately show ?thesis by (simp add: cstep_def)
qed

lemma cstep_items:
  assumes "\<And>i. i_id (f i) = i_id i" "\<And>i. item_marks i (f i)"
  shows "cstep q (q\<lparr>q_items := map f (q_items q)\<rparr>)"
proof -
  have "row_get i_id k (map f items) = map_option f (row_get i_id k items)" for k items
    using assms(1) by (induction items) (auto simp: row_get_Cons)
  then have "marks_kept q (q\<lparr>q_items := map f (q_items q)\<rparr>)"
    using assms(2) by (auto simp: marks_kept_def)
  moreover have "map i_id (map f (q_items q)) = map i_id (q_items q)" using assms(1) by simp
  then have "queue_inv q \<Longrightarrow> queue_inv (q\<lparr>q_items := map f (q_items q)\<rparr>)"
    by (simp add: queue_inv_def lexical_entries_def del: map_map)
  ultimately show ?thesis by (simp add: cstep_def)
qed

lemma cstep_add_entries: "add_explicit_entries es q = Inr q' \<Longrightarrow> cstep q q'"
proof (induction es arbitrary: q)
  case (Cons e es)
  consider q1 where "insert_index [e] q = Inr q1" "add_explicit_entries es q1 = Inr q'"
    | "add_explicit_entries es q = Inr q'"
    using Cons.prems by (auto split: sum.splits if_splits simp del: insert_index.simps)
  then show ?case
    by cases (auto simp del: insert_index.simps intro: Cons.IH cstep_trans cstep_qstep qstep_insert_index)
qed simp

lemma cstep_commit: "(\<And>q'. f (rt_queue db) = Inr q' \<Longrightarrow> cstep (rt_queue db) q') \<Longrightarrow>
    cstep (rt_queue db) (rt_queue (snd (commit_queue f db)))"
  by (simp add: commit_queue_def split: sum.split)

lemma cstep_change_memory:
  assumes "\<And>m. mo_id (f m) = mo_id m" "\<And>m. memory_marks m (f m)" "change_memory k f q = Inr q'"
  shows "cstep q q'"
  using assms by (auto simp: change_memory_def intro: cstep_upd_memory split: option.splits)

lemma cstep_add_memory: "add_memory m q = Inr q' \<Longrightarrow> cstep q q'"
  by (auto simp: add_memory_def simp del: insert_rows.simps split: sum.splits intro: cstep_qstep qstep_insert_memories)

lemma cstep_add_relation: "add_relation r q = Inr q' \<Longrightarrow> cstep q q'"
proof -
  assume "add_relation r q = Inr q'"
  then obtain rs where rs: "insert_rows rl_id [r] (q_relations q) = Inr rs"
    "q' = (if rl_from_kind r = u ''memory_object'' then refresh_freshness (rl_from_id r) (q\<lparr>q_relations := rs\<rparr>)
           else q\<lparr>q_relations := rs\<rparr>)"
    by (auto simp: add_relation_def Let_def simp del: insert_rows.simps split: sum.splits)
  have "qstep q (refresh_freshness k (q\<lparr>q_relations := rs\<rparr>))" for k
    by (rule qstep_trans [OF qstep_insert_relations [OF rs(1)] qstep_freshness])
  then show ?thesis
    using rs(2) qstep_insert_relations [OF rs(1)] by (simp add: cstep_qstep)
qed

text \<open>The mirror of the full text index through a rewriting of lexical entries.\<close>

lemma mirror_rewrite:
  assumes "queue_inv q" "\<And>e. ix_id (f e) = ix_id e" "\<And>e. ix_index_type (f e) = ix_index_type e"
  shows "queue_inv (rewrite_entries P f c q)"
proof -
  let ?lex = "filter (\<lambda>e. ix_index_type e = u ''lexical'' \<and> P e) (q_index q)"
  have ids: "distinct (map ix_id (q_index q))" and mirror:
    "image_mset fts_copy (mset (q_fts q)) = image_mset entry_copy (mset (lexical_entries q))"
    using assms(1) by (simp_all add: queue_inv_def)
  have kept: "image_mset fts_copy (mset (filter (\<lambda>r. ft_index_entry_id r \<notin> ix_id ` set ?lex) (q_fts q))) =
      image_mset entry_copy (mset (filter (\<lambda>e. \<not> P e) (lexical_entries q)))"
    using fts_rows_deleted [OF ids, of "\<lambda>_. True" "ix_id ` set ?lex" P] mirror by simp
  have new: "fts_copy (fts_of (f e) c) = entry_copy (f e)" for e
    by (simp add: fts_copy_def fts_of_def entry_copy_def)
  have "mset (lexical_entries (rewrite_entries P f c q)) =
      mset (filter (\<lambda>e. \<not> P e) (lexical_entries q)) + mset (map f ?lex)"
  proof -
    have "mset (filter (\<lambda>e. ix_index_type e = u ''lexical'') (rows_where P f es)) =
        mset (filter (\<lambda>e. \<not> P e) (filter (\<lambda>e. ix_index_type e = u ''lexical'') es))
        + mset (map f (filter (\<lambda>e. ix_index_type e = u ''lexical'' \<and> P e) es))" for es
      using assms(3) by (induction es) (auto simp: rows_where_def filter_filter_mset)
    then show ?thesis by (simp add: lexical_entries_def rewrite_entries_def Let_def filter_filter_mset)
  qed
  then have "image_mset fts_copy (mset (q_fts (rewrite_entries P f c q))) =
      image_mset entry_copy (mset (lexical_entries (rewrite_entries P f c q)))"
    using kept new by (simp add: rewrite_entries_def Let_def multiset.map_comp comp_def)
  moreover have "map ix_id (q_index (rewrite_entries P f c q)) = map ix_id (q_index q)"
    using assms(2) by (simp add: rewrite_entries_def Let_def)
  ultimately show ?thesis using assms(1) by (simp add: queue_inv_def rewrite_entries_def Let_def)
qed

lemma cstep_rewrite:
  assumes "\<And>e. ix_id (f e) = ix_id e" "\<And>e. ix_index_type (f e) = ix_index_type e"
  shows "cstep q (rewrite_entries P f c q)"
  using mirror_rewrite [OF _ assms, of q P c]
  by (simp add: cstep_def marks_kept_def) (simp add: rewrite_entries_def Let_def)

lemma cstep_upd_entry:
  assumes "\<And>e. entry_copy (f e) = entry_copy e \<and> ix_index_type (f e) = ix_index_type e"
  shows "cstep q (upd_entry k f q)"
proof -
  have same: "map (\<lambda>e. (entry_copy e, ix_index_type e)) (row_upd ix_id k f es) = map (\<lambda>e. (entry_copy e, ix_index_type e)) es" for es
    using assms by (simp add: row_upd_def)
  have "map entry_copy (filter (\<lambda>e. ix_index_type e = t) es) =
      map fst (filter (\<lambda>p. snd p = t) (map (\<lambda>e. (entry_copy e, ix_index_type e)) es))" for es t
    by (induction es) auto
  then have "map entry_copy (lexical_entries (upd_entry k f q)) = map entry_copy (lexical_entries q)"
    using same by (simp add: lexical_entries_def upd_entry_def)
  moreover have "map ix_id es = map (fst \<circ> fst) (map (\<lambda>e. (entry_copy e, ix_index_type e)) es)" for es
    by (simp add: entry_copy_def comp_def)
  then have "map ix_id (q_index (upd_entry k f q)) = map ix_id (q_index q)"
    using same by (metis (no_types) upd_entry_def queue_db.select_convs(5) queue_db.update_convs(5) queue_db.surjective)
  ultimately show ?thesis
    by (simp add: cstep_def queue_inv_def marks_kept_def flip: mset_map) (simp add: upd_entry_def)
qed

section \<open>The machine\<close>

text \<open>The transactions by hand that write. \<open>update_index_entry_text_view\<close> is not among them: on a lexical
  entry it breaks the mirror, and the code uses it for vector entries only.\<close>

datatype curation_op =
    CCreate memory_input "pystr option"
  | CSupersede pystr memory_input "index_entry list" pystr pystr "pystr option"
  | CLifecycle pystr pystr
  | CFlag memory_flag
  | COrigin pystr pystr "pystr option" "pystr option"
  | CLink pystr pystr "pystr option"
  | CSoftDelete pystr pystr "time option" time
  | CForget pystr pystr "pystr option" "time option" time
  | CForgetScope pystr "pystr option" pystr "pystr option" "time option" "target_scope option" time
  | CCorrect pystr json_object pystr "index_entry list option"
  | CRelation relation
  | CRefresh pystr
  | CIndex index_entry
  | CProvider pystr pystr pystr
  | CRedact pystr pystr
  | CRetarget pystr pystr pystr

fun curation_exec :: "memory_env \<Rightarrow> curation_op \<Rightarrow> retention_db \<Rightarrow> retention_db" where
  "curation_exec E (CCreate m origin) db = snd (create_memory_object E m origin db)"
| "curation_exec E (CSupersede old m es s a r) db = snd (create_explicit_supersession E old m es s a r db)"
| "curation_exec E (CLifecycle k l) db = snd (update_memory_object_lifecycle k l db)"
| "curation_exec E (CFlag f) db = snd (store_memory_flag f db)"
| "curation_exec E (COrigin k o' s a) db = snd (mark_memory_origin k o' s a db)"
| "curation_exec E (CLink old new r) db = snd (link_supersession old new r db)"
| "curation_exec E (CSoftDelete k r at now) db = snd (soft_delete_memory k r at now db)"
| "curation_exec E (CForget k r a at now) db = snd (forget_source_item k r a at now db)"
| "curation_exec E (CForgetScope c t r a at s now) db = snd (forget_source_scope c t r a at s now db)"
| "curation_exec E (CCorrect k p r es) db = snd (correct_memory_payload k p r es db)"
| "curation_exec E (CRelation r) db = snd (create_relation r db)"
| "curation_exec E (CRefresh k) db = snd (refresh_memory_object_freshness k db)"
| "curation_exec E (CIndex e) db = snd (create_index_entry e db)"
| "curation_exec E (CProvider k n v) db = snd (update_index_entry_provider k n v db)"
| "curation_exec E (CRedact k t) db = snd (redact_index_entry_text_view k t db)"
| "curation_exec E (CRetarget kind old new) db = snd (retarget_index_entries_for_target kind old new db)"

lemma cstep_then:
  "cstep a b \<Longrightarrow> add_explicit_entries es b = Inr c \<Longrightarrow> cstep a c"
  "cstep a b \<Longrightarrow> add_memory m b = Inr c \<Longrightarrow> cstep a c"
  by (blast intro: cstep_trans cstep_add_entries cstep_add_memory)+

lemma replaced_by_marks: "is_head m \<Longrightarrow> memory_marks m (replaced_by new reason m)"
  by (simp add: is_head_def memory_marks_def replaced_by_def)

lemma cstep_supersede: "cstep (rt_queue db) (rt_queue (snd (create_explicit_supersession E old m es s a r db)))"
proof (cases "\<exists>x. get_memory (rt_queue db) old = Some x \<and> is_head x")
  case True
  then obtain x where x: "get_memory (rt_queue db) old = Some x" "is_head x" by blast
  have first: "cstep (rt_queue db) (upd_memory old (replaced_by (mi_id m) r) (rt_queue db))"
    by (rule cstep_upd_memory) (use x replaced_by_marks in \<open>auto simp: replaced_by_def\<close>)
  note steps = cstep_then(1) [OF cstep_then(2) [OF first]]
  show ?thesis
    using x by (auto simp: create_explicit_supersession_def intro!: cstep_commit split: sum.splits dest: steps)
next
  case False
  then have "snd (create_explicit_supersession E old m es s a r db) = db"
    by (auto simp: create_explicit_supersession_def split: option.splits)
  then show ?thesis by simp
qed

lemma cstep_link: "cstep (rt_queue db) (rt_queue (snd (link_supersession old new r db)))"
  by (auto simp: link_supersession_def replaced_by_marks split: option.splits intro!: cstep_upd_memory)
    (simp add: replaced_by_def)

lemma cstep_correct: "cstep (rt_queue db) (rt_queue (snd (correct_memory_payload k p r es db)))"
proof -
  let ?f = "\<lambda>m. m\<lparr>mo_payload := p, mo_correction_reason := Some r\<rparr>"
  have upd: "cstep q (upd_memory k ?f q)" for q
    by (rule cstep_upd_memory) (simp_all add: memory_marks_def)
  then have "cstep q (delete_index_entries kind j (upd_memory k ?f q))" for q kind j
    by (rule cstep_trans) (simp add: cstep_qstep)
  note steps = cstep_then(1) [OF this]
  show ?thesis
    using upd by (auto simp: correct_memory_payload_def Let_def split: option.splits intro!: cstep_commit dest: steps)
qed

lemma cstep_soft_delete: "cstep (rt_queue db) (rt_queue (snd (soft_delete_memory k r at now db)))"
  by (auto simp: soft_delete_memory_def memory_marks_def split: option.splits intro!: cstep_upd_memory)

lemma cstep_upd_item: "(\<And>i. i_id (f i) = i_id i) \<Longrightarrow> (\<And>i. get_source q k = Some i \<Longrightarrow> item_marks i (f i))
    \<Longrightarrow> cstep q (upd_source k f q)"
proof -
  assume f: "\<And>i. i_id (f i) = i_id i" "\<And>i. get_source q k = Some i \<Longrightarrow> item_marks i (f i)"
  have "get_source (upd_source k f q) j = (if j = k then map_option f (get_source q k) else get_source q j)" for j
    using f(1) by (simp add: upd_source_def row_get_row_upd)
  then have "marks_kept q (upd_source k f q)"
    using f(2) by (auto simp: marks_kept_def upd_source_def)
  moreover have "queue_inv q \<Longrightarrow> queue_inv (upd_source k f q)"
    using f(1) by (simp add: queue_inv_def upd_source_def lexical_entries_def)
  ultimately show ?thesis by (simp add: cstep_def)
qed

lemma cstep_forget: "cstep (rt_queue db) (rt_queue (snd (forget_source_item k r a at now db)))"
  by (auto simp: forget_source_item_def item_marks_def forget_mark_def split: option.splits intro!: cstep_upd_item)

lemma cstep_forget_scope: "cstep (rt_queue db) (rt_queue (snd (forget_source_scope c t r a at s now db)))"
  unfolding forget_source_scope_def Let_def rows_where_def
  by (simp, rule cstep_items) (auto simp: item_marks_def forget_mark_def in_forget_scope_def)

lemma cstep_change: "(\<And>m. mo_id (f m) = mo_id m) \<Longrightarrow> (\<And>m. memory_marks m (f m)) \<Longrightarrow>
    cstep (rt_queue db) (rt_queue (snd (commit_queue (change_memory k f) db)))"
  by (rule cstep_commit) (rule cstep_change_memory)

lemma cstep_flag: "cstep (rt_queue db) (rt_queue (snd (store_memory_flag f db)))"
  by (simp add: store_memory_flag_def del: insert_rows.simps split: sum.split)

lemma cstep_redact: "cstep (rt_queue db) (rt_queue (snd (redact_index_entry_text_view k t db)))"
  unfolding redact_index_entry_text_view_def
proof (rule cstep_commit)
  fix q' assume red: "redact_text k t (rt_queue db) = Inr q'"
  show "cstep (rt_queue db) q'"
  proof (cases "\<exists>e. get_entry (rt_queue db) k = Some e \<and> ix_index_type e = u ''lexical''")
    case True
    then obtain c where "q' = rewrite_entries (\<lambda>e. ix_id e = k) (\<lambda>e. e\<lparr>ix_text_view := t\<rparr>) c (rt_queue db)"
      using red by (auto simp: redact_text_def split: option.splits sum.splits if_splits)
    then show ?thesis by (simp add: cstep_rewrite)
  next
    case False
    then obtain e where e: "get_entry (rt_queue db) k = Some e" "ix_index_type e \<noteq> u ''lexical''"
      "q' = upd_entry k (\<lambda>e. e\<lparr>ix_text_view := t\<rparr>) (rt_queue db)"
      using red by (auto simp: redact_text_def split: option.splits sum.splits if_splits)
    have "lexical_entries q' = lexical_entries (rt_queue db)" if "distinct (map ix_id (q_index (rt_queue db)))"
    proof -
      have "x = e" if "x \<in> set (q_index (rt_queue db))" "ix_id x = k" for x
        using that e(1) \<open>distinct _\<close> row_get_distinct by fastforce
      then have "\<forall>x\<in>set (q_index (rt_queue db)). ix_id x = k \<longrightarrow> ix_index_type x \<noteq> u ''lexical''" using e(2) by blast
      then have "filter (\<lambda>e. ix_index_type e = u ''lexical'') (row_upd ix_id k (\<lambda>e. e\<lparr>ix_text_view := t\<rparr>) es) =
          filter (\<lambda>e. ix_index_type e = u ''lexical'') es" if "set es \<subseteq> set (q_index (rt_queue db))" for es
        using that by (induction es) (auto simp: row_upd_def)
      then show ?thesis unfolding e(3) lexical_entries_def upd_entry_def by simp
    qed
    then show ?thesis
      using e(3) by (auto simp: cstep_def queue_inv_def marks_kept_def upd_entry_def)
  qed
qed

lemma cstep_retarget: "cstep (rt_queue db) (rt_queue (snd (retarget_index_entries_for_target kind old new db)))"
  by (auto simp: retarget_index_entries_for_target_def Let_def split: sum.split intro!: cstep_rewrite)

lemma cstep_provider: "cstep (rt_queue db) (rt_queue (snd (update_index_entry_provider k n v db)))"
  unfolding update_index_entry_provider_def
  by (rule cstep_commit) (auto simp: change_entry_def entry_copy_def split: option.splits intro!: cstep_upd_entry)

lemma cstep_exec: "cstep (rt_queue db) (rt_queue (curation_exec E op db))"
  by (cases op)
    (simp_all add: cstep_supersede cstep_link cstep_correct cstep_soft_delete cstep_forget cstep_forget_scope
      cstep_flag cstep_redact cstep_retarget cstep_provider update_memory_object_lifecycle_def cstep_change
      memory_marks_def mark_memory_origin_def refresh_memory_object_freshness_def cstep_qstep create_memory_object_def
      create_relation_def create_index_entry_def cstep_commit cstep_add_memory cstep_add_relation
      qstep_insert_index del: insert_index.simps)

text \<open>Both kinds of transactions together, with those of Relay.\<close>

datatype history_op = HStore store_op | HCurate curation_op

fun history_exec :: "memory_env \<Rightarrow> relay_world \<Rightarrow> history_op \<Rightarrow> retention_db \<Rightarrow> retention_db" where
  "history_exec E R (HStore op) db = store_exec E R op db"
| "history_exec E R (HCurate op) db = curation_exec E op db"

definition history_inv :: "retention_db \<Rightarrow> bool" where
  "history_inv db \<longleftrightarrow> queue_inv (rt_queue db)"

definition history_below :: "retention_db \<Rightarrow> retention_db \<Rightarrow> bool" where
  "history_below db db' \<longleftrightarrow> marks_kept (rt_queue db) (rt_queue db')"

lemma cstep_store: "cstep (rt_queue db) (rt_queue (store_exec E R op db))"
  by (cases op) (simp_all add: cstep_qstep qstep_exec)

lemma cstep_history: "cstep (rt_queue db) (rt_queue (history_exec E R op db))"
  by (cases op) (simp_all add: cstep_store cstep_exec)

interpretation history: ordered_machine "history_exec E R" history_inv history_below for E R
proof
  fix db op assume "history_inv db"
  then show "history_inv (history_exec E R op db)" "history_below db (history_exec E R op db)"
    using cstep_history [of db E R op] by (simp_all add: history_inv_def history_below_def cstep_def)
qed (auto simp: history_below_def intro: marks_kept_trans)

end
