(* ===== verification/Curation_Facts.thy ===== *)
theory Curation_Facts
  imports Curation_Machine Curation_Service Search_Facts
begin

text \<open>
  Service calls as sequences of transactions: whatever other connections do in between, a call leaves
  what some sequence of transactions leaves; and what a call did is read off transaction by
  transaction.
\<close>

section \<open>Calls are sequences of transactions\<close>

definition reaches :: "memory_env \<Rightarrow> relay_world \<Rightarrow> retention_db \<Rightarrow> retention_db \<Rightarrow> bool" where
  "reaches E R db db' \<longleftrightarrow> (\<exists>ops. db' = fold (history_exec E R) ops db)"

lemma reaches_refl [simp]: "reaches E R db db"
  unfolding reaches_def by (rule exI [of _ "[]"]) simp

lemma reaches_trans: "reaches E R a b \<Longrightarrow> reaches E R b c \<Longrightarrow> reaches E R a c"
proof -
  assume "reaches E R a b" "reaches E R b c"
  then obtain xs ys where "b = fold (history_exec E R) xs a" "c = fold (history_exec E R) ys b"
    by (auto simp: reaches_def)
  then have "c = fold (history_exec E R) (xs @ ys) a" by simp
  then show ?thesis unfolding reaches_def by blast
qed

lemma reaches_op: "reaches E R db (curation_exec E op db)"
  unfolding reaches_def by (rule exI [of _ "[HCurate op]"]) simp

definition shared_world ::
  "memory_env \<Rightarrow> relay_world \<Rightarrow> (pystr \<Rightarrow> pystr) \<Rightarrow> (nat \<Rightarrow> time) \<Rightarrow> (nat \<Rightarrow> history_op list) \<Rightarrow> text_env
    \<Rightarrow> (nat \<Rightarrow> pystr) \<Rightarrow> curation_world" where
  "shared_world E R lower time_at others T ids =
     \<lparr>cw_pass = \<lparr>pw_lower = lower, pw_time = time_at, pw_meanwhile = (\<lambda>n. fold (history_exec E R) (others n))\<rparr>,
      cw_env = E, cw_text = T, cw_id = ids\<rparr>"

definition joins :: "memory_env \<Rightarrow> relay_world \<Rightarrow> 'a curation \<Rightarrow> bool" where
  "joins E R m \<longleftrightarrow> (\<forall>s. reaches E R (snd s) (snd (snd (m s))))"

named_theorems joining \<open>a call is a sequence of transactions\<close>

lemma joins_give [joining]: "joins E R (give a)" "joins E R (fail e)"
  by (simp_all add: joins_def give_def fail_def)

lemma joins_and_then [joining]: "joins E R m \<Longrightarrow> (\<And>a. joins E R (f a)) \<Longrightarrow> joins E R (and_then m f)"
  unfolding joins_def and_then_def
  by (auto split: prod.split sum.split) (metis reaches_trans snd_conv)+

lemma joins_check [joining]: "(\<And>a. joins E R (f a)) \<Longrightarrow> joins E R (check r f)"
  by (cases r) (simp_all add: check_def joins_give)

lemma joins_if [joining]: "joins E R a \<Longrightarrow> joins E R b \<Longrightarrow> joins E R (if c then a else b)"
  by simp

lemma joins_at_time [joining]: "(\<And>t. joins E R (f t)) \<Longrightarrow> joins E R (at_time W f)"
  by (simp add: joins_def at_time_def)

text \<open>A transaction by hand in a shared world.\<close>

lemma joins_tx:
  assumes "\<And>now db. \<exists>op. snd (f now db) = curation_exec E op db"
  shows "joins E R (tx (shared_world E R lower time_at others T ids) f)"
proof -
  have "reaches E R (snd s) (next_db (cw_pass (shared_world E R lower time_at others T ids)) s)" for s
    by (auto simp: reaches_def next_db_def shared_world_def)
  moreover have "reaches E R db (snd (f now db))" for now db
    using assms [of now db] reaches_op [of E R db] by auto
  ultimately show ?thesis
    unfolding joins_def tx_def by (auto split: prod.split) (metis reaches_trans snd_conv)
qed

lemma joins_look [joining]: "joins E R (look (shared_world E R lower time_at others T ids) f)"
proof -
  have "reaches E R (snd s) (next_db (cw_pass (shared_world E R lower time_at others T ids)) s)" for s
    by (auto simp: reaches_def next_db_def shared_world_def)
  then show ?thesis by (simp add: joins_def look_def tx_def)
qed

lemma joins_txs [joining]:
  "joins E R (tx (shared_world E R l c w T i) (\<lambda>_. create_memory_object E m origin))"
  "joins E R (tx (shared_world E R l c w T i) (\<lambda>now. create_explicit_supersession E k (m' now) es se ag re))"
  "joins E R (tx (shared_world E R l c w T i) (\<lambda>_. update_memory_object_lifecycle k t))"
  "joins E R (tx (shared_world E R l c w T i) (\<lambda>now. store_memory_flag (f now)))"
  "joins E R (tx (shared_world E R l c w T i) (\<lambda>_. mark_memory_origin k t a b))"
  "joins E R (tx (shared_world E R l c w T i) (\<lambda>now. soft_delete_memory k t None now))"
  "joins E R (tx (shared_world E R l c w T i) (\<lambda>now. forget_source_item k t a None now))"
  "joins E R (tx (shared_world E R l c w T i) (\<lambda>now. forget_source_scope k a t b None sc now))"
  "joins E R (tx (shared_world E R l c w T i) (\<lambda>_. correct_memory_payload k p t es'))"
  "joins E R (tx (shared_world E R l c w T i) (\<lambda>_. create_relation rel))"
  "joins E R (tx (shared_world E R l c w T i) (\<lambda>_. create_index_entry e))"
  subgoal by (rule joins_tx) (blast intro: curation_exec.simps(1) [symmetric])
  subgoal by (rule joins_tx) (blast intro: curation_exec.simps(2) [symmetric])
  subgoal by (rule joins_tx) (blast intro: curation_exec.simps(3) [symmetric])
  subgoal by (rule joins_tx) (blast intro: curation_exec.simps(4) [symmetric])
  subgoal by (rule joins_tx) (blast intro: curation_exec.simps(5) [symmetric])
  subgoal by (rule joins_tx) (blast intro: curation_exec.simps(7) [symmetric])
  subgoal by (rule joins_tx) (blast intro: curation_exec.simps(8) [symmetric])
  subgoal by (rule joins_tx) (blast intro: curation_exec.simps(9) [symmetric])
  subgoal by (rule joins_tx) (blast intro: curation_exec.simps(10) [symmetric])
  subgoal by (rule joins_tx) (blast intro: curation_exec.simps(11) [symmetric])
  subgoal by (rule joins_tx) (blast intro: curation_exec.simps(13) [symmetric])
  done

lemma joinsD: "joins E R m \<Longrightarrow> reaches E R (snd s) (snd (snd (m s)))"
  unfolding joins_def by (rule spec)

lemma joins_index: "joins E R (index_explicit_write (shared_world E R l c w T i) es)"
proof (induction es)
  case (Cons e es)
  let ?W = "shared_world E R l c w T i"
  show ?case unfolding joins_def
  proof
    fix s
    obtain r s' where tx: "tx ?W (\<lambda>_. create_index_entry e) s = (r, s')" using prod.exhaust by blast
    then have first: "reaches E R (snd s) (snd s')"
      using joinsD [OF joins_txs(11), of E R s l c w T i e] by simp
    moreover have "reaches E R (snd s') (snd (snd (index_explicit_write ?W es s')))"
      by (rule joinsD [OF Cons])
    ultimately have "reaches E R (snd s) (snd (snd (index_explicit_write ?W es s')))"
      by (rule reaches_trans)
    then show "reaches E R (snd s) (snd (snd (index_explicit_write ?W (e # es) s)))"
      using tx first by (cases r) simp_all
  qed
qed (simp add: joins_def)

lemma shared_world_env [simp]: "cw_env (shared_world E R l c w T i) = E"
  by (simp add: shared_world_def)

text \<open>The calls of the service.\<close>

datatype curation_call =
    SvSupersedeObject pystr pystr
  | SvFlag pystr pystr pystr bool "target_scope option"
  | SvRemember pystr pystr "json option" "pystr list" provenance
  | SvCorrect pystr pystr pystr "target_scope option"
  | SvSupersede pystr pystr "pystr option" "pystr option" provenance "target_scope option"
  | SvForgetMemory pystr pystr "target_scope option"
  | SvForgetSource "pystr option" "pystr option" "pystr option" pystr "pystr option" "target_scope option"
  | SvOutcome pystr pystr "pystr list" "pystr option" provenance "target_scope option"

text \<open>What a call leaves; what it returns is dropped.\<close>

fun serve :: "curation_world \<Rightarrow> curation_call \<Rightarrow> pass_state \<Rightarrow> pass_state" where
  "serve W (SvSupersedeObject old new) s = snd (supersede_memory_object W old new s)"
| "serve W (SvFlag k r src now scope) s = snd (flag_memory_object W k r src now scope s)"
| "serve W (SvRemember t ty c ev p) s = snd (remember_memory W t ty c ev p s)"
| "serve W (SvCorrect k t r scope) s = snd (correct_memory W k t r scope s)"
| "serve W (SvSupersede t old r ty p scope) s = snd (supersede_memory W t old r ty p scope s)"
| "serve W (SvForgetMemory k r scope) s = snd (forget_memory W k r scope s)"
| "serve W (SvForgetSource item c th r a scope) s = snd (forget_source W item c th r a scope s)"
| "serve W (SvOutcome k res ev n p scope) s = snd (record_procedure_outcome W k res ev n p scope s)"

lemma joins_targets [joining]:
  "joins E R (memory_target (shared_world E R l c w T i) k scope)"
  "joins E R (source_target (shared_world E R l c w T i) k scope)"
  unfolding memory_target_def source_target_def by (intro joining)+

lemma joins_store_explicit [joining]: "joins E R (store_explicit (shared_world E R l c w T i) m origin p)"
  unfolding store_explicit_def shared_world_env by (intro joining)

lemma joins_calls:
  fixes E R l c w T i
  defines "W \<equiv> shared_world E R l c w T i"
  shows "joins E R (supersede_memory_object W old new)" "joins E R (flag_memory_object W k t src b scope)"
    "joins E R (remember_memory W t ty con ev p)" "joins E R (correct_memory W k t re scope)"
    "joins E R (supersede_memory W t k r' ty' p scope)" "joins E R (forget_memory W k t scope)"
    "joins E R (forget_source W a' b' c' t d' scope)" "joins E R (record_procedure_outcome W k t ev n' p scope)"
  subgoal unfolding W_def supersede_memory_object_def by (intro joining)
  subgoal unfolding W_def flag_memory_object_def suppress_flagged_def suppress_def unique_sources_def by (intro joining)
  subgoal unfolding W_def remember_memory_def Let_def by (intro joining joins_index)
  subgoal unfolding W_def correct_memory_def by (intro joining)
  subgoal unfolding W_def supersede_memory_def Let_def shared_world_env by (intro joining)
  subgoal unfolding W_def forget_memory_def by (intro joining)
  subgoal unfolding W_def forget_source_def by (auto split: option.split intro!: joining)
  subgoal unfolding W_def record_procedure_outcome_def by (intro joining)
  done

lemma serve_reaches: "reaches E R (snd s) (snd (serve (shared_world E R l c w T i) call s))"
  by (cases call) (simp_all only: serve.simps joins_calls [THEN joinsD])

end
