(* ===== verification/Curation_Guarantees.thy ===== *)
theory Curation_Guarantees
  imports Curation_Facts Search_Guarantees
begin

text \<open>
  What holds of memory that is written, judged and forgotten by hand, with the witnesses on a store of
  three items and two memory objects.
\<close>

section \<open>A small store\<close>

definition ex_store :: retention_db where
  "ex_store = \<lparr>rt_queue = ex_library\<lparr>q_memories := map (\<lambda>n. memory_row ex_memory_env (ex_decision n)) [10, 11]\<rparr>,
     rt_flags = [], rt_maintenance = [], rt_relay = empty_db\<rparr>"

definition ex_replacing :: memory_input where
  "ex_replacing = ex_decision 12"

definition ex_relay_world :: relay_world where
  "ex_relay_world = \<lparr>rw_hash = (\<lambda>s. s), rw_redact = (\<lambda>s. s), rw_printable = (\<lambda>_. True), rw_fmt = (\<lambda>_. [])\<rparr>"

lemma ex_store_intact: "history_inv ex_store"
  unfolding history_inv_def by code_simp

section \<open>Forgetting\<close>

lemma mark_stays_out:
  assumes "history_inv db" "search_index_entries S q (rt_queue (fold (history_exec E R) ops db)) = Inr res"
    "h \<in> set (res_hits res)"
  shows "get_source (rt_queue db) (hit_target h) = Some i \<Longrightarrow> i_forgotten_at i \<noteq> None \<Longrightarrow> hit_kind h \<noteq> u ''source_item''"
    "get_memory (rt_queue db) (hit_target h) = Some m \<Longrightarrow> mo_is_soft_deleted m = 1 \<Longrightarrow> hit_kind h \<noteq> u ''memory_object''"
proof -
  let ?q = "rt_queue (fold (history_exec E R) ops db)"
  have kept: "marks_kept (rt_queue db) ?q"
    using history.run_below [OF assms(1)] by (simp add: history_below_def)
  obtain r where r: "readable_row S q ?q r" "h = make_hit S q r"
    using search_hit_row [OF assms(2,3)] by blast
  have hit: "hit_kind h = rw_kind r" "hit_target h = rw_target r" using r(2) by (simp_all add: make_hit_def)
  show "hit_kind h \<noteq> u ''source_item''"
    if "get_source (rt_queue db) (hit_target h) = Some i" "i_forgotten_at i \<noteq> None"
  proof
    assume "hit_kind h = u ''source_item''"
    then obtain i' where "get_source ?q (rw_target r) = Some i'" "i_forgotten_at i' = None"
      using r(1) readable_item [of r S q ?q] hit by (auto simp: live_item_def)
    then show False using kept that hit by (fastforce simp: marks_kept_def item_marks_def)
  qed
  show "hit_kind h \<noteq> u ''memory_object''"
    if "get_memory (rt_queue db) (hit_target h) = Some m" "mo_is_soft_deleted m = 1"
  proof
    assume "hit_kind h = u ''memory_object''"
    then obtain m' where "get_memory ?q (rw_target r) = Some m'" "mo_is_soft_deleted m' = 0"
      using r(1) readable_memory [of r S q ?q] hit by (auto simp: live_memory_def)
    then show False using kept that hit by (fastforce simp: marks_kept_def memory_marks_def)
  qed
qed

lemma forgotten_marked:
  "fst (forget_source_item k r a given now db) = Inr fresh \<Longrightarrow>
     \<exists>i. get_source (rt_queue (snd (forget_source_item k r a given now db))) k = Some i \<and> i_forgotten_at i \<noteq> None"
  "get_source (rt_queue db) k = Some i \<Longrightarrow> in_forget_scope c t scope i \<Longrightarrow>
     \<exists>i. get_source (rt_queue (snd (forget_source_scope c t r a given scope now db))) k = Some i \<and> i_forgotten_at i \<noteq> None"
  "fst (soft_delete_memory k r given now db) = Inr fresh \<Longrightarrow>
     \<exists>m. get_memory (rt_queue (snd (soft_delete_memory k r given now db))) k = Some m \<and> mo_is_soft_deleted m = 1"
  by (auto simp: forget_source_item_def forget_source_scope_def Let_def soft_delete_memory_def upd_source_def
      upd_memory_def rows_where_def row_get_row_upd row_get_map forget_mark_def split: option.splits if_splits)

text \<open>C23: what was forgotten stays out of search: once a source item was forgotten, by itself or with
  its thread or container, or a memory object was deleted, no search returns it, whatever transactions
  by hand, of the queue or of Relay run in between and whoever asks for whatever.\<close>

theorem forgotten_stays_out_of_search:
  assumes "history_inv db"
    "kind = u ''source_item'' \<and> forget_source_item k reason actor given now db = (Inr fresh, db1)
     \<or> kind = u ''source_item'' \<and> get_source (rt_queue db) k = Some i \<and> in_forget_scope c t scope i
         \<and> forget_source_scope c t reason actor given scope now db = (Inr n, db1)
     \<or> kind = u ''memory_object'' \<and> soft_delete_memory k reason given now db = (Inr fresh, db1)"
    "search_index_entries S q (rt_queue (fold (history_exec E R) ops db1)) = Inr res"
  shows "\<forall>h\<in>set (res_hits res). (hit_kind h, hit_target h) \<noteq> (kind, k)"
proof -
  have step: "history_inv (history_exec E R (HCurate op) db)" for op
    by (rule history.exec_inv [OF assms(1)])
  have "history_inv db1"
    using assms(2) step [of "CForget k reason actor given now"] step [of "CForgetScope c t reason actor given scope now"]
      step [of "CSoftDelete k reason given now"] by auto
  note out = mark_stays_out [OF this assms(3)]
  have "kind = u ''source_item'' \<and> (\<exists>i. get_source (rt_queue db1) k = Some i \<and> i_forgotten_at i \<noteq> None)
      \<or> kind = u ''memory_object'' \<and> (\<exists>m. get_memory (rt_queue db1) k = Some m \<and> mo_is_soft_deleted m = 1)"
    using assms(2)
  proof (elim disjE conjE)
    assume "forget_source_item k reason actor given now db = (Inr fresh, db1)" "kind = u ''source_item''"
    then show ?thesis using forgotten_marked(1) [of k reason actor given now db fresh] by simp
  next
    assume "get_source (rt_queue db) k = Some i" "in_forget_scope c t scope i" "kind = u ''source_item''"
      "forget_source_scope c t reason actor given scope now db = (Inr n, db1)"
    then show ?thesis using forgotten_marked(2) [of k db i c t scope reason actor given now] by simp
  next
    assume "soft_delete_memory k reason given now db = (Inr fresh, db1)" "kind = u ''memory_object''"
    then show ?thesis using forgotten_marked(3) [of k reason given now db fresh] by simp
  qed
  then show ?thesis using out by fastforce
qed

theorem forgotten_stays_out_of_search_witness:
  "\<exists>res. search_index_entries ex_search_env ex_query
       (rt_queue (snd (forget_source_item [1] [] None None 9 ex_store))) = Inr res
     \<and> [1] \<notin> hit_target ` {h \<in> set (res_hits res). hit_kind h = u ''source_item''}"
proof -
  let ?run = "forget_source_item [1] [] None None 9 ex_store"
  have "queue_inv (rt_queue (snd ?run))"
    "\<forall>e\<in>set (q_index (rt_queue (snd ?run))). known (ix_target_kind e) (ix_target_id e) (rt_queue (snd ?run))"
    unfolding known_def by code_simp+
  then obtain res where found: "search_index_entries ex_search_env ex_query (rt_queue (snd ?run)) = Inr res"
    using search_succeeds ex_library_intact(3) by blast
  have "fst ?run = Inr True" by code_simp
  then have "u ''source_item'' = u ''source_item'' \<and> ?run = (Inr True, snd ?run)" by (simp add: prod_eq_iff)
  from forgotten_stays_out_of_search [OF ex_store_intact disjI1 [OF this],
      of ex_search_env ex_query ex_memory_env ex_relay_world "[]"] found
  show ?thesis by auto
qed

section \<open>Supersession\<close>

lemma head_replaced:
  assumes "history_inv db"
    "create_explicit_supersession E old m entries session agent reason db = (Inr (), db1)
     \<or> link_supersession old (mi_id m) reason db = (Inr (), db1)"
  shows "history_inv db1 \<and> (\<exists>x. get_memory (rt_queue db1) old = Some x \<and> mo_superseded_by_id x = Some (mi_id m))"
proof -
  let ?q = "rt_queue db"
  let ?q1 = "upd_memory old (replaced_by (mi_id m) reason) ?q"
  let ?r = "(memory_object_record E m (Some (u ''agent_explicit'')))
      \<lparr>mo_origin_session_id := Some session, mo_origin_agent_id := Some agent\<rparr>"
  have inv: "history_inv db1"
    using assms(2) history.exec_inv [OF assms(1), of E ex_relay_world "HCurate (CSupersede old m entries session agent reason)"]
      history.exec_inv [OF assms(1), of E ex_relay_world "HCurate (CLink old (mi_id m) reason)"] by auto
  obtain x where x: "get_memory ?q old = Some x" "is_head x"
    using assms(2) by (auto simp: create_explicit_supersession_def link_supersession_def split: option.splits if_splits)
  then have marked: "get_memory ?q1 old = Some (replaced_by (mi_id m) reason x)"
    by (simp add: upd_memory_def row_get_row_upd replaced_by_def)
  have first: "cstep ?q ?q1"
    by (rule cstep_upd_memory) (use x replaced_by_marks in \<open>auto simp: replaced_by_def\<close>)
  from assms(2) have "marks_kept ?q1 (rt_queue db1)"
  proof
    assume "create_explicit_supersession E old m entries session agent reason db = (Inr (), db1)"
    then obtain q2 where "add_memory ?r ?q1 = Inr q2" "add_explicit_entries entries q2 = Inr (rt_queue db1)"
      using x by (auto simp: create_explicit_supersession_def commit_queue_def split: sum.splits)
    then have "cstep ?q1 (rt_queue db1)" by (blast intro: cstep_trans cstep_add_memory cstep_add_entries)
    then show ?thesis using first assms(1) by (simp add: cstep_def history_inv_def)
  qed (use x in \<open>auto simp: link_supersession_def split: if_splits\<close>)
  then show ?thesis using inv marked by (force simp: marks_kept_def memory_marks_def replaced_by_def)
qed



section \<open>Redaction\<close>

lemma fts_row_entry:
  assumes "queue_inv q" "r \<in> set (q_fts q)"
  shows "\<exists>e. get_entry q (ft_index_entry_id r) = Some e \<and> ix_index_type e = u ''lexical''"
proof -
  have "fts_copy r \<in># image_mset fts_copy (mset (q_fts q))" using assms(2) by simp
  also have "image_mset fts_copy (mset (q_fts q)) = image_mset entry_copy (mset (lexical_entries q))"
    using assms(1) by (simp add: queue_inv_def)
  finally obtain e where e: "e \<in> set (q_index q)" "ix_index_type e = u ''lexical''" "fts_copy r = entry_copy e"
    by (auto simp: lexical_entries_def)
  then have "get_entry q (ix_id e) = Some e"
    using assms(1) row_get_distinct [of ix_id "q_index q" e] by (simp add: queue_inv_def)
  then show ?thesis using e by (auto simp: fts_copy_def entry_copy_def)
qed

lemma one_row: "distinct (map pk rows) \<Longrightarrow> row_get pk k rows = Some r \<Longrightarrow> filter (\<lambda>x. pk x = k) rows = [r]"
proof (induction rows)
  case (Cons x xs)
  show ?case
  proof (cases "pk x = k")
    case True
    then have "\<forall>y\<in>set xs. pk y \<noteq> k" using Cons.prems(1) by (auto simp: image_iff)
    then show ?thesis using True Cons.prems(2) by (simp add: row_get_Cons filter_empty_conv)
  qed (use Cons in \<open>simp add: row_get_Cons\<close>)
qed simp

lemma rewrite_one:
  assumes "queue_inv q" "get_entry q k = Some e" "ix_index_type e = u ''lexical''" "ix_id (f e) = k"
  shows "q_fts (rewrite_entries (\<lambda>e. ix_id e = k) f c q) =
      filter (\<lambda>r. ft_index_entry_id r \<noteq> k) (q_fts q) @ [fts_of (f e) c]"
    "q_index (rewrite_entries (\<lambda>e. ix_id e = k) f c q) = row_upd ix_id k f (q_index q)"
proof -
  have one: "filter (\<lambda>x. ix_id x = k) (q_index q) = [e]"
    using assms(1,2) by (simp add: one_row queue_inv_def)
  have "filter (\<lambda>e. ix_index_type e = u ''lexical'' \<and> ix_id e = k) (q_index q) =
      filter (\<lambda>e. ix_index_type e = u ''lexical'') (filter (\<lambda>x. ix_id x = k) (q_index q))"
    by (simp add: conj_commute)
  also have "\<dots> = [e]" unfolding one using assms(3) by simp
  finally have "filter (\<lambda>e. ix_index_type e = u ''lexical'' \<and> ix_id e = k) (q_index q) = [e]" .
  moreover have "ix_id e = k" using assms(2) by (rule row_get_SomeD)
  ultimately show "q_fts (rewrite_entries (\<lambda>e. ix_id e = k) f c q) =
      filter (\<lambda>r. ft_index_entry_id r \<noteq> k) (q_fts q) @ [fts_of (f e) c]"
    by (simp add: rewrite_entries_def)
  show "q_index (rewrite_entries (\<lambda>e. ix_id e = k) f c q) = row_upd ix_id k f (q_index q)"
    by (simp add: rewrite_entries_def Let_def rows_where_def row_upd_def)
qed

text \<open>Redacting an index entry leaves its old text nowhere: the entry holds the new text, and of the
  full text index it has exactly one row, of the new text, if it is lexical and none otherwise, while
  all other entries and rows stay.\<close>

theorem redaction_replaces_text:
  assumes "history_inv db" "redact_index_entry_text_view k t db = (Inr (), db')"
  shows "\<exists>e. get_entry (rt_queue db) k = Some e \<and> get_entry (rt_queue db') k = Some (e\<lparr>ix_text_view := t\<rparr>)
    \<and> map ft_text_view (filter (\<lambda>r. ft_index_entry_id r = k) (q_fts (rt_queue db')))
        = (if ix_index_type e = u ''lexical'' then [t] else [])
    \<and> filter (\<lambda>r. ft_index_entry_id r \<noteq> k) (q_fts (rt_queue db')) = filter (\<lambda>r. ft_index_entry_id r \<noteq> k) (q_fts (rt_queue db))
    \<and> filter (\<lambda>e. ix_id e \<noteq> k) (q_index (rt_queue db')) = filter (\<lambda>e. ix_id e \<noteq> k) (q_index (rt_queue db))"
proof -
  let ?q = "rt_queue db" and ?f = "\<lambda>e. e\<lparr>ix_text_view := t\<rparr>"
  have inv: "queue_inv ?q" using assms(1) by (simp add: history_inv_def)
  have red: "redact_text k t ?q = Inr (rt_queue db')"
    using assms(2) by (auto simp: redact_index_entry_text_view_def commit_queue_def split: sum.splits)
  then obtain e where e: "get_entry ?q k = Some e" by (auto simp: redact_text_def split: option.splits)
  have id: "ix_id e = k" using e by (rule row_get_SomeD)
  have others: "filter (\<lambda>e. ix_id e \<noteq> k) (row_upd ix_id k ?f es) = filter (\<lambda>e. ix_id e \<noteq> k) es" for es
    by (induction es) (simp_all add: row_upd_def)
  have here: "row_get ix_id k (row_upd ix_id k ?f (q_index ?q)) = Some (?f e)"
    using e by (simp add: row_get_row_upd)
  show ?thesis
  proof (cases "ix_index_type e = u ''lexical''")
    case True
    then obtain c where "rewrite_entries (\<lambda>e. ix_id e = k) ?f c ?q = rt_queue db'"
      using red e by (auto simp: redact_text_def split: sum.splits)
    note new = this [symmetric]
    show ?thesis
      unfolding new using rewrite_one [OF inv e True, of ?f c] id True e here others
      by (intro exI [of _ e]) (simp add: fts_of_def)
  next
    case False
    then have "rt_queue db' = upd_entry k ?f ?q" using red e by (simp add: redact_text_def)
    moreover have "\<forall>r\<in>set (q_fts ?q). ft_index_entry_id r \<noteq> k" using fts_row_entry [OF inv] e False by fastforce
    ultimately show ?thesis
      using False e here others by (intro exI [of _ e]) (simp add: upd_entry_def filter_empty_conv)
  qed
qed

section \<open>Calls of the service\<close>


definition ex_caller :: curation_world where
  "ex_caller = shared_world ex_memory_env ex_relay_world (\<lambda>s. s) (\<lambda>n. int n + 100) (\<lambda>_. []) ex_text (\<lambda>n. [50, n])"


lemma out_of_scope:
  assumes "\<forall>m. get_memory (rt_queue (next_db (cw_pass W) s)) k = Some m \<longrightarrow>
      (canonicalize_container_ref (cw_lower W) (mo_container_ref m), mo_actor_ref m, text_or (u ''private'') (mo_visibility m))
        \<noteq> (Some (tg_container_ref scope), Some (tg_actor_ref scope), tg_visibility scope)"
  shows "memory_target W k (Some scope) s = (Inl (StoreError (MissingRow k)), Suc (fst s), next_db (cw_pass W) s)"
proof (cases "get_memory (rt_queue (next_db (cw_pass W) s)) k")
  case None
  then show ?thesis
    by (simp add: memory_target_def and_then_def look_def tx_def get_memory_object_def store_result_def)
next
  case (Some m)
  then have "\<not> in_target_scope (cw_lower W) (Some scope) (mv_container_ref (view_memory m)) (mv_actor_ref (view_memory m))
      (Some (mv_visibility (view_memory m)))" "mv_id (view_memory m) = k"
    using assms row_get_SomeD(2) [OF Some] by (auto simp: view_memory_def in_target_scope_def)
  then show ?thesis
    using Some by (simp add: memory_target_def and_then_def look_def tx_def get_memory_object_def store_result_def fail_def)
qed

text \<open>C26: a target out of scope is a target that does not exist: if no memory object has the identifier,
  or the one that has it is of another container, actor or visibility than the caller's scope, then
  flagging, correcting, superseding and forgetting it all raise the same \<open>KeyError\<close> and write nothing.\<close>

theorem out_of_scope_is_missing:
  assumes "\<forall>m. get_memory (rt_queue (next_db (cw_pass W) s)) k = Some m \<longrightarrow>
      (canonicalize_container_ref (cw_lower W) (mo_container_ref m), mo_actor_ref m, text_or (u ''private'') (mo_visibility m))
        \<noteq> (Some (tg_container_ref scope), Some (tg_actor_ref scope), tg_visibility scope)"
  shows "flag_memory_object W k reason source immediate (Some scope) s =
      (Inl (StoreError (MissingRow k)), Suc (fst s), next_db (cw_pass W) s)
    \<and> correct_memory W k t reason (Some scope) s = (Inl (StoreError (MissingRow k)), Suc (fst s), next_db (cw_pass W) s)
    \<and> supersede_memory W t k why ty p (Some scope) s = (Inl (StoreError (MissingRow k)), Suc (fst s), next_db (cw_pass W) s)
    \<and> forget_memory W k reason (Some scope) s = (Inl (StoreError (MissingRow k)), Suc (fst s), next_db (cw_pass W) s)"
  using out_of_scope [OF assms]
  by (simp_all add: flag_memory_object_def correct_memory_def supersede_memory_def forget_memory_def and_then_def)

definition ex_target :: target_scope where
  "ex_target = \<lparr>tg_container_ref = [98], tg_actor_ref = [7], tg_visibility = u ''private''\<rparr>"

theorem out_of_scope_is_missing_witness:
  "correct_memory ex_caller [10] [] [] (Some ex_target) (0, ex_store) = (Inl (StoreError (MissingRow [10])), 1, ex_store)"
proof -
  have "\<forall>m. get_memory (rt_queue (next_db (cw_pass ex_caller) (0, ex_store))) [10] = Some m \<longrightarrow>
      (canonicalize_container_ref (cw_lower ex_caller) (mo_container_ref m), mo_actor_ref m, text_or (u ''private'') (mo_visibility m))
        \<noteq> (Some (tg_container_ref ex_target), Some (tg_actor_ref ex_target), tg_visibility ex_target)"
    by (simp add: ex_caller_def shared_world_def next_db_def ex_store_def ex_decision_def memory_row_def
        ex_target_def row_get_Cons)
  from out_of_scope_is_missing [OF this] have "correct_memory ex_caller [10] [] [] (Some ex_target) (0, ex_store) =
      (Inl (StoreError (MissingRow [10])), Suc (fst (0 :: nat, ex_store)), next_db (cw_pass ex_caller) (0, ex_store))"
    by blast
  then show ?thesis by (simp add: ex_caller_def shared_world_def next_db_def)
qed

section \<open>Flags\<close>

lemma undisturbed_step:
  assumes "pw_meanwhile (cw_pass W) = (\<lambda>_ db. db)"
  shows "tx W g z = (case g (clock W z) (snd z) of (r, db) \<Rightarrow> (r, Suc (fst z), db))"
    "look W h z = (h (clock W z) (snd z), Suc (fst z), snd z)"
  using assms by (simp_all add: tx_def look_def next_db_def)

lemma lifecycle_view:
  "mv_lifecycle (view_memory m) = u ''suppressed'' \<longleftrightarrow> mo_lifecycle m = u ''suppressed''"
  by (auto simp: view_memory_def)

definition flag_outcome :: "pystr \<Rightarrow> memory_object \<Rightarrow> bool \<Rightarrow> time \<Rightarrow> retention_db \<Rightarrow> bool" where
  "flag_outcome k m immediate now db \<longleftrightarrow> mo_lifecycle m = u ''suppressed'' \<or> mo_lifecycle m \<in> {[], u ''active''}
      \<and> (immediate \<or> 2 \<le> count_unique_flag_sources k flag_window_days now db)"

lemma suppress_flagged_undisturbed:
  assumes "pw_meanwhile (cw_pass W) = (\<lambda>_ db. db)" "get_memory (rt_queue (snd z)) k = Some m"
  shows "\<exists>n. suppress_flagged W (view_memory m) k immediate z = (Inr (flag_outcome k m immediate (clock W z) (snd z)), n,
      if flag_outcome k m immediate (clock W z) (snd z) \<and> mo_lifecycle m \<noteq> u ''suppressed''
      then upd_queue (upd_memory k (\<lambda>m. m\<lparr>mo_lifecycle := u ''suppressed''\<rparr>)) (snd z) else snd z)"
  using assms(2)
  by (cases z) (simp add: suppress_flagged_def suppress_def unique_sources_def and_then_def give_def undisturbed_step [OF assms(1)]
      lifecycle_view flag_outcome_def flag_suppression_threshold_def update_memory_object_lifecycle_def commit_queue_def
      change_memory_def)

text \<open>C27: flagging a memory object, undisturbed, stores the flag and counts it, and the object is suppressed
  then exactly if it was before, or it is active and the caller insists or the flags of the last thirty
  days, the new one among them, come from at least two sources; nothing else of the object changes.\<close>

theorem flag_suppresses_exactly:
  fixes W s k reason source immediate
  defines "f \<equiv> \<lparr>fl_id = cw_id W 0, fl_memory_object_id = k, fl_reason = reason, fl_source_ref = source,
      fl_flagged_at = pw_time (cw_pass W) (Suc (fst s))\<rparr>"
  defines "db1 \<equiv> (snd s)\<lparr>rt_flags := rt_flags (snd s) @ [f]\<rparr>"
  defines "suppressed \<equiv> \<lambda>m. mo_lifecycle m = u ''suppressed'' \<or> mo_lifecycle m \<in> {[], u ''active''}
      \<and> (immediate \<or> 2 \<le> card (fl_source_ref ` {g \<in> set (rt_flags db1). fl_memory_object_id g = k
            \<and> pw_time (cw_pass W) (Suc (Suc (fst s))) - days 30 \<le> fl_flagged_at g}))"
  assumes "pw_meanwhile (cw_pass W) = (\<lambda>_ db. db)"
    and "get_memory (rt_queue (snd s)) k = Some m"
    and "in_target_scope (cw_lower W) scope (mo_container_ref m) (mo_actor_ref m) (Some (text_or (u ''private'') (mo_visibility m)))"
    and "cw_id W 0 \<notin> fl_id ` set (rt_flags (snd s))"
  shows "\<exists>sources n db'. flag_memory_object W k reason source immediate scope s =
      (Inr \<lparr>fr_memory_object_id = k, fr_flag_count = length (flags_of k db1), fr_unique_sources = sources,
           fr_suppressed = suppressed m\<rparr>, n, db')
    \<and> rt_flags db' = rt_flags db1
    \<and> get_memory (rt_queue db') k =
        Some (if suppressed m \<and> mo_lifecycle m \<noteq> u ''suppressed'' then m\<lparr>mo_lifecycle := u ''suppressed''\<rparr> else m)"
proof -
  have k: "in_target_scope (cw_lower W) scope (mv_container_ref (view_memory m)) (mv_actor_ref (view_memory m))
      (Some (mv_visibility (view_memory m)))"
    using assms(6) by (simp add: view_memory_def)
  have target: "memory_target W k scope s = (Inr (view_memory m), Suc (fst s), snd s)"
    using k assms(5) by (simp add: memory_target_def and_then_def give_def undisturbed_step [OF assms(4)]
        get_memory_object_def store_result_def)
  have store: "tx W (\<lambda>now. store_memory_flag \<lparr>fl_id = cw_id W 0, fl_memory_object_id = k, fl_reason = reason,
      fl_source_ref = source, fl_flagged_at = now\<rparr>) (Suc (fst s), snd s) = (Inr (), Suc (Suc (fst s)), db1)"
    using assms(5,7) by (simp add: undisturbed_step [OF assms(4)] store_memory_flag_def db1_def f_def clock_def)
  have "suppressed m = flag_outcome k m immediate (clock W (Suc (Suc (fst s)), db1)) db1"
    by (simp add: suppressed_def flag_outcome_def count_unique_flag_sources_def recent_flag_sources_def
        flag_window_days_def clock_def length_remdups_card_conv)
  moreover have "get_memory (rt_queue (snd (Suc (Suc (fst s)), db1))) k = Some m" using assms(5) by (simp add: db1_def)
  ultimately obtain n where "suppress_flagged W (view_memory m) k immediate (Suc (Suc (fst s)), db1) =
      (Inr (suppressed m), n, if suppressed m \<and> mo_lifecycle m \<noteq> u ''suppressed''
        then upd_queue (upd_memory k (\<lambda>m. m\<lparr>mo_lifecycle := u ''suppressed''\<rparr>)) db1 else db1)"
    using suppress_flagged_undisturbed [OF assms(4), where z = "(Suc (Suc (fst s)), db1)" and k = k and m = m
        and immediate = immediate] by auto
  then show ?thesis
    using target store assms(5)
    by (simp add: flag_memory_object_def and_then_def give_def undisturbed_step [OF assms(4)] unique_sources_def
        count_total_flags_def flags_of_def get_memory_upd db1_def)
qed

lemma ex_caller_alone: "pw_meanwhile (cw_pass ex_caller) = (\<lambda>_ db. db)"
  by (simp add: ex_caller_def shared_world_def fun_eq_iff)

theorem flag_suppresses_exactly_witness:
  "\<exists>result n db'. flag_memory_object ex_caller [10] [] [7] False None (0, ex_store) = (Inr result, n, db')
     \<and> fr_flag_count result = 1 \<and> \<not> fr_suppressed result"
proof -
  obtain m where m: "get_memory (rt_queue ex_store) [10] = Some m" "mo_lifecycle m = u ''active''"
    by (simp add: ex_store_def row_get_Cons memory_row_def ex_decision_def)
  have "rt_flags ex_store = []" by (simp add: ex_store_def)
  then show ?thesis
    using flag_suppresses_exactly [OF ex_caller_alone, where s = "(0, ex_store)" and k = "[10]" and m = m
        and scope = None and reason = "[]" and source = "[7]" and immediate = False] m
    by (auto simp: in_target_scope_def flags_of_def image_constant_conv split: if_splits)
qed

lemma supersession_ignores_flags:
  "create_explicit_supersession E k m es session agent why (db\<lparr>rt_flags := fs\<rparr>) =
     (case create_explicit_supersession E k m es session agent why db of (r, db') \<Rightarrow> (r, db'\<lparr>rt_flags := fs\<rparr>))"
  by (simp add: create_explicit_supersession_def commit_queue_def split: option.split sum.split)

lemma store_flag_done:
  assumes "get_memory (rt_queue db) (fl_memory_object_id f) \<noteq> None" "fl_id f \<notin> fl_id ` set (rt_flags db)"
  shows "store_memory_flag f db = (Inr (), db\<lparr>rt_flags := rt_flags db @ [f]\<rparr>)"
  using assms by (auto simp: store_memory_flag_def)

text \<open>C28: a flag overtakes a supersession: when another connection replaces the object after the call read
  it as active and before the call suppresses it, the object ends suppressed instead of superseded,
  though it names its replacement, and the call reports that it was suppressed.\<close>

theorem flag_overtakes_supersession:
  fixes W db k m' entries session agent why
  defines "replace \<equiv> create_explicit_supersession (cw_env W) k m' entries session agent why"
  assumes "history_inv db" "get_memory (rt_queue db) k = Some m" "mo_lifecycle m = u ''active''"
    and "cw_id W 0 \<notin> fl_id ` set (rt_flags db)"
    and "fst (replace db) = Inr ()"
    and "pw_meanwhile (cw_pass W) = (\<lambda>n d. if n = 2 then snd (replace d) else d)"
  shows "\<exists>result n db' x. flag_memory_object W k reason source True None (0, db) = (Inr result, n, db')
    \<and> fr_suppressed result \<and> get_memory (rt_queue db') k = Some x
    \<and> mo_superseded_by_id x = Some (mi_id m') \<and> mo_lifecycle x = u ''suppressed''"
proof -
  have nextdb: "next_db (cw_pass W) (n, d) = (if n = 2 then snd (replace d) else d)" for n d
    using assms(7) by (simp add: next_db_def)
  let ?f = "\<lparr>fl_id = cw_id W 0, fl_memory_object_id = k, fl_reason = reason, fl_source_ref = source,
      fl_flagged_at = pw_time (cw_pass W) 1\<rparr>"
  obtain db1 where run: "replace db = (Inr (), db1)" using assms(6) by (cases "replace db") auto
  obtain x where x: "get_memory (rt_queue db1) k = Some x" "mo_superseded_by_id x = Some (mi_id m')"
    using head_replaced [OF assms(2) disjI1 [OF run [unfolded replace_def]]] by blast
  have later: "replace (db\<lparr>rt_flags := fs\<rparr>) = (Inr (), db1\<lparr>rt_flags := fs\<rparr>)" for fs
    using run by (simp add: replace_def supersession_ignores_flags)
  have view: "mv_lifecycle (view_memory m) = u ''active''" using assms(4) by (simp add: view_memory_def)
  show ?thesis
    using assms(3,5) x later
    by (simp add: flag_memory_object_def memory_target_def suppress_flagged_def suppress_def unique_sources_def
        and_then_def give_def look_def tx_def nextdb clock_def in_target_scope_def get_memory_object_def store_result_def
        store_flag_done view update_memory_object_lifecycle_def commit_queue_def change_memory_def get_memory_upd)
qed

definition ex_race :: curation_world where
  "ex_race = ex_caller\<lparr>cw_pass := (cw_pass ex_caller)\<lparr>pw_meanwhile := (\<lambda>n d. if n = 2
     then snd (create_explicit_supersession (cw_env ex_caller) [10] ex_replacing [] [] [] None d) else d)\<rparr>\<rparr>"

theorem flag_overtakes_supersession_witness:
  "\<exists>result n db' x. flag_memory_object ex_race [10] [] [7] True None (0, ex_store) = (Inr result, n, db')
     \<and> get_memory (rt_queue db') [10] = Some x \<and> mo_superseded_by_id x = Some [12] \<and> mo_lifecycle x = u ''suppressed''"
proof -
  obtain m where m: "get_memory (rt_queue ex_store) [10] = Some m" "mo_lifecycle m = u ''active''"
    by (simp add: ex_store_def row_get_Cons memory_row_def ex_decision_def)
  have env: "cw_env ex_race = ex_memory_env" "cw_env ex_caller = ex_memory_env"
    by (simp_all add: ex_race_def ex_caller_def)
  have "fst (create_explicit_supersession ex_memory_env [10] ex_replacing [] [] [] None ex_store) = Inr ()" by code_simp
  then have won: "fst (create_explicit_supersession (cw_env ex_race) [10] ex_replacing [] [] [] None ex_store) = Inr ()"
    by (simp only: env)
  have meanwhile: "pw_meanwhile (cw_pass ex_race) = (\<lambda>n d. if n = 2
      then snd (create_explicit_supersession (cw_env ex_race) [10] ex_replacing [] [] [] None d) else d)"
    unfolding env unfolding ex_race_def env by simp
  have "cw_id ex_race 0 \<notin> fl_id ` set (rt_flags ex_store)" by (simp add: ex_store_def)
  from flag_overtakes_supersession [OF ex_store_intact m this won meanwhile, of "[]" "[7]"]
  show ?thesis by (auto simp: ex_replacing_def ex_decision_def)
qed

end
