(* ===== verification/Memory_Guarantees.thy ===== *)
theory Memory_Guarantees
  imports Queue_Example
begin

text \<open>
  What committing derived memory promises: a new object replaces only older ones of its own type and
  visibility, what it replaces leaves the search and is linked to it, the evidence moves over without
  loss, the merged histories stay bounded, and a fact becomes active only after it recurred.
\<close>

section \<open>Supersession\<close>

text \<open>The pairs a commit finds are sound: the replacement is one of the new objects, the replaced one
  is an older stored object of the type and visibility that was asked for and still active, and no
  pair is found twice.\<close>

theorem supersession_pairs_are_sound:
  "distinct (resolve_pairs E result db)
   \<and> (\<forall>(old, new) \<in> set (resolve_pairs E result db).
        \<exists>h\<in>set (pr_supersession_hints result). \<exists>m\<in>set (q_memories db).
          new = sh_replacement_id h \<and> new \<in> set (map mi_id (pr_memories result))
          \<and> mo_id m = old \<and> old \<notin> set (map mi_id (pr_memories result))
          \<and> mo_type m = sh_memory_type h \<and> mo_lifecycle m \<in> {[], u ''active''}
          \<and> (mo_visibility m = Some (sh_visibility h) \<or> visibility_of m = sh_visibility h))"
  using distinct_resolve_pairs [of E result db] by (fastforce simp: set_resolve_pairs dest!: hint_matchD)

text \<open>C15: a superseded object leaves the search: after a commit every object it replaced is superseded
  for good, has no index entry and no full text row, and a relation links it to one of the new
  objects.\<close>

theorem superseded_leaves_search:
  assumes "queue_inv db" and "commit_process_result E result None db = (Inr pairs, db')" and "(old, new) \<in> set pairs"
  shows "(\<exists>m. get_memory db' old = Some m \<and> mo_lifecycle m = u ''superseded'')
    \<and> (\<forall>e\<in>set (q_index db'). \<not> (ix_target_kind e = u ''memory_object'' \<and> ix_target_id e = old))
    \<and> (\<forall>f\<in>set (q_fts db'). \<not> (ft_target_kind f = u ''memory_object'' \<and> ft_target_id f = old))
    \<and> (\<exists>r\<in>set (q_relations db'). rl_type r = u ''supersedes'' \<and> rl_to_id r = old
          \<and> rl_from_id r \<in> set (map mi_id (pr_memories result)))"
proof -
  have stage: "commit_stage E result [] db = Inr (pairs, db')"
    using assms(2) by (auto simp: commit_process_result_def split: sum.splits)
  then have "queue_inv db'" using qstep_commit_stage assms(1) unfolding qstep_def by blast
  moreover have r: "retired db' (set (map mi_id (pr_memories result))) old"
    using commit_retires [OF stage assms(1,3)] by blast
  ultimately have "\<forall>f\<in>set (q_fts db'). \<not> (ft_target_kind f = u ''memory_object'' \<and> ft_target_id f = old)"
    by (intro unindexed_not_found) (auto simp: retired_def)
  then show ?thesis using r unfolding retired_def by blast
qed

theorem superseded_leaves_search_witness:
  "\<exists>m. get_memory (snd (commit_process_result ex_memory_env (ex_result 11 2) None ex_decided)) [10] = Some m
     \<and> mo_lifecycle m = u ''superseded''"
proof -
  let ?c = "commit_process_result ex_memory_env (ex_result 11 2) None ex_decided"
  have inv: "queue_inv ex_decided" unfolding ex_decided_def by (rule queue.exec_inv [OF ex_queue_inv(1)])
  have "fst ?c = Inr [([10], [11])]" by code_simp
  then have "?c = (Inr [([10], [11])], snd ?c)" by (simp add: prod_eq_iff)
  from superseded_leaves_search [OF inv this, of "[10]" "[11]"] show ?thesis by simp
qed

text \<open>C16: evidence moves to the replacement: when a decision or an investigation outcome is superseded,
  everything that supported it supports its replacement, next to what supported that before, the
  superseded object keeps none, and no other object's evidence changes.\<close>

theorem evidence_moves_to_replacement:
  assumes "queue_inv db" and "apply_pair E (old, new) db = Inr db'" and "old \<noteq> new"
    and "get_memory db old = Some m" and "mo_lifecycle m \<noteq> u ''superseded''" and "mo_type m \<in> merge_types"
  shows "evidence_of db' k =
    (if k = new then evidence_of db new \<union> evidence_of db old else if k = old then {} else evidence_of db k)"
  using evidence_through_pair [OF assms(2,1,3,4,5,6)] by simp

theorem evidence_moves_to_replacement_witness:
  "evidence_of (case apply_pair ex_memory_env ([10], [11]) ex_both of Inr d \<Rightarrow> d | Inl _ \<Rightarrow> ex_both) [11] = {[1], [2]}"
proof -
  have "queue_inv ex_decided" unfolding ex_decided_def by (rule queue.exec_inv [OF ex_queue_inv(1)])
  then have inv: "queue_inv ex_both" unfolding ex_both_def by (rule queue.exec_inv)
  have "case apply_pair ex_memory_env ([10], [11]) ex_both of Inr d \<Rightarrow> True | Inl _ \<Rightarrow> False" by code_simp
  then obtain d where d: "apply_pair ex_memory_env ([10], [11]) ex_both = Inr d"
    by (cases "apply_pair ex_memory_env ([10], [11]) ex_both") simp_all
  have m: "get_memory ex_both [10] = Some ((memory_row ex_memory_env (ex_decision 10))\<lparr>mo_freshness_at := Some 10\<rparr>)"
    by code_simp
  have "evidence_of d [11] = evidence_of ex_both [11] \<union> evidence_of ex_both [10]"
    using evidence_moves_to_replacement [OF inv d _ m, of "[11]"]
    by (simp add: memory_row_def ex_decision_def merge_types_def)
  moreover have "q_relations ex_both = [ex_support 10 1, ex_support 11 2]" by code_simp
  ultimately show ?thesis using d by (auto simp: evidence_in_code supports_def ex_support_def)
qed

text \<open>The histories a merge carries on are bounded: each of the three lists of the merged payload has
  at most sixteen entries, whatever both objects brought, and the replaced object's identifier is
  the last of those that were merged in, unless it already was one of them.\<close>

theorem merged_histories_are_bounded:
  assumes "merge_payload winner loser loser_id = Inr p"
  shows "(\<forall>k\<in>{u ''merged_from'', u ''previous_evidence_text'', u ''previous_rationale''}.
      case obj_true k p of None \<Rightarrow> True | Some (JList xs) \<Rightarrow> length xs \<le> 16 | Some _ \<Rightarrow> False)
    \<and> (\<forall>mine theirs. loser_id \<noteq> [] \<longrightarrow> items_of (u ''merged_from'') winner = Inr mine
        \<longrightarrow> items_of (u ''merged_from'') loser = Inr theirs \<longrightarrow> JText loser_id \<notin> set (theirs @ mine)
        \<longrightarrow> (\<exists>xs. obj_get (u ''merged_from'') p = Some (JList (xs @ [JText loser_id]))))"
  using merge_payload_bounded [OF assms, unfolded bounded_history_def merge_history_keep_last_def]
    merged_from_last [OF assms]
  by simp

section \<open>Promotion\<close>

text \<open>A fact becomes active only after it recurred: the promotion hints of a commit leave every object
  as it was, except candidates of a slot that at least two distinct threads support, and each of
  those is logged with that number of threads.\<close>

theorem promotion_needs_recurrence:
  assumes "promote_slots E [] hints db = Inr db'"
  shows "list_all2 (\<lambda>m m'. m' = m \<or>
      (m' = m\<lparr>mo_lifecycle := u ''active''\<rparr> \<and> mo_lifecycle m = u ''candidate''
       \<and> (\<exists>h\<in>set hints. promotable E h m \<and> 2 \<le> length (slot_threads h db)
            \<and> promotion_logged (q_promotions db') m (length (slot_threads h db)))))
    (q_memories db) (q_memories db')"
  using promote_slots_effect [OF assms]
  by (auto elim!: list_all2_mono simp: promoted_by_def activate_def promotion_thread_threshold_def)

end
