(* ===== verification/Retention_Results.thy ===== *)
theory Retention_Results
  imports Retention_References
begin

text \<open>
  What a pass returns and achieves: how much it may delete, that an undisturbed pass always returns and
  leaves nothing overdue behind, that a pass whose lease is gone touches nothing, and what the cleanup
  of the activation trace spares.
\<close>

section \<open>Counting\<close>

text \<open>What the steps over memory objects count: neither items, nor stripped items, nor trace rows.\<close>

definition item_counts :: "retention_stats \<Rightarrow> nat \<times> nat \<times> nat" where
  "item_counts st = (st_source_items st, st_stripped st, st_trace_events st)"

lemma item_counts_add: "item_counts b = (0, 0, 0) \<Longrightarrow> item_counts (add_stats a b) = item_counts a"
  by (simp add: item_counts_def add_stats_def)

lemma item_counts_none [simp]: "item_counts no_stats = (0, 0, 0)"
  by (simp add: item_counts_def no_stats_def)

lemma item_counts_memory [simp]: "item_counts (fst (delete_memory k db)) = (0, 0, 0)"
  by (simp add: delete_memory_def no_stats_def item_counts_def Let_def split: option.split)

lemma item_counts_orphan [simp]: "item_counts (fst (delete_orphan policy k db)) = (0, 0, 0)"
  using item_counts_memory [of k db]
  by (simp add: delete_orphan_def no_stats_def split: option.split) (simp add: item_counts_def)

lemma item_counts_each:
  "(\<And>k db. item_counts (fst (step k db)) = (0, 0, 0)) \<Longrightarrow> item_counts (fst (delete_each step ks st db)) = item_counts st"
  by (induction ks arbitrary: st db) (simp_all add: delete_each_step item_counts_add del: delete_each.simps(2))

lemma item_counts_superseded [simp]: "item_counts (fst (superseded_chunk now n db)) = (0, 0, 0)"
  by (simp add: superseded_chunk_def item_counts_each)

lemma item_counts_stale_loop: "item_counts (fst (stale_loop c n ks d st db)) = item_counts st"
proof (induction ks arbitrary: d st db)
  case (Cons k ks)
  then show ?case by (simp add: split_beta item_counts_add split: option.split)
qed simp

lemma item_counts_stale [simp]: "item_counts (fst (stale_chunk policy now n db)) = (0, 0, 0)"
  by (simp add: stale_chunk_def item_counts_stale_loop)

lemma memory_loop_counts:
  assumes "\<And>n db. item_counts (fst (chunk n db)) = (0, 0, 0)"
    and "memory_loop W lease chunk remaining st s = (Inr (st', rest), s')"
  shows "item_counts st' = item_counts st \<and> rest \<le> remaining"
  using assms(2)
proof (induction remaining arbitrary: st s rule: less_induct)
  case (less remaining)
  show ?case
  proof (cases "remaining = 0")
    case False
    obtain e s1 where r1: "renew_or_raise W lease s = (e, s1)" using prod.exhaust by blast
    obtain c s2 where r2: "memory_tx W (chunk (min remaining renewal_batch)) s1 = (c, s2)" using prod.exhaust by blast
    have "item_counts c = (0, 0, 0)" using r2 assms(1) by (auto simp: memory_tx_def split_beta)
    then have "item_counts (add_stats st c) = item_counts st" by (rule item_counts_add)
    then show ?thesis
      using less.prems less.IH [of "remaining - st_memory_objects c" "add_stats st c" s2] False
      by (subst (asm) memory_loop.simps) (auto simp: r1 r2 split: option.splits if_splits)
  qed (use less.prems in \<open>simp add: memory_loop.simps\<close>)
qed

lemma scan_length:
  "length (rs_ids s) < limit \<Longrightarrow> length (rs_ids (scan_candidates due_now protected limit is s)) \<le> limit"
  by (induction "is" arbitrary: s) (auto simp: Let_def)

lemma source_items_source: "st_source_items (fst (delete_source policy k db)) \<le> 1"
  "st_stripped (fst (delete_source policy k db)) = 0" "st_trace_events (fst (delete_source policy k db)) = 0"
proof -
  have "item_counts (fst (delete_source policy k db)) \<in> {(0, 0, 0), (1, 0, 0)}"
    by (simp add: delete_source_def Let_def item_counts_each split: option.split) (simp add: item_counts_def no_stats_def)
  then show "st_source_items (fst (delete_source policy k db)) \<le> 1"
    "st_stripped (fst (delete_source policy k db)) = 0" "st_trace_events (fst (delete_source policy k db)) = 0"
    by (auto simp: item_counts_def)
qed

lemma source_items_each:
  "st_source_items (fst (delete_each (delete_source policy) ks st db)) \<le> st_source_items st + length ks
    \<and> st_stripped (fst (delete_each (delete_source policy) ks st db)) = st_stripped st
    \<and> st_trace_events (fst (delete_each (delete_source policy) ks st db)) = st_trace_events st"
proof (induction ks arbitrary: st db)
  case (Cons k ks)
  show ?case
    using Cons.IH [of "add_stats st (fst (delete_source policy k db))" "snd (delete_source policy k db)"]
      source_items_source [of policy k db]
    by (simp add: delete_each_step add_stats_def del: delete_each.simps(2))
qed simp

lemma commit_counts:
  assumes "commit_sources W policy now lease t present c scan db = (Inr (Some st), db')"
  shows "st_source_items st \<le> length (rs_ids scan) \<and> st_stripped st = 0 \<and> st_trace_events st = 0"
proof -
  have "st_source_items r \<le> length (rs_ids scan) \<and> st_stripped r = 0 \<and> st_trace_events r = 0"
    if "delete_each (delete_source policy) (filter P (rs_ids scan)) (no_stats\<lparr>st_skipped_protected := n\<rparr>) d = (r, d')" for P n d r d'
    using source_items_each [of policy "filter P (rs_ids scan)" "no_stats\<lparr>st_skipped_protected := n\<rparr>" d]
    unfolding that by (auto simp: no_stats_def intro: le_trans [OF _ length_filter_le])
  then show ?thesis
    using assms unfolding commit_sources_def Let_def filter_filter by (auto split: if_splits prod.splits)
qed

lemma source_tries_counts:
  assumes "source_tries n W policy now lease limit scan_limit s = (Inr (st, scanned), s')" "0 < limit"
  shows "st_source_items st \<le> limit \<and> st_stripped st = 0 \<and> st_trace_events st = 0"
  using assms
proof (induction n arbitrary: s)
  case (Suc n)
  obtain p c scan where prep: "prepare_sources W policy now limit scan_limit (next_db W s) = (p, c, scan)"
    by (cases "prepare_sources W policy now limit scan_limit (next_db W s)") auto
  have "length (rs_ids scan) \<le> limit"
    using prep Suc.prems(2) by (auto simp: prepare_sources_def Let_def intro!: scan_length)
  then show ?case
    using Suc.prems Suc.IH by (auto simp: prep Let_def split: sum.splits prod.splits option.splits dest: commit_counts)
qed simp

lemma source_chunk_counts:
  "source_chunk W policy now lease limit scan_limit s = (Inr (st, scanned), s')
    \<Longrightarrow> st_source_items st \<le> limit \<and> st_stripped st = 0 \<and> st_trace_events st = 0"
  by (auto simp: source_chunk_def no_stats_def split: if_splits dest: source_tries_counts)

lemma source_loop_counts:
  assumes "source_loop W policy now lease remaining budget st s = (Inr (st', rest), s')"
  shows "st_source_items st' + rest = st_source_items st + remaining \<and> st_stripped st' = st_stripped st
    \<and> st_trace_events st' = st_trace_events st"
  using assms
proof (induction budget arbitrary: remaining st s rule: less_induct)
  case (less budget)
  show ?case
  proof (cases "remaining = 0 \<or> budget = 0")
    case False
    let ?l = "min remaining renewal_batch"
    obtain e s1 where r1: "renew_or_raise W lease s = (e, s1)" using prod.exhaust by blast
    obtain q s2 where r2: "source_chunk W policy now (map_option fst lease) ?l (min (4 * ?l) budget) s1 = (q, s2)"
      using prod.exhaust by blast
    obtain c n where q: "e = None" "q = Inr (c, n)"
      using less.prems False by (subst (asm) source_loop.simps) (auto simp: r1 r2 Let_def split: option.splits sum.splits)
    have c: "st_source_items c \<le> remaining" "st_stripped c = 0" "st_trace_events c = 0"
      using source_chunk_counts [OF r2 [unfolded q(2)]] by auto
    show ?thesis
    proof (cases "n = 0")
      case True
      then show ?thesis
        using less.prems False c by (subst (asm) source_loop.simps) (auto simp: r1 r2 q Let_def add_stats_def)
    next
      case n: False
      have "source_loop W policy now lease (remaining - st_source_items c) (budget - n) (add_stats st c) s2 = (Inr (st', rest), s')"
        using less.prems False n by (subst (asm) source_loop.simps) (simp add: r1 r2 q Let_def)
      then show ?thesis
        using less.IH [of "budget - n" "remaining - st_source_items c" "add_stats st c" s2] False n c by (simp add: add_stats_def)
    qed
  qed (use less.prems in \<open>auto simp: source_loop.simps\<close>)
qed

lemma debug_stage_counts:
  assumes "debug_stage W now lease n st s = (Inr st', s')"
  shows "st_source_items st' = st_source_items st \<and> st_stripped st' \<le> st_stripped st + n \<and> st_trace_events st' = st_trace_events st"
proof (cases "n = 0")
  case False
  have "length (filter has_debug (debug_candidates now m q)) \<le> m" for m q
    by (rule le_trans [OF length_filter_le]) (simp add: debug_candidates_def)
  from this [of "min n renewal_batch"] have "length (filter has_debug (debug_candidates now (min n renewal_batch) q)) \<le> n" for q
    by (meson le_trans min.cobounded1)
  then show ?thesis
    using assms False
    by (auto simp: debug_stage_def memory_tx_def debug_chunk_def Let_def add_stats_def no_stats_def split: option.splits prod.splits)
qed (use assms in \<open>simp add: debug_stage_def\<close>)

section \<open>The batch of a pass\<close>

lemma cleanup_count: "fst (cleanup_trace now limit r) \<le> limit"
  by (simp add: cleanup_trace_def trace_victims_def Let_def)

lemma pass_counts:
  assumes "run_retention_pass W policy now b lease ls s = (Inr st, s')"
  shows "st_source_items st + st_stripped st \<le> nat b \<and> st_trace_events st \<le> 64"
proof -
  obtain n r where c: "cleanup_trace now 64 (rt_relay (next_db W s)) = (n, r)" using prod.exhaust by blast
  have n: "n \<le> 64" using cleanup_count [of now 64 "rt_relay (next_db W s)"] c by simp
  define held where "held = (case (lease, ls) of (Some l, Some k) \<Rightarrow> Some (l, k) | _ \<Rightarrow> None)"
  show ?thesis
  proof (cases "nat b = 0")
    case True
    then show ?thesis using assms n by (auto simp: run_retention_pass_def c Let_def no_stats_def)
  next
    case False
    obtain st2 rest2 s2 st3 rest3 s3 st4 rest4 s4 where
      l: "memory_loop W held (superseded_chunk now) (nat b) (no_stats\<lparr>st_trace_events := n\<rparr>)
            (Suc (fst s), (next_db W s)\<lparr>rt_relay := r\<rparr>) = (Inr (st2, rest2), s2)"
        "memory_loop W held (stale_chunk policy now) rest2 st2 s2 = (Inr (st3, rest3), s3)"
        "source_loop W policy now held rest3 (4 * rest3) st3 s3 = (Inr (st4, rest4), s4)"
        "debug_stage W now held rest4 st4 s4 = (Inr st, s')"
      using assms False unfolding run_pass_stages [OF held_def c] Let_def
      by (auto split: if_splits sum.splits prod.splits)
    have "item_counts st2 = item_counts (no_stats\<lparr>st_trace_events := n\<rparr>) \<and> rest2 \<le> nat b"
      "item_counts st3 = item_counts st2 \<and> rest3 \<le> rest2"
      by (rule memory_loop_counts [OF _ l(1)], simp) (rule memory_loop_counts [OF _ l(2)], simp)
    then have "st_source_items st3 = 0" "st_stripped st3 = 0" "st_trace_events st3 = n" "rest3 \<le> nat b"
      by (auto simp: item_counts_def no_stats_def)
    then show ?thesis using source_loop_counts [OF l(3)] debug_stage_counts [OF l(4)] n by linarith
  qed
qed

section \<open>An undisturbed pass\<close>

definition overdue_count :: "time \<Rightarrow> retention_db \<Rightarrow> nat" where
  "overdue_count now db = length (filter (overdue now) (q_memories (rt_queue db)))"

abbreviation keyed :: "retention_db \<Rightarrow> bool" where
  "keyed db \<equiv> distinct (map mo_id (q_memories (rt_queue db)))"

lemma deleted_count:
  "distinct ks \<Longrightarrow> \<forall>k\<in>set ks. get_memory (rt_queue db) k \<noteq> None \<Longrightarrow>
     st_memory_objects (fst (delete_each delete_memory ks st db)) = st_memory_objects st + length ks"
proof (induction ks arbitrary: st db)
  case (Cons k ks)
  have "st_memory_objects (fst (delete_memory k db)) = 1"
    using Cons.prems(2) by (auto simp: delete_memory_def Let_def no_stats_def)
  moreover have "\<forall>j\<in>set ks. get_memory (rt_queue (snd (delete_memory k db))) j \<noteq> None"
    using Cons.prems by (auto simp: get_memory_delete simp del: memories_delete_memory)
  ultimately show ?case
    using Cons.IH [of "snd (delete_memory k db)" "add_stats st (fst (delete_memory k db))"] Cons.prems(1)
    by (simp add: delete_each_step add_stats_def del: delete_each.simps(2))
qed simp

lemma superseded_chunk_effect:
  assumes "keyed db"
  shows "st_memory_objects (fst (superseded_chunk now n db)) = min n (overdue_count now db)"
    "overdue_count now (snd (superseded_chunk now n db)) = overdue_count now db - min n (overdue_count now db)"
    "keyed (snd (superseded_chunk now n db))"
proof -
  let ?rows = "filter (overdue now) (q_memories (rt_queue db))"
  let ?sorted = "sort_key (\<lambda>m. (null_first (mo_freshness_at m), mo_created_at m, mo_id m)) ?rows"
  define ids where "ids = map mo_id (take n ?sorted)"
  have "distinct (map mo_id ?rows)" using assms by (simp add: distinct_map_filter)
  then have "distinct (map mo_id ?sorted)" by (simp add: distinct_map)
  then have ids: "distinct ids" unfolding ids_def take_map [symmetric] by (rule distinct_take)
  have sub: "set ids \<subseteq> mo_id ` set ?rows" unfolding ids_def by (auto dest!: in_set_takeD)
  have len: "length ids = min n (overdue_count now db)" by (simp add: ids_def overdue_count_def)
  have chunk: "superseded_chunk now n db = delete_each delete_memory ids no_stats db"
    by (simp add: superseded_chunk_def ids_def)
  have "\<forall>k\<in>set ids. get_memory (rt_queue db) k \<noteq> None" using sub by (auto simp: row_get_None_iff)
  then show "st_memory_objects (fst (superseded_chunk now n db)) = min n (overdue_count now db)"
    unfolding chunk by (simp add: deleted_count ids len) (simp add: no_stats_def)
  have "length (filter (\<lambda>m. mo_id m \<in> set ids) ?rows) = card (mo_id ` set (filter (\<lambda>m. mo_id m \<in> set ids) ?rows))"
    using \<open>distinct (map mo_id ?rows)\<close>
    by (metis distinct_card distinct_map_filter length_map list.set_map)
  also have "mo_id ` set (filter (\<lambda>m. mo_id m \<in> set ids) ?rows) = set ids" using sub by auto
  finally have "length (filter (\<lambda>m. mo_id m \<in> set ids) ?rows) = length ids" using ids by (simp add: distinct_card)
  then show "overdue_count now (snd (superseded_chunk now n db)) = overdue_count now db - min n (overdue_count now db)"
    using sum_length_filter_compl [of "\<lambda>m. mo_id m \<in> set ids" ?rows]
    unfolding chunk overdue_count_def memories_delete_each len [unfolded overdue_count_def, symmetric]
    by (simp add: conj_commute)
  show "keyed (snd (superseded_chunk now n db))"
    unfolding chunk memories_delete_each using assms by (simp add: distinct_map_filter)
qed

text \<open>The lease of a pass that no reading of its clock runs past.\<close>

definition lease_kept :: "pass_world \<Rightarrow> retention_lease \<Rightarrow> int \<Rightarrow> retention_db \<Rightarrow> bool" where
  "lease_kept W l ls db \<longleftrightarrow>
     (\<exists>m n. get_maintenance db = Some m \<and> mt_claimed_by m = Some (ls_claimed_by l)
        \<and> mt_claimed_at m = Some (ls_claimed_at l) \<and> mt_lease_expires_at m = Some (retention_end (pw_time W n) ls))"

definition within_lease :: "pass_world \<Rightarrow> int \<Rightarrow> bool" where
  "within_lease W ls \<longleftrightarrow> (\<forall>m n. pw_time W m < retention_end (pw_time W n) ls)"

definition undisturbed :: "pass_world \<Rightarrow> bool" where
  "undisturbed W \<longleftrightarrow> pw_meanwhile W = (\<lambda>_ db. db)"

lemma lease_kept_owned: "lease_kept W l ls db \<Longrightarrow> within_lease W ls \<Longrightarrow> lease_owned db (ls_claimed_by l) (ls_claimed_at l) (pw_time W n)"
  by (auto simp: lease_kept_def within_lease_def lease_owned_def owns_retention_def)

lemma renew_undisturbed:
  assumes "undisturbed W" "within_lease W ls" "lease_kept W l ls (snd s)"
  shows "\<exists>s1. renew_or_raise W (Some (l, ls)) s = (None, s1) \<and> lease_kept W l ls (snd s1)
    \<and> rt_queue (snd s1) = rt_queue (snd s)"
proof -
  obtain m where m: "get_maintenance (snd s) = Some m" using assms(3) by (auto simp: lease_kept_def)
  have "get_maintenance (upd_maintenance (\<lambda>m. m\<lparr>mt_lease_expires_at := e, mt_updated_at := t\<rparr>) (snd s)) =
      Some (m\<lparr>mt_lease_expires_at := e, mt_updated_at := t\<rparr>)" for e t
    using m by (simp add: upd_maintenance_def row_get_row_upd)
  moreover have "rt_queue (upd_maintenance f db) = rt_queue db" for f db by (simp add: upd_maintenance_def)
  ultimately show ?thesis
    using assms m lease_kept_owned [OF assms(3, 2)]
    by (auto simp: renew_or_raise_def next_db_def undisturbed_def renew_retention_lease_def lease_kept_def)
qed

lemma lease_kept_cong: "rt_maintenance db' = rt_maintenance db \<Longrightarrow> lease_kept W l ls db' = lease_kept W l ls db"
  by (simp add: lease_kept_def)

lemma maintenance_memory [simp]: "rt_maintenance (snd (delete_memory k db)) = rt_maintenance db"
  by (simp add: delete_memory_def Let_def split: option.split)

lemma maintenance_superseded: "rt_maintenance (snd (superseded_chunk now n db)) = rt_maintenance db"
  unfolding superseded_chunk_def by (rule delete_each_keeps [where J = "\<lambda>d. rt_maintenance d = rt_maintenance db"]) simp_all

lemma maintenance_stale_loop: "rt_maintenance (snd (stale_loop c n ks d st db)) = rt_maintenance db"
proof (induction ks arbitrary: d st db)
  case (Cons k ks)
  have "rt_maintenance (snd (resolve_freshness k db)) = rt_maintenance db"
    by (simp add: resolve_freshness_def Let_def split: option.split)
  then show ?case by (simp add: Cons.IH split_beta)
qed simp

lemma maintenance_stale: "rt_maintenance (snd (stale_chunk policy now n db)) = rt_maintenance db"
  by (simp add: stale_chunk_def maintenance_stale_loop)

lemma memory_loop_undisturbed:
  assumes W: "undisturbed W" "within_lease W ls" and chunk: "\<And>n db. rt_maintenance (snd (chunk n db)) = rt_maintenance db"
    and kept: "lease_kept W l ls (snd s)"
  shows "\<exists>st' rest s'. memory_loop W (Some (l, ls)) chunk remaining st s = (Inr (st', rest), s') \<and> lease_kept W l ls (snd s')"
  using kept
proof (induction remaining arbitrary: st s rule: less_induct)
  case (less remaining)
  show ?case
  proof (cases "remaining = 0")
    case False
    obtain s1 where r1: "renew_or_raise W (Some (l, ls)) s = (None, s1)" "lease_kept W l ls (snd s1)"
      using renew_undisturbed [OF W less.prems] by blast
    obtain c s2 where r2: "memory_tx W (chunk (min remaining renewal_batch)) s1 = (c, s2)" using prod.exhaust by blast
    have k2: "lease_kept W l ls (snd s2)"
      using r2 r1(2) chunk lease_kept_cong [of "snd s2" "snd s1"] W(1)
      by (auto simp: memory_tx_def next_db_def undisturbed_def split_beta)
    show ?thesis
    proof (cases "st_memory_objects c = 0")
      case True
      then show ?thesis using k2 False by (subst memory_loop.simps) (simp add: r1 r2)
    next
      case n: False
      have "memory_loop W (Some (l, ls)) chunk remaining st s =
          memory_loop W (Some (l, ls)) chunk (remaining - st_memory_objects c) (add_stats st c) s2"
        using n False by (subst memory_loop.simps) (simp add: r1 r2)
      then show ?thesis using less.IH [OF _ k2, of "remaining - st_memory_objects c" "add_stats st c"] n False by simp
    qed
  qed (use less.prems in \<open>simp add: memory_loop.simps\<close>)
qed

lemma renew_queue: "undisturbed W \<Longrightarrow> renew_or_raise W lease s = (e, s1) \<Longrightarrow> rt_queue (snd s1) = rt_queue (snd s)"
  by (auto simp: undisturbed_def renew_or_raise_def renew_retention_lease_def upd_maintenance_def next_db_def
      split: option.splits prod.splits sum.splits if_splits)

lemma superseded_loop_clears:
  assumes W: "undisturbed W" and "keyed (snd s)" "overdue_count now (snd s) < remaining"
    and "memory_loop W lease (superseded_chunk now) remaining st s = (Inr (st', rest), s')"
  shows "overdue_count now (snd s') = 0 \<and> keyed (snd s')"
  using assms(2-)
proof (induction remaining arbitrary: st s rule: less_induct)
  case (less remaining)
  let ?n = "min remaining renewal_batch"
  obtain e s1 where r1: "renew_or_raise W lease s = (e, s1)" using prod.exhaust by blast
  obtain c s2 where r2: "memory_tx W (superseded_chunk now ?n) s1 = (c, s2)" using prod.exhaust by blast
  have e: "e = None" using less.prems(2, 3) by (subst (asm) memory_loop.simps) (auto simp: r1 split: option.splits)
  have q1: "rt_queue (snd s1) = rt_queue (snd s)" by (rule renew_queue [OF W r1])
  have "c = fst (superseded_chunk now ?n (snd s1))" "snd s2 = snd (superseded_chunk now ?n (snd s1))"
    using r2 W by (auto simp: memory_tx_def next_db_def undisturbed_def split_beta)
  then have c: "st_memory_objects c = min ?n (overdue_count now (snd s))"
    "overdue_count now (snd s2) = overdue_count now (snd s) - min ?n (overdue_count now (snd s))" "keyed (snd s2)"
    using superseded_chunk_effect [of "snd s1" now ?n] less.prems(1) q1 by (simp_all add: overdue_count_def)
  show ?case
  proof (cases "st_memory_objects c = 0")
    case True
    then have "s' = s2" using less.prems(2, 3) by (subst (asm) memory_loop.simps) (simp add: r1 r2 e)
    moreover have "0 < ?n" using less.prems(2) by (simp add: renewal_batch_def)
    ultimately show ?thesis using c True by auto
  next
    case False
    have "memory_loop W lease (superseded_chunk now) (remaining - st_memory_objects c) (add_stats st c) s2 = (Inr (st', rest), s')"
      using less.prems(2, 3) False by (subst (asm) memory_loop.simps) (simp add: r1 r2 e)
    moreover have "overdue_count now (snd s2) < remaining - st_memory_objects c"
      unfolding c(1, 2) using less.prems(2) by (intro diff_less_mono) simp_all
    moreover have "remaining - st_memory_objects c < remaining" using False less.prems(2) by simp
    ultimately show ?thesis using less.IH [OF _ c(3)] by blast
  qed
qed

lemma delete_source_maintenance [simp]: "rt_maintenance (snd (delete_source policy k db)) = rt_maintenance db"
proof -
  have "rt_maintenance (snd (delete_memory k d)) = rt_maintenance d" for k d
    by (simp add: delete_memory_def Let_def split: option.split)
  then have "rt_maintenance (snd (delete_orphan policy k d)) = rt_maintenance d" for k d
    using delete_orphan_cases [of policy k d] by auto
  then show ?thesis by (intro delete_source_keeps [where J = "\<lambda>d. rt_maintenance d = rt_maintenance db"]) simp_all
qed

lemma delete_sources_maintenance [simp]: "rt_maintenance (snd (delete_each (delete_source policy) ks st db)) = rt_maintenance db"
  by (rule delete_each_keeps [where J = "\<lambda>d. rt_maintenance d = rt_maintenance db"]) simp_all

lemma lease_kept_cursor: "lease_kept W l ls db \<Longrightarrow> lease_kept W l ls (set_cursor scan c db)"
  by (auto simp: set_cursor_def lease_kept_def upd_maintenance_def row_get_row_upd split: option.split)

lemma source_chunk_undisturbed:
  assumes W: "undisturbed W" "within_lease W ls" and kept: "lease_kept W l ls (snd s)"
  shows "\<exists>st n s'. source_chunk W policy now (Some l) dl sl s = (Inr (st, n), s') \<and> lease_kept W l ls (snd s')"
proof (cases "dl = 0 \<or> sl = 0")
  case False
  let ?db = "snd s"
  obtain p c scan where prep: "prepare_sources W policy now dl sl ?db = (p, c, scan)"
    by (cases "prepare_sources W policy now dl sl ?db") auto
  obtain m where m: "get_maintenance ?db = Some m" using kept by (auto simp: lease_kept_def)
  have p: "p" "cursor_of (get_maintenance ?db) = c" using prep m by (auto simp: prepare_sources_def Let_def)
  let ?t = "pw_time W (Suc (fst s))"
  have own: "lease_owned ?db (ls_claimed_by l) (ls_claimed_at l) ?t" by (rule lease_kept_owned [OF kept W(2)])
  have ens: "ensure_maintenance now ?db = ?db" using m by (simp add: ensure_maintenance_def)
  obtain st db3 where com: "commit_sources W policy now (Some l) ?t p c scan ?db = (Inr (Some st), db3)"
    using m p own by (simp add: commit_sources_def Let_def split_beta)
  have "lease_kept W l ls db3"
  proof -
    obtain ks s0 where "db3 = set_cursor scan c (snd (delete_each (delete_source policy) ks s0 (upd_queue (delete_item_fts ks) ?db)))"
      using com m p own by (auto simp: commit_sources_def Let_def split_beta ens)
    moreover have "lease_kept W l ls (snd (delete_each (delete_source policy) ks s0 (upd_queue (delete_item_fts ks) ?db)))"
      using kept by (simp add: lease_kept_def)
    ultimately show ?thesis by (simp add: lease_kept_cursor)
  qed
  then show ?thesis
    using False W(1) by (simp add: source_chunk_def locked_max_retries_def numeral_3_eq_3 next_db_def undisturbed_def prep com Let_def)
qed (use kept in \<open>simp add: source_chunk_def\<close>)

lemma source_loop_undisturbed:
  assumes W: "undisturbed W" "within_lease W ls" and kept: "lease_kept W l ls (snd s)"
  shows "\<exists>st' rest s'. source_loop W policy now (Some (l, ls)) remaining budget st s = (Inr (st', rest), s') \<and> lease_kept W l ls (snd s')"
  using kept
proof (induction budget arbitrary: remaining st s rule: less_induct)
  case (less budget)
  show ?case
  proof (cases "remaining = 0 \<or> budget = 0")
    case False
    let ?l = "min remaining renewal_batch"
    obtain s1 where r1: "renew_or_raise W (Some (l, ls)) s = (None, s1)" "lease_kept W l ls (snd s1)"
      using renew_undisturbed [OF W less.prems] by blast
    obtain c n s2 where r2: "source_chunk W policy now (Some l) ?l (min (4 * ?l) budget) s1 = (Inr (c, n), s2)"
      "lease_kept W l ls (snd s2)"
      using source_chunk_undisturbed [OF W r1(2)] by blast
    show ?thesis
    proof (cases "n = 0")
      case True
      then show ?thesis using False r2(2) by (subst source_loop.simps) (simp add: r1 r2 Let_def)
    next
      case n: False
      have "source_loop W policy now (Some (l, ls)) remaining budget st s =
          source_loop W policy now (Some (l, ls)) (remaining - st_source_items c) (budget - n) (add_stats st c) s2"
        using False n by (subst source_loop.simps) (simp add: r1 r2 Let_def)
      then show ?thesis using less.IH [OF _ r2(2), of "budget - n"] n False by simp
    qed
  qed (use less.prems in \<open>simp add: source_loop.simps\<close>)
qed

lemma debug_stage_undisturbed:
  assumes W: "undisturbed W" "within_lease W ls" and kept: "lease_kept W l ls (snd s)"
  shows "\<exists>st' s'. debug_stage W now (Some (l, ls)) n st s = (Inr st', s') \<and> lease_kept W l ls (snd s')"
proof (cases "n = 0")
  case False
  obtain s1 where r1: "renew_or_raise W (Some (l, ls)) s = (None, s1)" "lease_kept W l ls (snd s1)"
    using renew_undisturbed [OF W kept] by blast
  obtain c s2 where r2: "memory_tx W (debug_chunk now (min n renewal_batch)) s1 = (c, s2)" using prod.exhaust by blast
  have "rt_maintenance (snd s2) = rt_maintenance (snd s1)"
    using r2 W(1) by (auto simp: memory_tx_def next_db_def undisturbed_def debug_chunk_def Let_def)
  then have "lease_kept W l ls (snd s2)" using r1(2) lease_kept_cong by blast
  then show ?thesis using False by (simp add: debug_stage_def r1 r2)
qed (use kept in \<open>simp add: debug_stage_def\<close>)

text \<open>Once no object is overdue none becomes so: deletions and the freshness of active objects cannot
  make one.\<close>

definition nothing_overdue :: "time \<Rightarrow> retention_db \<Rightarrow> bool" where
  "nothing_overdue now db \<longleftrightarrow> keyed db \<and> overdue_count now db = 0"

lemma nothing_overdue_iff:
  "nothing_overdue now db \<longleftrightarrow> keyed db \<and> (\<forall>m\<in>set (q_memories (rt_queue db)). \<not> overdue now m)"
  by (auto simp: nothing_overdue_def overdue_count_def filter_empty_conv)

lemma nothing_overdue_memory: "nothing_overdue now db \<Longrightarrow> nothing_overdue now (snd (delete_memory k db))"
  by (auto simp: nothing_overdue_iff row_del_def distinct_map_filter)

lemma nothing_overdue_source: "nothing_overdue now db \<Longrightarrow> nothing_overdue now (snd (delete_source policy k db))"
proof (rule delete_source_keeps)
  show "nothing_overdue now (snd (delete_orphan policy m d))" if "nothing_overdue now d" for m d
    using that delete_orphan_cases [of policy m d] by (auto simp: nothing_overdue_memory)
qed (simp_all add: nothing_overdue_iff drop_source_def)

lemma nothing_overdue_kept:
  assumes "undisturbed W"
  shows "retention_kept W policy now (nothing_overdue now)"
proof (unfold_locales, goal_cases)
  case (6 db k m)
  let ?db = "snd (resolve_freshness k db)"
  have keys: "map mo_id (q_memories (rt_queue ?db)) = map mo_id (q_memories (rt_queue db))"
    by (simp add: resolve_freshness_def Let_def upd_memory_def row_upd_def split: option.split)
  then have keyed: "keyed ?db" using 6(1) by (simp add: nothing_overdue_iff)
  have "\<not> overdue now x" if "x \<in> set (q_memories (rt_queue ?db))" for x
  proof -
    have "get_memory (rt_queue ?db) (mo_id x) = Some x" by (rule distinct_get_memory [OF keyed that])
    then have "x = m\<lparr>mo_freshness_at := fst (resolve_freshness k db)\<rparr> \<or> get_memory (rt_queue db) (mo_id x) = Some x"
      using 6(2) by (auto simp: get_memory_fresh split: if_splits)
    then show ?thesis
      using 6(1, 3) by (auto simp: nothing_overdue_iff overdue_def dest: row_get_SomeD)
  qed
  then show ?case using keyed by (simp add: nothing_overdue_iff)
next
  case (8 db ks st)
  have "nothing_overdue now (upd_queue (delete_item_fts ks) db)"
    using 8(1) by (simp add: nothing_overdue_iff delete_item_fts_def Let_def)
  then show ?case by (rule delete_each_keeps) (rule nothing_overdue_source)
qed (use assms in \<open>simp_all add: undisturbed_def nothing_overdue_memory\<close>,
     simp_all add: nothing_overdue_iff upd_source_def)

lemma pass_undisturbed:
  assumes W: "undisturbed W" "within_lease W ls" and kept: "lease_kept W l ls (snd s)"
    and "keyed (snd s)" "overdue_count now (snd s) < nat b"
  shows "\<exists>st s'. run_retention_pass W policy now b (Some l) (Some ls) s = (Inr st, s')
    \<and> lease_kept W l ls (snd s') \<and> nothing_overdue now (snd s')"
proof -
  have K: "retention_kept W policy now (nothing_overdue now)" by (rule nothing_overdue_kept [OF W(1)])
  obtain n r where c: "cleanup_trace now 64 (rt_relay (next_db W s)) = (n, r)" using prod.exhaust by blast
  define st0 where "st0 = no_stats\<lparr>st_trace_events := n\<rparr>"
  define s1 where "s1 = (Suc (fst s), (next_db W s)\<lparr>rt_relay := r\<rparr>)"
  have s1: "lease_kept W l ls (snd s1)" "keyed (snd s1)" "overdue_count now (snd s1) < nat b"
    using assms(3-5) W(1) by (simp_all add: s1_def next_db_def undisturbed_def lease_kept_def overdue_count_def)
  have maint: "rt_maintenance (snd (superseded_chunk now n db)) = rt_maintenance db"
    "rt_maintenance (snd (stale_chunk policy now n db)) = rt_maintenance db" for n db
    by (rule maintenance_superseded, rule maintenance_stale)
  obtain st2 rest2 s2 where l2: "memory_loop W (Some (l, ls)) (superseded_chunk now) (nat b) st0 s1 = (Inr (st2, rest2), s2)"
    "lease_kept W l ls (snd s2)"
    using memory_loop_undisturbed [where chunk = "superseded_chunk now", OF W maint(1) s1(1)] by blast
  have n2: "nothing_overdue now (snd s2)"
    using superseded_loop_clears [OF W(1) s1(2, 3) l2(1)] by (simp add: nothing_overdue_def)
  obtain st3 rest3 s3 where l3: "memory_loop W (Some (l, ls)) (stale_chunk policy now) rest2 st2 s2 = (Inr (st3, rest3), s3)"
    "lease_kept W l ls (snd s3)"
    using memory_loop_undisturbed [where chunk = "stale_chunk policy now", OF W maint(2) l2(2)] by blast
  have n3: "nothing_overdue now (snd s3)"
    by (rule retention_kept.kept_memory_loop [OF K n2 retention_kept.kept_stale [OF K] l3(1)])
  obtain st4 rest4 s4 where l4: "source_loop W policy now (Some (l, ls)) rest3 (4 * rest3) st3 s3 = (Inr (st4, rest4), s4)"
    "lease_kept W l ls (snd s4)"
    using source_loop_undisturbed [OF W l3(2)] by blast
  have n4: "nothing_overdue now (snd s4)" by (rule retention_kept.kept_source_loop [OF K n3 l4(1)])
  obtain st5 s5 where l5: "debug_stage W now (Some (l, ls)) rest4 st4 s4 = (Inr st5, s5)" "lease_kept W l ls (snd s5)"
    using debug_stage_undisturbed [OF W l4(2)] by blast
  have n5: "nothing_overdue now (snd s5)" by (rule retention_kept.kept_debug_stage [OF K n4 l5(1)])
  have held: "Some (l, ls) = (case (Some l, Some ls) of (Some l, Some k) \<Rightarrow> Some (l, k) | _ \<Rightarrow> None)" by simp
  have "0 < nat b" using assms(5) by simp
  then have "run_retention_pass W policy now b (Some l) (Some ls) s = (Inr st5, s5)"
    unfolding run_pass_stages [OF held c] Let_def st0_def [symmetric] s1_def [symmetric]
    by (simp add: l2 l3 l4 l5)
  then show ?thesis using l5(2) n5 by blast
qed

text \<open>Claiming a free lease, and ending a pass that still has it.\<close>

lemma claim_free:
  assumes "\<forall>m e. get_maintenance db = Some m \<longrightarrow> mt_lease_expires_at m = Some e \<longrightarrow> e \<le> now"
    and "now \<in> range (pw_time W)"
  shows "\<exists>l db'. claim_retention_lease w k now db = (Inr (Some l), db') \<and> lease_kept W l k db' \<and> rt_queue db' = rt_queue db"
proof -
  obtain m where m: "get_maintenance (ensure_maintenance now db) = Some m" "\<forall>e. mt_lease_expires_at m = Some e \<longrightarrow> e \<le> now"
    using assms(1) by (cases "get_maintenance db") (auto simp: ensure_maintenance_def row_get_append row_get_Cons new_maintenance_def)
  have "rt_queue (upd_maintenance f (ensure_maintenance now db)) = rt_queue db" for f
    by (simp add: upd_maintenance_def ensure_maintenance_def split: option.split)
  moreover have "get_maintenance (upd_maintenance f (ensure_maintenance now db)) = Some (f m)"
    if "\<And>x. mt_key (f x) = mt_key x" for f
    using m(1) that by (simp add: upd_maintenance_def row_get_row_upd)
  moreover obtain n where "now = pw_time W n" using assms(2) by blast
  ultimately show ?thesis
    using m by (auto simp: claim_retention_lease_def Let_def lease_kept_def not_less split: option.split)
qed

lemma finish_kept:
  assumes "lease_kept Wp l k (snd s)" "within_lease Wp k" "undisturbed W"
  shows "\<exists>s' m. finish_pass W l (pw_time Wp n) st s = (Inr (Some st), s') \<and> get_maintenance (snd s') = Some m
    \<and> mt_claimed_by m = None \<and> mt_lease_expires_at m = None \<and> mt_stats m = Some st \<and> rt_queue (snd s') = rt_queue (snd s)"
proof -
  obtain m where m: "get_maintenance (snd s) = Some m" using assms(1) by (auto simp: lease_kept_def)
  have own: "lease_owned (snd s) (ls_claimed_by l) (ls_claimed_at l) (pw_time Wp n)"
    by (rule lease_kept_owned [OF assms(1, 2)])
  show ?thesis
    using m own assms(3) row_get_SomeD(2) [OF m]
    by (simp add: finish_pass_def complete_retention_pass_def next_db_def undisturbed_def upd_maintenance_def
        row_get_row_upd release_maintenance_def)
qed

section \<open>A pass without its lease\<close>

definition never_owned :: "pass_world \<Rightarrow> retention_lease \<Rightarrow> retention_db \<Rightarrow> bool" where
  "never_owned W l db \<longleftrightarrow> (\<forall>n t. \<not> lease_owned (pw_meanwhile W n db) (ls_claimed_by l) (ls_claimed_at l) t)"

lemma pass_without_lease:
  assumes "never_owned W l db" "0 < nat b" "db = (next_db W s)\<lparr>rt_relay := snd (cleanup_trace now 64 (rt_relay (next_db W s)))\<rparr>"
    and "run_retention_pass W policy now b (Some l) (Some k) s = (r, s')"
  shows "(\<exists>e. r = Inl e \<and> (e = NoMaintenance \<or> e = LeaseLost (u ''retention lease lost during pass'')))
    \<and> snd s' = pw_meanwhile W (Suc (fst s)) db"
proof -
  obtain n rel where c: "cleanup_trace now 64 (rt_relay (next_db W s)) = (n, rel)" using prod.exhaust by blast
  have held: "Some (l, k) = (case (Some l, Some k) of (Some l, Some k) \<Rightarrow> Some (l, k) | _ \<Rightarrow> None)" by simp
  let ?s1 = "(Suc (fst s), (next_db W s)\<lparr>rt_relay := rel\<rparr>)"
  have no: "\<not> lease_owned (next_db W ?s1) (ls_claimed_by l) (ls_claimed_at l) t" for t
    using assms(1, 3) c by (simp add: never_owned_def next_db_def)
  obtain e where e: "renew_or_raise W (Some (l, k)) ?s1 = (Some e, (Suc (Suc (fst s)), next_db W ?s1))"
    "e = NoMaintenance \<or> e = LeaseLost (u ''retention lease lost during pass'')"
    by (cases "get_maintenance (next_db W ?s1) = None") (simp_all add: renew_or_raise_def renew_retention_lease_def no)
  then have "memory_loop W (Some (l, k)) (superseded_chunk now) (nat b) st ?s1 = (Inl e, (Suc (Suc (fst s)), next_db W ?s1))" for st
    using assms(2) by (subst memory_loop.simps) simp
  moreover have "db = snd ?s1" using assms(3) c by simp
  ultimately show ?thesis
    using assms(2, 4) e(2) unfolding run_pass_stages [OF held c] Let_def by (auto simp: next_db_def)
qed

section \<open>Purging\<close>

lemma purge_suppressed_leaves:
  "keyed db \<Longrightarrow>
    q_memories (rt_queue (snd (purge_suppressed st db))) = filter (\<lambda>m. \<not> suppressed_memory m) (q_memories (rt_queue db))"
proof (induction st db rule: purge_suppressed.induct)
  case (1 st db)
  let ?ms = "q_memories (rt_queue db)"
  show ?case
  proof (cases "purge_batch db = []")
    case True
    then have "length (sort_key (\<lambda>m. (mo_created_at m, mo_id m)) (filter suppressed_memory ?ms)) = 0"
      by (simp add: purge_batch_def)
    then have "filter suppressed_memory ?ms = []" by simp
    then show ?thesis using True by (subst purge_suppressed.simps) (simp add: filter_empty_conv filter_id_conv)
  next
    case False
    obtain s1 db1 where d: "delete_each delete_memory (purge_batch db) no_stats db = (s1, db1)" using prod.exhaust by blast
    have rows: "q_memories (rt_queue db1) = filter (\<lambda>m. mo_id m \<notin> set (purge_batch db)) ?ms"
      using memories_delete_each [of "purge_batch db" no_stats db] d by simp
    have "suppressed_memory m" if m: "m \<in> set ?ms" "mo_id m \<in> set (purge_batch db)" for m
    proof -
      obtain x where "x \<in> set ?ms" "suppressed_memory x" "mo_id x = mo_id m"
        using m(2) by (auto simp: purge_batch_def dest!: in_set_takeD)
      then show ?thesis using m(1) "1.prems" by (auto simp: distinct_map inj_on_def)
    qed
    then have "filter (\<lambda>m. \<not> suppressed_memory m) (q_memories (rt_queue db1)) = filter (\<lambda>m. \<not> suppressed_memory m) ?ms"
      unfolding rows filter_filter by (intro filter_cong) auto
    moreover have "keyed db1" using "1.prems" rows by (simp add: distinct_map_filter)
    ultimately show ?thesis
      using "1.IH" [OF False d [symmetric]] False by (subst purge_suppressed.simps) (simp add: d)
  qed
qed

section \<open>What the cleanup of the trace spares\<close>

lemma trace_victims_safe: "t \<in> set (trace_victims now n r) \<Longrightarrow> t \<in> set (db_traces r) \<and> \<not> unsafe_attempt r (tr_attempt_id t)"
  by (auto simp: trace_victims_def dest!: in_set_takeD)

lemma cleanup_trace_spares:
  assumes "db_inv r" "get_delivery r k = Some d"
    and "\<not> over_state (d_state d) \<or> list_ex (\<lambda>x. r_delivery_id x = k) (db_reservations r)"
  shows "get_delivery (snd (cleanup_trace now n r)) k = Some d"
    "filter (\<lambda>t. tr_delivery_id t = k) (db_traces (snd (cleanup_trace now n r))) = filter (\<lambda>t. tr_delivery_id t = k) (db_traces r)"
proof -
  let ?victims = "set (trace_victims now n r)"
  have unsafe: "unsafe_row r t" if "tr_delivery_id t = k" for t
    using that assms(2, 3) by (auto simp: unsafe_row_def)
  then have spared: "t \<notin> ?victims" if "tr_delivery_id t = k" "t \<in> set (db_traces r)" for t
    using that trace_victims_safe [of t now n r] by (auto simp: unsafe_attempt_def list_ex_iff)
  have inj: "inj_on tr_id (set (db_traces r))" using assms(1) by (simp add: db_inv_def traces_ok_def distinct_map)
  have sub: "?victims \<subseteq> set (db_traces r)" using trace_victims_safe by blast
  have ids: "tr_id t \<notin> tr_id ` ?victims" if "tr_delivery_id t = k" "t \<in> set (db_traces r)" for t
    using spared [OF that] inj_on_image_mem_iff [OF inj that(2) sub] by blast
  show "filter (\<lambda>t. tr_delivery_id t = k) (db_traces (snd (cleanup_trace now n r))) = filter (\<lambda>t. tr_delivery_id t = k) (db_traces r)"
    using ids by (auto simp: cleanup_trace_def Let_def intro!: filter_cong)
  have "d_id d = k" using assms(2) by (rule row_get_SomeD(2))
  have "k \<notin> tr_delivery_id ` set (filter (\<lambda>t. tr_attempt_id t \<in> tr_attempt_id ` ?victims) (db_traces r))"
  proof
    assume "k \<in> tr_delivery_id ` set (filter (\<lambda>t. tr_attempt_id t \<in> tr_attempt_id ` ?victims) (db_traces r))"
    then obtain t v where "t \<in> set (db_traces r)" "tr_delivery_id t = k" "v \<in> ?victims" "tr_attempt_id t = tr_attempt_id v" by auto
    then show False using unsafe [of t] trace_victims_safe [of v now n r] by (auto simp: unsafe_attempt_def list_ex_iff)
  qed
  then show "get_delivery (snd (cleanup_trace now n r)) k = Some d"
    using assms(2) \<open>d_id d = k\<close> by (simp add: cleanup_trace_def Let_def row_get_rows_where)
qed

section \<open>Stripping\<close>

text \<open>Only the \<open>limit\<close> oldest items are looked at, whether they still carry debug metadata or not.\<close>

lemma debug_chunk_starves:
  "list_all (\<lambda>i. \<not> has_debug i) (debug_candidates now limit (rt_queue db)) \<Longrightarrow> debug_chunk now limit db = (no_stats, db)"
  by (simp add: debug_chunk_def list_all_iff filter_empty_conv no_stats_def Let_def)

lemma sorted_filter_prefix:
  fixes f :: "'a \<Rightarrow> 'b :: linorder"
  shows "sorted (map f xs) \<Longrightarrow> filter (\<lambda>x. f x \<le> c) xs = takeWhile (\<lambda>x. f x \<le> c) xs"
proof (induction xs)
  case (Cons x xs)
  show ?case
  proof (cases "f x \<le> c")
    case False
    then have "\<forall>y\<in>set xs. \<not> f y \<le> c" using Cons.prems by auto
    then show ?thesis using False by (simp add: filter_empty_conv)
  qed (use Cons in simp)
qed simp

lemma debug_candidates_later:
  assumes "limit \<le> length (filter (\<lambda>i. i_created_at i \<le> now - debug_ttl) (q_items q))" "now \<le> later"
  shows "debug_candidates later limit q = debug_candidates now limit q"
proof -
  let ?old = "\<lambda>t i. i_created_at i \<le> t - debug_ttl"
  let ?all = "by_creation (filter (?old later) (q_items q))"
  have "sorted (map item_rank ?all)" by (simp add: by_creation_def)
  then have "sorted (map i_created_at ?all)"
    by (auto simp: sorted_wrt_map item_rank_def less_eq_prod_def elim!: sorted_wrt_mono_rel [rotated])
  then have prefix: "filter (?old now) ?all = takeWhile (?old now) ?all" by (rule sorted_filter_prefix)
  have now: "by_creation (filter (?old now) (q_items q)) = filter (?old now) ?all"
    unfolding by_creation_def filter_sort filter_filter
    by (rule arg_cong [where f = "sort_key item_rank"], rule filter_cong) (use assms(2) in auto)
  then have "length (takeWhile (?old now) ?all) = length (filter (?old now) (q_items q))"
    unfolding prefix [symmetric] by (metis by_creation_def length_sort)
  then have "take limit (takeWhile (?old now) ?all) = take limit ?all"
    using assms(1) by (metis min.absorb1 take_take takeWhile_eq_take)
  then show ?thesis unfolding debug_candidates_def now prefix by simp
qed

section \<open>Older databases\<close>

text \<open>After the backfill every object has a freshness; those that had one keep it.\<close>

lemma refresh_freshness_row:
  "get_memory (refresh_freshness k q) j =
     (if j = k then map_option (\<lambda>m. m\<lparr>mo_freshness_at := Some (derive_freshness q m)\<rparr>) (get_memory q k) else get_memory q j)"
  by (auto simp: refresh_freshness_def upd_memory_def row_get_row_upd split: option.split)

lemma refresh_all:
  "get_memory (fold (\<lambda>m. refresh_freshness (mo_id m)) ms q) j = Some x \<Longrightarrow>
     (\<exists>y. get_memory q j = Some y \<and> x = y\<lparr>mo_freshness_at := mo_freshness_at x\<rparr>)
     \<and> (mo_freshness_at x = None \<longrightarrow> j \<notin> mo_id ` set ms) \<and> (j \<notin> mo_id ` set ms \<longrightarrow> get_memory q j = Some x)"
proof (induction ms arbitrary: q)
  case (Cons m ms)
  show ?case
    using Cons.IH [of "refresh_freshness (mo_id m) q"] Cons.prems
    by (auto simp: refresh_freshness_row split: if_splits)
qed simp

lemma backfill_complete:
  assumes "keyed db" "get_memory (rt_queue (backfill_freshness db)) k = Some x"
  shows "mo_freshness_at x \<noteq> None"
    "get_memory (rt_queue db) k = Some y \<Longrightarrow> mo_freshness_at y \<noteq> None \<Longrightarrow> x = y"
proof -
  let ?old = "filter (\<lambda>m. mo_freshness_at m = None) (q_memories (rt_queue db))"
  have f: "get_memory (fold (\<lambda>m. refresh_freshness (mo_id m)) ?old (rt_queue db)) k = Some x"
    using assms(2) by (simp add: backfill_freshness_def)
  obtain z where z: "get_memory (rt_queue db) k = Some z" using refresh_all [OF f] by blast
  have missing: "k \<in> mo_id ` set ?old \<longleftrightarrow> mo_freshness_at z = None"
    using z distinct_get_memory [OF assms(1)] by (auto dest: row_get_SomeD)
  then show "mo_freshness_at x \<noteq> None" using refresh_all [OF f] z by auto
  show "get_memory (rt_queue db) k = Some y \<Longrightarrow> mo_freshness_at y \<noteq> None \<Longrightarrow> x = y"
    using refresh_all [OF f] z missing by auto
qed

end
