(* ===== verification/Retention_Example.thy ===== *)
theory Retention_Example
  imports Retention_Results Queue_Example Relay_Example
begin

text \<open>
  A small aged store for the witnesses of the retention guarantees: a decision with its item, an item
  nothing protects, a superseded and a suppressed object, all three months old.
\<close>

definition ex_policy :: retention_policy where
  "ex_policy = \<lparr>po_durable = {u ''decision''}, po_working = {u ''fact''}, po_orphan = {}\<rparr>"

definition ex_object :: "nat \<Rightarrow> pystr \<Rightarrow> pystr \<Rightarrow> memory_object" where
  "ex_object n kind lifecycle = \<lparr>mo_id = [n], mo_type = kind, mo_schema_id = [], mo_schema_version = [], mo_payload = [],
     mo_envelope = None, mo_lifecycle = lifecycle, mo_visibility = None, mo_container_ref = None, mo_actor_ref = None,
     mo_freshness_at = Some (int n), mo_subject = None, mo_origin = None, mo_origin_session_id = None,
     mo_origin_agent_id = None, mo_correction_reason = None, mo_superseded_by_id = None, mo_is_soft_deleted = 0,
     mo_soft_deleted_at = None, mo_soft_delete_reason = None, mo_created_at = int n\<rparr>"

definition ex_done :: "nat \<Rightarrow> source_item" where
  "ex_done n = (ex_item n)\<lparr>i_status := StCompleted\<rparr>"

definition ex_link :: "nat \<Rightarrow> nat \<Rightarrow> relation" where
  "ex_link m i = \<lparr>rl_id = [m, i], rl_from_kind = u ''memory_object'', rl_from_id = [m], rl_type = u ''supported_by'',
     rl_to_kind = u ''source_item'', rl_to_id = [i]\<rparr>"

definition ex_aged :: retention_db where
  "ex_aged = \<lparr>rt_queue = empty_queue\<lparr>q_items := [ex_done 1, ex_done 2],
       q_memories := [ex_object 11 (u ''decision'') (u ''active''), ex_object 12 (u ''decision'') (u ''superseded''),
                      ex_object 13 (u ''note'') (u ''suppressed'')],
       q_relations := [ex_link 11 1, ex_link 12 2]\<rparr>,
     rt_flags = [], rt_maintenance = [], rt_relay = empty_db\<rparr>"

definition ex_settings :: retention_settings where
  "ex_settings = \<lparr>se_enabled = True, se_lease_seconds = 60, se_batch_size = 10, se_policy = ex_policy\<rparr>"

definition ex_quiet :: pass_world where
  "ex_quiet = relay_world_only (\<lambda>s. s) (\<lambda>_. days 100) (\<lambda>_ r. r)"

definition ex_pass :: "(retention_error + retention_stats option) \<times> pass_state" where
  "ex_pass = service_retention_pass ex_quiet ex_settings [7] None None None (0, ex_aged)"

lemma ex_aged_ok: "tables_ok ex_aged" "refs_ok ex_aged" "anchored ex_policy [11] [1] ex_aged"
proof -
  have "queue_inv (rt_queue ex_aged)" by code_simp
  then show "tables_ok ex_aged" by (simp add: tables_ok_def ex_aged_def db_inv_empty)
  show "refs_ok ex_aged"
    by (simp add: refs_ok_def ex_aged_def ex_link_def ex_object_def ex_done_def ex_item_def known_def empty_queue_def
        row_get_Cons u_def)
  show "anchored ex_policy [11] [1] ex_aged"
    by (simp add: anchored_def ex_aged_def ex_link_def ex_object_def ex_done_def ex_item_def ex_policy_def
        supports_item_def empty_queue_def row_get_Cons u_def)
qed

lemma ex_quiet_keeps: "refs_ok db \<longrightarrow> refs_ok (pw_meanwhile ex_quiet n db)"
  "anchored policy mk ik db \<longrightarrow> anchored policy mk ik (pw_meanwhile ex_quiet n db)"
  by (simp_all add: ex_quiet_def relay_world_only_def refs_ok_def anchored_def)

end
