(* ===== verification/Retention_Guarantees.thy ===== *)
theory Retention_Guarantees
  imports Retention_Example
begin

text \<open>
  What retention promises: whatever a pass deletes and however it ends, the tables keep their invariants,
  no reference loses its end, protected rows stay, the batch bounds it, and an undisturbed pass completes
  and leaves nothing overdue; and where it falls short.
\<close>

section \<open>Safety\<close>

text \<open>C31: a durable memory object outlives every pass together with the item that supports it, whatever
  the pass deletes, whether it ends or fails, and whatever other connections do in between as long as
  they leave the two and their relation alone.\<close>

theorem durable_memory_outlives_pass:
  assumes "anchored (se_policy settings) mk ik (snd s)"
    and "\<forall>n db. anchored (se_policy settings) mk ik db \<longrightarrow> anchored (se_policy settings) mk ik (pw_meanwhile W n db)"
    and "service_retention_pass W settings worker_id given lease_seconds batch s = (r, s')"
  shows "anchored (se_policy settings) mk ik (snd s')"
  using retention_kept.kept_service [OF anchored_kept [OF assms(2)] assms(1) assms(3) refl refl] .

theorem durable_memory_outlives_pass_witness:
  "\<exists>r s'. ex_pass = (r, s') \<and> anchored ex_policy [11] [1] (snd s')"
proof -
  obtain r s' where p: "ex_pass = (r, s')" using prod.exhaust by blast
  have "se_policy ex_settings = ex_policy" by (simp add: ex_settings_def)
  then have "anchored ex_policy [11] [1] (snd s')"
    using durable_memory_outlives_pass [of ex_settings "[11]" "[1]" "(0, ex_aged)" ex_quiet] p ex_aged_ok(3) ex_quiet_keeps
    unfolding ex_pass_def by simp
  then show ?thesis using p by blast
qed

text \<open>C32: a pass leaves no dangling reference: relations, index entries, work references and flags only
  name items and memory objects that exist, at every end of a pass.\<close>

theorem pass_leaves_no_dangling_reference:
  assumes "refs_ok (snd s)" and "\<forall>n db. refs_ok db \<longrightarrow> refs_ok (pw_meanwhile W n db)"
    and "service_retention_pass W settings worker_id given lease_seconds batch s = (r, s')"
  shows "refs_ok (snd s')"
  using retention_kept.kept_service [OF refs_kept [OF assms(2)] assms(1) assms(3) refl refl] .

theorem pass_leaves_no_dangling_reference_witness: "\<exists>r s'. ex_pass = (r, s') \<and> refs_ok (snd s')"
proof -
  obtain r s' where p: "ex_pass = (r, s')" using prod.exhaust by blast
  then have "refs_ok (snd s')"
    using pass_leaves_no_dangling_reference [of "(0, ex_aged)" ex_quiet] ex_aged_ok(2) ex_quiet_keeps(1)
    unfolding ex_pass_def by simp
  then show ?thesis using p by blast
qed

text \<open>The tables of the queue and of Relay keep their invariants through a pass during which other
  connections run any transactions of the queue and of Relay; in particular the full text index again
  mirrors the lexical entries, although the pass deletes its rows ahead of them.\<close>

theorem pass_keeps_tables:
  assumes "tables_ok (snd s)"
    and "service_retention_pass (busy_world E R lower clock others) settings worker_id given lease_seconds batch s = (r, s')"
  shows "tables_ok (snd s')"
  using tables.kept_service [OF assms refl refl] .

text \<open>The cleanup of the activation trace touches no delivery that is still open or reserved: its row
  and its trace rows stay as they are.\<close>

theorem trace_cleanup_spares_open_deliveries:
  assumes "db_inv r" and "get_delivery r k = Some d"
    and "\<not> over_state (d_state d) \<or> list_ex (\<lambda>x. r_delivery_id x = k) (db_reservations r)"
    and "cleanup_trace now limit r = (n, r')"
  shows "get_delivery r' k = Some d
    \<and> filter (\<lambda>t. tr_delivery_id t = k) (db_traces r') = filter (\<lambda>t. tr_delivery_id t = k) (db_traces r)"
  using cleanup_trace_spares [OF assms(1-3), of now limit] assms(4) by simp

section \<open>What a pass achieves\<close>

text \<open>A pass deletes within its batch: the items it deletes and those it strips are together no more
  than the batch, and the trace rows no more than sixty-four.\<close>

theorem pass_within_batch:
  assumes "run_retention_pass W policy now batch lease lease_seconds s = (Inr st, s')"
  shows "st_source_items st + st_stripped st \<le> nat batch \<and> st_trace_events st \<le> 64"
  using pass_counts [OF assms] .

text \<open>C33: an undisturbed pass of the service completes: when retention is enabled, no lease is held, the
  clock does not run past a lease while the pass runs and fewer objects are overdue than the batch
  allows, it returns its statistics, stores them, releases its lease and leaves no superseded or
  suppressed object whose time is over.\<close>

theorem undisturbed_pass_completes:
  assumes "undisturbed W" and "se_enabled settings" and "keyed (snd s)"
    and "now = (case given of None \<Rightarrow> pw_time W (fst s) | Some t \<Rightarrow> t)"
    and "\<forall>m e. get_maintenance (snd s) = Some m \<longrightarrow> mt_lease_expires_at m = Some e \<longrightarrow> e \<le> now"
    and "given = None \<longrightarrow> within_lease W (given_or lease_seconds (se_lease_seconds settings))"
    and "overdue_count now (snd s) < nat (given_or batch (se_batch_size settings))"
  shows "\<exists>st s' m. service_retention_pass W settings worker_id given lease_seconds batch s = (Inr (Some st), s')
    \<and> get_maintenance (snd s') = Some m \<and> mt_claimed_by m = None \<and> mt_lease_expires_at m = None
    \<and> mt_stats m = Some st \<and> overdue_count now (snd s') = 0"
proof -
  define k where "k = given_or lease_seconds (se_lease_seconds settings)"
  define Wp where "Wp = (if given = None then W else W\<lparr>pw_time := (\<lambda>_. now)\<rparr>)"
  have Wp: "undisturbed Wp" "within_lease Wp k" "now \<in> range (pw_time Wp)"
    using assms(1, 4, 6)
    by (auto simp: Wp_def k_def undisturbed_def within_lease_def retention_end_def seconds_def split: option.splits)
  let ?b = "given_or batch (se_batch_size settings)"
  have quiet: "next_db W t = snd t" for t using assms(1) by (simp add: next_db_def undisturbed_def)
  obtain l db where claim: "claim_retention_lease worker_id k now (snd s) = (Inr (Some l), db)"
    "lease_kept Wp l k db" "rt_queue db = rt_queue (snd s)"
    using claim_free [OF assms(5) Wp(3)] by blast
  have "keyed (snd (Suc (fst s), db))" "overdue_count now (snd (Suc (fst s), db)) < nat ?b"
    using assms(3, 7) claim(3) by (simp_all add: overdue_count_def)
  then obtain st s1 where pass: "run_retention_pass Wp (se_policy settings) now ?b (Some l) (Some k) (Suc (fst s), db) = (Inr st, s1)"
    "lease_kept Wp l k (snd s1)" "nothing_overdue now (snd s1)"
    using pass_undisturbed [OF Wp(1, 2)] claim(2) by (metis snd_conv)
  obtain s' m where finish: "finish_pass W l (pw_time Wp (fst s1)) st s1 = (Inr (Some st), s')"
    "get_maintenance (snd s') = Some m" "mt_claimed_by m = None" "mt_lease_expires_at m = None" "mt_stats m = Some st"
    "rt_queue (snd s') = rt_queue (snd s1)"
    using finish_kept [OF pass(2) Wp(2) assms(1)] by blast
  have "service_retention_pass W settings worker_id given lease_seconds batch s = (Inr (Some st), s')"
    unfolding service_retention_pass_def Let_def assms(4) [symmetric] k_def [symmetric] Wp_def [symmetric] quiet
    by (simp add: assms(2) claim(1) pass(1) finish(1))
  moreover have "overdue_count now (snd s') = 0"
    using pass(3) finish(6) by (simp add: nothing_overdue_def overdue_count_def)
  ultimately show ?thesis using finish(2-5) by blast
qed

theorem undisturbed_pass_completes_witness:
  "\<exists>st s'. ex_pass = (Inr (Some st), s') \<and> overdue_count (days 100) (snd s') = 0"
proof -
  have "overdue_count (days 100) ex_aged = 2" by code_simp
  then have "overdue_count (days 100) (snd (0 :: nat, ex_aged)) < nat (given_or None (se_batch_size ex_settings))"
    by (simp add: given_or_def ex_settings_def)
  moreover have "keyed (snd (0 :: nat, ex_aged))" using ex_aged_ok(1) by (simp add: tables_ok_def queue_inv_def)
  moreover have "undisturbed ex_quiet" "within_lease ex_quiet n" for n
    by (simp_all add: ex_quiet_def relay_world_only_def undisturbed_def within_lease_def retention_end_def seconds_def)
  moreover have "se_enabled ex_settings" "pw_time ex_quiet 0 = days 100" "rt_maintenance ex_aged = []"
    by (simp_all add: ex_settings_def ex_quiet_def relay_world_only_def ex_aged_def)
  ultimately show ?thesis
    using undisturbed_pass_completes [of ex_quiet ex_settings "(0, ex_aged)" "days 100" None None None "[7]"]
    unfolding ex_pass_def by auto
qed

text \<open>Purging suppressed memory ends and leaves exactly the objects that are not suppressed, in their
  order, however many batches it takes.\<close>

theorem purge_leaves_the_rest:
  assumes "keyed db"
  shows "q_memories (rt_queue (snd (purge_suppressed st db))) = filter (\<lambda>m. \<not> suppressed_memory m) (q_memories (rt_queue db))"
  using purge_suppressed_leaves [OF assms] .

section \<open>Where it falls short\<close>

text \<open>C34: stripping starves: when the oldest items past the age limit, as many as a chunk looks at, carry
  no debug metadata any more, no later chunk of the same size strips anything, whatever the younger
  items still carry.\<close>

theorem stripping_starves:
  assumes "limit \<le> length (filter (\<lambda>i. i_created_at i \<le> now - debug_ttl) (q_items (rt_queue db)))"
    and "list_all (\<lambda>i. \<not> has_debug i) (debug_candidates now limit (rt_queue db))" and "now \<le> later"
  shows "debug_chunk later limit db = (no_stats, db)"
  using debug_chunk_starves [of later limit db] assms(2) debug_candidates_later [OF assms(1, 3)] by simp

theorem stripping_starves_witness:
  "debug_chunk (days 200) 1 (upd_queue (upd_source [2] (\<lambda>i. i\<lparr>i_metadata := Some [(u ''observability_debug'', JNull)]\<rparr>)) ex_aged)
     = (no_stats, upd_queue (upd_source [2] (\<lambda>i. i\<lparr>i_metadata := Some [(u ''observability_debug'', JNull)]\<rparr>)) ex_aged)"
  by (rule stripping_starves [where now = "days 100"]) code_simp+

end
