(* ===== verification/Spec2Isabelle.thy ===== *)
theory Spec2Isabelle
  imports Relay_Guarantees Relay_Fence_Guarantees Codex_Guarantees Relay_Service_Guarantees Queue_Guarantees
    Search_Guarantees Retrieval_Guarantees Curation_Guarantees
    Memory_Guarantees Retention_Guarantees
begin

text \<open>
  \<^bold>\<open>Pallium\<close> is a local service that coding agents share. Its core is \<^emph>\<open>Relay\<close>: sessions of different
  agent hosts register under a scope, send each other messages that are stored durably, claim them at
  the start of a turn under a lease, and acknowledge or answer them; around that, fences keep a
  native host from being woken twice for the same delivery. Beside it Pallium keeps the history of the
  sessions and derives memory from it: source items enter a processing queue, workers claim their
  package tasks under leases, and commit what the packages produced. Agents search both, and write,
  correct and forget memory by hand. This library models Relay from its SQLite transactions up to the
  checked service boundary, the queue with the persistence of derived memory, the lexical search with
  its visibility rules, the queries over it, memory by hand up to the calls of the service, and the retention passes that
  prune all of it.

  \<^bold>\<open>The program's parts and the theories that model them.\<close>

  Shared ground:
  \<^item> \<open>Prelude\<close>: results, instants, Python strings as code points, tables of rows under a primary key
    (the SQLAlchemy session operations), and the locales \<open>guarded_machine\<close> (an invariant every
    operation keeps), \<open>ordered_machine\<close> (and an order every operation moves along) and \<open>one_shot\<close> (a
    token that is issued once and spent once).
  \<^item> \<open>Python_Text\<close>: the string methods and patterns the code uses, Unicode categories, decimal
    rendering, and the render checks of \<open>src/storage/sqlite_relay.py\<close>.

  The store, \<open>src/storage/sqlite_schema.py\<close> and \<open>src/storage/sqlite_relay.py\<close>:
  \<^item> \<open>Relay_Schema\<close>: one record per Relay row class, the database as the record of the tables, the
    exceptions of \<open>src/core/relay.py\<close>;
  \<^item> \<open>Relay_Views\<close>: the row projections and the text of a delivery as it is shown;
  \<^item> \<open>Relay_Sessions\<close>: recipients, naming, closing, listing; \<open>Relay_Work_Refs\<close>: the work references of
    a session; \<open>Relay_Messages\<close>: send, reply, status; \<open>Relay_Acks\<close>: the two acknowledgements;
    \<open>Relay_Pending\<close>: the queries the wake machinery polls; \<open>Relay_OpenCode\<close>: the OpenCode fence;
    \<open>Relay_Turn\<close>: registration, scope transition, the budgeted selection and the claims of a turn;
    \<open>Relay_Codex\<close>: trials and reservation states; \<open>Relay_Wake\<close>: the durable wake reservations;
    \<open>Relay_Trace\<close>: the activation trace and what its reader is told.

  The boundary, \<open>src/core/\<close>:
  \<^item> \<open>Container_Ref\<close> (\<open>container_ref.py\<close>) and \<open>Work_Ref\<close> (\<open>work_ref.py\<close>): the canonical texts;
  \<^item> \<open>Relay_Validation\<close>: the validators and the recipient parser of \<open>relay.py\<close>;
  \<^item> \<open>Relay_Service\<close>: every operation of \<open>RelayService\<close>, its checks in the order Python evaluates
    them and then the transaction of the store; \<open>Relay_Service_Machine\<close>: the service as a machine;
  \<^item> \<open>Codex_Registry\<close>: \<open>CodexWakeRegistry\<close> of \<open>codex_wake.py\<close>, which mirrors the reservations of the
    store or keeps its own.

  The queue and derived memory, \<open>src/storage/sqlite_queue.py\<close> with parts of \<open>sqlite.py\<close>,
  \<open>sqlite_retention.py\<close> and \<open>sqlite_codec.py\<close>:
  \<^item> \<open>Python_Json\<close>: JSON values and objects; \<open>Queue_Schema\<close>: the tables of history and memory;
  \<^item> \<open>Memory_Store\<close>: persisting what a package produced; \<open>Memory_Supersession\<close>: which older objects it
    replaces, merging and moving what they carried, promotion, and the stage of a commit;
  \<^item> \<open>Lease_Table\<close>: claiming a row under a lease, the locale \<open>lease_table\<close> every queue interprets;
    \<open>Queue_Scopes\<close>: the leases of rebuilds; \<open>Queue_Packages\<close>: package tasks and the older queue of
    items; \<open>Queue_Intake\<close>: how items enter and how a thread is read.

  Retention, \<open>src/storage/sqlite_retention.py\<close> and \<open>src/core/retention.py\<close>:
  \<^item> \<open>Retention_Store\<close>: times to live, what protects an item, the cascades of a deletion;
    \<open>Retention_Pass\<close>: the lease of a pass, its transactions, the pass, and \<open>run_retention_pass\<close> of
    \<open>src/core/service.py\<close>. A pass is several transactions: before each, \<open>pw_meanwhile\<close> is what other
    connections commit and \<open>pw_time\<close> what the clock shows; both are arbitrary unless a fact says so.

  Search, \<open>src/storage/sqlite_search.py\<close>, \<open>src/core/visibility.py\<close>, \<open>filters.py\<close> and \<open>text.py\<close>:
  \<^item> \<open>Memory_Envelope\<close>: the envelope of a memory object as JSON (\<open>sqlite_codec.py\<close>); \<open>Text_Tokens\<close>: how a
    text becomes tokens; \<open>Memory_Visibility\<close>: who may read a row, the filters of a query and the views of
    the rows; \<open>Memory_Search\<close>: candidate rows, the loop over their pages, the verdict on each row.

  Queries, \<open>src/retrieval/\<close>:
  \<^item> \<open>Retrieval_Text\<close> (\<open>lexical.py\<close>, \<open>common.py\<close>): the tokens of a query, excerpts, fingerprints;
    \<open>Retrieval_Query\<close> (\<open>lexical.py\<close>): \<open>LexicalRetrievalProvider.query\<close> as a sequence of reads in a
    \<open>retrieval_world\<close>, between which other connections commit; \<open>Retrieval_Fusion\<close> (\<open>composite.py\<close>): the
    fusion with the results of a vector provider. Of \<open>QueryResultItem\<close> the fields are left out that
    retrieval leaves at their defaults.

  Memory by hand, \<open>src/storage/sqlite.py\<close> and \<open>src/core/service.py\<close>:
  \<^item> \<open>Curation_Store\<close>: creating, superseding, correcting and deleting memory objects, forgetting source
    items, flags and lists; \<open>Curation_Index\<close>: relations and index entries one at a time;
    \<open>Curation_Service\<close>: the calls, each a sequence of transactions in a \<open>curation_world\<close> in which, as for a
    retention pass, other connections commit in between. The calls are written with \<open>give\<close>, \<open>fail\<close>,
    \<open>and_then\<close>, \<open>check\<close> and \<open>tx\<close>: return, raise, go on, go on unless it raises, one transaction.

  \<^bold>\<open>What the lemmas show.\<close>
  \<^item> \<open>Relay_Invariant\<close> states \<open>db_inv\<close>, the invariant of all tables, and \<open>evolves\<close>, what may change from
    one database to a later one; \<open>Relay_Preservation\<close>, \<open>Relay_Fences\<close> and \<open>Relay_Machine\<close> show that
    every transaction keeps the one and moves along the other, and interpret \<open>ordered_machine\<close>.
  \<^item> \<open>Relay_Turn_Facts\<close>, \<open>Relay_Claims\<close>, \<open>Relay_Claimed\<close>, \<open>Relay_Contracts\<close>: what a turn selects and
    claims, and what the other transactions return; \<open>Relay_Example\<close>: a small history the witnesses
    are evaluated on.
  \<^item> \<open>Relay_Guarantees\<close> and \<open>Relay_Fence_Guarantees\<close> hold the properties of the store;
  \<^item> \<open>Relay_Frames\<close>, \<open>Codex_Fence\<close>, \<open>Codex_Registry_Facts\<close>: which transactions leave the fences alone,
    and the interpretations of \<open>one_shot\<close> on the store and on a registry over it;
    \<open>Codex_Simulation\<close>: the store's transitions seen as those of an ephemeral registry;
    \<open>Codex_Guarantees\<close>: the properties.
  \<^item> \<open>Service_Sanity\<close>: the checks of the service as an invariant of the rows;
    \<open>Relay_Service_Guarantees\<close>: the properties of the boundary.

  \<^item> \<open>Queue_Machine\<close> and \<open>Queue_Steps\<close> state the invariant \<open>queue_inv\<close> of the queue's tables and the order
    \<open>queue_grows\<close>, show that every transaction keeps and follows them, and interpret \<open>ordered_machine\<close>;
    \<open>Queue_Tokens\<close> interprets \<open>lease_table\<close> for tasks and items and \<open>one_shot\<close> for the claims of tasks;
    \<open>Queue_Facts\<close>, \<open>Memory_Facts\<close>, \<open>Memory_Evidence\<close>: the order of claims, requests during a rebuild,
    the way of a superseded object, its evidence and histories, promotions; \<open>Queue_Example\<close>: a small
    history; \<open>Queue_Guarantees\<close> and \<open>Memory_Guarantees\<close>: the properties.
  \<^item> \<open>Retention_Frame\<close>: the locale \<open>retention_kept\<close>, by which a property that other connections keep and
    each kind of write keeps under the condition the code checks for it holds at every end of a pass;
    \<open>Retention_Facts\<close> and \<open>Retention_References\<close> interpret it for the invariants of the queue and of Relay
    (with any of their transactions run in between), for references and for what protection anchors;
    \<open>Retention_Results\<close>: batches, leases, what an undisturbed pass achieves; \<open>Retention_Example\<close>: an aged
    store; \<open>Retention_Guarantees\<close>: the properties.
  \<^item> \<open>Search_Facts\<close>: the loop over pages as a filter of the candidate rows, and what a row has passed that
    becomes a hit; \<open>Search_Guarantees\<close>: the properties of search, of the report of missing attribution and
    of envelopes.
  \<^item> \<open>Retrieval_Guarantees\<close>: what a query has read of what it returns, ranks after fusion, and the
    properties of queries, fusion and excerpts.
  \<^item> \<open>Curation_Machine\<close>: the transactions by hand and those of the queue as one \<open>ordered_machine\<close>, whose
    order says that no mark (forgotten, deleted, replaced) is taken back; \<open>Curation_Facts\<close>: calls as
    sequences of its steps; \<open>Curation_Guarantees\<close>: the properties.

  \<^bold>\<open>Conventions.\<close> A transaction takes the database and returns a result and a database; one that raises
  returns the database it was given (the rollback), except where the code commits an expiry and then
  raises. Instants are microseconds since the epoch in UTC; views carry instants where the code formats
  them, and \<open>fmt\<close> stands for the format where the length of a text matters. The second-valued
  floating point times of the wake retries are instants as well. Random identifiers are arguments.
  SHA-256 in hexadecimal, the redactor, \<open>str.lower\<close>, Unicode normalisation and case folding, the
  printable test and the length of a JSON text are parameters, and a fact that needs anything of them
  says so. The keys the schema declares are enforced by the inserts as \<open>IntegrityError\<close>. The one loop of Relay
  that is not structural, the bisection of a payload, has a termination proof, as have the loops of a
  retention pass, of a purge, of a search and of the words of a text; no fuel is used. In the
  queue a JSON column holds the parsed value; instants compare as numbers, where SQLite compares texts
  of one format; the order of a query without \<open>ORDER BY\<close> is that of the table; the similarity of
  \<open>difflib\<close>, the spelling \<open>str\<close> gives a JSON value that is not a text and the random identifiers are
  fields of \<open>memory_env\<close>; and Python's equality on the entries of merged histories is equality.

  \<^bold>\<open>Simplifications.\<close> SQLite's locking and busy retries are not modelled: a transaction is atomic. The
  registry's lock makes its methods atomic. \<open>wake_release\<close> compares all rows before it deletes any, and
  \<open>wake_health\<close> classifies every row where the code stops at the first incomplete one; the results
  agree. The fallback of \<open>session_view_by_endpoint\<close> that matches a session by its parts is left out. An
  OpenCode admission without its snapshot fails in the model with \<open>AttributeError\<close>, as the code would;
  the HTTP boundary prevents it. Retention visits the memory objects of a deleted item in the order of
  their relations, where the code iterates over a set; a busy database, on which the cleanup of the
  activation trace gives up and reports nothing, is not modelled, nor are events and metrics. The four
  operations of the service that only forward to the durable wake reservations are the store's own. A
  search sees one state of the tables, where the code opens a session per page and target; what FTS5
  matches and its bm25 score, a rational here, are the parameter \<open>se_fts\<close>. The reads of a query
  interleave with other connections, the search being one of them. Floating point in the fusion of
  rankings is exact arithmetic rounded by a parameter; the vector provider is another. A flag is dated when it is stored.
  The retention passes are not steps of \<open>Curation_Machine\<close>: they delete rows, and their marks with them.
  \<open>update_index_entry_text_view\<close> is not one either: on a lexical entry it would leave the full text row
  behind, and the code calls it for vector entries.

  \<^bold>\<open>Not modelled\<close>: the offline endpoint repair of \<open>sqlite_relay.py\<close>; the lock
  and the health report of the queue; feedback, shadow and audit rows, projections, the vector index,
  vector retrieval and workstreams; the Claude wake client and the activation callbacks; the derived memory with its
  language model calls and floating point ranking; the redactor's patterns; HTTP, MCP, command line,
  host integrations, evaluations and scripts. These are input and output around the parts above, calls
  of external models, or scores in floating point.
\<close>

end
